(* ===== verification/MES_Prelude.thy ===== *)
theory MES_Prelude
  imports Complex_Main
begin

text \<open>
  Shared vocabulary of the development: instants and durations, the result-and-state
  programs in which the repositories and handlers are written, and the generic facts on
  lists used by more than one component.

  \<^item> An instant (chrono's UTC date-time, a database timestamp column) is the number of
    microseconds since the epoch; microseconds are the resolution of the database columns,
    so every stored instant is exact.  A duration is a difference of two instants.
  \<^item> A fallible step of the program that may change state is a function from a state to
    an outcome and a new state.  An error keeps the state reached so far, exactly as an
    error after a committed statement does; \<open>transaction\<close> restores the state on error, as
    dropping an uncommitted transaction does.
\<close>

named_theorems prog_simps \<open>evaluation rules of the program combinators\<close>
named_theorems table_simps \<open>effect of table operations on lookups and keys\<close>

type_synonym timestamp = int
type_synonym duration = int

definition microsecond :: duration where
  "microsecond = 1"

definition seconds :: "int \<Rightarrow> duration" where
  "seconds n = n * 1000000"

definition days :: "int \<Rightarrow> duration" where
  "days n = n * 86400000000"

lemma seconds_simps [simp]:
  "seconds 0 = 0"
  "seconds (numeral k) = numeral k * 1000000"
  by (simp_all add: seconds_def)

section \<open>Programs with state and errors\<close>

type_synonym ('s, 'e, 'a) prog = "'s \<Rightarrow> ('e + 'a) \<times> 's"

definition ret :: "'a \<Rightarrow> ('s, 'e, 'a) prog" where
  "ret x = (\<lambda>s. (Inr x, s))"

definition throw :: "'e \<Rightarrow> ('s, 'e, 'a) prog" where
  "throw e = (\<lambda>s. (Inl e, s))"

text \<open>Sequencing is the question-mark operator: the first error ends the program.\<close>

definition andThen :: "('s, 'e, 'a) prog \<Rightarrow> ('a \<Rightarrow> ('s, 'e, 'b) prog) \<Rightarrow> ('s, 'e, 'b) prog" where
  "andThen m f = (\<lambda>s. case m s of (Inl e, s') \<Rightarrow> (Inl e, s') | (Inr x, s') \<Rightarrow> f x s')"

definition mapErr :: "('e \<Rightarrow> 'f) \<Rightarrow> ('s, 'e, 'a) prog \<Rightarrow> ('s, 'f, 'a) prog" where
  "mapErr g m = (\<lambda>s. case m s of (Inl e, s') \<Rightarrow> (Inl (g e), s') | (Inr x, s') \<Rightarrow> (Inr x, s'))"

definition transaction :: "('s, 'e, 'a) prog \<Rightarrow> ('s, 'e, 'a) prog" where
  "transaction m = (\<lambda>s. case m s of (Inl e, _) \<Rightarrow> (Inl e, s) | (Inr x, s') \<Rightarrow> (Inr x, s'))"

definition gets :: "('s \<Rightarrow> 'a) \<Rightarrow> ('s, 'e, 'a) prog" where
  "gets f = (\<lambda>s. (Inr (f s), s))"

definition modify :: "('s \<Rightarrow> 's) \<Rightarrow> ('s, 'e, unit) prog" where
  "modify f = (\<lambda>s. (Inr (), f s))"

text \<open>A fetched optional row whose absence is an error (\<open>ok_or\<close>).\<close>

definition okOr :: "'e \<Rightarrow> 'a option \<Rightarrow> ('s, 'e, 'a) prog" where
  "okOr e x = (case x of None \<Rightarrow> throw e | Some y \<Rightarrow> ret y)"

definition guard :: "bool \<Rightarrow> 'e \<Rightarrow> ('s, 'e, unit) prog" where
  "guard b e = (if b then ret () else throw e)"

fun mapProg :: "('a \<Rightarrow> ('s, 'e, 'b) prog) \<Rightarrow> 'a list \<Rightarrow> ('s, 'e, 'b list) prog" where
  "mapProg f [] = ret []"
| "mapProg f (x # xs) = andThen (f x) (\<lambda>y. andThen (mapProg f xs) (\<lambda>ys. ret (y # ys)))"

lemma ret_eval [prog_simps]: "ret x s = (Inr x, s)"
  by (simp add: ret_def)

lemma throw_eval [prog_simps]: "throw e s = (Inl e, s)"
  by (simp add: throw_def)

lemma gets_eval [prog_simps]: "gets f s = (Inr (f s), s)"
  by (simp add: gets_def)

lemma modify_eval [prog_simps]: "modify f s = (Inr (), f s)"
  by (simp add: modify_def)

lemma andThen_eval [prog_simps]:
  "andThen m f s = (case m s of (Inl e, s') \<Rightarrow> (Inl e, s') | (Inr x, s') \<Rightarrow> f x s')"
  by (simp add: andThen_def)

lemma mapErr_eval [prog_simps]:
  "mapErr g m s = (case m s of (Inl e, s') \<Rightarrow> (Inl (g e), s') | (Inr x, s') \<Rightarrow> (Inr x, s'))"
  by (simp add: mapErr_def)

lemma transaction_eval [prog_simps]:
  "transaction m s = (case m s of (Inl e, _) \<Rightarrow> (Inl e, s) | (Inr x, s') \<Rightarrow> (Inr x, s'))"
  by (simp add: transaction_def)

lemma okOr_eval [prog_simps]:
  "okOr e x s = (case x of None \<Rightarrow> (Inl e, s) | Some y \<Rightarrow> (Inr y, s))"
  by (simp add: okOr_def throw_def ret_def split: option.split)

lemma guard_eval [prog_simps]: "guard b e s = (if b then (Inr (), s) else (Inl e, s))"
  by (simp add: guard_def throw_def ret_def)

lemma okOr_simps: "okOr e None = throw e" "okOr e (Some x) = ret x"
  by (simp_all add: okOr_def)

lemma andThen_ret: "andThen (ret x) f = f x"
  by (simp add: andThen_def ret_def)

lemma andThen_throw: "andThen (throw e) f = throw e"
  by (simp add: andThen_def throw_def)

lemma transaction_error_state: "transaction m s = (Inl e, s') \<Longrightarrow> s' = s"
  by (auto simp: transaction_eval split: prod.splits sum.splits)

lemma andThen_InrE:
  assumes "andThen m f s = (Inr y, s')"
  obtains x s1 where "m s = (Inr x, s1)" "f x s1 = (Inr y, s')"
  using assms by (auto simp: andThen_eval split: prod.splits sum.splits)

lemma guard_InrD: "guard b e s = (Inr u, s') \<Longrightarrow> b \<and> s' = s"
  by (auto simp: guard_eval split: if_splits)

lemma ret_InrD: "ret x s = (Inr y, s') \<Longrightarrow> y = x \<and> s' = s"
  by (simp add: ret_def)

lemma okOr_InrD: "okOr e x s = (Inr y, s') \<Longrightarrow> x = Some y \<and> s' = s"
  by (auto simp: okOr_eval split: option.splits)

lemma modify_InrD: "modify f s = (Inr u, s') \<Longrightarrow> s' = f s"
  by (simp add: modify_def)

lemma gets_InrD: "gets f s = (Inr y, s') \<Longrightarrow> y = f s \<and> s' = s"
  by (auto simp: gets_def)

lemma transaction_InrD: "transaction m s = (Inr y, s') \<Longrightarrow> m s = (Inr y, s')"
  by (auto simp: transaction_eval split: prod.splits sum.splits)

lemma mapErr_InrD: "mapErr g m s = (Inr y, s') \<Longrightarrow> m s = (Inr y, s')"
  by (auto simp: mapErr_eval split: prod.splits sum.splits)

text \<open>A successful loop has the effects of its iterations, in order.\<close>

lemma mapProg_fold:
  assumes "\<And>x s u s'. f x s = (Inr u, s') \<Longrightarrow> s' = g x s"
  shows "mapProg f xs s = (Inr us, s') \<Longrightarrow> s' = fold g xs s"
proof (induction xs arbitrary: s us)
  case (Cons x xs)
  from Cons.prems obtain u s1 us' where "f x s = (Inr u, s1)" "mapProg f xs s1 = (Inr us', s')"
    by (auto elim!: andThen_InrE dest!: ret_InrD)
  with assms [of x s u s1] Cons.IH [of s1 us'] show ?case by simp
qed (auto dest: ret_InrD)

section \<open>Preservation\<close>

text \<open>
  A program preserves a predicate when every run from a state satisfying it, failed or not, ends in
  one that does.  The rules below reduce preservation by a program to its writing statements.
\<close>

named_theorems preserves_rules \<open>preservation of a predicate by program combinators\<close>

definition preserves :: "('s \<Rightarrow> bool) \<Rightarrow> ('s, 'e, 'a) prog \<Rightarrow> bool" where
  "preserves I m \<longleftrightarrow> (\<forall>s. I s \<longrightarrow> I (snd (m s)))"

lemma preservesI: "(\<And>s. I s \<Longrightarrow> I (snd (m s))) \<Longrightarrow> preserves I m"
  by (simp add: preserves_def)

lemma preservesD: "preserves I m \<Longrightarrow> I s \<Longrightarrow> I (snd (m s))"
  by (simp add: preserves_def)

lemma preserves_runD: "preserves I m \<Longrightarrow> I s \<Longrightarrow> m s = (r, s') \<Longrightarrow> I s'"
  by (metis preservesD snd_conv)

lemma preserves_ret [preserves_rules]: "preserves I (ret x)"
  by (simp add: preserves_def ret_def)

lemma preserves_throw [preserves_rules]: "preserves I (throw e)"
  by (simp add: preserves_def throw_def)

lemma preserves_gets [preserves_rules]: "preserves I (gets f)"
  by (simp add: preserves_def gets_def)

lemma preserves_okOr [preserves_rules]: "preserves I (okOr e x)"
  by (simp add: preserves_def okOr_eval split: option.split)

lemma preserves_guard [preserves_rules]: "preserves I (guard b e)"
  by (simp add: preserves_def guard_eval)

lemma preserves_modify: "(\<And>s. I s \<Longrightarrow> I (f s)) \<Longrightarrow> preserves I (modify f)"
  by (simp add: preserves_def modify_def)

lemma preserves_andThen [preserves_rules]:
  "preserves I m \<Longrightarrow> (\<And>x. preserves I (f x)) \<Longrightarrow> preserves I (andThen m f)"
  by (auto simp: preserves_def andThen_eval split: prod.splits sum.splits)

lemma preserves_guarded: "(b \<Longrightarrow> preserves I (f ())) \<Longrightarrow> preserves I (andThen (guard b e) f)"
  by (auto simp: preserves_def andThen_eval guard_eval)

lemma preserves_mapErr [preserves_rules]: "preserves I m \<Longrightarrow> preserves I (mapErr g m)"
  by (auto simp: preserves_def mapErr_eval split: prod.splits sum.splits)

lemma preserves_transaction [preserves_rules]: "preserves I m \<Longrightarrow> preserves I (transaction m)"
  by (auto simp: preserves_def transaction_eval split: prod.splits sum.splits)

lemma preserves_if [preserves_rules]:
  "preserves I m \<Longrightarrow> preserves I n \<Longrightarrow> preserves I (if b then m else n)"
  by simp

lemma preserves_choice:
  "preserves I m \<Longrightarrow> preserves I n \<Longrightarrow> preserves I (\<lambda>s. if b s then m s else n s)"
  by (simp add: preserves_def)

lemma preserves_mapProg [preserves_rules]:
  "(\<And>x. x \<in> set xs \<Longrightarrow> preserves I (f x)) \<Longrightarrow> preserves I (mapProg f xs)"
  by (induction xs) (simp_all add: preserves_ret preserves_andThen)

section \<open>Lists\<close>

lemma butlast_snoc_last: "xs \<noteq> [] \<Longrightarrow> butlast xs @ [last xs] = xs"
  by simp

lemma sorted_last_le: "sorted xs \<Longrightarrow> xs \<noteq> [] \<Longrightarrow> x \<in> set xs \<Longrightarrow> x \<le> last xs"
  by (induction xs) auto

end
