(* ===== verification/MachineStates.thy ===== *)
theory MachineStates
  imports MES_Prelude
begin

text \<open>
  The machine state engine (\<^verbatim>\<open>mes-core/src/state_machine.rs\<close>).  A sorted stream of cycle
  pulses over a window is turned into a timeline of states, planned stops are laid over it,
  shift boundaries cut it, and every unplanned stop becomes a downtime event.

  The operations are the file's functions; a vector under construction is a list, a loop is
  a fold of its body.  The reference semantics of a timeline is \<open>state_at\<close>, the state the
  timeline gives to an instant, and \<open>timeline a b\<close>, which says that the intervals tile the
  window from \<open>a\<close> to \<open>b\<close> without gap, overlap or empty interval.
\<close>

section \<open>Data\<close>

datatype machine_state = Running | MicroStop | Down | PlannedStop

definition is_stop :: "machine_state \<Rightarrow> bool" where
  "is_stop s = (case s of Running \<Rightarrow> False | _ \<Rightarrow> True)"

record state_config =
  micro_stop_after :: duration
  down_after :: duration
  debounce_gap :: duration

definition default_state_config :: state_config where
  "default_state_config =
     \<lparr>micro_stop_after = seconds 60, down_after = seconds 300, debounce_gap = seconds 2\<rparr>"

record state_interval =
  iv_state :: machine_state
  iv_start :: timestamp
  iv_end :: timestamp

definition iv_duration :: "state_interval \<Rightarrow> duration" where
  "iv_duration iv = iv_end iv - iv_start iv"

record planned_interval =
  pl_start :: timestamp
  pl_end :: timestamp

record downtime_event =
  de_id :: string
  de_state :: machine_state
  de_start :: timestamp
  de_end :: timestamp

abbreviation mk_iv :: "machine_state \<Rightarrow> timestamp \<Rightarrow> timestamp \<Rightarrow> state_interval" where
  "mk_iv s a b \<equiv> \<lparr>iv_state = s, iv_start = a, iv_end = b\<rparr>"

section \<open>Operations\<close>

definition classify_stop :: "state_config \<Rightarrow> duration \<Rightarrow> machine_state" where
  "classify_stop cfg gap_len = (if gap_len \<le> down_after cfg then MicroStop else Down)"

definition push_running ::
  "state_interval list \<Rightarrow> timestamp \<Rightarrow> timestamp \<Rightarrow> state_interval list" where
  "push_running out a b = (if b > a then out @ [mk_iv Running a b] else out)"

text \<open>The body of the debounce loop; the guards of the match are tried in order.\<close>

definition debounce_step :: "duration \<Rightarrow> timestamp list \<Rightarrow> timestamp \<Rightarrow> timestamp list" where
  "debounce_step min_gap kept p =
     (if kept \<noteq> [] \<and> p - last kept < min_gap then kept
      else if kept \<noteq> [] \<and> p < last kept then kept
      else kept @ [p])"

definition debounce :: "timestamp list \<Rightarrow> duration \<Rightarrow> timestamp list" where
  "debounce pulses min_gap = foldl (debounce_step min_gap) [] pulses"

text \<open>The walk over the pulses after the first: output, start of the running span, last pulse.\<close>

fun walk_pulses ::
  "state_config \<Rightarrow> timestamp list \<Rightarrow> state_interval list \<Rightarrow> timestamp \<Rightarrow> timestamp
    \<Rightarrow> state_interval list \<times> timestamp \<times> timestamp" where
  "walk_pulses cfg [] out run_start lst = (out, run_start, lst)"
| "walk_pulses cfg (p # ps) out run_start lst =
     (let gap = p - lst in
      if gap \<le> micro_stop_after cfg then walk_pulses cfg ps out run_start p
      else walk_pulses cfg ps
             (push_running out run_start lst @ [mk_iv (classify_stop cfg gap) lst p]) p p)"

definition close_window ::
  "state_config \<Rightarrow> timestamp \<Rightarrow> state_interval list \<times> timestamp \<times> timestamp
    \<Rightarrow> state_interval list" where
  "close_window cfg window_end w =
     (case w of (out, run_start, lst) \<Rightarrow>
        if window_end - lst \<le> micro_stop_after cfg then push_running out run_start window_end
        else push_running out run_start lst
               @ [mk_iv (classify_stop cfg (window_end - lst)) lst window_end])"

definition compute_states ::
  "state_config \<Rightarrow> timestamp list \<Rightarrow> timestamp \<Rightarrow> timestamp \<Rightarrow> state_interval list" where
  "compute_states cfg pulses window_start window_end =
     (if window_end \<le> window_start then []
      else case debounce pulses (debounce_gap cfg) of
        [] \<Rightarrow> [mk_iv (classify_stop cfg (window_end - window_start)) window_start window_end]
      | first # rest \<Rightarrow>
          close_window cfg window_end
            (if first - window_start \<le> micro_stop_after cfg
             then walk_pulses cfg rest [] window_start first
             else walk_pulses cfg rest
                    [mk_iv (classify_stop cfg (first - window_start)) window_start first]
                    first first))"

text \<open>Planned stops: the overlaps with one interval, then the loop body over them.\<close>

definition planned_cuts ::
  "planned_interval list \<Rightarrow> state_interval \<Rightarrow> (timestamp \<times> timestamp) list" where
  "planned_cuts planned iv =
     sort_key fst
       (List.map_filter
          (\<lambda>p. let s = max (pl_start p) (iv_start iv); e = min (pl_end p) (iv_end iv)
               in if s < e then Some (s, e) else None) planned)"

definition cut_step ::
  "state_interval \<Rightarrow> timestamp \<times> timestamp \<Rightarrow> state_interval list \<times> timestamp
    \<Rightarrow> state_interval list \<times> timestamp" where
  "cut_step iv c acc =
     (case (c, acc) of ((s, e), (out, cursor)) \<Rightarrow>
        let out1 = (if s > cursor then out @ [mk_iv (iv_state iv) cursor s] else out) in
        if out1 \<noteq> [] \<and> iv_state (last out1) = PlannedStop \<and> iv_end (last out1) \<ge> max s cursor
        then let l = (last out1)\<lparr>iv_end := max (iv_end (last out1)) e\<rparr>
             in (butlast out1 @ [l], iv_end l)
        else (out1 @ [mk_iv PlannedStop (max cursor s) e], e))"

definition overlay_interval ::
  "planned_interval list \<Rightarrow> state_interval list \<Rightarrow> state_interval \<Rightarrow> state_interval list" where
  "overlay_interval planned out iv =
     (case fold (cut_step iv) (planned_cuts planned iv) (out, iv_start iv) of (out', cursor) \<Rightarrow>
        if cursor < iv_end iv then out' @ [mk_iv (iv_state iv) cursor (iv_end iv)] else out')"

definition apply_planned_stops ::
  "state_interval list \<Rightarrow> planned_interval list \<Rightarrow> state_interval list" where
  "apply_planned_stops intervals planned = foldl (overlay_interval planned) [] intervals"

fun split_interval :: "state_interval \<Rightarrow> timestamp list \<Rightarrow> timestamp \<Rightarrow> state_interval list" where
  "split_interval iv [] cursor = [mk_iv (iv_state iv) cursor (iv_end iv)]"
| "split_interval iv (b # bs) cursor = mk_iv (iv_state iv) cursor b # split_interval iv bs b"

definition split_at_boundaries ::
  "state_interval list \<Rightarrow> timestamp list \<Rightarrow> state_interval list" where
  "split_at_boundaries intervals boundaries =
     concat (map (\<lambda>iv. split_interval iv
                   (sort (filter (\<lambda>b. b > iv_start iv \<and> b < iv_end iv) boundaries))
                   (iv_start iv)) intervals)"

text \<open>
  Identifiers come from the ULID generator, which is not part of this repository: the supply
  gives the n-th identifier drawn.
\<close>

definition downtime_events :: "(nat \<Rightarrow> string) \<Rightarrow> state_interval list \<Rightarrow> downtime_event list" where
  "downtime_events ids intervals =
     map (\<lambda>(n, iv). \<lparr>de_id = ids n, de_state = iv_state iv, de_start = iv_start iv,
                     de_end = iv_end iv\<rparr>)
       (List.enumerate 0
          (filter (\<lambda>iv. is_stop (iv_state iv) \<and> iv_state iv \<noteq> PlannedStop) intervals))"

section \<open>Timelines\<close>

fun timeline :: "timestamp \<Rightarrow> state_interval list \<Rightarrow> timestamp \<Rightarrow> bool" where
  "timeline a [] b = (a = b)"
| "timeline a (iv # ivs) b = (iv_start iv = a \<and> a < iv_end iv \<and> timeline (iv_end iv) ivs b)"

fun state_at :: "state_interval list \<Rightarrow> timestamp \<Rightarrow> machine_state option" where
  "state_at [] t = None"
| "state_at (iv # ivs) t =
     (if iv_start iv \<le> t \<and> t < iv_end iv then Some (iv_state iv) else state_at ivs t)"

lemma timeline_le: "timeline a xs b \<Longrightarrow> a \<le> b"
  by (induction xs arbitrary: a) force+

lemma timeline_append: "timeline a (xs @ ys) b \<longleftrightarrow> (\<exists>c. timeline a xs c \<and> timeline c ys b)"
  by (induction xs arbitrary: a) auto

lemma timeline_snoc:
  "timeline a (xs @ [iv]) b \<longleftrightarrow>
     timeline a xs (iv_start iv) \<and> iv_start iv < iv_end iv \<and> iv_end iv = b"
  by (auto simp: timeline_append)

lemma timeline_end_unique: "timeline a xs b \<Longrightarrow> timeline a xs c \<Longrightarrow> b = c"
  by (induction xs arbitrary: a) auto

lemma state_at_eq_None: "timeline a xs b \<Longrightarrow> state_at xs t = None \<longleftrightarrow> t < a \<or> b \<le> t"
proof (induction xs arbitrary: a)
  case (Cons iv ivs)
  from Cons.prems have "iv_end iv \<le> b"
    by (auto dest: timeline_le)
  with Cons show ?case by auto
qed auto

lemma state_at_append:
  "timeline a xs b \<Longrightarrow>
     state_at (xs @ ys) t = (if a \<le> t \<and> t < b then state_at xs t else state_at ys t)"
proof (induction xs arbitrary: a)
  case (Cons iv ivs)
  from Cons.prems have "iv_end iv \<le> b"
    by (auto dest: timeline_le)
  with Cons show ?case by auto
qed auto

lemma state_at_snoc:
  "timeline a (xs @ [iv]) b \<Longrightarrow> a \<le> t \<Longrightarrow>
     state_at (xs @ [iv]) t =
       (if t < iv_start iv then state_at xs t else if t < b then Some (iv_state iv) else None)"
  by (auto simp: timeline_snoc state_at_append)

text \<open>Extending the last interval of a timeline.\<close>

lemma timeline_extend:
  assumes "timeline a xs b" "xs \<noteq> []" "b \<le> c"
  shows "timeline a (butlast xs @ [(last xs)\<lparr>iv_end := c\<rparr>]) c"
proof -
  have "timeline a (butlast xs @ [last xs]) b"
    using assms by simp
  then show ?thesis
    using assms(3) unfolding timeline_snoc by auto
qed

lemma state_at_extend:
  assumes "timeline a xs b" "xs \<noteq> []" "b \<le> c" "a \<le> t"
  shows "state_at (butlast xs @ [(last xs)\<lparr>iv_end := c\<rparr>]) t =
    (if t < b then state_at xs t else if t < c then Some (iv_state (last xs)) else None)"
proof -
  have tl: "timeline a (butlast xs @ [last xs]) b"
    using assms by simp
  have "state_at xs t = state_at (butlast xs @ [last xs]) t"
    using assms(2) by simp
  then show ?thesis
    using state_at_snoc [OF tl assms(4)] state_at_snoc [OF timeline_extend [OF assms(1-3)] assms(4)]
      tl assms(3)
    by (auto simp: timeline_snoc)
qed

text \<open>The lengths of the intervals of a timeline add up to the window.\<close>

lemma timeline_total: "timeline a xs b \<Longrightarrow> sum_list (map iv_duration xs) = b - a"
  by (induction xs arbitrary: a) (auto simp: iv_duration_def)

section \<open>Debouncing\<close>

definition separated :: "duration \<Rightarrow> timestamp \<Rightarrow> timestamp \<Rightarrow> bool" where
  "separated g x y \<longleftrightarrow> x \<le> y \<and> g \<le> y - x"

lemma debounce_step_separated:
  "sorted_wrt (separated g) kept \<Longrightarrow> sorted_wrt (separated g) (debounce_step g kept p)"
proof (cases kept rule: rev_cases)
  case (snoc ks k)
  assume "sorted_wrt (separated g) kept"
  with snoc show ?thesis
    by (fastforce simp: debounce_step_def sorted_wrt_append separated_def)
qed (simp add: debounce_step_def)

lemma debounce_step_fold:
  "sorted_wrt (separated g) kept \<Longrightarrow> sorted_wrt (separated g) (foldl (debounce_step g) kept ps)"
  by (induction ps arbitrary: kept) (auto simp: debounce_step_separated)

lemma debounce_separated: "sorted_wrt (separated g) (debounce ps g)"
  by (simp add: debounce_def debounce_step_fold)

lemma debounce_sorted: "sorted (debounce ps g)"
  using debounce_separated [of g ps] by (rule sorted_wrt_mono_rel [rotated]) (simp add: separated_def)

lemma debounce_step_set: "set (debounce_step g kept p) \<subseteq> insert p (set kept)"
  by (auto simp: debounce_step_def)

lemma debounce_fold_set: "set (foldl (debounce_step g) kept ps) \<subseteq> set kept \<union> set ps"
proof (induction ps arbitrary: kept)
  case (Cons p ps)
  have "set (foldl (debounce_step g) kept (p # ps)) \<subseteq> set (debounce_step g kept p) \<union> set ps"
    using Cons.IH by simp
  also have "\<dots> \<subseteq> set kept \<union> set (p # ps)"
    using debounce_step_set [of g kept p] by auto
  finally show ?case .
qed simp

lemma debounce_subset: "set (debounce ps g) \<subseteq> set ps"
  using debounce_fold_set [of g "[]" ps] by (simp add: debounce_def)

lemma debounce_step_mono: "set kept \<subseteq> set (debounce_step g kept p)"
  by (auto simp: debounce_step_def)

lemma debounce_fold_mono: "set kept \<subseteq> set (foldl (debounce_step g) kept ps)"
proof (induction ps arbitrary: kept)
  case (Cons p ps)
  then show ?case
    using debounce_step_mono [of kept g p] by fastforce
qed simp

lemma debounce_step_represented:
  "\<exists>k\<in>set (debounce_step g kept p). k = p \<or> p < k \<or> p - k < g"
  by (auto simp: debounce_step_def intro: last_in_set)

lemma debounce_fold_represented:
  "p \<in> set ps \<Longrightarrow> \<exists>k\<in>set (foldl (debounce_step g) kept ps). k = p \<or> p < k \<or> p - k < g"
proof (induction ps arbitrary: kept)
  case (Cons q ps)
  show ?case
  proof (cases "p = q")
    case True
    with debounce_step_represented [of g kept p] debounce_fold_mono [of "debounce_step g kept p" g ps]
    show ?thesis by auto
  next
    case False
    with Cons show ?thesis by auto
  qed
qed simp

section \<open>The state given to an instant\<close>

text \<open>
  Reference semantics of the pulse stream: \<open>gap_at\<close> is the distance between the pulses (or
  window ends) on either side of an instant, and \<open>gap_state\<close> the state a gap of that length
  has by the rules of the module's documentation.
\<close>

fun gap_at :: "timestamp \<Rightarrow> timestamp list \<Rightarrow> timestamp \<Rightarrow> timestamp \<Rightarrow> duration" where
  "gap_at prev [] window_end t = window_end - prev"
| "gap_at prev (p # ps) window_end t =
     (if t < p then p - prev else gap_at p ps window_end t)"

definition gap_state :: "state_config \<Rightarrow> duration \<Rightarrow> machine_state" where
  "gap_state cfg g =
     (if g \<le> micro_stop_after cfg then Running
      else if g \<le> down_after cfg then MicroStop else Down)"

lemma push_running_timeline:
  "timeline a out rs \<Longrightarrow> rs \<le> b \<Longrightarrow> timeline a (push_running out rs b) b"
  by (auto simp: push_running_def timeline_snoc)

lemma state_at_push_running:
  "timeline a out rs \<Longrightarrow> rs \<le> b \<Longrightarrow> a \<le> t \<Longrightarrow> t < b \<Longrightarrow>
     state_at (push_running out rs b) t = (if t < rs then state_at out t else Some Running)"
  by (auto simp: push_running_def state_at_append)

lemma stop_push_timeline:
  "timeline a out rs \<Longrightarrow> rs \<le> l \<Longrightarrow> l < b \<Longrightarrow> timeline a (push_running out rs l @ [mk_iv s l b]) b"
  by (simp add: timeline_snoc push_running_timeline)

lemma state_at_stop_push:
  "timeline a out rs \<Longrightarrow> rs \<le> l \<Longrightarrow> l < b \<Longrightarrow> a \<le> t \<Longrightarrow> t < b \<Longrightarrow>
     state_at (push_running out rs l @ [mk_iv s l b]) t =
       (if t < rs then state_at out t else if t < l then Some Running else Some s)"
  using state_at_snoc [OF stop_push_timeline [of a out rs l b s]]
  by (auto simp: state_at_push_running)

lemma close_window_spec:
  assumes "timeline a out rs" "rs \<le> l" "l \<le> e" "0 \<le> micro_stop_after cfg"
  shows "timeline a (close_window cfg e (out, rs, l)) e \<and>
    (\<forall>t. a \<le> t \<longrightarrow> t < e \<longrightarrow> state_at (close_window cfg e (out, rs, l)) t =
       (if t < rs then state_at out t else if t < l then Some Running
        else Some (gap_state cfg (e - l))))"
proof (cases "e - l \<le> micro_stop_after cfg")
  case True
  with assms show ?thesis
    by (auto simp: close_window_def push_running_timeline state_at_push_running gap_state_def)
next
  case False
  with assms(4) have "l < e" by simp
  with assms False show ?thesis
    by (auto simp: close_window_def stop_push_timeline state_at_stop_push gap_state_def
        classify_stop_def)
qed

lemma walk_pulses_spec:
  assumes "timeline a out rs" "rs \<le> l" "l \<le> e" "0 \<le> micro_stop_after cfg"
    and "sorted ps" "\<forall>p\<in>set ps. l \<le> p \<and> p \<le> e"
  shows "timeline a (close_window cfg e (walk_pulses cfg ps out rs l)) e \<and>
    (\<forall>t. a \<le> t \<longrightarrow> t < e \<longrightarrow> state_at (close_window cfg e (walk_pulses cfg ps out rs l)) t =
       (if t < rs then state_at out t else if t < l then Some Running
        else Some (gap_state cfg (gap_at l ps e t))))"
  using assms
proof (induction ps arbitrary: out rs l)
  case Nil
  then show ?case using close_window_spec [OF Nil(1-4)] by simp
next
  case (Cons p ps)
  have p: "l \<le> p" "p \<le> e" "sorted ps" "\<forall>q\<in>set ps. p \<le> q \<and> q \<le> e"
    using Cons.prems by auto
  show ?case
  proof (cases "p - l \<le> micro_stop_after cfg")
    case True
    have "rs \<le> p" using Cons.prems(2) p(1) by simp
    from Cons.IH [OF Cons.prems(1) this p(2) Cons.prems(4) p(3,4)] True p(1) show ?thesis
      by (auto simp: gap_state_def)
  next
    case False
    with Cons.prems(4) have "l < p" by simp
    let ?out = "push_running out rs l @ [mk_iv (classify_stop cfg (p - l)) l p]"
    have tl: "timeline a ?out p"
      by (rule stop_push_timeline [OF Cons.prems(1,2) \<open>l < p\<close>])
    from Cons.IH [OF tl order_refl p(2) Cons.prems(4) p(3,4)] False \<open>l < p\<close> Cons.prems(1,2)
    show ?thesis
      by (auto simp: Let_def state_at_stop_push gap_state_def classify_stop_def)
  qed
qed

text \<open>
  With at least one pulse the gap rule decides every instant; a window with no pulse at all is
  one stop, whatever its length.
\<close>

definition window_state ::
  "state_config \<Rightarrow> timestamp list \<Rightarrow> timestamp \<Rightarrow> timestamp \<Rightarrow> timestamp \<Rightarrow> machine_state" where
  "window_state cfg pulses window_start window_end t =
     (if pulses = [] then classify_stop cfg (window_end - window_start)
      else gap_state cfg
             (gap_at window_start (debounce pulses (debounce_gap cfg)) window_end t))"

lemma debounce_eq_Nil: "debounce ps g = [] \<longleftrightarrow> ps = []"
proof (cases ps)
  case (Cons p ps')
  have "{p} \<subseteq> set (debounce ps g)"
    using debounce_fold_mono [of "[p]" g ps'] by (simp add: Cons debounce_def debounce_step_def)
  with Cons show ?thesis by auto
qed (simp add: debounce_def)

lemma compute_states_spec:
  assumes "ws < we" "0 \<le> micro_stop_after cfg" "\<forall>p\<in>set pulses. ws \<le> p \<and> p \<le> we"
  shows "timeline ws (compute_states cfg pulses ws we) we \<and>
    (\<forall>t. ws \<le> t \<longrightarrow> t < we \<longrightarrow> state_at (compute_states cfg pulses ws we) t =
       Some (window_state cfg pulses ws we t))"
proof (cases "debounce pulses (debounce_gap cfg)")
  case Nil
  then have "pulses = []" by (simp add: debounce_eq_Nil)
  with assms show ?thesis
    by (simp add: compute_states_def window_state_def debounce_def)
next
  case (Cons f r)
  have sub: "set (f # r) \<subseteq> set pulses"
    using debounce_subset [of pulses "debounce_gap cfg"] Cons by simp
  have f: "ws \<le> f" "f \<le> we" and r: "sorted r" "\<forall>p\<in>set r. f \<le> p \<and> p \<le> we"
    using sub assms(3) debounce_sorted [of pulses "debounce_gap cfg"] Cons by auto
  have ne: "pulses \<noteq> []"
    using Cons debounce_eq_Nil [of pulses "debounce_gap cfg"] by auto
  show ?thesis
  proof (cases "f - ws \<le> micro_stop_after cfg")
    case True
    have "timeline ws [] ws" by simp
    from walk_pulses_spec [OF this f assms(2) r] True Cons ne assms(1) show ?thesis
      by (auto simp: compute_states_def window_state_def gap_state_def)
  next
    case False
    with assms(2) have "ws < f" by simp
    then have "timeline ws [mk_iv (classify_stop cfg (f - ws)) ws f] f" by simp
    from walk_pulses_spec [OF this order_refl f(2) assms(2) r] False Cons ne assms(1) show ?thesis
      by (auto simp: compute_states_def window_state_def gap_state_def classify_stop_def)
  qed
qed

lemma compute_states_timeline:
  "ws < we \<Longrightarrow> 0 \<le> micro_stop_after cfg \<Longrightarrow> \<forall>p\<in>set pulses. ws \<le> p \<and> p \<le> we \<Longrightarrow>
     timeline ws (compute_states cfg pulses ws we) we"
  using compute_states_spec by blast

section \<open>Planned stops\<close>

definition covered :: "(timestamp \<times> timestamp) list \<Rightarrow> timestamp \<Rightarrow> bool" where
  "covered cuts t \<longleftrightarrow> (\<exists>(s, e)\<in>set cuts. s \<le> t \<and> t < e)"

definition in_planned :: "planned_interval list \<Rightarrow> timestamp \<Rightarrow> bool" where
  "in_planned planned t \<longleftrightarrow> (\<exists>p\<in>set planned. pl_start p \<le> t \<and> t < pl_end p)"

text \<open>
  The state between two overlaps: everything before the cursor is already right, and either
  nothing of the interval is written yet or the output ends in a planned stop.
\<close>

definition cursor_ok :: "state_interval \<Rightarrow> state_interval list \<Rightarrow> timestamp \<Rightarrow> bool" where
  "cursor_ok iv out cursor \<longleftrightarrow>
     cursor = iv_start iv \<or> (out \<noteq> [] \<and> iv_state (last out) = PlannedStop)"

lemma cut_step_spec:
  assumes tl: "timeline a out cur" and ok: "cursor_ok iv out cur"
    and s: "iv_start iv \<le> s" "s < e" "iv_start iv \<le> cur"
  obtains out' where "cut_step iv (s, e) (out, cur) = (out', max cur e)"
    "timeline a out' (max cur e)" "cursor_ok iv out' (max cur e)"
    "\<forall>t. a \<le> t \<longrightarrow> t < max cur e \<longrightarrow> state_at out' t =
       (if t < cur then state_at out t else if t < s then Some (iv_state iv) else Some PlannedStop)"
proof -
  define out1 where "out1 = (if s > cur then out @ [mk_iv (iv_state iv) cur s] else out)"
  define m where "m = max s cur"
  have tl1: "timeline a out1 m"
    using tl by (auto simp: out1_def m_def timeline_snoc)
  have st1: "state_at out1 t = (if t < cur then state_at out t else Some (iv_state iv))"
    if "a \<le> t" "t < m" for t
    using that tl by (auto simp: out1_def m_def state_at_append)
  show thesis
  proof (cases "out1 \<noteq> [] \<and> iv_state (last out1) = PlannedStop")
    case True
    let ?out' = "butlast out1 @ [(last out1)\<lparr>iv_end := max m e\<rparr>]"
    have lend: "iv_end (last out1) = m"
      using tl1 True timeline_snoc [of a "butlast out1" "last out1" m] by simp
    have "cut_step iv (s, e) (out, cur) = (?out', max m e)"
      using True lend m_def
      by (simp add: cut_step_def out1_def [symmetric] Let_def del: max.bounded_iff)
    moreover have "max m e = max cur e"
      using s by (auto simp: m_def)
    moreover have "timeline a ?out' (max m e)"
      using timeline_extend [OF tl1] True by simp
    moreover have "state_at ?out' t =
       (if t < cur then state_at out t else if t < s then Some (iv_state iv) else Some PlannedStop)"
      if "a \<le> t" "t < max m e" for t
      using state_at_extend [OF tl1 _ _ that(1), of "max m e"] True st1 [OF that(1)] that s
      by (auto simp: m_def)
    moreover have "cursor_ok iv ?out' (max m e)"
      using True by (simp add: cursor_ok_def)
    ultimately show thesis using that by metis
  next
    case False
    have m: "m = s" "cur \<le> s"
    proof -
      have "cur \<le> s"
      proof (rule ccontr)
        assume "\<not> cur \<le> s"
        with ok s False show False by (auto simp: cursor_ok_def out1_def)
      qed
      then show "m = s" "cur \<le> s" by (auto simp: m_def)
    qed
    let ?out' = "out1 @ [mk_iv PlannedStop s e]"
    have "cut_step iv (s, e) (out, cur) = (?out', max cur e)"
      using False m s(2) by (auto simp: cut_step_def out1_def [symmetric] Let_def max_def)
    moreover have "max cur e = e"
      using m(2) s(2) by simp
    moreover have tl': "timeline a ?out' e"
      using tl1 m s(2) by (simp add: timeline_snoc)
    moreover have "state_at ?out' t =
       (if t < cur then state_at out t else if t < s then Some (iv_state iv) else Some PlannedStop)"
      if "a \<le> t" "t < e" for t
      using state_at_snoc [OF tl' that(1)] st1 [OF that(1)] that m by auto
    moreover have "cursor_ok iv ?out' e"
      by (simp add: cursor_ok_def)
    ultimately show thesis using that by metis
  qed
qed

lemma fold_cut_step_spec:
  assumes "timeline a out cur" "cursor_ok iv out cur" "iv_start iv \<le> cur" "cur \<le> iv_end iv"
    and "sorted (map fst cuts)" "\<forall>(s, e)\<in>set cuts. iv_start iv \<le> s \<and> s < e \<and> e \<le> iv_end iv"
    and "a \<le> iv_start iv"
  obtains out' c' where "fold (cut_step iv) cuts (out, cur) = (out', c')"
    "timeline a out' c'" "cur \<le> c'" "c' \<le> iv_end iv"
    "\<forall>t. cur \<le> t \<longrightarrow> covered cuts t \<longrightarrow> t < c'"
    "\<forall>t. a \<le> t \<longrightarrow> t < c' \<longrightarrow> state_at out' t =
       (if t < cur then state_at out t else if covered cuts t then Some PlannedStop
        else Some (iv_state iv))"
  using assms
proof (induction cuts arbitrary: out cur thesis)
  case Nil
  then show ?case by (auto simp: covered_def)
next
  case (Cons ct cuts)
  obtain s e where ct: "ct = (s, e)" by fastforce
  have se: "iv_start iv \<le> s" "s < e" "e \<le> iv_end iv"
    using Cons.prems(7) ct by auto
  have later: "\<forall>(s', e')\<in>set cuts. s \<le> s'"
    using Cons.prems(6) ct by auto
  obtain out1 where o1: "cut_step iv (s, e) (out, cur) = (out1, max cur e)"
    "timeline a out1 (max cur e)" "cursor_ok iv out1 (max cur e)"
    "\<forall>t. a \<le> t \<longrightarrow> t < max cur e \<longrightarrow> state_at out1 t =
       (if t < cur then state_at out t else if t < s then Some (iv_state iv) else Some PlannedStop)"
    using cut_step_spec [OF Cons.prems(2,3) se(1,2) Cons.prems(4)] by blast
  have pre: "iv_start iv \<le> max cur e" "max cur e \<le> iv_end iv" "sorted (map fst cuts)"
    "\<forall>(s, e)\<in>set cuts. iv_start iv \<le> s \<and> s < e \<and> e \<le> iv_end iv"
    using Cons.prems se by auto
  obtain out' c' where o': "fold (cut_step iv) cuts (out1, max cur e) = (out', c')"
    "timeline a out' c'" "max cur e \<le> c'" "c' \<le> iv_end iv"
    "\<forall>t. max cur e \<le> t \<longrightarrow> covered cuts t \<longrightarrow> t < c'"
    "\<forall>t. a \<le> t \<longrightarrow> t < c' \<longrightarrow> state_at out' t =
       (if t < max cur e then state_at out1 t else if covered cuts t then Some PlannedStop
        else Some (iv_state iv))"
    using Cons.IH [OF _ o1(2,3) pre Cons.prems(8)] by blast
  have cov: "covered (ct # cuts) t \<longleftrightarrow> s \<le> t \<and> t < e \<or> covered cuts t" for t
    by (auto simp: covered_def ct)
  have early: "\<not> covered cuts t" if "t < s" for t
    using later that by (fastforce simp: covered_def)
  have "\<forall>t. a \<le> t \<longrightarrow> t < c' \<longrightarrow> state_at out' t =
       (if t < cur then state_at out t else if covered (ct # cuts) t then Some PlannedStop
        else Some (iv_state iv))"
    using o'(6) o1(4) early unfolding cov by (auto simp: not_less)
  moreover have "\<forall>t. cur \<le> t \<longrightarrow> covered (ct # cuts) t \<longrightarrow> t < c'"
    using o'(3,5) unfolding cov by (metis max.bounded_iff not_le order_less_le_trans)
  ultimately show ?case
    using Cons.prems(1) [of out' c'] o'(1-4) o1(1) ct by simp
qed

lemma planned_cuts_bounds:
  "\<forall>(s, e)\<in>set (planned_cuts planned iv). iv_start iv \<le> s \<and> s < e \<and> e \<le> iv_end iv"
  by (auto simp: planned_cuts_def map_filter_def Let_def split: if_splits)

lemma planned_cuts_covered:
  "iv_start iv \<le> t \<Longrightarrow> t < iv_end iv \<Longrightarrow> covered (planned_cuts planned iv) t = in_planned planned t"
  by (force simp: covered_def in_planned_def planned_cuts_def map_filter_def Let_def image_iff)

lemma overlay_interval_spec:
  assumes tl: "timeline a out (iv_start iv)" and ne: "iv_start iv < iv_end iv"
  shows "timeline a (overlay_interval planned out iv) (iv_end iv) \<and>
    (\<forall>t. a \<le> t \<longrightarrow> t < iv_end iv \<longrightarrow> state_at (overlay_interval planned out iv) t =
       (if t < iv_start iv then state_at out t
        else if in_planned planned t then Some PlannedStop else Some (iv_state iv)))"
proof -
  let ?cuts = "planned_cuts planned iv"
  have ok: "cursor_ok iv out (iv_start iv)" by (simp add: cursor_ok_def)
  have srt: "sorted (map fst ?cuts)" by (simp add: planned_cuts_def)
  have a: "a \<le> iv_start iv" using tl by (rule timeline_le)
  obtain out' c where f: "fold (cut_step iv) ?cuts (out, iv_start iv) = (out', c)"
    "timeline a out' c" "iv_start iv \<le> c" "c \<le> iv_end iv"
    "\<forall>t. iv_start iv \<le> t \<longrightarrow> covered ?cuts t \<longrightarrow> t < c"
    "\<forall>t. a \<le> t \<longrightarrow> t < c \<longrightarrow> state_at out' t =
       (if t < iv_start iv then state_at out t else if covered ?cuts t then Some PlannedStop
        else Some (iv_state iv))"
    using fold_cut_step_spec [OF tl ok order_refl _ srt planned_cuts_bounds a] ne by auto
  have cov: "covered ?cuts t = in_planned planned t" if "iv_start iv \<le> t" "t < iv_end iv" for t
    using that by (rule planned_cuts_covered)
  have res: "overlay_interval planned out iv =
      (if c < iv_end iv then out' @ [mk_iv (iv_state iv) c (iv_end iv)] else out')"
    by (simp add: overlay_interval_def f(1))
  show ?thesis
  proof (cases "c < iv_end iv")
    case True
    with f(2) have tl': "timeline a (out' @ [mk_iv (iv_state iv) c (iv_end iv)]) (iv_end iv)"
      by (simp add: timeline_snoc)
    show ?thesis
      using True tl' state_at_snoc [OF tl'] f(3,5,6) cov by (auto simp: res)
  next
    case False
    with f(4) have "c = iv_end iv" by simp
    with f(2,6) cov show ?thesis by (auto simp: res)
  qed
qed

lemma fold_overlay_spec:
  assumes "timeline a out c" "timeline c ivs b"
  shows "timeline a (foldl (overlay_interval planned) out ivs) b \<and>
    (\<forall>t. a \<le> t \<longrightarrow> t < b \<longrightarrow> state_at (foldl (overlay_interval planned) out ivs) t =
       (if t < c then state_at out t
        else if in_planned planned t then Some PlannedStop else state_at ivs t))"
  using assms
proof (induction ivs arbitrary: out c)
  case Nil
  then show ?case by auto
next
  case (Cons iv ivs)
  have iv: "timeline a out (iv_start iv)" "iv_start iv < iv_end iv" "c = iv_start iv"
    "timeline (iv_end iv) ivs b"
    using Cons.prems by auto
  note ov = overlay_interval_spec [OF iv(1,2), of planned]
  have "iv_end iv \<le> b" using iv(4) by (rule timeline_le)
  with Cons.IH [OF conjunct1 [OF ov] iv(4)] conjunct2 [OF ov] iv(2,3) show ?case
    by auto
qed

lemma apply_planned_stops_spec:
  assumes "timeline a ivs b"
  shows "timeline a (apply_planned_stops ivs planned) b \<and>
    (\<forall>t. a \<le> t \<longrightarrow> t < b \<longrightarrow> state_at (apply_planned_stops ivs planned) t =
       (if in_planned planned t then Some PlannedStop else state_at ivs t))"
  using fold_overlay_spec [of a "[]" a ivs b planned] assms
  by (auto simp: apply_planned_stops_def)

section \<open>Shift boundaries\<close>

lemma split_interval_spec:
  assumes "sorted_wrt (<) bs" "\<forall>b\<in>set bs. cur < b \<and> b < iv_end iv" "cur < iv_end iv"
  shows "timeline cur (split_interval iv bs cur) (iv_end iv) \<and>
    (\<forall>t. cur \<le> t \<longrightarrow> t < iv_end iv \<longrightarrow>
       state_at (split_interval iv bs cur) t = Some (iv_state iv))"
  using assms by (induction iv bs cur rule: split_interval.induct) auto

lemma sort_distinct_strict:
  "distinct bs \<Longrightarrow> sorted_wrt (<) (sort (filter P (bs :: timestamp list)))"
  by (simp add: strict_sorted_iff)

lemma split_at_boundaries_spec:
  assumes "timeline a ivs b" "distinct bs"
  shows "timeline a (split_at_boundaries ivs bs) b \<and>
    (\<forall>t. a \<le> t \<longrightarrow> t < b \<longrightarrow> state_at (split_at_boundaries ivs bs) t = state_at ivs t)"
  using assms(1)
proof (induction ivs arbitrary: a)
  case Nil
  then show ?case by (simp add: split_at_boundaries_def)
next
  case (Cons iv ivs)
  let ?bs = "sort (filter (\<lambda>b. b > iv_start iv \<and> b < iv_end iv) bs)"
  have iv: "iv_start iv = a" "a < iv_end iv" "timeline (iv_end iv) ivs b"
    using Cons.prems by auto
  have sp: "timeline a (split_interval iv ?bs a) (iv_end iv) \<and>
    (\<forall>t. a \<le> t \<longrightarrow> t < iv_end iv \<longrightarrow> state_at (split_interval iv ?bs a) t = Some (iv_state iv))"
    by (rule split_interval_spec) (use iv assms(2) in \<open>auto simp: sort_distinct_strict\<close>)
  have "split_at_boundaries (iv # ivs) bs = split_interval iv ?bs a @ split_at_boundaries ivs bs"
    by (simp add: split_at_boundaries_def iv(1))
  with sp Cons.IH [OF iv(3)] iv state_at_append [OF conjunct1 [OF sp], of "split_at_boundaries ivs bs"]
  show ?case by (auto simp: timeline_append)
qed

lemma split_interval_start:
  "sorted bs \<Longrightarrow> \<forall>b\<in>set bs. cur \<le> b \<Longrightarrow> x \<in> set (split_interval iv bs cur) \<Longrightarrow> cur \<le> iv_start x"
  by (induction iv bs cur rule: split_interval.induct) force+

lemma split_interval_no_straddle:
  assumes "sorted bs" "\<forall>b\<in>set bs. cur \<le> b" "x \<in> set (split_interval iv bs cur)" "b \<in> set bs"
  shows "\<not> (iv_start x < b \<and> b < iv_end x)"
  using assms
proof (induction iv bs cur rule: split_interval.induct)
  case (2 iv b' bs cur)
  then show ?case using split_interval_start [of bs b' x iv] by auto
qed simp

lemma split_interval_end:
  assumes "\<forall>b\<in>set bs. b \<le> iv_end iv" "x \<in> set (split_interval iv bs cur)"
  shows "iv_end x \<le> iv_end iv"
  using assms by (induction iv bs cur rule: split_interval.induct) auto

lemma split_no_straddle:
  assumes "x \<in> set (split_at_boundaries ivs bs)" "b \<in> set bs"
  shows "\<not> (iv_start x < b \<and> b < iv_end x)"
proof -
  obtain iv where iv: "iv \<in> set ivs" "x \<in> set (split_interval iv
      (sort (filter (\<lambda>b. b > iv_start iv \<and> b < iv_end iv) bs)) (iv_start iv))"
    using assms(1) by (auto simp: split_at_boundaries_def)
  let ?bs = "sort (filter (\<lambda>b. b > iv_start iv \<and> b < iv_end iv) bs)"
  have "iv_start iv \<le> iv_start x" "iv_end x \<le> iv_end iv"
    using split_interval_start [OF _ _ iv(2)] split_interval_end [OF _ iv(2)] by auto
  moreover have "\<not> (iv_start x < b \<and> b < iv_end x)" if "b \<in> set ?bs"
    by (rule split_interval_no_straddle [of ?bs _ _ iv]) (use iv that in auto)
  ultimately show ?thesis
    using assms(2) by auto
qed

section \<open>Timeline transformers\<close>

text \<open>
  What the stages after \<open>compute_states\<close> promise to their caller: a stage keeps the window
  tiled and changes the state of each instant by a function of that instant alone.
\<close>

locale timeline_stage =
  fixes stage :: "'p \<Rightarrow> state_interval list \<Rightarrow> state_interval list"
    and valid :: "'p \<Rightarrow> bool"
    and effect :: "'p \<Rightarrow> timestamp \<Rightarrow> machine_state \<Rightarrow> machine_state"
  assumes keeps_window: "valid p \<Longrightarrow> timeline a ivs b \<Longrightarrow> timeline a (stage p ivs) b"
    and pointwise: "valid p \<Longrightarrow> timeline a ivs b \<Longrightarrow> a \<le> t \<Longrightarrow> t < b \<Longrightarrow>
      state_at (stage p ivs) t = map_option (effect p t) (state_at ivs t)"
begin

lemma same_total:
  "valid p \<Longrightarrow> timeline a ivs b \<Longrightarrow>
     sum_list (map iv_duration (stage p ivs)) = sum_list (map iv_duration ivs)"
  by (simp add: timeline_total [OF keeps_window] timeline_total)

lemma same_extent:
  "valid p \<Longrightarrow> timeline a ivs b \<Longrightarrow> (state_at (stage p ivs) t = None) = (state_at ivs t = None)"
  by (simp add: state_at_eq_None [OF keeps_window] state_at_eq_None)

lemma pointwise_all:
  "valid p \<Longrightarrow> timeline a ivs b \<Longrightarrow>
     state_at (stage p ivs) t = map_option (effect p t) (state_at ivs t)"
  by (metis keeps_window pointwise linorder_not_le option.map_disc_iff state_at_eq_None)

text \<open>A stage whose effect is idempotent changes nothing when it is run again.\<close>

lemma stage_idempotent:
  assumes "valid p" "timeline a ivs b" "\<And>t s. effect p t (effect p t s) = effect p t s"
  shows "state_at (stage p (stage p ivs)) t = state_at (stage p ivs) t"
  using pointwise_all [OF assms(1) keeps_window [OF assms(1,2)], of t]
    pointwise_all [OF assms(1,2), of t] assms(3)
  by (simp add: option.map_comp comp_def)

end

text \<open>Two stages run one after the other are a stage.\<close>

locale timeline_pipeline =
  fst_stage: timeline_stage f vf ef + snd_stage: timeline_stage g vg eg
  for f :: "'p \<Rightarrow> state_interval list \<Rightarrow> state_interval list" and vf ef
    and g :: "'q \<Rightarrow> state_interval list \<Rightarrow> state_interval list" and vg eg
begin

sublocale both: timeline_stage
  "\<lambda>(p, q) ivs. g q (f p ivs)" "\<lambda>(p, q). vf p \<and> vg q" "\<lambda>(p, q) t s. eg q t (ef p t s)"
proof (unfold_locales, goal_cases)
  case (1 p a ivs b)
  then show ?case
    by (auto intro: snd_stage.keeps_window fst_stage.keeps_window)
next
  case (2 p a ivs b t)
  then show ?case
    using snd_stage.pointwise [OF _ fst_stage.keeps_window] fst_stage.pointwise
    by (auto simp: option.map_comp comp_def split: prod.splits)
qed

end

interpretation planned: timeline_stage
  "\<lambda>planned ivs. apply_planned_stops ivs planned" "\<lambda>_. True"
  "\<lambda>planned t s. if in_planned planned t then PlannedStop else s"
proof (unfold_locales, goal_cases)
  case (2 p a ivs b t)
  then have "state_at ivs t \<noteq> None" by (simp add: state_at_eq_None)
  with 2 apply_planned_stops_spec [OF 2(2), of p] show ?case by auto
qed (use apply_planned_stops_spec in blast)

interpretation shifts: timeline_stage
  "\<lambda>bs ivs. split_at_boundaries ivs bs" distinct "\<lambda>_ _ s. s"
proof (unfold_locales, goal_cases)
  case (2 p a ivs b t)
  with split_at_boundaries_spec [OF 2(2,1)] show ?case by (simp add: option.map_ident)
qed (use split_at_boundaries_spec in blast)

interpretation planned_then_shifts: timeline_pipeline
  "\<lambda>planned ivs. apply_planned_stops ivs planned" "\<lambda>_. True"
  "\<lambda>planned t s. if in_planned planned t then PlannedStop else s"
  "\<lambda>bs ivs. split_at_boundaries ivs bs" distinct "\<lambda>_ _ s. s"
  by unfold_locales

section \<open>Downtime events\<close>

lemma timeline_member_state:
  "timeline a ivs b \<Longrightarrow> iv \<in> set ivs \<Longrightarrow> iv_start iv \<le> t \<Longrightarrow> t < iv_end iv \<Longrightarrow>
     state_at ivs t = Some (iv_state iv)"
proof (induction ivs arbitrary: a)
  case (Cons x xs)
  then show ?case
  proof (cases "iv = x")
    case False
    with Cons.prems have "iv \<in> set xs" by simp
    with Cons have "state_at xs t = Some (iv_state iv)" by auto
    moreover from this have "iv_end x \<le> t"
      using Cons.prems(1) state_at_eq_None [of "iv_end x" xs b t] by (auto simp: not_le)
    ultimately show ?thesis by simp
  qed simp
qed simp

lemma state_at_SomeE:
  "state_at ivs t = Some s \<Longrightarrow>
     \<exists>iv\<in>set ivs. iv_state iv = s \<and> iv_start iv \<le> t \<and> t < iv_end iv"
  by (induction ivs) (auto split: if_splits)

lemma downtime_events_set:
  "(\<exists>e\<in>set (downtime_events ids ivs). de_state e = s \<and> de_start e \<le> t \<and> t < de_end e) \<longleftrightarrow>
   (\<exists>iv\<in>set ivs. iv_state iv = s \<and> s \<in> {MicroStop, Down} \<and> iv_start iv \<le> t \<and> t < iv_end iv)"
proof -
  have stop: "is_stop (iv_state iv) \<and> iv_state iv \<noteq> PlannedStop \<longleftrightarrow> iv_state iv \<in> {MicroStop, Down}"
    for iv by (cases "iv_state iv") (auto simp: is_stop_def)
  let ?fs = "filter (\<lambda>iv. is_stop (iv_state iv) \<and> iv_state iv \<noteq> PlannedStop) ivs"
  let ?P = "\<lambda>iv. iv_state iv = s \<and> iv_start iv \<le> t \<and> t < iv_end iv"
  have "(\<exists>e\<in>set (downtime_events ids ivs). de_state e = s \<and> de_start e \<le> t \<and> t < de_end e) \<longleftrightarrow>
      (\<exists>x\<in>set (List.enumerate 0 ?fs). ?P (snd x))"
    unfolding downtime_events_def by (simp add: case_prod_beta)
  also have "\<dots> \<longleftrightarrow> (\<exists>iv\<in>set (map snd (List.enumerate 0 ?fs)). ?P iv)"
    by (simp del: map_snd_enumerate)
  also have "\<dots> \<longleftrightarrow> (\<exists>iv\<in>set ?fs. ?P iv)"
    by (simp only: map_snd_enumerate)
  finally show ?thesis by (auto simp: stop)
qed

section \<open>Properties\<close>

text \<open>C1. The derived timeline is right at every instant.  For a window and pulses inside it (what
  \<^verbatim>\<open>recompute_states\<close> feeds the engine), the intervals tile the window from start to end with no gap,
  overlap or empty interval, and the state at each instant is PlannedStop where a planned stop covers
  it and otherwise the state the gap between the neighbouring (debounced) pulses has: Running up to
  60 s, MicroStop up to 300 s, Down beyond; a window without pulses is one stop.\<close>

theorem derived_timeline_correct:
  assumes "ws < we" and "\<forall>p\<in>set pulses. ws \<le> p \<and> p \<le> we"
  shows "timeline ws
      (apply_planned_stops (compute_states default_state_config pulses ws we) planned) we \<and>
    (\<forall>t. ws \<le> t \<longrightarrow> t < we \<longrightarrow>
      state_at (apply_planned_stops (compute_states default_state_config pulses ws we) planned) t =
      Some (if in_planned planned t then PlannedStop
            else window_state default_state_config pulses ws we t))"
proof -
  have micro: "0 \<le> micro_stop_after default_state_config"
    by (simp add: default_state_config_def)
  note raw = compute_states_spec [OF assms(1) micro assms(2)]
  show ?thesis
    using planned.keeps_window [OF TrueI conjunct1 [OF raw]]
      planned.pointwise [OF TrueI conjunct1 [OF raw]] conjunct2 [OF raw]
    by simp
qed

theorem derived_timeline_correct_witness:
  "state_at (apply_planned_stops
      (compute_states default_state_config [0, 30000000, 500000000] 0 600000000)
      [\<lparr>pl_start = 550000000, pl_end = 580000000\<rparr>]) 100000000 = Some Down \<and>
   state_at (apply_planned_stops
      (compute_states default_state_config [0, 30000000, 500000000] 0 600000000)
      [\<lparr>pl_start = 550000000, pl_end = 580000000\<rparr>]) 560000000 = Some PlannedStop"
  using derived_timeline_correct [of 0 600000000 "[0, 30000000, 500000000]"
      "[\<lparr>pl_start = 550000000, pl_end = 580000000\<rparr>]"]
  by (simp add: in_planned_def window_state_def gap_state_def debounce_def debounce_step_def
      default_state_config_def)

text \<open>Debouncing keeps a sorted subset of the pulses in which any two are at least the
  configured gap apart, and never loses activity: every pulse is kept, lies before a kept pulse
  (out of order) or follows a kept pulse by less than the gap.\<close>

theorem debounce_correct:
  "sorted_wrt (separated g) (debounce ps g) \<and> set (debounce ps g) \<subseteq> set ps \<and>
   (\<forall>p. p \<in> set ps \<longrightarrow> (\<exists>k\<in>set (debounce ps g). k = p \<or> p < k \<or> p - k < g))"
  using debounce_separated debounce_subset debounce_fold_represented [of _ ps g "[]"]
  unfolding debounce_def [symmetric] by blast

theorem debounce_correct_witness:
  "debounce [0, 500000, 3000000] (seconds 2) = [0, 3000000] \<and>
   (\<exists>k\<in>set (debounce [0, 500000, 3000000] (seconds 2)).
      k = 500000 \<or> 500000 < k \<or> 500000 - k < seconds 2)"
  using debounce_correct [of "seconds 2" "[0, 500000, 3000000]"]
  by (simp add: debounce_def debounce_step_def)

text \<open>Splitting at shift boundaries after the planned-stop overlay keeps the window tiled, keeps
  the total time, leaves the state of every instant as the overlay set it, and no resulting interval
  straddles a boundary.\<close>

theorem split_after_overlay_correct:
  assumes "timeline a ivs b" and "distinct bs"
  shows "timeline a (split_at_boundaries (apply_planned_stops ivs planned) bs) b \<and>
    sum_list (map iv_duration (split_at_boundaries (apply_planned_stops ivs planned) bs)) = b - a \<and>
    (\<forall>t. state_at (split_at_boundaries (apply_planned_stops ivs planned) bs) t =
       map_option (\<lambda>s. if in_planned planned t then PlannedStop else s) (state_at ivs t)) \<and>
    (\<forall>x\<in>set (split_at_boundaries (apply_planned_stops ivs planned) bs). \<forall>c\<in>set bs.
       \<not> (iv_start x < c \<and> c < iv_end x))"
  using planned_then_shifts.both.keeps_window [of "(planned, bs)" a ivs b]
    planned_then_shifts.both.same_total [of "(planned, bs)" a ivs b]
    planned_then_shifts.both.pointwise_all [of "(planned, bs)" a ivs b]
    split_no_straddle [of _ "apply_planned_stops ivs planned" bs] timeline_total [OF assms(1)] assms
  by auto

theorem split_after_overlay_correct_witness:
  "timeline 0 (split_at_boundaries (apply_planned_stops [mk_iv Running 0 100]
      [\<lparr>pl_start = 20, pl_end = 40\<rparr>]) [30, 60]) 100"
  using split_after_overlay_correct [of 0 "[mk_iv Running 0 100]" 100 "[30, 60]"
      "[\<lparr>pl_start = 20, pl_end = 40\<rparr>]"]
  by simp

text \<open>Downtime events are exactly the unplanned stops: an instant of a timeline lies in a downtime
  event of state \<open>s\<close> iff its state is \<open>s\<close> and \<open>s\<close> is MicroStop or Down; planned stops and running
  time raise none.\<close>

theorem downtime_events_exact:
  assumes "timeline a ivs b"
  shows "(\<exists>e\<in>set (downtime_events ids ivs). de_state e = s \<and> de_start e \<le> t \<and> t < de_end e) \<longleftrightarrow>
    state_at ivs t = Some s \<and> s \<in> {MicroStop, Down}"
  unfolding downtime_events_set using timeline_member_state [OF assms] state_at_SomeE by blast

theorem downtime_events_exact_witness:
  "\<exists>e\<in>set (downtime_events (\<lambda>_. ''id'') [mk_iv Running 0 5, mk_iv Down 5 9]).
     de_state e = Down \<and> de_start e \<le> 6 \<and> 6 < de_end e"
  using downtime_events_exact [of 0 "[mk_iv Running 0 5, mk_iv Down 5 9]" 9 "\<lambda>_. ''id''" Down 6]
  by simp

end
