(* ===== verification/Json.thy ===== *)
theory Json
  imports MES_Prelude "HOL-Library.List_Lexorder" "HOL-Library.Char_ord"
begin

text \<open>
  JSON values as the services handle them (\<^verbatim>\<open>serde_json::Value\<close>).  An object is the entry list of
  an ordered map: keys ascending in the byte order of strings, each key once.  Numbers are exact
  rationals; text is a list of bytes.
\<close>

datatype json =
    JNull
  | JBool bool
  | JNum rat
  | JStr string
  | JArr "json list"
  | JObj "(string \<times> json) list"

text \<open>Inserting into an ordered map replaces the entry of an equal key.\<close>

fun map_insert :: "string \<Rightarrow> 'v \<Rightarrow> (string \<times> 'v) list \<Rightarrow> (string \<times> 'v) list" where
  "map_insert k v [] = [(k, v)]"
| "map_insert k v ((k', v') # m) =
     (if k < k' then (k, v) # (k', v') # m
      else if k = k' then (k, v) # m
      else (k', v') # map_insert k v m)"

definition ordered_map :: "(string \<times> 'v) list \<Rightarrow> bool" where
  "ordered_map m \<longleftrightarrow> sorted_wrt (<) (map fst m)"

lemma ordered_map_Cons:
  "ordered_map ((k, v) # m) \<longleftrightarrow> (\<forall>x\<in>set m. k < fst x) \<and> ordered_map m"
  by (auto simp: ordered_map_def)

lemma map_insert_fst: "fst ` set (map_insert k v m) = insert k (fst ` set m)"
  by (induction k v m rule: map_insert.induct) auto

lemma ordered_map_insert: "ordered_map m \<Longrightarrow> ordered_map (map_insert k v m)"
proof (induction k v m rule: map_insert.induct)
  case (2 k v k' v' m)
  have "\<forall>x\<in>set (map_insert k v m). k' < fst x" if "\<not> k < k'" "k \<noteq> k'"
  proof
    fix x assume "x \<in> set (map_insert k v m)"
    then have "fst x \<in> insert k (fst ` set m)"
      using map_insert_fst [of k v m] by blast
    with that 2(2) show "k' < fst x"
      by (auto simp: ordered_map_Cons neq_iff)
  qed
  with 2 show ?case
    by (auto simp: ordered_map_Cons dest: order.strict_trans)
qed (simp add: ordered_map_def)

lemma map_of_insert: "ordered_map m \<Longrightarrow> map_of (map_insert k v m) = (map_of m)(k \<mapsto> v)"
proof (induction k v m rule: map_insert.induct)
  case (2 k v k' v' m)
  then show ?case by (auto simp: ordered_map_Cons fun_eq_iff)
qed simp

lemma ordered_map_distinct: "ordered_map m \<Longrightarrow> distinct (map fst m)"
  by (simp add: ordered_map_def strict_sorted_iff)

text \<open>Indexing with a string key: a missing key or a value that is not an object has no member.\<close>

definition json_get :: "json \<Rightarrow> string \<Rightarrow> json option" where
  "json_get v k = (case v of JObj m \<Rightarrow> map_of m k | _ \<Rightarrow> None)"

definition json_as_str :: "json \<Rightarrow> string option" where
  "json_as_str v = (case v of JStr s \<Rightarrow> Some s | _ \<Rightarrow> None)"

text \<open>An optional member serialises to \<open>null\<close> when it is absent.\<close>

definition opt_json :: "('a \<Rightarrow> json) \<Rightarrow> 'a option \<Rightarrow> json" where
  "opt_json f x = (case x of None \<Rightarrow> JNull | Some y \<Rightarrow> f y)"

text \<open>The object macro: entries inserted in order.\<close>

definition json_object :: "(string \<times> json) list \<Rightarrow> json" where
  "json_object kvs = JObj (fold (\<lambda>(k, v) m. map_insert k v m) kvs [])"

lemma fold_map_insert_ordered:
  "ordered_map m \<Longrightarrow> ordered_map (fold (\<lambda>(k, v) m. map_insert k v m) kvs m)"
  by (induction kvs arbitrary: m) (auto simp: ordered_map_insert)

lemma fold_map_insert_of:
  "ordered_map m \<Longrightarrow> map_of (fold (\<lambda>(k, v) m. map_insert k v m) kvs m) = map_of m ++ map_of (rev kvs)"
proof (induction kvs arbitrary: m)
  case (Cons kv kvs)
  then show ?case
    by (cases kv) (auto simp: ordered_map_insert map_of_insert map_add_def fun_eq_iff
        split: option.split)
qed simp

lemma json_object_get: "json_get (json_object kvs) k = map_of (rev kvs) k"
  using fold_map_insert_of [of "[]" kvs]
  by (simp add: json_object_def json_get_def ordered_map_def)

lemma json_object_cases: "json_object kvs \<noteq> JNull" "json_object kvs \<noteq> JStr s"
  by (simp_all add: json_object_def)

end
