(* ===== verification/F64.thy ===== *)
theory F64
  imports MES_Prelude "HOL-Library.Log_Nat"
begin

text \<open>
  IEEE 754 binary64 arithmetic as the analytics use it: results are rounded to the nearest value
  with a 53-bit significand and an exponent of at least -1074, ties to even, and overflow to an
  infinity.  The sign of a zero is not represented; the program never divides by a zero.
\<close>

datatype f64 = Fin rat | PInf | NInf | NaN

section \<open>Rounding\<close>

definition ilog2 :: "rat \<Rightarrow> int" where
  "ilog2 x = (case quotient_of x of (p, q) \<Rightarrow>
     let e = bitlen p - bitlen q in if 2 powi e \<le> x then e else e - 1)"

definition half_even :: "rat \<Rightarrow> int" where
  "half_even x =
     (let n = \<lfloor>x\<rfloor>; d = x - of_int n in
      if d < 1 / 2 \<or> d = 1 / 2 \<and> even n then n else n + 1)"

definition quantum_exp :: "rat \<Rightarrow> int" where
  "quantum_exp x = max (ilog2 x - 52) (-1074)"

definition round_pos :: "rat \<Rightarrow> rat" where
  "round_pos x = of_int (half_even (x / 2 powi quantum_exp x)) * 2 powi quantum_exp x"

definition round_val :: "rat \<Rightarrow> rat" where
  "round_val x = (if x = 0 then 0 else if x > 0 then round_pos x else - round_pos (- x))"

definition round_f64 :: "rat \<Rightarrow> f64" where
  "round_f64 x =
     (let r = round_val x in
      if r \<ge> 2 ^ 1024 then PInf else if r \<le> - (2 ^ 1024) then NInf else Fin r)"

section \<open>Operations\<close>

definition f64_sign :: "f64 \<Rightarrow> rat" where
  "f64_sign x = (case x of Fin r \<Rightarrow> sgn r | PInf \<Rightarrow> 1 | NInf \<Rightarrow> - 1 | NaN \<Rightarrow> 0)"

definition f64_inf :: "rat \<Rightarrow> f64" where
  "f64_inf s = (if s > 0 then PInf else if s < 0 then NInf else NaN)"

definition f64_mul :: "f64 \<Rightarrow> f64 \<Rightarrow> f64" where
  "f64_mul x y =
     (case (x, y) of
        (Fin a, Fin b) \<Rightarrow> round_f64 (a * b)
      | _ \<Rightarrow> if x = NaN \<or> y = NaN then NaN else f64_inf (f64_sign x * f64_sign y))"

definition f64_div :: "f64 \<Rightarrow> f64 \<Rightarrow> f64" where
  "f64_div x y =
     (case (x, y) of
        (Fin a, Fin b) \<Rightarrow> if b = 0 then NaN else round_f64 (a / b)
      | (Fin a, PInf) \<Rightarrow> Fin 0
      | (Fin a, NInf) \<Rightarrow> Fin 0
      | (_, Fin b) \<Rightarrow> if x = NaN then NaN else f64_inf (f64_sign x * f64_sign y)
      | _ \<Rightarrow> NaN)"

definition f64_sub :: "f64 \<Rightarrow> f64 \<Rightarrow> f64" where
  "f64_sub x y =
     (case (x, y) of
        (Fin a, Fin b) \<Rightarrow> round_f64 (a - b)
      | (NaN, _) \<Rightarrow> NaN
      | (_, NaN) \<Rightarrow> NaN
      | (Fin a, PInf) \<Rightarrow> NInf
      | (Fin a, NInf) \<Rightarrow> PInf
      | (x, Fin b) \<Rightarrow> x
      | (x, y) \<Rightarrow> if x = y then NaN else x)"

definition f64_less :: "f64 \<Rightarrow> f64 \<Rightarrow> bool" where
  "f64_less x y =
     (case (x, y) of
        (Fin a, Fin b) \<Rightarrow> a < b
      | (NaN, _) \<Rightarrow> False
      | (_, NaN) \<Rightarrow> False
      | (NInf, y) \<Rightarrow> y \<noteq> NInf
      | (x, PInf) \<Rightarrow> x \<noteq> PInf
      | _ \<Rightarrow> False)"

text \<open>The standard library's minimum ignores a NaN operand.\<close>

definition f64_min :: "f64 \<Rightarrow> f64 \<Rightarrow> f64" where
  "f64_min x y = (if x = NaN then y else if f64_less y x then y else x)"

section \<open>Facts on rounding\<close>

lemma powi_pos [simp]: "(0 :: rat) < 2 powi e"
  by (simp add: zero_less_power_int)

lemma powi_not_neg [simp]: "\<not> (2 :: rat) powi e < 0"
  using powi_pos [of e] by linarith

lemma powi_le_iff [simp]: "(2 :: rat) powi a \<le> 2 powi b \<longleftrightarrow> a \<le> b"
  by (metis linorder_not_le one_less_numeral_iff power_int_increasing power_int_strict_increasing
      semiring_norm(76) less_imp_le)

lemma powi_less_iff [simp]: "(2 :: rat) powi a < 2 powi b \<longleftrightarrow> a < b"
  by (meson not_le powi_le_iff)

lemma powi_add: "(2 :: rat) powi (a + b) = 2 powi a * 2 powi b"
  by (simp add: power_int_add)

lemma powi_int: "0 \<le> e \<Longrightarrow> (2 :: rat) powi e = of_int (2 ^ nat e)"
  by (simp add: power_int_def)

lemma powi_diff_int: "b \<le> a \<Longrightarrow> (2 :: rat) powi a / 2 powi b = of_int (2 ^ nat (a - b))"
  by (metis diff_ge_0_iff_ge power_int_diff powi_int zero_neq_numeral)

lemma ilog2_bounds:
  assumes "0 < x"
  shows "2 powi ilog2 x \<le> x" "x < 2 powi (ilog2 x + 1)"
proof -
  obtain p q where pq: "quotient_of x = (p, q)" by fastforce
  then have x: "x = of_int p / of_int q" and q: "0 < q"
    using quotient_of_div quotient_of_denom_pos by auto
  with assms have p: "0 < p" by (simp add: zero_less_divide_iff)
  have bounds: "(2 :: rat) powi (bitlen n - 1) \<le> of_int n \<and> of_int n < (2 :: rat) powi bitlen n" if "0 < n" for n
  proof -
    have "1 \<le> bitlen n" using that by (simp add: bitlen_def floorlog_def)
    moreover have "2 ^ nat (bitlen n - 1) \<le> n \<and> n < 2 ^ nat (bitlen n)"
      using bitlen_bounds [OF that] .
    ultimately show ?thesis by (simp add: powi_int del: of_int_power)
  qed
  let ?e = "bitlen p - bitlen q"
  have up: "x < 2 powi (?e + 1)"
  proof -
    have "of_int p < (2 :: rat) powi bitlen p" using bounds [OF p] by simp
    also have "\<dots> = 2 powi (?e + 1) * 2 powi (bitlen q - 1)" by (simp flip: powi_add)
    also have "\<dots> \<le> 2 powi (?e + 1) * of_int q" using bounds [OF q] by simp
    finally show ?thesis using q by (simp add: x divide_less_eq)
  qed
  have low: "2 powi (?e - 1) \<le> x"
  proof -
    have "2 powi (?e - 1) * of_int q \<le> (2 :: rat) powi (?e - 1) * 2 powi bitlen q"
      using bounds [OF q] by simp
    also have "\<dots> = 2 powi (bitlen p - 1)" by (simp flip: powi_add)
    also have "\<dots> \<le> of_int p" using bounds [OF p] by simp
    finally show ?thesis using q by (simp add: x le_divide_eq)
  qed
  show "2 powi ilog2 x \<le> x" "x < 2 powi (ilog2 x + 1)"
    using up low by (auto simp: ilog2_def pq Let_def not_le)
qed

lemma ilog2_unique: "2 powi e \<le> x \<Longrightarrow> x < 2 powi (e + 1) \<Longrightarrow> ilog2 x = e"
  using ilog2_bounds [of x] powi_pos [of e]
  by (smt (verit, best) less_le_trans le_less_trans powi_less_iff)

lemma ilog2_mono: "0 < x \<Longrightarrow> x \<le> y \<Longrightarrow> ilog2 x \<le> ilog2 y"
  using ilog2_bounds [of x] ilog2_bounds [of y]
  by (smt (verit, best) less_le_trans le_less_trans powi_less_iff)

lemma half_even_int [simp]: "half_even (of_int n) = n"
  by (simp add: half_even_def)

lemma half_even_bounds: "\<lfloor>x\<rfloor> \<le> half_even x" "half_even x \<le> \<lfloor>x\<rfloor> + 1"
  by (simp_all add: half_even_def Let_def)

lemma half_even_mono:
  assumes "x \<le> y"
  shows "half_even x \<le> half_even y"
proof (cases "\<lfloor>x\<rfloor> = \<lfloor>y\<rfloor>")
  case True
  with assms show ?thesis by (auto simp: half_even_def Let_def)
next
  case False
  with floor_mono [OF assms] have "\<lfloor>x\<rfloor> + 1 \<le> \<lfloor>y\<rfloor>" by simp
  with half_even_bounds [of x] half_even_bounds [of y] show ?thesis by linarith
qed

lemma quantum_mono: "0 < x \<Longrightarrow> x \<le> y \<Longrightarrow> quantum_exp x \<le> quantum_exp y"
  using ilog2_mono [of x y] by (simp add: quantum_exp_def)

text \<open>A multiple of the quantum rounds to itself.\<close>

lemma round_pos_exact:
  assumes "x = of_int m * 2 powi e" "quantum_exp x \<le> e"
  shows "round_pos x = x"
proof -
  define k where "k = quantum_exp x"
  have "x / 2 powi k = of_int m * (2 powi e / 2 powi k)" by (simp add: assms(1))
  also have "\<dots> = of_int (m * 2 ^ nat (e - k))"
    using powi_diff_int [of k e] assms(2) by (simp add: k_def)
  finally have scaled: "x / 2 powi k = of_int (m * 2 ^ nat (e - k))" .
  then have "half_even (x / 2 powi k) = m * 2 ^ nat (e - k)" by (simp only: half_even_int)
  then have "round_pos x = x / 2 powi k * 2 powi k"
    by (simp only: round_pos_def k_def [symmetric] scaled)
  then show ?thesis by simp
qed

lemma round_pos_powi: "-1074 \<le> e \<Longrightarrow> round_pos (2 powi e) = 2 powi e"
proof (rule round_pos_exact [of _ 1 e])
  assume "-1074 \<le> e"
  have "ilog2 (2 powi e) = e" by (rule ilog2_unique) simp_all
  with \<open>-1074 \<le> e\<close> show "quantum_exp (2 powi e) \<le> e" by (simp add: quantum_exp_def)
qed simp

lemma round_pos_mono_same:
  "quantum_exp x = quantum_exp y \<Longrightarrow> x \<le> y \<Longrightarrow> round_pos x \<le> round_pos y"
  by (simp add: round_pos_def mult_right_mono half_even_mono divide_right_mono less_imp_le)

lemma round_pos_mono:
  assumes "0 < x" "x \<le> y"
  shows "round_pos x \<le> round_pos y"
proof (cases "quantum_exp x = quantum_exp y")
  case True
  then show ?thesis using assms(2) by (rule round_pos_mono_same)
next
  case False
  with quantum_mono [OF assms] have less: "quantum_exp x < quantum_exp y" by simp
  let ?l = "ilog2 y"
  from less have logs: "ilog2 x < ?l" "-1074 < ?l - 52" and qy: "quantum_exp y = ?l - 52"
    by (auto simp: quantum_exp_def)
  have "quantum_exp x \<le> ?l" using less qy by simp
  have "round_pos x \<le> 2 powi ?l"
  proof -
    have "x \<le> 2 powi ?l"
      using ilog2_bounds(2) [OF assms(1)] logs(1) powi_le_iff [of "ilog2 x + 1" ?l] by linarith
    then have "x / 2 powi quantum_exp x \<le> of_int (2 ^ nat (?l - quantum_exp x))"
      using powi_diff_int [OF \<open>quantum_exp x \<le> ?l\<close>] by (metis divide_right_mono less_imp_le powi_pos)
    then have "half_even (x / 2 powi quantum_exp x) \<le> 2 ^ nat (?l - quantum_exp x)"
      using half_even_mono half_even_int by metis
    then have "round_pos x \<le> of_int (2 ^ nat (?l - quantum_exp x)) * 2 powi quantum_exp x"
      unfolding round_pos_def by (intro mult_right_mono) (simp_all only: of_int_le_iff less_imp_le [OF powi_pos])
    also have "\<dots> = 2 powi ?l"
      unfolding powi_diff_int [OF \<open>quantum_exp x \<le> ?l\<close>, symmetric] by simp
    finally show ?thesis .
  qed
  also have "2 powi ?l \<le> round_pos y"
  proof -
    have "2 powi ?l / 2 powi quantum_exp y \<le> y / 2 powi quantum_exp y"
      using ilog2_bounds(1) [of y] assms by (simp add: divide_right_mono less_imp_le)
    then have "of_int (2 ^ 52) \<le> y / 2 powi quantum_exp y"
      using powi_diff_int [of "?l - 52" ?l] by (simp add: qy)
    then have "2 ^ 52 \<le> half_even (y / 2 powi quantum_exp y)"
      using half_even_mono half_even_int by metis
    then have "of_int (2 ^ 52) * 2 powi quantum_exp y \<le> round_pos y"
      unfolding round_pos_def by (intro mult_right_mono) (simp_all only: of_int_le_iff less_imp_le [OF powi_pos])
    moreover have "of_int (2 ^ 52) * (2 :: rat) powi quantum_exp y = 2 powi ?l"
      using powi_add [of 52 "?l - 52"] by (simp add: qy power_int_def)
    ultimately show ?thesis by simp
  qed
  finally show ?thesis .
qed

text \<open>The values a double can hold, disregarding overflow.\<close>

definition is_f64 :: "rat \<Rightarrow> bool" where
  "is_f64 r \<longleftrightarrow> (\<exists>m e. r = of_int m * 2 powi e \<and> \<bar>m\<bar> \<le> 2 ^ 53 \<and> -1074 \<le> e)"

lemma is_f64_int: "\<bar>n\<bar> \<le> 2 ^ 53 \<Longrightarrow> is_f64 (of_int n)"
  unfolding is_f64_def by (rule exI [of _ n], rule exI [of _ 0]) simp

lemma is_f64_uminus: "is_f64 (- r) = is_f64 r"
proof -
  have "is_f64 (- r)" if "is_f64 r" for r
  proof -
    from that obtain m e where "r = of_int m * 2 powi e" "\<bar>m\<bar> \<le> 2 ^ 53" "-1074 \<le> e"
      by (auto simp: is_f64_def)
    then show ?thesis unfolding is_f64_def by (intro exI [of _ "- m"] exI [of _ e]) simp
  qed
  from this [of r] this [of "- r"] show ?thesis by auto
qed

lemma round_pos_dyadic:
  assumes "0 < m" "m \<le> 2 ^ 53" "-1074 \<le> e"
  shows "round_pos (of_int m * 2 powi e) = of_int m * 2 powi e"
proof (cases "m = 2 ^ 53")
  case True
  have "of_int m * (2 :: rat) powi e = 2 powi (53 + e)"
    unfolding powi_add by (simp add: True power_int_def)
  then show ?thesis using round_pos_powi [of "53 + e"] assms(3) by simp
next
  case False
  let ?x = "of_int m * (2 :: rat) powi e"
  have pos: "0 < ?x" using assms(1) by simp
  have "of_int m < (of_int (2 ^ 53) :: rat)" using False assms(2) by (simp only: of_int_less_iff)
  then have "?x < of_int (2 ^ 53) * 2 powi e" by (rule mult_strict_right_mono) simp
  also have "\<dots> = 2 powi (53 + e)" unfolding powi_add by (simp add: power_int_def)
  finally have "2 powi ilog2 ?x < (2 :: rat) powi (53 + e)"
    using ilog2_bounds(1) [OF pos] by (rule le_less_trans [rotated])
  then have "quantum_exp ?x \<le> e" using assms(3) by (simp add: quantum_exp_def)
  then show ?thesis by (rule round_pos_exact [OF refl])
qed

lemma round_pos_form:
  assumes "0 < x"
  shows "\<exists>m. round_pos x = of_int m * 2 powi quantum_exp x \<and> 0 \<le> m \<and> m \<le> 2 ^ 53"
proof (intro exI conjI)
  show "round_pos x = of_int (half_even (x / 2 powi quantum_exp x)) * 2 powi quantum_exp x"
    by (rule round_pos_def)
  have "0 \<le> x / 2 powi quantum_exp x" using assms by (simp add: less_imp_le)
  then show "0 \<le> half_even (x / 2 powi quantum_exp x)"
    using half_even_mono [of 0] half_even_int [of 0] by (metis of_int_0)
  have "x < 2 powi (53 + quantum_exp x)"
  proof -
    have "x < 2 powi (ilog2 x + 1)" by (rule ilog2_bounds(2) [OF assms])
    also have "\<dots> \<le> 2 powi (53 + quantum_exp x)" by (simp add: quantum_exp_def)
    finally show ?thesis .
  qed
  then have "x / 2 powi quantum_exp x \<le> of_int (2 ^ 53)"
    unfolding powi_add by (simp add: power_int_def pos_divide_le_eq)
  then show "half_even (x / 2 powi quantum_exp x) \<le> 2 ^ 53"
    using half_even_mono half_even_int by metis
qed

lemma round_pos_nonneg: "0 < x \<Longrightarrow> 0 \<le> round_pos x"
  using round_pos_form [of x] by (auto simp: less_imp_le)

lemma round_val_exact: "is_f64 r \<Longrightarrow> round_val r = r"
proof -
  have pos: "round_pos r = r" if "is_f64 r" "0 < r" for r
  proof -
    from that(1) obtain m e where r: "r = of_int m * 2 powi e" "\<bar>m\<bar> \<le> 2 ^ 53" "-1074 \<le> e"
      by (auto simp: is_f64_def)
    with that(2) have "0 < m" by (simp add: zero_less_mult_iff)
    with r round_pos_dyadic [of m e] show ?thesis by simp
  qed
  assume "is_f64 r"
  then show ?thesis using pos [of r] pos [of "- r"] by (auto simp: round_val_def is_f64_uminus)
qed

lemma round_val_is_f64: "is_f64 (round_val x)"
proof -
  have pos: "is_f64 (round_pos x)" if x: "0 < x" for x
  proof -
    from round_pos_form [OF x] obtain m where m: "round_pos x = of_int m * 2 powi quantum_exp x" "0 \<le> m" "m \<le> 2 ^ 53"
      by blast
    have "-1074 \<le> quantum_exp x" by (simp add: quantum_exp_def)
    with m show ?thesis unfolding is_f64_def by (metis abs_of_nonneg)
  qed
  show ?thesis
    using pos [of x] pos [of "- x"] is_f64_int [of 0] by (auto simp: round_val_def is_f64_uminus)
qed

lemma round_val_mono:
  assumes "x \<le> y"
  shows "round_val x \<le> round_val y"
proof -
  consider "0 < x" | "x \<le> 0" "0 \<le> y" | "y < 0" by linarith
  then show ?thesis
  proof cases
    case 1
    with assms round_pos_mono [of x y] show ?thesis by (simp add: round_val_def)
  next
    case 2
    then have "round_val x \<le> 0" "0 \<le> round_val y"
      using round_pos_nonneg [of "- x"] round_pos_nonneg [of y] by (auto simp: round_val_def)
    then show ?thesis by linarith
  next
    case 3
    with assms round_pos_mono [of "- y" "- x"] show ?thesis by (simp add: round_val_def)
  qed
qed

lemma round_val_int: "\<bar>n\<bar> \<le> 2 ^ 53 \<Longrightarrow> round_val (of_int n) = of_int n"
  by (rule round_val_exact) (rule is_f64_int)

lemma round_val_le: "x \<le> y \<Longrightarrow> is_f64 y \<Longrightarrow> round_val x \<le> y"
  using round_val_mono [of x y] by (simp add: round_val_exact)

lemma round_val_ge: "y \<le> x \<Longrightarrow> is_f64 y \<Longrightarrow> y \<le> round_val x"
  using round_val_mono [of y x] by (simp add: round_val_exact)

lemma is_f64_consts: "is_f64 0" "is_f64 1" "is_f64 100"
  using is_f64_int [of 0] is_f64_int [of 1] is_f64_int [of 100] by simp_all

lemma round_f64_Fin: "\<bar>round_val x\<bar> < 2 ^ 1024 \<Longrightarrow> round_f64 x = Fin (round_val x)"
  by (auto simp: round_f64_def Let_def)

lemma round_f64_unit:
  assumes "0 \<le> x" "x \<le> y" "is_f64 y" "y < 2 ^ 1024"
  shows "round_f64 x = Fin (round_val x)" "0 \<le> round_val x" "round_val x \<le> y"
proof -
  show "0 \<le> round_val x" by (rule round_val_ge [OF assms(1) is_f64_consts(1)])
  moreover show "round_val x \<le> y" by (rule round_val_le [OF assms(2,3)])
  ultimately show "round_f64 x = Fin (round_val x)"
    using assms(4) by (intro round_f64_Fin) simp
qed

lemma round_f64_nonneg:
  assumes "0 \<le> x"
  obtains "round_f64 x = PInf" | "round_f64 x = Fin (round_val x)" "0 \<le> round_val x"
proof (cases "2 ^ 1024 \<le> round_val x")
  case True
  then show thesis using that(1) unfolding round_f64_def Let_def by presburger
next
  case False
  have "0 \<le> round_val x" by (rule round_val_ge [OF assms is_f64_consts(1)])
  then show thesis using False that(2) round_f64_Fin [of x] by (simp only: abs_of_nonneg not_le)
qed

lemma round_f64_int:
  assumes "\<bar>n\<bar> \<le> 2 ^ 53"
  shows "round_f64 (of_int n) = Fin (of_int n)"
proof -
  have "\<bar>of_int n\<bar> \<le> (2 ^ 53 :: rat)"
    using assms by (metis of_int_abs of_int_le_iff of_int_numeral of_int_power)
  also have "(2 ^ 53 :: rat) < 2 ^ 1024" by simp
  finally show ?thesis using round_f64_Fin [of "of_int n"] round_val_int [OF assms] by simp
qed

lemma round_f64_consts [simp]: "round_f64 0 = Fin 0" "round_f64 1 = Fin 1"
  using round_f64_int [of 0] round_f64_int [of 1] by simp_all

lemma round_f64_numeral: "(numeral k :: int) \<le> 2 ^ 53 \<Longrightarrow> round_f64 (numeral k) = Fin (numeral k)"
  using round_f64_int [of "numeral k"] by simp

end
