(* ===== verification/Lifecycles.thy ===== *)
theory Lifecycles
  imports MES_Prelude
begin

text \<open>
  The status enumerations of the pure domain crate with their wire codecs and transition tables:
  \<^verbatim>\<open>work_order.rs\<close> (work orders, operations), \<^verbatim>\<open>cmms.rs\<close> (triggers, maintenance work orders,
  procurement), \<^verbatim>\<open>qms.rs\<close> (outcomes, NCRs, dispositions), \<^verbatim>\<open>dnc.rs\<close> (transfers, revisions) and
  \<^verbatim>\<open>analytics.rs\<close> (the six big losses), all of \<^verbatim>\<open>mes-core/src\<close>.

  Two interfaces are shared by the handlers that store a status as text and move it: \<open>status_codec\<close>
  (parse and print are inverse) and \<open>lifecycle\<close> (a transition table that only moves forward).
  Each is interpreted on every enumeration that has the operations.
\<close>

named_theorems codec_defs \<open>parse and print functions\<close>
named_theorems lifecycle_defs \<open>transition tables and their ranks\<close>

section \<open>Enumerations and their codecs\<close>

datatype wo_status = WoDraft | WoReleased | WoInProgress | WoCompleted | WoClosed | WoCancelled

definition wo_parse :: "string \<Rightarrow> wo_status option" where
  [codec_defs]: "wo_parse s =
     (if s = ''draft'' then Some WoDraft
      else if s = ''released'' then Some WoReleased
      else if s = ''in_progress'' then Some WoInProgress
      else if s = ''completed'' then Some WoCompleted
      else if s = ''closed'' then Some WoClosed
      else if s = ''cancelled'' then Some WoCancelled
      else None)"

definition wo_as_str :: "wo_status \<Rightarrow> string" where
  [codec_defs]: "wo_as_str s =
     (case s of WoDraft \<Rightarrow> ''draft''
      | WoReleased \<Rightarrow> ''released''
      | WoInProgress \<Rightarrow> ''in_progress''
      | WoCompleted \<Rightarrow> ''completed''
      | WoClosed \<Rightarrow> ''closed''
      | WoCancelled \<Rightarrow> ''cancelled'')"

datatype op_status = OpPending | OpInProgress | OpCompleted

definition op_parse :: "string \<Rightarrow> op_status option" where
  [codec_defs]: "op_parse s =
     (if s = ''pending'' then Some OpPending
      else if s = ''in_progress'' then Some OpInProgress
      else if s = ''completed'' then Some OpCompleted
      else None)"

definition op_as_str :: "op_status \<Rightarrow> string" where
  [codec_defs]: "op_as_str s =
     (case s of OpPending \<Rightarrow> ''pending''
      | OpInProgress \<Rightarrow> ''in_progress''
      | OpCompleted \<Rightarrow> ''completed'')"

datatype pm_trigger = Calendar | UsageHours

definition pm_trigger_parse :: "string \<Rightarrow> pm_trigger option" where
  [codec_defs]: "pm_trigger_parse s =
     (if s = ''calendar'' then Some Calendar
      else if s = ''usage_hours'' then Some UsageHours
      else None)"

definition pm_trigger_as_str :: "pm_trigger \<Rightarrow> string" where
  [codec_defs]: "pm_trigger_as_str s =
     (case s of Calendar \<Rightarrow> ''calendar''
      | UsageHours \<Rightarrow> ''usage_hours'')"

datatype maintenance_type = Pm | Corrective | BreakdownRepair

definition maintenance_type_parse :: "string \<Rightarrow> maintenance_type option" where
  [codec_defs]: "maintenance_type_parse s =
     (if s = ''PM'' then Some Pm
      else if s = ''Corrective'' then Some Corrective
      else if s = ''Breakdown'' then Some BreakdownRepair
      else None)"

definition maintenance_type_as_str :: "maintenance_type \<Rightarrow> string" where
  [codec_defs]: "maintenance_type_as_str s =
     (case s of Pm \<Rightarrow> ''PM''
      | Corrective \<Rightarrow> ''Corrective''
      | BreakdownRepair \<Rightarrow> ''Breakdown'')"

datatype maintenance_status = MwRequested | MwScheduled | MwInProgress | MwCompleted | MwVerified

definition mwo_parse :: "string \<Rightarrow> maintenance_status option" where
  [codec_defs]: "mwo_parse s =
     (if s = ''requested'' then Some MwRequested
      else if s = ''scheduled'' then Some MwScheduled
      else if s = ''in_progress'' then Some MwInProgress
      else if s = ''completed'' then Some MwCompleted
      else if s = ''verified'' then Some MwVerified
      else None)"

definition mwo_as_str :: "maintenance_status \<Rightarrow> string" where
  [codec_defs]: "mwo_as_str s =
     (case s of MwRequested \<Rightarrow> ''requested''
      | MwScheduled \<Rightarrow> ''scheduled''
      | MwInProgress \<Rightarrow> ''in_progress''
      | MwCompleted \<Rightarrow> ''completed''
      | MwVerified \<Rightarrow> ''verified'')"

datatype procurement_status = PrRequested | PrSentToErp | PrFulfilled

definition proc_parse :: "string \<Rightarrow> procurement_status option" where
  [codec_defs]: "proc_parse s =
     (if s = ''requested'' then Some PrRequested
      else if s = ''sent_to_erp'' then Some PrSentToErp
      else if s = ''fulfilled'' then Some PrFulfilled
      else None)"

definition proc_as_str :: "procurement_status \<Rightarrow> string" where
  [codec_defs]: "proc_as_str s =
     (case s of PrRequested \<Rightarrow> ''requested''
      | PrSentToErp \<Rightarrow> ''sent_to_erp''
      | PrFulfilled \<Rightarrow> ''fulfilled'')"

datatype procurement_reason = ReorderPoint | Manual

definition proc_reason_as_str :: "procurement_reason \<Rightarrow> string" where
  [codec_defs]: "proc_reason_as_str s =
     (case s of ReorderPoint \<Rightarrow> ''reorder_point''
      | Manual \<Rightarrow> ''manual'')"

datatype inspection_outcome = Pass | Fail

definition outcome_as_str :: "inspection_outcome \<Rightarrow> string" where
  [codec_defs]: "outcome_as_str s =
     (case s of Pass \<Rightarrow> ''pass''
      | Fail \<Rightarrow> ''fail'')"

datatype ncr_status = NcrOpen | NcrDispositioned | NcrClosed

definition ncr_parse :: "string \<Rightarrow> ncr_status option" where
  [codec_defs]: "ncr_parse s =
     (if s = ''open'' then Some NcrOpen
      else if s = ''dispositioned'' then Some NcrDispositioned
      else if s = ''closed'' then Some NcrClosed
      else None)"

definition ncr_as_str :: "ncr_status \<Rightarrow> string" where
  [codec_defs]: "ncr_as_str s =
     (case s of NcrOpen \<Rightarrow> ''open''
      | NcrDispositioned \<Rightarrow> ''dispositioned''
      | NcrClosed \<Rightarrow> ''closed'')"

datatype disposition = Rework | Scrap | UseAsIs | Return

definition disposition_parse :: "string \<Rightarrow> disposition option" where
  [codec_defs]: "disposition_parse s =
     (if s = ''rework'' then Some Rework
      else if s = ''scrap'' then Some Scrap
      else if s = ''use_as_is'' then Some UseAsIs
      else if s = ''return'' then Some Return
      else None)"

definition disposition_as_str :: "disposition \<Rightarrow> string" where
  [codec_defs]: "disposition_as_str s =
     (case s of Rework \<Rightarrow> ''rework''
      | Scrap \<Rightarrow> ''scrap''
      | UseAsIs \<Rightarrow> ''use_as_is''
      | Return \<Rightarrow> ''return'')"

datatype transfer_direction = ToMachine | FromMachine

definition direction_as_str :: "transfer_direction \<Rightarrow> string" where
  [codec_defs]: "direction_as_str s =
     (case s of ToMachine \<Rightarrow> ''to_machine''
      | FromMachine \<Rightarrow> ''from_machine'')"

datatype transfer_status = TrScheduled | TrNotified | TrFetched | TrCompleted | TrFailed

definition transfer_parse :: "string \<Rightarrow> transfer_status option" where
  [codec_defs]: "transfer_parse s =
     (if s = ''scheduled'' then Some TrScheduled
      else if s = ''notified'' then Some TrNotified
      else if s = ''fetched'' then Some TrFetched
      else if s = ''completed'' then Some TrCompleted
      else if s = ''failed'' then Some TrFailed
      else None)"

definition transfer_as_str :: "transfer_status \<Rightarrow> string" where
  [codec_defs]: "transfer_as_str s =
     (case s of TrScheduled \<Rightarrow> ''scheduled''
      | TrNotified \<Rightarrow> ''notified''
      | TrFetched \<Rightarrow> ''fetched''
      | TrCompleted \<Rightarrow> ''completed''
      | TrFailed \<Rightarrow> ''failed'')"

datatype revision_status = RevDraft | RevPromoted | RevRejected

definition revision_parse :: "string \<Rightarrow> revision_status option" where
  [codec_defs]: "revision_parse s =
     (if s = ''draft'' then Some RevDraft
      else if s = ''promoted'' then Some RevPromoted
      else if s = ''rejected'' then Some RevRejected
      else None)"

definition revision_as_str :: "revision_status \<Rightarrow> string" where
  [codec_defs]: "revision_as_str s =
     (case s of RevDraft \<Rightarrow> ''draft''
      | RevPromoted \<Rightarrow> ''promoted''
      | RevRejected \<Rightarrow> ''rejected'')"

datatype six_big_loss = Breakdown | SetupAdjustment | MinorStop | ReducedSpeed | StartupReject | ProductionReject

definition loss_parse :: "string \<Rightarrow> six_big_loss option" where
  [codec_defs]: "loss_parse s =
     (if s = ''breakdown'' then Some Breakdown
      else if s = ''setup_adjustment'' then Some SetupAdjustment
      else if s = ''minor_stop'' then Some MinorStop
      else if s = ''reduced_speed'' then Some ReducedSpeed
      else if s = ''startup_reject'' then Some StartupReject
      else if s = ''production_reject'' then Some ProductionReject
      else None)"

definition loss_as_str :: "six_big_loss \<Rightarrow> string" where
  [codec_defs]: "loss_as_str s =
     (case s of Breakdown \<Rightarrow> ''breakdown''
      | SetupAdjustment \<Rightarrow> ''setup_adjustment''
      | MinorStop \<Rightarrow> ''minor_stop''
      | ReducedSpeed \<Rightarrow> ''reduced_speed''
      | StartupReject \<Rightarrow> ''startup_reject''
      | ProductionReject \<Rightarrow> ''production_reject'')"

section \<open>Transition tables and other predicates\<close>

definition wo_is_terminal :: "wo_status \<Rightarrow> bool" where
  [lifecycle_defs]: "wo_is_terminal s = (case s of WoClosed \<Rightarrow> True | WoCancelled \<Rightarrow> True | _ \<Rightarrow> False)"

definition wo_can_transition :: "wo_status \<Rightarrow> wo_status \<Rightarrow> bool" where
  [lifecycle_defs]: "wo_can_transition s t = ((s, t) \<in>
     {(WoDraft, WoReleased), (WoDraft, WoCancelled), (WoReleased, WoInProgress),
      (WoReleased, WoCancelled), (WoInProgress, WoCompleted), (WoInProgress, WoCancelled),
      (WoCompleted, WoClosed)})"

definition op_can_transition :: "op_status \<Rightarrow> op_status \<Rightarrow> bool" where
  [lifecycle_defs]: "op_can_transition s t = ((s, t) \<in> {(OpPending, OpInProgress), (OpInProgress, OpCompleted)})"

definition mwo_can_transition :: "maintenance_status \<Rightarrow> maintenance_status \<Rightarrow> bool" where
  [lifecycle_defs]: "mwo_can_transition s t = ((s, t) \<in>
     {(MwRequested, MwScheduled), (MwScheduled, MwInProgress), (MwInProgress, MwCompleted),
      (MwCompleted, MwVerified)})"

definition proc_can_transition :: "procurement_status \<Rightarrow> procurement_status \<Rightarrow> bool" where
  [lifecycle_defs]: "proc_can_transition s t = ((s, t) \<in> {(PrRequested, PrSentToErp), (PrSentToErp, PrFulfilled)})"

definition ncr_can_transition :: "ncr_status \<Rightarrow> ncr_status \<Rightarrow> bool" where
  [lifecycle_defs]: "ncr_can_transition s t = ((s, t) \<in> {(NcrOpen, NcrDispositioned), (NcrDispositioned, NcrClosed)})"

definition releases_hold :: "disposition \<Rightarrow> bool" where
  "releases_hold d = (case d of Rework \<Rightarrow> True | UseAsIs \<Rightarrow> True | _ \<Rightarrow> False)"

definition transfer_is_terminal :: "transfer_status \<Rightarrow> bool" where
  [lifecycle_defs]: "transfer_is_terminal s = (case s of TrCompleted \<Rightarrow> True | TrFailed \<Rightarrow> True | _ \<Rightarrow> False)"

definition transfer_can_transition :: "transfer_status \<Rightarrow> transfer_status \<Rightarrow> bool" where
  [lifecycle_defs]: "transfer_can_transition s t =
     (if t = TrFailed then \<not> transfer_is_terminal s
      else (s, t) \<in>
        {(TrScheduled, TrNotified), (TrScheduled, TrFetched), (TrScheduled, TrCompleted),
         (TrNotified, TrFetched), (TrNotified, TrCompleted), (TrFetched, TrCompleted)})"

definition revision_can_transition :: "revision_status \<Rightarrow> revision_status \<Rightarrow> bool" where
  [lifecycle_defs]: "revision_can_transition s t = ((s, t) \<in> {(RevDraft, RevPromoted), (RevDraft, RevRejected)})"

fun oee_bucket :: "six_big_loss \<Rightarrow> string" where
  "oee_bucket Breakdown = ''availability''"
| "oee_bucket SetupAdjustment = ''availability''"
| "oee_bucket MinorStop = ''performance''"
| "oee_bucket ReducedSpeed = ''performance''"
| "oee_bucket StartupReject = ''quality''"
| "oee_bucket ProductionReject = ''quality''"

section \<open>Interfaces\<close>

locale status_codec =
  fixes parse :: "string \<Rightarrow> 'a option" and as_str :: "'a \<Rightarrow> string"
  assumes parse_as_str: "parse (as_str x) = Some x"
    and as_str_parse: "parse t = Some x \<Longrightarrow> as_str x = t"
begin

lemma parse_iff: "parse t = Some x \<longleftrightarrow> t = as_str x"
  using parse_as_str as_str_parse by blast

lemma as_str_inject: "as_str x = as_str y \<longleftrightarrow> x = y"
  by (metis parse_as_str option.inject)

lemma parse_None: "parse t = None \<longleftrightarrow> t \<notin> range as_str"
  by (cases "parse t") (auto simp: parse_as_str dest: as_str_parse)

end

text \<open>A forward-only transition table: every allowed move raises the rank.\<close>

locale lifecycle = status_codec parse as_str
  for parse :: "string \<Rightarrow> 'a option" and as_str +
  fixes can :: "'a \<Rightarrow> 'a \<Rightarrow> bool" and rank :: "'a \<Rightarrow> nat"
  assumes forward: "can x y \<Longrightarrow> rank x < rank y"
begin

lemma reach_rank: "can\<^sup>*\<^sup>* x y \<Longrightarrow> rank x \<le> rank y"
  by (induction rule: rtranclp_induct) (auto dest: forward)

lemma proper_reach_rank: "can\<^sup>+\<^sup>+ x y \<Longrightarrow> rank x < rank y"
  by (induction rule: tranclp_induct) (auto dest: forward)

lemma no_return: "can\<^sup>+\<^sup>+ x y \<Longrightarrow> \<not> can\<^sup>*\<^sup>* y x"
  using proper_reach_rank reach_rank by fastforce

lemma no_loop: "\<not> can x x"
  using forward by blast

lemma run_length: "(can ^^ n) x y \<Longrightarrow> rank x + n \<le> rank y"
proof (induction n arbitrary: y)
  case (Suc n)
  then obtain z where "(can ^^ n) x z" "can z y" by auto
  with Suc.IH [of z] forward [of z y] show ?case by auto
qed simp

end

text \<open>
  The contract of a guarded status change: a call names an entity and a target, and either leaves
  the stored status alone or moves it along an allowed edge to the target; other entities keep
  theirs.  Whatever sequence of calls is made, a status only ever moves forward.
\<close>

definition reached ::
  "('a \<Rightarrow> 'a \<Rightarrow> bool) \<Rightarrow> ('a \<Rightarrow> string) \<Rightarrow> ('s \<Rightarrow> string \<Rightarrow> string option) \<Rightarrow> 'a \<Rightarrow> string \<Rightarrow> 's \<Rightarrow> bool" where
  "reached can as_str status y j s \<longleftrightarrow> (\<exists>z. status s j = Some (as_str z) \<and> can\<^sup>*\<^sup>* y z)"

lemma reached_start: "status s j = Some (as_str y) \<Longrightarrow> reached can as_str status y j s"
  by (auto simp: reached_def)

locale guarded_status = lifecycle parse as_str can rank
  for parse :: "string \<Rightarrow> 'a option" and as_str and can and rank +
  fixes status :: "'s \<Rightarrow> string \<Rightarrow> string option"
    and call :: "'c \<Rightarrow> string \<Rightarrow> 'a \<Rightarrow> 's \<Rightarrow> 's"
  assumes call_self: "status (call c i x s) i = status s i \<or>
      (\<exists>y. status s i = Some (as_str y) \<and> can y x \<and> status (call c i x s) i = Some (as_str x))"
    and call_other: "j \<noteq> i \<Longrightarrow> status (call c i x s) j = status s j"
begin

lemma call_step:
  assumes "status s j = Some (as_str y)"
  obtains z where "status (call c i x s) j = Some (as_str z)" "z = y \<or> can y z"
proof (cases "j = i")
  case True
  with call_self [of c i x s] assms that show thesis by (auto simp: as_str_inject)
next
  case False
  with call_other [OF this] assms that show thesis by simp
qed

lemma call_reached:
  assumes "reached can as_str status y j s"
  shows "reached can as_str status y j (call c i x s)"
proof -
  from assms obtain z where z: "status s j = Some (as_str z)" "can\<^sup>*\<^sup>* y z"
    by (auto simp: reached_def)
  obtain w where "status (call c i x s) j = Some (as_str w)" "w = z \<or> can z w"
    using call_step [OF z(1)] .
  with z(2) show ?thesis by (auto simp: reached_def intro: rtranclp.rtrancl_into_rtrancl)
qed

lemma calls_reached:
  "reached can as_str status y j s \<Longrightarrow>
     reached can as_str status y j (fold (\<lambda>(c, i, x). call c i x) cs s)"
  by (induction cs arbitrary: s) (auto simp: call_reached)

lemma reached_final:
  "(\<And>z. \<not> can y z) \<Longrightarrow> reached can as_str status y j s \<Longrightarrow> status s j = Some (as_str y)"
  by (metis converse_rtranclpE reached_def)

lemma reached_no_return:
  assumes "reached can as_str status y j s" "can x y"
  shows "status s j \<noteq> Some (as_str x)"
proof
  assume "status s j = Some (as_str x)"
  with assms(1) have "can\<^sup>*\<^sup>* y x" by (auto simp: reached_def as_str_inject)
  with assms(2) no_return [of x y] show False by blast
qed

end

section \<open>Interpretations\<close>

definition wo_rank :: "wo_status \<Rightarrow> nat" where
  [lifecycle_defs]: "wo_rank s =
     (case s of WoDraft \<Rightarrow> 0 | WoReleased \<Rightarrow> 1 | WoInProgress \<Rightarrow> 2 | WoCompleted \<Rightarrow> 3 | WoClosed \<Rightarrow> 4 | WoCancelled \<Rightarrow> 4)"

definition op_rank :: "op_status \<Rightarrow> nat" where
  [lifecycle_defs]: "op_rank s =
     (case s of OpPending \<Rightarrow> 0 | OpInProgress \<Rightarrow> 1 | OpCompleted \<Rightarrow> 2)"

definition mwo_rank :: "maintenance_status \<Rightarrow> nat" where
  [lifecycle_defs]: "mwo_rank s =
     (case s of MwRequested \<Rightarrow> 0 | MwScheduled \<Rightarrow> 1 | MwInProgress \<Rightarrow> 2 | MwCompleted \<Rightarrow> 3 | MwVerified \<Rightarrow> 4)"

definition proc_rank :: "procurement_status \<Rightarrow> nat" where
  [lifecycle_defs]: "proc_rank s =
     (case s of PrRequested \<Rightarrow> 0 | PrSentToErp \<Rightarrow> 1 | PrFulfilled \<Rightarrow> 2)"

definition ncr_rank :: "ncr_status \<Rightarrow> nat" where
  [lifecycle_defs]: "ncr_rank s =
     (case s of NcrOpen \<Rightarrow> 0 | NcrDispositioned \<Rightarrow> 1 | NcrClosed \<Rightarrow> 2)"

definition transfer_rank :: "transfer_status \<Rightarrow> nat" where
  [lifecycle_defs]: "transfer_rank s =
     (case s of TrScheduled \<Rightarrow> 0 | TrNotified \<Rightarrow> 1 | TrFetched \<Rightarrow> 2 | TrCompleted \<Rightarrow> 3 | TrFailed \<Rightarrow> 3)"

definition revision_rank :: "revision_status \<Rightarrow> nat" where
  [lifecycle_defs]: "revision_rank s =
     (case s of RevDraft \<Rightarrow> 0 | RevPromoted \<Rightarrow> 1 | RevRejected \<Rightarrow> 1)"

interpretation wo: lifecycle wo_parse wo_as_str wo_can_transition wo_rank
  by unfold_locales
    (auto simp: codec_defs lifecycle_defs split: wo_status.splits if_splits)

interpretation op: lifecycle op_parse op_as_str op_can_transition op_rank
  by unfold_locales
    (auto simp: codec_defs lifecycle_defs split: op_status.splits if_splits)

interpretation pm_trigger: status_codec pm_trigger_parse pm_trigger_as_str
  by unfold_locales
    (auto simp: codec_defs lifecycle_defs split: pm_trigger.splits if_splits)

interpretation maintenance_type: status_codec maintenance_type_parse maintenance_type_as_str
  by unfold_locales
    (auto simp: codec_defs lifecycle_defs split: maintenance_type.splits if_splits)

interpretation mwo: lifecycle mwo_parse mwo_as_str mwo_can_transition mwo_rank
  by unfold_locales
    (auto simp: codec_defs lifecycle_defs split: maintenance_status.splits if_splits)

interpretation proc: lifecycle proc_parse proc_as_str proc_can_transition proc_rank
  by unfold_locales
    (auto simp: codec_defs lifecycle_defs split: procurement_status.splits if_splits)

interpretation ncr: lifecycle ncr_parse ncr_as_str ncr_can_transition ncr_rank
  by unfold_locales
    (auto simp: codec_defs lifecycle_defs split: ncr_status.splits if_splits)

interpretation disposition: status_codec disposition_parse disposition_as_str
  by unfold_locales
    (auto simp: codec_defs lifecycle_defs split: disposition.splits if_splits)

interpretation transfer: lifecycle transfer_parse transfer_as_str transfer_can_transition transfer_rank
  by unfold_locales
    (auto simp: codec_defs lifecycle_defs split: transfer_status.splits if_splits)

interpretation revision: lifecycle revision_parse revision_as_str revision_can_transition revision_rank
  by unfold_locales
    (auto simp: codec_defs lifecycle_defs split: revision_status.splits if_splits)

interpretation loss: status_codec loss_parse loss_as_str
  by unfold_locales
    (auto simp: codec_defs lifecycle_defs split: six_big_loss.splits if_splits)

end
