(* ===== verification/Database.thy ===== *)
theory Database
  imports Json F64 Lifecycles
begin

text \<open>
  The substrate every service component shares: rows and tables, the errors of the SQL layer and
  their translation (\<^verbatim>\<open>repo.rs\<close>, \<^verbatim>\<open>api.rs\<close>), the authorisation policy (\<^verbatim>\<open>roles.rs\<close>, \<^verbatim>\<open>extract.rs\<close>),
  the audit log, the event bus (\<^verbatim>\<open>ws.rs\<close>, \<^verbatim>\<open>AppState::publish\<close>) and the outbox
  (\<^verbatim>\<open>repo_sync::enqueue\<close>).

  A table is the list of its rows in insertion order.  The state is an extensible record: each
  component adds its own tables to the record of the components it uses, and its operations work
  on every extension.  Identifiers (ULIDs) and clock readings come from outside the repository and
  are arguments: \<open>nid\<close> or a supply \<open>ids\<close> gives the identifiers drawn, \<open>now\<close> is the clock, read
  once per request.  32-bit columns are integers with the range check the database makes.
\<close>

section \<open>Rows\<close>

record user_row =
  us_id :: string
  us_username :: string
  us_display_name :: string
  us_role_code :: string
  us_password_hash :: "string option"
  us_pin_hash :: "string option"
  us_badge_id :: "string option"
  us_active :: bool
  us_created_at :: timestamp
  us_updated_at :: timestamp

record part_row =
  pt_id :: string
  pt_code :: string
  pt_name :: string
  pt_uom :: string
  pt_created_at :: timestamp
  pt_updated_at :: timestamp

record work_center_row =
  wc_id :: string
  wc_area_id :: string
  wc_code :: string
  wc_name :: string
  wc_external_ref :: "string option"
  wc_ideal_cycle_seconds :: "rat option"
  wc_created_at :: timestamp
  wc_updated_at :: timestamp

record routing_row =
  rt_id :: string
  rt_part_id :: string

record routing_op_row =
  ro_id :: string
  ro_routing_id :: string
  ro_work_center_id :: "string option"

record audit_row =
  au_id :: string
  au_actor_id :: "string option"
  au_action :: string
  au_entity :: string
  au_entity_id :: "string option"
  au_detail :: "json option"
  au_created_at :: timestamp

record outbox_row =
  ob_id :: string
  ob_aggregate :: string
  ob_entity_id :: string
  ob_op :: string
  ob_payload :: json
  ob_destination :: "string option"
  ob_created_at :: timestamp
  ob_synced_at :: "timestamp option"

datatype ws_event =
    WorkOrderStatusChanged string string
  | OperationStarted string string
  | OperationCompleted string string
  | CountRecorded string int int
  | DowntimeClassified string string
  | DncTransferScheduled string string string "string option"
  | DncTransferCompleted string
  | ProgramRevisionDrafted string string
  | OeeSnapshot string f64 f64 f64 f64
  | NcrRaised string string "string option"

text \<open>
  The base of the state: whether a pool is configured, the reference tables, the audit log, the
  outbox and the events published so far.  Routings and routing operations are never written by the
  program, only referenced and deleted with their part, so only their keys and references are kept.
\<close>

record mes_base =
  has_pool :: bool
  t_users :: "user_row list"
  t_parts :: "part_row list"
  t_work_centers :: "work_center_row list"
  t_routings :: "routing_row list"
  t_routing_ops :: "routing_op_row list"
  t_audit_log :: "audit_row list"
  t_outbox :: "outbox_row list"
  ws_events :: "ws_event list"

section \<open>Errors\<close>

datatype sqlx_error = RowNotFound | SqlState string string

datatype repo_error = NotFound | Conflict string | InvalidReference string | DbError sqlx_error

definition map_sqlx :: "sqlx_error \<Rightarrow> repo_error" where
  "map_sqlx e =
     (case e of
        RowNotFound \<Rightarrow> NotFound
      | SqlState code msg \<Rightarrow>
          if code = ''23505'' then Conflict msg
          else if code = ''23503'' then InvalidReference msg
          else DbError e)"

datatype api_err = ApiErr (err_status: nat) (err_code: string) (err_msg: string)

definition repo_err :: "repo_error \<Rightarrow> api_err" where
  "repo_err e =
     (case e of
        NotFound \<Rightarrow> ApiErr 404 ''not_found'' ''resource not found''
      | Conflict m \<Rightarrow> ApiErr 409 ''conflict'' m
      | InvalidReference m \<Rightarrow> ApiErr 400 ''invalid_reference'' m
      | DbError _ \<Rightarrow> ApiErr 500 ''internal'' ''database error'')"

text \<open>The database's own errors: unique and foreign-key violations, integer range.\<close>

definition quoted :: "string \<Rightarrow> string" where
  "quoted s = [CHR 0x22] @ s @ [CHR 0x22]"

definition dup_key :: "string \<Rightarrow> sqlx_error" where
  "dup_key c = SqlState ''23505'' (''duplicate key value violates unique constraint '' @ quoted c)"

definition bad_ref :: "string \<Rightarrow> string \<Rightarrow> sqlx_error" where
  "bad_ref t c = SqlState ''23503''
     (''insert or update on table '' @ quoted t @ '' violates foreign key constraint '' @ quoted c)"

definition out_of_range :: sqlx_error where
  "out_of_range = SqlState ''22003'' ''integer out of range''"

definition in_i32 :: "int \<Rightarrow> bool" where
  "in_i32 n \<longleftrightarrow> - (2 ^ 31) \<le> n \<and> n < 2 ^ 31"

section \<open>Statements\<close>

text \<open>
  A writing statement has the violations the schema checks, in the order the database reports
  them, and its effect when there is none.
\<close>

definition sql_exec_by ::
  "(sqlx_error \<Rightarrow> repo_error) \<Rightarrow> ('s \<Rightarrow> (bool \<times> sqlx_error) list) \<Rightarrow> ('s \<Rightarrow> 's)
    \<Rightarrow> ('s, repo_error, unit) prog" where
  "sql_exec_by mapping violations f =
     (\<lambda>s. case find fst (violations s) of
            Some (_, e) \<Rightarrow> (Inl (mapping e), s)
          | None \<Rightarrow> (Inr (), f s))"

definition sql_exec :: "('s \<Rightarrow> (bool \<times> sqlx_error) list) \<Rightarrow> ('s \<Rightarrow> 's) \<Rightarrow> ('s, repo_error, unit) prog" where
  "sql_exec = sql_exec_by map_sqlx"

definition has_key :: "('r \<Rightarrow> 'k) \<Rightarrow> 'k \<Rightarrow> 'r list \<Rightarrow> bool" where
  "has_key key k rows \<longleftrightarrow> k \<in> key ` set rows"

definition missing_ref :: "('r \<Rightarrow> 'k) \<Rightarrow> 'k option \<Rightarrow> 'r list \<Rightarrow> bool" where
  "missing_ref key k rows \<longleftrightarrow> (case k of None \<Rightarrow> False | Some x \<Rightarrow> \<not> has_key key x rows)"

definition find_row :: "('r \<Rightarrow> 'k) \<Rightarrow> 'k \<Rightarrow> 'r list \<Rightarrow> 'r option" where
  "find_row key k rows = find (\<lambda>r. key r = k) rows"

definition update_where :: "('r \<Rightarrow> bool) \<Rightarrow> ('r \<Rightarrow> 'r) \<Rightarrow> 'r list \<Rightarrow> 'r list" where
  "update_where P f rows = map (\<lambda>r. if P r then f r else r) rows"

text \<open>
  UPDATE of the row with a given key, returning it; an unknown key is the fetch's missing row.  The
  schema's checks run only when there is a row to update.
\<close>

definition sql_update ::
  "('s \<Rightarrow> 'r option) \<Rightarrow> ('s \<Rightarrow> 'r \<Rightarrow> (bool \<times> sqlx_error) list) \<Rightarrow> ('r \<Rightarrow> 'r) \<Rightarrow> ('s \<Rightarrow> 's)
    \<Rightarrow> ('s, repo_error, 'r) prog" where
  "sql_update row violations upd f =
     (\<lambda>s. case row s of
            None \<Rightarrow> (Inl NotFound, s)
          | Some r \<Rightarrow>
              (case find fst (violations s r) of
                 Some (_, e) \<Rightarrow> (Inl (map_sqlx e), s)
               | None \<Rightarrow> (Inr (upd r), f s)))"

lemma sql_update_eval [prog_simps]:
  "sql_update row v upd f s =
     (case row s of
        None \<Rightarrow> (Inl NotFound, s)
      | Some r \<Rightarrow> (case find fst (v s r) of Some (_, e) \<Rightarrow> (Inl (map_sqlx e), s)
                  | None \<Rightarrow> (Inr (upd r), f s)))"
  by (simp add: sql_update_def)

lemma sql_exec_by_eval [prog_simps]:
  "sql_exec_by m v f s =
     (case find fst (v s) of Some (_, e) \<Rightarrow> (Inl (m e), s) | None \<Rightarrow> (Inr (), f s))"
  by (simp add: sql_exec_by_def)

lemma sql_exec_eval [prog_simps]:
  "sql_exec v f s =
     (case find fst (v s) of Some (_, e) \<Rightarrow> (Inl (map_sqlx e), s) | None \<Rightarrow> (Inr (), f s))"
  by (simp add: sql_exec_def sql_exec_by_def)

lemma sql_exec_by_InrD:
  "sql_exec_by m v f s = (Inr u, s') \<Longrightarrow> s' = f s \<and> (\<forall>(b, e)\<in>set (v s). \<not> b)"
  by (auto simp: sql_exec_by_def find_None_iff split: option.splits prod.splits)

lemma sql_exec_InrD:
  "sql_exec v f s = (Inr u, s') \<Longrightarrow> s' = f s \<and> (\<forall>(b, e)\<in>set (v s). \<not> b)"
  by (simp add: sql_exec_def sql_exec_by_InrD)

lemma preserves_sql_exec_by:
  "(\<And>s. I s \<Longrightarrow> (\<forall>(b, e)\<in>set (v s). \<not> b) \<Longrightarrow> I (f s)) \<Longrightarrow> preserves I (sql_exec_by m v f)"
  by (auto simp: preserves_def sql_exec_by_def find_None_iff split: option.splits prod.splits)

lemma preserves_sql_exec:
  "(\<And>s. I s \<Longrightarrow> (\<forall>(b, e)\<in>set (v s). \<not> b) \<Longrightarrow> I (f s)) \<Longrightarrow> preserves I (sql_exec v f)"
  unfolding sql_exec_def by (rule preserves_sql_exec_by)

lemma preserves_sql_update:
  "(\<And>s r. I s \<Longrightarrow> row s = Some r \<Longrightarrow> (\<forall>(b, e)\<in>set (v s r). \<not> b) \<Longrightarrow> I (f s)) \<Longrightarrow>
     preserves I (sql_update row v upd f)"
  by (auto simp: preserves_def sql_update_def find_None_iff split: option.splits prod.splits)

lemma sql_update_InrD:
  "sql_update row v upd f s = (Inr r', s') \<Longrightarrow>
     \<exists>r. row s = Some r \<and> r' = upd r \<and> s' = f s \<and> (\<forall>(b, e)\<in>set (v s r). \<not> b)"
  by (auto simp: sql_update_def find_None_iff split: option.splits prod.splits)

lemma has_key_simps [table_simps]:
  "has_key key k [] = False"
  "has_key key k (r # rows) = (key r = k \<or> has_key key k rows)"
  "has_key key k (rows @ rows') = (has_key key k rows \<or> has_key key k rows')"
  by (auto simp: has_key_def)

lemma find_row_simps [table_simps]:
  "find_row key k [] = None"
  "find_row key k (r # rows) = (if key r = k then Some r else find_row key k rows)"
  by (simp_all add: find_row_def)

lemma find_row_SomeD: "find_row key k rows = Some r \<Longrightarrow> r \<in> set rows \<and> key r = k"
  by (auto simp: find_row_def find_Some_iff)

lemma find_row_None_iff: "find_row key k rows = None \<longleftrightarrow> \<not> has_key key k rows"
  by (auto simp: find_row_def find_None_iff has_key_def)

lemma find_row_append [table_simps]:
  "find_row key k (rows @ rows') =
     (case find_row key k rows of Some r \<Rightarrow> Some r | None \<Rightarrow> find_row key k rows')"
  by (induction rows) (auto simp: table_simps)

lemma find_row_unique:
  "distinct (map key rows) \<Longrightarrow> r \<in> set rows \<Longrightarrow> find_row key (key r) rows = Some r"
  by (induction rows) (force simp: table_simps)+

lemma update_where_unmatched: "(\<And>r. r \<in> set rows \<Longrightarrow> \<not> P r) \<Longrightarrow> update_where P f rows = rows"
  by (simp add: update_where_def map_idI)

lemma update_where_Cons:
  "update_where P f (r # rows) = (if P r then f r else r) # update_where P f rows"
  by (simp add: update_where_def)

text \<open>
  The contract of an UPDATE that does not touch the primary key: the setter keeps the key.  Lookups
  by key see the setter's effect on the rows it selects and nothing else.
\<close>

locale row_update =
  fixes key :: "'r \<Rightarrow> 'k" and upd :: "'r \<Rightarrow> 'r"
  assumes keeps_key: "key (upd r) = key r"
begin

lemma keys_update: "map key (update_where P upd rows) = map key rows"
  by (simp add: update_where_def keeps_key comp_def if_distrib [of key])

lemma has_key_update: "has_key key k (update_where P upd rows) = has_key key k rows"
  using keys_update [of P rows] by (metis has_key_def list.set_map)

lemma find_update:
  "find_row key k (update_where P upd rows) =
     map_option (\<lambda>r. if P r then upd r else r) (find_row key k rows)"
  by (induction rows) (auto simp: find_row_def update_where_def keeps_key)

lemma find_update_key:
  "find_row key k (update_where (\<lambda>r. key r = k') upd rows) =
     (if k = k' then map_option upd (find_row key k rows) else find_row key k rows)"
proof (cases "find_row key k rows")
  case (Some r)
  with find_row_SomeD [OF Some] show ?thesis by (auto simp: find_update)
qed (auto simp: find_update)

lemma set_update:
  "set (update_where P upd rows) = upd ` {r\<in>set rows. P r} \<union> {r\<in>set rows. \<not> P r}"
  by (auto simp: update_where_def)

end

section \<open>Roles\<close>

definition can_write_master :: "string \<Rightarrow> bool" where
  "can_write_master role_code \<longleftrightarrow> role_code \<in> {''Admin'', ''Planner''}"

definition can_read_master :: "string \<Rightarrow> bool" where
  "can_read_master role_code \<longleftrightarrow> True"

definition can_promote_revision :: "string \<Rightarrow> bool" where
  "can_promote_revision role_code \<longleftrightarrow> role_code \<in> {''Admin'', ''Planner'', ''Supervisor''}"

definition can_manage_quality :: "string \<Rightarrow> bool" where
  "can_manage_quality role_code \<longleftrightarrow> role_code \<in> {''Admin'', ''Supervisor'', ''Quality''}"

definition can_manage_maintenance :: "string \<Rightarrow> bool" where
  "can_manage_maintenance role_code \<longleftrightarrow> role_code \<in> {''Admin'', ''Supervisor'', ''Maintenance''}"

record auth_user =
  user_id :: string
  role :: string

text \<open>
  The extractors.  A handler that takes an authenticated user starts after \<open>auth_user_from_request\<close>;
  one that takes a master writer starts with \<open>master_writer\<close>.  Token decoding is a parameter.
\<close>

definition strip_prefix :: "string \<Rightarrow> string \<Rightarrow> string option" where
  "strip_prefix p s = (if take (length p) s = p then Some (drop (length p) s) else None)"

definition auth_user_from_request ::
  "(string \<Rightarrow> (string \<times> string) option) \<Rightarrow> string option \<Rightarrow> api_err + auth_user" where
  "auth_user_from_request decode_token header =
     (case header of
        None \<Rightarrow> Inl (ApiErr 401 ''unauthorized'' ''missing Authorization header'')
      | Some h \<Rightarrow>
          (case strip_prefix ''Bearer '' h of
             None \<Rightarrow> Inl (ApiErr 401 ''unauthorized'' ''expected Bearer token'')
           | Some token \<Rightarrow>
               (case decode_token token of
                  None \<Rightarrow> Inl (ApiErr 401 ''unauthorized'' ''invalid or expired token'')
                | Some (sub, r) \<Rightarrow> Inr \<lparr>user_id = sub, role = r\<rparr>)))"

definition master_writer :: "auth_user \<Rightarrow> ('s, api_err, auth_user) prog" where
  "master_writer u =
     (if can_write_master (role u) then ret u
      else throw (ApiErr 403 ''forbidden'' ''role may not modify master data''))"

section \<open>Shared operations\<close>

definition require_pool :: "('s mes_base_scheme, api_err, unit) prog" where
  "require_pool = (\<lambda>s. guard (has_pool s) (ApiErr 503 ''unavailable'' ''database not configured'') s)"

definition publish :: "ws_event \<Rightarrow> 's mes_base_scheme \<Rightarrow> 's mes_base_scheme" where
  "publish e s = s\<lparr>ws_events := ws_events s @ [e]\<rparr>"

definition insert_audit ::
  "string \<Rightarrow> timestamp \<Rightarrow> string option \<Rightarrow> string \<Rightarrow> string \<Rightarrow> string option \<Rightarrow> json option
    \<Rightarrow> ('s mes_base_scheme, repo_error, string) prog" where
  "insert_audit nid now actor_id action entity entity_id detail =
     andThen
       (sql_exec
          (\<lambda>s. [(has_key au_id nid (t_audit_log s), dup_key ''audit_log_pkey''),
                (missing_ref us_id actor_id (t_users s),
                 bad_ref ''audit_log'' ''audit_log_actor_id_fkey'')])
          (\<lambda>s. s\<lparr>t_audit_log := t_audit_log s @
                 [\<lparr>au_id = nid, au_actor_id = actor_id, au_action = action, au_entity = entity,
                   au_entity_id = entity_id, au_detail = detail, au_created_at = now\<rparr>]\<rparr>))
       (\<lambda>_. ret nid)"

text \<open>Auditing is best-effort: a failed insert is logged and the request goes on.\<close>

definition audit ::
  "string \<Rightarrow> timestamp \<Rightarrow> string option \<Rightarrow> string \<Rightarrow> string \<Rightarrow> string option \<Rightarrow> json option
    \<Rightarrow> 's mes_base_scheme \<Rightarrow> 's mes_base_scheme" where
  "audit nid now actor_id action entity entity_id detail s =
     snd (insert_audit nid now actor_id action entity entity_id detail s)"

definition count_audit_for_entity :: "string \<Rightarrow> 's mes_base_scheme \<Rightarrow> nat" where
  "count_audit_for_entity entity s = length (filter (\<lambda>r. au_entity r = entity) (t_audit_log s))"

definition enqueue ::
  "string \<Rightarrow> timestamp \<Rightarrow> string \<Rightarrow> string \<Rightarrow> string \<Rightarrow> json \<Rightarrow> string option
    \<Rightarrow> ('s mes_base_scheme, repo_error, string) prog" where
  "enqueue nid now aggregate entity_id op payload destination =
     andThen
       (sql_exec (\<lambda>s. [(has_key ob_id nid (t_outbox s), dup_key ''outbox_pkey'')])
          (\<lambda>s. s\<lparr>t_outbox := t_outbox s @
                 [\<lparr>ob_id = nid, ob_aggregate = aggregate, ob_entity_id = entity_id, ob_op = op,
                   ob_payload = payload, ob_destination = destination, ob_created_at = now,
                   ob_synced_at = None\<rparr>]\<rparr>))
       (\<lambda>_. ret nid)"

lemma preserves_require_pool [preserves_rules]: "preserves I require_pool"
  by (simp add: preserves_def require_pool_def guard_eval)

lemma preserves_master_writer [preserves_rules]: "preserves I (master_writer u)"
  by (simp add: preserves_def master_writer_def ret_def throw_def)

lemma require_pool_eval [prog_simps]:
  "require_pool s = (if has_pool s then (Inr (), s)
     else (Inl (ApiErr 503 ''unavailable'' ''database not configured''), s))"
  by (simp add: require_pool_def guard_eval)

lemma master_writer_eval [prog_simps]:
  "master_writer u s = (if can_write_master (role u) then (Inr u, s)
     else (Inl (ApiErr 403 ''forbidden'' ''role may not modify master data''), s))"
  by (simp add: master_writer_def prog_simps)

text \<open>
  How third-party serialisers write decimals and instants, and read them and 32-bit integers back.
  Instants are written and read in the microseconds of the database and, where a handler compares what it
  was sent, in the nanoseconds of chrono; the last field is the message of a failed read.
\<close>

record wire =
  dec_to_json :: "rat \<Rightarrow> json"
  dec_of_json :: "json \<Rightarrow> rat option"
  ts_to_json :: "timestamp \<Rightarrow> json"
  ts_of_json :: "json \<Rightarrow> timestamp option"
  instant_to_json :: "int \<Rightarrow> json"
  instant_of_json :: "json \<Rightarrow> int option"
  i32_of_json :: "json \<Rightarrow> int option"
  de_error :: "json \<Rightarrow> string"

text \<open>Auditing and publishing touch only their own fields.\<close>

lemma audit_frame [simp]:
  "has_pool (audit n t a b c d e s) = has_pool s"
  "t_users (audit n t a b c d e s) = t_users s"
  "t_parts (audit n t a b c d e s) = t_parts s"
  "t_work_centers (audit n t a b c d e s) = t_work_centers s"
  "t_outbox (audit n t a b c d e s) = t_outbox s"
  "ws_events (audit n t a b c d e s) = ws_events s"
  "mes_base.more (audit n t a b c d e s) = mes_base.more s"
  by (simp_all add: audit_def insert_audit_def prog_simps split: option.split)

lemma publish_frame [simp]:
  "has_pool (publish e s) = has_pool s"
  "t_users (publish e s) = t_users s"
  "t_parts (publish e s) = t_parts s"
  "t_work_centers (publish e s) = t_work_centers s"
  "t_audit_log (publish e s) = t_audit_log s"
  "t_outbox (publish e s) = t_outbox s"
  "ws_events (publish e s) = ws_events s @ [e]"
  "mes_base.more (publish e s) = mes_base.more s"
  by (simp_all add: publish_def)

end
