(* ===== verification/Orders.thy ===== *)
theory Orders
  imports Database "HOL-Library.Product_Lexorder"
begin

text \<open>
  Work orders, operations, production counts, downtime classification and programs: the
  repository \<^verbatim>\<open>mes-db/src/repo_orders.rs\<close> and the order handlers \<^verbatim>\<open>mes-edge/src/orders.rs\<close>.
  The execution handlers that call into them are in theory \<open>Exec\<close>.
\<close>

section \<open>Rows\<close>

record work_order_row =
  wo_id :: string
  wo_number :: string
  wo_part_id :: string
  wo_routing_id :: "string option"
  wo_qty_ordered :: rat
  wo_priority :: int
  wo_st :: string
  wo_planned_start :: "timestamp option"
  wo_planned_end :: "timestamp option"
  wo_plant_id :: "string option"
  wo_created_at :: timestamp
  wo_updated_at :: timestamp

record wo_operation_row =
  op_id :: string
  op_work_order_id :: string
  op_routing_op_id :: "string option"
  op_no :: int
  op_work_center_id :: "string option"
  op_st :: string
  op_qty_good :: int
  op_qty_scrap :: int
  op_started_at :: "timestamp option"
  op_completed_at :: "timestamp option"
  op_created_at :: timestamp
  op_updated_at :: timestamp

record production_count_row =
  pc_id :: string
  pc_ts :: timestamp
  pc_work_center_id :: string
  pc_source_id :: "string option"
  pc_good :: int
  pc_scrap :: int
  pc_wo_operation_id :: "string option"
  pc_scrap_reason_id :: "string option"

record downtime_row =
  dt_id :: string
  dt_work_center_id :: string
  dt_state :: string
  dt_start :: timestamp
  dt_end :: timestamp
  dt_reason_id :: "string option"
  dt_classified_by :: "string option"
  dt_classified_at :: "timestamp option"
  dt_created_at :: timestamp

record reason_row =
  rs_id :: string
  rs_code :: string
  rs_label :: string
  rs_parent_id :: "string option"
  rs_six_big_loss :: "string option"

record program_row =
  pg_id :: string
  pg_routing_op_id :: "string option"
  pg_part_id :: "string option"
  pg_program_identifier :: string
  pg_target_machine :: "string option"
  pg_created_at :: timestamp
  pg_updated_at :: timestamp

record orders_db = mes_base +
  t_work_orders :: "work_order_row list"
  t_wo_operations :: "wo_operation_row list"
  t_production_counts :: "production_count_row list"
  t_downtime_events :: "downtime_row list"
  t_downtime_reasons :: "reason_row list"
  t_scrap_reasons :: "reason_row list"
  t_programs :: "program_row list"

record wo_operation_input =
  oi_op_no :: int
  oi_routing_op_id :: "string option"
  oi_work_center_id :: "string option"

record work_order_input =
  wi_wo_number :: string
  wi_part_id :: string
  wi_routing_id :: "string option"
  wi_qty_ordered :: rat
  wi_priority :: "int option"
  wi_planned_start :: "timestamp option"
  wi_planned_end :: "timestamp option"
  wi_operations :: "wo_operation_input list"

record program_input =
  pi_routing_op_id :: "string option"
  pi_part_id :: "string option"
  pi_program_identifier :: string
  pi_target_machine :: "string option"

section \<open>Repository: work orders and operations\<close>

definition unwrap_or :: "'a \<Rightarrow> 'a option \<Rightarrow> 'a" where
  "unwrap_or d x = (case x of None \<Rightarrow> d | Some y \<Rightarrow> y)"

definition new_work_order :: "string \<Rightarrow> timestamp \<Rightarrow> work_order_input \<Rightarrow> work_order_row" where
  "new_work_order nid now i =
     \<lparr>wo_id = nid, wo_number = wi_wo_number i, wo_part_id = wi_part_id i,
      wo_routing_id = wi_routing_id i, wo_qty_ordered = wi_qty_ordered i,
      wo_priority = unwrap_or 100 (wi_priority i), wo_st = ''draft'',
      wo_planned_start = wi_planned_start i, wo_planned_end = wi_planned_end i,
      wo_plant_id = None, wo_created_at = now, wo_updated_at = now\<rparr>"

definition insert_work_order :: "work_order_row \<Rightarrow> ('s orders_db_scheme, repo_error, unit) prog" where
  "insert_work_order r =
     sql_exec
       (\<lambda>s. [(has_key wo_id (wo_id r) (t_work_orders s), dup_key ''work_orders_pkey''),
             (has_key wo_number (wo_number r) (t_work_orders s), dup_key ''work_orders_wo_number_key''),
             (\<not> has_key pt_id (wo_part_id r) (t_parts s),
              bad_ref ''work_orders'' ''work_orders_part_id_fkey''),
             (missing_ref rt_id (wo_routing_id r) (t_routings s),
              bad_ref ''work_orders'' ''work_orders_routing_id_fkey'')])
       (\<lambda>s. s\<lparr>t_work_orders := t_work_orders s @ [r]\<rparr>)"

definition new_operation ::
  "string \<Rightarrow> timestamp \<Rightarrow> string \<Rightarrow> wo_operation_input \<Rightarrow> wo_operation_row" where
  "new_operation nid now wo i =
     \<lparr>op_id = nid, op_work_order_id = wo, op_routing_op_id = oi_routing_op_id i,
      op_no = oi_op_no i, op_work_center_id = oi_work_center_id i, op_st = ''pending'',
      op_qty_good = 0, op_qty_scrap = 0, op_started_at = None, op_completed_at = None,
      op_created_at = now, op_updated_at = now\<rparr>"

definition insert_operation :: "wo_operation_row \<Rightarrow> ('s orders_db_scheme, repo_error, wo_operation_row) prog" where
  "insert_operation r =
     andThen
       (sql_exec
          (\<lambda>s. [(has_key op_id (op_id r) (t_wo_operations s), dup_key ''wo_operations_pkey''),
                (has_key (\<lambda>x. (op_work_order_id x, op_no x)) (op_work_order_id r, op_no r)
                   (t_wo_operations s), dup_key ''wo_operations_work_order_id_op_no_key''),
                (\<not> has_key wo_id (op_work_order_id r) (t_work_orders s),
                 bad_ref ''wo_operations'' ''wo_operations_work_order_id_fkey''),
                (missing_ref ro_id (op_routing_op_id r) (t_routing_ops s),
                 bad_ref ''wo_operations'' ''wo_operations_routing_op_id_fkey''),
                (missing_ref wc_id (op_work_center_id r) (t_work_centers s),
                 bad_ref ''wo_operations'' ''wo_operations_work_center_id_fkey'')])
          (\<lambda>s. s\<lparr>t_wo_operations := t_wo_operations s @ [r]\<rparr>))
       (\<lambda>_. ret r)"

definition work_order_payload :: "wire \<Rightarrow> string \<Rightarrow> work_order_input \<Rightarrow> json" where
  "work_order_payload w wo i =
     json_object
       [(''id'', JStr wo),
        (''wo_number'', JStr (wi_wo_number i)),
        (''part_id'', JStr (wi_part_id i)),
        (''routing_id'', opt_json JStr (wi_routing_id i)),
        (''qty_ordered'', dec_to_json w (wi_qty_ordered i)),
        (''priority'', JNum (of_int (unwrap_or 100 (wi_priority i)))),
        (''status'', JStr ''draft''),
        (''planned_start'', opt_json (ts_to_json w) (wi_planned_start i)),
        (''planned_end'', opt_json (ts_to_json w) (wi_planned_end i))]"

text \<open>
  Identifiers are drawn in order: the work order, one per operation, the outbox entry.
\<close>

definition create_work_order ::
  "wire \<Rightarrow> (nat \<Rightarrow> string) \<Rightarrow> timestamp \<Rightarrow> work_order_input
    \<Rightarrow> ('s orders_db_scheme, repo_error, work_order_row \<times> wo_operation_row list) prog" where
  "create_work_order w ids now i =
     transaction
       (andThen (insert_work_order (new_work_order (ids 0) now i)) (\<lambda>_.
        andThen (mapProg (\<lambda>(n, oi). insert_operation (new_operation (ids (Suc n)) now (ids 0) oi))
                   (List.enumerate 0 (wi_operations i))) (\<lambda>ops.
        andThen (enqueue (ids (Suc (length (wi_operations i)))) now ''work_order'' (ids 0) ''upsert''
                   (work_order_payload w (ids 0) i) None) (\<lambda>_.
        ret (new_work_order (ids 0) now i, ops)))))"

text \<open>Text columns are ordered by the database's collation, which is a parameter.\<close>

definition list_work_orders ::
  "(string \<Rightarrow> int) \<Rightarrow> ('s orders_db_scheme, repo_error, work_order_row list) prog" where
  "list_work_orders collate =
     gets (\<lambda>s. sort_key (\<lambda>r. (wo_priority r, collate (wo_number r))) (t_work_orders s))"

definition get_work_order :: "string \<Rightarrow> ('s orders_db_scheme, repo_error, work_order_row) prog" where
  "get_work_order i =
     andThen (gets (\<lambda>s. find_row wo_id i (t_work_orders s))) (okOr NotFound)"

definition get_work_order_detail ::
  "string \<Rightarrow> ('s orders_db_scheme, repo_error, work_order_row \<times> wo_operation_row list) prog" where
  "get_work_order_detail i =
     andThen (get_work_order i) (\<lambda>wo.
     andThen (gets (\<lambda>s. sort_key op_no (filter (\<lambda>r. op_work_order_id r = i) (t_wo_operations s))))
       (\<lambda>ops. ret (wo, ops)))"

definition wo_set_status :: "string \<Rightarrow> timestamp \<Rightarrow> work_order_row \<Rightarrow> work_order_row" where
  "wo_set_status status now r = r\<lparr>wo_st := status, wo_updated_at := now\<rparr>"

definition set_work_order_status ::
  "timestamp \<Rightarrow> string \<Rightarrow> string \<Rightarrow> ('s orders_db_scheme, repo_error, work_order_row) prog" where
  "set_work_order_status now i status =
     sql_update (\<lambda>s. find_row wo_id i (t_work_orders s)) (\<lambda>_ _. []) (wo_set_status status now)
       (\<lambda>s. s\<lparr>t_work_orders :=
              update_where (\<lambda>r. wo_id r = i) (wo_set_status status now) (t_work_orders s)\<rparr>)"

definition get_operation :: "string \<Rightarrow> ('s orders_db_scheme, repo_error, wo_operation_row) prog" where
  "get_operation i =
     andThen (gets (\<lambda>s. find_row op_id i (t_wo_operations s))) (okOr NotFound)"

definition update_operation ::
  "(wo_operation_row \<Rightarrow> (bool \<times> sqlx_error) list) \<Rightarrow> (wo_operation_row \<Rightarrow> wo_operation_row) \<Rightarrow> string
    \<Rightarrow> ('s orders_db_scheme, repo_error, wo_operation_row) prog" where
  "update_operation violations upd i =
     sql_update (\<lambda>s. find_row op_id i (t_wo_operations s)) (\<lambda>_. violations) upd
       (\<lambda>s. s\<lparr>t_wo_operations := update_where (\<lambda>r. op_id r = i) upd (t_wo_operations s)\<rparr>)"

definition op_start :: "timestamp \<Rightarrow> wo_operation_row \<Rightarrow> wo_operation_row" where
  "op_start now r =
     r\<lparr>op_st := ''in_progress'',
       op_started_at := Some (unwrap_or now (op_started_at r)), op_updated_at := now\<rparr>"

definition op_complete :: "timestamp \<Rightarrow> wo_operation_row \<Rightarrow> wo_operation_row" where
  "op_complete now r =
     r\<lparr>op_st := ''completed'', op_completed_at := Some now, op_updated_at := now\<rparr>"

definition op_add_counts :: "int \<Rightarrow> int \<Rightarrow> timestamp \<Rightarrow> wo_operation_row \<Rightarrow> wo_operation_row" where
  "op_add_counts good scrap now r =
     r\<lparr>op_qty_good := op_qty_good r + good, op_qty_scrap := op_qty_scrap r + scrap,
       op_updated_at := now\<rparr>"

definition start_operation ::
  "timestamp \<Rightarrow> string \<Rightarrow> ('s orders_db_scheme, repo_error, wo_operation_row) prog" where
  "start_operation now = update_operation (\<lambda>_. []) (op_start now)"

definition complete_operation ::
  "timestamp \<Rightarrow> string \<Rightarrow> ('s orders_db_scheme, repo_error, wo_operation_row) prog" where
  "complete_operation now = update_operation (\<lambda>_. []) (op_complete now)"

definition insert_production_count_row ::
  "production_count_row \<Rightarrow> ('s orders_db_scheme, repo_error, unit) prog" where
  "insert_production_count_row r =
     sql_exec
       (\<lambda>s. [(has_key (\<lambda>x. (pc_ts x, pc_id x)) (pc_ts r, pc_id r) (t_production_counts s),
              dup_key ''production_counts_pkey''),
             (\<not> has_key wc_id (pc_work_center_id r) (t_work_centers s),
              bad_ref ''production_counts'' ''production_counts_work_center_id_fkey''),
             (missing_ref op_id (pc_wo_operation_id r) (t_wo_operations s),
              bad_ref ''production_counts'' ''production_counts_wo_operation_id_fkey''),
             (missing_ref rs_id (pc_scrap_reason_id r) (t_scrap_reasons s),
              bad_ref ''production_counts'' ''production_counts_scrap_reason_id_fkey'')])
       (\<lambda>s. s\<lparr>t_production_counts := t_production_counts s @ [r]\<rparr>)"

definition record_count ::
  "string \<Rightarrow> timestamp \<Rightarrow> string \<Rightarrow> string \<Rightarrow> int \<Rightarrow> int \<Rightarrow> string option \<Rightarrow> timestamp
    \<Rightarrow> ('s orders_db_scheme, repo_error, wo_operation_row) prog" where
  "record_count nid now i work_center_id good scrap scrap_reason_id ts =
     transaction
       (andThen
          (insert_production_count_row
             \<lparr>pc_id = nid, pc_ts = ts, pc_work_center_id = work_center_id, pc_source_id = None,
              pc_good = good, pc_scrap = scrap, pc_wo_operation_id = Some i,
              pc_scrap_reason_id = scrap_reason_id\<rparr>) (\<lambda>_.
        update_operation
          (\<lambda>r. [(\<not> in_i32 (op_qty_good r + good), out_of_range),
                (\<not> in_i32 (op_qty_scrap r + scrap), out_of_range)])
          (op_add_counts good scrap now) i))"

section \<open>Repository: downtime classification\<close>

definition get_downtime_event :: "string \<Rightarrow> ('s orders_db_scheme, repo_error, downtime_row) prog" where
  "get_downtime_event i =
     andThen (gets (\<lambda>s. find_row dt_id i (t_downtime_events s))) (okOr NotFound)"

definition reason_violations ::
  "string option \<Rightarrow> string option \<Rightarrow> 's orders_db_scheme \<Rightarrow> (bool \<times> sqlx_error) list" where
  "reason_violations reason_id classified_by s =
     [(missing_ref rs_id reason_id (t_downtime_reasons s),
       bad_ref ''downtime_events'' ''downtime_events_reason_id_fkey''),
      (missing_ref us_id classified_by (t_users s),
       bad_ref ''downtime_events'' ''downtime_events_classified_by_fkey'')]"

definition update_downtime ::
  "string option \<Rightarrow> string option \<Rightarrow> (downtime_row \<Rightarrow> downtime_row) \<Rightarrow> string
    \<Rightarrow> ('s orders_db_scheme, repo_error, downtime_row) prog" where
  "update_downtime reason_id classified_by upd i =
     sql_update (\<lambda>s. find_row dt_id i (t_downtime_events s))
       (\<lambda>s _. reason_violations reason_id classified_by s) upd
       (\<lambda>s. s\<lparr>t_downtime_events := update_where (\<lambda>r. dt_id r = i) upd (t_downtime_events s)\<rparr>)"

definition dt_classify :: "string \<Rightarrow> string \<Rightarrow> timestamp \<Rightarrow> downtime_row \<Rightarrow> downtime_row" where
  "dt_classify reason_id classified_by now r =
     r\<lparr>dt_reason_id := Some reason_id, dt_classified_by := Some classified_by,
       dt_classified_at := Some now\<rparr>"

definition classify_downtime ::
  "timestamp \<Rightarrow> string \<Rightarrow> string \<Rightarrow> string \<Rightarrow> ('s orders_db_scheme, repo_error, downtime_row) prog" where
  "classify_downtime now i reason_id classified_by =
     update_downtime (Some reason_id) (Some classified_by) (dt_classify reason_id classified_by now) i"

definition dt_shrink ::
  "timestamp \<Rightarrow> string option \<Rightarrow> string \<Rightarrow> timestamp \<Rightarrow> downtime_row \<Rightarrow> downtime_row" where
  "dt_shrink split_at first_reason classified_by now r =
     r\<lparr>dt_end := split_at, dt_reason_id := first_reason,
       dt_classified_by := (if first_reason = None then dt_classified_by r else Some classified_by),
       dt_classified_at := (if first_reason = None then dt_classified_at r else Some now)\<rparr>"

definition insert_downtime :: "downtime_row \<Rightarrow> ('s orders_db_scheme, repo_error, unit) prog" where
  "insert_downtime r =
     sql_exec
       (\<lambda>s. (has_key dt_id (dt_id r) (t_downtime_events s), dup_key ''downtime_events_pkey'') #
            (\<not> has_key wc_id (dt_work_center_id r) (t_work_centers s),
             bad_ref ''downtime_events'' ''downtime_events_work_center_id_fkey'') #
            reason_violations (dt_reason_id r) (dt_classified_by r) s)
       (\<lambda>s. s\<lparr>t_downtime_events := t_downtime_events s @ [r]\<rparr>)"

definition dt_second_half ::
  "string \<Rightarrow> timestamp \<Rightarrow> timestamp \<Rightarrow> string option \<Rightarrow> string \<Rightarrow> downtime_row \<Rightarrow> downtime_row" where
  "dt_second_half nid now split_at second_reason classified_by original =
     \<lparr>dt_id = nid, dt_work_center_id = dt_work_center_id original, dt_state = dt_state original,
      dt_start = split_at, dt_end = dt_end original, dt_reason_id = second_reason,
      dt_classified_by = (if second_reason = None then None else Some classified_by),
      dt_classified_at = (if second_reason = None then None else Some now),
      dt_created_at = now\<rparr>"

text \<open>
  A split point arrives in nanoseconds and is compared as it is; binding it to a statement keeps the whole
  microseconds since the database's epoch, the year 2000, and drops the rest.
\<close>

definition pg_epoch :: timestamp where
  "pg_epoch = 946684800000000"

definition stored_instant :: "int \<Rightarrow> timestamp" where
  "stored_instant ns =
     (let d = ns - 1000 * pg_epoch in pg_epoch + (if d < 0 then - (- d div 1000) else d div 1000))"

definition split_downtime ::
  "string \<Rightarrow> timestamp \<Rightarrow> string \<Rightarrow> int \<Rightarrow> string option \<Rightarrow> string option \<Rightarrow> string
    \<Rightarrow> ('s orders_db_scheme, repo_error, downtime_row \<times> downtime_row) prog" where
  "split_downtime nid now i split_at first_reason second_reason classified_by =
     transaction
       (andThen (get_downtime_event i) (\<lambda>original.
        andThen (guard (\<not> (split_at \<le> 1000 * dt_start original \<or> split_at \<ge> 1000 * dt_end original))
                   (Conflict ''split point must lie strictly inside the event'')) (\<lambda>_.
        andThen (update_downtime first_reason
                   (if first_reason = None then None else Some classified_by)
                   (dt_shrink (stored_instant split_at) first_reason classified_by now) i) (\<lambda>first.
        andThen (insert_downtime (dt_second_half nid now (stored_instant split_at) second_reason classified_by original)) (\<lambda>_.
        ret (first, dt_second_half nid now (stored_instant split_at) second_reason classified_by original))))))"

section \<open>Repository: reasons and programs\<close>

definition create_downtime_reason ::
  "string \<Rightarrow> string \<Rightarrow> string \<Rightarrow> ('s orders_db_scheme, repo_error, string) prog" where
  "create_downtime_reason rid code label =
     andThen
       (sql_exec
          (\<lambda>s. [(has_key rs_id rid (t_downtime_reasons s), dup_key ''downtime_reasons_pkey''),
                (has_key rs_code code (t_downtime_reasons s), dup_key ''downtime_reasons_code_key'')])
          (\<lambda>s. s\<lparr>t_downtime_reasons := t_downtime_reasons s @
                 [\<lparr>rs_id = rid, rs_code = code, rs_label = label, rs_parent_id = None, rs_six_big_loss = None\<rparr>]\<rparr>))
       (\<lambda>_. ret rid)"

definition create_scrap_reason ::
  "string \<Rightarrow> string \<Rightarrow> string \<Rightarrow> ('s orders_db_scheme, repo_error, string) prog" where
  "create_scrap_reason rid code label =
     andThen
       (sql_exec
          (\<lambda>s. [(has_key rs_id rid (t_scrap_reasons s), dup_key ''scrap_reasons_pkey''),
                (has_key rs_code code (t_scrap_reasons s), dup_key ''scrap_reasons_code_key'')])
          (\<lambda>s. s\<lparr>t_scrap_reasons := t_scrap_reasons s @
                 [\<lparr>rs_id = rid, rs_code = code, rs_label = label, rs_parent_id = None, rs_six_big_loss = None\<rparr>]\<rparr>))
       (\<lambda>_. ret rid)"

definition create_program ::
  "string \<Rightarrow> timestamp \<Rightarrow> program_input \<Rightarrow> ('s orders_db_scheme, repo_error, program_row) prog" where
  "create_program nid now i =
     (let r = \<lparr>pg_id = nid, pg_routing_op_id = pi_routing_op_id i, pg_part_id = pi_part_id i,
               pg_program_identifier = pi_program_identifier i,
               pg_target_machine = pi_target_machine i, pg_created_at = now, pg_updated_at = now\<rparr>
      in andThen
           (sql_exec
              (\<lambda>s. [(has_key pg_id nid (t_programs s), dup_key ''programs_pkey''),
                    (missing_ref ro_id (pi_routing_op_id i) (t_routing_ops s),
                     bad_ref ''programs'' ''programs_routing_op_id_fkey''),
                    (missing_ref pt_id (pi_part_id i) (t_parts s),
                     bad_ref ''programs'' ''programs_part_id_fkey'')])
              (\<lambda>s. s\<lparr>t_programs := t_programs s @ [r]\<rparr>))
           (\<lambda>_. ret r))"

definition list_programs ::
  "(string \<Rightarrow> int) \<Rightarrow> ('s orders_db_scheme, repo_error, program_row list) prog" where
  "list_programs collate =
     gets (\<lambda>s. sort_key (\<lambda>r. collate (pg_program_identifier r)) (t_programs s))"

section \<open>Handlers of \<^verbatim>\<open>/v1/orders\<close>\<close>

definition create_order ::
  "wire \<Rightarrow> (nat \<Rightarrow> string) \<Rightarrow> timestamp \<Rightarrow> auth_user \<Rightarrow> work_order_input
    \<Rightarrow> ('s orders_db_scheme, api_err, nat \<times> work_order_row \<times> wo_operation_row list) prog" where
  "create_order w ids now u input =
     andThen (master_writer u) (\<lambda>actor.
     andThen require_pool (\<lambda>_.
     andThen (mapErr repo_err (create_work_order w ids now input)) (\<lambda>detail.
     andThen (modify (audit (ids (length (wi_operations input) + 2)) now (Some (user_id actor))
                ''create'' ''work_order'' (Some (wo_id (fst detail))) None)) (\<lambda>_.
     ret (201, detail)))))"

definition list_orders ::
  "(string \<Rightarrow> int) \<Rightarrow> auth_user \<Rightarrow> ('s orders_db_scheme, api_err, work_order_row list) prog" where
  "list_orders collate u =
     andThen require_pool (\<lambda>_. mapErr repo_err (list_work_orders collate))"

definition get_order ::
  "auth_user \<Rightarrow> string \<Rightarrow> ('s orders_db_scheme, api_err, work_order_row \<times> wo_operation_row list) prog" where
  "get_order u i = andThen require_pool (\<lambda>_. mapErr repo_err (get_work_order_detail i))"

definition transition_wo ::
  "string \<Rightarrow> timestamp \<Rightarrow> string \<Rightarrow> string \<Rightarrow> wo_status
    \<Rightarrow> ('s orders_db_scheme, api_err, work_order_row) prog" where
  "transition_wo nid now actor_id i target =
     andThen require_pool (\<lambda>_.
     andThen (mapErr repo_err (get_work_order i)) (\<lambda>wo.
     andThen (okOr (ApiErr 500 ''internal'' ''unknown stored status'') (wo_parse (wo_st wo))) (\<lambda>current.
     andThen (guard (wo_can_transition current target)
                (ApiErr 409 ''invalid_transition''
                   (''cannot move work order from '' @ wo_as_str current @ '' to '' @ wo_as_str target))) (\<lambda>_.
     andThen (mapErr repo_err (set_work_order_status now i (wo_as_str target))) (\<lambda>updated.
     andThen (modify (audit nid now (Some actor_id) ''status'' ''work_order'' (Some i)
                (Some (json_object [(''status'', JStr (wo_as_str target))])))) (\<lambda>_.
     andThen (modify (publish (WorkOrderStatusChanged i (wo_as_str target)))) (\<lambda>_.
     ret updated)))))))"

definition release_order ::
  "string \<Rightarrow> timestamp \<Rightarrow> auth_user \<Rightarrow> string \<Rightarrow> ('s orders_db_scheme, api_err, work_order_row) prog" where
  "release_order nid now u i =
     andThen (master_writer u) (\<lambda>actor. transition_wo nid now (user_id actor) i WoReleased)"

definition cancel_order ::
  "string \<Rightarrow> timestamp \<Rightarrow> auth_user \<Rightarrow> string \<Rightarrow> ('s orders_db_scheme, api_err, work_order_row) prog" where
  "cancel_order nid now u i =
     andThen (master_writer u) (\<lambda>actor. transition_wo nid now (user_id actor) i WoCancelled)"

definition close_order ::
  "string \<Rightarrow> timestamp \<Rightarrow> auth_user \<Rightarrow> string \<Rightarrow> ('s orders_db_scheme, api_err, work_order_row) prog" where
  "close_order nid now u i =
     andThen (master_writer u) (\<lambda>actor. transition_wo nid now (user_id actor) i WoClosed)"

section \<open>Row updates\<close>

interpretation wo_set_status: row_update wo_id "wo_set_status st now" for st now
  by unfold_locales (simp add: wo_set_status_def)

interpretation op_start: row_update op_id "op_start now" for now
  by unfold_locales (simp add: op_start_def)

interpretation op_complete: row_update op_id "op_complete now" for now
  by unfold_locales (simp add: op_complete_def)

interpretation op_add_counts: row_update op_id "op_add_counts g sc now" for g sc now
  by unfold_locales (simp add: op_add_counts_def)

interpretation dt_classify: row_update dt_id "dt_classify r c now" for r c now
  by unfold_locales (simp add: dt_classify_def)

interpretation dt_shrink: row_update dt_id "dt_shrink b r c now" for b r c now
  by unfold_locales (simp add: dt_shrink_def)

section \<open>The count ledger\<close>

definition booked :: "(production_count_row \<Rightarrow> int) \<Rightarrow> string \<Rightarrow> production_count_row list \<Rightarrow> int" where
  "booked f i counts = sum_list (map f (filter (\<lambda>r. pc_wo_operation_id r = Some i) counts))"

text \<open>
  The invariant of the execution tables: primary keys are unique, a count refers to an existing
  operation and an operation to an existing work order, and the totals on an operation are the sums of the counts booked against it.
\<close>

definition orders_inv :: "'s orders_db_scheme \<Rightarrow> bool" where
  "orders_inv s \<longleftrightarrow>
     distinct (map wo_id (t_work_orders s)) \<and>
     distinct (map op_id (t_wo_operations s)) \<and>
     (\<forall>r\<in>set (t_production_counts s). \<forall>i. pc_wo_operation_id r = Some i \<longrightarrow>
        has_key op_id i (t_wo_operations s)) \<and>
     (\<forall>r\<in>set (t_wo_operations s). has_key wo_id (op_work_order_id r) (t_work_orders s)) \<and>
     (\<forall>r\<in>set (t_wo_operations s).
        op_qty_good r = booked pc_good (op_id r) (t_production_counts s) \<and>
        op_qty_scrap r = booked pc_scrap (op_id r) (t_production_counts s))"

lemma booked_append: "booked f i (xs @ ys) = booked f i xs + booked f i ys"
  by (simp add: booked_def)

lemma booked_one:
  "booked f i [r] = (if pc_wo_operation_id r = Some i then f r else 0)"
  by (simp add: booked_def)

lemma booked_unreferenced:
  "\<forall>r\<in>set counts. \<forall>j. pc_wo_operation_id r = Some j \<longrightarrow> has_key op_id j ops \<Longrightarrow>
     \<not> has_key op_id i ops \<Longrightarrow> booked f i counts = 0"
proof -
  assume "\<forall>r\<in>set counts. \<forall>j. pc_wo_operation_id r = Some j \<longrightarrow> has_key op_id j ops"
    and "\<not> has_key op_id i ops"
  then have "filter (\<lambda>r. pc_wo_operation_id r = Some i) counts = []"
    by (metis (mono_tags, lifting) filter_empty_conv)
  then show ?thesis by (simp add: booked_def)
qed

lemma has_key_distinct:
  "\<not> has_key key (key r) rows \<Longrightarrow> distinct (map key rows) \<Longrightarrow> distinct (map key (rows @ [r]))"
  by (auto simp: has_key_def)

text \<open>The invariant depends on three tables only.\<close>

lemma orders_inv_cong:
  "t_work_orders s' = t_work_orders s \<Longrightarrow> t_wo_operations s' = t_wo_operations s \<Longrightarrow>
     t_production_counts s' = t_production_counts s \<Longrightarrow> orders_inv s' = orders_inv s"
  by (simp add: orders_inv_def)

lemma audit_orders [simp]:
  "t_work_orders (audit n t a b c d e s) = t_work_orders s"
  "t_wo_operations (audit n t a b c d e s) = t_wo_operations s"
  "t_production_counts (audit n t a b c d e s) = t_production_counts s"
  "t_downtime_events (audit n t a b c d e s) = t_downtime_events s"
  "t_downtime_reasons (audit n t a b c d e s) = t_downtime_reasons s"
  "t_programs (audit n t a b c d e s) = t_programs s"
  by (simp_all add: audit_def insert_audit_def prog_simps split: option.split)

lemma publish_orders [simp]:
  "t_work_orders (publish e s) = t_work_orders s"
  "t_wo_operations (publish e s) = t_wo_operations s"
  "t_production_counts (publish e s) = t_production_counts s"
  "t_downtime_events (publish e s) = t_downtime_events s"
  "t_downtime_reasons (publish e s) = t_downtime_reasons s"
  "t_programs (publish e s) = t_programs s"
  by (simp_all add: publish_def)

lemma preserves_inv_audit [preserves_rules]: "preserves orders_inv (modify (audit n t a b c d e))"
  by (rule preserves_modify) (simp add: orders_inv_def)

lemma preserves_inv_publish [preserves_rules]: "preserves orders_inv (modify (publish e))"
  by (rule preserves_modify) (simp add: orders_inv_def)

lemma preserves_inv_insert_wo [preserves_rules]: "preserves orders_inv (insert_work_order r)"
  unfolding insert_work_order_def
  by (rule preserves_sql_exec) (auto simp: orders_inv_def has_key_def)

lemma preserves_inv_insert_op [preserves_rules]:
  "preserves orders_inv (insert_operation (new_operation nid now wo oi))"
  unfolding insert_operation_def
proof (rule preserves_andThen, rule preserves_sql_exec, goal_cases)
  case (1 s)
  let ?r = "new_operation nid now wo oi"
  have "\<not> has_key op_id (op_id ?r) (t_wo_operations s)"
    using 1(2) by auto
  moreover have "has_key wo_id wo (t_work_orders s)"
    using 1(2) by (auto simp: new_operation_def)
  moreover from calculation(1) have "booked f (op_id ?r) (t_production_counts s) = 0" for f
    using 1(1) booked_unreferenced unfolding orders_inv_def by blast
  ultimately show ?case
    using 1(1) has_key_distinct [of op_id ?r]
    by (auto simp: orders_inv_def has_key_simps new_operation_def)
qed (rule preserves_ret)

lemma preserves_inv_enqueue [preserves_rules]: "preserves orders_inv (enqueue a b c d e f g)"
  unfolding enqueue_def
  by (intro preserves_rules preserves_sql_exec) (simp add: orders_inv_def)

lemma preserves_inv_create_work_order [preserves_rules]:
  "preserves orders_inv (create_work_order w ids now i)"
  unfolding create_work_order_def
  by (intro preserves_rules) (auto intro: preserves_rules)

lemma preserves_inv_reads [preserves_rules]:
  "preserves orders_inv (get_work_order i)"
  "preserves orders_inv (get_operation i)"
  "preserves orders_inv (get_work_order_detail i)"
  "preserves orders_inv (list_work_orders collate)"
  unfolding get_work_order_def get_operation_def get_work_order_detail_def list_work_orders_def
  by (intro preserves_rules)+

lemma preserves_inv_set_status [preserves_rules]:
  "preserves orders_inv (set_work_order_status now i st)"
  unfolding set_work_order_status_def
  by (rule preserves_sql_update) (simp add: orders_inv_def wo_set_status.keys_update wo_set_status.has_key_update)

text \<open>A setter that keeps the key and the totals of an operation keeps the invariant.\<close>

lemma orders_inv_update_operation:
  assumes "orders_inv s" "row_update op_id upd"
    and "\<And>r. op_qty_good (upd r) = op_qty_good r" "\<And>r. op_qty_scrap (upd r) = op_qty_scrap r"
    and "\<And>r. op_work_order_id (upd r) = op_work_order_id r"
  shows "orders_inv (s\<lparr>t_wo_operations := update_where P upd (t_wo_operations s)\<rparr>)"
  using assms(1,3,4,5) row_update.keys_update [OF assms(2)] row_update.has_key_update [OF assms(2)]
    row_update.set_update [OF assms(2)] row_update.keeps_key [OF assms(2)]
  by (auto simp: orders_inv_def)

lemma preserves_inv_start_operation [preserves_rules]: "preserves orders_inv (start_operation now i)"
  unfolding start_operation_def update_operation_def
  by (rule preserves_sql_update, rule orders_inv_update_operation)
    (auto intro: op_start.row_update_axioms simp: op_start_def)

lemma preserves_inv_complete_operation [preserves_rules]:
  "preserves orders_inv (complete_operation now i)"
  unfolding complete_operation_def update_operation_def
  by (rule preserves_sql_update, rule orders_inv_update_operation)
    (auto intro: op_complete.row_update_axioms simp: op_complete_def)

text \<open>A booked count raises exactly the totals of its operation, by exactly its amounts.\<close>

lemma record_count_effect:
  assumes "record_count nid now i wc good scrap reason ts s = (Inr r', s')"
  obtains r where "find_row op_id i (t_wo_operations s) = Some r" "r' = op_add_counts good scrap now r"
    "in_i32 (op_qty_good r + good)" "in_i32 (op_qty_scrap r + scrap)"
    "s' = s\<lparr>t_production_counts := t_production_counts s @
           [\<lparr>pc_id = nid, pc_ts = ts, pc_work_center_id = wc, pc_source_id = None,
             pc_good = good, pc_scrap = scrap, pc_wo_operation_id = Some i,
             pc_scrap_reason_id = reason\<rparr>],
           t_wo_operations :=
             update_where (\<lambda>r. op_id r = i) (op_add_counts good scrap now) (t_wo_operations s)\<rparr>"
proof -
  from assms [unfolded record_count_def, THEN transaction_InrD]
  obtain u s1 where ins: "insert_production_count_row
      \<lparr>pc_id = nid, pc_ts = ts, pc_work_center_id = wc, pc_source_id = None,
       pc_good = good, pc_scrap = scrap, pc_wo_operation_id = Some i,
       pc_scrap_reason_id = reason\<rparr> s = (Inr u, s1)"
    and upd: "update_operation
          (\<lambda>r. [(\<not> in_i32 (op_qty_good r + good), out_of_range),
                (\<not> in_i32 (op_qty_scrap r + scrap), out_of_range)])
          (op_add_counts good scrap now) i s1 = (Inr r', s')"
    by (rule andThen_InrE)
  show thesis
    using sql_exec_InrD [OF ins [unfolded insert_production_count_row_def]]
      sql_update_InrD [OF upd [unfolded update_operation_def]] that
    by auto
qed

lemma orders_inv_record_count:
  assumes inv: "orders_inv s" and run: "record_count nid now i wc good scrap reason ts s = (r, s')"
  shows "orders_inv s'"
proof (cases r)
  case (Inl e)
  with run have "s' = s"
    unfolding record_count_def by (auto dest: transaction_error_state)
  with inv show ?thesis by simp
next
  case (Inr r')
  note run' = run [unfolded Inr]
  from record_count_effect [OF run'] obtain r0 where
    r0: "find_row op_id i (t_wo_operations s) = Some r0" and
    s': "s' = s\<lparr>t_production_counts := t_production_counts s @
           [\<lparr>pc_id = nid, pc_ts = ts, pc_work_center_id = wc, pc_source_id = None,
             pc_good = good, pc_scrap = scrap, pc_wo_operation_id = Some i,
             pc_scrap_reason_id = reason\<rparr>],
           t_wo_operations :=
             update_where (\<lambda>r. op_id r = i) (op_add_counts good scrap now) (t_wo_operations s)\<rparr>"
    by metis
  from r0 have "has_key op_id i (t_wo_operations s)"
    using find_row_None_iff [of op_id i "t_wo_operations s"] by auto
  with inv show ?thesis
    by (auto simp: s' orders_inv_def op_add_counts.keys_update op_add_counts.has_key_update
        op_add_counts.set_update booked_append booked_one op_add_counts_def)
qed

lemma preserves_inv_record_count [preserves_rules]:
  "preserves orders_inv (record_count nid now i wc good scrap reason ts)"
  by (rule preservesI) (metis orders_inv_record_count prod.collapse)

section \<open>Status changes\<close>

definition wo_status_of :: "'s orders_db_scheme \<Rightarrow> string \<Rightarrow> string option" where
  "wo_status_of s i = map_option wo_st (find_row wo_id i (t_work_orders s))"

lemma get_work_order_eval [prog_simps]:
  "get_work_order i s =
     (case find_row wo_id i (t_work_orders s) of None \<Rightarrow> (Inl NotFound, s) | Some r \<Rightarrow> (Inr r, s))"
  by (simp add: get_work_order_def prog_simps)

lemma get_operation_eval [prog_simps]:
  "get_operation i s =
     (case find_row op_id i (t_wo_operations s) of None \<Rightarrow> (Inl NotFound, s) | Some r \<Rightarrow> (Inr r, s))"
  by (simp add: get_operation_def prog_simps)

lemma get_downtime_event_eval [prog_simps]:
  "get_downtime_event i s =
     (case find_row dt_id i (t_downtime_events s) of None \<Rightarrow> (Inl NotFound, s) | Some r \<Rightarrow> (Inr r, s))"
  by (simp add: get_downtime_event_def prog_simps)

lemma set_work_order_status_eval [prog_simps]:
  "set_work_order_status now i st s =
     (case find_row wo_id i (t_work_orders s) of
        None \<Rightarrow> (Inl NotFound, s)
      | Some r \<Rightarrow> (Inr (wo_set_status st now r),
          s\<lparr>t_work_orders := update_where (\<lambda>r. wo_id r = i) (wo_set_status st now) (t_work_orders s)\<rparr>))"
  by (simp add: set_work_order_status_def prog_simps split: option.split)

lemma wo_status_set:
  "wo_status_of (s\<lparr>t_work_orders := update_where (\<lambda>r. wo_id r = i) (wo_set_status st now) (t_work_orders s)\<rparr>) j
     = (if j = i then map_option (\<lambda>_. st) (wo_status_of s j) else wo_status_of s j)"
  by (auto simp: wo_status_of_def wo_set_status.find_update_key wo_set_status_def
      option.map_comp comp_def)

lemma wo_status_frame [simp]:
  "wo_status_of (audit n t a b c d e s) j = wo_status_of s j"
  "wo_status_of (publish ev s) j = wo_status_of s j"
  by (simp_all add: wo_status_of_def)

text \<open>The outcome of a transition request and the status table after it, on every branch.\<close>

lemma transition_wo_run:
  "(case transition_wo nid now actor i x s of
      (Inl e, s') \<Rightarrow> s' = s
    | (Inr r, s') \<Rightarrow>
        (\<exists>y. wo_status_of s i = Some (wo_as_str y) \<and> wo_can_transition y x) \<and>
        wo_st r = wo_as_str x \<and> find_row wo_id i (t_work_orders s') = Some r \<and>
        ws_events s' = ws_events s @ [WorkOrderStatusChanged i (wo_as_str x)] \<and>
        (\<forall>j. wo_status_of s' j = (if j = i then Some (wo_as_str x) else wo_status_of s j)))"
proof (cases "find_row wo_id i (t_work_orders s)")
  case (Some r)
  then have st: "wo_status_of s i = Some (wo_st r)" by (simp add: wo_status_of_def)
  show ?thesis
    using st wo_status_set [of i "wo_as_str x" now s] Some
    by (auto simp: transition_wo_def prog_simps wo.parse_iff wo_set_status.find_update_key
        wo_set_status_def split: option.split)
qed (simp add: transition_wo_def prog_simps)

lemma transition_wo_status:
  "wo_status_of (snd (transition_wo nid now actor i x s)) i = wo_status_of s i \<or>
     (\<exists>y. wo_status_of s i = Some (wo_as_str y) \<and> wo_can_transition y x \<and>
        wo_status_of (snd (transition_wo nid now actor i x s)) i = Some (wo_as_str x))"
  "j \<noteq> i \<Longrightarrow> wo_status_of (snd (transition_wo nid now actor i x s)) j = wo_status_of s j"
  using transition_wo_run [where nid = nid and now = now and actor = actor and i = i and x = x and s = s] by (auto split: prod.splits sum.splits)

interpretation wo_change: guarded_status wo_parse wo_as_str wo_can_transition wo_rank wo_status_of
  "\<lambda>(nid, now, actor) i x s. snd (transition_wo nid now actor i x s)"
proof (unfold_locales, goal_cases)
  case (1 c i x s)
  show ?case using transition_wo_status(1) [where i = i and x = x and s = s] by (simp split: prod.split)
qed (simp add: transition_wo_status(2) split: prod.split)

lemma preserves_inv_transition [preserves_rules]: "preserves orders_inv (transition_wo nid now a i x)"
  unfolding transition_wo_def by (intro preserves_rules)

abbreviation wo_reached :: "wo_status \<Rightarrow> string \<Rightarrow> 's orders_db_scheme \<Rightarrow> bool" where
  "wo_reached \<equiv> reached wo_can_transition wo_as_str wo_status_of"

lemma preserves_reached_transition [preserves_rules]:
  "preserves (wo_reached y j) (transition_wo nid now a i x)"
  using wo_change.call_reached [of y j _ "(nid, now, a)" i x] by (intro preservesI) simp

section \<open>Properties\<close>

text \<open>
  C6.  Booking a count is exact and atomic.  From a consistent ledger, a call of \<open>record_count\<close>
  either fails and changes nothing, or appends one count and returns the operation as it is now
  stored, whose totals are the previously booked totals plus the amounts, inside the 32-bit range
  of the columns; no other operation changes and the ledger stays consistent.
\<close>

theorem record_count_correct:
  assumes inv: "orders_inv s" and run: "record_count nid now i wc good scrap reason ts s = (r, s')"
  shows "orders_inv s' \<and>
    (case r of
       Inl e \<Rightarrow> s' = s
     | Inr op \<Rightarrow>
         find_row op_id i (t_wo_operations s') = Some op \<and>
         op_qty_good op = booked pc_good i (t_production_counts s) + good \<and>
         op_qty_scrap op = booked pc_scrap i (t_production_counts s) + scrap \<and>
         in_i32 (op_qty_good op) \<and> in_i32 (op_qty_scrap op) \<and>
         length (t_production_counts s') = Suc (length (t_production_counts s)) \<and>
         (\<forall>j. j \<noteq> i \<longrightarrow> find_row op_id j (t_wo_operations s') = find_row op_id j (t_wo_operations s)))"
proof (cases r)
  case (Inl e)
  with run have "s' = s"
    unfolding record_count_def by (auto dest: transaction_error_state)
  with inv Inl show ?thesis by simp
next
  case (Inr op)
  from run [unfolded Inr] obtain r0 where
    r0: "find_row op_id i (t_wo_operations s) = Some r0" "op = op_add_counts good scrap now r0"
      "in_i32 (op_qty_good r0 + good)" "in_i32 (op_qty_scrap r0 + scrap)" and
    s': "t_wo_operations s' =
           update_where (\<lambda>r. op_id r = i) (op_add_counts good scrap now) (t_wo_operations s)"
      "length (t_production_counts s') = Suc (length (t_production_counts s))"
    by (rule record_count_effect) simp
  from find_row_SomeD [OF r0(1)] inv have "op_qty_good r0 = booked pc_good i (t_production_counts s)"
    "op_qty_scrap r0 = booked pc_scrap i (t_production_counts s)"
    by (auto simp: orders_inv_def)
  with r0 s' Inr orders_inv_record_count [OF inv run] show ?thesis
    by (simp add: op_add_counts.find_update_key op_add_counts_def)
qed

text \<open>A small shop floor, on which the theorems are exercised.\<close>

definition sample_orders :: orders_db where
  "sample_orders =
     \<lparr>has_pool = True,
      t_users = [\<lparr>us_id = ''U1'', us_username = ''ann'', us_display_name = ''Ann'',
        us_role_code = ''Planner'', us_password_hash = None, us_pin_hash = None,
        us_badge_id = None, us_active = True, us_created_at = 0, us_updated_at = 0\<rparr>],
      t_parts = [\<lparr>pt_id = ''P1'', pt_code = ''SHAFT'', pt_name = ''Shaft'', pt_uom = ''ea'',
        pt_created_at = 0, pt_updated_at = 0\<rparr>],
      t_work_centers = [\<lparr>wc_id = ''M1'', wc_area_id = ''A1'', wc_code = ''VMC'', wc_name = ''Mill'',
        wc_external_ref = None, wc_ideal_cycle_seconds = Some 30, wc_created_at = 0,
        wc_updated_at = 0\<rparr>],
      t_routings = [], t_routing_ops = [], t_audit_log = [], t_outbox = [], ws_events = [],
      t_work_orders = [\<lparr>wo_id = ''W1'', wo_number = ''WO-1'', wo_part_id = ''P1'',
        wo_routing_id = None, wo_qty_ordered = 10, wo_priority = 100, wo_st = ''draft'',
        wo_planned_start = None, wo_planned_end = None, wo_plant_id = None,
        wo_created_at = 0, wo_updated_at = 0\<rparr>],
      t_wo_operations = [\<lparr>op_id = ''O1'', op_work_order_id = ''W1'', op_routing_op_id = None,
        op_no = 10, op_work_center_id = Some ''M1'', op_st = ''pending'', op_qty_good = 0,
        op_qty_scrap = 0, op_started_at = None, op_completed_at = None, op_created_at = 0,
        op_updated_at = 0\<rparr>],
      t_production_counts = [],
      t_downtime_events = [\<lparr>dt_id = ''D1'', dt_work_center_id = ''M1'', dt_state = ''down'',
        dt_start = 0, dt_end = 100, dt_reason_id = None, dt_classified_by = None,
        dt_classified_at = None, dt_created_at = 100\<rparr>],
      t_downtime_reasons = [\<lparr>rs_id = ''R1'', rs_code = ''TOOL'', rs_label = ''Tool change'', rs_parent_id = None, rs_six_big_loss = None\<rparr>],
      t_scrap_reasons = [], t_programs = []\<rparr>"

lemma sample_orders_inv: "orders_inv sample_orders"
  by (simp add: sample_orders_def orders_inv_def booked_def table_simps)

theorem record_count_correct_witness:
  "\<exists>op s'. record_count ''C1'' 50 ''O1'' ''M1'' 7 0 None 50 sample_orders = (Inr op, s') \<and>
     op_qty_good op = 7 \<and> orders_inv s'"
proof -
  obtain op s' where run: "record_count ''C1'' 50 ''O1'' ''M1'' 7 0 None 50 sample_orders = (Inr op, s')"
    by (simp add: record_count_def insert_production_count_row_def update_operation_def prog_simps
        sample_orders_def table_simps missing_ref_def in_i32_def)
  show ?thesis
    using record_count_correct [OF sample_orders_inv run] run
    by (simp add: sample_orders_def booked_def)
qed

text \<open>The downtime booked against a work center: the total length of its events.\<close>

definition downtime_total :: "string \<Rightarrow> downtime_row list \<Rightarrow> duration" where
  "downtime_total wc rows =
     sum_list (map (\<lambda>r. dt_end r - dt_start r) (filter (\<lambda>r. dt_work_center_id r = wc) rows))"

lemma downtime_total_append:
  "downtime_total wc (xs @ ys) = downtime_total wc xs + downtime_total wc ys"
  by (simp add: downtime_total_def)

lemma downtime_total_Cons:
  "downtime_total wc (r # rows) =
     (if dt_work_center_id r = wc then dt_end r - dt_start r else 0) + downtime_total wc rows"
  by (simp add: downtime_total_def)

lemma downtime_total_Nil: "downtime_total wc [] = 0"
  by (simp add: downtime_total_def)

lemma dt_shrink_fields [simp]:
  "dt_id (dt_shrink b f c now r) = dt_id r"
  "dt_work_center_id (dt_shrink b f c now r) = dt_work_center_id r"
  "dt_state (dt_shrink b f c now r) = dt_state r"
  "dt_start (dt_shrink b f c now r) = dt_start r"
  "dt_end (dt_shrink b f c now r) = b"
  "dt_reason_id (dt_shrink b f c now r) = f"
  by (simp_all add: dt_shrink_def)

lemma downtime_total_shrink:
  assumes "distinct (map dt_id rows)" "r \<in> set rows"
  shows "downtime_total wc (update_where (\<lambda>x. dt_id x = dt_id r) (dt_shrink b f c now) rows) =
    downtime_total wc rows - (if dt_work_center_id r = wc then dt_end r - b else 0)"
  using assms
proof (induction rows)
  case (Cons x rows)
  have same: "update_where (\<lambda>y. dt_id y = dt_id r) (dt_shrink b f c now) rows = rows"
    if "dt_id r \<notin> dt_id ` set rows"
    using that by (metis (mono_tags, lifting) image_eqI update_where_unmatched)
  show ?case
  proof (cases "x = r")
    case True
    with Cons.prems same show ?thesis
      by (simp add: update_where_Cons downtime_total_Cons)
  next
    case False
    with Cons.prems have "r \<in> set rows" "dt_id x \<noteq> dt_id r" by force+
    with Cons show ?thesis
      by (simp add: update_where_Cons downtime_total_Cons)
  qed
qed simp

lemma split_downtime_effect:
  assumes "split_downtime nid now i b fr sr who s = (Inr (first, second), s')"
  obtains r where "find_row dt_id i (t_downtime_events s) = Some r"
    "1000 * dt_start r < b" "b < 1000 * dt_end r" "first = dt_shrink (stored_instant b) fr who now r"
    "second = dt_second_half nid now (stored_instant b) sr who r" "\<not> has_key dt_id nid (t_downtime_events s)"
    "s' = s\<lparr>t_downtime_events :=
       update_where (\<lambda>r. dt_id r = i) (dt_shrink (stored_instant b) fr who now) (t_downtime_events s) @ [second]\<rparr>"
proof -
  note run = assms [unfolded split_downtime_def, THEN transaction_InrD]
  let ?upd = "update_downtime fr (if fr = None then None else Some who) (dt_shrink (stored_instant b) fr who now) i"
  from run obtain r s0 s1 where
    "get_downtime_event i s = (Inr r, s0)" and
    inside: "\<not> (b \<le> 1000 * dt_start r \<or> b \<ge> 1000 * dt_end r)" and
    "?upd s0 = (Inr first, s1)" and
    ins: "insert_downtime (dt_second_half nid now (stored_instant b) sr who r) s1 = (Inr (), s')" and
    second: "second = dt_second_half nid now (stored_instant b) sr who r"
    by (elim andThen_InrE) (auto dest!: guard_InrD ret_InrD)
  then have r: "find_row dt_id i (t_downtime_events s) = Some r" and upd: "?upd s = (Inr first, s1)"
    by (auto simp: prog_simps split: option.splits)
  from sql_update_InrD [OF upd [unfolded update_downtime_def]] r
  have s1: "first = dt_shrink (stored_instant b) fr who now r" "s1 = s\<lparr>t_downtime_events :=
       update_where (\<lambda>r. dt_id r = i) (dt_shrink (stored_instant b) fr who now) (t_downtime_events s)\<rparr>"
    by auto
  from sql_exec_InrD [OF ins [unfolded insert_downtime_def]]
  have "s' = s1\<lparr>t_downtime_events := t_downtime_events s1 @ [second]\<rparr>"
    "\<not> has_key dt_id nid (t_downtime_events s1)"
    by (auto simp: dt_second_half_def second)
  with that r inside s1 second show thesis
    by (simp add: dt_shrink.has_key_update)
qed

lemma stored_instant_within: "1000 * lo \<le> b \<Longrightarrow> lo \<le> stored_instant b" "b \<le> 1000 * hi \<Longrightarrow> stored_instant b \<le> hi"
  unfolding stored_instant_def Let_def by (auto split: if_splits; presburger)+

text \<open>
  C38.  Splitting a downtime event conserves downtime.  A split either fails and changes nothing, or
  the split point is strictly inside the event and the event is replaced by two adjacent ones that meet at the
  split point as the database stores it, cover exactly the span, keep its work center and state and carry the two
  reasons given; the downtime total of every work center is unchanged.  Neither event is empty when the split
  point is at least a microsecond away from both ends.
\<close>

theorem split_downtime_correct:
  assumes "distinct (map dt_id (t_downtime_events s))"
    and run: "split_downtime nid now i b fr sr who s = (res, s')"
  shows "(case res of
       Inl e \<Rightarrow> s' = s
     | Inr (x, y) \<Rightarrow>
         (\<exists>r. find_row dt_id i (t_downtime_events s) = Some r \<and>
            1000 * dt_start r < b \<and> b < 1000 * dt_end r \<and>
            dt_start x = dt_start r \<and> dt_end x = stored_instant b \<and> dt_start y = stored_instant b \<and> dt_end y = dt_end r \<and>
            dt_start x \<le> dt_end x \<and> dt_start y \<le> dt_end y \<and>
            (1000 * (dt_start r + 1) \<le> b \<longrightarrow> dt_start x < dt_end x) \<and>
            (b \<le> 1000 * (dt_end r - 1) \<longrightarrow> dt_start y < dt_end y) \<and>
            dt_work_center_id x = dt_work_center_id r \<and> dt_work_center_id y = dt_work_center_id r \<and>
            dt_state x = dt_state r \<and> dt_state y = dt_state r) \<and>
         dt_reason_id x = fr \<and> dt_reason_id y = sr \<and>
         find_row dt_id i (t_downtime_events s') = Some x \<and>
         find_row dt_id (dt_id y) (t_downtime_events s') = Some y \<and>
         distinct (map dt_id (t_downtime_events s'))) \<and>
    (\<forall>wc. downtime_total wc (t_downtime_events s') = downtime_total wc (t_downtime_events s))"
proof (cases res)
  case (Inl e)
  with run have "s' = s"
    unfolding split_downtime_def by (auto dest: transaction_error_state)
  with Inl show ?thesis by simp
next
  case (Inr xy)
  obtain x y where xy: "xy = (x, y)" by fastforce
  from run [unfolded Inr xy] obtain r where
    r: "find_row dt_id i (t_downtime_events s) = Some r" "1000 * dt_start r < b" "b < 1000 * dt_end r"
      "x = dt_shrink (stored_instant b) fr who now r" "y = dt_second_half nid now (stored_instant b) sr who r"
      "\<not> has_key dt_id nid (t_downtime_events s)" and
    s': "t_downtime_events s' = update_where (\<lambda>r. dt_id r = i) (dt_shrink (stored_instant b) fr who now)
            (t_downtime_events s) @ [y]"
    by (rule split_downtime_effect) simp
  note row = find_row_SomeD [OF r(1)]
  have total: "downtime_total wc (t_downtime_events s') = downtime_total wc (t_downtime_events s)" for wc
    using downtime_total_shrink [OF assms(1), of r wc "stored_instant b" fr who now] row r(5)
    by (simp add: s' downtime_total_append downtime_total_Cons downtime_total_Nil dt_second_half_def)
  have id_y: "dt_id y = nid" by (simp add: r(5) dt_second_half_def)
  have find_y: "find_row dt_id nid (t_downtime_events s') = Some y"
    using r(6) id_y find_row_None_iff [of dt_id nid "t_downtime_events s"]
    by (simp add: s' find_row_append dt_shrink.find_update table_simps)
  have find_x: "find_row dt_id i (t_downtime_events s') = Some x"
    using r(1,4) by (simp add: s' find_row_append dt_shrink.find_update_key)
  have dist: "distinct (map dt_id (t_downtime_events s'))"
    using assms(1) r(6) id_y
    by (simp add: s' dt_shrink.keys_update has_key_def flip: set_map)
  have within: "dt_start r \<le> stored_instant b" "stored_instant b \<le> dt_end r"
    "1000 * (dt_start r + 1) \<le> b \<Longrightarrow> dt_start r < stored_instant b"
    "b \<le> 1000 * (dt_end r - 1) \<Longrightarrow> stored_instant b < dt_end r"
    using r(2, 3) stored_instant_within(1) [of "dt_start r" b] stored_instant_within(2) [of b "dt_end r"]
      stored_instant_within(1) [of "dt_start r + 1" b] stored_instant_within(2) [of b "dt_end r - 1"] by linarith+
  show ?thesis
    using r row total find_x find_y dist id_y within by (simp add: Inr xy dt_second_half_def)
qed

text \<open>A split point less than a microsecond after the start passes the check and is stored as the start: the first event is empty.\<close>

lemma split_below_resolution:
  assumes "1000 * dt_start r < b" "b < 1000 * (dt_start r + 1)" "pg_epoch \<le> dt_start r"
  shows "dt_end (dt_shrink (stored_instant b) fr who now r) = dt_start (dt_shrink (stored_instant b) fr who now r)"
  using assms by (simp add: dt_shrink_def stored_instant_def Let_def)

theorem split_downtime_correct_witness:
  "\<exists>x y s'. split_downtime ''D2'' 200 ''D1'' 40000 (Some ''R1'') None ''U1'' sample_orders = (Inr (x, y), s') \<and>
     dt_start x < dt_end x \<and> dt_end x = dt_start y \<and>
     (\<forall>wc. downtime_total wc (t_downtime_events s') = downtime_total wc (t_downtime_events sample_orders))"
proof -
  have distinct: "distinct (map dt_id (t_downtime_events sample_orders))"
    by (simp add: sample_orders_def)
  obtain x y s' where
    run: "split_downtime ''D2'' 200 ''D1'' 40000 (Some ''R1'') None ''U1'' sample_orders = (Inr (x, y), s')"
    by (simp add: split_downtime_def update_downtime_def insert_downtime_def reason_violations_def
        dt_second_half_def dt_shrink_def prog_simps sample_orders_def table_simps missing_ref_def
        update_where_def)
  show ?thesis
    using split_downtime_correct [OF distinct run] run by auto
qed

text \<open>Inserting the operations appends them in order and touches nothing else.\<close>

lemma insert_operation_effect:
  "insert_operation r s = (Inr x, s') \<Longrightarrow>
     x = r \<and> s' = s\<lparr>t_wo_operations := t_wo_operations s @ [r]\<rparr>"
  unfolding insert_operation_def
  by (elim andThen_InrE) (auto dest!: sql_exec_InrD ret_InrD)

lemma insert_operations_effect:
  "mapProg (\<lambda>(n, oi). insert_operation (g n oi)) ps s = (Inr ops, s') \<Longrightarrow>
     ops = map (\<lambda>(n, oi). g n oi) ps \<and> s' = s\<lparr>t_wo_operations := t_wo_operations s @ ops\<rparr>"
proof (induction ps arbitrary: s ops)
  case (Cons p ps)
  obtain n oi where p: "p = (n, oi)" by fastforce
  from Cons.prems obtain x s1 xs where "insert_operation (g n oi) s = (Inr x, s1)"
    and "mapProg (\<lambda>(n, oi). insert_operation (g n oi)) ps s1 = (Inr xs, s')" and "ops = x # xs"
    by (auto simp: p elim!: andThen_InrE dest!: ret_InrD)
  with Cons.IH [of s1 xs] show ?case
    by (auto simp: p dest!: insert_operation_effect)
qed (auto dest: ret_InrD)

definition new_operations ::
  "(nat \<Rightarrow> string) \<Rightarrow> timestamp \<Rightarrow> work_order_input \<Rightarrow> wo_operation_row list" where
  "new_operations ids now i =
     map (\<lambda>(n, oi). new_operation (ids (Suc n)) now (ids 0) oi) (List.enumerate 0 (wi_operations i))"

lemma create_work_order_effect:
  assumes "create_work_order w ids now i s = (Inr (wo, ops), s')"
  obtains "wo = new_work_order (ids 0) now i" "ops = new_operations ids now i"
    "\<not> has_key wo_id (ids 0) (t_work_orders s)"
    "s' = s\<lparr>t_work_orders := t_work_orders s @ [wo], t_wo_operations := t_wo_operations s @ ops,
           t_outbox := t_outbox s @
             [\<lparr>ob_id = ids (Suc (length (wi_operations i))), ob_aggregate = ''work_order'',
               ob_entity_id = ids 0, ob_op = ''upsert'', ob_payload = work_order_payload w (ids 0) i,
               ob_destination = None, ob_created_at = now, ob_synced_at = None\<rparr>]\<rparr>"
proof -
  note run = assms [unfolded create_work_order_def, THEN transaction_InrD]
  from run obtain s1 s2 nid where
    wo_run: "insert_work_order (new_work_order (ids 0) now i) s = (Inr (), s1)" and
    ops_run: "mapProg (\<lambda>(n, oi). insert_operation (new_operation (ids (Suc n)) now (ids 0) oi))
       (List.enumerate 0 (wi_operations i)) s1 = (Inr ops, s2)" and
    ob_run: "enqueue (ids (Suc (length (wi_operations i)))) now ''work_order'' (ids 0) ''upsert''
       (work_order_payload w (ids 0) i) None s2 = (Inr nid, s')" and
    wo: "wo = new_work_order (ids 0) now i"
    by (elim andThen_InrE) (auto dest!: ret_InrD)
  have id: "wo_id (new_work_order (ids 0) now i) = ids 0" by (simp add: new_work_order_def)
  from sql_exec_InrD [OF wo_run [unfolded insert_work_order_def]] insert_operations_effect [OF ops_run]
  have s2: "ops = new_operations ids now i" "\<not> has_key wo_id (ids 0) (t_work_orders s)"
    "s2 = s\<lparr>t_work_orders := t_work_orders s @ [wo], t_wo_operations := t_wo_operations s @ ops\<rparr>"
    by (auto simp: id new_operations_def wo)
  from ob_run have "s' = s2\<lparr>t_outbox := t_outbox s2 @
      [\<lparr>ob_id = ids (Suc (length (wi_operations i))), ob_aggregate = ''work_order'',
        ob_entity_id = ids 0, ob_op = ''upsert'', ob_payload = work_order_payload w (ids 0) i,
        ob_destination = None, ob_created_at = now, ob_synced_at = None\<rparr>]\<rparr>"
    by (auto simp: enqueue_def elim!: andThen_InrE dest!: sql_exec_InrD ret_InrD)
  with that wo s2 show thesis by simp
qed

lemma filter_new_operations:
  "filter (\<lambda>r. op_work_order_id r = ids 0) (new_operations ids now i) = new_operations ids now i"
  by (auto simp: new_operations_def new_operation_def filter_id_conv)

lemma map_enumerate_snd: "map (\<lambda>(n, x). f x) (List.enumerate k xs) = map f xs"
  by (induction xs arbitrary: k) auto

text \<open>
  C37.  Creating a work order is atomic and can be read back.  A call either fails and changes
  nothing, or stores a draft order with one pending, zero-count operation per requested one, so
  that \<open>get_work_order_detail\<close> returns what was returned (operations by number), and in the same
  commit appends one unsynced outbox entry carrying the order; no other order is touched.
\<close>

theorem create_work_order_correct:
  assumes inv: "orders_inv s" and run: "create_work_order w ids now i s = (r, s')"
  shows "orders_inv s' \<and>
    (case r of
       Inl e \<Rightarrow> s' = s
     | Inr (wo, ops) \<Rightarrow>
         get_work_order_detail (wo_id wo) s' = (Inr (wo, sort_key op_no ops), s') \<and>
         wo_st wo = wo_as_str WoDraft \<and> wo_number wo = wi_wo_number i \<and>
         map op_no ops = map oi_op_no (wi_operations i) \<and>
         (\<forall>op\<in>set ops. op_st op = op_as_str OpPending \<and> op_qty_good op = 0 \<and> op_qty_scrap op = 0) \<and>
         (\<forall>j. j \<noteq> wo_id wo \<longrightarrow> find_row wo_id j (t_work_orders s') = find_row wo_id j (t_work_orders s)) \<and>
         (\<exists>e. t_outbox s' = t_outbox s @ [e] \<and> ob_entity_id e = wo_id wo \<and>
              ob_payload e = work_order_payload w (wo_id wo) i \<and> ob_synced_at e = None))"
proof -
  have inv': "orders_inv s'"
    using preserves_runD [OF preserves_inv_create_work_order inv run] .
  show ?thesis
  proof (cases r)
    case (Inl e)
    with run have "s' = s"
      unfolding create_work_order_def by (auto dest: transaction_error_state)
    with inv' Inl show ?thesis by simp
  next
    case (Inr wops)
    obtain wo ops where wops: "wops = (wo, ops)" by fastforce
    from run [unfolded Inr wops] have wo: "wo = new_work_order (ids 0) now i"
      and ops: "ops = new_operations ids now i"
      and fresh: "\<not> has_key wo_id (ids 0) (t_work_orders s)"
      and s': "t_work_orders s' = t_work_orders s @ [wo]"
        "t_wo_operations s' = t_wo_operations s @ ops"
        "t_outbox s' = t_outbox s @
             [\<lparr>ob_id = ids (Suc (length (wi_operations i))), ob_aggregate = ''work_order'',
               ob_entity_id = ids 0, ob_op = ''upsert'', ob_payload = work_order_payload w (ids 0) i,
               ob_destination = None, ob_created_at = now, ob_synced_at = None\<rparr>]"
      by (elim create_work_order_effect; simp)+
    have id: "wo_id wo = ids 0" by (simp add: wo new_work_order_def)
    from inv fresh have "filter (\<lambda>r. op_work_order_id r = ids 0) (t_wo_operations s) = []"
      by (force simp: orders_inv_def filter_empty_conv)
    moreover have "find_row wo_id (ids 0) (t_work_orders s) = None"
      using fresh by (simp add: find_row_None_iff)
    ultimately have detail: "get_work_order_detail (ids 0) s' = (Inr (wo, sort_key op_no ops), s')"
      using id filter_new_operations [of ids now i]
      by (simp add: get_work_order_detail_def prog_simps s' table_simps ops)
    have nos: "map op_no ops = map oi_op_no (wi_operations i)"
      using map_enumerate_snd [of oi_op_no 0 "wi_operations i"]
      by (simp add: ops new_operations_def new_operation_def comp_def case_prod_unfold)
    have pending: "\<forall>op\<in>set ops. op_st op = op_as_str OpPending \<and> op_qty_good op = 0 \<and> op_qty_scrap op = 0"
      by (auto simp: ops new_operations_def new_operation_def codec_defs)
    have others: "\<forall>j. j \<noteq> ids 0 \<longrightarrow> find_row wo_id j (t_work_orders s') = find_row wo_id j (t_work_orders s)"
      using id by (simp add: s' table_simps split: option.split)
    show ?thesis
      using inv' detail nos pending others
      by (simp add: Inr wops id s') (simp add: wo new_work_order_def codec_defs)
  qed
qed

definition sample_wire :: wire where
  "sample_wire = \<lparr>dec_to_json = JNum, dec_of_json = (\<lambda>v. case v of JNum q \<Rightarrow> Some q | _ \<Rightarrow> None),
     ts_to_json = (\<lambda>t. JNum (of_int t)), ts_of_json = (\<lambda>v. case v of JNum q \<Rightarrow> Some \<lfloor>q\<rfloor> | _ \<Rightarrow> None),
     instant_to_json = (\<lambda>n. JNum (of_int n)), instant_of_json = (\<lambda>v. case v of JNum q \<Rightarrow> Some \<lfloor>q\<rfloor> | _ \<Rightarrow> None),
     i32_of_json = (\<lambda>v. case v of JNum q \<Rightarrow> if in_i32 \<lfloor>q\<rfloor> then Some \<lfloor>q\<rfloor> else None | _ \<Rightarrow> None),
     de_error = (\<lambda>_. ''invalid type'')\<rparr>"

definition sample_order_input :: work_order_input where
  "sample_order_input =
     \<lparr>wi_wo_number = ''WO-2'', wi_part_id = ''P1'', wi_routing_id = None, wi_qty_ordered = 5,
      wi_priority = None, wi_planned_start = Some 10, wi_planned_end = None,
      wi_operations = [\<lparr>oi_op_no = 20, oi_routing_op_id = None, oi_work_center_id = Some ''M1''\<rparr>,
                       \<lparr>oi_op_no = 10, oi_routing_op_id = None, oi_work_center_id = None\<rparr>]\<rparr>"

theorem create_work_order_correct_witness:
  "\<exists>wo ops s'. create_work_order sample_wire (\<lambda>n. replicate (Suc n) CHR ''x'') 5 sample_order_input sample_orders
       = (Inr (wo, ops), s') \<and> map op_no ops = [20, 10] \<and> wo_st wo = ''draft'' \<and> orders_inv s'"
proof -
  obtain wo ops s' where
    run: "create_work_order sample_wire (\<lambda>n. replicate (Suc n) CHR ''x'') 5 sample_order_input sample_orders
       = (Inr (wo, ops), s')"
    by (simp add: create_work_order_def insert_work_order_def insert_operation_def new_work_order_def
        new_operation_def enqueue_def prog_simps sample_order_input_def sample_orders_def
        table_simps missing_ref_def)
  show ?thesis
    using create_work_order_correct [OF sample_orders_inv run] run
    by (simp add: sample_order_input_def codec_defs)
qed

end
