(* ===== verification/Ingest.thy ===== *)
theory Ingest
  imports Orders MachineStates
begin

text \<open>
  Signal intake and state derivation: \<^verbatim>\<open>mes-db/src/repo_ingest.rs\<close>, \<^verbatim>\<open>mes-edge/src/ingest.rs\<close> and
  \<^verbatim>\<open>mes-edge/src/process.rs\<close>.  This repository has its own error mapping, which reports every
  database error but a missing row as internal.
\<close>

section \<open>Rows\<close>

record signal_source_row =
  ss_id :: string
  ss_work_center_id :: string
  ss_source_key :: string
  ss_kind :: string
  ss_enabled :: bool

record machine_event_row =
  me_id :: string
  me_ts :: timestamp
  me_work_center_id :: string
  me_source_id :: "string option"
  me_event_type :: string
  me_payload :: "json option"

record machine_state_row =
  ms_id :: string
  ms_work_center_id :: string
  ms_state :: string
  ms_start :: timestamp
  ms_end :: timestamp

record planned_stop_row =
  ps_id :: string
  ps_work_center_id :: string
  ps_starts_at :: timestamp
  ps_ends_at :: timestamp

record ingest_db = orders_db +
  t_signal_sources :: "signal_source_row list"
  t_machine_events :: "machine_event_row list"
  t_machine_states :: "machine_state_row list"
  t_planned_stops :: "planned_stop_row list"

datatype signal_event = Cycle | Heartbeat | Count int int

definition event_type :: "signal_event \<Rightarrow> string" where
  "event_type e = (case e of Cycle \<Rightarrow> ''cycle'' | Heartbeat \<Rightarrow> ''heartbeat'' | Count _ _ \<Rightarrow> ''count'')"

record raw_signal =
  sg_source_key :: string
  sg_ts :: timestamp
  sg_event :: signal_event

section \<open>Repository\<close>

definition ingest_map_sqlx :: "sqlx_error \<Rightarrow> repo_error" where
  "ingest_map_sqlx e = (case e of RowNotFound \<Rightarrow> NotFound | _ \<Rightarrow> DbError e)"

definition state_str :: "machine_state \<Rightarrow> string" where
  "state_str s =
     (case s of Running \<Rightarrow> ''running'' | MicroStop \<Rightarrow> ''micro_stop'' | Down \<Rightarrow> ''down''
      | PlannedStop \<Rightarrow> ''planned_stop'')"

definition resolve_source ::
  "string \<Rightarrow> ('s ingest_db_scheme, repo_error, signal_source_row option) prog" where
  "resolve_source source_key = gets (\<lambda>s. find_row ss_source_key source_key (t_signal_sources s))"

definition create_signal_source ::
  "string \<Rightarrow> string \<Rightarrow> string \<Rightarrow> string \<Rightarrow> bool
    \<Rightarrow> ('s ingest_db_scheme, repo_error, signal_source_row) prog" where
  "create_signal_source nid work_center_id source_key kind enabled =
     (let r = \<lparr>ss_id = nid, ss_work_center_id = work_center_id, ss_source_key = source_key,
               ss_kind = kind, ss_enabled = enabled\<rparr>
      in andThen
           (sql_exec_by ingest_map_sqlx
              (\<lambda>s. [(has_key ss_id nid (t_signal_sources s), dup_key ''signal_sources_pkey''),
                    (has_key ss_source_key source_key (t_signal_sources s),
                     dup_key ''signal_sources_source_key_key''),
                    (\<not> has_key wc_id work_center_id (t_work_centers s),
                     bad_ref ''signal_sources'' ''signal_sources_work_center_id_fkey'')])
              (\<lambda>s. s\<lparr>t_signal_sources := t_signal_sources s @ [r]\<rparr>))
           (\<lambda>_. ret r))"

definition insert_machine_event ::
  "string \<Rightarrow> timestamp \<Rightarrow> string \<Rightarrow> string \<Rightarrow> string \<Rightarrow> json option
    \<Rightarrow> ('s ingest_db_scheme, repo_error, unit) prog" where
  "insert_machine_event nid ts work_center_id source_id kind payload =
     sql_exec_by ingest_map_sqlx
       (\<lambda>s. [(has_key (\<lambda>e. (me_ts e, me_id e)) (ts, nid) (t_machine_events s),
              dup_key ''machine_events_pkey''),
             (\<not> has_key wc_id work_center_id (t_work_centers s),
              bad_ref ''machine_events'' ''machine_events_work_center_id_fkey''),
             (\<not> has_key ss_id source_id (t_signal_sources s),
              bad_ref ''machine_events'' ''machine_events_source_id_fkey'')])
       (\<lambda>s. s\<lparr>t_machine_events := t_machine_events s @
              [\<lparr>me_id = nid, me_ts = ts, me_work_center_id = work_center_id,
                me_source_id = Some source_id, me_event_type = kind, me_payload = payload\<rparr>]\<rparr>)"

definition insert_production_count ::
  "string \<Rightarrow> timestamp \<Rightarrow> string \<Rightarrow> string \<Rightarrow> int \<Rightarrow> int
    \<Rightarrow> ('s ingest_db_scheme, repo_error, unit) prog" where
  "insert_production_count nid ts work_center_id source_id good scrap =
     sql_exec_by ingest_map_sqlx
       (\<lambda>s. [(has_key (\<lambda>c. (pc_ts c, pc_id c)) (ts, nid) (t_production_counts s),
              dup_key ''production_counts_pkey''),
             (\<not> has_key wc_id work_center_id (t_work_centers s),
              bad_ref ''production_counts'' ''production_counts_work_center_id_fkey''),
             (\<not> has_key ss_id source_id (t_signal_sources s),
              bad_ref ''production_counts'' ''production_counts_source_id_fkey'')])
       (\<lambda>s. s\<lparr>t_production_counts := t_production_counts s @
              [\<lparr>pc_id = nid, pc_ts = ts, pc_work_center_id = work_center_id,
                pc_source_id = Some source_id, pc_good = good, pc_scrap = scrap,
                pc_wo_operation_id = None, pc_scrap_reason_id = None\<rparr>]\<rparr>)"

definition fetch_cycle_pulses ::
  "string \<Rightarrow> timestamp \<Rightarrow> timestamp \<Rightarrow> ('s ingest_db_scheme, repo_error, timestamp list) prog" where
  "fetch_cycle_pulses work_center_id start stop =
     gets (\<lambda>s. sort (map me_ts (filter
       (\<lambda>e. me_work_center_id e = work_center_id \<and> me_event_type e = ''cycle'' \<and>
            me_ts e \<ge> start \<and> me_ts e \<le> stop) (t_machine_events s))))"

text \<open>The sums are 64-bit in the database; its counts are 32-bit, so they stay exact.\<close>

definition sum_counts ::
  "string \<Rightarrow> timestamp \<Rightarrow> timestamp \<Rightarrow> ('s ingest_db_scheme, repo_error, int \<times> int) prog" where
  "sum_counts work_center_id start stop =
     gets (\<lambda>s. let cs = filter (\<lambda>c. pc_work_center_id c = work_center_id \<and>
                                    pc_ts c \<ge> start \<and> pc_ts c \<le> stop) (t_production_counts s)
               in (sum_list (map pc_good cs), sum_list (map pc_scrap cs)))"

definition fetch_planned_intervals ::
  "string \<Rightarrow> timestamp \<Rightarrow> timestamp \<Rightarrow> ('s ingest_db_scheme, repo_error, planned_interval list) prog" where
  "fetch_planned_intervals work_center_id start stop =
     gets (\<lambda>s. map (\<lambda>p. \<lparr>pl_start = ps_starts_at p, pl_end = ps_ends_at p\<rparr>)
       (sort_key ps_starts_at (filter
          (\<lambda>p. ps_work_center_id p = work_center_id \<and> ps_starts_at p < stop \<and> ps_ends_at p > start)
          (t_planned_stops s))))"

definition state_in_window :: "string \<Rightarrow> timestamp \<Rightarrow> timestamp \<Rightarrow> machine_state_row \<Rightarrow> bool" where
  "state_in_window wc a b r \<longleftrightarrow> ms_work_center_id r = wc \<and> ms_start r < b \<and> ms_end r > a"

definition open_stop_in_window :: "string \<Rightarrow> timestamp \<Rightarrow> timestamp \<Rightarrow> downtime_row \<Rightarrow> bool" where
  "open_stop_in_window wc a b r \<longleftrightarrow>
     dt_work_center_id r = wc \<and> dt_reason_id r = None \<and> dt_start r < b \<and> dt_end r > a"

definition state_row :: "string \<Rightarrow> string \<Rightarrow> state_interval \<Rightarrow> machine_state_row" where
  "state_row nid wc iv =
     \<lparr>ms_id = nid, ms_work_center_id = wc, ms_state = state_str (iv_state iv),
      ms_start = iv_start iv, ms_end = iv_end iv\<rparr>"

definition insert_machine_state :: "machine_state_row \<Rightarrow> ('s ingest_db_scheme, repo_error, unit) prog" where
  "insert_machine_state r =
     sql_exec_by ingest_map_sqlx
       (\<lambda>s. [(has_key ms_id (ms_id r) (t_machine_states s), dup_key ''machine_states_pkey''),
             (\<not> has_key wc_id (ms_work_center_id r) (t_work_centers s),
              bad_ref ''machine_states'' ''machine_states_work_center_id_fkey'')])
       (\<lambda>s. s\<lparr>t_machine_states := t_machine_states s @ [r]\<rparr>)"

definition stop_row :: "timestamp \<Rightarrow> string \<Rightarrow> downtime_event \<Rightarrow> downtime_row" where
  "stop_row now wc e =
     \<lparr>dt_id = de_id e, dt_work_center_id = wc, dt_state = state_str (de_state e),
      dt_start = de_start e, dt_end = de_end e, dt_reason_id = None, dt_classified_by = None,
      dt_classified_at = None, dt_created_at = now\<rparr>"

definition insert_stop :: "downtime_row \<Rightarrow> ('s ingest_db_scheme, repo_error, unit) prog" where
  "insert_stop r =
     sql_exec_by ingest_map_sqlx
       (\<lambda>s. [(has_key dt_id (dt_id r) (t_downtime_events s), dup_key ''downtime_events_pkey''),
             (\<not> has_key wc_id (dt_work_center_id r) (t_work_centers s),
              bad_ref ''downtime_events'' ''downtime_events_work_center_id_fkey'')])
       (\<lambda>s. s\<lparr>t_downtime_events := t_downtime_events s @ [r]\<rparr>)"

definition replace_derived ::
  "(nat \<Rightarrow> string) \<Rightarrow> timestamp \<Rightarrow> string \<Rightarrow> timestamp \<Rightarrow> timestamp \<Rightarrow> state_interval list
    \<Rightarrow> downtime_event list \<Rightarrow> ('s ingest_db_scheme, repo_error, unit) prog" where
  "replace_derived ids now work_center_id window_start window_end states downtime =
     transaction
       (andThen (modify (\<lambda>s. s\<lparr>t_machine_states :=
                   filter (\<lambda>r. \<not> state_in_window work_center_id window_start window_end r)
                     (t_machine_states s)\<rparr>)) (\<lambda>_.
        andThen (mapProg (\<lambda>(n, iv). insert_machine_state (state_row (ids n) work_center_id iv))
                   (List.enumerate 0 states)) (\<lambda>_.
        andThen (modify (\<lambda>s. s\<lparr>t_downtime_events :=
                   filter (\<lambda>r. \<not> open_stop_in_window work_center_id window_start window_end r)
                     (t_downtime_events s)\<rparr>)) (\<lambda>_.
        andThen (mapProg (\<lambda>e. insert_stop (stop_row now work_center_id e)) downtime) (\<lambda>_.
        ret ())))))"

definition list_machine_states ::
  "string \<Rightarrow> timestamp \<Rightarrow> timestamp
    \<Rightarrow> ('s ingest_db_scheme, repo_error, (string \<times> timestamp \<times> timestamp) list) prog" where
  "list_machine_states work_center_id start stop =
     gets (\<lambda>s. map (\<lambda>r. (ms_state r, ms_start r, ms_end r)) (sort_key ms_start (filter
       (\<lambda>r. ms_work_center_id r = work_center_id \<and> ms_start r \<ge> start \<and> ms_end r \<le> stop)
       (t_machine_states s))))"

definition count_downtime ::
  "string \<Rightarrow> timestamp \<Rightarrow> timestamp \<Rightarrow> ('s ingest_db_scheme, repo_error, nat) prog" where
  "count_downtime work_center_id start stop =
     gets (\<lambda>s. length (filter
       (\<lambda>r. dt_work_center_id r = work_center_id \<and> dt_start r \<ge> start \<and> dt_end r \<le> stop)
       (t_downtime_events s)))"

section \<open>Derivation pipeline\<close>

text \<open>Identifiers are drawn for the downtime events first, then for the state rows.\<close>

definition recompute_states ::
  "(nat \<Rightarrow> string) \<Rightarrow> timestamp \<Rightarrow> string \<Rightarrow> timestamp \<Rightarrow> timestamp
    \<Rightarrow> ('s ingest_db_scheme, repo_error, nat \<times> nat) prog" where
  "recompute_states ids now work_center_id start stop =
     andThen (fetch_cycle_pulses work_center_id start stop) (\<lambda>pulses.
     andThen (fetch_planned_intervals work_center_id start stop) (\<lambda>planned.
     (let raw = compute_states default_state_config pulses start stop;
          states = apply_planned_stops raw planned;
          downtime = downtime_events ids states
      in andThen (replace_derived (\<lambda>n. ids (length downtime + n)) now work_center_id start stop
                    states downtime) (\<lambda>_.
         ret (length states, length downtime)))))"

section \<open>Handlers of \<^verbatim>\<open>/v1/ingest\<close>\<close>

definition lookup_source ::
  "(string \<rightharpoonup> signal_source_row option) \<Rightarrow> string
    \<Rightarrow> ('s ingest_db_scheme, repo_error, signal_source_row option \<times> (string \<rightharpoonup> signal_source_row option)) prog" where
  "lookup_source cache key =
     (case cache key of
        Some src \<Rightarrow> ret (src, cache)
      | None \<Rightarrow> andThen (resolve_source key) (\<lambda>src. ret (src, cache(key \<mapsto> src))))"

definition persist_signal ::
  "string \<Rightarrow> signal_source_row \<Rightarrow> raw_signal \<Rightarrow> ('s ingest_db_scheme, repo_error, unit) prog" where
  "persist_signal nid source sig =
     (case sg_event sig of
        Count good scrap \<Rightarrow>
          insert_production_count nid (sg_ts sig) (ss_work_center_id source) (ss_id source) good scrap
      | e \<Rightarrow>
          insert_machine_event nid (sg_ts sig) (ss_work_center_id source) (ss_id source) (event_type e) None)"

definition enabled_source :: "signal_source_row option \<Rightarrow> signal_source_row option" where
  "enabled_source src = (case src of Some r \<Rightarrow> if ss_enabled r then Some r else None | None \<Rightarrow> None)"

text \<open>The loop over the batch: the cache, the identifiers drawn so far, the two counters.\<close>

fun ingest_loop ::
  "(nat \<Rightarrow> string) \<Rightarrow> (string \<rightharpoonup> signal_source_row option) \<Rightarrow> nat \<Rightarrow> nat \<Rightarrow> raw_signal list
    \<Rightarrow> ('s ingest_db_scheme, repo_error, nat \<times> nat) prog" where
  "ingest_loop ids cache accepted dropped [] = ret (accepted, dropped)"
| "ingest_loop ids cache accepted dropped (sig # sigs) =
     andThen (lookup_source cache (sg_source_key sig)) (\<lambda>(src, cache').
     (case enabled_source src of
        None \<Rightarrow> ingest_loop ids cache' accepted (Suc dropped) sigs
      | Some source \<Rightarrow>
          andThen (persist_signal (ids accepted) source sig) (\<lambda>_.
          ingest_loop ids cache' (Suc accepted) dropped sigs)))"

definition ingest_signals ::
  "(nat \<Rightarrow> string) \<Rightarrow> auth_user \<Rightarrow> raw_signal list \<Rightarrow> ('s ingest_db_scheme, api_err, nat \<times> nat) prog" where
  "ingest_signals ids u signals =
     andThen require_pool (\<lambda>_. mapErr repo_err (ingest_loop ids Map.empty 0 0 signals))"

definition recompute ::
  "(nat \<Rightarrow> string) \<Rightarrow> timestamp \<Rightarrow> auth_user \<Rightarrow> string \<Rightarrow> timestamp \<Rightarrow> timestamp
    \<Rightarrow> ('s ingest_db_scheme, api_err, nat \<times> nat) prog" where
  "recompute ids now u work_center_id start stop =
     andThen require_pool (\<lambda>_. mapErr repo_err (recompute_states ids now work_center_id start stop))"

section \<open>The batch loop and its cache\<close>

definition source_of :: "'s ingest_db_scheme \<Rightarrow> raw_signal \<Rightarrow> signal_source_row option" where
  "source_of s g =
     Option.bind (find_row ss_source_key (sg_source_key g) (t_signal_sources s)) (\<lambda>r. if ss_enabled r then Some r else None)"

text \<open>What a batch contributes to the event and count tables, identifiers apart.\<close>

definition event_of :: "'s ingest_db_scheme \<Rightarrow> raw_signal \<Rightarrow> (timestamp \<times> string \<times> string option \<times> string) list" where
  "event_of s g =
     (case (source_of s g, sg_event g) of
        (Some r, Cycle) \<Rightarrow> [(sg_ts g, ss_work_center_id r, Some (ss_id r), ''cycle'')]
      | (Some r, Heartbeat) \<Rightarrow> [(sg_ts g, ss_work_center_id r, Some (ss_id r), ''heartbeat'')]
      | _ \<Rightarrow> [])"

definition count_of :: "'s ingest_db_scheme \<Rightarrow> raw_signal \<Rightarrow> (timestamp \<times> string \<times> string option \<times> int \<times> int) list" where
  "count_of s g =
     (case (source_of s g, sg_event g) of
        (Some r, Count good scrap) \<Rightarrow> [(sg_ts g, ss_work_center_id r, Some (ss_id r), good, scrap)]
      | _ \<Rightarrow> [])"

definition event_fields :: "machine_event_row \<Rightarrow> timestamp \<times> string \<times> string option \<times> string" where
  "event_fields e = (me_ts e, me_work_center_id e, me_source_id e, me_event_type e)"

definition count_fields :: "production_count_row \<Rightarrow> timestamp \<times> string \<times> string option \<times> int \<times> int" where
  "count_fields c = (pc_ts c, pc_work_center_id c, pc_source_id c, pc_good c, pc_scrap c)"

definition persisted :: "'s ingest_db_scheme \<Rightarrow> raw_signal list \<Rightarrow> 's ingest_db_scheme \<Rightarrow> bool" where
  "persisted s sigs s' \<longleftrightarrow>
     (\<exists>es cs. s' = s\<lparr>t_machine_events := t_machine_events s @ es,
                    t_production_counts := t_production_counts s @ cs\<rparr> \<and>
        map event_fields es = concat (map (event_of s) sigs) \<and>
        map count_fields cs = concat (map (count_of s) sigs))"

lemma source_of_enabled:
  "source_of s g = enabled_source (find_row ss_source_key (sg_source_key g) (t_signal_sources s))"
  by (cases "find_row ss_source_key (sg_source_key g) (t_signal_sources s)") (simp_all add: source_of_def enabled_source_def)

lemma persistedI:
  "s' = s\<lparr>t_machine_events := t_machine_events s @ es, t_production_counts := t_production_counts s @ cs\<rparr> \<Longrightarrow>
     map event_fields es = concat (map (event_of s) sigs) \<Longrightarrow>
     map count_fields cs = concat (map (count_of s) sigs) \<Longrightarrow> persisted s sigs s'"
  by (auto simp: persisted_def)

lemma persisted_dropped: "source_of s g = None \<Longrightarrow> persisted s (g # sigs) s' = persisted s sigs s'"
  by (simp add: persisted_def event_of_def count_of_def)

lemma persisted_Nil: "persisted s [] s"
  by (simp add: persisted_def)

lemma persisted_sources: "persisted s sigs s' \<Longrightarrow> t_signal_sources s' = t_signal_sources s"
  by (auto simp: persisted_def)

lemma persisted_of:
  "persisted s sigs s' \<Longrightarrow> source_of s' = source_of s"
  "persisted s sigs s' \<Longrightarrow> event_of s' = event_of s"
  "persisted s sigs s' \<Longrightarrow> count_of s' = count_of s"
  by (auto simp: fun_eq_iff event_of_def count_of_def source_of_enabled persisted_sources)

lemma persisted_trans:
  assumes "persisted s xs s1" "persisted s1 ys s2"
  shows "persisted s (xs @ ys) s2"
proof -
  from assms(1) obtain es cs where 1: "s1 = s\<lparr>t_machine_events := t_machine_events s @ es,
      t_production_counts := t_production_counts s @ cs\<rparr>"
    "map event_fields es = concat (map (event_of s) xs)" "map count_fields cs = concat (map (count_of s) xs)"
    by (auto simp: persisted_def)
  from assms(2) obtain es' cs' where 2: "s2 = s1\<lparr>t_machine_events := t_machine_events s1 @ es',
      t_production_counts := t_production_counts s1 @ cs'\<rparr>"
    "map event_fields es' = concat (map (event_of s) ys)" "map count_fields cs' = concat (map (count_of s) ys)"
    using persisted_of [OF assms(1)] by (auto simp: persisted_def)
  show ?thesis
    unfolding persisted_def
    by (rule exI [of _ "es @ es'"], rule exI [of _ "cs @ cs'"]) (simp add: 1 2)
qed

lemma persist_signal_effect:
  assumes "source_of s g = Some r" "persist_signal nid r g s = (res, s')"
  shows "case res of Inl e \<Rightarrow> s' = s | Inr u \<Rightarrow> persisted s [g] s'"
proof (cases res)
  case (Inl e)
  with assms(2) show ?thesis
    by (auto simp: persist_signal_def insert_machine_event_def insert_production_count_def
        sql_exec_by_eval split: signal_event.splits option.splits)
next
  case (Inr u)
  show ?thesis
  proof (cases "sg_event g")
    case (Count good scrap)
    with assms(2) Inr have "s' = s\<lparr>t_production_counts := t_production_counts s @
        [\<lparr>pc_id = nid, pc_ts = sg_ts g, pc_work_center_id = ss_work_center_id r,
          pc_source_id = Some (ss_id r), pc_good = good, pc_scrap = scrap,
          pc_wo_operation_id = None, pc_scrap_reason_id = None\<rparr>]\<rparr>"
      by (auto simp: persist_signal_def insert_production_count_def dest!: sql_exec_by_InrD)
    with Count assms(1) Inr show ?thesis
      by (auto simp: event_of_def count_of_def count_fields_def intro: persistedI [where es = "[]"])
  qed (use assms Inr in \<open>auto simp: persist_signal_def insert_machine_event_def persisted_def
      event_of_def count_of_def event_fields_def event_type_def dest!: sql_exec_by_InrD\<close>)
qed

definition cache_ok :: "(string \<rightharpoonup> signal_source_row option) \<Rightarrow> 's ingest_db_scheme \<Rightarrow> bool" where
  "cache_ok cache s \<longleftrightarrow>
     (\<forall>k v. cache k = Some v \<longrightarrow> v = find_row ss_source_key k (t_signal_sources s))"

lemma lookup_source_run:
  assumes "cache_ok cache s"
  shows "\<exists>cache'. cache_ok cache' s \<and>
    lookup_source cache k s = (Inr (find_row ss_source_key k (t_signal_sources s), cache'), s)"
  using assms
  by (auto simp: lookup_source_def cache_ok_def resolve_source_def prog_simps split: option.split)

lemma ingest_loop_run:
  assumes "cache_ok cache s" "ingest_loop ids cache a d sigs s = (res, s')"
  shows "case res of
      Inl e \<Rightarrow> \<exists>k<length sigs. persisted s (take k sigs) s'
    | Inr (a', d') \<Rightarrow> persisted s sigs s' \<and>
        a' = a + length (filter (\<lambda>g. source_of s g \<noteq> None) sigs) \<and>
        d' = d + length (filter (\<lambda>g. source_of s g = None) sigs)"
  using assms
proof (induction sigs arbitrary: cache a d s)
  case Nil
  then show ?case by (auto simp: ret_eval persisted_Nil)
next
  case (Cons g sigs)
  let ?src = "find_row ss_source_key (sg_source_key g) (t_signal_sources s)"
  obtain cache' where ok: "cache_ok cache' s"
    and look: "lookup_source cache (sg_source_key g) s = (Inr (?src, cache'), s)"
    using lookup_source_run [OF Cons.prems(1)] by blast
  show ?case
  proof (cases "source_of s g")
    case None
    with Cons.prems(2) look have "ingest_loop ids cache' a (Suc d) sigs s = (res, s')"
      by (simp add: andThen_eval source_of_enabled)
    note IH = Cons.IH [OF ok this]
    show ?thesis
    proof (cases res)
      case (Inl e)
      with IH obtain k where "k < length sigs" "persisted s (take k sigs) s'" by auto
      with None Inl show ?thesis by (auto intro!: exI [of _ "Suc k"] simp: persisted_dropped)
    next
      case (Inr x)
      with IH None show ?thesis by (auto simp: persisted_dropped)
    qed
  next
    case (Some r)
    obtain pres s1 where p: "persist_signal (ids a) r g s = (pres, s1)" by fastforce
    note eff = persist_signal_effect [OF Some p]
    show ?thesis
    proof (cases pres)
      case (Inl e)
      with Cons.prems(2) look Some p have "res = Inl e" "s' = s1"
        by (auto simp: andThen_eval source_of_enabled)
      with eff Inl show ?thesis by (auto intro!: exI [of _ 0] simp: persisted_Nil)
    next
      case (Inr u)
      with Cons.prems(2) look Some p have run: "ingest_loop ids cache' (Suc a) d sigs s1 = (res, s')"
        by (simp add: andThen_eval source_of_enabled)
      from eff Inr have s1: "persisted s [g] s1" by simp
      have "cache_ok cache' s1" using ok persisted_sources [OF s1] by (simp add: cache_ok_def)
      note IH = Cons.IH [OF this run]
      show ?thesis
      proof (cases res)
        case (Inl e)
        with IH obtain k where "k < length sigs" "persisted s1 (take k sigs) s'" by auto
        with Inl persisted_trans [OF s1] show ?thesis by (auto intro!: exI [of _ "Suc k"])
      next
        case (Inr x)
        with IH Some persisted_trans [OF s1, of sigs s'] persisted_of [OF s1] show ?thesis by auto
      qed
    qed
  qed
qed

text \<open>
  C9.  A batch of signals is taken in exactly.  With its per-batch cache, the handler does what a
  lookup per signal would: when it succeeds, precisely the signals of registered, enabled sources
  are stored, in order, each with its source's work center, the rest are counted as dropped, and
  nothing else changes.  When a statement fails, a proper prefix of the batch has been stored in
  the same way.
\<close>

theorem ingest_signals_correct:
  assumes "has_pool s" and "ingest_signals ids u sigs s = (res, s')"
  shows "case res of
      Inl e \<Rightarrow> \<exists>k<length sigs. persisted s (take k sigs) s'
    | Inr (accepted, dropped) \<Rightarrow> persisted s sigs s' \<and>
        accepted = length (filter (\<lambda>g. source_of s g \<noteq> None) sigs) \<and>
        accepted + dropped = length sigs"
proof -
  obtain r s1 where run: "ingest_loop ids Map.empty 0 0 sigs s = (r, s1)" by fastforce
  have "cache_ok Map.empty s" by (simp add: cache_ok_def)
  from ingest_loop_run [OF this run] assms run
    sum_length_filter_compl [of "\<lambda>g. source_of s g \<noteq> None" sigs]
  show ?thesis
    by (cases r) (auto simp: ingest_signals_def prog_simps split: if_splits)
qed

section \<open>Recomputation\<close>

lemma fold_append_states:
  "fold (\<lambda>x s. s\<lparr>t_machine_states := t_machine_states s @ [h x]\<rparr>) xs s =
     s\<lparr>t_machine_states := t_machine_states s @ map h xs\<rparr>"
  by (induction xs arbitrary: s) auto

lemma fold_append_stops:
  "fold (\<lambda>x s. s\<lparr>t_downtime_events := t_downtime_events s @ [h x]\<rparr>) xs s =
     s\<lparr>t_downtime_events := t_downtime_events s @ map h xs\<rparr>"
  by (induction xs arbitrary: s) auto

lemma replace_derived_effect:
  assumes "replace_derived ids now wc a b states stops s = (Inr u, s')"
  shows "s' = s\<lparr>t_machine_states := filter (\<lambda>r. \<not> state_in_window wc a b r) (t_machine_states s) @
             map (\<lambda>(n, iv). state_row (ids n) wc iv) (List.enumerate 0 states),
           t_downtime_events := filter (\<lambda>r. \<not> open_stop_in_window wc a b r) (t_downtime_events s) @
             map (stop_row now wc) stops\<rparr>"
proof -
  let ?s0 = "s\<lparr>t_machine_states := filter (\<lambda>r. \<not> state_in_window wc a b r) (t_machine_states s)\<rparr>"
  let ?ins = "\<lambda>(n, iv). insert_machine_state (state_row (ids n) wc iv)"
  from assms [unfolded replace_derived_def, THEN transaction_InrD] obtain us s1 us' where
    1: "mapProg ?ins (List.enumerate 0 states) ?s0 = (Inr us, s1)" and
    2: "mapProg (\<lambda>e. insert_stop (stop_row now wc e)) stops
      (s1\<lparr>t_downtime_events := filter (\<lambda>r. \<not> open_stop_in_window wc a b r) (t_downtime_events s1)\<rparr>)
      = (Inr us', s')"
    by (elim andThen_InrE) (auto dest!: modify_InrD ret_InrD)
  have "s1 = fold (\<lambda>x s. s\<lparr>t_machine_states := t_machine_states s @
      [case x of (n, iv) \<Rightarrow> state_row (ids n) wc iv]\<rparr>) (List.enumerate 0 states) ?s0"
    by (rule mapProg_fold [OF _ 1])
      (auto simp: insert_machine_state_def split: prod.splits dest!: sql_exec_by_InrD)
  moreover have "s' = fold (\<lambda>e s. s\<lparr>t_downtime_events := t_downtime_events s @ [stop_row now wc e]\<rparr>) stops
      (s1\<lparr>t_downtime_events := filter (\<lambda>r. \<not> open_stop_in_window wc a b r) (t_downtime_events s1)\<rparr>)"
    by (rule mapProg_fold [OF _ 2]) (auto simp: insert_stop_def dest!: sql_exec_by_InrD)
  ultimately show ?thesis by (simp add: fold_append_states fold_append_stops)
qed

definition window_pulses :: "'s ingest_db_scheme \<Rightarrow> string \<Rightarrow> timestamp \<Rightarrow> timestamp \<Rightarrow> timestamp list" where
  "window_pulses s wc a b =
     sort (map me_ts (filter (\<lambda>e. me_work_center_id e = wc \<and> me_event_type e = ''cycle'' \<and>
       me_ts e \<ge> a \<and> me_ts e \<le> b) (t_machine_events s)))"

definition window_plan :: "'s ingest_db_scheme \<Rightarrow> string \<Rightarrow> timestamp \<Rightarrow> timestamp \<Rightarrow> planned_interval list" where
  "window_plan s wc a b =
     map (\<lambda>p. \<lparr>pl_start = ps_starts_at p, pl_end = ps_ends_at p\<rparr>)
       (sort_key ps_starts_at (filter (\<lambda>p. ps_work_center_id p = wc \<and> ps_starts_at p < b \<and>
          ps_ends_at p > a) (t_planned_stops s)))"

definition window_states :: "'s ingest_db_scheme \<Rightarrow> string \<Rightarrow> timestamp \<Rightarrow> timestamp \<Rightarrow> state_interval list" where
  "window_states s wc a b =
     apply_planned_stops (compute_states default_state_config (window_pulses s wc a b) a b)
       (window_plan s wc a b)"

lemma recompute_states_eq:
  "recompute_states ids now wc a b s =
     (case replace_derived (\<lambda>n. ids (length (downtime_events ids (window_states s wc a b)) + n)) now wc a b
             (window_states s wc a b) (downtime_events ids (window_states s wc a b)) s of
        (Inl e, s') \<Rightarrow> (Inl e, s')
      | (Inr u, s') \<Rightarrow> (Inr (length (window_states s wc a b),
                           length (downtime_events ids (window_states s wc a b))), s'))"
  by (simp add: recompute_states_def fetch_cycle_pulses_def fetch_planned_intervals_def prog_simps
      Let_def window_states_def window_pulses_def window_plan_def split: prod.split sum.split)

lemma window_states_timeline:
  assumes "a < b"
  shows "timeline a (window_states s wc a b) b"
    "a \<le> t \<Longrightarrow> t < b \<Longrightarrow> state_at (window_states s wc a b) t =
       Some (if in_planned (window_plan s wc a b) t then PlannedStop
             else window_state default_state_config (window_pulses s wc a b) a b t)"
proof -
  have "\<forall>p\<in>set (window_pulses s wc a b). a \<le> p \<and> p \<le> b" by (auto simp: window_pulses_def)
  moreover have "0 \<le> micro_stop_after default_state_config" by (simp add: default_state_config_def)
  ultimately have raw: "timeline a (compute_states default_state_config (window_pulses s wc a b) a b) b \<and>
     (\<forall>t. a \<le> t \<longrightarrow> t < b \<longrightarrow>
        state_at (compute_states default_state_config (window_pulses s wc a b) a b) t =
          Some (window_state default_state_config (window_pulses s wc a b) a b t))"
    using compute_states_spec [OF assms] by blast
  then show "timeline a (window_states s wc a b) b"
    unfolding window_states_def by (blast intro: planned.keeps_window)
  show "a \<le> t \<Longrightarrow> t < b \<Longrightarrow> state_at (window_states s wc a b) t =
       Some (if in_planned (window_plan s wc a b) t then PlannedStop
             else window_state default_state_config (window_pulses s wc a b) a b t)"
    using planned.pointwise [OF TrueI conjunct1 [OF raw]] raw unfolding window_states_def by simp
qed

lemma timeline_bounds:
  "timeline a ivs b \<Longrightarrow> iv \<in> set ivs \<Longrightarrow> a \<le> iv_start iv \<and> iv_start iv < iv_end iv \<and> iv_end iv \<le> b"
proof (induction ivs arbitrary: a)
  case (Cons x xs)
  then show ?case using timeline_le [of "iv_end x" xs b] by force
qed simp

definition state_fields :: "machine_state_row \<Rightarrow> string \<times> timestamp \<times> timestamp" where
  "state_fields r = (ms_state r, ms_start r, ms_end r)"

definition interval_fields :: "state_interval \<Rightarrow> string \<times> timestamp \<times> timestamp" where
  "interval_fields iv = (state_str (iv_state iv), iv_start iv, iv_end iv)"

lemma enumerate_mem: "(n, x) \<in> set (List.enumerate k xs) \<Longrightarrow> x \<in> set xs"
  by (induction xs arbitrary: k) auto

lemma state_rows_window:
  assumes "timeline a ivs b"
  shows "filter (state_in_window wc a b) (map (\<lambda>(n, iv). state_row (ids n) wc iv) (List.enumerate k ivs)) =
    map (\<lambda>(n, iv). state_row (ids n) wc iv) (List.enumerate k ivs)"
proof (rule filter_True, rule ballI)
  fix r assume "r \<in> set (map (\<lambda>(n, iv). state_row (ids n) wc iv) (List.enumerate k ivs))"
  then obtain n iv where "r = state_row (ids n) wc iv" "iv \<in> set ivs"
    using enumerate_mem by fastforce
  with timeline_bounds [OF assms, of iv] show "state_in_window wc a b r"
    by (auto simp: state_row_def state_in_window_def)
qed

lemma state_rows_fields:
  "map state_fields (map (\<lambda>(n, iv). state_row (ids n) wc iv) (List.enumerate k ivs)) = map interval_fields ivs"
  using map_enumerate_snd [of interval_fields k ivs]
  by (simp add: comp_def case_prod_unfold state_row_def state_fields_def interval_fields_def)

text \<open>
  C8.  Recomputing a window stores the derived timeline and nothing else.  A recompute either fails
  and changes nothing, or afterwards the work center's state rows that meet the window are exactly
  the intervals of a timeline tiling it, whose state at every instant is the planned stop or gap
  state of that instant; all other state rows and every classified downtime event are as before,
  and the unclassified stops meeting the window are exactly the unplanned stops of the timeline.
\<close>

theorem recompute_states_correct:
  assumes window: "a < b" and run: "recompute_states ids now wc a b s = (res, s')"
  shows "case res of
      Inl e \<Rightarrow> s' = s
    | Inr (n, m) \<Rightarrow> \<exists>ivs. timeline a ivs b \<and>
        (\<forall>t. a \<le> t \<and> t < b \<longrightarrow> state_at ivs t =
           Some (if in_planned (window_plan s wc a b) t then PlannedStop
                 else window_state default_state_config (window_pulses s wc a b) a b t)) \<and>
        map state_fields (filter (state_in_window wc a b) (t_machine_states s')) = map interval_fields ivs \<and>
        filter (\<lambda>r. \<not> state_in_window wc a b r) (t_machine_states s') =
          filter (\<lambda>r. \<not> state_in_window wc a b r) (t_machine_states s) \<and>
        filter (\<lambda>r. dt_reason_id r \<noteq> None) (t_downtime_events s') =
          filter (\<lambda>r. dt_reason_id r \<noteq> None) (t_downtime_events s) \<and>
        filter (open_stop_in_window wc a b) (t_downtime_events s') =
          map (stop_row now wc) (downtime_events ids ivs) \<and>
        n = length ivs \<and> m = length (downtime_events ids ivs)"
proof -
  let ?ivs = "window_states s wc a b"
  let ?stops = "downtime_events ids ?ivs"
  let ?ids = "\<lambda>n. ids (length ?stops + n)"
  note tl = window_states_timeline [OF window, where s = s and wc = wc]
  show ?thesis
  proof (cases res)
    case (Inl e)
    with run show ?thesis
      by (auto simp: recompute_states_eq replace_derived_def dest: transaction_error_state
          split: prod.splits sum.splits)
  next
    case (Inr nm)
    with run obtain u where rep: "replace_derived ?ids now wc a b ?ivs ?stops s = (Inr u, s')"
      and nm: "nm = (length ?ivs, length ?stops)"
      by (auto simp: recompute_states_eq split: prod.splits sum.splits)
    from replace_derived_effect [OF rep]
    have states: "t_machine_states s' = filter (\<lambda>r. \<not> state_in_window wc a b r) (t_machine_states s) @
          map (\<lambda>(n, iv). state_row (?ids n) wc iv) (List.enumerate 0 ?ivs)"
      and stops: "t_downtime_events s' =
          filter (\<lambda>r. \<not> open_stop_in_window wc a b r) (t_downtime_events s) @ map (stop_row now wc) ?stops"
      by simp_all
    have "\<forall>e\<in>set ?stops. a \<le> de_start e \<and> de_start e < de_end e \<and> de_end e \<le> b"
      using timeline_bounds [OF tl(1)] by (fastforce simp: downtime_events_def dest: enumerate_mem)
    then have open_new: "\<forall>e\<in>set ?stops. open_stop_in_window wc a b (stop_row now wc e)"
      by (force simp: open_stop_in_window_def stop_row_def)
    have 1: "map state_fields (filter (state_in_window wc a b) (t_machine_states s')) = map interval_fields ?ivs"
      unfolding states filter_append
      by (simp only: state_rows_window [OF tl(1)] map_append state_rows_fields) simp
    have 2: "filter (\<lambda>r. \<not> state_in_window wc a b r) (t_machine_states s') =
        filter (\<lambda>r. \<not> state_in_window wc a b r) (t_machine_states s)"
      unfolding states using state_rows_window [OF tl(1), of wc ?ids 0]
      by (auto simp: filter_empty_conv filter_id_conv)
    have 3: "filter (\<lambda>r. dt_reason_id r \<noteq> None) (t_downtime_events s') =
        filter (\<lambda>r. dt_reason_id r \<noteq> None) (t_downtime_events s)"
      unfolding stops
      by (auto simp: stop_row_def open_stop_in_window_def filter_empty_conv intro!: filter_cong)
    have 4: "filter (open_stop_in_window wc a b) (t_downtime_events s') = map (stop_row now wc) ?stops"
      unfolding stops using open_new by (auto simp: filter_id_conv)
    show ?thesis
      using tl 1 2 3 4 by (auto simp: Inr nm intro!: exI [of _ ?ivs])
  qed
qed

definition sample_ingest :: ingest_db where
  "sample_ingest = orders_db.extend sample_orders
     \<lparr>t_signal_sources = [\<lparr>ss_id = ''S1'', ss_work_center_id = ''M1'', ss_source_key = ''vmc/1'',
        ss_kind = ''cycle'', ss_enabled = True\<rparr>],
      t_machine_events = [], t_machine_states = [], t_planned_stops = []\<rparr>"

lemmas sample_ingest_defs = sample_ingest_def sample_orders_def orders_db.defs

theorem ingest_signals_correct_witness:
  "\<exists>s'. ingest_signals (\<lambda>n. replicate (Suc n) CHR ''i'') \<lparr>user_id = ''U1'', role = ''Operator''\<rparr>
       [\<lparr>sg_source_key = ''vmc/1'', sg_ts = 5, sg_event = Cycle\<rparr>,
        \<lparr>sg_source_key = ''other'', sg_ts = 6, sg_event = Cycle\<rparr>] sample_ingest = (Inr (1, 1), s') \<and>
     persisted sample_ingest [\<lparr>sg_source_key = ''vmc/1'', sg_ts = 5, sg_event = Cycle\<rparr>,
        \<lparr>sg_source_key = ''other'', sg_ts = 6, sg_event = Cycle\<rparr>] s'"
proof -
  have pool: "has_pool sample_ingest" by (simp add: sample_ingest_defs)
  obtain s' where run: "ingest_signals (\<lambda>n. replicate (Suc n) CHR ''i'') \<lparr>user_id = ''U1'', role = ''Operator''\<rparr>
       [\<lparr>sg_source_key = ''vmc/1'', sg_ts = 5, sg_event = Cycle\<rparr>,
        \<lparr>sg_source_key = ''other'', sg_ts = 6, sg_event = Cycle\<rparr>] sample_ingest = (Inr (1, 1), s')"
    by (simp add: ingest_signals_def lookup_source_def resolve_source_def persist_signal_def
        insert_machine_event_def prog_simps sample_ingest_defs table_simps enabled_source_def)
  show ?thesis
    using ingest_signals_correct [OF pool run] run by auto
qed

theorem recompute_states_correct_witness:
  "\<exists>s'. recompute_states (\<lambda>n. replicate (Suc n) CHR ''i'') 7 ''M1'' 0 600000000 sample_ingest = (Inr (1, 1), s') \<and>
     (\<exists>ivs. timeline 0 ivs 600000000 \<and> length ivs = 1)"
proof -
  obtain s' where run: "recompute_states (\<lambda>n. replicate (Suc n) CHR ''i'') 7 ''M1'' 0 600000000 sample_ingest
      = (Inr (1, 1), s')"
    by (simp add: recompute_states_def fetch_cycle_pulses_def fetch_planned_intervals_def Let_def
        replace_derived_def insert_machine_state_def insert_stop_def state_row_def stop_row_def
        compute_states_def debounce_def apply_planned_stops_def overlay_interval_def planned_cuts_def
        downtime_events_def is_stop_def classify_stop_def default_state_config_def map_filter_def
        prog_simps sample_ingest_defs table_simps open_stop_in_window_def)
  have "(0::timestamp) < 600000000" by simp
  from recompute_states_correct [OF this run] run show ?thesis by auto
qed

definition classified_ingest :: ingest_db where
  "classified_ingest = sample_ingest\<lparr>t_downtime_events :=
     [\<lparr>dt_id = ''D1'', dt_work_center_id = ''M1'', dt_state = ''down'', dt_start = 0,
       dt_end = 600000000, dt_reason_id = Some ''R1'', dt_classified_by = Some ''U1'',
       dt_classified_at = Some 600000000, dt_created_at = 600000000\<rparr>]\<rparr>"

text \<open>
  Recomputing is not idempotent on classified downtime.  A machine without pulses is down for
  ten minutes and the stop has been classified; recomputing the same window keeps the classified
  event and stores the same stop a second time, so the downtime of the work center doubles.
\<close>

theorem recompute_doubles_classified:
  "\<exists>s'. recompute_states (\<lambda>n. replicate (Suc n) CHR ''i'') 7 ''M1'' 0 600000000 classified_ingest = (Inr (1, 1), s') \<and>
     downtime_total ''M1'' (t_downtime_events classified_ingest) = seconds 600 \<and>
     downtime_total ''M1'' (t_downtime_events s') = seconds 1200"
  by (simp add: recompute_states_def fetch_cycle_pulses_def fetch_planned_intervals_def Let_def
      replace_derived_def insert_machine_state_def insert_stop_def state_row_def stop_row_def
      compute_states_def debounce_def apply_planned_stops_def overlay_interval_def planned_cuts_def
      downtime_events_def is_stop_def classify_stop_def default_state_config_def map_filter_def
      prog_simps sample_ingest_defs classified_ingest_def table_simps open_stop_in_window_def
      downtime_total_def)

section \<open>The ledger under intake\<close>

text \<open>Device counts are not booked against an operation, so the ledger of orders is unaffected.\<close>

lemma orders_inv_unbooked_count:
  "orders_inv s \<Longrightarrow> pc_wo_operation_id c = None \<Longrightarrow>
     orders_inv (s\<lparr>t_production_counts := t_production_counts s @ [c]\<rparr>)"
  by (auto simp: orders_inv_def booked_append booked_one)

lemma preserves_inv_persist [preserves_rules]: "preserves orders_inv (persist_signal nid r g)"
  unfolding persist_signal_def insert_machine_event_def insert_production_count_def
  by (cases "sg_event g")
    (auto intro!: preserves_sql_exec_by orders_inv_unbooked_count simp: orders_inv_def [of "_\<lparr>t_machine_events := _\<rparr>"]
      orders_inv_def [symmetric])

lemma preserves_inv_lookup [preserves_rules]: "preserves orders_inv (lookup_source cache k)"
  unfolding lookup_source_def resolve_source_def
  by (cases "cache k") (auto intro!: preserves_rules)

lemma preserves_inv_ingest_loop [preserves_rules]:
  "preserves orders_inv (ingest_loop ids cache a d sigs)"
  by (induction sigs arbitrary: cache a d) (auto intro!: preserves_rules split: option.split)

lemma preserves_inv_ingest [preserves_rules]: "preserves orders_inv (ingest_signals ids u sigs)"
  unfolding ingest_signals_def by (intro preserves_rules)

lemma preserves_inv_recompute [preserves_rules]: "preserves orders_inv (recompute ids now u wc a b)"
proof -
  have derived: "preserves orders_inv (replace_derived ids' now wc a b states stops)"
    for ids' states stops
    unfolding replace_derived_def insert_machine_state_def insert_stop_def
    by (intro preserves_rules preserves_modify)
      (auto intro!: preserves_sql_exec_by simp: orders_inv_def)
  show ?thesis
    unfolding recompute_def recompute_states_def fetch_cycle_pulses_def fetch_planned_intervals_def Let_def
    by (intro preserves_rules derived)
qed

end
