(* ===== verification/Cmms.thy ===== *)
theory Cmms
  imports Ingest
begin

text \<open>
  Maintenance: due decisions (\<^verbatim>\<open>mes-core/src/cmms.rs\<close>), the repository
  \<^verbatim>\<open>mes-db/src/repo_cmms.rs\<close> and the handlers \<^verbatim>\<open>mes-edge/src/cmms.rs\<close>.

  Three pieces of arithmetic belong to code outside the repository and are parameters: how the
  database turns a running interval into hours and adds an interval of days to an instant, and the
  decimal library's addition.
\<close>

section \<open>Rows\<close>

record arith =
  hours_of :: "duration \<Rightarrow> rat"
  plus_days :: "timestamp \<Rightarrow> rat \<Rightarrow> timestamp"
  dec_add :: "rat \<Rightarrow> rat \<Rightarrow> rat"

record pm_row =
  pm_id :: string
  pm_work_center_id :: string
  pm_name :: string
  pm_trigger_type :: string
  pm_interval_value :: rat
  pm_last_done_at :: "timestamp option"
  pm_next_due_at :: "timestamp option"
  pm_last_done_usage_h :: "rat option"
  pm_next_due_usage_h :: "rat option"
  pm_checklist_ref :: "string option"
  pm_enabled :: bool
  pm_created_at :: timestamp
  pm_updated_at :: timestamp

record mwo_row =
  mw_id :: string
  mw_work_center_id :: string
  mw_pm_schedule_id :: "string option"
  mw_wo_type :: string
  mw_status :: string
  mw_technician_id :: "string option"
  mw_failure_code :: "string option"
  mw_notes :: "string option"
  mw_opened_at :: timestamp
  mw_scheduled_at :: "timestamp option"
  mw_started_at :: "timestamp option"
  mw_closed_at :: "timestamp option"
  mw_verified_at :: "timestamp option"
  mw_created_at :: timestamp
  mw_updated_at :: timestamp

record spare_row =
  sp_id :: string
  sp_code :: string
  sp_name :: string
  sp_uom :: string
  sp_reorder_point :: rat
  sp_reorder_qty :: rat

record spare_txn_row =
  st_id :: string
  st_spare_part_id :: string
  st_maintenance_wo_id :: "string option"
  st_txn_type :: string
  st_qty :: rat
  st_ts :: timestamp
  st_user_id :: "string option"

record proc_row =
  pr_id :: string
  pr_spare_part_id :: string
  pr_qty_requested :: rat
  pr_reason :: string
  pr_status :: string
  pr_erp_reference :: "string option"
  pr_pushed_at :: "timestamp option"
  pr_created_at :: timestamp
  pr_updated_at :: timestamp

record cmms_db = ingest_db +
  t_pm_schedules :: "pm_row list"
  t_maintenance_wos :: "mwo_row list"
  t_spare_parts :: "spare_row list"
  t_spare_txns :: "spare_txn_row list"
  t_procurement_requests :: "proc_row list"

section \<open>Due decisions\<close>

definition calendar_next_due :: "timestamp \<Rightarrow> int \<Rightarrow> timestamp" where
  "calendar_next_due last_done interval_days = last_done + days interval_days"

definition calendar_is_due :: "timestamp \<Rightarrow> timestamp \<Rightarrow> bool" where
  "calendar_is_due next_due now \<longleftrightarrow> now \<ge> next_due"

definition usage_next_due :: "arith \<Rightarrow> rat \<Rightarrow> rat \<Rightarrow> rat" where
  "usage_next_due ar last_done_usage_h interval_hours = dec_add ar last_done_usage_h interval_hours"

definition usage_is_due :: "rat \<Rightarrow> rat \<Rightarrow> bool" where
  "usage_is_due next_due_usage_h current_usage_h \<longleftrightarrow> current_usage_h \<ge> next_due_usage_h"

section \<open>Repository: schedules\<close>

definition run_hours :: "arith \<Rightarrow> string \<Rightarrow> 's ingest_db_scheme \<Rightarrow> rat" where
  "run_hours ar wc s =
     sum_list (map (\<lambda>m. hours_of ar (ms_end m - ms_start m))
       (filter (\<lambda>m. ms_work_center_id m = wc \<and> ms_state m = ''running'') (t_machine_states s)))"

definition work_center_run_hours :: "arith \<Rightarrow> string \<Rightarrow> ('s cmms_db_scheme, repo_error, rat) prog" where
  "work_center_run_hours ar wc = gets (run_hours ar wc)"

definition insert_pm :: "pm_row \<Rightarrow> ('s cmms_db_scheme, repo_error, pm_row) prog" where
  "insert_pm r =
     andThen
       (sql_exec
          (\<lambda>s. [(has_key pm_id (pm_id r) (t_pm_schedules s), dup_key ''pm_schedules_pkey''),
                (\<not> has_key wc_id (pm_work_center_id r) (t_work_centers s),
                 bad_ref ''pm_schedules'' ''pm_schedules_work_center_id_fkey'')])
          (\<lambda>s. s\<lparr>t_pm_schedules := t_pm_schedules s @ [r]\<rparr>))
       (\<lambda>_. ret r)"

definition create_pm_schedule ::
  "arith \<Rightarrow> string \<Rightarrow> timestamp \<Rightarrow> string \<Rightarrow> string \<Rightarrow> string \<Rightarrow> rat \<Rightarrow> string option
    \<Rightarrow> ('s cmms_db_scheme, repo_error, pm_row) prog" where
  "create_pm_schedule ar nid now work_center_id name trigger_type interval_value checklist_ref =
     andThen (okOr (InvalidReference ''unknown trigger_type'') (pm_trigger_parse trigger_type)) (\<lambda>trigger.
     (let base = \<lparr>pm_id = nid, pm_work_center_id = work_center_id, pm_name = name,
                  pm_trigger_type = pm_trigger_as_str trigger, pm_interval_value = interval_value,
                  pm_last_done_at = None, pm_next_due_at = None, pm_last_done_usage_h = None,
                  pm_next_due_usage_h = None, pm_checklist_ref = checklist_ref, pm_enabled = True,
                  pm_created_at = now, pm_updated_at = now\<rparr>
      in case trigger of
           Calendar \<Rightarrow>
             insert_pm (base\<lparr>pm_last_done_at := Some now,
                             pm_next_due_at := Some (plus_days ar now interval_value)\<rparr>)
         | UsageHours \<Rightarrow>
             andThen (work_center_run_hours ar work_center_id) (\<lambda>baseline.
             insert_pm (base\<lparr>pm_last_done_usage_h := Some baseline,
                             pm_next_due_usage_h := Some (usage_next_due ar baseline interval_value)\<rparr>))))"

definition pm_is_due :: "timestamp \<Rightarrow> rat \<Rightarrow> pm_row \<Rightarrow> bool" where
  "pm_is_due now usage r =
     (case pm_trigger_parse (pm_trigger_type r) of
        Some Calendar \<Rightarrow> (case pm_next_due_at r of None \<Rightarrow> False | Some nd \<Rightarrow> calendar_is_due nd now)
      | Some UsageHours \<Rightarrow> (case pm_next_due_usage_h r of None \<Rightarrow> False | Some nd \<Rightarrow> usage_is_due nd usage)
      | None \<Rightarrow> False)"

definition list_pm_due ::
  "arith \<Rightarrow> timestamp \<Rightarrow> ('s cmms_db_scheme, repo_error, (pm_row \<times> rat) list) prog" where
  "list_pm_due ar now =
     gets (\<lambda>s. filter (\<lambda>(r, usage). pm_is_due now usage r)
       (map (\<lambda>r. (r, run_hours ar (pm_work_center_id r) s))
          (sort_key pm_created_at (filter pm_enabled (t_pm_schedules s)))))"

section \<open>Repository: maintenance work orders\<close>

definition create_maintenance_wo ::
  "string \<Rightarrow> timestamp \<Rightarrow> string \<Rightarrow> string option \<Rightarrow> string \<Rightarrow> string option
    \<Rightarrow> ('s cmms_db_scheme, repo_error, mwo_row) prog" where
  "create_maintenance_wo nid now work_center_id pm_schedule_id wo_type notes =
     andThen (okOr (InvalidReference ''unknown wo_type'') (maintenance_type_parse wo_type)) (\<lambda>t.
     (let r = \<lparr>mw_id = nid, mw_work_center_id = work_center_id, mw_pm_schedule_id = pm_schedule_id,
               mw_wo_type = maintenance_type_as_str t, mw_status = ''requested'',
               mw_technician_id = None, mw_failure_code = None, mw_notes = notes,
               mw_opened_at = now, mw_scheduled_at = None, mw_started_at = None, mw_closed_at = None,
               mw_verified_at = None, mw_created_at = now, mw_updated_at = now\<rparr>
      in andThen
           (sql_exec
              (\<lambda>s. [(has_key mw_id nid (t_maintenance_wos s), dup_key ''maintenance_work_orders_pkey''),
                    (\<not> has_key wc_id work_center_id (t_work_centers s),
                     bad_ref ''maintenance_work_orders'' ''maintenance_work_orders_work_center_id_fkey''),
                    (missing_ref pm_id pm_schedule_id (t_pm_schedules s),
                     bad_ref ''maintenance_work_orders'' ''maintenance_work_orders_pm_schedule_id_fkey'')])
              (\<lambda>s. s\<lparr>t_maintenance_wos := t_maintenance_wos s @ [r]\<rparr>))
           (\<lambda>_. ret r)))"

definition get_maintenance_wo :: "string \<Rightarrow> ('s cmms_db_scheme, repo_error, mwo_row) prog" where
  "get_maintenance_wo i = andThen (gets (\<lambda>s. find_row mw_id i (t_maintenance_wos s))) (okOr NotFound)"

definition list_maintenance_wos :: "('s cmms_db_scheme, repo_error, mwo_row list) prog" where
  "list_maintenance_wos = gets (\<lambda>s. sort_key (\<lambda>r. - mw_opened_at r) (t_maintenance_wos s))"

definition mw_stamp :: "maintenance_status \<Rightarrow> timestamp \<Rightarrow> mwo_row \<Rightarrow> mwo_row" where
  "mw_stamp next now r =
     (case next of
        MwScheduled \<Rightarrow> r\<lparr>mw_scheduled_at := Some now\<rparr>
      | MwInProgress \<Rightarrow> r\<lparr>mw_started_at := Some now\<rparr>
      | MwCompleted \<Rightarrow> r\<lparr>mw_closed_at := Some now\<rparr>
      | MwVerified \<Rightarrow> r\<lparr>mw_verified_at := Some now\<rparr>
      | MwRequested \<Rightarrow> r\<lparr>mw_opened_at := now\<rparr>)"

definition mw_advance ::
  "maintenance_status \<Rightarrow> timestamp \<Rightarrow> string option \<Rightarrow> string option \<Rightarrow> mwo_row \<Rightarrow> mwo_row" where
  "mw_advance next now technician_id failure_code r =
     (mw_stamp next now r)
       \<lparr>mw_status := mwo_as_str next,
        mw_technician_id := (case technician_id of None \<Rightarrow> mw_technician_id r | t \<Rightarrow> t),
        mw_failure_code := (case failure_code of None \<Rightarrow> mw_failure_code r | c \<Rightarrow> c),
        mw_updated_at := now\<rparr>"

definition transition_maintenance_wo ::
  "timestamp \<Rightarrow> string \<Rightarrow> string \<Rightarrow> string option \<Rightarrow> string option
    \<Rightarrow> ('s cmms_db_scheme, repo_error, mwo_row) prog" where
  "transition_maintenance_wo now i next technician_id failure_code =
     andThen (okOr (InvalidReference ''unknown status'') (mwo_parse next)) (\<lambda>nxt.
     transaction
       (andThen (get_maintenance_wo i) (\<lambda>wo.
        andThen (okOr (Conflict ''corrupt status'') (mwo_parse (mw_status wo))) (\<lambda>cur.
        andThen (guard (mwo_can_transition cur nxt)
                   (Conflict (''cannot move '' @ mwo_as_str cur @ '' -> '' @ mwo_as_str nxt))) (\<lambda>_.
        sql_update (\<lambda>s. find_row mw_id i (t_maintenance_wos s))
          (\<lambda>s _. [(missing_ref us_id technician_id (t_users s),
                   bad_ref ''maintenance_work_orders'' ''maintenance_work_orders_technician_id_fkey'')])
          (mw_advance nxt now technician_id failure_code)
          (\<lambda>s. s\<lparr>t_maintenance_wos := update_where (\<lambda>r. mw_id r = i)
                 (mw_advance nxt now technician_id failure_code) (t_maintenance_wos s)\<rparr>))))))"

section \<open>Repository: spares and procurement\<close>

definition stock_of :: "string \<Rightarrow> spare_txn_row list \<Rightarrow> rat" where
  "stock_of spare txns = sum_list (map st_qty (filter (\<lambda>t. st_spare_part_id t = spare) txns))"

definition create_spare_part ::
  "string \<Rightarrow> string \<Rightarrow> string \<Rightarrow> string \<Rightarrow> rat \<Rightarrow> rat
    \<Rightarrow> ('s cmms_db_scheme, repo_error, spare_row \<times> rat) prog" where
  "create_spare_part nid code name uom reorder_point reorder_qty =
     (let r = \<lparr>sp_id = nid, sp_code = code, sp_name = name, sp_uom = uom,
               sp_reorder_point = reorder_point, sp_reorder_qty = reorder_qty\<rparr>
      in andThen
           (sql_exec
              (\<lambda>s. [(has_key sp_id nid (t_spare_parts s), dup_key ''spare_parts_pkey''),
                    (has_key sp_code code (t_spare_parts s), dup_key ''spare_parts_code_key'')])
              (\<lambda>s. s\<lparr>t_spare_parts := t_spare_parts s @ [r]\<rparr>))
           (\<lambda>_. ret (r, 0)))"

definition spare_stock :: "string \<Rightarrow> ('s cmms_db_scheme, repo_error, rat) prog" where
  "spare_stock spare_part_id = gets (\<lambda>s. stock_of spare_part_id (t_spare_txns s))"

definition list_spare_parts ::
  "(string \<Rightarrow> int) \<Rightarrow> ('s cmms_db_scheme, repo_error, (spare_row \<times> rat) list) prog" where
  "list_spare_parts collate =
     gets (\<lambda>s. map (\<lambda>r. (r, stock_of (sp_id r) (t_spare_txns s)))
       (sort_key (\<lambda>r. collate (sp_code r)) (t_spare_parts s)))"

definition signed_qty :: "string \<Rightarrow> rat \<Rightarrow> rat option" where
  "signed_qty txn_type qty =
     (if txn_type = ''issue'' then Some (- \<bar>qty\<bar>)
      else if txn_type = ''receive'' then Some \<bar>qty\<bar>
      else if txn_type = ''adjust'' then Some qty
      else None)"

definition open_reorder :: "proc_row \<Rightarrow> bool" where
  "open_reorder r \<longleftrightarrow> pr_status r = ''requested'' \<and> pr_reason r = ''reorder_point''"

definition new_request :: "string \<Rightarrow> timestamp \<Rightarrow> string \<Rightarrow> rat \<Rightarrow> procurement_reason \<Rightarrow> proc_row" where
  "new_request nid now spare qty reason =
     \<lparr>pr_id = nid, pr_spare_part_id = spare, pr_qty_requested = qty,
      pr_reason = proc_reason_as_str reason, pr_status = ''requested'', pr_erp_reference = None,
      pr_pushed_at = None, pr_created_at = now, pr_updated_at = now\<rparr>"

definition insert_request :: "proc_row \<Rightarrow> ('s cmms_db_scheme, repo_error, unit) prog" where
  "insert_request r =
     sql_exec
       (\<lambda>s. [(has_key pr_id (pr_id r) (t_procurement_requests s), dup_key ''procurement_requests_pkey''),
             (\<not> has_key sp_id (pr_spare_part_id r) (t_spare_parts s),
              bad_ref ''procurement_requests'' ''procurement_requests_spare_part_id_fkey'')])
       (\<lambda>s. s\<lparr>t_procurement_requests := t_procurement_requests s @ [r]\<rparr>)"

text \<open>An open automatic request for the spare makes the insert do nothing.\<close>

definition raise_reorder ::
  "string \<Rightarrow> timestamp \<Rightarrow> string \<Rightarrow> rat \<Rightarrow> ('s cmms_db_scheme, repo_error, proc_row option) prog" where
  "raise_reorder nid now spare qty =
     (\<lambda>s. if has_key pr_spare_part_id spare (filter open_reorder (t_procurement_requests s))
          then ret None s
          else andThen (insert_request (new_request nid now spare qty ReorderPoint))
                 (\<lambda>_. ret (Some (new_request nid now spare qty ReorderPoint))) s)"

definition insert_spare_txn :: "spare_txn_row \<Rightarrow> ('s cmms_db_scheme, repo_error, unit) prog" where
  "insert_spare_txn r =
     sql_exec
       (\<lambda>s. [(has_key st_id (st_id r) (t_spare_txns s), dup_key ''spare_txns_pkey''),
             (\<not> has_key sp_id (st_spare_part_id r) (t_spare_parts s),
              bad_ref ''spare_txns'' ''spare_txns_spare_part_id_fkey''),
             (missing_ref mw_id (st_maintenance_wo_id r) (t_maintenance_wos s),
              bad_ref ''spare_txns'' ''spare_txns_maintenance_wo_id_fkey''),
             (missing_ref us_id (st_user_id r) (t_users s),
              bad_ref ''spare_txns'' ''spare_txns_user_id_fkey'')])
       (\<lambda>s. s\<lparr>t_spare_txns := t_spare_txns s @ [r]\<rparr>)"

definition record_spare_txn ::
  "(nat \<Rightarrow> string) \<Rightarrow> timestamp \<Rightarrow> string \<Rightarrow> string option \<Rightarrow> string \<Rightarrow> rat \<Rightarrow> string
    \<Rightarrow> ('s cmms_db_scheme, repo_error, string \<times> rat \<times> proc_row option) prog" where
  "record_spare_txn ids now spare_part_id maintenance_wo_id txn_type qty by_user =
     andThen (okOr (InvalidReference ''unknown txn_type'') (signed_qty txn_type qty)) (\<lambda>signed.
     andThen (gets (\<lambda>s. find_row sp_id spare_part_id (t_spare_parts s))) (\<lambda>found.
     andThen (okOr NotFound found) (\<lambda>spare.
     transaction
       (andThen (insert_spare_txn
                   \<lparr>st_id = ids 0, st_spare_part_id = spare_part_id,
                    st_maintenance_wo_id = maintenance_wo_id, st_txn_type = txn_type,
                    st_qty = signed, st_ts = now, st_user_id = Some by_user\<rparr>) (\<lambda>_.
        andThen (spare_stock spare_part_id) (\<lambda>stock.
        andThen (if stock \<le> sp_reorder_point spare \<and> sp_reorder_qty spare > 0
                 then raise_reorder (ids 1) now spare_part_id (sp_reorder_qty spare)
                 else ret None) (\<lambda>request.
        ret (ids 0, stock, request))))))))"

definition create_procurement_request ::
  "string \<Rightarrow> timestamp \<Rightarrow> string \<Rightarrow> rat \<Rightarrow> ('s cmms_db_scheme, repo_error, proc_row) prog" where
  "create_procurement_request nid now spare_part_id qty_requested =
     andThen (insert_request (new_request nid now spare_part_id qty_requested Manual))
       (\<lambda>_. ret (new_request nid now spare_part_id qty_requested Manual))"

definition list_procurement_requests :: "('s cmms_db_scheme, repo_error, proc_row list) prog" where
  "list_procurement_requests = gets (\<lambda>s. sort_key (\<lambda>r. - pr_created_at r) (t_procurement_requests s))"

section \<open>Handlers of \<^verbatim>\<open>/v1/cmms\<close>\<close>

definition require_maintenance :: "auth_user \<Rightarrow> ('s, api_err, unit) prog" where
  "require_maintenance u =
     guard (can_manage_maintenance (role u)) (ApiErr 403 ''forbidden'' ''maintenance role required'')"

definition create_pm_schedule_handler ::
  "arith \<Rightarrow> (nat \<Rightarrow> string) \<Rightarrow> timestamp \<Rightarrow> auth_user \<Rightarrow> string \<Rightarrow> string \<Rightarrow> string \<Rightarrow> rat \<Rightarrow> string option
    \<Rightarrow> ('s cmms_db_scheme, api_err, nat \<times> pm_row) prog" where
  "create_pm_schedule_handler ar ids now u work_center_id name trigger_type interval_value checklist_ref =
     andThen (require_maintenance u) (\<lambda>_.
     andThen require_pool (\<lambda>_.
     andThen (mapErr repo_err (create_pm_schedule ar (ids 0) now work_center_id name trigger_type
                interval_value checklist_ref)) (\<lambda>sched.
     andThen (modify (audit (ids 1) now (Some (user_id u)) ''create'' ''pm_schedule''
                (Some (pm_id sched)) None)) (\<lambda>_.
     ret (201, sched)))))"

definition list_pm_due_handler ::
  "arith \<Rightarrow> timestamp \<Rightarrow> auth_user \<Rightarrow> ('s cmms_db_scheme, api_err, (pm_row \<times> rat) list) prog" where
  "list_pm_due_handler ar now u = andThen require_pool (\<lambda>_. mapErr repo_err (list_pm_due ar now))"

definition create_maintenance_wo_handler ::
  "(nat \<Rightarrow> string) \<Rightarrow> timestamp \<Rightarrow> auth_user \<Rightarrow> string \<Rightarrow> string option \<Rightarrow> string \<Rightarrow> string option
    \<Rightarrow> ('s cmms_db_scheme, api_err, nat \<times> mwo_row) prog" where
  "create_maintenance_wo_handler ids now u work_center_id pm_schedule_id wo_type notes =
     andThen (require_maintenance u) (\<lambda>_.
     andThen require_pool (\<lambda>_.
     andThen (mapErr repo_err (create_maintenance_wo (ids 0) now work_center_id pm_schedule_id wo_type notes)) (\<lambda>wo.
     andThen (modify (audit (ids 1) now (Some (user_id u)) ''create'' ''maintenance_wo''
                (Some (mw_id wo)) None)) (\<lambda>_.
     ret (201, wo)))))"

definition list_maintenance_wos_handler :: "auth_user \<Rightarrow> ('s cmms_db_scheme, api_err, mwo_row list) prog" where
  "list_maintenance_wos_handler u = andThen require_pool (\<lambda>_. mapErr repo_err list_maintenance_wos)"

definition get_maintenance_wo_handler :: "auth_user \<Rightarrow> string \<Rightarrow> ('s cmms_db_scheme, api_err, mwo_row) prog" where
  "get_maintenance_wo_handler u i = andThen require_pool (\<lambda>_. mapErr repo_err (get_maintenance_wo i))"

definition transition_maintenance_wo_handler ::
  "string \<Rightarrow> timestamp \<Rightarrow> auth_user \<Rightarrow> string \<Rightarrow> string \<Rightarrow> string option \<Rightarrow> string option
    \<Rightarrow> ('s cmms_db_scheme, api_err, mwo_row) prog" where
  "transition_maintenance_wo_handler nid now u i status technician_id failure_code =
     andThen (require_maintenance u) (\<lambda>_.
     andThen require_pool (\<lambda>_.
     andThen (mapErr repo_err (transition_maintenance_wo now i status technician_id failure_code)) (\<lambda>wo.
     andThen (modify (audit nid now (Some (user_id u)) ''transition'' ''maintenance_wo'' (Some i)
                (Some (json_object [(''status'', JStr status)])))) (\<lambda>_.
     ret wo))))"

definition create_spare_part_handler ::
  "string \<Rightarrow> auth_user \<Rightarrow> string \<Rightarrow> string \<Rightarrow> string option \<Rightarrow> rat option \<Rightarrow> rat option
    \<Rightarrow> ('s cmms_db_scheme, api_err, nat \<times> spare_row \<times> rat) prog" where
  "create_spare_part_handler nid u code name uom reorder_point reorder_qty =
     andThen (require_maintenance u) (\<lambda>_.
     andThen require_pool (\<lambda>_.
     andThen (mapErr repo_err (create_spare_part nid code name (unwrap_or ''ea'' uom)
                (unwrap_or 0 reorder_point) (unwrap_or 0 reorder_qty))) (\<lambda>spare.
     ret (201, spare))))"

definition list_spare_parts_handler ::
  "(string \<Rightarrow> int) \<Rightarrow> auth_user \<Rightarrow> ('s cmms_db_scheme, api_err, (spare_row \<times> rat) list) prog" where
  "list_spare_parts_handler collate u =
     andThen require_pool (\<lambda>_. mapErr repo_err (list_spare_parts collate))"

definition record_spare_txn_handler ::
  "(nat \<Rightarrow> string) \<Rightarrow> timestamp \<Rightarrow> auth_user \<Rightarrow> string \<Rightarrow> string option \<Rightarrow> string \<Rightarrow> rat
    \<Rightarrow> ('s cmms_db_scheme, api_err, nat \<times> string \<times> rat \<times> proc_row option) prog" where
  "record_spare_txn_handler ids now u spare_part_id maintenance_wo_id txn_type qty =
     andThen (require_maintenance u) (\<lambda>_.
     andThen require_pool (\<lambda>_.
     andThen (mapErr repo_err (record_spare_txn ids now spare_part_id maintenance_wo_id txn_type qty
                (user_id u))) (\<lambda>r.
     ret (201, r))))"

definition list_procurement_requests_handler ::
  "auth_user \<Rightarrow> ('s cmms_db_scheme, api_err, proc_row list) prog" where
  "list_procurement_requests_handler u =
     andThen require_pool (\<lambda>_. mapErr repo_err list_procurement_requests)"

definition create_procurement_request_handler ::
  "(nat \<Rightarrow> string) \<Rightarrow> timestamp \<Rightarrow> auth_user \<Rightarrow> string \<Rightarrow> rat
    \<Rightarrow> ('s cmms_db_scheme, api_err, nat \<times> proc_row) prog" where
  "create_procurement_request_handler ids now u spare_part_id qty_requested =
     andThen (require_maintenance u) (\<lambda>_.
     andThen require_pool (\<lambda>_.
     andThen (mapErr repo_err (create_procurement_request (ids 0) now spare_part_id qty_requested)) (\<lambda>req.
     andThen (modify (audit (ids 1) now (Some (user_id u)) ''create'' ''procurement_request''
                (Some (pr_id req)) None)) (\<lambda>_.
     ret (201, req)))))"

section \<open>Frames\<close>

interpretation mw_advance: row_update mw_id "mw_advance n now t f" for n now t f
  by unfold_locales (simp add: mw_advance_def mw_stamp_def split: maintenance_status.split)

lemma audit_cmms [simp]:
  "t_pm_schedules (audit n t a b c d e s) = t_pm_schedules s"
  "t_maintenance_wos (audit n t a b c d e s) = t_maintenance_wos s"
  "t_spare_parts (audit n t a b c d e s) = t_spare_parts s"
  "t_spare_txns (audit n t a b c d e s) = t_spare_txns s"
  "t_procurement_requests (audit n t a b c d e s) = t_procurement_requests s"
  by (simp_all add: audit_def insert_audit_def prog_simps split: option.split)

lemma get_maintenance_wo_eval [prog_simps]:
  "get_maintenance_wo i s =
     (case find_row mw_id i (t_maintenance_wos s) of None \<Rightarrow> (Inl NotFound, s) | Some r \<Rightarrow> (Inr r, s))"
  by (simp add: get_maintenance_wo_def prog_simps)

section \<open>Maintenance order lifecycle\<close>

definition mwo_status_of :: "'s cmms_db_scheme \<Rightarrow> string \<Rightarrow> string option" where
  "mwo_status_of s i = map_option mw_status (find_row mw_id i (t_maintenance_wos s))"

lemma transition_mwo_effect:
  assumes "transition_maintenance_wo now i next tech code s = (Inr r', s')"
  obtains r cur nxt where "mwo_parse next = Some nxt" "find_row mw_id i (t_maintenance_wos s) = Some r"
    "mwo_parse (mw_status r) = Some cur" "mwo_can_transition cur nxt" "r' = mw_advance nxt now tech code r"
    "s' = s\<lparr>t_maintenance_wos := update_where (\<lambda>r. mw_id r = i) (mw_advance nxt now tech code) (t_maintenance_wos s)\<rparr>"
proof -
  from assms obtain nxt where nxt: "mwo_parse next = Some nxt"
    by (cases "mwo_parse next") (simp_all add: transition_maintenance_wo_def prog_simps)
  let ?upd = "sql_update (\<lambda>s. find_row mw_id i (t_maintenance_wos s))
          (\<lambda>s _. [(missing_ref us_id tech (t_users s),
                   bad_ref ''maintenance_work_orders'' ''maintenance_work_orders_technician_id_fkey'')])
          (mw_advance nxt now tech code)
          (\<lambda>s. s\<lparr>t_maintenance_wos := update_where (\<lambda>r. mw_id r = i)
                 (mw_advance nxt now tech code) (t_maintenance_wos s)\<rparr>)"
  from assms nxt obtain r s0 cur where
    g: "get_maintenance_wo i s = (Inr r, s0)" and cur: "mwo_parse (mw_status r) = Some cur"
    and can: "mwo_can_transition cur nxt" and upd: "?upd s0 = (Inr r', s')"
    by (auto simp: transition_maintenance_wo_def okOr_simps andThen_ret dest!: transaction_InrD
        elim!: andThen_InrE dest!: guard_InrD ret_InrD okOr_InrD)
  from g have "find_row mw_id i (t_maintenance_wos s) = Some r" "s0 = s"
    by (auto simp: prog_simps split: option.splits)
  with that nxt cur can sql_update_InrD [OF upd] show thesis by auto
qed

lemma transition_mwo_error:
  "transition_maintenance_wo now i next tech code s = (Inl e, s') \<Longrightarrow> s' = s"
  by (cases "mwo_parse next")
    (auto simp: transition_maintenance_wo_def okOr_simps andThen_ret andThen_throw throw_eval
      dest: transaction_error_state)

definition mwo_call ::
  "string \<times> timestamp \<times> auth_user \<times> string option \<times> string option \<Rightarrow> string \<Rightarrow> maintenance_status
    \<Rightarrow> 's cmms_db_scheme \<Rightarrow> 's cmms_db_scheme" where
  "mwo_call c i x s =
     (case c of (nid, now, u, tech, code) \<Rightarrow>
        snd (transition_maintenance_wo_handler nid now u i (mwo_as_str x) tech code s))"

lemma mwo_status_frame [simp]: "mwo_status_of (audit n t a b c d e s) j = mwo_status_of s j"
  by (simp add: mwo_status_of_def)

lemma mwo_call_cases:
  obtains "mwo_call c i x s = s"
  | y tech code now nid actor where "mwo_status_of s i = Some (mwo_as_str y)" "mwo_can_transition y x"
      "mwo_call c i x s = audit nid now actor ''transition'' ''maintenance_wo'' (Some i)
         (Some (json_object [(''status'', JStr (mwo_as_str x))]))
         (s\<lparr>t_maintenance_wos := update_where (\<lambda>r. mw_id r = i) (mw_advance x now tech code) (t_maintenance_wos s)\<rparr>)"
proof -
  obtain nid now u tech code where c: "c = (nid, now, u, tech, code)" by (cases c) auto
  obtain res s1 where run: "transition_maintenance_wo now i (mwo_as_str x) tech code s = (res, s1)" by fastforce
  show thesis
  proof (cases "can_manage_maintenance (role u) \<and> has_pool s \<and> (\<exists>r. res = Inr r)")
    case True
    then obtain r' where ok: "can_manage_maintenance (role u)" "has_pool s" "res = Inr r'" by blast
    from transition_mwo_effect [OF run [unfolded ok(3)]] obtain r cur nxt where
      eff: "mwo_parse (mwo_as_str x) = Some nxt" "find_row mw_id i (t_maintenance_wos s) = Some r"
        "mwo_parse (mw_status r) = Some cur" "mwo_can_transition cur nxt"
        "s1 = s\<lparr>t_maintenance_wos := update_where (\<lambda>r. mw_id r = i) (mw_advance nxt now tech code) (t_maintenance_wos s)\<rparr>"
      by metis
    from eff(1) have "nxt = x" by (simp add: mwo.parse_as_str)
    moreover from ok run have "mwo_call c i x s = audit nid now (Some (user_id u)) ''transition''
        ''maintenance_wo'' (Some i) (Some (json_object [(''status'', JStr (mwo_as_str x))])) s1"
      by (simp add: mwo_call_def c transition_maintenance_wo_handler_def require_maintenance_def prog_simps)
    moreover from eff have "mwo_status_of s i = Some (mwo_as_str cur)"
      by (simp add: mwo_status_of_def mwo.parse_iff)
    ultimately show thesis using eff(4,5) that(2) by blast
  next
    case False
    with run have "mwo_call c i x s = s"
      by (cases res) (auto simp: mwo_call_def c transition_maintenance_wo_handler_def
          require_maintenance_def prog_simps dest: transition_mwo_error)
    with that(1) show thesis .
  qed
qed

lemma mw_advance_status [simp]: "mw_status (mw_advance n now t f r) = mwo_as_str n"
  by (simp add: mw_advance_def)

lemma mwo_status_set:
  "mwo_status_of (s\<lparr>t_maintenance_wos :=
       update_where (\<lambda>r. mw_id r = i) (mw_advance x now t f) (t_maintenance_wos s)\<rparr>) j =
     (if j = i then map_option (\<lambda>_. mwo_as_str x) (mwo_status_of s j) else mwo_status_of s j)"
  by (auto simp: mwo_status_of_def mw_advance.find_update_key option.map_comp comp_def)

interpretation mwo_change: guarded_status mwo_parse mwo_as_str mwo_can_transition mwo_rank
  mwo_status_of mwo_call
proof (unfold_locales, goal_cases)
  case (1 c i x s)
  show ?case by (rule mwo_call_cases [of c i x s]) (simp_all add: mwo_status_set, blast)
next
  case (2 j i c x s)
  then show ?case by (cases rule: mwo_call_cases [of c i x s]) (simp_all add: mwo_status_set)
qed

text \<open>
  A maintenance order only moves forward, one step at a time.  Whatever transition requests
  are made, by whom and on whichever orders, an order stored with some status is later stored with
  a status reachable from it in the lifecycle; a verified order never changes again.
\<close>

theorem mwo_forward_only:
  assumes "mwo_status_of s j = Some (mwo_as_str y)"
  shows "\<exists>z. mwo_status_of (fold (\<lambda>(c, i, x). mwo_call c i x) calls s) j = Some (mwo_as_str z) \<and>
    mwo_can_transition\<^sup>*\<^sup>* y z \<and> mwo_rank y \<le> mwo_rank z \<and> (if y = MwVerified then z = y else True)"
proof -
  from mwo_change.calls_reached [OF reached_start [where status = mwo_status_of and as_str = mwo_as_str, OF assms], of calls]
  obtain z where z: "mwo_status_of (fold (\<lambda>(c, i, x). mwo_call c i x) calls s) j = Some (mwo_as_str z)"
    "mwo_can_transition\<^sup>*\<^sup>* y z" by (auto simp: reached_def)
  moreover have "z = y" if "y = MwVerified"
    using z(2) that by (auto simp: mwo_can_transition_def elim: converse_rtranclpE)
  ultimately show ?thesis using mwo.reach_rank by auto
qed

section \<open>Spares\<close>

definition one_open_reorder :: "'s cmms_db_scheme \<Rightarrow> bool" where
  "one_open_reorder s \<longleftrightarrow>
     distinct (map pr_spare_part_id (filter open_reorder (t_procurement_requests s)))"

definition reorder_pending :: "'s cmms_db_scheme \<Rightarrow> string \<Rightarrow> bool" where
  "reorder_pending s spare \<longleftrightarrow>
     has_key pr_spare_part_id spare (filter open_reorder (t_procurement_requests s))"

lemma stock_of_append: "stock_of x (ts @ us) = stock_of x ts + stock_of x us"
  by (simp add: stock_of_def)

lemma stock_of_one: "stock_of x [t] = (if st_spare_part_id t = x then st_qty t else 0)"
  by (simp add: stock_of_def)

lemma open_reorder_new: "open_reorder (new_request nid now x q reason) \<longleftrightarrow> reason = ReorderPoint"
  by (cases reason) (simp_all add: open_reorder_def new_request_def proc_reason_as_str_def)

lemma raise_reorder_effect:
  assumes "raise_reorder nid now x q s = (Inr req, s')"
  shows "if reorder_pending s x then req = None \<and> s' = s
    else req = Some (new_request nid now x q ReorderPoint) \<and>
      s' = s\<lparr>t_procurement_requests := t_procurement_requests s @ [new_request nid now x q ReorderPoint]\<rparr>"
  using assms
  by (auto simp: raise_reorder_def reorder_pending_def insert_request_def ret_eval
      elim!: andThen_InrE dest!: sql_exec_InrD ret_InrD split: if_splits)

lemma record_spare_txn_effect:
  assumes "record_spare_txn ids now x mwo ty qty who s = (Inr (txn, stock, req), s')"
  obtains sp q t where "find_row sp_id x (t_spare_parts s) = Some sp" "signed_qty ty qty = Some q"
    "st_spare_part_id t = x" "st_qty t = q" "txn = st_id t" "t_spare_txns s' = t_spare_txns s @ [t]"
    "stock = stock_of x (t_spare_txns s) + q"
    "t_procurement_requests s' = t_procurement_requests s @
       (if stock \<le> sp_reorder_point sp \<and> 0 < sp_reorder_qty sp \<and> \<not> reorder_pending s x
        then [new_request (ids 1) now x (sp_reorder_qty sp) ReorderPoint] else [])"
    "req = (if stock \<le> sp_reorder_point sp \<and> 0 < sp_reorder_qty sp \<and> \<not> reorder_pending s x
        then Some (new_request (ids 1) now x (sp_reorder_qty sp) ReorderPoint) else None)"
proof -
  from assms obtain q sp where q: "signed_qty ty qty = Some q"
    and sp: "find_row sp_id x (t_spare_parts s) = Some sp"
    by (cases "signed_qty ty qty"; cases "find_row sp_id x (t_spare_parts s)")
      (auto simp: record_spare_txn_def prog_simps)
  let ?t = "\<lparr>st_id = ids 0, st_spare_part_id = x, st_maintenance_wo_id = mwo, st_txn_type = ty,
     st_qty = q, st_ts = now, st_user_id = Some who\<rparr>"
  let ?s1 = "s\<lparr>t_spare_txns := t_spare_txns s @ [?t]\<rparr>"
  let ?breach = "\<lambda>stock. stock \<le> sp_reorder_point sp \<and> 0 < sp_reorder_qty sp"
  from assms q sp have "transaction (andThen (insert_spare_txn ?t) (\<lambda>_. andThen (spare_stock x) (\<lambda>stock.
      andThen (if ?breach stock then raise_reorder (ids 1) now x (sp_reorder_qty sp) else ret None)
        (\<lambda>request. ret (ids 0, stock, request))))) s = (Inr (txn, stock, req), s')"
    by (simp add: record_spare_txn_def okOr_simps andThen_ret andThen_eval [of "gets _"] gets_eval)
  from transaction_InrD [OF this] obtain s1 where
    ins: "insert_spare_txn ?t s = (Inr (), s1)" and
    raised: "(if ?breach stock then raise_reorder (ids 1) now x (sp_reorder_qty sp) else ret None) s1 = (Inr req, s')"
    and stock: "stock = stock_of x (t_spare_txns s1)" and txn: "txn = ids 0"
    by (elim andThen_InrE) (auto simp: spare_stock_def dest!: ret_InrD gets_InrD)
  from sql_exec_InrD [OF ins [unfolded insert_spare_txn_def]] have s1: "s1 = ?s1" by simp
  have stock': "stock = stock_of x (t_spare_txns s) + q"
    by (simp add: stock s1 stock_of_append stock_of_one)
  have pend: "reorder_pending s1 x = reorder_pending s x" by (simp add: s1 reorder_pending_def)
  have "t_spare_txns s' = t_spare_txns s @ [?t] \<and>
     t_procurement_requests s' = t_procurement_requests s @
       (if ?breach stock \<and> \<not> reorder_pending s x
        then [new_request (ids 1) now x (sp_reorder_qty sp) ReorderPoint] else []) \<and>
     req = (if ?breach stock \<and> \<not> reorder_pending s x
        then Some (new_request (ids 1) now x (sp_reorder_qty sp) ReorderPoint) else None)"
  proof (cases "?breach stock")
    case True
    with raised have "raise_reorder (ids 1) now x (sp_reorder_qty sp) s1 = (Inr req, s')" by simp
    from raise_reorder_effect [OF this] True pend show ?thesis
      by (cases "reorder_pending s x") (simp_all add: s1)
  next
    case False
    then have no: "\<not> (?breach stock \<and> \<not> reorder_pending s x)" by blast
    from False raised have "req = None" "s' = s1" by (auto dest!: ret_InrD)
    then show ?thesis unfolding if_not_P [OF no] by (simp add: s1)
  qed
  with q sp stock' txn that [of sp q ?t] show thesis by simp
qed

lemma record_spare_txn_error:
  "record_spare_txn ids now x mwo ty qty who s = (Inl e, s') \<Longrightarrow> s' = s"
  by (cases "signed_qty ty qty"; cases "find_row sp_id x (t_spare_parts s)")
    (auto simp: record_spare_txn_def okOr_simps andThen_ret andThen_throw throw_eval
      andThen_eval [of "gets _"] gets_eval dest: transaction_error_state)

lemma has_key_filter_append:
  "has_key k x (filter P (xs @ [y])) \<longleftrightarrow> has_key k x (filter P xs) \<or> P y \<and> k y = x"
  by (auto simp: has_key_def)

lemma record_spare_txn_requests:
  assumes "one_open_reorder s" "record_spare_txn ids now x mwo ty qty who s = (res, s')"
  shows "one_open_reorder s'"
proof (cases res)
  case (Inl e)
  with assms show ?thesis by (auto dest: record_spare_txn_error)
next
  case (Inr r)
  obtain txn stock req where r: "r = (txn, stock, req)" by (cases r) auto
  have new: "pr_spare_part_id (new_request n now x k ReorderPoint) = x" for k n
    by (simp add: new_request_def)
  from assms(2) [unfolded Inr r] show ?thesis
  proof (rule record_spare_txn_effect, goal_cases)
    case (1 sp q t)
    with assms(1) show ?case
      by (auto simp: one_open_reorder_def reorder_pending_def has_key_def open_reorder_new new)
  qed
qed

text \<open>
  C21.  The spare ledger is exact and a breach is asked for once.  A movement either fails and
  changes nothing, or changes the stock of its spare by the signed quantity (negative for an issue,
  positive for a receipt, as given for an adjustment) and of no other spare, and returns the new
  stock.  When the new stock is at or below the reorder point of a spare with a reorder quantity, an
  open automatic request for it exists afterwards, and it is a new one of that quantity exactly when
  there was none; at most one open automatic request per spare is kept.
\<close>

theorem record_spare_txn_correct:
  assumes inv: "one_open_reorder s"
    and run: "record_spare_txn ids now x mwo ty qty who s = (res, s')"
  shows "one_open_reorder s' \<and>
    (case res of
       Inl e \<Rightarrow> s' = s
     | Inr (txn, stock, req) \<Rightarrow>
         (\<exists>sp q. find_row sp_id x (t_spare_parts s) = Some sp \<and> signed_qty ty qty = Some q \<and>
            stock = stock_of x (t_spare_txns s) + q \<and>
            (\<forall>y. stock_of y (t_spare_txns s') = stock_of y (t_spare_txns s) + (if y = x then q else 0)) \<and>
            (if stock \<le> sp_reorder_point sp \<and> 0 < sp_reorder_qty sp
             then reorder_pending s' x \<and>
               (if reorder_pending s x then req = None \<and> t_procurement_requests s' = t_procurement_requests s
                else \<exists>r. req = Some r \<and> pr_qty_requested r = sp_reorder_qty sp \<and>
                  t_procurement_requests s' = t_procurement_requests s @ [r])
             else req = None \<and> t_procurement_requests s' = t_procurement_requests s)))"
proof (cases res)
  case (Inl e)
  with run inv show ?thesis by (auto dest: record_spare_txn_error)
next
  case (Inr r)
  obtain txn stock req where r: "r = (txn, stock, req)" by (cases r) auto
  from run [unfolded Inr r] obtain sp q t where
    eff: "find_row sp_id x (t_spare_parts s) = Some sp" "signed_qty ty qty = Some q"
      "st_spare_part_id t = x" "st_qty t = q" "t_spare_txns s' = t_spare_txns s @ [t]"
      "stock = stock_of x (t_spare_txns s) + q" and
    reqs: "t_procurement_requests s' = t_procurement_requests s @
       (if stock \<le> sp_reorder_point sp \<and> 0 < sp_reorder_qty sp \<and> \<not> reorder_pending s x
        then [new_request (ids 1) now x (sp_reorder_qty sp) ReorderPoint] else [])"
    "req = (if stock \<le> sp_reorder_point sp \<and> 0 < sp_reorder_qty sp \<and> \<not> reorder_pending s x
        then Some (new_request (ids 1) now x (sp_reorder_qty sp) ReorderPoint) else None)"
    by (rule record_spare_txn_effect) blast
  have stocks: "\<forall>y. stock_of y (t_spare_txns s') = stock_of y (t_spare_txns s) + (if y = x then q else 0)"
    using eff by (simp add: stock_of_append stock_of_one)
  have new: "pr_spare_part_id (new_request n now x k ReorderPoint) = x"
    "pr_qty_requested (new_request n now x k ReorderPoint) = k" for k n
    by (simp_all add: new_request_def)
  have "one_open_reorder s'" using inv run by (rule record_spare_txn_requests)
  moreover have "if stock \<le> sp_reorder_point sp \<and> 0 < sp_reorder_qty sp
     then reorder_pending s' x \<and>
       (if reorder_pending s x then req = None \<and> t_procurement_requests s' = t_procurement_requests s
        else \<exists>r. req = Some r \<and> pr_qty_requested r = sp_reorder_qty sp \<and>
          t_procurement_requests s' = t_procurement_requests s @ [r])
     else req = None \<and> t_procurement_requests s' = t_procurement_requests s"
    using reqs
    by (auto simp: reorder_pending_def has_key_filter_append open_reorder_new new simp del: filter_append)
  ultimately show ?thesis using eff stocks by (simp add: Inr r)
qed

section \<open>Invariant of the maintenance tables\<close>

text \<open>
  The row of a maintenance order is a full history of its life: each later stage has its timestamp
  exactly when it has been reached.
\<close>

definition stamps_ok :: "mwo_row \<Rightarrow> bool" where
  "stamps_ok r \<longleftrightarrow>
     (\<exists>st. mw_status r = mwo_as_str st \<and>
        (mw_scheduled_at r \<noteq> None \<longleftrightarrow> 1 \<le> mwo_rank st) \<and> (mw_started_at r \<noteq> None \<longleftrightarrow> 2 \<le> mwo_rank st) \<and>
        (mw_closed_at r \<noteq> None \<longleftrightarrow> 3 \<le> mwo_rank st) \<and> (mw_verified_at r \<noteq> None \<longleftrightarrow> 4 \<le> mwo_rank st))"

definition cmms_inv :: "'s cmms_db_scheme \<Rightarrow> bool" where
  "cmms_inv s \<longleftrightarrow> one_open_reorder s \<and> distinct (map mw_id (t_maintenance_wos s)) \<and>
     (\<forall>r\<in>set (t_maintenance_wos s). stamps_ok r)"

lemma stamps_ok_advance:
  assumes "stamps_ok r" "mwo_parse (mw_status r) = Some cur" "mwo_can_transition cur nxt"
  shows "stamps_ok (mw_advance nxt now t f r)"
proof -
  from assms(1,2) have st: "mw_scheduled_at r \<noteq> None \<longleftrightarrow> 1 \<le> mwo_rank cur"
    "mw_started_at r \<noteq> None \<longleftrightarrow> 2 \<le> mwo_rank cur" "mw_closed_at r \<noteq> None \<longleftrightarrow> 3 \<le> mwo_rank cur"
    "mw_verified_at r \<noteq> None \<longleftrightarrow> 4 \<le> mwo_rank cur"
    by (auto simp: stamps_ok_def mwo.parse_iff mwo.as_str_inject)
  show ?thesis
    unfolding stamps_ok_def
    by (rule exI [of _ nxt])
      (use assms(3) st in \<open>cases cur; cases nxt; simp add: mwo_can_transition_def mwo_rank_def mw_advance_def mw_stamp_def\<close>)
qed

lemma cmms_inv_cong:
  "t_procurement_requests s' = t_procurement_requests s \<Longrightarrow> t_maintenance_wos s' = t_maintenance_wos s \<Longrightarrow>
     cmms_inv s' = cmms_inv s"
  by (simp add: cmms_inv_def one_open_reorder_def)

lemma preserves_cmms_audit [preserves_rules]: "preserves cmms_inv (modify (audit n t a b c d e))"
  by (rule preserves_modify) (simp add: cmms_inv_def one_open_reorder_def)

lemma preserves_cmms_pm [preserves_rules]: "preserves cmms_inv (create_pm_schedule ar nid now a b c q d)"
  unfolding create_pm_schedule_def Let_def insert_pm_def work_center_run_hours_def
  by (intro preserves_rules)
    (auto intro!: preserves_rules preserves_sql_exec simp: cmms_inv_def one_open_reorder_def split: pm_trigger.split)

lemma preserves_cmms_create_wo [preserves_rules]:
  "preserves cmms_inv (create_maintenance_wo nid now wc pm ty notes)"
  unfolding create_maintenance_wo_def Let_def
  by (intro preserves_rules preserves_sql_exec)
    (auto simp: cmms_inv_def one_open_reorder_def has_key_def stamps_ok_def mwo_rank_def mwo_as_str_def
      intro!: exI [of _ MwRequested])

lemma preserves_cmms_transition [preserves_rules]:
  "preserves cmms_inv (transition_maintenance_wo now i next tech code)"
proof (rule preservesI)
  fix s :: "'a cmms_db_scheme"
  assume inv: "cmms_inv s"
  obtain res s' where run: "transition_maintenance_wo now i next tech code s = (res, s')" by fastforce
  show "cmms_inv (snd (transition_maintenance_wo now i next tech code s))"
  proof (cases res)
    case (Inl e)
    with run inv show ?thesis by (auto dest: transition_mwo_error)
  next
    case (Inr r')
    from run [unfolded Inr] obtain r cur nxt where
      r: "find_row mw_id i (t_maintenance_wos s) = Some r" "mwo_parse (mw_status r) = Some cur"
        "mwo_can_transition cur nxt" and
      s': "s' = s\<lparr>t_maintenance_wos := update_where (\<lambda>r. mw_id r = i) (mw_advance nxt now tech code) (t_maintenance_wos s)\<rparr>"
      by (rule transition_mwo_effect) blast
    have one: "x = r" if "x \<in> set (t_maintenance_wos s)" "mw_id x = i" for x
      using inv that r(1) find_row_unique [of mw_id "t_maintenance_wos s" x] by (auto simp: cmms_inv_def)
    have ok: "stamps_ok r" using inv find_row_SomeD [OF r(1)] by (auto simp: cmms_inv_def)
    have "\<forall>x\<in>set (t_maintenance_wos s'). stamps_ok x"
      using inv one stamps_ok_advance [OF ok r(2,3)] by (auto simp: s' mw_advance.set_update cmms_inv_def)
    with inv run show ?thesis
      by (simp add: cmms_inv_def one_open_reorder_def s' mw_advance.keys_update)
  qed
qed

lemma preserves_cmms_spare [preserves_rules]: "preserves cmms_inv (create_spare_part nid a b c q r)"
  unfolding create_spare_part_def Let_def
  by (intro preserves_rules preserves_sql_exec) (simp add: cmms_inv_def one_open_reorder_def)

lemma preserves_cmms_request [preserves_rules]:
  "preserves cmms_inv (create_procurement_request nid now x q)"
  unfolding create_procurement_request_def insert_request_def
  by (intro preserves_rules preserves_sql_exec)
    (simp add: cmms_inv_def one_open_reorder_def open_reorder_new)

lemma record_spare_txn_wos:
  assumes "record_spare_txn ids now x mwo ty qty who s = (res, s')"
  shows "t_maintenance_wos s' = t_maintenance_wos s"
proof -
  have "preserves (\<lambda>s'. t_maintenance_wos s' = t_maintenance_wos s) (record_spare_txn ids now x mwo ty qty who)"
    unfolding record_spare_txn_def insert_spare_txn_def spare_stock_def raise_reorder_def insert_request_def
    by (intro preserves_rules preserves_sql_exec)
      (auto simp: preserves_def prog_simps split: option.split)
  from preserves_runD [OF this _ assms] show ?thesis by simp
qed

lemma preserves_cmms_txn [preserves_rules]:
  "preserves cmms_inv (record_spare_txn ids now x mwo ty qty who)"
  by (rule preservesI) (metis cmms_inv_def prod.collapse record_spare_txn_requests record_spare_txn_wos)

text \<open>The writing requests of the maintenance routes.\<close>

inductive cmms_step :: "'s cmms_db_scheme \<Rightarrow> 's cmms_db_scheme \<Rightarrow> bool" where
  "cmms_step s (snd (create_pm_schedule_handler ar ids now u a b c q d s))"
| "cmms_step s (snd (create_maintenance_wo_handler ids now u a d b e s))"
| "cmms_step s (snd (transition_maintenance_wo_handler nid now u a b d e s))"
| "cmms_step s (snd (create_spare_part_handler nid u a b d p q s))"
| "cmms_step s (snd (record_spare_txn_handler ids now u a d b q s))"
| "cmms_step s (snd (create_procurement_request_handler ids now u a q s))"

lemmas cmms_handler_defs = create_pm_schedule_handler_def create_maintenance_wo_handler_def
  transition_maintenance_wo_handler_def create_spare_part_handler_def record_spare_txn_handler_def
  create_procurement_request_handler_def require_maintenance_def

lemma cmms_step_inv: "cmms_step s s' \<Longrightarrow> cmms_inv s \<Longrightarrow> cmms_inv s'"
  by (induction rule: cmms_step.induct)
    (auto simp: cmms_handler_defs intro!: preservesD [where I = cmms_inv] preserves_rules)

text \<open>
  C20.  The maintenance tables stay consistent under any sequence of requests: order identifiers
  are unique, every order carries the timestamps of exactly the stages it has been through, and no
  spare has two open automatic requests.
\<close>

theorem cmms_reachable_inv:
  assumes "cmms_step\<^sup>*\<^sup>* s s'" "cmms_inv s"
  shows "cmms_inv s'"
  using assms by (induction rule: rtranclp_induct) (auto intro: cmms_step_inv)

section \<open>Due schedules\<close>

text \<open>
  A schedule is due exactly when its interval has passed.  A usage schedule created in one
  state is due in any later state exactly when the machine has run at least the interval since; a
  calendar schedule exactly when the clock has reached the creation time plus the interval.  The
  decimal sum of baseline and interval is assumed exact.
\<close>

theorem pm_due_after_interval:
  assumes "create_pm_schedule ar nid now wc name ty q ref s = (Inr r, s1)"
    and "dec_add ar (run_hours ar wc s) q = run_hours ar wc s + q"
  shows "pm_is_due now2 (run_hours ar (pm_work_center_id r) s2) r \<longleftrightarrow>
    (if ty = ''usage_hours'' then q \<le> run_hours ar wc s2 - run_hours ar wc s
     else plus_days ar now q \<le> now2)"
proof -
  from assms(1) obtain t where t: "pm_trigger_parse ty = Some t"
    by (cases "pm_trigger_parse ty") (auto simp: create_pm_schedule_def prog_simps)
  show ?thesis
  proof (cases t)
    case Calendar
    with t have ty: "ty \<noteq> ''usage_hours''" by (auto simp: pm_trigger_parse_def split: if_splits)
    from assms(1) t Calendar have "pm_trigger_type r = pm_trigger_as_str Calendar"
      "pm_next_due_at r = Some (plus_days ar now q)"
      by (auto simp: create_pm_schedule_def okOr_simps andThen_ret Let_def insert_pm_def
          elim!: andThen_InrE dest!: ret_InrD)
    with ty show ?thesis by (simp add: pm_is_due_def pm_trigger.parse_as_str calendar_is_due_def)
  next
    case UsageHours
    with t have ty: "ty = ''usage_hours''" by (auto simp: pm_trigger_parse_def split: if_splits)
    from assms(1) t UsageHours have "pm_trigger_type r = pm_trigger_as_str UsageHours"
      "pm_work_center_id r = wc" "pm_next_due_usage_h r = Some (dec_add ar (run_hours ar wc s) q)"
      by (auto simp: create_pm_schedule_def okOr_simps andThen_ret Let_def insert_pm_def
          work_center_run_hours_def usage_next_due_def elim!: andThen_InrE dest!: ret_InrD gets_InrD)
    with ty assms(2) show ?thesis
      by (simp add: pm_is_due_def pm_trigger.parse_as_str usage_is_due_def le_diff_eq add.commute)
  qed
qed

section \<open>Examples\<close>

definition sample_cmms :: cmms_db where
  "sample_cmms = ingest_db.extend sample_ingest
     \<lparr>t_pm_schedules = [],
      t_maintenance_wos = [\<lparr>mw_id = ''MW1'', mw_work_center_id = ''M1'', mw_pm_schedule_id = None,
        mw_wo_type = ''PM'', mw_status = ''requested'', mw_technician_id = None, mw_failure_code = None,
        mw_notes = None, mw_opened_at = 0, mw_scheduled_at = None, mw_started_at = None,
        mw_closed_at = None, mw_verified_at = None, mw_created_at = 0, mw_updated_at = 0\<rparr>],
      t_spare_parts = [\<lparr>sp_id = ''SP1'', sp_code = ''BRG'', sp_name = ''Bearing'', sp_uom = ''ea'',
        sp_reorder_point = 5, sp_reorder_qty = 20\<rparr>],
      t_spare_txns = [], t_procurement_requests = []\<rparr>"

definition sample_arith :: arith where
  "sample_arith = \<lparr>hours_of = (\<lambda>d. of_int d / 3600000000), plus_days = (\<lambda>t d. t + \<lfloor>d * 86400000000\<rfloor>),
     dec_add = (+)\<rparr>"

lemmas sample_cmms_defs = sample_cmms_def ingest_db.defs sample_ingest_defs

lemma sample_cmms_inv: "cmms_inv sample_cmms"
  by (auto simp: cmms_inv_def one_open_reorder_def sample_cmms_defs stamps_ok_def mwo_rank_def
      mwo_as_str_def intro!: exI [of _ MwRequested])

theorem mwo_forward_only_witness:
  "\<exists>z. mwo_status_of (fold (\<lambda>(c, i, x). mwo_call c i x)
      [((''A1'', 5, \<lparr>user_id = ''U1'', role = ''Maintenance''\<rparr>, None, None), ''MW1'', MwScheduled)]
      sample_cmms) ''MW1'' = Some (mwo_as_str z) \<and> mwo_rank MwRequested \<le> mwo_rank z"
proof -
  have "mwo_status_of sample_cmms ''MW1'' = Some (mwo_as_str MwRequested)"
    by (simp add: mwo_status_of_def sample_cmms_defs table_simps mwo_as_str_def)
  from mwo_forward_only [OF this, of "[((''A1'', 5, \<lparr>user_id = ''U1'', role = ''Maintenance''\<rparr>,
      None, None), ''MW1'', MwScheduled)]"]
  show ?thesis by blast
qed

theorem record_spare_txn_correct_witness:
  "\<exists>txn req s'. record_spare_txn (\<lambda>n. replicate (Suc n) CHR ''x'') 5 ''SP1'' None ''receive'' 4 ''U1'' sample_cmms
       = (Inr (txn, 4, Some req), s') \<and> pr_qty_requested req = 20 \<and> reorder_pending s' ''SP1''"
proof -
  have inv: "one_open_reorder sample_cmms" by (simp add: one_open_reorder_def sample_cmms_defs)
  obtain txn req s' where run: "record_spare_txn (\<lambda>n. replicate (Suc n) CHR ''x'') 5 ''SP1'' None ''receive'' 4
      ''U1'' sample_cmms = (Inr (txn, 4, Some req), s')"
    by (simp add: record_spare_txn_def insert_spare_txn_def spare_stock_def stock_of_def raise_reorder_def
        insert_request_def signed_qty_def prog_simps sample_cmms_defs table_simps missing_ref_def
        new_request_def)
  show ?thesis
    using record_spare_txn_correct [OF inv run] run
    by (auto simp: sample_cmms_defs table_simps reorder_pending_def)
qed

theorem cmms_reachable_inv_witness:
  "cmms_inv (snd (create_procurement_request_handler (\<lambda>n. replicate (Suc n) CHR ''x'') 5
     \<lparr>user_id = ''U1'', role = ''Maintenance''\<rparr> ''SP1'' 3 sample_cmms))"
proof -
  let ?s' = "snd (create_procurement_request_handler (\<lambda>n. replicate (Suc n) CHR ''x'') 5
     \<lparr>user_id = ''U1'', role = ''Maintenance''\<rparr> ''SP1'' 3 sample_cmms)"
  have "cmms_step sample_cmms ?s'" by (rule cmms_step.intros(6))
  then have "cmms_step\<^sup>*\<^sup>* sample_cmms ?s'" by (rule r_into_rtranclp)
  from cmms_reachable_inv [OF this sample_cmms_inv] show ?thesis .
qed

theorem pm_due_after_interval_witness:
  "\<exists>r s1. create_pm_schedule sample_arith ''PM1'' 0 ''M1'' ''oil'' ''usage_hours'' 10 None sample_cmms = (Inr r, s1) \<and>
     \<not> pm_is_due 99 (run_hours sample_arith (pm_work_center_id r) sample_cmms) r"
proof -
  obtain r s1 where run: "create_pm_schedule sample_arith ''PM1'' 0 ''M1'' ''oil'' ''usage_hours'' 10 None sample_cmms
      = (Inr r, s1)"
    by (simp add: create_pm_schedule_def pm_trigger_parse_def insert_pm_def work_center_run_hours_def
        prog_simps Let_def sample_cmms_defs table_simps)
  have "dec_add sample_arith (run_hours sample_arith ''M1'' sample_cmms) 10 =
      run_hours sample_arith ''M1'' sample_cmms + 10"
    by (simp add: sample_arith_def)
  from pm_due_after_interval [OF run this, of 99 sample_cmms] run show ?thesis by simp
qed

end
