(* ===== verification/Dnc.thy ===== *)
theory Dnc
  imports Cmms
begin

text \<open>
  Program transfers and revisions: the daemon clients (\<^verbatim>\<open>mes-dnc-bridge/src/client.rs\<close>,
  \<^verbatim>\<open>protocol.rs\<close>), the repository \<^verbatim>\<open>mes-db/src/repo_dnc.rs\<close> and the orchestration and handlers of
  \<^verbatim>\<open>mes-edge/src/dnc.rs\<close>.  Whether a network write to a real daemon succeeds is a parameter.
\<close>

section \<open>The daemon\<close>

datatype dnc_command = SendProgram string "string option"

datatype dnc_event =
    TransferCompleted string
  | TransferFailed string string
  | ProgramReceived string "string option"

datatype dnc_bridge_error = Transport string | Protocol string

datatype dnc_daemon =
    VirtualDaemon "dnc_command list" nat
  | DisconnectedDaemon
  | TcpDncClient string nat

fun digits :: "nat \<Rightarrow> string" where
  "digits n = (if n < 10 then [char_of (48 + n)] else digits (n div 10) @ [char_of (48 + n mod 10)])"

declare digits.simps [simp del]

definition next_counter :: "nat \<Rightarrow> nat" where
  "next_counter n = (n + 1) mod 2 ^ 64"

text \<open>The network parameter gives the failure of a write, if any.\<close>

definition dnc_send ::
  "(string \<Rightarrow> dnc_command \<Rightarrow> string option) \<Rightarrow> dnc_daemon \<Rightarrow> dnc_command
    \<Rightarrow> (dnc_bridge_error + string) \<times> dnc_daemon" where
  "dnc_send net d cmd =
     (case d of
        VirtualDaemon sent n \<Rightarrow> (Inr (''sim-'' @ digits n), VirtualDaemon (sent @ [cmd]) (next_counter n))
      | DisconnectedDaemon \<Rightarrow> (Inl (Transport ''dnc-daemon not configured''), DisconnectedDaemon)
      | TcpDncClient addr n \<Rightarrow>
          (case net addr cmd of
             Some e \<Rightarrow> (Inl (Transport e), TcpDncClient addr n)
           | None \<Rightarrow> (Inr (''tcp-'' @ digits n), TcpDncClient addr (next_counter n))))"

section \<open>Rows\<close>

record transfer_row =
  tf_id :: string
  tf_wo_operation_id :: "string option"
  tf_program_id :: string
  tf_direction :: string
  tf_status :: string
  tf_dnc_daemon_ref :: "string option"
  tf_triggered_at :: timestamp
  tf_completed_at :: "timestamp option"
  tf_created_at :: timestamp
  tf_updated_at :: timestamp

record revision_row =
  rv_id :: string
  rv_program_id :: string
  rv_revision_no :: int
  rv_source :: string
  rv_content_ref :: "string option"
  rv_status :: string
  rv_submitted_by :: "string option"
  rv_submitted_at :: timestamp
  rv_promoted_by :: "string option"
  rv_promoted_at :: "timestamp option"
  rv_created_at :: timestamp
  rv_updated_at :: timestamp

record dnc_db = cmms_db +
  dnc :: dnc_daemon
  t_transfers :: "transfer_row list"
  t_revisions :: "revision_row list"

record next_transfer =
  nt_op_id :: string
  nt_program_id :: string
  nt_program_identifier :: string
  nt_target_machine :: "string option"

section \<open>Repository\<close>

text \<open>Rows that tie in the query's order are taken in table order.\<close>

definition first_by :: "('r \<Rightarrow> 'k::linorder) \<Rightarrow> 'r list \<Rightarrow> 'r option" where
  "first_by key rows = (case sort_key key rows of [] \<Rightarrow> None | r # _ \<Rightarrow> Some r)"

definition next_pending :: "wo_operation_row \<Rightarrow> wo_operation_row list \<Rightarrow> wo_operation_row option" where
  "next_pending completed ops =
     first_by op_no (filter (\<lambda>r. op_work_order_id r = op_work_order_id completed \<and>
                                 op_no r > op_no completed \<and> op_st r = ''pending'') ops)"

definition program_for :: "string option \<Rightarrow> work_order_row \<Rightarrow> program_row list \<Rightarrow> program_row option" where
  "program_for routing_op wo programs =
     first_by (\<lambda>p. if pg_routing_op_id p = routing_op then 0 else (1 :: nat))
       (filter (\<lambda>p. routing_op \<noteq> None \<and> pg_routing_op_id p = routing_op \<or>
                    pg_part_id p = Some (wo_part_id wo)) programs)"

definition resolve_next_transfer ::
  "string \<Rightarrow> ('s dnc_db_scheme, repo_error, next_transfer option) prog" where
  "resolve_next_transfer completed_op_id =
     gets (\<lambda>s. case find_row op_id completed_op_id (t_wo_operations s) of
          None \<Rightarrow> None
        | Some done_op \<Rightarrow>
            (case next_pending done_op (t_wo_operations s) of
               None \<Rightarrow> None
             | Some nxt \<Rightarrow>
                 (case find_row wo_id (op_work_order_id done_op) (t_work_orders s) of
                    None \<Rightarrow> None
                  | Some wo \<Rightarrow>
                      map_option (\<lambda>p. \<lparr>nt_op_id = op_id nxt, nt_program_id = pg_id p,
                                       nt_program_identifier = pg_program_identifier p,
                                       nt_target_machine = pg_target_machine p\<rparr>)
                        (program_for (op_routing_op_id nxt) wo (t_programs s)))))"

definition program_dispatch_info ::
  "string \<Rightarrow> ('s dnc_db_scheme, repo_error, (string \<times> string option) option) prog" where
  "program_dispatch_info program_id =
     gets (\<lambda>s. map_option (\<lambda>p. (pg_program_identifier p, pg_target_machine p))
                 (find_row pg_id program_id (t_programs s)))"

definition find_program_id_by_identifier ::
  "string \<Rightarrow> ('s dnc_db_scheme, repo_error, string option) prog" where
  "find_program_id_by_identifier identifier =
     gets (\<lambda>s. map_option pg_id (first_by (\<lambda>p. - pg_created_at p)
                 (filter (\<lambda>p. pg_program_identifier p = identifier) (t_programs s))))"

definition create_transfer ::
  "string \<Rightarrow> timestamp \<Rightarrow> string option \<Rightarrow> string \<Rightarrow> string \<Rightarrow> string option
    \<Rightarrow> ('s dnc_db_scheme, repo_error, transfer_row) prog" where
  "create_transfer nid now wo_operation_id program_id direction dnc_daemon_ref =
     (let r = \<lparr>tf_id = nid, tf_wo_operation_id = wo_operation_id, tf_program_id = program_id,
               tf_direction = direction, tf_status = ''scheduled'', tf_dnc_daemon_ref = dnc_daemon_ref,
               tf_triggered_at = now, tf_completed_at = None, tf_created_at = now, tf_updated_at = now\<rparr>
      in andThen
           (sql_exec
              (\<lambda>s. [(has_key tf_id nid (t_transfers s), dup_key ''dnc_transfer_events_pkey''),
                    (missing_ref op_id wo_operation_id (t_wo_operations s),
                     bad_ref ''dnc_transfer_events'' ''dnc_transfer_events_wo_operation_id_fkey''),
                    (\<not> has_key pg_id program_id (t_programs s),
                     bad_ref ''dnc_transfer_events'' ''dnc_transfer_events_program_id_fkey'')])
              (\<lambda>s. s\<lparr>t_transfers := t_transfers s @ [r]\<rparr>))
           (\<lambda>_. ret r))"

definition get_transfer :: "string \<Rightarrow> ('s dnc_db_scheme, repo_error, transfer_row) prog" where
  "get_transfer i = andThen (gets (\<lambda>s. find_row tf_id i (t_transfers s))) (okOr NotFound)"

definition list_transfers :: "('s dnc_db_scheme, repo_error, transfer_row list) prog" where
  "list_transfers = gets (\<lambda>s. sort_key (\<lambda>r. - tf_triggered_at r) (t_transfers s))"

definition find_open_transfer_by_ref ::
  "string \<Rightarrow> ('s dnc_db_scheme, repo_error, transfer_row option) prog" where
  "find_open_transfer_by_ref reference =
     gets (\<lambda>s. first_by (\<lambda>r. - tf_triggered_at r)
       (filter (\<lambda>r. tf_dnc_daemon_ref r = Some reference \<and>
                    tf_status r \<notin> {''completed'', ''failed''}) (t_transfers s)))"

definition tf_set_status :: "string \<Rightarrow> timestamp \<Rightarrow> transfer_row \<Rightarrow> transfer_row" where
  "tf_set_status status now r =
     r\<lparr>tf_status := status,
       tf_completed_at := (if status \<in> {''completed'', ''failed''} then Some now else tf_completed_at r),
       tf_updated_at := now\<rparr>"

definition set_transfer_status ::
  "timestamp \<Rightarrow> string \<Rightarrow> string \<Rightarrow> ('s dnc_db_scheme, repo_error, transfer_row) prog" where
  "set_transfer_status now i status =
     sql_update (\<lambda>s. find_row tf_id i (t_transfers s)) (\<lambda>_ _. []) (tf_set_status status now)
       (\<lambda>s. s\<lparr>t_transfers := update_where (\<lambda>r. tf_id r = i) (tf_set_status status now) (t_transfers s)\<rparr>)"

definition next_revision_no :: "string \<Rightarrow> revision_row list \<Rightarrow> int" where
  "next_revision_no program_id revs =
     fold max (map rv_revision_no (filter (\<lambda>r. rv_program_id r = program_id) revs)) 0 + 1"

definition new_revision ::
  "string \<Rightarrow> timestamp \<Rightarrow> string \<Rightarrow> int \<Rightarrow> string \<Rightarrow> string option \<Rightarrow> string option \<Rightarrow> revision_row" where
  "new_revision nid now program_id revision_no source content_ref submitted_by =
     \<lparr>rv_id = nid, rv_program_id = program_id, rv_revision_no = revision_no, rv_source = source,
      rv_content_ref = content_ref, rv_status = ''draft'', rv_submitted_by = submitted_by,
      rv_submitted_at = now, rv_promoted_by = None, rv_promoted_at = None, rv_created_at = now,
      rv_updated_at = now\<rparr>"

definition insert_revision :: "revision_row \<Rightarrow> ('s dnc_db_scheme, repo_error, revision_row) prog" where
  "insert_revision r =
     andThen
       (sql_exec
          (\<lambda>s. [(\<not> in_i32 (rv_revision_no r), out_of_range),
                (has_key rv_id (rv_id r) (t_revisions s), dup_key ''program_revisions_pkey''),
                (has_key (\<lambda>x. (rv_program_id x, rv_revision_no x)) (rv_program_id r, rv_revision_no r)
                   (t_revisions s), dup_key ''program_revisions_program_id_revision_no_key''),
                (\<not> has_key pg_id (rv_program_id r) (t_programs s),
                 bad_ref ''program_revisions'' ''program_revisions_program_id_fkey''),
                (missing_ref us_id (rv_submitted_by r) (t_users s),
                 bad_ref ''program_revisions'' ''program_revisions_submitted_by_fkey'')])
          (\<lambda>s. s\<lparr>t_revisions := t_revisions s @ [r]\<rparr>))
       (\<lambda>_. ret r)"

text \<open>
  The number is the highest stored one plus one.  With no row for the program the aggregate is
  null and counts as zero; stored numbers are positive, so the fold from zero is the same.
\<close>

definition create_draft_revision ::
  "string \<Rightarrow> timestamp \<Rightarrow> string \<Rightarrow> string \<Rightarrow> string option \<Rightarrow> string option
    \<Rightarrow> ('s dnc_db_scheme, repo_error, revision_row) prog" where
  "create_draft_revision nid now program_id source content_ref submitted_by =
     andThen (gets (\<lambda>s. next_revision_no program_id (t_revisions s))) (\<lambda>no.
     insert_revision (new_revision nid now program_id no source content_ref submitted_by))"

definition get_revision :: "string \<Rightarrow> ('s dnc_db_scheme, repo_error, revision_row) prog" where
  "get_revision i = andThen (gets (\<lambda>s. find_row rv_id i (t_revisions s))) (okOr NotFound)"

definition list_revisions :: "('s dnc_db_scheme, repo_error, revision_row list) prog" where
  "list_revisions = gets (\<lambda>s. sort_key (\<lambda>r. - rv_submitted_at r) (t_revisions s))"

definition rv_set_status :: "string \<Rightarrow> string \<Rightarrow> timestamp \<Rightarrow> revision_row \<Rightarrow> revision_row" where
  "rv_set_status status actor now r =
     r\<lparr>rv_status := status, rv_promoted_by := Some actor, rv_promoted_at := Some now, rv_updated_at := now\<rparr>"

definition set_revision_status ::
  "timestamp \<Rightarrow> string \<Rightarrow> string \<Rightarrow> string \<Rightarrow> ('s dnc_db_scheme, repo_error, revision_row) prog" where
  "set_revision_status now i status actor =
     sql_update (\<lambda>s. find_row rv_id i (t_revisions s))
       (\<lambda>s _. [(\<not> has_key us_id actor (t_users s),
                bad_ref ''program_revisions'' ''program_revisions_promoted_by_fkey'')])
       (rv_set_status status actor now)
       (\<lambda>s. s\<lparr>t_revisions := update_where (\<lambda>r. rv_id r = i) (rv_set_status status actor now) (t_revisions s)\<rparr>)"

section \<open>Orchestration\<close>

type_synonym network = "string \<Rightarrow> dnc_command \<Rightarrow> string option"

definition send_command :: "network \<Rightarrow> dnc_command \<Rightarrow> ('s dnc_db_scheme, dnc_bridge_error, string) prog" where
  "send_command net cmd = (\<lambda>s. case dnc_send net (dnc s) cmd of (r, d) \<Rightarrow> (r, s\<lparr>dnc := d\<rparr>))"

text \<open>The display form of a bridge error is its message behind the variant's prefix.\<close>

definition bridge_msg :: "dnc_bridge_error \<Rightarrow> string" where
  "bridge_msg e =
     (case e of
        Transport m \<Rightarrow> ''dnc-daemon transport error: '' @ m
      | Protocol m \<Rightarrow> ''dnc-daemon protocol error: '' @ m)"

definition schedule_transfer ::
  "network \<Rightarrow> string \<Rightarrow> timestamp \<Rightarrow> string \<Rightarrow> string \<Rightarrow> string option \<Rightarrow> string option
    \<Rightarrow> ('s dnc_db_scheme, api_err, transfer_row) prog" where
  "schedule_transfer net nid now program_id program_identifier machine wo_operation_id =
     andThen require_pool (\<lambda>_.
     andThen (mapErr (\<lambda>e. ApiErr 502 ''dnc_unavailable''
                        (''dnc-daemon rejected the command: '' @ bridge_msg e))
                (send_command net (SendProgram program_identifier machine))) (\<lambda>daemon_ref.
     andThen (mapErr repo_err (create_transfer nid now wo_operation_id program_id
                (direction_as_str ToMachine) (Some daemon_ref))) (\<lambda>transfer.
     andThen (modify (publish (DncTransferScheduled (tf_id transfer) program_id program_identifier
                wo_operation_id))) (\<lambda>_.
     ret transfer))))"

text \<open>Best effort: whatever fails, the caller goes on.\<close>

definition on_job_complete ::
  "network \<Rightarrow> string \<Rightarrow> timestamp \<Rightarrow> string \<Rightarrow> 's dnc_db_scheme \<Rightarrow> 's dnc_db_scheme" where
  "on_job_complete net nid now completed_op_id s =
     (if \<not> has_pool s then s
      else case resolve_next_transfer completed_op_id s of
        (Inr (Some n), s') \<Rightarrow>
          snd (schedule_transfer net nid now (nt_program_id n) (nt_program_identifier n)
                 (nt_target_machine n) (Some (nt_op_id n)) s')
      | (_, s') \<Rightarrow> s')"

definition handle_daemon_event ::
  "string \<Rightarrow> timestamp \<Rightarrow> dnc_event \<Rightarrow> ('s dnc_db_scheme, api_err, unit) prog" where
  "handle_daemon_event nid now event =
     andThen require_pool (\<lambda>_.
     (case event of
        TransferCompleted reference \<Rightarrow>
          andThen (mapErr repo_err (find_open_transfer_by_ref reference)) (\<lambda>found.
          (case found of
             None \<Rightarrow> ret ()
           | Some t \<Rightarrow>
               andThen (mapErr repo_err (set_transfer_status now (tf_id t) (transfer_as_str TrCompleted))) (\<lambda>_.
               modify (publish (DncTransferCompleted (tf_id t))))))
      | TransferFailed reference _ \<Rightarrow>
          andThen (mapErr repo_err (find_open_transfer_by_ref reference)) (\<lambda>found.
          (case found of
             None \<Rightarrow> ret ()
           | Some t \<Rightarrow>
               andThen (mapErr repo_err (set_transfer_status now (tf_id t) (transfer_as_str TrFailed))) (\<lambda>_. ret ())))
      | ProgramReceived program content_ref \<Rightarrow>
          andThen (mapErr repo_err (find_program_id_by_identifier program)) (\<lambda>found.
          (case found of
             None \<Rightarrow> ret ()
           | Some program_id \<Rightarrow>
               andThen (mapErr repo_err (create_draft_revision nid now program_id ''operator_edit'' content_ref None)) (\<lambda>rev.
               modify (publish (ProgramRevisionDrafted (rv_id rev) program_id)))))))"

section \<open>Handlers of \<^verbatim>\<open>/v1/dnc\<close>\<close>

definition list_transfers_handler :: "auth_user \<Rightarrow> ('s dnc_db_scheme, api_err, transfer_row list) prog" where
  "list_transfers_handler u = andThen require_pool (\<lambda>_. mapErr repo_err list_transfers)"

definition manual_transfer ::
  "network \<Rightarrow> string \<Rightarrow> timestamp \<Rightarrow> auth_user \<Rightarrow> string \<Rightarrow> string option \<Rightarrow> string option
    \<Rightarrow> ('s dnc_db_scheme, api_err, nat \<times> transfer_row) prog" where
  "manual_transfer net nid now u program_id machine wo_operation_id =
     andThen require_pool (\<lambda>_.
     andThen (mapErr repo_err (program_dispatch_info program_id)) (\<lambda>found.
     andThen (okOr (ApiErr 404 ''not_found'' ''program not found'') found) (\<lambda>(identifier, default_machine).
     andThen (schedule_transfer net nid now program_id identifier
                (case machine of None \<Rightarrow> default_machine | m \<Rightarrow> m) wo_operation_id) (\<lambda>transfer.
     ret (201, transfer)))))"

definition retry_transfer ::
  "network \<Rightarrow> string \<Rightarrow> timestamp \<Rightarrow> auth_user \<Rightarrow> string
    \<Rightarrow> ('s dnc_db_scheme, api_err, nat \<times> transfer_row) prog" where
  "retry_transfer net nid now u i =
     andThen require_pool (\<lambda>_.
     andThen (mapErr repo_err (get_transfer i)) (\<lambda>existing.
     andThen (mapErr repo_err (program_dispatch_info (tf_program_id existing))) (\<lambda>found.
     andThen (okOr (ApiErr 404 ''not_found'' ''program not found'') found) (\<lambda>(identifier, machine).
     andThen (schedule_transfer net nid now (tf_program_id existing) identifier machine
                (tf_wo_operation_id existing)) (\<lambda>transfer.
     ret (201, transfer))))))"

definition list_revisions_handler :: "auth_user \<Rightarrow> ('s dnc_db_scheme, api_err, revision_row list) prog" where
  "list_revisions_handler u = andThen require_pool (\<lambda>_. mapErr repo_err list_revisions)"

definition transition_revision ::
  "string \<Rightarrow> timestamp \<Rightarrow> auth_user \<Rightarrow> string \<Rightarrow> revision_status
    \<Rightarrow> ('s dnc_db_scheme, api_err, revision_row) prog" where
  "transition_revision nid now u i target =
     andThen (guard (can_promote_revision (role u))
                (ApiErr 403 ''forbidden'' ''role may not review program revisions'')) (\<lambda>_.
     andThen require_pool (\<lambda>_.
     andThen (mapErr repo_err (get_revision i)) (\<lambda>rev.
     andThen (okOr (ApiErr 500 ''internal'' ''bad status'') (revision_parse (rv_status rev))) (\<lambda>current.
     andThen (guard (revision_can_transition current target)
                (ApiErr 409 ''invalid_transition''
                   (''revision cannot move from '' @ revision_as_str current @ '' to '' @ revision_as_str target))) (\<lambda>_.
     andThen (mapErr repo_err (set_revision_status now i (revision_as_str target) (user_id u))) (\<lambda>updated.
     andThen (modify (audit nid now (Some (user_id u)) (revision_as_str target) ''program_revision''
                (Some i) None)) (\<lambda>_.
     ret updated)))))))"

definition promote_revision ::
  "string \<Rightarrow> timestamp \<Rightarrow> auth_user \<Rightarrow> string \<Rightarrow> ('s dnc_db_scheme, api_err, revision_row) prog" where
  "promote_revision nid now u i = transition_revision nid now u i RevPromoted"

definition reject_revision ::
  "string \<Rightarrow> timestamp \<Rightarrow> auth_user \<Rightarrow> string \<Rightarrow> ('s dnc_db_scheme, api_err, revision_row) prog" where
  "reject_revision nid now u i = transition_revision nid now u i RevRejected"

definition inject_daemon_event ::
  "string \<Rightarrow> timestamp \<Rightarrow> auth_user \<Rightarrow> dnc_event \<Rightarrow> ('s dnc_db_scheme, api_err, nat) prog" where
  "inject_daemon_event nid now u event =
     andThen (handle_daemon_event nid now event) (\<lambda>_. ret 202)"

section \<open>Frames and lookups\<close>

interpretation tf_set_status: row_update tf_id "tf_set_status st now" for st now
  by unfold_locales (simp add: tf_set_status_def)

interpretation rv_set_status: row_update rv_id "rv_set_status st a now" for st a now
  by unfold_locales (simp add: rv_set_status_def)

lemma audit_dnc [simp]:
  "dnc (audit n t a b c d e s) = dnc s"
  "t_transfers (audit n t a b c d e s) = t_transfers s"
  "t_revisions (audit n t a b c d e s) = t_revisions s"
  by (simp_all add: audit_def insert_audit_def prog_simps split: option.split)

lemma publish_dnc [simp]:
  "dnc (publish e s) = dnc s"
  "t_transfers (publish e s) = t_transfers s"
  "t_revisions (publish e s) = t_revisions s"
  by (simp_all add: publish_def)

lemma first_by_mem: "first_by key rows = Some r \<Longrightarrow> r \<in> set rows"
  unfolding first_by_def by (metis list.exhaust list.set_intros(1) list.simps(4,5) option.distinct(1)
      option.inject set_sort)

lemma first_by_least:
  assumes "first_by key rows = Some r" "x \<in> set rows"
  shows "key r \<le> key x"
proof -
  from assms(1) obtain rs where rs: "sort_key key rows = r # rs"
    by (auto simp: first_by_def split: list.splits)
  have "sorted (map key (r # rs))" by (metis rs sorted_sort_key)
  moreover have "x \<in> set (r # rs)" by (metis assms(2) rs set_sort)
  ultimately show ?thesis by auto
qed

text \<open>
  A predicate that depends only on the transfers and the revisions is kept by every
  statement that touches neither; the orchestration then keeps it when its inserts do.
\<close>

definition about_dnc :: "('s dnc_db_scheme \<Rightarrow> bool) \<Rightarrow> bool" where
  "about_dnc I \<longleftrightarrow> (\<forall>s s'. t_transfers s' = t_transfers s \<and> t_revisions s' = t_revisions s \<longrightarrow> I s' = I s)"

lemma about_dncD: "about_dnc I \<Longrightarrow> t_transfers s' = t_transfers s \<Longrightarrow> t_revisions s' = t_revisions s \<Longrightarrow> I s' = I s"
  unfolding about_dnc_def by blast

lemma preserves_about_dnc:
  assumes "about_dnc I"
  shows "preserves I (modify (audit n t a b c d e))" "preserves I (modify (publish ev))"
    "preserves I (send_command net cmd)"
proof -
  show "preserves I (modify (audit n t a b c d e))"
    by (rule preserves_modify) (rule about_dncD [OF assms, THEN iffD2], simp_all)
  show "preserves I (modify (publish ev))"
    by (rule preserves_modify) (rule about_dncD [OF assms, THEN iffD2], simp_all)
  show "preserves I (send_command net cmd)"
  proof (rule preservesI)
    fix s assume "I s"
    moreover have "t_transfers (snd (send_command net cmd s)) = t_transfers s"
      "t_revisions (snd (send_command net cmd s)) = t_revisions s"
      by (simp_all add: send_command_def split: prod.split)
    ultimately show "I (snd (send_command net cmd s))"
      using about_dncD [OF assms] by blast
  qed
qed

lemma preserves_schedule:
  assumes "about_dnc I"
    and "\<And>op dir ref. preserves I (create_transfer nid now op pid dir ref)"
  shows "preserves I (schedule_transfer net nid now pid ident machine wop)"
  unfolding schedule_transfer_def
  by (intro preserves_rules preserves_about_dnc assms)

lemma preserves_manual_transfer:
  assumes "about_dnc I" and "\<And>op pid dir ref. preserves I (create_transfer nid now op pid dir ref)"
  shows "preserves I (manual_transfer net nid now u pid machine wop)"
  unfolding manual_transfer_def program_dispatch_info_def
  by (intro preserves_rules) (auto intro!: preserves_rules preserves_schedule assms split: prod.split)

lemma preserves_retry_transfer:
  assumes "about_dnc I" and "\<And>op pid dir ref. preserves I (create_transfer nid now op pid dir ref)"
  shows "preserves I (retry_transfer net nid now u i)"
  unfolding retry_transfer_def program_dispatch_info_def get_transfer_def
  by (intro preserves_rules) (auto intro!: preserves_rules preserves_schedule assms split: prod.split)

lemma on_job_complete_keeps:
  assumes "about_dnc I" and "\<And>op pid dir ref. preserves I (create_transfer nid now op pid dir ref)" and "I s"
  shows "I (on_job_complete net nid now i s)"
  using assms(3) preservesD [OF preserves_schedule [OF assms(1,2)]]
  by (auto simp: on_job_complete_def resolve_next_transfer_def gets_eval split: option.split)

section \<open>Reviews\<close>

definition revision_status_of :: "'s dnc_db_scheme \<Rightarrow> string \<Rightarrow> string option" where
  "revision_status_of s i = map_option rv_status (find_row rv_id i (t_revisions s))"

definition unpromoted :: "string \<Rightarrow> 's dnc_db_scheme \<Rightarrow> bool" where
  "unpromoted j s \<longleftrightarrow> revision_status_of s j \<noteq> Some ''promoted''"

lemma about_unpromoted: "about_dnc (unpromoted j)"
  by (simp add: about_dnc_def unpromoted_def revision_status_of_def)

lemma revision_status_set:
  "revision_status_of (s\<lparr>t_revisions :=
       update_where (\<lambda>r. rv_id r = i) (rv_set_status st a now) (t_revisions s)\<rparr>) j =
     (if j = i then map_option (\<lambda>_. st) (revision_status_of s j) else revision_status_of s j)"
  by (auto simp: revision_status_of_def rv_set_status.find_update_key rv_set_status_def option.map_comp comp_def)

lemma revision_status_audit [simp]: "revision_status_of (audit n t a b c d e s) j = revision_status_of s j"
  by (simp add: revision_status_of_def)

lemma transition_revision_cases:
  obtains e where "transition_revision nid now u i x s = (Inl e, s)"
  | r y where "can_promote_revision (role u)" "revision_status_of s i = Some (revision_as_str y)"
      "revision_can_transition y x"
      "transition_revision nid now u i x s = (Inr r, audit nid now (Some (user_id u)) (revision_as_str x)
         ''program_revision'' (Some i) None (s\<lparr>t_revisions := update_where (\<lambda>r. rv_id r = i)
           (rv_set_status (revision_as_str x) (user_id u) now) (t_revisions s)\<rparr>))"
proof (cases "can_promote_revision (role u) \<and> has_pool s")
  case True
  show thesis
  proof (cases "find_row rv_id i (t_revisions s)")
    case None
    with True that(1) show thesis
      by (simp add: transition_revision_def get_revision_def prog_simps)
  next
    case (Some r)
    show thesis
    proof (cases "revision_parse (rv_status r)")
      case None
      with True Some that(1) show thesis
        by (simp add: transition_revision_def get_revision_def prog_simps)
    next
      case (Some y)
      note found = True \<open>find_row rv_id i (t_revisions s) = Some r\<close> Some
      then have st: "revision_status_of s i = Some (revision_as_str y)"
        by (simp add: revision_status_of_def revision.parse_iff)
      show thesis
      proof (cases "revision_can_transition y x \<and> has_key us_id (user_id u) (t_users s)")
        case ok: True
        with found have "transition_revision nid now u i x s =
            (Inr (rv_set_status (revision_as_str x) (user_id u) now r),
             audit nid now (Some (user_id u)) (revision_as_str x) ''program_revision'' (Some i) None
               (s\<lparr>t_revisions := update_where (\<lambda>r. rv_id r = i)
                  (rv_set_status (revision_as_str x) (user_id u) now) (t_revisions s)\<rparr>))"
          by (simp add: transition_revision_def get_revision_def set_revision_status_def prog_simps)
        with True ok st that(2) show thesis by blast
      next
        case False
        with found have "\<exists>e. transition_revision nid now u i x s = (Inl e, s)"
          by (auto simp: transition_revision_def get_revision_def set_revision_status_def prog_simps)
        with that(1) show thesis by blast
      qed
    qed
  qed
next
  case False
  then have "\<exists>e. transition_revision nid now u i x s = (Inl e, s)"
    by (auto simp: transition_revision_def prog_simps)
  with that(1) show thesis by blast
qed

interpretation revision_change: guarded_status revision_parse revision_as_str revision_can_transition
  revision_rank revision_status_of "\<lambda>(nid, now, u) i x s. snd (transition_revision nid now u i x s)"
proof (unfold_locales, goal_cases)
  case (1 c i x s)
  obtain nid now u where c: "c = (nid, now, u)" by (cases c) auto
  show ?case
    by (rule transition_revision_cases [of nid now u i x s]) (simp_all add: c revision_status_set, blast)
next
  case (2 j i c x s)
  obtain nid now u where c: "c = (nid, now, u)" by (cases c) auto
  with 2 show ?case
    by (cases rule: transition_revision_cases [of nid now u i x s]) (simp_all add: revision_status_set)
qed

datatype dnc_label = Review auth_user string revision_status | Traffic

text \<open>
  Everything that drives this component: requests, reviews, daemon events and completed jobs.
\<close>

inductive dnc_step :: "dnc_label \<Rightarrow> 's dnc_db_scheme \<Rightarrow> 's dnc_db_scheme \<Rightarrow> bool" where
  "dnc_step Traffic s (snd (manual_transfer net nid now u pid machine wop s))"
| "dnc_step Traffic s (snd (retry_transfer net nid now u i s))"
| "dnc_step Traffic s (snd (inject_daemon_event nid now u ev s))"
| "dnc_step Traffic s (on_job_complete net nid now i s)"
| "dnc_step (Review u i RevPromoted) s (snd (promote_revision nid now u i s))"
| "dnc_step (Review u i RevRejected) s (snd (reject_revision nid now u i s))"

inductive dnc_run :: "dnc_label list \<Rightarrow> 's dnc_db_scheme \<Rightarrow> 's dnc_db_scheme \<Rightarrow> bool" where
  dnc_nil: "dnc_run [] s s"
| dnc_cons: "dnc_step l s s' \<Longrightarrow> dnc_run ls s' s'' \<Longrightarrow> dnc_run (l # ls) s s''"

lemma preserves_unpromoted_create: "preserves (unpromoted j) (create_transfer nid now op pid dir ref)"
  unfolding create_transfer_def Let_def
  by (intro preserves_rules preserves_sql_exec) (simp add: unpromoted_def revision_status_of_def)

lemma revision_status_append:
  "revision_status_of (s\<lparr>t_revisions := t_revisions s @ [r]\<rparr>) j =
     (case revision_status_of s j of Some st \<Rightarrow> Some st | None \<Rightarrow> if rv_id r = j then Some (rv_status r) else None)"
  by (auto simp: revision_status_of_def table_simps split: option.split)

lemma preserves_handle_event:
  assumes "about_dnc I" and "\<And>i st. preserves I (set_transfer_status now i st)"
    and "\<And>pid src ref by_user. preserves I (create_draft_revision nid now pid src ref by_user)"
  shows "preserves I (inject_daemon_event nid now u ev)"
  unfolding inject_daemon_event_def handle_daemon_event_def find_open_transfer_by_ref_def
    find_program_id_by_identifier_def
  by (cases ev)
    (auto intro!: preserves_rules assms(2,3) preserves_about_dnc(2) [OF assms(1)] split: option.split)

lemma preserves_unpromoted_event: "preserves (unpromoted j) (inject_daemon_event nid now u ev)"
proof (rule preserves_handle_event [OF about_unpromoted], goal_cases)
  case (1 i st)
  show ?case
    unfolding set_transfer_status_def
    by (rule preserves_sql_update) (simp add: unpromoted_def revision_status_of_def)
next
  case (2 pid src ref by_user)
  show ?case
    unfolding create_draft_revision_def insert_revision_def
    by (intro preserves_rules preserves_sql_exec)
      (auto simp: unpromoted_def revision_status_append new_revision_def split: option.splits if_splits)
qed

lemma dnc_step_unpromoted:
  assumes "dnc_step l s s'" "unpromoted j s"
    and "\<And>u. l = Review u j RevPromoted \<Longrightarrow> \<not> can_promote_revision (role u)"
  shows "unpromoted j s'"
  using assms(1)
proof cases
  case (1 net nid now u pid machine wop)
  with assms(2) show ?thesis
    by (simp add: preservesD [OF preserves_manual_transfer [OF about_unpromoted preserves_unpromoted_create]])
next
  case (2 net nid now u i)
  with assms(2) show ?thesis
    by (simp add: preservesD [OF preserves_retry_transfer [OF about_unpromoted preserves_unpromoted_create]])
next
  case (3 nid now u ev)
  with assms(2) show ?thesis by (simp add: preservesD [OF preserves_unpromoted_event])
next
  case (4 net nid now i)
  with assms(2) show ?thesis
    by (simp add: on_job_complete_keeps [OF about_unpromoted preserves_unpromoted_create])
next
  case (5 u i nid now)
  then show ?thesis
    using assms(2,3)
    by (cases rule: transition_revision_cases [of nid now u i RevPromoted s])
      (auto simp: promote_revision_def unpromoted_def revision_status_set split: if_splits)
next
  case (6 u i nid now)
  then show ?thesis
    using assms(2)
    by (cases rule: transition_revision_cases [of nid now u i RevRejected s])
      (auto simp: reject_revision_def unpromoted_def revision_status_set revision_as_str_def split: if_splits)
qed

lemma dnc_run_unpromoted:
  "dnc_run ls s s' \<Longrightarrow> unpromoted j s \<Longrightarrow>
     (\<And>u. Review u j RevPromoted \<in> set ls \<Longrightarrow> \<not> can_promote_revision (role u)) \<Longrightarrow> unpromoted j s'"
  by (induction rule: dnc_run.induct) (auto intro: dnc_step_unpromoted)

text \<open>
  C27.  A program revision is never promoted automatically.  In any run of transfers, daemon events,
  completed jobs and reviews, a revision that was not promoted (or did not exist) and later is
  promoted has been promoted by a promotion request for it, made by an Admin, Planner or Supervisor.
\<close>

theorem revision_promoted_by_review:
  assumes "dnc_run ls s s'" "revision_status_of s j \<noteq> Some ''promoted''"
    and "revision_status_of s' j = Some ''promoted''"
  shows "\<exists>u. Review u j RevPromoted \<in> set ls \<and> role u \<in> {''Admin'', ''Planner'', ''Supervisor''}"
  using dnc_run_unpromoted [OF assms(1), of j] assms(2,3)
  by (auto simp: unpromoted_def can_promote_revision_def)

section \<open>Revision numbers\<close>

definition revision_numbers :: "string \<Rightarrow> 's dnc_db_scheme \<Rightarrow> int list" where
  "revision_numbers p s = map rv_revision_no (filter (\<lambda>r. rv_program_id r = p) (t_revisions s))"

definition numbered :: "'s dnc_db_scheme \<Rightarrow> bool" where
  "numbered s \<longleftrightarrow> (\<forall>p. revision_numbers p s = [1..int (length (revision_numbers p s))])"

lemma fold_max_upto: "fold max [1..int n] 0 = int n"
proof (induction n)
  case (Suc n)
  have "[1..int (Suc n)] = [1..int n] @ [int (Suc n)]" by (simp add: upto_rec2)
  with Suc show ?case by simp
qed simp

lemma next_revision_numbered:
  "numbered s \<Longrightarrow> next_revision_no p (t_revisions s) = int (length (revision_numbers p s)) + 1"
  unfolding next_revision_no_def revision_numbers_def [symmetric]
  by (metis fold_max_upto numbered_def)

lemma about_numbered: "about_dnc numbered"
  by (simp add: about_dnc_def numbered_def revision_numbers_def)

lemma preserves_numbered_create: "preserves numbered (create_transfer nid now op pid dir ref)"
  unfolding create_transfer_def Let_def
  by (intro preserves_rules preserves_sql_exec) (simp add: numbered_def revision_numbers_def)

lemma numbered_append:
  assumes "numbered s" "rv_revision_no r = next_revision_no (rv_program_id r) (t_revisions s)"
  shows "numbered (s\<lparr>t_revisions := t_revisions s @ [r]\<rparr>)"
  unfolding numbered_def
proof
  fix p
  let ?n = "int (length (revision_numbers p s))"
  have old: "revision_numbers p s = [1..?n]" using assms(1) numbered_def by blast
  have "revision_numbers p (s\<lparr>t_revisions := t_revisions s @ [r]\<rparr>) =
      revision_numbers p s @ (if rv_program_id r = p then [?n + 1] else [])"
    using assms next_revision_numbered [OF assms(1), of p] by (simp add: revision_numbers_def)
  with old show "revision_numbers p (s\<lparr>t_revisions := t_revisions s @ [r]\<rparr>) =
      [1..int (length (revision_numbers p (s\<lparr>t_revisions := t_revisions s @ [r]\<rparr>)))]"
    using upto_rec2 [of 1 "?n + 1"] by (cases "rv_program_id r = p") (simp_all add: add.commute)
qed

lemma create_draft_numbered: "preserves numbered (create_draft_revision nid now pid src ref who)"
proof (rule preservesI)
  fix s :: "'a dnc_db_scheme"
  assume "numbered s"
  moreover have "rv_revision_no (new_revision nid now pid n src ref who) = n"
    "rv_program_id (new_revision nid now pid n src ref who) = pid" for n
    by (simp_all add: new_revision_def)
  ultimately show "numbered (snd (create_draft_revision nid now pid src ref who s))"
    using numbered_append [of s]
    by (auto simp: create_draft_revision_def insert_revision_def andThen_eval gets_eval sql_exec_eval
        ret_eval split: option.split)
qed

lemma rv_set_status_numbers: "revision_numbers p (s\<lparr>t_revisions :=
    update_where P (rv_set_status st a now) (t_revisions s)\<rparr>) = revision_numbers p s"
proof -
  have "map rv_revision_no (filter (\<lambda>r. rv_program_id r = p) (update_where P (rv_set_status st a now) rows)) =
      map rv_revision_no (filter (\<lambda>r. rv_program_id r = p) rows)" for rows
    by (induction rows) (simp_all add: update_where_def rv_set_status_def)
  then show ?thesis by (simp add: revision_numbers_def)
qed

lemma preserves_numbered_transfer: "preserves numbered (set_transfer_status now i st)"
  unfolding set_transfer_status_def
  by (rule preserves_sql_update) (simp add: numbered_def revision_numbers_def)

lemma numbered_audit: "numbered (audit nid now a act et eid d s) = numbered s"
  by (rule about_dncD [OF about_numbered]) simp_all

lemma numbered_set_status: "numbered (s\<lparr>t_revisions :=
    update_where P (rv_set_status st a now) (t_revisions s)\<rparr>) = numbered s"
  unfolding numbered_def rv_set_status_numbers ..

lemma numbered_review: "numbered s \<Longrightarrow> numbered (snd (transition_revision nid now u i x s))"
  by (rule transition_revision_cases [of nid now u i x s])
    (simp_all add: numbered_audit numbered_set_status)

lemma dnc_step_numbered:
  assumes "dnc_step l s s'" "numbered s"
  shows "numbered s'"
  using assms(1)
proof cases
  case (1 net nid now u pid machine wop)
  with assms(2) show ?thesis
    by (simp add: preservesD [OF preserves_manual_transfer [OF about_numbered preserves_numbered_create]])
next
  case (2 net nid now u i)
  with assms(2) show ?thesis
    by (simp add: preservesD [OF preserves_retry_transfer [OF about_numbered preserves_numbered_create]])
next
  case (3 nid now u ev)
  with assms(2) show ?thesis
    by (simp add: preservesD [OF preserves_handle_event [OF about_numbered preserves_numbered_transfer
            create_draft_numbered]])
next
  case (4 net nid now i)
  with assms(2) show ?thesis
    by (simp add: on_job_complete_keeps [OF about_numbered preserves_numbered_create])
qed (use assms(2) in \<open>simp_all add: promote_revision_def reject_revision_def numbered_review\<close>)

text \<open>
  Revisions of a program are numbered 1, 2, 3, ... in the order they arrive, without gap or
  repetition, whatever transfers, daemon events and reviews happen in between.
\<close>

theorem revisions_numbered:
  assumes "dnc_run ls s s'" "\<forall>p. revision_numbers p s = [1..int (length (revision_numbers p s))]"
  shows "revision_numbers p s' = [1..int (length (revision_numbers p s'))]"
proof -
  from assms(1) have "numbered s \<Longrightarrow> numbered s'"
    by (induction rule: dnc_run.induct) (auto intro: dnc_step_numbered)
  with assms(2) show ?thesis unfolding numbered_def by blast
qed

section \<open>Transfers\<close>

definition transfer_status_of :: "'s dnc_db_scheme \<Rightarrow> string \<Rightarrow> string option" where
  "transfer_status_of s i = map_option tf_status (find_row tf_id i (t_transfers s))"

definition transfer_reached :: "transfer_status \<Rightarrow> string \<Rightarrow> 's dnc_db_scheme \<Rightarrow> bool" where
  "transfer_reached y j s \<longleftrightarrow> distinct (map tf_id (t_transfers s)) \<and>
     reached transfer_can_transition transfer_as_str transfer_status_of y j s"

lemma about_transfer: "about_dnc (transfer_reached y j)"
  by (simp add: about_dnc_def transfer_reached_def reached_def transfer_status_of_def)

lemma preserves_transfer_create: "preserves (transfer_reached y j) (create_transfer nid now op pid dir ref)"
  unfolding create_transfer_def Let_def
  by (intro preserves_rules preserves_sql_exec)
    (auto simp: transfer_reached_def reached_def transfer_status_of_def find_row_append has_key_def
      split: option.splits)

lemma preserves_transfer_revision: "preserves (transfer_reached y j) (create_draft_revision nid now pid src ref who)"
  unfolding create_draft_revision_def insert_revision_def
  by (intro preserves_rules preserves_sql_exec)
    (simp add: transfer_reached_def reached_def transfer_status_of_def)

lemma transfer_reached_close:
  assumes "transfer_reached y j s" "t \<in> set (t_transfers s)" "tf_status t \<notin> {''completed'', ''failed''}"
    and x: "x \<in> {TrCompleted, TrFailed}"
  shows "transfer_reached y j (s\<lparr>t_transfers :=
    update_where (\<lambda>r. tf_id r = tf_id t) (tf_set_status (transfer_as_str x) now) (t_transfers s)\<rparr>)"
proof -
  let ?s' = "s\<lparr>t_transfers :=
    update_where (\<lambda>r. tf_id r = tf_id t) (tf_set_status (transfer_as_str x) now) (t_transfers s)\<rparr>"
  from assms(1) obtain z where dist: "distinct (map tf_id (t_transfers s))"
    and z: "transfer_status_of s j = Some (transfer_as_str z)" "transfer_can_transition\<^sup>*\<^sup>* y z"
    by (auto simp: transfer_reached_def reached_def)
  have "find_row tf_id (tf_id t) (t_transfers s) = Some t"
    using find_row_unique [OF dist assms(2)] .
  then have "transfer_can_transition z x" if "j = tf_id t"
    using z(1) assms(3) that x
    by (cases z) (auto simp: transfer_status_of_def transfer_as_str_def transfer_can_transition_def transfer_is_terminal_def)
  moreover have "transfer_status_of ?s' j =
      (if j = tf_id t then Some (transfer_as_str x) else transfer_status_of s j)"
    using z(1) by (auto simp: transfer_status_of_def tf_set_status.find_update_key tf_set_status_def
        option.map_comp comp_def)
  ultimately show ?thesis
    using z dist unfolding transfer_reached_def reached_def
    by (auto simp: tf_set_status.keys_update intro: rtranclp.rtrancl_into_rtrancl)
qed

lemma set_status_reached:
  assumes "transfer_reached y j s" "find_open_transfer_by_ref ref s = (Inr (Some t), s')"
    and x: "x \<in> {TrCompleted, TrFailed}"
  shows "transfer_reached y j (snd (set_transfer_status now (tf_id t) (transfer_as_str x) s))"
proof -
  from assms(2) have t: "t \<in> set (t_transfers s)" "tf_status t \<notin> {''completed'', ''failed''}"
    by (auto simp: find_open_transfer_by_ref_def gets_eval dest!: first_by_mem)
  from transfer_reached_close [OF assms(1) t x] assms(1) show ?thesis
    by (simp add: set_transfer_status_def prog_simps split: option.split)
qed

lemma handle_event_reached:
  assumes "transfer_reached y j s"
  shows "transfer_reached y j (snd (inject_daemon_event nid now u ev s))"
proof -
  have keep: "transfer_reached y j (publish e s') = transfer_reached y j s'" for e s'
    by (rule about_dncD [OF about_transfer]) simp_all
  have find: "\<exists>t. find_open_transfer_by_ref ref s = (Inr t, s)" for ref
    by (simp add: find_open_transfer_by_ref_def gets_eval)
  have close: "transfer_reached y j s'"
    if "find_open_transfer_by_ref ref s = (Inr (Some t), s)" "x \<in> {TrCompleted, TrFailed}"
      "set_transfer_status now (tf_id t) (transfer_as_str x) s = (r, s')" for ref t x r s'
    using set_status_reached [OF assms that(1,2), of now] that(3) by simp
  show ?thesis
  proof (cases ev)
    case (TransferCompleted ref)
    obtain t where t: "find_open_transfer_by_ref ref s = (Inr t, s)" using find by blast
    show ?thesis
    proof (cases t)
      case None
      with TransferCompleted t assms show ?thesis
        by (simp add: inject_daemon_event_def handle_daemon_event_def andThen_eval require_pool_eval
            mapErr_eval ret_eval)
    next
      case (Some t')
      obtain r s' where set: "set_transfer_status now (tf_id t') (transfer_as_str TrCompleted) s = (r, s')"
        by fastforce
      from close [OF t [unfolded Some] _ set] have "transfer_reached y j s'" by simp
      with TransferCompleted t Some set assms show ?thesis
        by (cases r) (simp_all add: inject_daemon_event_def handle_daemon_event_def andThen_eval
            require_pool_eval mapErr_eval ret_eval modify_eval keep)
    qed
  next
    case (TransferFailed ref msg)
    obtain t where t: "find_open_transfer_by_ref ref s = (Inr t, s)" using find by blast
    show ?thesis
    proof (cases t)
      case None
      with TransferFailed t assms show ?thesis
        by (simp add: inject_daemon_event_def handle_daemon_event_def andThen_eval require_pool_eval
            mapErr_eval ret_eval)
    next
      case (Some t')
      obtain r s' where set: "set_transfer_status now (tf_id t') (transfer_as_str TrFailed) s = (r, s')"
        by fastforce
      from close [OF t [unfolded Some] _ set] have "transfer_reached y j s'" by simp
      with TransferFailed t Some set assms show ?thesis
        by (cases r) (simp_all add: inject_daemon_event_def handle_daemon_event_def andThen_eval
            require_pool_eval mapErr_eval ret_eval)
    qed
  next
    case (ProgramReceived prog ref)
    have "preserves (transfer_reached y j) (inject_daemon_event nid now u (ProgramReceived prog ref))"
      unfolding inject_daemon_event_def handle_daemon_event_def find_program_id_by_identifier_def
      by (auto intro!: preserves_rules preserves_transfer_revision preserves_about_dnc(2) [OF about_transfer]
          split: option.split)
    from preservesD [OF this assms] ProgramReceived show ?thesis by simp
  qed
qed

lemma transfer_reached_review:
  "transfer_reached y j s \<Longrightarrow> transfer_reached y j (snd (transition_revision nid now u i x s))"
  by (rule transition_revision_cases [of nid now u i x s])
    (simp_all add: transfer_reached_def reached_def transfer_status_of_def)

lemma dnc_step_reached:
  assumes "dnc_step l s s'" "transfer_reached y j s"
  shows "transfer_reached y j s'"
  using assms(1)
proof cases
  case (1 net nid now u pid machine wop)
  with assms(2) show ?thesis
    by (simp add: preservesD [OF preserves_manual_transfer [OF about_transfer preserves_transfer_create]])
next
  case (2 net nid now u i)
  with assms(2) show ?thesis
    by (simp add: preservesD [OF preserves_retry_transfer [OF about_transfer preserves_transfer_create]])
next
  case (3 nid now u ev)
  with assms(2) show ?thesis by (simp add: handle_event_reached)
next
  case (4 net nid now i)
  with assms(2) show ?thesis
    by (simp add: on_job_complete_keeps [OF about_transfer preserves_transfer_create])
next
  case (5 u i nid now)
  with assms(2) show ?thesis
    by (simp add: promote_revision_def transfer_reached_review)
next
  case (6 u i nid now)
  with assms(2) show ?thesis
    by (simp add: reject_revision_def transfer_reached_review)
qed

text \<open>
  C26.  A transfer's status only moves along the lifecycle scheduled, notified, fetched, completed
  or failed: after any run of requests, daemon events, completed jobs and reviews the transfer is
  still there with a status reachable from the earlier one, and one that was completed or failed
  keeps that status whatever the daemon reports later.
\<close>

theorem transfer_forward_only:
  assumes "dnc_run ls s s'" "distinct (map tf_id (t_transfers s))"
    and "transfer_status_of s j = Some (transfer_as_str y)"
  shows "\<exists>z. transfer_status_of s' j = Some (transfer_as_str z) \<and> transfer_can_transition\<^sup>*\<^sup>* y z \<and>
    (y \<in> {TrCompleted, TrFailed} \<longrightarrow> z = y)"
proof -
  from assms(1) have "transfer_reached y j s \<Longrightarrow> transfer_reached y j s'"
    by (induction rule: dnc_run.induct) (auto intro: dnc_step_reached)
  moreover have "transfer_reached y j s"
    using assms(2,3) by (simp add: transfer_reached_def reached_start)
  ultimately obtain z where z: "transfer_status_of s' j = Some (transfer_as_str z)"
    "transfer_can_transition\<^sup>*\<^sup>* y z"
    by (auto simp: transfer_reached_def reached_def)
  moreover have "z = y" if "y \<in> {TrCompleted, TrFailed}"
  proof -
    have "\<not> transfer_can_transition y x" for x
      using that by (auto simp: transfer_can_transition_def transfer_is_terminal_def split: if_splits)
    with z(2) show ?thesis by (metis converse_rtranclpE)
  qed
  ultimately show ?thesis by blast
qed

section \<open>The next job's program\<close>

lemma first_by_exists: "x \<in> set rows \<Longrightarrow> \<exists>r. first_by key rows = Some r"
  by (metis first_by_def list.case_eq_if length_0_conv length_pos_if_in_set length_sort less_irrefl option.simps(3))

lemma program_for_preferred:
  assumes "program_for ro w ps = Some p" "q \<in> set ps" "ro \<noteq> None" "pg_routing_op_id q = ro"
  shows "pg_routing_op_id p = ro"
  using assms first_by_least [of "\<lambda>p. if pg_routing_op_id p = ro then 0 else (1 :: nat)" _ p q]
  unfolding program_for_def by (fastforce split: if_splits)

text \<open>The operations that wait behind a finished one, the programs that fit an operation, and a recorded transfer.\<close>

definition waits_after :: "wo_operation_row \<Rightarrow> 's dnc_db_scheme \<Rightarrow> wo_operation_row \<Rightarrow> bool" where
  "waits_after d s m \<longleftrightarrow> m \<in> set (t_wo_operations s) \<and> op_work_order_id m = op_work_order_id d \<and>
     op_no d < op_no m \<and> op_st m = ''pending''"

definition program_fits :: "work_order_row \<Rightarrow> wo_operation_row \<Rightarrow> 's dnc_db_scheme \<Rightarrow> program_row \<Rightarrow> bool" where
  "program_fits w n s p \<longleftrightarrow> p \<in> set (t_programs s) \<and>
     (pg_part_id p = Some (wo_part_id w) \<or> op_routing_op_id n \<noteq> None \<and> pg_routing_op_id p = op_routing_op_id n)"

definition transfer_recorded :: "wo_operation_row \<Rightarrow> program_row \<Rightarrow> string \<Rightarrow> 's dnc_db_scheme \<Rightarrow> 's dnc_db_scheme \<Rightarrow> bool" where
  "transfer_recorded n p ref s s' \<longleftrightarrow>
     (\<exists>t. t_transfers s' = t_transfers s @ [t] \<and> tf_wo_operation_id t = Some (op_id n) \<and> tf_program_id t = pg_id p \<and>
        tf_status t = ''scheduled'' \<and> tf_direction t = ''to_machine'' \<and> tf_dnc_daemon_ref t = Some ref)"

lemma first_by_filter:
  "first_by key (filter P rows) = Some r \<Longrightarrow> r \<in> set rows \<and> P r \<and> (\<forall>x\<in>set rows. P x \<longrightarrow> key r \<le> key x)"
  "first_by key (filter P rows) = None \<Longrightarrow> x \<in> set rows \<Longrightarrow> \<not> P x"
  subgoal using first_by_mem [of key "filter P rows" r] first_by_least [of key "filter P rows" r] by simp
  subgoal using first_by_exists [of x "filter P rows" key] by auto
  done

lemma next_pending_waits:
  "next_pending d (t_wo_operations s) = Some n \<Longrightarrow> waits_after d s n \<and> (\<forall>m. waits_after d s m \<longrightarrow> op_no n \<le> op_no m)"
  "next_pending d (t_wo_operations s) = None \<Longrightarrow> \<not> waits_after d s m"
  unfolding next_pending_def waits_after_def by (drule first_by_filter, simp, auto dest: first_by_filter(2))

lemma program_for_fits:
  "program_for (op_routing_op_id n) w (t_programs s) = Some p \<Longrightarrow> program_fits w n s p"
  "program_for (op_routing_op_id n) w (t_programs s) = None \<Longrightarrow> \<not> program_fits w n s q"
  unfolding program_for_def program_fits_def by (drule first_by_filter, blast, auto dest: first_by_filter(2))

lemma schedule_transfer_run:
  assumes "has_pool s" "\<not> has_key tf_id nid (t_transfers s)" "n \<in> set (t_wo_operations s)" "p \<in> set (t_programs s)"
  shows "snd (schedule_transfer net nid now (pg_id p) (pg_program_identifier p) (pg_target_machine p) (Some (op_id n)) s) =
    (case dnc_send net (dnc s) (SendProgram (pg_program_identifier p) (pg_target_machine p)) of
       (Inl e, d) \<Rightarrow> s\<lparr>dnc := d\<rparr>
     | (Inr ref, d) \<Rightarrow> publish (DncTransferScheduled nid (pg_id p) (pg_program_identifier p) (Some (op_id n)))
         (s\<lparr>dnc := d, t_transfers := t_transfers s @
           [\<lparr>tf_id = nid, tf_wo_operation_id = Some (op_id n), tf_program_id = pg_id p, tf_direction = ''to_machine'',
             tf_status = ''scheduled'', tf_dnc_daemon_ref = Some ref, tf_triggered_at = now, tf_completed_at = None,
             tf_created_at = now, tf_updated_at = now\<rparr>]\<rparr>))"
proof -
  have "\<not> missing_ref op_id (Some (op_id n)) (t_wo_operations s)" "has_key pg_id (pg_id p) (t_programs s)"
    using assms(3, 4) by (auto simp: missing_ref_def has_key_def)
  with assms(1, 2) show ?thesis
    by (cases "dnc_send net (dnc s) (SendProgram (pg_program_identifier p) (pg_target_machine p))"; cases "fst (dnc_send net (dnc s)
        (SendProgram (pg_program_identifier p) (pg_target_machine p)))")
      (simp_all add: schedule_transfer_def send_command_def create_transfer_def direction_as_str_def Let_def prog_simps)
qed

text \<open>
  C28.  What the completion of a job sets off.  When no later operation of the order is pending, or no program is
  bound to the nearest one's routing step or to the order's part, nothing happens.  Otherwise the daemon is asked for
  the program of the nearest pending operation, the one bound to its routing step when there is one and else one
  of the part.  A daemon that is not configured, or that the command does not reach, leaves everything as it was; one
  that takes the command gives a reference, under which exactly one scheduled transfer is recorded.
  Orders and operations are left alone in every case.
\<close>

theorem on_job_complete_correct:
  assumes pool: "has_pool s" and fresh: "\<not> has_key tf_id nid (t_transfers s)"
    and done_op: "find_row op_id i (t_wo_operations s) = Some d"
    and order: "find_row wo_id (op_work_order_id d) (t_work_orders s) = Some w"
  shows "let s' = on_job_complete net nid now i s in
    t_wo_operations s' = t_wo_operations s \<and> t_work_orders s' = t_work_orders s \<and>
    (if \<forall>m. \<not> waits_after d s m then s' = s
     else \<exists>n. waits_after d s n \<and> (\<forall>m. waits_after d s m \<longrightarrow> op_no n \<le> op_no m) \<and>
       (if \<forall>p. \<not> program_fits w n s p then s' = s
        else \<exists>p cmd. program_fits w n s p \<and>
          (op_routing_op_id n \<noteq> None \<and> op_routing_op_id n \<in> pg_routing_op_id ` set (t_programs s) \<longrightarrow>
             pg_routing_op_id p = op_routing_op_id n) \<and>
          cmd = SendProgram (pg_program_identifier p) (pg_target_machine p) \<and>
          (case dnc s of
             DisconnectedDaemon \<Rightarrow> s' = s
           | TcpDncClient addr k \<Rightarrow>
               (case net addr cmd of
                  Some e \<Rightarrow> s' = s
                | None \<Rightarrow> transfer_recorded n p (''tcp-'' @ digits k) s s' \<and> dnc s' = TcpDncClient addr (next_counter k))
           | VirtualDaemon sent k \<Rightarrow>
               transfer_recorded n p (''sim-'' @ digits k) s s' \<and> dnc s' = VirtualDaemon (sent @ [cmd]) (next_counter k))))"
proof (cases "next_pending d (t_wo_operations s)")
  case None
  then have "on_job_complete net nid now i s = s"
    using pool by (simp add: on_job_complete_def resolve_next_transfer_def done_op prog_simps)
  with next_pending_waits(2) [OF None] show ?thesis by simp
next
  case (Some n)
  note n = next_pending_waits(1) [OF Some]
  show ?thesis
  proof (cases "program_for (op_routing_op_id n) w (t_programs s)")
    case None
    have "on_job_complete net nid now i s = s"
      using pool Some None by (simp add: on_job_complete_def resolve_next_transfer_def done_op order prog_simps)
    with n program_for_fits(2) [OF None] show ?thesis by auto
  next
    case (Some p)
    note p = program_for_fits(1) [OF Some]
    have bound: "op_routing_op_id n \<noteq> None \<and> op_routing_op_id n \<in> pg_routing_op_id ` set (t_programs s) \<longrightarrow>
        pg_routing_op_id p = op_routing_op_id n"
      using program_for_preferred [OF Some] by (metis (no_types, lifting) imageE)
    have run: "on_job_complete net nid now i s =
        snd (schedule_transfer net nid now (pg_id p) (pg_program_identifier p) (pg_target_machine p) (Some (op_id n)) s)"
      using pool Some \<open>next_pending d (t_wo_operations s) = Some n\<close>
      by (simp add: on_job_complete_def resolve_next_transfer_def done_op order prog_simps)
    note sent = run [unfolded schedule_transfer_run [OF pool fresh n [unfolded waits_after_def, THEN conjunct1, THEN conjunct1]
        p [unfolded program_fits_def, THEN conjunct1]]]
    have "let cmd = SendProgram (pg_program_identifier p) (pg_target_machine p); s' = on_job_complete net nid now i s in
        t_wo_operations s' = t_wo_operations s \<and> t_work_orders s' = t_work_orders s \<and>
        (case dnc s of
             DisconnectedDaemon \<Rightarrow> s' = s
           | TcpDncClient addr k \<Rightarrow>
               (case net addr cmd of
                  Some e \<Rightarrow> s' = s
                | None \<Rightarrow> transfer_recorded n p (''tcp-'' @ digits k) s s' \<and> dnc s' = TcpDncClient addr (next_counter k))
           | VirtualDaemon sent k \<Rightarrow>
               transfer_recorded n p (''sim-'' @ digits k) s s' \<and> dnc s' = VirtualDaemon (sent @ [cmd]) (next_counter k))"
      unfolding sent Let_def by (cases "dnc s") (simp_all add: dnc_send_def transfer_recorded_def split: option.split)
    with n p bound show ?thesis unfolding Let_def by auto
  qed
qed

text \<open>
  The fallback does not look at what a program is bound to: when no program is bound to the next
  operation's routing step, a program bound to a different step of the same part is sent.
\<close>

theorem fallback_sends_other_step:
  "\<exists>w p. program_for (Some ''RO2'') w [p] = Some p \<and> pg_routing_op_id p = Some ''RO1''"
  by (rule exI [of _ "\<lparr>wo_id = ''W1'', wo_number = ''WO-1'', wo_part_id = ''P1'',
        wo_routing_id = None, wo_qty_ordered = 10, wo_priority = 100, wo_st = ''draft'',
        wo_planned_start = None, wo_planned_end = None, wo_plant_id = None,
        wo_created_at = 0, wo_updated_at = 0\<rparr>"],
      rule exI [of _ "\<lparr>pg_id = ''G1'', pg_routing_op_id = Some ''RO1'', pg_part_id = Some ''P1'',
        pg_program_identifier = ''O1001'', pg_target_machine = None, pg_created_at = 0, pg_updated_at = 0\<rparr>"])
    (simp add: program_for_def first_by_def)

section \<open>Sample state\<close>

definition sample_dnc :: dnc_db where
  "sample_dnc = cmms_db.extend
     (sample_cmms\<lparr>t_wo_operations := t_wo_operations sample_cmms @
          [\<lparr>op_id = ''O2'', op_work_order_id = ''W1'', op_routing_op_id = Some ''RO2'',
            op_no = 20, op_work_center_id = Some ''M1'', op_st = ''pending'', op_qty_good = 0,
            op_qty_scrap = 0, op_started_at = None, op_completed_at = None, op_created_at = 0,
            op_updated_at = 0\<rparr>],
        t_programs := [\<lparr>pg_id = ''G1'', pg_routing_op_id = Some ''RO2'', pg_part_id = Some ''P1'',
          pg_program_identifier = ''O1001'', pg_target_machine = Some ''VMC'', pg_created_at = 0,
          pg_updated_at = 0\<rparr>]\<rparr>)
     \<lparr>dnc = VirtualDaemon [] 1,
      t_transfers = [\<lparr>tf_id = ''T1'', tf_wo_operation_id = None, tf_program_id = ''G1'',
        tf_direction = ''to_machine'', tf_status = ''scheduled'', tf_dnc_daemon_ref = Some ''sim-0'',
        tf_triggered_at = 0, tf_completed_at = None, tf_created_at = 0, tf_updated_at = 0\<rparr>],
      t_revisions = [new_revision ''V1'' 0 ''G1'' 1 ''operator_edit'' None None]\<rparr>"

lemmas sample_dnc_defs = sample_dnc_def cmms_db.defs dnc_db.defs sample_cmms_defs

lemma dnc_run_one: "dnc_step l s s' \<Longrightarrow> dnc_run [l] s s'"
  by (rule dnc_cons) (assumption, rule dnc_nil)

theorem revision_promoted_by_review_witness:
  "\<exists>u. Review u ''V1'' RevPromoted \<in> set [Review \<lparr>user_id = ''U1'', role = ''Planner''\<rparr> ''V1'' RevPromoted] \<and>
     role u \<in> {''Admin'', ''Planner'', ''Supervisor''}"
proof (rule revision_promoted_by_review)
  show "dnc_run [Review \<lparr>user_id = ''U1'', role = ''Planner''\<rparr> ''V1'' RevPromoted] sample_dnc
      (snd (promote_revision ''A1'' 5 \<lparr>user_id = ''U1'', role = ''Planner''\<rparr> ''V1'' sample_dnc))"
    by (rule dnc_run_one) (rule dnc_step.intros(5))
  show "revision_status_of sample_dnc ''V1'' \<noteq> Some ''promoted''"
    by (simp add: revision_status_of_def sample_dnc_defs new_revision_def table_simps)
  show "revision_status_of (snd (promote_revision ''A1'' 5 \<lparr>user_id = ''U1'', role = ''Planner''\<rparr> ''V1'' sample_dnc)) ''V1''
      = Some ''promoted''"
    by (simp add: promote_revision_def transition_revision_def can_promote_revision_def get_revision_def
        revision_parse_def revision_as_str_def revision_can_transition_def set_revision_status_def
        rv_set_status_def prog_simps revision_status_of_def sample_dnc_defs new_revision_def table_simps
        update_where_def)
qed

theorem revisions_numbered_witness:
  "revision_numbers ''G1'' (snd (inject_daemon_event ''V2'' 5 \<lparr>user_id = ''U1'', role = ''Planner''\<rparr>
     (ProgramReceived ''O1001'' None) sample_dnc)) = [1, 2]"
proof -
  let ?s' = "snd (inject_daemon_event ''V2'' 5 \<lparr>user_id = ''U1'', role = ''Planner''\<rparr>
     (ProgramReceived ''O1001'' None) sample_dnc)"
  have run: "dnc_run [Traffic] sample_dnc ?s'"
    by (rule dnc_run_one) (rule dnc_step.intros(3))
  have start: "\<forall>p. revision_numbers p sample_dnc = [1..int (length (revision_numbers p sample_dnc))]"
    by (simp add: revision_numbers_def sample_dnc_defs new_revision_def)
  have "length (revision_numbers ''G1'' ?s') = 2"
    by (simp add: revision_numbers_def inject_daemon_event_def handle_daemon_event_def
        find_program_id_by_identifier_def create_draft_revision_def insert_revision_def next_revision_no_def
        first_by_def in_i32_def missing_ref_def prog_simps sample_dnc_defs new_revision_def table_simps)
  with revisions_numbered [OF run start, of "''G1''"] show ?thesis
    by (simp add: upto_rec1)
qed

theorem transfer_forward_only_witness:
  "\<exists>z. transfer_status_of (snd (inject_daemon_event ''X1'' 5 \<lparr>user_id = ''U1'', role = ''Planner''\<rparr>
     (TransferCompleted ''sim-0'') sample_dnc)) ''T1'' = Some (transfer_as_str z)"
proof -
  let ?s' = "snd (inject_daemon_event ''X1'' 5 \<lparr>user_id = ''U1'', role = ''Planner''\<rparr>
     (TransferCompleted ''sim-0'') sample_dnc)"
  have run: "dnc_run [Traffic] sample_dnc ?s'"
    by (rule dnc_run_one) (rule dnc_step.intros(3))
  have "distinct (map tf_id (t_transfers sample_dnc))" by (simp add: sample_dnc_defs)
  moreover have "transfer_status_of sample_dnc ''T1'' = Some (transfer_as_str TrScheduled)"
    by (simp add: transfer_status_of_def sample_dnc_defs transfer_as_str_def table_simps)
  ultimately show ?thesis using transfer_forward_only [OF run] by blast
qed

theorem on_job_complete_correct_witness:
  "transfer_recorded (t_wo_operations sample_dnc ! 1) (t_programs sample_dnc ! 0) (''tcp-'' @ digits 7) sample_dnc
     (on_job_complete (\<lambda>_ _. None) ''T2'' 9 ''O1'' (sample_dnc\<lparr>dnc := TcpDncClient ''host'' 7\<rparr>))"
proof -
  let ?s = "sample_dnc\<lparr>dnc := TcpDncClient ''host'' 7\<rparr>"
  let ?d = "t_wo_operations sample_dnc ! 0" and ?m = "t_wo_operations sample_dnc ! 1"
  let ?w = "t_work_orders sample_dnc ! 0" and ?q = "t_programs sample_dnc ! 0"
  have rows: "has_pool ?s" "\<not> has_key tf_id ''T2'' (t_transfers ?s)"
    "find_row op_id ''O1'' (t_wo_operations ?s) = Some ?d" "find_row wo_id (op_work_order_id ?d) (t_work_orders ?s) = Some ?w"
    by (simp_all add: sample_dnc_defs table_simps)
  have waits: "waits_after ?d ?s n \<longleftrightarrow> n = ?m" for n
    by (auto simp: waits_after_def sample_dnc_defs)
  have fits: "program_fits ?w ?m ?s p \<longleftrightarrow> p = ?q" for p
    by (auto simp: program_fits_def sample_dnc_defs)
  from on_job_complete_correct [OF rows, of "\<lambda>_ _. None" 9] waits fits show ?thesis
    by (auto simp: Let_def transfer_recorded_def)
qed

end
