(* ===== verification/Barcode.thy ===== *)
theory Barcode
  imports MES_Prelude
begin

text \<open>
  The barcode format of \<^verbatim>\<open>mes-core/src/barcode.rs\<close>: a fixed prefix, a type code and an identifier,
  separated by vertical bars.
\<close>

definition TYPE_LOT :: string where
  "TYPE_LOT = ''LOT''"

definition TYPE_SERIAL :: string where
  "TYPE_SERIAL = ''SER''"

definition PREFIX :: string where
  "PREFIX = ''EMX1''"

definition bar :: char where
  "bar = CHR ''|''"

definition encode :: "string \<Rightarrow> string \<Rightarrow> string" where
  "encode type_code i = PREFIX @ [bar] @ type_code @ [bar] @ i"

text \<open>
  The standard library's bounded split: at most \<open>n\<close> pieces, the last of which keeps every
  remaining separator.
\<close>

fun splitn :: "nat \<Rightarrow> char \<Rightarrow> string \<Rightarrow> string list" where
  "splitn 0 c s = []"
| "splitn (Suc 0) c s = [s]"
| "splitn (Suc (Suc n)) c s =
     (case dropWhile (\<lambda>x. x \<noteq> c) s of
        [] \<Rightarrow> [s]
      | _ # rest \<Rightarrow> takeWhile (\<lambda>x. x \<noteq> c) s # splitn (Suc n) c rest)"

definition parse :: "string \<Rightarrow> (string \<times> string) option" where
  "parse code =
     (case splitn 3 bar code of
        [prefix, type_code, i] \<Rightarrow>
          if prefix \<noteq> PREFIX \<or> type_code = [] \<or> i = [] then None else Some (type_code, i)
      | _ \<Rightarrow> None)"

section \<open>Splitting\<close>

lemma splitn_piece:
  "c \<notin> set p \<Longrightarrow> splitn (Suc (Suc n)) c (p @ c # rest) = p # splitn (Suc n) c rest"
  by (simp add: dropWhile_append takeWhile_append split: list.split)

lemma splitn_two_iff:
  "splitn (Suc (Suc 0)) c s = [p, q] \<longleftrightarrow> s = p @ c # q \<and> c \<notin> set p"
proof
  assume "splitn (Suc (Suc 0)) c s = [p, q]"
  then obtain d where d: "dropWhile (\<lambda>x. x \<noteq> c) s = d # q" and p: "p = takeWhile (\<lambda>x. x \<noteq> c) s"
    by (auto split: list.splits)
  moreover have "d = c" using d by (metis (full_types) dropWhile_eq_Cons_conv)
  ultimately show "s = p @ c # q \<and> c \<notin> set p"
    by (metis takeWhile_dropWhile_id set_takeWhileD)
qed (simp add: splitn_piece del: splitn.simps(3))

lemma splitn_three_iff:
  "splitn 3 c s = [p, q, r] \<longleftrightarrow> s = p @ c # q @ c # r \<and> c \<notin> set p \<and> c \<notin> set q"
proof
  assume "splitn 3 c s = [p, q, r]"
  then obtain d rest where d: "dropWhile (\<lambda>x. x \<noteq> c) s = d # rest"
    and p: "p = takeWhile (\<lambda>x. x \<noteq> c) s" and rest: "splitn (Suc (Suc 0)) c rest = [q, r]"
    by (auto simp: numeral_3_eq_3 simp del: splitn.simps(2) split: list.splits)
  moreover have "d = c" using d by (metis (full_types) dropWhile_eq_Cons_conv)
  ultimately have "s = p @ c # rest" "c \<notin> set p"
    by (metis takeWhile_dropWhile_id, metis (full_types) p set_takeWhileD)
  with rest [unfolded splitn_two_iff] show "s = p @ c # q @ c # r \<and> c \<notin> set p \<and> c \<notin> set q"
    by simp
qed (simp add: numeral_3_eq_3 splitn_piece del: splitn.simps(3))

section \<open>Properties\<close>

text \<open>
  Barcodes round-trip exactly.  A code parses to a type and an identifier precisely when it is
  their encoding, the type is non-empty and free of bars, and the identifier is non-empty; the
  identifier itself may contain bars.
\<close>

theorem parse_iff_encode:
  "parse code = Some (type_code, i) \<longleftrightarrow>
     code = encode type_code i \<and> type_code \<noteq> [] \<and> bar \<notin> set type_code \<and> i \<noteq> []"
proof
  assume "parse code = Some (type_code, i)"
  then have "splitn 3 bar code = [PREFIX, type_code, i]" "type_code \<noteq> []" "i \<noteq> []"
    by (auto simp: parse_def split: list.splits if_splits)
  then show "code = encode type_code i \<and> type_code \<noteq> [] \<and> bar \<notin> set type_code \<and> i \<noteq> []"
    by (simp add: splitn_three_iff encode_def)
next
  assume *: "code = encode type_code i \<and> type_code \<noteq> [] \<and> bar \<notin> set type_code \<and> i \<noteq> []"
  then have "splitn 3 bar code = [PREFIX, type_code, i]"
    by (simp add: splitn_three_iff encode_def PREFIX_def bar_def)
  with * show "parse code = Some (type_code, i)" by (simp add: parse_def)
qed

end
