(* ===== verification/Trace.thy ===== *)
theory Trace
  imports Dnc Barcode "HOL-Library.Multiset"
begin

text \<open>
  Traceability: lots, serials, genealogy, holds, material issue and the recursive trace
  (\<^verbatim>\<open>mes-db/src/repo_trace.rs\<close>, \<^verbatim>\<open>mes-edge/src/trace.rs\<close>).
\<close>

section \<open>Rows\<close>

record lot_row =
  lt_id :: string
  lt_lot_no :: string
  lt_part_id :: string
  lt_qty :: rat
  lt_uom :: string
  lt_created_at :: timestamp
  lt_updated_at :: timestamp

record serial_row =
  sn_id :: string
  sn_serial_no :: string
  sn_part_id :: string
  sn_lot_id :: "string option"
  sn_created_at :: timestamp
  sn_updated_at :: timestamp

type_synonym entity = "string \<times> string"

record genealogy_row =
  gn_id :: string
  gn_parent :: entity
  gn_child :: entity
  gn_qty :: "rat option"
  gn_created_at :: timestamp

record material_txn_row =
  mt_id :: string
  mt_lot_id :: "string option"
  mt_serial_id :: "string option"
  mt_txn_type :: string
  mt_qty :: rat
  mt_wo_operation_id :: "string option"
  mt_ts :: timestamp
  mt_user_id :: "string option"

record hold_row =
  hd_id :: string
  hd_entity :: entity
  hd_reason :: "string option"
  hd_status :: string
  hd_created_by :: "string option"
  hd_released_by :: "string option"
  hd_created_at :: timestamp
  hd_released_at :: "timestamp option"
  hd_ncr_id :: "string option"

text \<open>Nonconformance reports, which holds refer to; theory \<open>Qms\<close> writes them.\<close>

record ncr_row =
  nc_id :: string
  nc_no :: string
  nc_inspection_result_id :: "string option"
  nc_lot_id :: "string option"
  nc_serial_id :: "string option"
  nc_part_id :: "string option"
  nc_status :: string
  nc_disposition :: "string option"
  nc_reason :: "string option"
  nc_dispositioned_by :: "string option"
  nc_dispositioned_at :: "timestamp option"
  nc_created_at :: timestamp
  nc_updated_at :: timestamp

record trace_db = dnc_db +
  t_lots :: "lot_row list"
  t_serials :: "serial_row list"
  t_genealogy :: "genealogy_row list"
  t_material_txns :: "material_txn_row list"
  t_holds :: "hold_row list"
  t_ncrs :: "ncr_row list"

section \<open>Repository: lots, serials, genealogy\<close>

definition create_lot ::
  "string \<Rightarrow> timestamp \<Rightarrow> string \<Rightarrow> string \<Rightarrow> rat \<Rightarrow> string
    \<Rightarrow> ('s trace_db_scheme, repo_error, lot_row) prog" where
  "create_lot nid now lot_no part_id qty uom =
     (let r = \<lparr>lt_id = nid, lt_lot_no = lot_no, lt_part_id = part_id, lt_qty = qty, lt_uom = uom,
               lt_created_at = now, lt_updated_at = now\<rparr>
      in andThen
           (sql_exec
              (\<lambda>s. [(has_key lt_id nid (t_lots s), dup_key ''lots_pkey''),
                    (has_key lt_lot_no lot_no (t_lots s), dup_key ''lots_lot_no_key''),
                    (\<not> has_key pt_id part_id (t_parts s), bad_ref ''lots'' ''lots_part_id_fkey'')])
              (\<lambda>s. s\<lparr>t_lots := t_lots s @ [r]\<rparr>))
           (\<lambda>_. ret r))"

definition create_serial ::
  "string \<Rightarrow> timestamp \<Rightarrow> string \<Rightarrow> string \<Rightarrow> string option
    \<Rightarrow> ('s trace_db_scheme, repo_error, serial_row) prog" where
  "create_serial nid now serial_no part_id lot_id =
     (let r = \<lparr>sn_id = nid, sn_serial_no = serial_no, sn_part_id = part_id, sn_lot_id = lot_id,
               sn_created_at = now, sn_updated_at = now\<rparr>
      in andThen
           (sql_exec
              (\<lambda>s. [(has_key sn_id nid (t_serials s), dup_key ''serials_pkey''),
                    (has_key sn_serial_no serial_no (t_serials s), dup_key ''serials_serial_no_key''),
                    (\<not> has_key pt_id part_id (t_parts s), bad_ref ''serials'' ''serials_part_id_fkey''),
                    (missing_ref lt_id lot_id (t_lots s), bad_ref ''serials'' ''serials_lot_id_fkey'')])
              (\<lambda>s. s\<lparr>t_serials := t_serials s @ [r]\<rparr>))
           (\<lambda>_. ret r))"

text \<open>An edge that is already there is left alone (\<^verbatim>\<open>ON CONFLICT DO NOTHING\<close>).\<close>

definition add_genealogy ::
  "string \<Rightarrow> timestamp \<Rightarrow> entity \<Rightarrow> entity \<Rightarrow> rat option
    \<Rightarrow> ('s trace_db_scheme, repo_error, unit) prog" where
  "add_genealogy nid now parent child qty =
     (\<lambda>s. if has_key (\<lambda>g. (gn_parent g, gn_child g)) (parent, child) (t_genealogy s) then ret () s
          else sql_exec
                 (\<lambda>s. [(has_key gn_id nid (t_genealogy s), dup_key ''genealogy_pkey'')])
                 (\<lambda>s. s\<lparr>t_genealogy := t_genealogy s @
                        [\<lparr>gn_id = nid, gn_parent = parent, gn_child = child, gn_qty = qty,
                          gn_created_at = now\<rparr>]\<rparr>) s)"

section \<open>Repository: recursive trace\<close>

text \<open>
  The recursive query.  The working table of one depth is joined with the edges to give the next,
  while the depth is below 64; all rows are kept, then grouped by entity with the least depth.
\<close>

definition trace_depth :: nat where
  "trace_depth = 64"

function trace_rows :: "(entity \<Rightarrow> entity list) \<Rightarrow> nat \<Rightarrow> entity list \<Rightarrow> (entity \<times> nat) list" where
  "trace_rows step d working =
     map (\<lambda>e. (e, d)) working @
     (if d < trace_depth then trace_rows step (Suc d) (concat (map step working)) else [])"
  by auto
termination by (relation "measure (\<lambda>(_, d, _). trace_depth - d)") auto

record trace_node =
  tn_entity :: entity
  tn_ref_no :: "string option"
  tn_depth :: nat

definition ref_no :: "'s trace_db_scheme \<Rightarrow> entity \<Rightarrow> string option" where
  "ref_no s e =
     (case (if fst e = ''lot'' then map_option lt_lot_no (find_row lt_id (snd e) (t_lots s)) else None) of
        Some r \<Rightarrow> Some r
      | None \<Rightarrow> if fst e = ''serial'' then map_option sn_serial_no (find_row sn_id (snd e) (t_serials s))
                else None)"

definition min_depth :: "(entity \<times> nat) list \<Rightarrow> entity \<Rightarrow> nat" where
  "min_depth rows e = Min (set (map snd (filter (\<lambda>r. fst r = e) rows)))"

text \<open>Missing reference numbers sort last; the text order is the database's collation.\<close>

definition ref_order :: "(string \<Rightarrow> int) \<Rightarrow> string option \<Rightarrow> nat \<times> int" where
  "ref_order collate r = (case r of None \<Rightarrow> (1, 0) | Some t \<Rightarrow> (0, collate t))"

definition to_nodes ::
  "(string \<Rightarrow> int) \<Rightarrow> 's trace_db_scheme \<Rightarrow> (entity \<times> nat) list \<Rightarrow> trace_node list" where
  "to_nodes collate s rows =
     sort_key (\<lambda>n. (tn_depth n, ref_order collate (tn_ref_no n)))
       (map (\<lambda>e. \<lparr>tn_entity = e, tn_ref_no = ref_no s e, tn_depth = min_depth rows e\<rparr>)
          (remdups (map fst rows)))"

definition children_of :: "genealogy_row list \<Rightarrow> entity \<Rightarrow> entity list" where
  "children_of edges e = map gn_child (filter (\<lambda>g. gn_parent g = e) edges)"

definition parents_of :: "genealogy_row list \<Rightarrow> entity \<Rightarrow> entity list" where
  "parents_of edges e = map gn_parent (filter (\<lambda>g. gn_child g = e) edges)"

definition trace_backward ::
  "(string \<Rightarrow> int) \<Rightarrow> entity \<Rightarrow> ('s trace_db_scheme, repo_error, trace_node list) prog" where
  "trace_backward collate e =
     gets (\<lambda>s. to_nodes collate s
                 (trace_rows (children_of (t_genealogy s)) 1 (children_of (t_genealogy s) e)))"

definition trace_forward ::
  "(string \<Rightarrow> int) \<Rightarrow> entity \<Rightarrow> ('s trace_db_scheme, repo_error, trace_node list) prog" where
  "trace_forward collate e =
     gets (\<lambda>s. to_nodes collate s
                 (trace_rows (parents_of (t_genealogy s)) 1 (parents_of (t_genealogy s) e)))"

section \<open>Repository: holds and material issue\<close>

definition active_hold :: "entity \<Rightarrow> hold_row \<Rightarrow> bool" where
  "active_hold e h \<longleftrightarrow> hd_entity h = e \<and> hd_status h = ''active''"

definition is_held :: "string \<Rightarrow> string \<Rightarrow> ('s trace_db_scheme, repo_error, bool) prog" where
  "is_held entity_type entity_id =
     gets (\<lambda>s. list_ex (active_hold (entity_type, entity_id)) (t_holds s))"

definition insert_hold :: "hold_row \<Rightarrow> ('s trace_db_scheme, repo_error, unit) prog" where
  "insert_hold r =
     sql_exec
       (\<lambda>s. [(has_key hd_id (hd_id r) (t_holds s), dup_key ''holds_pkey''),
             (missing_ref us_id (hd_created_by r) (t_users s), bad_ref ''holds'' ''holds_created_by_fkey''),
             (missing_ref nc_id (hd_ncr_id r) (t_ncrs s), bad_ref ''holds'' ''holds_ncr_id_fkey'')])
       (\<lambda>s. s\<lparr>t_holds := t_holds s @ [r]\<rparr>)"

definition new_hold ::
  "string \<Rightarrow> timestamp \<Rightarrow> entity \<Rightarrow> string option \<Rightarrow> string \<Rightarrow> string option \<Rightarrow> hold_row" where
  "new_hold nid now e reason created_by ncr_id =
     \<lparr>hd_id = nid, hd_entity = e, hd_reason = reason, hd_status = ''active'',
      hd_created_by = Some created_by, hd_released_by = None, hd_created_at = now,
      hd_released_at = None, hd_ncr_id = ncr_id\<rparr>"

definition place_hold ::
  "string \<Rightarrow> timestamp \<Rightarrow> string \<Rightarrow> string \<Rightarrow> string option \<Rightarrow> string
    \<Rightarrow> ('s trace_db_scheme, repo_error, string) prog" where
  "place_hold nid now entity_type entity_id reason created_by =
     andThen (insert_hold (new_hold nid now (entity_type, entity_id) reason created_by None))
       (\<lambda>_. ret nid)"

definition hold_release :: "string \<Rightarrow> timestamp \<Rightarrow> hold_row \<Rightarrow> hold_row" where
  "hold_release released_by now h =
     h\<lparr>hd_status := ''released'', hd_released_by := Some released_by, hd_released_at := Some now\<rparr>"

text \<open>Only active rows are updated; an update that touches none is a missing row.\<close>

definition release_hold ::
  "timestamp \<Rightarrow> string \<Rightarrow> string \<Rightarrow> ('s trace_db_scheme, repo_error, unit) prog" where
  "release_hold now hold_id released_by =
     andThen
       (sql_update (\<lambda>s. find (\<lambda>h. hd_id h = hold_id \<and> hd_status h = ''active'') (t_holds s))
          (\<lambda>s _. [(\<not> has_key us_id released_by (t_users s), bad_ref ''holds'' ''holds_released_by_fkey'')])
          (hold_release released_by now)
          (\<lambda>s. s\<lparr>t_holds := update_where (\<lambda>h. hd_id h = hold_id \<and> hd_status h = ''active'')
                 (hold_release released_by now) (t_holds s)\<rparr>))
       (\<lambda>_. ret ())"

definition check_not_held ::
  "string \<Rightarrow> string option \<Rightarrow> string \<Rightarrow> ('s trace_db_scheme, repo_error, unit) prog" where
  "check_not_held entity_type entity_id msg =
     (case entity_id of
        None \<Rightarrow> ret ()
      | Some i \<Rightarrow> andThen (is_held entity_type i) (\<lambda>held. guard (\<not> held) (Conflict msg)))"

definition insert_material_txn ::
  "string \<Rightarrow> timestamp \<Rightarrow> string option \<Rightarrow> string option \<Rightarrow> rat \<Rightarrow> string option \<Rightarrow> string
    \<Rightarrow> ('s trace_db_scheme, repo_error, string) prog" where
  "insert_material_txn nid now lot_id serial_id qty wo_operation_id by_user =
     andThen
       (sql_exec
          (\<lambda>s. [(has_key mt_id nid (t_material_txns s), dup_key ''material_txns_pkey''),
                (missing_ref lt_id lot_id (t_lots s), bad_ref ''material_txns'' ''material_txns_lot_id_fkey''),
                (missing_ref sn_id serial_id (t_serials s),
                 bad_ref ''material_txns'' ''material_txns_serial_id_fkey''),
                (missing_ref op_id wo_operation_id (t_wo_operations s),
                 bad_ref ''material_txns'' ''material_txns_wo_operation_id_fkey''),
                (\<not> has_key us_id by_user (t_users s),
                 bad_ref ''material_txns'' ''material_txns_user_id_fkey'')])
          (\<lambda>s. s\<lparr>t_material_txns := t_material_txns s @
                 [\<lparr>mt_id = nid, mt_lot_id = lot_id, mt_serial_id = serial_id, mt_txn_type = ''issue'',
                   mt_qty = qty, mt_wo_operation_id = wo_operation_id, mt_ts = now,
                   mt_user_id = Some by_user\<rparr>]\<rparr>))
       (\<lambda>_. ret nid)"

definition issue_material ::
  "string \<Rightarrow> timestamp \<Rightarrow> string option \<Rightarrow> string option \<Rightarrow> rat \<Rightarrow> string option \<Rightarrow> string
    \<Rightarrow> ('s trace_db_scheme, repo_error, string) prog" where
  "issue_material nid now lot_id serial_id qty wo_operation_id by_user =
     andThen (check_not_held ''lot'' lot_id ''lot is on hold'') (\<lambda>_.
     andThen (check_not_held ''serial'' serial_id ''serial is on hold'') (\<lambda>_.
     insert_material_txn nid now lot_id serial_id qty wo_operation_id by_user))"

section \<open>Handlers of \<^verbatim>\<open>/v1/trace\<close>\<close>

definition create_lot_handler ::
  "string \<Rightarrow> timestamp \<Rightarrow> auth_user \<Rightarrow> string \<Rightarrow> string \<Rightarrow> rat option \<Rightarrow> string option
    \<Rightarrow> ('s trace_db_scheme, api_err, nat \<times> lot_row) prog" where
  "create_lot_handler nid now u lot_no part_id qty uom =
     andThen require_pool (\<lambda>_.
     andThen (mapErr repo_err
                (create_lot nid now lot_no part_id (unwrap_or 0 qty) (unwrap_or ''ea'' uom))) (\<lambda>lot.
     ret (201, lot)))"

definition create_serial_handler ::
  "string \<Rightarrow> timestamp \<Rightarrow> auth_user \<Rightarrow> string \<Rightarrow> string \<Rightarrow> string option
    \<Rightarrow> ('s trace_db_scheme, api_err, nat \<times> serial_row) prog" where
  "create_serial_handler nid now u serial_no part_id lot_id =
     andThen require_pool (\<lambda>_.
     andThen (mapErr repo_err (create_serial nid now serial_no part_id lot_id)) (\<lambda>serial.
     ret (201, serial)))"

definition add_genealogy_handler ::
  "string \<Rightarrow> timestamp \<Rightarrow> auth_user \<Rightarrow> entity \<Rightarrow> entity \<Rightarrow> rat option
    \<Rightarrow> ('s trace_db_scheme, api_err, nat) prog" where
  "add_genealogy_handler nid now u parent child qty =
     andThen require_pool (\<lambda>_.
     andThen (mapErr repo_err (add_genealogy nid now parent child qty)) (\<lambda>_. ret 201))"

definition issue_material_handler ::
  "string \<Rightarrow> timestamp \<Rightarrow> auth_user \<Rightarrow> string option \<Rightarrow> string option \<Rightarrow> rat \<Rightarrow> string option
    \<Rightarrow> ('s trace_db_scheme, api_err, nat \<times> json) prog" where
  "issue_material_handler nid now u lot_id serial_id qty wo_operation_id =
     andThen require_pool (\<lambda>_.
     andThen (mapErr repo_err
                (issue_material nid now lot_id serial_id qty wo_operation_id (user_id u))) (\<lambda>txn_id.
     ret (201, json_object [(''txn_id'', JStr txn_id)])))"

definition place_hold_handler ::
  "(nat \<Rightarrow> string) \<Rightarrow> timestamp \<Rightarrow> auth_user \<Rightarrow> string \<Rightarrow> string \<Rightarrow> string option
    \<Rightarrow> ('s trace_db_scheme, api_err, nat \<times> json) prog" where
  "place_hold_handler ids now u entity_type entity_id reason =
     andThen (guard (can_manage_quality (role u))
                (ApiErr 403 ''forbidden'' ''role may not place holds'')) (\<lambda>_.
     andThen require_pool (\<lambda>_.
     andThen (mapErr repo_err (place_hold (ids 0) now entity_type entity_id reason (user_id u))) (\<lambda>i.
     andThen (modify (audit (ids 1) now (Some (user_id u)) ''hold'' entity_type (Some entity_id) None)) (\<lambda>_.
     ret (201, json_object [(''hold_id'', JStr i)])))))"

definition release_hold_handler ::
  "timestamp \<Rightarrow> auth_user \<Rightarrow> string \<Rightarrow> ('s trace_db_scheme, api_err, nat) prog" where
  "release_hold_handler now u i =
     andThen (guard (can_manage_quality (role u))
                (ApiErr 403 ''forbidden'' ''role may not release holds'')) (\<lambda>_.
     andThen require_pool (\<lambda>_.
     andThen (mapErr repo_err (release_hold now i (user_id u))) (\<lambda>_. ret 204)))"

definition trace_backward_handler ::
  "(string \<Rightarrow> int) \<Rightarrow> auth_user \<Rightarrow> entity \<Rightarrow> ('s trace_db_scheme, api_err, trace_node list) prog" where
  "trace_backward_handler collate u e =
     andThen require_pool (\<lambda>_. mapErr repo_err (trace_backward collate e))"

definition trace_forward_handler ::
  "(string \<Rightarrow> int) \<Rightarrow> auth_user \<Rightarrow> entity \<Rightarrow> ('s trace_db_scheme, api_err, trace_node list) prog" where
  "trace_forward_handler collate u e =
     andThen require_pool (\<lambda>_. mapErr repo_err (trace_forward collate e))"

definition parse_barcode :: "auth_user \<Rightarrow> string \<Rightarrow> ('s, api_err, string \<times> string) prog" where
  "parse_barcode u code =
     okOr (ApiErr 400 ''bad_barcode'' ''malformed barcode'') (Barcode.parse code)"

section \<open>The recursive trace reaches exactly the transitive components\<close>

declare trace_rows.simps [simp del]

lemma relpowp_Suc_left: "(R ^^ Suc n) x z \<longleftrightarrow> (\<exists>y. R x y \<and> (R ^^ n) y z)"
  by (blast dest: relpowp_Suc_D2 intro: relpowp_Suc_I2)

lemma trace_rows_mem:
  assumes "d \<le> trace_depth"
  shows "(x, n) \<in> set (trace_rows step d working) \<longleftrightarrow>
    d \<le> n \<and> n \<le> trace_depth \<and> (\<exists>w\<in>set working. ((\<lambda>a b. b \<in> set (step a)) ^^ (n - d)) w x)"
  using assms
proof (induction step d working rule: trace_rows.induct)
  case (1 step d working)
  let ?R = "\<lambda>a b. b \<in> set (step a)"
  show ?case
  proof (cases "n = d")
    case True
    have "(x, d) \<notin> set (trace_rows step (Suc d) (concat (map step working)))" if "d < trace_depth"
      using 1(1) [OF that] that True by simp
    with True 1(2) show ?thesis by (subst trace_rows.simps) auto
  next
    case False
    have shift: "(\<exists>w\<in>set (concat (map step working)). (?R ^^ (n - Suc d)) w x) \<longleftrightarrow>
        (\<exists>w\<in>set working. (?R ^^ (n - d)) w x)" if "d < n"
    proof -
      have nd: "n - d = Suc (n - Suc d)" using that by simp
      show ?thesis
        unfolding nd relpowp_Suc_left by auto
    qed
    with False 1 show ?thesis
      by (subst trace_rows.simps) (auto simp: Suc_le_eq)
  qed
qed

lemma trace_rows_from:
  "(x, n) \<in> set (trace_rows step 1 (step e)) \<longleftrightarrow>
     1 \<le> n \<and> n \<le> trace_depth \<and> ((\<lambda>a b. b \<in> set (step a)) ^^ n) e x"
proof (cases n)
  case (Suc m)
  then show ?thesis
    by (subst trace_rows_mem)
      (auto simp: trace_depth_def relpowp_Suc_left simp del: relpowp.simps(2))
qed (simp add: trace_rows_mem trace_depth_def)

lemma min_depth_least:
  assumes "(x, k) \<in> set rows"
  shows "min_depth rows x = (LEAST n. (x, n) \<in> set rows)" "(x, min_depth rows x) \<in> set rows"
proof -
  let ?D = "{n. (x, n) \<in> set rows}"
  have D: "set (map snd (filter (\<lambda>r. fst r = x) rows)) = ?D" by force
  have "finite ?D" unfolding D [symmetric] by simp
  moreover have "?D \<noteq> {}" using assms by auto
  ultimately show "min_depth rows x = (LEAST n. (x, n) \<in> set rows)" "(x, min_depth rows x) \<in> set rows"
    using Least_Min [of "\<lambda>n. (x, n) \<in> set rows"] Min_in [of ?D]
    by (auto simp: min_depth_def D simp del: set_map set_filter)
qed

lemma to_nodes_mem:
  "(\<exists>r. \<lparr>tn_entity = x, tn_ref_no = r, tn_depth = n\<rparr> \<in> set (to_nodes collate s rows)) \<longleftrightarrow>
     (x, n) \<in> set rows \<and> n = (LEAST m. (x, m) \<in> set rows)"
proof -
  have "(\<exists>r. \<lparr>tn_entity = x, tn_ref_no = r, tn_depth = n\<rparr> \<in> set (to_nodes collate s rows)) \<longleftrightarrow>
      x \<in> fst ` set rows \<and> n = min_depth rows x"
    by (auto simp: to_nodes_def)
  also have "\<dots> \<longleftrightarrow> (x, n) \<in> set rows \<and> n = (LEAST m. (x, m) \<in> set rows)"
  proof (cases "\<exists>k. (x, k) \<in> set rows")
    case True
    then obtain k where "(x, k) \<in> set rows" by blast
    from min_depth_least [OF this] this show ?thesis by force
  next
    case False
    then show ?thesis by auto
  qed
  finally show ?thesis .
qed

lemma sorted_fst_of_pairs: "sorted (map (\<lambda>n. (f n, g n)) xs) \<Longrightarrow> sorted (map f xs)"
  for f :: "'a \<Rightarrow> 'b::linorder" and g :: "'a \<Rightarrow> 'c::linorder"
  by (induction xs) (auto simp: less_eq_prod_def)

lemma to_nodes_shape:
  "distinct (map tn_entity (to_nodes collate s rows))"
  "sorted (map tn_depth (to_nodes collate s rows))"
proof -
  let ?nodes = "map (\<lambda>e. \<lparr>tn_entity = e, tn_ref_no = ref_no s e, tn_depth = min_depth rows e\<rparr>)
          (remdups (map fst rows))"
  have "mset (map tn_entity (to_nodes collate s rows)) = mset (map tn_entity ?nodes)"
    by (simp only: to_nodes_def mset_map mset_sort)
  moreover have "distinct (map tn_entity ?nodes)" by (simp add: comp_def)
  ultimately show "distinct (map tn_entity (to_nodes collate s rows))"
    using mset_eq_imp_distinct_iff by blast
  show "sorted (map tn_depth (to_nodes collate s rows))"
    by (rule sorted_fst_of_pairs [where g = "\<lambda>n. ref_order collate (tn_ref_no n)"])
      (simp add: to_nodes_def)
qed

definition consumes :: "'s trace_db_scheme \<Rightarrow> entity \<Rightarrow> entity \<Rightarrow> bool" where
  "consumes s parent child \<longleftrightarrow> (parent, child) \<in> (\<lambda>g. (gn_parent g, gn_child g)) ` set (t_genealogy s)"

lemma children_consumes: "(\<lambda>a b. b \<in> set (children_of (t_genealogy s) a)) = consumes s"
  by (force simp: children_of_def consumes_def fun_eq_iff image_iff)

lemma parents_consumes: "(\<lambda>a b. b \<in> set (parents_of (t_genealogy s) a)) = (consumes s)\<inverse>\<inverse>"
  by (force simp: parents_of_def consumes_def fun_eq_iff image_iff)

lemma relpowp_converse: "(R\<inverse>\<inverse> ^^ n) x y \<longleftrightarrow> (R ^^ n) y x" for R :: "'a \<Rightarrow> 'a \<Rightarrow> bool"
proof (induction n arbitrary: y)
  case (Suc n)
  have "(R\<inverse>\<inverse> ^^ Suc n) x y \<longleftrightarrow> (\<exists>z. (R\<inverse>\<inverse> ^^ n) x z \<and> R y z)" by (auto simp: relcompp.simps)
  with Suc show ?case by (auto simp only: relpowp_Suc_left)
qed auto

lemma least_bounded:
  fixes P :: "nat \<Rightarrow> bool"
  shows "(1 \<le> n \<and> n \<le> b \<and> P n) \<and> n = (LEAST m. 1 \<le> m \<and> m \<le> b \<and> P m) \<longleftrightarrow>
     (n \<le> b \<and> 1 \<le> n \<and> P n) \<and> n = (LEAST m. 1 \<le> m \<and> P m)"
proof -
  have "(LEAST m. 1 \<le> m \<and> m \<le> b \<and> P m) = (LEAST m. 1 \<le> m \<and> P m)" if "1 \<le> n" "n \<le> b" "P n"
  proof (rule Least_equality)
    show "1 \<le> (LEAST m. 1 \<le> m \<and> P m) \<and> (LEAST m. 1 \<le> m \<and> P m) \<le> b \<and> P (LEAST m. 1 \<le> m \<and> P m)"
      using LeastI [of "\<lambda>m. 1 \<le> m \<and> P m" n] Least_le [of "\<lambda>m. 1 \<le> m \<and> P m" n] that by simp
  qed (auto intro: Least_le)
  then show ?thesis by auto
qed

text \<open>
  C10.  The backward trace is exact and always ends.  Whatever the genealogy, cycles included, it
  returns each entity once, nearest first, and an entity is listed at depth n exactly when n is
  the length of the shortest chain of consumptions from the assembly to it and n is at most 64.
\<close>

theorem trace_backward_correct:
  "\<exists>nodes. trace_backward collate e s = (Inr nodes, s) \<and>
     distinct (map tn_entity nodes) \<and> sorted (map tn_depth nodes) \<and>
     (\<forall>x n. (\<exists>r. \<lparr>tn_entity = x, tn_ref_no = r, tn_depth = n\<rparr> \<in> set nodes) \<longleftrightarrow>
        n \<le> 64 \<and> 1 \<le> n \<and> (consumes s ^^ n) e x \<and> n = (LEAST m. 1 \<le> m \<and> (consumes s ^^ m) e x))"
proof -
  have eq: "1 \<le> n \<and> n \<le> 64 \<and> (consumes s ^^ n) e x \<and>
        n = (LEAST m. 1 \<le> m \<and> m \<le> 64 \<and> (consumes s ^^ m) e x) \<longleftrightarrow>
      n \<le> 64 \<and> 1 \<le> n \<and> (consumes s ^^ n) e x \<and> n = (LEAST m. 1 \<le> m \<and> (consumes s ^^ m) e x)" for n x
    using least_bounded [of n 64 "\<lambda>m. (consumes s ^^ m) e x"] by simp
  show ?thesis
    by (simp add: trace_backward_def prog_simps to_nodes_mem to_nodes_shape trace_rows_from
      children_consumes trace_depth_def eq del: One_nat_def)
qed

text \<open>
  Forward and backward trace are each other's inverse: a component lists an assembly at some
  depth exactly when the assembly lists the component, at the same depth.
\<close>

theorem trace_forward_inverse:
  "(\<exists>nodes r. trace_forward collate child s = (Inr nodes, s) \<and>
      \<lparr>tn_entity = assembly, tn_ref_no = r, tn_depth = n\<rparr> \<in> set nodes) \<longleftrightarrow>
   (\<exists>nodes r. trace_backward collate assembly s = (Inr nodes, s) \<and>
      \<lparr>tn_entity = child, tn_ref_no = r, tn_depth = n\<rparr> \<in> set nodes)"
  by (simp add: to_nodes_mem trace_forward_def trace_backward_def prog_simps trace_rows_from
      children_consumes parents_consumes relpowp_converse del: One_nat_def)

section \<open>Holds\<close>

interpretation hold_release: row_update hd_id "hold_release u now" for u now
  by unfold_locales (simp add: hold_release_def)

definition held :: "'s trace_db_scheme \<Rightarrow> entity \<Rightarrow> bool" where
  "held s e \<longleftrightarrow> list_ex (active_hold e) (t_holds s)"

lemma is_held_eval [prog_simps]: "is_held t i s = (Inr (held s (t, i)), s)"
  by (simp add: is_held_def held_def prog_simps)

lemma check_not_held_eval [prog_simps]:
  "check_not_held t i msg s =
     (if (\<exists>x. i = Some x \<and> held s (t, x)) then (Inl (Conflict msg), s) else (Inr (), s))"
  by (auto simp: check_not_held_def prog_simps split: option.split)

lemma issue_material_effect:
  assumes "issue_material nid now lot serial qty wop who s = (Inr t, s')"
  shows "t = nid" "\<forall>x. lot = Some x \<longrightarrow> \<not> held s (''lot'', x)"
    "\<forall>x. serial = Some x \<longrightarrow> \<not> held s (''serial'', x)"
    "s' = s\<lparr>t_material_txns := t_material_txns s @
       [\<lparr>mt_id = nid, mt_lot_id = lot, mt_serial_id = serial, mt_txn_type = ''issue'', mt_qty = qty,
         mt_wo_operation_id = wop, mt_ts = now, mt_user_id = Some who\<rparr>]\<rparr>"
  using assms unfolding issue_material_def insert_material_txn_def
  by (auto simp: check_not_held_eval elim!: andThen_InrE dest!: sql_exec_InrD ret_InrD split: if_splits)

lemma issue_material_error_state:
  "issue_material nid now lot serial qty wop who s = (Inl e, s') \<Longrightarrow> s' = s"
  unfolding issue_material_def insert_material_txn_def
  by (auto simp: prog_simps split: if_splits option.splits prod.splits)

text \<open>
  Held material cannot be issued.  A request that names a lot or serial under an active hold
  is refused with a conflict and changes nothing; a request that succeeds names nothing held and
  appends exactly one issue transaction with the requested quantity.
\<close>

theorem issue_material_hold_checked:
  assumes run: "issue_material nid now lot serial qty wop who s = (r, s')"
  shows "(if (\<exists>x. lot = Some x \<and> held s (''lot'', x)) then r = Inl (Conflict ''lot is on hold'') \<and> s' = s
          else if (\<exists>x. serial = Some x \<and> held s (''serial'', x))
          then r = Inl (Conflict ''serial is on hold'') \<and> s' = s
          else case r of
                 Inl e \<Rightarrow> s' = s
               | Inr t \<Rightarrow> \<exists>x. t_material_txns s' = t_material_txns s @ [x] \<and> mt_id x = t \<and>
                   mt_lot_id x = lot \<and> mt_serial_id x = serial \<and> mt_qty x = qty)"
proof -
  consider (lot) "\<exists>x. lot = Some x \<and> held s (''lot'', x)"
    | (serial) "\<not> (\<exists>x. lot = Some x \<and> held s (''lot'', x))"
        "\<exists>x. serial = Some x \<and> held s (''serial'', x)"
    | (free) "\<not> (\<exists>x. lot = Some x \<and> held s (''lot'', x))"
        "\<not> (\<exists>x. serial = Some x \<and> held s (''serial'', x))" by blast
  then show ?thesis
  proof cases
    case lot
    with run show ?thesis
      by (simp add: issue_material_def prog_simps)
  next
    case serial
    with run show ?thesis
      unfolding if_not_P [OF serial(1)] if_P [OF serial(2)]
      by (simp add: issue_material_def andThen_eval check_not_held_eval if_not_P [OF serial(1)])
  next
    case free
    show ?thesis
    proof (cases r)
      case (Inl e)
      with run free show ?thesis by (auto dest: issue_material_error_state)
    next
      case (Inr t)
      with run free issue_material_effect [OF run [unfolded Inr]] show ?thesis by auto
    qed
  qed
qed

lemma audit_trace [simp]:
  "t_lots (audit n t a b c d e s) = t_lots s"
  "t_serials (audit n t a b c d e s) = t_serials s"
  "t_genealogy (audit n t a b c d e s) = t_genealogy s"
  "t_material_txns (audit n t a b c d e s) = t_material_txns s"
  "t_holds (audit n t a b c d e s) = t_holds s"
  by (simp_all add: audit_def insert_audit_def prog_simps split: option.split)

lemma publish_trace [simp]:
  "t_lots (publish e s) = t_lots s"
  "t_serials (publish e s) = t_serials s"
  "t_genealogy (publish e s) = t_genealogy s"
  "t_material_txns (publish e s) = t_material_txns s"
  "t_holds (publish e s) = t_holds s"
  by (simp_all add: publish_def)

definition sample_trace :: trace_db where
  "sample_trace = dnc_db.extend sample_dnc
     \<lparr>t_lots = [\<lparr>lt_id = ''L1'', lt_lot_no = ''LOT-1'', lt_part_id = ''P1'', lt_qty = 5, lt_uom = ''ea'',
                lt_created_at = 0, lt_updated_at = 0\<rparr>],
      t_serials = [], t_genealogy = [], t_material_txns = [],
      t_holds = [\<lparr>hd_id = ''H1'', hd_entity = (''lot'', ''L1''), hd_reason = None, hd_status = ''active'',
                 hd_created_by = Some ''U1'', hd_released_by = None, hd_created_at = 0,
                 hd_released_at = None, hd_ncr_id = None\<rparr>],
      t_ncrs = []\<rparr>"

theorem issue_material_hold_checked_witness:
  "issue_material ''T1'' 5 (Some ''L1'') None 2 None ''U1'' sample_trace =
     (Inl (Conflict ''lot is on hold''), sample_trace)"
proof -
  obtain r s' where run: "issue_material ''T1'' 5 (Some ''L1'') None 2 None ''U1'' sample_trace = (r, s')"
    by fastforce
  have "held sample_trace (''lot'', ''L1'')"
    by (simp add: held_def sample_trace_def dnc_db.defs sample_dnc_defs active_hold_def)
  with issue_material_hold_checked [OF run] run show ?thesis by simp
qed

end
