(* ===== verification/Qms.thy ===== *)
theory Qms
  imports Trace
begin

text \<open>
  Quality: inspection plans, measured characteristics, automatic nonconformance reports with their
  holds, and dispositions (\<^verbatim>\<open>mes-core/src/qms.rs\<close>, \<^verbatim>\<open>mes-db/src/repo_qms.rs\<close>,
  \<^verbatim>\<open>mes-edge/src/qms.rs\<close>).
\<close>

section \<open>Rows\<close>

record plan_row =
  ip_id :: string
  ip_part_id :: string
  ip_code :: string
  ip_name :: string
  ip_created_at :: timestamp
  ip_updated_at :: timestamp

record char_row =
  ch_id :: string
  ch_plan_id :: string
  ch_name :: string
  ch_uom :: "string option"
  ch_nominal :: "rat option"
  ch_lower_limit :: "rat option"
  ch_upper_limit :: "rat option"

record result_row =
  ir_id :: string
  ir_characteristic_id :: string
  ir_lot_id :: "string option"
  ir_serial_id :: "string option"
  ir_wo_operation_id :: "string option"
  ir_measured_value :: rat
  ir_result :: string
  ir_inspected_by :: "string option"
  ir_created_at :: timestamp

record qms_db = trace_db +
  t_inspection_plans :: "plan_row list"
  t_characteristics :: "char_row list"
  t_inspection_results :: "result_row list"

section \<open>Evaluation\<close>

definition evaluate :: "rat \<Rightarrow> rat option \<Rightarrow> rat option \<Rightarrow> inspection_outcome" where
  "evaluate v lower upper =
     (if (case lower of Some lo \<Rightarrow> v < lo | None \<Rightarrow> False) then Fail
      else if (case upper of Some hi \<Rightarrow> v > hi | None \<Rightarrow> False) then Fail
      else Pass)"

section \<open>Repository\<close>

definition create_plan ::
  "string \<Rightarrow> timestamp \<Rightarrow> string \<Rightarrow> string \<Rightarrow> string \<Rightarrow> ('s qms_db_scheme, repo_error, plan_row) prog" where
  "create_plan nid now part_id code name =
     (let r = \<lparr>ip_id = nid, ip_part_id = part_id, ip_code = code, ip_name = name,
               ip_created_at = now, ip_updated_at = now\<rparr>
      in andThen
           (sql_exec
              (\<lambda>s. [(has_key ip_id nid (t_inspection_plans s), dup_key ''inspection_plans_pkey''),
                    (has_key (\<lambda>p. (ip_part_id p, ip_code p)) (part_id, code) (t_inspection_plans s),
                     dup_key ''inspection_plans_part_id_code_key''),
                    (\<not> has_key pt_id part_id (t_parts s),
                     bad_ref ''inspection_plans'' ''inspection_plans_part_id_fkey'')])
              (\<lambda>s. s\<lparr>t_inspection_plans := t_inspection_plans s @ [r]\<rparr>))
           (\<lambda>_. ret r))"

definition create_characteristic ::
  "string \<Rightarrow> string \<Rightarrow> string \<Rightarrow> string option \<Rightarrow> rat option \<Rightarrow> rat option \<Rightarrow> rat option
    \<Rightarrow> ('s qms_db_scheme, repo_error, char_row) prog" where
  "create_characteristic nid plan_id name uom nominal lower upper =
     (let r = \<lparr>ch_id = nid, ch_plan_id = plan_id, ch_name = name, ch_uom = uom, ch_nominal = nominal,
               ch_lower_limit = lower, ch_upper_limit = upper\<rparr>
      in andThen
           (sql_exec
              (\<lambda>s. [(has_key ch_id nid (t_characteristics s), dup_key ''characteristics_pkey''),
                    (\<not> has_key ip_id plan_id (t_inspection_plans s),
                     bad_ref ''characteristics'' ''characteristics_plan_id_fkey'')])
              (\<lambda>s. s\<lparr>t_characteristics := t_characteristics s @ [r]\<rparr>))
           (\<lambda>_. ret r))"

definition insert_result :: "result_row \<Rightarrow> ('s qms_db_scheme, repo_error, unit) prog" where
  "insert_result r =
     sql_exec
       (\<lambda>s. [(has_key ir_id (ir_id r) (t_inspection_results s), dup_key ''inspection_results_pkey''),
             (\<not> has_key ch_id (ir_characteristic_id r) (t_characteristics s),
              bad_ref ''inspection_results'' ''inspection_results_characteristic_id_fkey''),
             (missing_ref lt_id (ir_lot_id r) (t_lots s),
              bad_ref ''inspection_results'' ''inspection_results_lot_id_fkey''),
             (missing_ref sn_id (ir_serial_id r) (t_serials s),
              bad_ref ''inspection_results'' ''inspection_results_serial_id_fkey''),
             (missing_ref op_id (ir_wo_operation_id r) (t_wo_operations s),
              bad_ref ''inspection_results'' ''inspection_results_wo_operation_id_fkey''),
             (missing_ref us_id (ir_inspected_by r) (t_users s),
              bad_ref ''inspection_results'' ''inspection_results_inspected_by_fkey'')])
       (\<lambda>s. s\<lparr>t_inspection_results := t_inspection_results s @ [r]\<rparr>)"

definition insert_ncr :: "ncr_row \<Rightarrow> ('s qms_db_scheme, repo_error, unit) prog" where
  "insert_ncr r =
     sql_exec
       (\<lambda>s. [(has_key nc_id (nc_id r) (t_ncrs s), dup_key ''ncrs_pkey''),
             (has_key nc_no (nc_no r) (t_ncrs s), dup_key ''ncrs_ncr_no_key''),
             (missing_ref ir_id (nc_inspection_result_id r) (t_inspection_results s),
              bad_ref ''ncrs'' ''ncrs_inspection_result_id_fkey''),
             (missing_ref lt_id (nc_lot_id r) (t_lots s), bad_ref ''ncrs'' ''ncrs_lot_id_fkey''),
             (missing_ref sn_id (nc_serial_id r) (t_serials s), bad_ref ''ncrs'' ''ncrs_serial_id_fkey''),
             (missing_ref pt_id (nc_part_id r) (t_parts s), bad_ref ''ncrs'' ''ncrs_part_id_fkey'')])
       (\<lambda>s. s\<lparr>t_ncrs := t_ncrs s @ [r]\<rparr>)"

text \<open>The number of a report is made of the first ten characters of its identifier.\<close>

definition ncr_number :: "string \<Rightarrow> string" where
  "ncr_number ncr_id = ''NCR-'' @ take 10 ncr_id"

definition new_ncr ::
  "string \<Rightarrow> timestamp \<Rightarrow> string \<Rightarrow> string option \<Rightarrow> string option \<Rightarrow> string option \<Rightarrow> ncr_row" where
  "new_ncr ncr_id now result_id lot_id serial_id part_id =
     \<lparr>nc_id = ncr_id, nc_no = ncr_number ncr_id, nc_inspection_result_id = Some result_id,
      nc_lot_id = lot_id, nc_serial_id = serial_id, nc_part_id = part_id, nc_status = ''open'',
      nc_disposition = None, nc_reason = Some ''inspection failure'', nc_dispositioned_by = None,
      nc_dispositioned_at = None, nc_created_at = now, nc_updated_at = now\<rparr>"

definition ncr_hold ::
  "string \<Rightarrow> timestamp \<Rightarrow> string \<Rightarrow> string \<Rightarrow> string \<times> string option
    \<Rightarrow> ('s qms_db_scheme, repo_error, unit) prog" where
  "ncr_hold nid now inspected_by ncr_id e =
     (case snd e of
        None \<Rightarrow> ret ()
      | Some i \<Rightarrow> insert_hold (new_hold nid now (fst e, i) (Some ''NCR auto-hold'') inspected_by (Some ncr_id)))"

text \<open>
  Identifiers are drawn in the order result, report, lot hold, serial hold.  The limits are read
  before the transaction begins.
\<close>

definition raise_ncr ::
  "(nat \<Rightarrow> string) \<Rightarrow> timestamp \<Rightarrow> string option \<Rightarrow> string option \<Rightarrow> string
    \<Rightarrow> ('s qms_db_scheme, repo_error, ncr_row) prog" where
  "raise_ncr ids now lot_id serial_id inspected_by =
     andThen (gets (\<lambda>s. case lot_id of
                None \<Rightarrow> None
              | Some l \<Rightarrow> map_option lt_part_id (find_row lt_id l (t_lots s)))) (\<lambda>part_id.
     (let ncr = new_ncr (ids 1) now (ids 0) lot_id serial_id part_id
      in andThen (insert_ncr ncr) (\<lambda>_.
         andThen (ncr_hold (ids 2) now inspected_by (ids 1) (''lot'', lot_id)) (\<lambda>_.
         andThen (ncr_hold (ids 3) now inspected_by (ids 1) (''serial'', serial_id)) (\<lambda>_.
         ret ncr)))))"

definition record_result ::
  "(nat \<Rightarrow> string) \<Rightarrow> timestamp \<Rightarrow> string \<Rightarrow> string option \<Rightarrow> string option \<Rightarrow> string option \<Rightarrow> rat
    \<Rightarrow> string \<Rightarrow> ('s qms_db_scheme, repo_error, result_row \<times> ncr_row option) prog" where
  "record_result ids now characteristic_id lot_id serial_id wo_operation_id measured_value inspected_by =
     andThen (gets (\<lambda>s. find_row ch_id characteristic_id (t_characteristics s))) (\<lambda>found.
     andThen (okOr NotFound found) (\<lambda>ch.
     (let outcome = evaluate measured_value (ch_lower_limit ch) (ch_upper_limit ch);
          result = \<lparr>ir_id = ids 0, ir_characteristic_id = characteristic_id, ir_lot_id = lot_id,
                    ir_serial_id = serial_id, ir_wo_operation_id = wo_operation_id,
                    ir_measured_value = measured_value, ir_result = outcome_as_str outcome,
                    ir_inspected_by = Some inspected_by, ir_created_at = now\<rparr>
      in transaction
           (andThen (insert_result result) (\<lambda>_.
            andThen (if outcome = Fail
                     then andThen (raise_ncr ids now lot_id serial_id inspected_by) (\<lambda>n. ret (Some n))
                     else ret None) (\<lambda>ncr.
            ret (result, ncr)))))))"

definition get_ncr :: "string \<Rightarrow> ('s qms_db_scheme, repo_error, ncr_row) prog" where
  "get_ncr i = andThen (gets (\<lambda>s. find_row nc_id i (t_ncrs s))) (okOr NotFound)"

definition list_ncrs :: "('s qms_db_scheme, repo_error, ncr_row list) prog" where
  "list_ncrs = gets (\<lambda>s. sort_key (\<lambda>n. - nc_created_at n) (t_ncrs s))"

definition ncr_dispose :: "disposition \<Rightarrow> string option \<Rightarrow> string \<Rightarrow> timestamp \<Rightarrow> ncr_row \<Rightarrow> ncr_row" where
  "ncr_dispose d reason actor now n =
     n\<lparr>nc_status := ''dispositioned'', nc_disposition := Some (disposition_as_str d),
       nc_reason := (case reason of None \<Rightarrow> nc_reason n | Some r \<Rightarrow> Some r),
       nc_dispositioned_by := Some actor, nc_dispositioned_at := Some now, nc_updated_at := now\<rparr>"

definition ncr_is_open :: "string \<Rightarrow> ncr_row \<Rightarrow> bool" where
  "ncr_is_open i n \<longleftrightarrow> nc_id n = i \<and> nc_status n = ''open''"

definition active_ncr_hold :: "string \<Rightarrow> hold_row \<Rightarrow> bool" where
  "active_ncr_hold i h \<longleftrightarrow> hd_ncr_id h = Some i \<and> hd_status h = ''active''"

definition disposition_ncr ::
  "timestamp \<Rightarrow> string \<Rightarrow> disposition \<Rightarrow> string option \<Rightarrow> string
    \<Rightarrow> ('s qms_db_scheme, repo_error, ncr_row) prog" where
  "disposition_ncr now i d reason actor =
     transaction
       (andThen
          (sql_update (\<lambda>s. find (ncr_is_open i) (t_ncrs s))
             (\<lambda>s _. [(\<not> has_key us_id actor (t_users s), bad_ref ''ncrs'' ''ncrs_dispositioned_by_fkey'')])
             (ncr_dispose d reason actor now)
             (\<lambda>s. s\<lparr>t_ncrs := update_where (ncr_is_open i) (ncr_dispose d reason actor now) (t_ncrs s)\<rparr>)) (\<lambda>row.
        andThen
          (if releases_hold d
           then sql_exec
                  (\<lambda>s. [(list_ex (active_ncr_hold i) (t_holds s) \<and> \<not> has_key us_id actor (t_users s),
                         bad_ref ''holds'' ''holds_released_by_fkey'')])
                  (\<lambda>s. s\<lparr>t_holds := update_where (active_ncr_hold i) (hold_release actor now) (t_holds s)\<rparr>)
           else ret ()) (\<lambda>_.
        ret row)))"

section \<open>Handlers of \<^verbatim>\<open>/v1/qms\<close>\<close>

definition require_quality :: "auth_user \<Rightarrow> ('s, api_err, unit) prog" where
  "require_quality u =
     guard (can_manage_quality (role u)) (ApiErr 403 ''forbidden'' ''quality role required'')"

definition create_plan_handler ::
  "string \<Rightarrow> timestamp \<Rightarrow> auth_user \<Rightarrow> string \<Rightarrow> string \<Rightarrow> string
    \<Rightarrow> ('s qms_db_scheme, api_err, nat \<times> plan_row) prog" where
  "create_plan_handler nid now u part_id code name =
     andThen (require_quality u) (\<lambda>_.
     andThen require_pool (\<lambda>_.
     andThen (mapErr repo_err (create_plan nid now part_id code name)) (\<lambda>plan. ret (201, plan))))"

definition create_characteristic_handler ::
  "string \<Rightarrow> auth_user \<Rightarrow> string \<Rightarrow> string \<Rightarrow> string option \<Rightarrow> rat option \<Rightarrow> rat option \<Rightarrow> rat option
    \<Rightarrow> ('s qms_db_scheme, api_err, nat \<times> char_row) prog" where
  "create_characteristic_handler nid u plan_id name uom nominal lower upper =
     andThen (require_quality u) (\<lambda>_.
     andThen require_pool (\<lambda>_.
     andThen (mapErr repo_err (create_characteristic nid plan_id name uom nominal lower upper)) (\<lambda>ch.
     ret (201, ch))))"

definition record_result_handler ::
  "(nat \<Rightarrow> string) \<Rightarrow> timestamp \<Rightarrow> auth_user \<Rightarrow> string \<Rightarrow> string option \<Rightarrow> string option \<Rightarrow> string option
    \<Rightarrow> rat \<Rightarrow> ('s qms_db_scheme, api_err, nat \<times> result_row \<times> ncr_row option) prog" where
  "record_result_handler ids now u characteristic_id lot_id serial_id wo_operation_id measured_value =
     andThen require_pool (\<lambda>_.
     andThen (mapErr repo_err
                (record_result ids now characteristic_id lot_id serial_id wo_operation_id measured_value
                   (user_id u))) (\<lambda>r.
     andThen (case snd r of
                None \<Rightarrow> ret ()
              | Some n \<Rightarrow>
                  andThen (modify (audit (ids 4) now (Some (user_id u)) ''raise'' ''ncr'' (Some (nc_id n)) None)) (\<lambda>_.
                  modify (publish (NcrRaised (nc_id n) (nc_no n) (nc_lot_id n))))) (\<lambda>_.
     ret (201, r))))"

definition list_ncrs_handler :: "auth_user \<Rightarrow> ('s qms_db_scheme, api_err, ncr_row list) prog" where
  "list_ncrs_handler u = andThen require_pool (\<lambda>_. mapErr repo_err list_ncrs)"

definition get_ncr_handler :: "auth_user \<Rightarrow> string \<Rightarrow> ('s qms_db_scheme, api_err, ncr_row) prog" where
  "get_ncr_handler u i = andThen require_pool (\<lambda>_. mapErr repo_err (get_ncr i))"

definition disposition_ncr_handler ::
  "string \<Rightarrow> timestamp \<Rightarrow> auth_user \<Rightarrow> string \<Rightarrow> string \<Rightarrow> string option
    \<Rightarrow> ('s qms_db_scheme, api_err, ncr_row) prog" where
  "disposition_ncr_handler nid now u i disposition reason =
     andThen (require_quality u) (\<lambda>_.
     andThen require_pool (\<lambda>_.
     andThen (okOr (ApiErr 400 ''bad_disposition'' ''disposition must be rework|scrap|use_as_is|return'')
                (disposition_parse disposition)) (\<lambda>d.
     andThen (mapErr repo_err (disposition_ncr now i d reason (user_id u))) (\<lambda>ncr.
     andThen (modify (audit nid now (Some (user_id u)) ''disposition'' ''ncr'' (Some i)
                (Some (json_object [(''disposition'', JStr (disposition_as_str d))])))) (\<lambda>_.
     ret ncr)))))"

section \<open>Quarantine\<close>

interpretation ncr_dispose: row_update nc_id "ncr_dispose d r a now" for d r a now
  by unfold_locales (simp add: ncr_dispose_def)

lemma audit_qms [simp]:
  "t_inspection_results (audit n t a b c d e s) = t_inspection_results s"
  "t_ncrs (audit n t a b c d e s) = t_ncrs s"
  by (simp_all add: audit_def insert_audit_def prog_simps split: option.split)

lemma publish_qms [simp]:
  "t_inspection_results (publish e s) = t_inspection_results s"
  "t_ncrs (publish e s) = t_ncrs s"
  by (simp_all add: publish_def)

definition concerns :: "entity \<Rightarrow> material_txn_row \<Rightarrow> bool" where
  "concerns e t \<longleftrightarrow>
     fst e = ''lot'' \<and> mt_lot_id t = Some (snd e) \<or> fst e = ''serial'' \<and> mt_serial_id t = Some (snd e)"

text \<open>
  A hold is in force and the transactions that concern its entity are the given ones.
\<close>

definition quarantined :: "hold_row \<Rightarrow> material_txn_row list \<Rightarrow> 's trace_db_scheme \<Rightarrow> bool" where
  "quarantined h txns s \<longleftrightarrow>
     h \<in> set (t_holds s) \<and> hd_status h = ''active'' \<and>
     filter (concerns (hd_entity h)) (t_material_txns s) = txns"

lemma quarantined_held: "quarantined h txns s \<Longrightarrow> held s (hd_entity h)"
  by (auto simp: quarantined_def held_def list_ex_iff active_hold_def)

lemma preserves_quarantine_frame [preserves_rules]:
  "preserves (quarantined h x) (modify (audit n t a b c d e))"
  "preserves (quarantined h x) (modify (publish ev))"
  by (rule preserves_modify, simp add: quarantined_def)+

lemma preserves_quarantine_trace [preserves_rules]:
  "preserves (quarantined h x) (create_lot nid now a b c d)"
  "preserves (quarantined h x) (create_serial nid now a b e)"
  "preserves (quarantined h x) (insert_hold r)"
  unfolding create_lot_def create_serial_def insert_hold_def Let_def
  by (intro preserves_rules preserves_sql_exec; simp add: quarantined_def)+

lemma preserves_quarantine_genealogy [preserves_rules]:
  "preserves (quarantined h x) (add_genealogy nid now p c q)"
  unfolding add_genealogy_def
  by (auto simp: preserves_def prog_simps quarantined_def split: option.split)

lemma preserves_quarantine_issue [preserves_rules]:
  "preserves (quarantined h x) (issue_material nid now lot serial qty wop who)"
proof (rule preservesI)
  fix s :: "'a trace_db_scheme"
  assume q: "quarantined h x s"
  obtain r s' where run: "issue_material nid now lot serial qty wop who s = (r, s')" by fastforce
  show "quarantined h x (snd (issue_material nid now lot serial qty wop who s))"
  proof (cases r)
    case (Inl e)
    with run q show ?thesis by (auto dest: issue_material_error_state)
  next
    case (Inr t)
    note eff = issue_material_effect [OF run [unfolded Inr]]
    from quarantined_held [OF q] eff(2,3) have
      "\<not> concerns (hd_entity h) \<lparr>mt_id = nid, mt_lot_id = lot, mt_serial_id = serial,
         mt_txn_type = ''issue'', mt_qty = qty, mt_wo_operation_id = wop, mt_ts = now,
         mt_user_id = Some who\<rparr>"
      by (cases "hd_entity h") (auto simp: concerns_def)
    with q run eff(4) show ?thesis by (simp add: quarantined_def)
  qed
qed

lemma quarantined_release:
  assumes "quarantined h x s" "\<not> P h"
  shows "quarantined h x (s\<lparr>t_holds := update_where P (hold_release who now) (t_holds s)\<rparr>)"
  using assms by (auto simp: quarantined_def hold_release.set_update)

lemma preserves_quarantine_release [preserves_rules]:
  "i \<noteq> hd_id h \<Longrightarrow> preserves (quarantined h x) (release_hold now i who)"
  unfolding release_hold_def
  by (intro preserves_rules preserves_sql_update quarantined_release) auto

lemma preserves_quarantine_qms [preserves_rules]:
  "preserves (quarantined h x) (create_plan nid now a b c)"
  "preserves (quarantined h x) (create_characteristic nid a b d e f g)"
  "preserves (quarantined h x) (insert_result r)"
  "preserves (quarantined h x) (insert_ncr r')"
  unfolding create_plan_def create_characteristic_def insert_result_def insert_ncr_def Let_def
  by (intro preserves_rules preserves_sql_exec; simp add: quarantined_def)+

lemma preserves_quarantine_result [preserves_rules]:
  "preserves (quarantined h x) (record_result ids now c lot serial wop v who)"
  unfolding record_result_def raise_ncr_def ncr_hold_def Let_def
  by (intro preserves_rules) (simp_all add: preserves_rules split: option.split)

lemma preserves_quarantine_disposition [preserves_rules]:
  assumes "hd_ncr_id h = Some i \<Longrightarrow> \<not> releases_hold d"
  shows "preserves (quarantined h x) (disposition_ncr now i d reason actor)"
proof -
  have "preserves (quarantined h x)
      (if releases_hold d
       then sql_exec
              (\<lambda>s. [(list_ex (active_ncr_hold i) (t_holds s) \<and> \<not> has_key us_id actor (t_users s),
                     bad_ref ''holds'' ''holds_released_by_fkey'')])
              (\<lambda>s. s\<lparr>t_holds := update_where (active_ncr_hold i) (hold_release actor now) (t_holds s)\<rparr>)
       else ret () :: ('a qms_db_scheme, repo_error, unit) prog)"
    using assms
    by (auto intro!: preserves_sql_exec quarantined_release preserves_ret simp: active_ncr_hold_def)
  then show ?thesis
    unfolding disposition_ncr_def
    by (intro preserves_transaction preserves_andThen preserves_ret preserves_sql_update)
      (simp_all add: quarantined_def)
qed

text \<open>
  The requests the traceability and quality routes serve, one at a time, in any order and with any
  arguments.  A step is labelled by the release it asks for, if any.
\<close>

datatype quality_label = Releases string | Disposes string string | Neutral

inductive quality_step :: "quality_label \<Rightarrow> 's qms_db_scheme \<Rightarrow> 's qms_db_scheme \<Rightarrow> bool" where
  "quality_step Neutral s (snd (create_lot_handler nid now u a b c d s))"
| "quality_step Neutral s (snd (create_serial_handler nid now u a b e s))"
| "quality_step Neutral s (snd (add_genealogy_handler nid now u p q c s))"
| "quality_step Neutral s (snd (issue_material_handler nid now u lot serial qty wop s))"
| "quality_step Neutral s (snd (place_hold_handler ids now u a b e s))"
| "quality_step (Releases i) s (snd (release_hold_handler now u i s))"
| "quality_step Neutral s (snd (create_plan_handler nid now u a b d s))"
| "quality_step Neutral s (snd (create_characteristic_handler nid u a b e f g h s))"
| "quality_step Neutral s (snd (record_result_handler ids now u a e f g v s))"
| "quality_step (Disposes i t) s (snd (disposition_ncr_handler nid now u i t reason s))"

inductive quality_run :: "quality_label list \<Rightarrow> 's qms_db_scheme \<Rightarrow> 's qms_db_scheme \<Rightarrow> bool" where
  run_nil: "quality_run [] s s"
| run_step: "quality_step l s s' \<Longrightarrow> quality_run ls s' s'' \<Longrightarrow> quality_run (l # ls) s s''"

definition lifts :: "hold_row \<Rightarrow> quality_label \<Rightarrow> bool" where
  "lifts h l \<longleftrightarrow>
     (case l of
        Releases i \<Rightarrow> i = hd_id h
      | Disposes i t \<Rightarrow> hd_ncr_id h = Some i \<and> t \<in> {''rework'', ''use_as_is''}
      | Neutral \<Rightarrow> False)"

lemma releases_hold_str: "disposition_parse t = Some d \<Longrightarrow> releases_hold d \<longleftrightarrow> t \<in> {''rework'', ''use_as_is''}"
  by (cases d) (auto simp: disposition.parse_iff disposition_as_str_def releases_hold_def)

lemmas trace_handler_defs = create_lot_handler_def create_serial_handler_def add_genealogy_handler_def
  issue_material_handler_def place_hold_handler_def place_hold_def release_hold_handler_def

lemmas qms_handler_defs = create_plan_handler_def create_characteristic_handler_def
  record_result_handler_def disposition_ncr_handler_def require_quality_def

lemma preserves_quarantine_dispose_handler:
  assumes "\<not> lifts h (Disposes i t)"
  shows "preserves (quarantined h x) (disposition_ncr_handler nid now u i t reason)"
proof (cases "disposition_parse t")
  case (Some d)
  with assms have "hd_ncr_id h = Some i \<Longrightarrow> \<not> releases_hold d"
    by (simp add: lifts_def releases_hold_str)
  with Some show ?thesis
    unfolding qms_handler_defs by (simp add: okOr_def andThen_ret) (intro preserves_rules)
qed (simp add: qms_handler_defs okOr_def andThen_throw preserves_rules)

lemma preserves_quarantine_result_handler:
  "preserves (quarantined h x) (record_result_handler ids now u a e f g v)"
  unfolding qms_handler_defs
  by (intro preserves_rules) (simp split: option.split add: preserves_rules)

lemma quality_step_quarantine:
  assumes "quality_step l s s'" "\<not> lifts h l" "quarantined h x s"
  shows "quarantined h x s'"
  using assms
proof cases
  case (9 ids now u a e f g v)
  with assms(3) show ?thesis
    by (simp add: preservesD [OF preserves_quarantine_result_handler])
next
  case (10 i t nid now u reason)
  with assms preserves_quarantine_dispose_handler show ?thesis by (metis preservesD)
qed (use assms(2,3) in \<open>auto simp: trace_handler_defs qms_handler_defs lifts_def
       intro!: preservesD [where I = "quarantined h x"] preserves_rules\<close>)

lemma quality_run_quarantine:
  "quality_run ls s s' \<Longrightarrow> \<forall>l\<in>set ls. \<not> lifts h l \<Longrightarrow> quarantined h x s \<Longrightarrow> quarantined h x s'"
  by (induction rule: quality_run.induct) (auto intro: quality_step_quarantine)

text \<open>
  Quarantine.  While a hold is in force, no sequence of requests to the traceability and
  quality routes, whoever makes them, issues material of the held lot or serial or removes the
  hold, unless the sequence contains the release of that very hold or a rework or use-as-is
  disposition of the report it belongs to.
\<close>

theorem quarantine:
  assumes "quality_run ls s s'" "h \<in> set (t_holds s)" "hd_status h = ''active''"
    and "\<forall>l\<in>set ls. \<not> lifts h l"
  shows "h \<in> set (t_holds s') \<and> held s' (hd_entity h) \<and>
    filter (concerns (hd_entity h)) (t_material_txns s') =
      filter (concerns (hd_entity h)) (t_material_txns s)"
proof -
  let ?x = "filter (concerns (hd_entity h)) (t_material_txns s)"
  have "quarantined h ?x s" using assms(2,3) by (simp add: quarantined_def)
  with assms(1,4) have "quarantined h ?x s'" by (rule quality_run_quarantine)
  with quarantined_held [OF this] show ?thesis by (simp add: quarantined_def)
qed

section \<open>Automatic nonconformance reports\<close>

lemma ncr_hold_effect:
  assumes "ncr_hold nid now who n (t, e) s = (Inr x, s')"
  shows "s' = s\<lparr>t_holds := t_holds s @
    (case e of None \<Rightarrow> []
     | Some i \<Rightarrow> [new_hold nid now (t, i) (Some ''NCR auto-hold'') who (Some n)])\<rparr>"
  using assms
  by (cases e) (auto simp: ncr_hold_def insert_hold_def dest!: ret_InrD sql_exec_InrD)

definition auto_holds ::
  "(nat \<Rightarrow> string) \<Rightarrow> timestamp \<Rightarrow> string \<Rightarrow> string option \<Rightarrow> string option \<Rightarrow> hold_row list" where
  "auto_holds ids now who lot serial =
     (case lot of None \<Rightarrow> []
      | Some i \<Rightarrow> [new_hold (ids 2) now (''lot'', i) (Some ''NCR auto-hold'') who (Some (ids 1))]) @
     (case serial of None \<Rightarrow> []
      | Some i \<Rightarrow> [new_hold (ids 3) now (''serial'', i) (Some ''NCR auto-hold'') who (Some (ids 1))])"

lemma raise_ncr_effect:
  assumes "raise_ncr ids now lot serial who s = (Inr n, s')"
  obtains part where "n = new_ncr (ids 1) now (ids 0) lot serial part"
    "s' = s\<lparr>t_ncrs := t_ncrs s @ [n], t_holds := t_holds s @ auto_holds ids now who lot serial\<rparr>"
proof -
  from assms obtain part s1 s2 where
    n: "n = new_ncr (ids 1) now (ids 0) lot serial part" and
    ins: "insert_ncr n s = (Inr (), s1)" and
    h1: "ncr_hold (ids 2) now who (ids 1) (''lot'', lot) s1 = (Inr (), s2)" and
    h2: "ncr_hold (ids 3) now who (ids 1) (''serial'', serial) s2 = (Inr (), s')"
    unfolding raise_ncr_def Let_def
    by (elim andThen_InrE) (auto dest!: ret_InrD gets_InrD)
  from sql_exec_InrD [OF ins [unfolded insert_ncr_def]] have "s1 = s\<lparr>t_ncrs := t_ncrs s @ [n]\<rparr>" by simp
  with ncr_hold_effect [OF h1] ncr_hold_effect [OF h2]
  have "s' = s\<lparr>t_ncrs := t_ncrs s @ [n], t_holds := t_holds s @ auto_holds ids now who lot serial\<rparr>"
    by (simp add: auto_holds_def)
  with n that show thesis by blast
qed

lemma record_result_effect:
  assumes "record_result ids now c lot serial wop v who s = (Inr (r, ncr), s')"
  obtains ch where "find_row ch_id c (t_characteristics s) = Some ch"
    "ir_result r = outcome_as_str (evaluate v (ch_lower_limit ch) (ch_upper_limit ch))"
    "ir_measured_value r = v" "t_inspection_results s' = t_inspection_results s @ [r]"
    "case ncr of
       None \<Rightarrow> evaluate v (ch_lower_limit ch) (ch_upper_limit ch) = Pass \<and>
         t_ncrs s' = t_ncrs s \<and> t_holds s' = t_holds s
     | Some n \<Rightarrow> evaluate v (ch_lower_limit ch) (ch_upper_limit ch) = Fail \<and>
         (\<exists>part. n = new_ncr (ids 1) now (ids 0) lot serial part) \<and>
         t_ncrs s' = t_ncrs s @ [n] \<and> t_holds s' = t_holds s @ auto_holds ids now who lot serial"
proof -
  from assms obtain ch where ch: "find_row ch_id c (t_characteristics s) = Some ch"
    by (cases "find_row ch_id c (t_characteristics s)") (simp_all add: record_result_def prog_simps)
  let ?o = "evaluate v (ch_lower_limit ch) (ch_upper_limit ch)"
  let ?r = "\<lparr>ir_id = ids 0, ir_characteristic_id = c, ir_lot_id = lot, ir_serial_id = serial,
     ir_wo_operation_id = wop, ir_measured_value = v, ir_result = outcome_as_str ?o,
     ir_inspected_by = Some who, ir_created_at = now\<rparr>"
  let ?ncr = "if ?o = Fail then andThen (raise_ncr ids now lot serial who) (\<lambda>n. ret (Some n)) else ret None"
  from assms ch have "transaction (andThen (insert_result ?r) (\<lambda>_. andThen ?ncr (\<lambda>ncr. ret (?r, ncr)))) s
      = (Inr (r, ncr), s')"
    by (simp add: record_result_def andThen_eval gets_eval okOr_eval Let_def)
  from transaction_InrD [OF this] obtain s1 where
    ins: "insert_result ?r s = (Inr (), s1)" and run: "?ncr s1 = (Inr ncr, s')" and r: "r = ?r"
    by (elim andThen_InrE) (auto dest!: ret_InrD)
  from sql_exec_InrD [OF ins [unfolded insert_result_def]]
  have s1: "s1 = s\<lparr>t_inspection_results := t_inspection_results s @ [?r]\<rparr>" by simp
  have fields: "ir_result r = outcome_as_str ?o" "ir_measured_value r = v" by (simp_all add: r)
  show thesis
  proof (cases "?o = Fail")
    case True
    with run obtain n where n: "ncr = Some n" and raised: "raise_ncr ids now lot serial who s1 = (Inr n, s')"
      by (auto elim!: andThen_InrE dest!: ret_InrD)
    from raise_ncr_effect [OF raised] obtain part where
      part: "n = new_ncr (ids 1) now (ids 0) lot serial part" and
      s': "s' = s1\<lparr>t_ncrs := t_ncrs s1 @ [n], t_holds := t_holds s1 @ auto_holds ids now who lot serial\<rparr>" .
    have "t_inspection_results s' = t_inspection_results s @ [r]" "t_ncrs s' = t_ncrs s @ [n]"
      "t_holds s' = t_holds s @ auto_holds ids now who lot serial"
      by (simp_all add: s' s1 r)
    with that [OF ch fields] True n part show thesis by auto
  next
    case False
    then have "?o = Pass" by (cases ?o) simp_all
    moreover from False run have "ncr = None" "s' = s1" by (auto dest!: ret_InrD)
    ultimately show thesis using that [OF ch fields] by (simp add: s1 r)
  qed
qed

definition in_limits :: "rat \<Rightarrow> rat option \<Rightarrow> rat option \<Rightarrow> bool" where
  "in_limits v lower upper \<longleftrightarrow> (\<forall>lo\<in>set_option lower. lo \<le> v) \<and> (\<forall>hi\<in>set_option upper. v \<le> hi)"

lemma evaluate_in_limits: "evaluate v lower upper = (if in_limits v lower upper then Pass else Fail)"
  by (auto simp: evaluate_def in_limits_def not_le split: option.splits)

lemma auto_holds_entities:
  "map hd_entity (auto_holds ids now who lot serial) =
     (case lot of None \<Rightarrow> [] | Some l \<Rightarrow> [(''lot'', l)]) @ (case serial of None \<Rightarrow> [] | Some i \<Rightarrow> [(''serial'', i)])"
  by (simp add: auto_holds_def new_hold_def split: option.split)

lemma auto_holds_held:
  assumes "t_holds s' = t_holds s @ auto_holds ids now who lot serial"
  shows "lot = Some l \<Longrightarrow> held s' (''lot'', l)" "serial = Some i \<Longrightarrow> held s' (''serial'', i)"
    "h \<in> set (auto_holds ids now who lot serial) \<Longrightarrow> hd_ncr_id h = Some (ids 1) \<and> hd_status h = ''active''"
  using assms
  by (auto simp: held_def auto_holds_def new_hold_def active_hold_def split: option.splits)

text \<open>
  C18.  A failed measurement quarantines.  Recording a measurement either fails and changes
  nothing, or stores it with the verdict of the characteristic's inclusive limits.  Inside the
  limits no report and no hold appears; outside them exactly one open report is stored, and exactly one new
  active hold that belongs to this report for each of the named lot and serial, whether held before or not.
\<close>

theorem record_result_correct:
  assumes run: "record_result ids now c lot serial wop v who s = (res, s')"
  shows "case res of
      Inl e \<Rightarrow> s' = s
    | Inr (r, ncr) \<Rightarrow>
        (\<exists>ch. find_row ch_id c (t_characteristics s) = Some ch \<and>
           t_inspection_results s' = t_inspection_results s @ [r] \<and> ir_measured_value r = v \<and>
           (if in_limits v (ch_lower_limit ch) (ch_upper_limit ch)
            then ir_result r = ''pass'' \<and> ncr = None \<and> t_ncrs s' = t_ncrs s \<and> t_holds s' = t_holds s
            else ir_result r = ''fail'' \<and>
              (\<exists>n hs. ncr = Some n \<and> t_ncrs s' = t_ncrs s @ [n] \<and> nc_status n = ncr_as_str NcrOpen \<and>
                 t_holds s' = t_holds s @ hs \<and>
                 map hd_entity hs = (case lot of None \<Rightarrow> [] | Some l \<Rightarrow> [(''lot'', l)]) @
                   (case serial of None \<Rightarrow> [] | Some i \<Rightarrow> [(''serial'', i)]) \<and>
                 (\<forall>h\<in>set hs. hd_ncr_id h = Some (nc_id n) \<and> hd_status h = ''active'') \<and>
                 (\<forall>l\<in>set_option lot. held s' (''lot'', l)) \<and>
                 (\<forall>i\<in>set_option serial. held s' (''serial'', i)))))"
proof (cases res)
  case (Inl e)
  with run show ?thesis
    by (auto simp: record_result_def prog_simps Let_def split: option.splits prod.splits sum.splits)
next
  case (Inr x)
  obtain r ncr where x: "x = (r, ncr)" by fastforce
  from record_result_effect [OF run [unfolded Inr x]] obtain ch where
    ch: "find_row ch_id c (t_characteristics s) = Some ch"
      "ir_result r = outcome_as_str (evaluate v (ch_lower_limit ch) (ch_upper_limit ch))"
      "ir_measured_value r = v" "t_inspection_results s' = t_inspection_results s @ [r]" and
    n: "case ncr of
       None \<Rightarrow> evaluate v (ch_lower_limit ch) (ch_upper_limit ch) = Pass \<and>
         t_ncrs s' = t_ncrs s \<and> t_holds s' = t_holds s
     | Some n \<Rightarrow> evaluate v (ch_lower_limit ch) (ch_upper_limit ch) = Fail \<and>
         (\<exists>part. n = new_ncr (ids 1) now (ids 0) lot serial part) \<and>
         t_ncrs s' = t_ncrs s @ [n] \<and> t_holds s' = t_holds s @ auto_holds ids now who lot serial" .
  show ?thesis
  proof (cases ncr)
    case None
    with ch n Inr x show ?thesis
      by (auto simp: evaluate_in_limits outcome_as_str_def split: if_splits)
  next
    case (Some nn)
    with n obtain part where nn: "nn = new_ncr (ids 1) now (ids 0) lot serial part" by auto
    from Some n have holds: "t_holds s' = t_holds s @ auto_holds ids now who lot serial" by simp
    have "nc_id nn = ids 1" "nc_status nn = ncr_as_str NcrOpen"
      by (simp_all add: nn new_ncr_def ncr_as_str_def)
    with auto_holds_held [OF holds] auto_holds_entities [of ids now who lot serial] ch n Some Inr x holds show ?thesis
      by (auto simp: evaluate_in_limits outcome_as_str_def split: if_splits)
  qed
qed

section \<open>Dispositions\<close>

lemma update_where_none:
  "(\<And>r. P r \<Longrightarrow> \<not> P (f r)) \<Longrightarrow> r \<in> set (update_where P f rows) \<Longrightarrow> \<not> P r"
  by (auto simp: update_where_def)

lemma filter_update_disjoint:
  "(\<And>r. P r \<Longrightarrow> \<not> Q r) \<Longrightarrow> (\<And>r. P r \<Longrightarrow> \<not> Q (f r)) \<Longrightarrow> filter Q (update_where P f rows) = filter Q rows"
  by (induction rows) (auto simp: update_where_def)

lemma disposition_ncr_effect:
  assumes "disposition_ncr now i d reason actor s = (Inr n', s')"
  obtains n where "find (ncr_is_open i) (t_ncrs s) = Some n" "n' = ncr_dispose d reason actor now n"
    "s' = s\<lparr>t_ncrs := update_where (ncr_is_open i) (ncr_dispose d reason actor now) (t_ncrs s),
           t_holds := (if releases_hold d
                       then update_where (active_ncr_hold i) (hold_release actor now) (t_holds s)
                       else t_holds s)\<rparr>"
proof -
  note run = assms [unfolded disposition_ncr_def, THEN transaction_InrD]
  let ?rel = "if releases_hold d
     then sql_exec
            (\<lambda>s. [(list_ex (active_ncr_hold i) (t_holds s) \<and> \<not> has_key us_id actor (t_users s),
                   bad_ref ''holds'' ''holds_released_by_fkey'')])
            (\<lambda>s. s\<lparr>t_holds := update_where (active_ncr_hold i) (hold_release actor now) (t_holds s)\<rparr>)
     else ret ()"
  from run obtain s1 where
    upd: "sql_update (\<lambda>s. find (ncr_is_open i) (t_ncrs s))
             (\<lambda>s _. [(\<not> has_key us_id actor (t_users s), bad_ref ''ncrs'' ''ncrs_dispositioned_by_fkey'')])
             (ncr_dispose d reason actor now)
             (\<lambda>s. s\<lparr>t_ncrs := update_where (ncr_is_open i) (ncr_dispose d reason actor now) (t_ncrs s)\<rparr>) s
           = (Inr n', s1)" and rel: "?rel s1 = (Inr (), s')"
    by (elim andThen_InrE) (auto dest!: ret_InrD)
  from rel have "s' = s1\<lparr>t_holds := (if releases_hold d
      then update_where (active_ncr_hold i) (hold_release actor now) (t_holds s1) else t_holds s1)\<rparr>"
    by (cases "releases_hold d") (auto dest!: ret_InrD sql_exec_InrD)
  with sql_update_InrD [OF upd] that show thesis by auto
qed

text \<open>
  C39.  Dispositions are final and release exactly their own holds.  A disposition either fails and
  changes nothing, or closes an open report: rework and use-as-is leave no active hold of that
  report, scrap and return leave all holds as they were, and holds that do not belong to the report
  never change.  A report can be dispositioned once: the next attempt finds nothing.
\<close>

theorem disposition_ncr_correct:
  assumes run: "disposition_ncr now i d reason actor s = (res, s')"
  shows "case res of
      Inl e \<Rightarrow> s' = s
    | Inr n \<Rightarrow>
        (\<exists>n0. find (ncr_is_open i) (t_ncrs s) = Some n0 \<and> nc_id n = i) \<and>
        nc_status n = ncr_as_str NcrDispositioned \<and> nc_disposition n = Some (disposition_as_str d) \<and>
        filter (\<lambda>h. hd_ncr_id h \<noteq> Some i) (t_holds s') = filter (\<lambda>h. hd_ncr_id h \<noteq> Some i) (t_holds s) \<and>
        (if d \<in> {Rework, UseAsIs} then \<not> list_ex (active_ncr_hold i) (t_holds s')
         else t_holds s' = t_holds s) \<and>
        (\<forall>now' d' reason' actor'.
           disposition_ncr now' i d' reason' actor' s' = (Inl NotFound, s'))"
proof (cases res)
  case (Inl e)
  with run show ?thesis
    unfolding disposition_ncr_def by (auto dest: transaction_error_state)
next
  case (Inr n)
  from run [unfolded Inr] obtain n0 where
    n0: "find (ncr_is_open i) (t_ncrs s) = Some n0" "n = ncr_dispose d reason actor now n0" and
    s': "t_ncrs s' = update_where (ncr_is_open i) (ncr_dispose d reason actor now) (t_ncrs s)"
      "t_holds s' = (if releases_hold d
         then update_where (active_ncr_hold i) (hold_release actor now) (t_holds s) else t_holds s)"
    by (rule disposition_ncr_effect) simp
  have fields: "nc_id n = i" "nc_status n = ncr_as_str NcrDispositioned"
    "nc_disposition n = Some (disposition_as_str d)"
    using n0 by (auto simp: find_Some_iff ncr_is_open_def ncr_dispose_def ncr_as_str_def)
  have others: "filter (\<lambda>h. hd_ncr_id h \<noteq> Some i) (t_holds s') = filter (\<lambda>h. hd_ncr_id h \<noteq> Some i) (t_holds s)"
    by (auto simp: s' active_ncr_hold_def hold_release_def intro!: filter_update_disjoint)
  have released: "if d \<in> {Rework, UseAsIs} then \<not> list_ex (active_ncr_hold i) (t_holds s')
      else t_holds s' = t_holds s"
    by (cases d) (auto simp: s' releases_hold_def list_ex_iff active_ncr_hold_def hold_release_def
        dest!: update_where_none [rotated])
  have "find (ncr_is_open i) (t_ncrs s') = None"
    unfolding s' find_None_iff
    by (auto simp: ncr_is_open_def ncr_dispose_def dest!: update_where_none [rotated])
  then have "disposition_ncr now' i d' reason' actor' s' = (Inl NotFound, s')" for now' d' reason' actor'
    by (simp add: disposition_ncr_def prog_simps)
  with fields others released n0 show ?thesis by (simp add: Inr)
qed

text \<open>
  Report numbers can collide.  The number is cut from the first ten characters of the
  report's identifier, which are its millisecond clock reading; when another report already has an
  identifier with the same first ten characters, recording a failing measurement is refused and
  neither the measurement nor a hold is stored.
\<close>

theorem ncr_number_collision:
  assumes "find_row ch_id c (t_characteristics s) = Some ch"
    and "\<not> in_limits v (ch_lower_limit ch) (ch_upper_limit ch)"
    and "n \<in> set (t_ncrs s)" "nc_no n = ncr_number (nc_id n)" "take 10 (nc_id n) = take 10 (ids 1)"
  shows "\<exists>e. record_result ids now c lot serial wop v who s = (Inl e, s)"
proof -
  obtain res s' where run: "record_result ids now c lot serial wop v who s = (res, s')" by fastforce
  show ?thesis
  proof (cases res)
    case (Inl e)
    with run show ?thesis
      by (auto simp: record_result_def prog_simps Let_def split: option.splits prod.splits sum.splits)
  next
    case (Inr x)
    have dup: "has_key nc_no (ncr_number (ids 1)) (t_ncrs s)"
      using assms(3-5) by (force simp: has_key_def ncr_number_def image_iff)
    let ?r = "\<lparr>ir_id = ids 0, ir_characteristic_id = c, ir_lot_id = lot, ir_serial_id = serial,
       ir_wo_operation_id = wop, ir_measured_value = v, ir_result = outcome_as_str Fail,
       ir_inspected_by = Some who, ir_created_at = now\<rparr>"
    from run Inr assms(1,2) obtain s1 nn where
      ins: "insert_result ?r s = (Inr (), s1)" and
      raised: "raise_ncr ids now lot serial who s1 = (Inr nn, s')"
      by (auto simp: record_result_def evaluate_in_limits andThen_eval gets_eval okOr_eval Let_def
          transaction_eval ret_eval split: prod.splits sum.splits)
    from ins have "t_ncrs s1 = t_ncrs s"
      by (auto simp: insert_result_def dest!: sql_exec_InrD)
    with raised dup show ?thesis
      by (auto simp: raise_ncr_def Let_def insert_ncr_def new_ncr_def elim!: andThen_InrE
          dest!: sql_exec_InrD gets_InrD)
  qed
qed

section \<open>Examples\<close>

definition sample_ncr :: ncr_row where
  "sample_ncr = new_ncr ''0123456789AAAA'' 3 ''I0'' None None None"

definition sample_qms :: qms_db where
  "sample_qms = trace_db.extend (sample_trace\<lparr>t_ncrs := [sample_ncr]\<rparr>)
     \<lparr>t_inspection_plans = [],
      t_characteristics = [\<lparr>ch_id = ''K1'', ch_plan_id = ''IP'', ch_name = ''bore'', ch_uom = None,
        ch_nominal = Some 10, ch_lower_limit = Some 9, ch_upper_limit = Some 11\<rparr>],
      t_inspection_results = []\<rparr>"

lemmas sample_defs = sample_qms_def sample_trace_def sample_dnc_defs sample_ncr_def trace_db.defs new_ncr_def ncr_number_def

theorem quarantine_witness:
  "\<exists>s'. quality_run [Neutral] sample_qms s' \<and> held s' (''lot'', ''L1'') \<and>
     filter (concerns (''lot'', ''L1'')) (t_material_txns s') = []"
proof -
  let ?s' = "snd (issue_material_handler ''T1'' 5 \<lparr>user_id = ''U1'', role = ''Operator''\<rparr>
    (Some ''L1'') None 2 None sample_qms)"
  let ?h = "hd (t_holds sample_qms)"
  have run: "quality_run [Neutral] sample_qms ?s'"
    by (rule run_step [OF quality_step.intros(4) run_nil])
  have h: "?h \<in> set (t_holds sample_qms)" "hd_status ?h = ''active''" "hd_entity ?h = (''lot'', ''L1'')"
    by (simp_all add: sample_defs)
  have "\<forall>l\<in>set [Neutral]. \<not> lifts ?h l" by (simp add: lifts_def)
  from quarantine [OF run h(1,2) this] run h(3) show ?thesis
    by (auto simp: sample_defs)
qed

definition sample_ids :: "nat \<Rightarrow> string" where
  "sample_ids n = ''7777777777'' @ replicate n CHR ''x''"

theorem record_result_correct_witness:
  "\<exists>r n h s'. record_result sample_ids 5 ''K1'' (Some ''L1'') None None 12 ''U1'' (sample_qms\<lparr>t_holds := []\<rparr>) = (Inr (r, Some n), s') \<and>
     ir_result r = ''fail'' \<and> nc_status n = ''open'' \<and> t_holds s' = [h] \<and> hd_entity h = (''lot'', ''L1'') \<and> hd_ncr_id h = Some (nc_id n)"
proof -
  obtain r n s' where run: "record_result sample_ids 5 ''K1'' (Some ''L1'') None None 12 ''U1'' (sample_qms\<lparr>t_holds := []\<rparr>)
      = (Inr (r, Some n), s')"
    by (simp add: record_result_def raise_ncr_def insert_result_def insert_ncr_def ncr_hold_def
        insert_hold_def new_hold_def prog_simps sample_defs sample_ids_def table_simps missing_ref_def
        Let_def evaluate_def)
  show ?thesis
    using record_result_correct [OF run] run
    by (auto simp: sample_defs table_simps in_limits_def ncr_as_str_def)
qed

theorem disposition_ncr_correct_witness:
  "\<exists>n s'. disposition_ncr 9 ''0123456789AAAA'' Rework None ''U1'' sample_qms = (Inr n, s') \<and>
     nc_disposition n = Some ''rework'' \<and>
     disposition_ncr 10 ''0123456789AAAA'' Scrap None ''U1'' s' = (Inl NotFound, s')"
proof -
  obtain n s' where run: "disposition_ncr 9 ''0123456789AAAA'' Rework None ''U1'' sample_qms = (Inr n, s')"
    by (simp add: disposition_ncr_def prog_simps sample_defs table_simps ncr_is_open_def
        releases_hold_def)
  show ?thesis
    using disposition_ncr_correct [OF run] run by (simp add: disposition_as_str_def)
qed

theorem ncr_number_collision_witness:
  "\<exists>e. record_result (\<lambda>k. ''0123456789BBB'' @ replicate k CHR ''x'') 5 ''K1'' (Some ''L1'') None None 12 ''U1'' sample_qms
     = (Inl e, sample_qms)"
  by (rule ncr_number_collision [where n = sample_ncr and ch = "hd (t_characteristics sample_qms)"])
    (simp_all add: sample_defs table_simps in_limits_def)

end
