(* ===== verification/Sync.thy ===== *)
theory Sync
  imports Orders
begin

text \<open>
  Synchronisation between plants and the cloud: the outbox, the idempotent apply, tenants and
  remote commands of \<^verbatim>\<open>mes-db/src/repo_sync.rs\<close> and the cloud handlers of \<^verbatim>\<open>mes-cloud/src/sync.rs\<close>.
  The digest function, the token generator and the readers of decimals, instants and integers in
  payloads are parameters.
\<close>

section \<open>Rows\<close>

record sync_entry =
  en_id :: string
  en_aggregate :: string
  en_entity_id :: string
  en_op :: string
  en_payload :: json

record applied_row =
  ap_id :: string
  ap_applied_at :: timestamp

record org_row =
  og_id :: string
  og_code :: string
  og_name :: string
  og_created_at :: timestamp
  og_updated_at :: timestamp

record plant_row =
  pl_id :: string
  pl_org_id :: string
  pl_code :: string
  pl_name :: string
  pl_enrollment_token_hash :: "string option"
  pl_enrolled_at :: "timestamp option"
  pl_last_sync_at :: "timestamp option"
  pl_created_at :: timestamp
  pl_updated_at :: timestamp

record plant_summary =
  psm_id :: string
  psm_org_id :: string
  psm_code :: string
  psm_name :: string
  psm_enrolled :: bool
  psm_last_sync_at :: "timestamp option"

record sync_db = orders_db +
  admin_token :: "string option"
  t_applied_entries :: "applied_row list"
  t_orgs :: "org_row list"
  t_plants :: "plant_row list"

definition MAX_BATCH :: nat where
  "MAX_BATCH = 500"

section \<open>Tokens\<close>

definition hex_digit :: "nat \<Rightarrow> char" where
  "hex_digit n = (if n < 10 then char_of (48 + n) else char_of (87 + n))"

definition hex :: "nat list \<Rightarrow> string" where
  "hex bytes = concat (map (\<lambda>b. [hex_digit (b div 16), hex_digit (b mod 16)]) bytes)"

definition hash_token :: "(string \<Rightarrow> nat list) \<Rightarrow> string \<Rightarrow> string" where
  "hash_token sha256 token = hex (sha256 token)"

section \<open>Outbox\<close>

definition entry_of_row :: "outbox_row \<Rightarrow> sync_entry" where
  "entry_of_row r =
     \<lparr>en_id = ob_id r, en_aggregate = ob_aggregate r, en_entity_id = ob_entity_id r,
      en_op = ob_op r, en_payload = ob_payload r\<rparr>"

text \<open>The oldest rows first; the database refuses a negative row limit.\<close>

definition fetch_outbox ::
  "(outbox_row \<Rightarrow> bool) \<Rightarrow> int \<Rightarrow> ('s mes_base_scheme, repo_error, sync_entry list) prog" where
  "fetch_outbox P limit =
     andThen (guard (limit \<ge> 0) (map_sqlx (SqlState ''2201W'' ''LIMIT must not be negative''))) (\<lambda>_.
     gets (\<lambda>s. map entry_of_row (take (nat limit) (sort_key ob_created_at (filter P (t_outbox s))))))"

definition fetch_to_cloud :: "int \<Rightarrow> ('s mes_base_scheme, repo_error, sync_entry list) prog" where
  "fetch_to_cloud limit = fetch_outbox (\<lambda>r. ob_destination r = None \<and> ob_synced_at r = None) limit"

definition pull_for_plant :: "string \<Rightarrow> int \<Rightarrow> ('s mes_base_scheme, repo_error, sync_entry list) prog" where
  "pull_for_plant plant_id limit =
     fetch_outbox (\<lambda>r. ob_destination r = Some plant_id \<and> ob_synced_at r = None) limit"

definition ob_sync :: "timestamp \<Rightarrow> outbox_row \<Rightarrow> outbox_row" where
  "ob_sync now r = r\<lparr>ob_synced_at := Some now\<rparr>"

definition mark_synced :: "timestamp \<Rightarrow> string list \<Rightarrow> ('s mes_base_scheme, repo_error, nat) prog" where
  "mark_synced now ids =
     (if ids = [] then ret 0
      else andThen (gets (\<lambda>s. length (filter (\<lambda>r. ob_id r \<in> set ids) (t_outbox s)))) (\<lambda>n.
           andThen (modify (\<lambda>s. s\<lparr>t_outbox :=
                      update_where (\<lambda>r. ob_id r \<in> set ids) (ob_sync now) (t_outbox s)\<rparr>)) (\<lambda>_.
           ret n)))"

section \<open>Idempotent apply\<close>

record wo_payload =
  wp_id :: string
  wp_wo_number :: string
  wp_part_id :: string
  wp_routing_id :: "string option"
  wp_qty_ordered :: rat
  wp_priority :: int
  wp_status :: string
  wp_planned_start :: "timestamp option"
  wp_planned_end :: "timestamp option"

definition default_priority :: int where
  "default_priority = 100"

definition draft :: string where
  "draft = ''draft''"

text \<open>
  The derived reader of a payload.  Members are looked up by name in an object, or by position in
  an array, which must then have one element per member; an optional member may be null, and in an
  object also absent; a member with a default may be absent in an object.
\<close>

definition read_opt :: "(json \<Rightarrow> 'a option) \<Rightarrow> json option \<Rightarrow> 'a option option" where
  "read_opt f m = (case m of None \<Rightarrow> Some None | Some JNull \<Rightarrow> Some None | Some v \<Rightarrow> map_option Some (f v))"

definition read_default :: "'a \<Rightarrow> (json \<Rightarrow> 'a option) \<Rightarrow> json option \<Rightarrow> 'a option" where
  "read_default d f m = (case m of None \<Rightarrow> Some d | Some v \<Rightarrow> f v)"

definition wo_members :: "string list" where
  "wo_members = [''id'', ''wo_number'', ''part_id'', ''routing_id'', ''qty_ordered'', ''priority'',
     ''status'', ''planned_start'', ''planned_end'']"

definition wo_payload_of_members :: "wire \<Rightarrow> (string \<Rightarrow> json option) \<Rightarrow> wo_payload option" where
  "wo_payload_of_members w m =
     (case (Option.bind (m ''id'') json_as_str, Option.bind (m ''wo_number'') json_as_str,
            Option.bind (m ''part_id'') json_as_str, read_opt json_as_str (m ''routing_id''),
            Option.bind (m ''qty_ordered'') (dec_of_json w),
            read_default default_priority (i32_of_json w) (m ''priority''),
            read_default draft json_as_str (m ''status''),
            read_opt (ts_of_json w) (m ''planned_start''), read_opt (ts_of_json w) (m ''planned_end'')) of
        (Some i, Some n, Some p, Some r, Some q, Some pr, Some st, Some ps, Some pe) \<Rightarrow>
          Some \<lparr>wp_id = i, wp_wo_number = n, wp_part_id = p, wp_routing_id = r, wp_qty_ordered = q,
                wp_priority = pr, wp_status = st, wp_planned_start = ps, wp_planned_end = pe\<rparr>
      | _ \<Rightarrow> None)"

definition wo_payload_of_json :: "wire \<Rightarrow> json \<Rightarrow> wo_payload option" where
  "wo_payload_of_json w v =
     (case v of
        JObj _ \<Rightarrow> wo_payload_of_members w (json_get v)
      | JArr vs \<Rightarrow>
          if length vs = length wo_members then wo_payload_of_members w (map_of (zip wo_members vs))
          else None
      | _ \<Rightarrow> None)"

definition wo_of_payload :: "timestamp \<Rightarrow> string option \<Rightarrow> wo_payload \<Rightarrow> work_order_row" where
  "wo_of_payload now plant_id p =
     \<lparr>wo_id = wp_id p, wo_number = wp_wo_number p, wo_part_id = wp_part_id p,
      wo_routing_id = wp_routing_id p, wo_qty_ordered = wp_qty_ordered p, wo_priority = wp_priority p,
      wo_st = wp_status p, wo_planned_start = wp_planned_start p, wo_planned_end = wp_planned_end p,
      wo_plant_id = plant_id, wo_created_at = now, wo_updated_at = now\<rparr>"

text \<open>The conflict branch of the upsert keeps part, routing and creation time of the stored row.\<close>

definition wo_overwrite :: "timestamp \<Rightarrow> string option \<Rightarrow> wo_payload \<Rightarrow> work_order_row \<Rightarrow> work_order_row" where
  "wo_overwrite now plant_id p r =
     r\<lparr>wo_number := wp_wo_number p, wo_qty_ordered := wp_qty_ordered p, wo_priority := wp_priority p,
       wo_st := wp_status p, wo_planned_start := wp_planned_start p, wo_planned_end := wp_planned_end p,
       wo_plant_id := (case plant_id of None \<Rightarrow> wo_plant_id r | Some x \<Rightarrow> Some x),
       wo_updated_at := now\<rparr>"

definition upsert_work_order ::
  "timestamp \<Rightarrow> string option \<Rightarrow> wo_payload \<Rightarrow> ('s orders_db_scheme, repo_error, unit) prog" where
  "upsert_work_order now plant_id p =
     (\<lambda>s. if has_key wo_id (wp_id p) (t_work_orders s)
          then sql_exec
                 (\<lambda>s. [(has_key wo_number (wp_wo_number p)
                           (filter (\<lambda>r. wo_id r \<noteq> wp_id p) (t_work_orders s)),
                         dup_key ''work_orders_wo_number_key'')])
                 (\<lambda>s. s\<lparr>t_work_orders :=
                        update_where (\<lambda>r. wo_id r = wp_id p) (wo_overwrite now plant_id p) (t_work_orders s)\<rparr>) s
          else insert_work_order (wo_of_payload now plant_id p) s)"

definition apply_work_order ::
  "wire \<Rightarrow> timestamp \<Rightarrow> json \<Rightarrow> string option \<Rightarrow> ('s orders_db_scheme, repo_error, unit) prog" where
  "apply_work_order w now payload plant_id =
     andThen (okOr (InvalidReference (''bad work_order payload: '' @ de_error w payload))
                (wo_payload_of_json w payload)) (\<lambda>p.
     upsert_work_order now plant_id p)"

definition apply_entry ::
  "wire \<Rightarrow> timestamp \<Rightarrow> sync_entry \<Rightarrow> string option \<Rightarrow> ('s sync_db_scheme, repo_error, bool) prog" where
  "apply_entry w now entry plant_id =
     transaction
       (andThen (gets (\<lambda>s. has_key ap_id (en_id entry) (t_applied_entries s))) (\<lambda>already.
        if already then ret False
        else andThen (modify (\<lambda>s. s\<lparr>t_applied_entries :=
                        t_applied_entries s @ [\<lparr>ap_id = en_id entry, ap_applied_at = now\<rparr>]\<rparr>)) (\<lambda>_.
             andThen (if en_aggregate entry = ''work_order''
                      then apply_work_order w now (en_payload entry) plant_id else ret ()) (\<lambda>_.
             ret True))))"

fun apply_batch ::
  "wire \<Rightarrow> timestamp \<Rightarrow> sync_entry list \<Rightarrow> string option \<Rightarrow> nat \<Rightarrow> nat
    \<Rightarrow> ('s sync_db_scheme, repo_error, nat \<times> nat) prog" where
  "apply_batch w now [] plant_id applied skipped = ret (applied, skipped)"
| "apply_batch w now (e # es) plant_id applied skipped =
     andThen (apply_entry w now e plant_id) (\<lambda>fresh.
     if fresh then apply_batch w now es plant_id (Suc applied) skipped
     else apply_batch w now es plant_id applied (Suc skipped))"

section \<open>Tenants\<close>

definition create_org ::
  "string \<Rightarrow> timestamp \<Rightarrow> string \<Rightarrow> string \<Rightarrow> ('s sync_db_scheme, repo_error, org_row) prog" where
  "create_org nid now code name =
     (let r = \<lparr>og_id = nid, og_code = code, og_name = name, og_created_at = now, og_updated_at = now\<rparr>
      in andThen
           (sql_exec (\<lambda>s. [(has_key og_id nid (t_orgs s), dup_key ''orgs_pkey''),
                           (has_key og_code code (t_orgs s), dup_key ''orgs_code_key'')])
              (\<lambda>s. s\<lparr>t_orgs := t_orgs s @ [r]\<rparr>))
           (\<lambda>_. ret r))"

text \<open>Two identifiers are drawn: the plant's and the one behind the token.\<close>

definition enroll_plant ::
  "(string \<Rightarrow> nat list) \<Rightarrow> string \<Rightarrow> string \<Rightarrow> timestamp \<Rightarrow> string \<Rightarrow> string \<Rightarrow> string
    \<Rightarrow> ('s sync_db_scheme, repo_error, string \<times> string) prog" where
  "enroll_plant sha256 nid secret now org_id code name =
     (let token = ''plant_'' @ secret in
      andThen
        (sql_exec
           (\<lambda>s. [(has_key pl_id nid (t_plants s), dup_key ''plants_pkey''),
                 (has_key (\<lambda>r. (pl_org_id r, pl_code r)) (org_id, code) (t_plants s),
                  dup_key ''plants_org_id_code_key''),
                 (\<not> has_key og_id org_id (t_orgs s), bad_ref ''plants'' ''plants_org_id_fkey'')])
           (\<lambda>s. s\<lparr>t_plants := t_plants s @
                  [\<lparr>pl_id = nid, pl_org_id = org_id, pl_code = code, pl_name = name,
                    pl_enrollment_token_hash = Some (hash_token sha256 token), pl_enrolled_at = Some now,
                    pl_last_sync_at = None, pl_created_at = now, pl_updated_at = now\<rparr>]\<rparr>))
        (\<lambda>_. ret (nid, token)))"

definition resolve_tenant_by_token ::
  "(string \<Rightarrow> nat list) \<Rightarrow> string \<Rightarrow> ('s sync_db_scheme, repo_error, (string \<times> string) option) prog" where
  "resolve_tenant_by_token sha256 token =
     gets (\<lambda>s. map_option (\<lambda>r. (pl_id r, pl_org_id r))
                 (find_row pl_enrollment_token_hash (Some (hash_token sha256 token)) (t_plants s)))"

definition verify_plant_token ::
  "(string \<Rightarrow> nat list) \<Rightarrow> string \<Rightarrow> string \<Rightarrow> ('s sync_db_scheme, repo_error, bool) prog" where
  "verify_plant_token sha256 plant_id token =
     gets (\<lambda>s. case find_row pl_id plant_id (t_plants s) of
            None \<Rightarrow> False
          | Some r \<Rightarrow> (case pl_enrollment_token_hash r of
                        None \<Rightarrow> False
                      | Some h \<Rightarrow> h = hash_token sha256 token))"

definition pl_touch :: "timestamp \<Rightarrow> plant_row \<Rightarrow> plant_row" where
  "pl_touch now r = r\<lparr>pl_last_sync_at := Some now, pl_updated_at := now\<rparr>"

definition touch_plant_sync :: "timestamp \<Rightarrow> string \<Rightarrow> ('s sync_db_scheme, repo_error, unit) prog" where
  "touch_plant_sync now plant_id =
     modify (\<lambda>s. s\<lparr>t_plants := update_where (\<lambda>r. pl_id r = plant_id) (pl_touch now) (t_plants s)\<rparr>)"

definition list_plants :: "('s sync_db_scheme, repo_error, plant_summary list) prog" where
  "list_plants =
     gets (\<lambda>s. map (\<lambda>r. \<lparr>psm_id = pl_id r, psm_org_id = pl_org_id r, psm_code = pl_code r,
                         psm_name = pl_name r, psm_enrolled = (pl_enrollment_token_hash r \<noteq> None),
                         psm_last_sync_at = pl_last_sync_at r\<rparr>)
                (sort_key pl_created_at (t_plants s)))"

section \<open>Remote commands\<close>

definition remote_payload :: "wire \<Rightarrow> string \<Rightarrow> string \<Rightarrow> string \<Rightarrow> rat \<Rightarrow> int option \<Rightarrow> json" where
  "remote_payload w wo number part_id qty priority =
     json_object
       [(''id'', JStr wo), (''wo_number'', JStr number), (''part_id'', JStr part_id),
        (''qty_ordered'', dec_to_json w qty), (''priority'', JNum (of_int (unwrap_or 100 priority))),
        (''status'', JStr ''draft'')]"

definition remote_order :: "string \<Rightarrow> timestamp \<Rightarrow> string \<Rightarrow> string \<Rightarrow> string \<Rightarrow> rat \<Rightarrow> int option \<Rightarrow> work_order_row" where
  "remote_order nid now plant_id number part_id qty priority =
     \<lparr>wo_id = nid, wo_number = number, wo_part_id = part_id, wo_routing_id = None,
      wo_qty_ordered = qty, wo_priority = unwrap_or 100 priority, wo_st = ''draft'',
      wo_planned_start = None, wo_planned_end = None, wo_plant_id = Some plant_id,
      wo_created_at = now, wo_updated_at = now\<rparr>"

definition create_remote_work_order ::
  "wire \<Rightarrow> string \<Rightarrow> string \<Rightarrow> timestamp \<Rightarrow> string \<Rightarrow> string \<Rightarrow> string \<Rightarrow> rat \<Rightarrow> int option
    \<Rightarrow> ('s orders_db_scheme, repo_error, string) prog" where
  "create_remote_work_order w nid eid now plant_id number part_id qty priority =
     transaction
       (andThen (insert_work_order (remote_order nid now plant_id number part_id qty priority)) (\<lambda>_.
        andThen (enqueue eid now ''work_order'' nid ''upsert''
                   (remote_payload w nid number part_id qty priority) (Some plant_id)) (\<lambda>_.
        ret nid)))"

section \<open>Handlers of \<^verbatim>\<open>/v1/sync\<close>\<close>

text \<open>The header argument is the authorization header's text, when there is one.\<close>

definition bearer :: "string option \<Rightarrow> string option" where
  "bearer header = Option.bind header (strip_prefix ''Bearer '')"

definition require_admin :: "string option \<Rightarrow> ('s sync_db_scheme, api_err, unit) prog" where
  "require_admin header =
     andThen (gets admin_token) (\<lambda>t.
     (case t of
        None \<Rightarrow> ret ()
      | Some expected \<Rightarrow> guard (bearer header = Some expected) (ApiErr 401 ''unauthorized'' ''admin token required'')))"

definition require_plant ::
  "(string \<Rightarrow> nat list) \<Rightarrow> string option \<Rightarrow> string \<Rightarrow> ('s sync_db_scheme, api_err, unit) prog" where
  "require_plant sha256 header plant_id =
     andThen require_pool (\<lambda>_.
     andThen (okOr (ApiErr 401 ''unauthorized'' ''missing plant token'') (bearer header)) (\<lambda>token.
     andThen (mapErr repo_err (verify_plant_token sha256 plant_id token)) (\<lambda>ok.
     guard ok (ApiErr 401 ''unauthorized'' ''invalid plant token''))))"

definition create_org_handler ::
  "string \<Rightarrow> timestamp \<Rightarrow> string option \<Rightarrow> string \<Rightarrow> string \<Rightarrow> ('s sync_db_scheme, api_err, nat \<times> org_row) prog" where
  "create_org_handler nid now header code name =
     andThen (require_admin header) (\<lambda>_.
     andThen require_pool (\<lambda>_.
     andThen (mapErr repo_err (create_org nid now code name)) (\<lambda>org.
     ret (201, org))))"

definition enroll_plant_handler ::
  "(string \<Rightarrow> nat list) \<Rightarrow> string \<Rightarrow> string \<Rightarrow> timestamp \<Rightarrow> string option \<Rightarrow> string \<Rightarrow> string \<Rightarrow> string
    \<Rightarrow> ('s sync_db_scheme, api_err, nat \<times> string \<times> string) prog" where
  "enroll_plant_handler sha256 nid secret now header org_id code name =
     andThen (require_admin header) (\<lambda>_.
     andThen require_pool (\<lambda>_.
     andThen (mapErr repo_err (enroll_plant sha256 nid secret now org_id code name)) (\<lambda>r.
     ret (201, r))))"

definition list_plants_handler :: "('s sync_db_scheme, api_err, plant_summary list) prog" where
  "list_plants_handler = andThen require_pool (\<lambda>_. mapErr repo_err list_plants)"

definition remote_work_order ::
  "wire \<Rightarrow> string \<Rightarrow> string \<Rightarrow> timestamp \<Rightarrow> string option \<Rightarrow> string \<Rightarrow> string \<Rightarrow> string \<Rightarrow> rat \<Rightarrow> int option
    \<Rightarrow> ('s sync_db_scheme, api_err, nat \<times> string) prog" where
  "remote_work_order w nid eid now header plant_id number part_id qty priority =
     andThen (require_admin header) (\<lambda>_.
     andThen require_pool (\<lambda>_.
     andThen (mapErr repo_err (create_remote_work_order w nid eid now plant_id number part_id qty priority)) (\<lambda>wo.
     ret (201, wo))))"

definition push ::
  "wire \<Rightarrow> (string \<Rightarrow> nat list) \<Rightarrow> timestamp \<Rightarrow> string option \<Rightarrow> string \<Rightarrow> sync_entry list
    \<Rightarrow> ('s sync_db_scheme, api_err, nat \<times> nat) prog" where
  "push w sha256 now header plant_id entries =
     andThen (require_plant sha256 header plant_id) (\<lambda>_.
     andThen (guard (length entries \<le> MAX_BATCH)
                (ApiErr 400 ''batch_too_large'' ''batch exceeds 500 entries'')) (\<lambda>_.
     andThen require_pool (\<lambda>_.
     andThen (mapErr repo_err (apply_batch w now entries (Some plant_id) 0 0)) (\<lambda>counts.
     andThen (mapErr repo_err (touch_plant_sync now plant_id)) (\<lambda>_.
     ret counts)))))"

definition pull ::
  "(string \<Rightarrow> nat list) \<Rightarrow> string option \<Rightarrow> string \<Rightarrow> int option \<Rightarrow> ('s sync_db_scheme, api_err, sync_entry list) prog" where
  "pull sha256 header plant_id limit =
     andThen (require_plant sha256 header plant_id) (\<lambda>_.
     andThen require_pool (\<lambda>_.
     mapErr repo_err (pull_for_plant plant_id (min (unwrap_or (int MAX_BATCH) limit) (int MAX_BATCH)))))"

definition ack ::
  "(string \<Rightarrow> nat list) \<Rightarrow> timestamp \<Rightarrow> string option \<Rightarrow> string \<Rightarrow> string list \<Rightarrow> ('s sync_db_scheme, api_err, nat) prog" where
  "ack sha256 now header plant_id ids =
     andThen (require_plant sha256 header plant_id) (\<lambda>_.
     andThen require_pool (\<lambda>_.
     andThen (mapErr repo_err (mark_synced now ids)) (\<lambda>_.
     ret 204)))"

section \<open>Applied entries\<close>

definition applied_ids :: "'s sync_db_scheme \<Rightarrow> string set" where
  "applied_ids s = ap_id ` set (t_applied_entries s)"

lemma upsert_keeps_applied:
  "preserves (\<lambda>s :: 's sync_db_scheme. t_applied_entries s = X) (upsert_work_order now pid p)"
  by (auto simp: preserves_def upsert_work_order_def insert_work_order_def sql_exec_eval split: option.split)

lemma apply_work_order_keeps_applied:
  "preserves (\<lambda>s :: 's sync_db_scheme. t_applied_entries s = X) (apply_work_order w now v pid)"
  unfolding apply_work_order_def by (intro preserves_rules upsert_keeps_applied)

lemma apply_entry_skip:
  "en_id e \<in> applied_ids s \<Longrightarrow> apply_entry w now e pid s = (Inr False, s)"
  by (simp add: apply_entry_def prog_simps has_key_def applied_ids_def)

lemma apply_entry_cases:
  obtains err where "en_id e \<notin> applied_ids s" "apply_entry w now e pid s = (Inl err, s)"
  | "en_id e \<in> applied_ids s" "apply_entry w now e pid s = (Inr False, s)"
  | s' where "en_id e \<notin> applied_ids s" "apply_entry w now e pid s = (Inr True, s')"
      "applied_ids s' = insert (en_id e) (applied_ids s)"
proof (cases "en_id e \<in> applied_ids s")
  case True
  with apply_entry_skip [OF True] that(2) show thesis by simp
next
  case False
  let ?s1 = "s\<lparr>t_applied_entries := t_applied_entries s @ [\<lparr>ap_id = en_id e, ap_applied_at = now\<rparr>]\<rparr>"
  let ?m = "if en_aggregate e = ''work_order'' then apply_work_order w now (en_payload e) pid else ret ()"
  obtain r s' where m: "?m ?s1 = (r, s')" by fastforce
  have "preserves (\<lambda>s. t_applied_entries s = t_applied_entries ?s1) ?m"
    by (intro preserves_if apply_work_order_keeps_applied preserves_ret)
  from preserves_runD [OF this _ m] have ids: "applied_ids s' = insert (en_id e) (applied_ids s)"
    by (simp add: applied_ids_def)
  have eq: "apply_entry w now e pid s = (case r of Inl err \<Rightarrow> (Inl err, s) | Inr _ \<Rightarrow> (Inr True, s'))"
    using False m
    by (simp add: apply_entry_def prog_simps has_key_def applied_ids_def split: sum.split)
  show thesis
    by (cases r) (use eq False ids that in \<open>simp_all\<close>)
qed

lemma apply_entry_success:
  "apply_entry w now e pid s = (Inr b, s') \<Longrightarrow>
     applied_ids s' = insert (en_id e) (applied_ids s) \<and> b = (en_id e \<notin> applied_ids s)"
  by (rule apply_entry_cases [of e s w now pid]) auto

lemma apply_entry_error: "apply_entry w now e pid s = (Inl err, s') \<Longrightarrow> s' = s"
  unfolding apply_entry_def by (rule transaction_error_state)

lemma apply_batch_success:
  "apply_batch w now es pid a k s = (Inr (a', k'), s') \<Longrightarrow>
     applied_ids s' = en_id ` set es \<union> applied_ids s \<and>
     a' = a + card (en_id ` set es - applied_ids s) \<and> a' + k' = a + k + length es"
proof (induction es arbitrary: a k s)
  case (Cons e es)
  from Cons.prems obtain b s1 where e: "apply_entry w now e pid s = (Inr b, s1)"
    and rest: "(if b then apply_batch w now es pid (Suc a) k else apply_batch w now es pid a (Suc k)) s1
      = (Inr (a', k'), s')"
    by (auto elim: andThen_InrE)
  from apply_entry_success [OF e] have s1: "applied_ids s1 = insert (en_id e) (applied_ids s)"
    and b: "b = (en_id e \<notin> applied_ids s)" by simp_all
  have "en_id ` set (e # es) - applied_ids s =
      (if b then insert (en_id e) (en_id ` set es - applied_ids s1) else en_id ` set es - applied_ids s1)"
    by (auto simp: s1 b)
  then have "card (en_id ` set (e # es) - applied_ids s) =
      (if b then Suc (card (en_id ` set es - applied_ids s1)) else card (en_id ` set es - applied_ids s1))"
    by (simp add: s1)
  with rest Cons.IH [of "Suc a" k s1] Cons.IH [of a "Suc k" s1] show ?case
    by (auto simp: s1 split: if_splits)
qed (auto dest: ret_InrD)

lemma apply_batch_replay:
  "en_id ` set es \<subseteq> applied_ids s \<Longrightarrow> apply_batch w now es pid a k s = (Inr (a, k + length es), s)"
  by (induction es arbitrary: k) (simp_all add: ret_eval andThen_eval apply_entry_skip)

lemma apply_batch_append:
  "apply_batch w now (xs @ ys) pid a k s =
     andThen (apply_batch w now xs pid a k) (\<lambda>(a', k'). apply_batch w now ys pid a' k') s"
  by (induction xs arbitrary: a k s) (simp_all add: prog_simps split: prod.split sum.split)

lemma apply_batch_error:
  "apply_batch w now es pid a k s = (Inl err, s') \<Longrightarrow>
     \<exists>xs y ys a' k'. es = xs @ y # ys \<and> apply_batch w now xs pid a k s = (Inr (a', k'), s') \<and>
       apply_entry w now y pid s' = (Inl err, s')"
proof (induction es arbitrary: a k s)
  case (Cons e es)
  show ?case
  proof (cases "fst (apply_entry w now e pid s)")
    case (Inl err')
    then obtain s1 where e: "apply_entry w now e pid s = (Inl err', s1)" by (metis prod.collapse)
    from apply_entry_error [OF e] e Cons.prems have "apply_entry w now e pid s = (Inl err, s)" "s' = s"
      by (auto simp: andThen_eval)
    then show ?thesis by (intro exI [of _ "[]"]) (auto simp: ret_eval)
  next
    case (Inr b)
    then obtain s1 where e: "apply_entry w now e pid s = (Inr b, s1)" by (metis prod.collapse)
    obtain a1 k1 where ak: "(a1, k1) = (if b then (Suc a, k) else (a, Suc k))" by (cases b) auto
    with Cons.prems e have "apply_batch w now es pid a1 k1 s1 = (Inl err, s')"
      by (auto simp: andThen_eval split: if_splits)
    from Cons.IH [OF this] obtain xs y ys a' k' where "es = xs @ y # ys"
      "apply_batch w now xs pid a1 k1 s1 = (Inr (a', k'), s')" "apply_entry w now y pid s' = (Inl err, s')"
      by blast
    with e ak have "e # es = (e # xs) @ y # ys" "apply_batch w now (e # xs) pid a k s = (Inr (a', k'), s')"
      by (auto simp: andThen_eval split: if_splits)
    with \<open>apply_entry w now y pid s' = (Inl err, s')\<close> show ?thesis by blast
  qed
qed (auto simp: ret_eval)

section \<open>Runs of the cloud\<close>

datatype cloud_label = AckOf "string list" | OtherRequest

inductive cloud_step :: "cloud_label \<Rightarrow> 's sync_db_scheme \<Rightarrow> 's sync_db_scheme \<Rightarrow> bool" where
  "cloud_step OtherRequest s (snd (create_org_handler nid now h code name s))"
| "cloud_step OtherRequest s (snd (enroll_plant_handler sha nid secret now h org code name s))"
| "cloud_step OtherRequest s (snd (remote_work_order w nid eid now h p number part qty prio s))"
| "cloud_step OtherRequest s (snd (push w sha now h p es s))"
| "cloud_step (AckOf ids) s (snd (ack sha now h p ids s))"

inductive cloud_run :: "cloud_label list \<Rightarrow> 's sync_db_scheme \<Rightarrow> 's sync_db_scheme \<Rightarrow> bool" where
  cloud_nil: "cloud_run [] s s"
| cloud_cons: "cloud_step l s s' \<Longrightarrow> cloud_run ls s' s'' \<Longrightarrow> cloud_run (l # ls) s s''"

lemma preserves_require_admin: "preserves I (require_admin h)"
  unfolding require_admin_def
  by (rule preserves_andThen [OF preserves_gets]) (simp add: preserves_rules split: option.split)

lemma preserves_require_plant: "preserves I (require_plant sha h p)"
  unfolding require_plant_def verify_plant_token_def by (intro preserves_rules)

lemmas sync_gates = preserves_require_admin preserves_require_plant

text \<open>
  A predicate on the applied entries and the outbox is kept by every statement that touches neither.
\<close>

definition about_feed :: "('s sync_db_scheme \<Rightarrow> bool) \<Rightarrow> bool" where
  "about_feed I \<longleftrightarrow>
     (\<forall>s s'. t_applied_entries s' = t_applied_entries s \<and> t_outbox s' = t_outbox s \<longrightarrow> I s' = I s)"

lemma about_feedD:
  "about_feed I \<Longrightarrow> t_applied_entries s' = t_applied_entries s \<Longrightarrow> t_outbox s' = t_outbox s \<Longrightarrow> I s' = I s"
  unfolding about_feed_def by blast

lemma about_feed_keep:
  "about_feed I \<Longrightarrow> I s \<Longrightarrow> t_applied_entries s' = t_applied_entries s \<Longrightarrow> t_outbox s' = t_outbox s \<Longrightarrow> I s'"
  using about_feedD by blast

lemma preserves_create_org: "about_feed I \<Longrightarrow> preserves I (create_org nid now code name)"
  unfolding create_org_def Let_def
  by (intro preserves_rules preserves_sql_exec) (rule about_feed_keep, assumption, assumption, simp_all)

lemma preserves_enroll_plant: "about_feed I \<Longrightarrow> preserves I (enroll_plant sha nid secret now org code name)"
  unfolding enroll_plant_def Let_def
  by (intro preserves_rules preserves_sql_exec) (rule about_feed_keep, assumption, assumption, simp_all)

lemma preserves_touch: "about_feed I \<Longrightarrow> preserves I (touch_plant_sync now p)"
  unfolding touch_plant_sync_def by (intro preserves_modify) (rule about_feed_keep, assumption, assumption, simp_all)

lemma preserves_insert_wo: "about_feed I \<Longrightarrow> preserves I (insert_work_order r)"
  unfolding insert_work_order_def by (intro preserves_sql_exec) (rule about_feed_keep, assumption, assumption, simp_all)

lemma preserves_apply_wo: "about_feed I \<Longrightarrow> preserves I (apply_work_order w now v pid)"
proof -
  assume I: "about_feed I"
  have "preserves I (upsert_work_order now pid p)" for p
  proof (rule preservesI)
    fix s assume "I s"
    moreover have "I (s\<lparr>t_work_orders := x\<rparr>)" for x
      by (rule about_feed_keep [OF I \<open>I s\<close>]) simp_all
    ultimately show "I (snd (upsert_work_order now pid p s))"
      using preservesD [OF preserves_insert_wo [OF I] \<open>I s\<close>]
      by (simp add: upsert_work_order_def sql_exec_eval split: option.split)
  qed
  then show ?thesis unfolding apply_work_order_def by (intro preserves_rules)
qed

lemma apply_entry_grows: "applied_ids s \<subseteq> applied_ids (snd (apply_entry w now e pid s))"
  by (rule apply_entry_cases [of e s w now pid]) auto

lemma preserves_batch:
  "(\<And>e. preserves I (apply_entry w now e pid)) \<Longrightarrow> preserves I (apply_batch w now es pid a k)"
  by (induction es arbitrary: a k) (simp_all add: preserves_rules)

lemma preserves_push:
  assumes "about_feed I" "\<And>e. preserves I (apply_entry w now e (Some p))"
  shows "preserves I (push w sha now h p es)"
  unfolding push_def
  by (intro preserves_rules sync_gates preserves_touch assms preserves_batch)

lemma about_applied: "about_feed (\<lambda>s. A \<subseteq> applied_ids s)"
  by (simp add: about_feed_def applied_ids_def)

lemma preserves_applied_entry: "preserves (\<lambda>s. A \<subseteq> applied_ids s) (apply_entry w now e pid)"
  by (rule preservesI) (metis apply_entry_grows subset_trans)

lemma preserves_applied_remote:
  "preserves (\<lambda>s :: 's sync_db_scheme. A \<subseteq> applied_ids s) (remote_work_order w nid eid now h p number part qty prio)"
  unfolding remote_work_order_def create_remote_work_order_def enqueue_def
  by (intro preserves_rules sync_gates preserves_insert_wo about_applied preserves_sql_exec)
    (simp add: applied_ids_def)

lemma preserves_applied_ack: "preserves (\<lambda>s :: 's sync_db_scheme. A \<subseteq> applied_ids s) (ack sha now h p ids)"
  unfolding ack_def mark_synced_def
  by (intro preserves_rules sync_gates preserves_modify) (simp add: applied_ids_def)

lemma preserves_provision:
  assumes "about_feed I"
  shows "preserves I (create_org_handler nid now h code name)"
    "preserves I (enroll_plant_handler sha nid secret now h org code name)"
  unfolding create_org_handler_def enroll_plant_handler_def
  by (intro preserves_rules sync_gates preserves_create_org preserves_enroll_plant assms)+

lemma cloud_step_applied: "cloud_step l s s' \<Longrightarrow> A \<subseteq> applied_ids s \<Longrightarrow> A \<subseteq> applied_ids s'"
  by (induction rule: cloud_step.induct)
    (metis preservesD [OF preserves_provision(1) [OF about_applied]]
      preservesD [OF preserves_provision(2) [OF about_applied]] preservesD [OF preserves_applied_remote]
      preservesD [OF preserves_push [OF about_applied preserves_applied_entry]]
      preservesD [OF preserves_applied_ack])+

lemma cloud_run_applied: "cloud_run ls s s' \<Longrightarrow> A \<subseteq> applied_ids s \<Longrightarrow> A \<subseteq> applied_ids s'"
  by (induction rule: cloud_run.induct) (auto dest: cloud_step_applied)

lemma require_plant_pool: "require_plant sha h p s = (Inr u, s') \<Longrightarrow> has_pool s \<and> s' = s"
  by (auto simp: require_plant_def verify_plant_token_def prog_simps split: if_splits option.splits)

lemma push_success:
  assumes "push w sha now h p es s = (Inr r, s1)"
  obtains s' where "length es \<le> 500" "apply_batch w now es (Some p) 0 0 s = (Inr r, s')"
    "s1 = s'\<lparr>t_plants := update_where (\<lambda>x. pl_id x = p) (pl_touch now) (t_plants s')\<rparr>"
proof -
  from assms obtain s' where len: "length es \<le> MAX_BATCH"
    and run: "apply_batch w now es (Some p) 0 0 s = (Inr r, s')"
    and touch: "touch_plant_sync now p s' = (Inr (), s1)"
    unfolding push_def
    by (elim andThen_InrE) (auto dest!: guard_InrD ret_InrD mapErr_InrD require_plant_pool simp: require_pool_eval split: if_splits)
  from touch have "s1 = s'\<lparr>t_plants := update_where (\<lambda>x. pl_id x = p) (pl_touch now) (t_plants s')\<rparr>"
    by (simp add: touch_plant_sync_def modify_eval)
  with len run show thesis by (intro that) (simp_all add: MAX_BATCH_def)
qed

text \<open>
  C29.  Pushing is idempotent.  An accepted batch of at most 500 entries counts as applied exactly
  the distinct identifiers not applied before, and when the plant sends the same batch again,
  whatever requests the cloud has served in between, every entry is skipped and nothing changes but
  the time of the plant's last synchronisation.
\<close>

theorem push_replay_noop:
  assumes first: "push w sha now h p es s = (Inr (a, k), s1)"
    and between: "cloud_run ls s1 s2"
    and gate: "require_plant sha h' p' s2 = (Inr (), s2)"
  shows "a = card (en_id ` set es - applied_ids s) \<and> a + k = length es \<and> length es \<le> 500 \<and>
    push w' sha now' h' p' es s2 = (Inr (0, length es),
      s2\<lparr>t_plants := update_where (\<lambda>r. pl_id r = p') (pl_touch now') (t_plants s2)\<rparr>)"
proof -
  from push_success [OF first] obtain s' where len: "length es \<le> 500"
    and run: "apply_batch w now es (Some p) 0 0 s = (Inr (a, k), s')"
    and s1: "s1 = s'\<lparr>t_plants := update_where (\<lambda>x. pl_id x = p) (pl_touch now) (t_plants s')\<rparr>" by blast
  note ok = apply_batch_success [OF run]
  have "applied_ids s1 = applied_ids s'" by (simp add: s1 applied_ids_def)
  with ok have "en_id ` set es \<subseteq> applied_ids s1" by auto
  from cloud_run_applied [OF between this] have "en_id ` set es \<subseteq> applied_ids s2" .
  from apply_batch_replay [OF this] len gate require_plant_pool [OF gate]
  have "push w' sha now' h' p' es s2 = (Inr (0, length es),
      s2\<lparr>t_plants := update_where (\<lambda>r. pl_id r = p') (pl_touch now') (t_plants s2)\<rparr>)"
    by (simp add: push_def prog_simps MAX_BATCH_def touch_plant_sync_def)
  with ok len show ?thesis by simp
qed

text \<open>
  C31.  A failed push can be retried.  When an entry of a batch is refused, exactly the entries
  before it have been applied and nothing of it; sending the whole batch again then does the same
  as sending only the entries from the refused one on, the earlier ones counting as skipped.
\<close>

theorem push_resumes:
  assumes "apply_batch w now es (Some p) 0 0 s = (Inl err, s1)"
  shows "\<exists>n < length es. (\<exists>a k. apply_batch w now (take n es) (Some p) 0 0 s = (Inr (a, k), s1)) \<and>
    apply_entry w now (es ! n) (Some p) s1 = (Inl err, s1) \<and>
    (\<forall>w' now'. apply_batch w' now' es (Some p) 0 0 s1 = apply_batch w' now' (drop n es) (Some p) 0 n s1)"
proof -
  from apply_batch_error [OF assms] obtain xs y ys a k where es: "es = xs @ y # ys"
    and xs: "apply_batch w now xs (Some p) 0 0 s = (Inr (a, k), s1)"
    and y: "apply_entry w now y (Some p) s1 = (Inl err, s1)" by blast
  from apply_batch_success [OF xs] have "en_id ` set xs \<subseteq> applied_ids s1" by auto
  then have retry: "apply_batch w' now' es (Some p) 0 0 s1 = apply_batch w' now' (y # ys) (Some p) 0 (length xs) s1"
    for w' now'
    unfolding es apply_batch_append by (simp add: andThen_eval apply_batch_replay)
  have "length xs < length es" "take (length xs) es = xs" "es ! length xs = y" "drop (length xs) es = y # ys"
    by (simp_all add: es)
  with xs y retry show ?thesis by (intro exI [of _ "length xs"]) simp
qed

section \<open>Commands\<close>

definition pending_command :: "outbox_row \<Rightarrow> 's sync_db_scheme \<Rightarrow> bool" where
  "pending_command r s \<longleftrightarrow> r \<in> set (t_outbox s) \<and> ob_synced_at r = None"

lemma about_pending: "about_feed (pending_command r)"
  by (simp add: about_feed_def pending_command_def)

lemma preserves_pending_entry: "preserves (pending_command r) (apply_entry w now e pid)"
  unfolding apply_entry_def
  by (intro preserves_rules preserves_apply_wo about_pending preserves_modify) (simp add: pending_command_def)

lemma preserves_pending_remote: "preserves (pending_command r) (remote_work_order w nid eid now h p number part qty prio)"
  unfolding remote_work_order_def create_remote_work_order_def enqueue_def
  by (intro preserves_rules sync_gates preserves_insert_wo about_pending preserves_sql_exec)
    (simp add: pending_command_def)

lemma preserves_pending_ack: "ob_id r \<notin> set ids \<Longrightarrow> preserves (pending_command r) (ack sha now h p ids)"
  unfolding ack_def mark_synced_def
  by (intro preserves_rules sync_gates preserves_modify)
    (auto simp: pending_command_def update_where_def image_iff intro!: bexI [of _ r])

lemma cloud_step_pending:
  "cloud_step l s s' \<Longrightarrow> pending_command r s \<Longrightarrow> (\<And>ids. l = AckOf ids \<Longrightarrow> ob_id r \<notin> set ids) \<Longrightarrow>
     pending_command r s'"
  by (induction rule: cloud_step.induct)
    (simp_all add: preservesD [OF preserves_provision(1) [OF about_pending]]
      preservesD [OF preserves_provision(2) [OF about_pending]] preservesD [OF preserves_pending_remote]
      preservesD [OF preserves_push [OF about_pending preserves_pending_entry]]
      preservesD [OF preserves_pending_ack])

lemma cloud_run_pending:
  "cloud_run ls s s' \<Longrightarrow> pending_command r s \<Longrightarrow> (\<And>ids. AckOf ids \<in> set ls \<Longrightarrow> ob_id r \<notin> set ids) \<Longrightarrow>
     pending_command r s'"
  by (induction rule: cloud_run.induct) (auto intro: cloud_step_pending)

text \<open>
  C30.  A command for a plant is offered until it is acknowledged.  While no acknowledgement names
  it, whatever else the cloud serves, a pending command stays in the plant's feed: as long as at most
  500 commands are waiting, the plant's pull returns them all, this one included, oldest first.
\<close>

theorem pull_until_acked:
  assumes run: "cloud_run ls s s'"
    and r: "r \<in> set (t_outbox s)" "ob_destination r = Some p" "ob_synced_at r = None"
    and no_ack: "\<forall>ids. AckOf ids \<in> set ls \<longrightarrow> ob_id r \<notin> set ids"
    and gate: "require_plant sha h p s' = (Inr (), s')"
    and few: "length (filter (\<lambda>x. ob_destination x = Some p \<and> ob_synced_at x = None) (t_outbox s')) \<le> 500"
  shows "\<exists>rows. pull sha h p None s' = (Inr (map entry_of_row rows), s') \<and> r \<in> set rows \<and>
    sorted (map ob_created_at rows) \<and>
    set rows = {x \<in> set (t_outbox s'). ob_destination x = Some p \<and> ob_synced_at x = None}"
proof -
  let ?P = "\<lambda>x. ob_destination x = Some p \<and> ob_synced_at x = None"
  let ?rows = "sort_key ob_created_at (filter ?P (t_outbox s'))"
  from cloud_run_pending [OF run] r no_ack have "r \<in> set (t_outbox s')"
    by (auto simp: pending_command_def)
  moreover have "take 500 ?rows = ?rows" using few by simp
  ultimately show ?thesis
    using gate require_plant_pool [OF gate] r
    by (intro exI [of _ ?rows])
      (auto simp: pull_def pull_for_plant_def fetch_outbox_def prog_simps unwrap_or_def MAX_BATCH_def)
qed

section \<open>Replication\<close>

text \<open>What the payload readers are relied on for: they read what the writers wrote.\<close>

definition wire_ok :: "wire \<Rightarrow> bool" where
  "wire_ok w \<longleftrightarrow>
     (\<forall>q. dec_of_json w (dec_to_json w q) = Some q) \<and>
     (\<forall>t. ts_to_json w t \<noteq> JNull \<and> ts_of_json w (ts_to_json w t) = Some t) \<and>
     (\<forall>n. instant_of_json w (instant_to_json w n) = Some n) \<and>
     (\<forall>n. in_i32 n \<longrightarrow> i32_of_json w (JNum (of_int n)) = Some n)"

lemma read_opt_json: "(\<And>y. f y \<noteq> JNull \<and> g (f y) = Some y) \<Longrightarrow> read_opt g (Some (opt_json f x)) = Some x"
proof (cases x)
  case (Some y)
  assume "\<And>y. f y \<noteq> JNull \<and> g (f y) = Some y"
  then have "f y \<noteq> JNull" "g (f y) = Some y" by simp_all
  with Some show ?thesis by (cases "f y") (simp_all add: read_opt_def opt_json_def)
qed (simp add: read_opt_def opt_json_def)

lemma wo_payload_object: "wo_payload_of_json w (json_object kvs) = wo_payload_of_members w (\<lambda>k. map_of (rev kvs) k)"
  by (simp add: wo_payload_of_json_def json_object_get [abs_def, symmetric]) (simp add: json_object_def)

lemma payload_roundtrip:
  assumes "wire_ok w" "in_i32 (unwrap_or 100 (wi_priority i))"
  shows "wo_payload_of_json w (work_order_payload w wo i) =
    Some \<lparr>wp_id = wo, wp_wo_number = wi_wo_number i, wp_part_id = wi_part_id i,
      wp_routing_id = wi_routing_id i, wp_qty_ordered = wi_qty_ordered i,
      wp_priority = unwrap_or 100 (wi_priority i), wp_status = ''draft'',
      wp_planned_start = wi_planned_start i, wp_planned_end = wi_planned_end i\<rparr>"
proof -
  have strs: "read_opt json_as_str (Some (opt_json JStr x)) = Some x" for x
    by (rule read_opt_json) (simp add: json_as_str_def)
  have times: "read_opt (ts_of_json w) (Some (opt_json (ts_to_json w) x)) = Some x" for x
    by (rule read_opt_json) (use assms(1) in \<open>simp add: wire_ok_def\<close>)
  show ?thesis
    using assms
    by (simp add: work_order_payload_def wo_payload_object wo_payload_of_members_def strs times wire_ok_def
        read_default_def json_as_str_def)
qed

text \<open>
  An order created at a plant arrives at the cloud as it is.  The entry the creation left in the
  outbox is fetched for the cloud, and applying it there, where the part and routing are known and the
  order is new, stores the same order, tagged with the plant; no other order of the cloud changes.
\<close>

lemma order_replicated:
  assumes wire: "wire_ok w" and prio: "in_i32 (unwrap_or 100 (wi_priority i))"
    and edge: "create_work_order w ids now i e = (Inr (wo, ops), e')"
    and few: "length (filter (\<lambda>r. ob_destination r = None \<and> ob_synced_at r = None) (t_outbox e')) \<le> 500"
    and known: "has_key pt_id (wi_part_id i) (t_parts c)" "\<not> missing_ref rt_id (wi_routing_id i) (t_routings c)"
    and new: "\<not> has_key wo_id (wo_id wo) (t_work_orders c)" "\<not> has_key wo_number (wo_number wo) (t_work_orders c)"
      "ids (Suc (length (wi_operations i))) \<notin> applied_ids c"
  shows "\<exists>es en c'. fetch_to_cloud 500 e' = (Inr es, e') \<and> en \<in> set es \<and> en_entity_id en = wo_id wo \<and>
    apply_entry w later en (Some p) c = (Inr True, c') \<and>
    t_work_orders c' = t_work_orders c @
      [wo\<lparr>wo_plant_id := Some p, wo_created_at := later, wo_updated_at := later\<rparr>]"
proof -
  let ?row = "\<lparr>ob_id = ids (Suc (length (wi_operations i))), ob_aggregate = ''work_order'',
      ob_entity_id = ids 0, ob_op = ''upsert'', ob_payload = work_order_payload w (ids 0) i,
      ob_destination = None, ob_created_at = now, ob_synced_at = None\<rparr>"
  let ?P = "\<lambda>r. ob_destination r = None \<and> ob_synced_at r = None"
  from edge have wo: "wo = new_work_order (ids 0) now i" and ob: "t_outbox e' = t_outbox e @ [?row]"
    by (elim create_work_order_effect; simp)+
  let ?es = "map entry_of_row (sort_key ob_created_at (filter ?P (t_outbox e')))"
  have "fetch_to_cloud 500 e' = (Inr ?es, e')"
    using few by (simp add: fetch_to_cloud_def fetch_outbox_def prog_simps)
  moreover have "entry_of_row ?row \<in> set ?es" by (simp add: ob)
  moreover have "apply_entry w later (entry_of_row ?row) (Some p) c = (Inr True,
      c\<lparr>t_applied_entries := t_applied_entries c @ [\<lparr>ap_id = ob_id ?row, ap_applied_at = later\<rparr>],
        t_work_orders := t_work_orders c @
          [wo\<lparr>wo_plant_id := Some p, wo_created_at := later, wo_updated_at := later\<rparr>]\<rparr>)"
    using new known
    by (simp add: apply_entry_def entry_of_row_def prog_simps applied_ids_def has_key_def [of ap_id]
        apply_work_order_def payload_roundtrip [OF wire prio] upsert_work_order_def insert_work_order_def
        wo_of_payload_def wo new_work_order_def)
  moreover have "wo_id wo = ids 0" by (simp add: wo new_work_order_def)
  ultimately show ?thesis
    by (intro exI [of _ ?es] exI [of _ "entry_of_row ?row"] exI conjI) (assumption | simp add: entry_of_row_def)+
qed

section \<open>Sample state\<close>

definition sample_sha :: "string \<Rightarrow> nat list" where
  "sample_sha = map of_char"

definition sample_plant :: "string \<Rightarrow> string \<Rightarrow> plant_row" where
  "sample_plant i token =
     \<lparr>pl_id = i, pl_org_id = ''G1'', pl_code = i, pl_name = i,
      pl_enrollment_token_hash = Some (hash_token sample_sha token), pl_enrolled_at = Some 0,
      pl_last_sync_at = None, pl_created_at = 0, pl_updated_at = 0\<rparr>"

definition sample_command :: outbox_row where
  "sample_command =
     \<lparr>ob_id = ''E1'', ob_aggregate = ''work_order'', ob_entity_id = ''W9'', ob_op = ''upsert'',
      ob_payload = JNull, ob_destination = Some ''PA'', ob_created_at = 1, ob_synced_at = None\<rparr>"

definition sample_sync :: sync_db where
  "sample_sync = orders_db.extend (sample_orders\<lparr>t_outbox := [sample_command]\<rparr>)
     \<lparr>admin_token = None, t_applied_entries = [], t_orgs = [],
      t_plants = [sample_plant ''PA'' ''a'', sample_plant ''PB'' ''b'']\<rparr>"

definition sample_entry :: sync_entry where
  "sample_entry =
     \<lparr>en_id = ''N1'', en_aggregate = ''audit'', en_entity_id = ''X'', en_op = ''upsert'', en_payload = JNull\<rparr>"

definition bad_entry :: sync_entry where
  "bad_entry =
     \<lparr>en_id = ''N2'', en_aggregate = ''work_order'', en_entity_id = ''X'', en_op = ''upsert'', en_payload = JNull\<rparr>"

lemmas sample_sync_defs = sample_sync_def orders_db.defs sync_db.defs sample_orders_def sample_plant_def
  sample_command_def

lemmas gate_simps = require_plant_def verify_plant_token_def bearer_def strip_prefix_def prog_simps table_simps

text \<open>
  Acknowledgements are not limited to the plant that sends them: plant PB, with its own token,
  acknowledges a command that was never offered to it, and plant PA, for which the command was made,
  is not offered it any more.
\<close>

theorem ack_drops_foreign_command:
  "\<exists>s'. fst (pull sample_sha (Some ''Bearer a'') ''PA'' None sample_sync) = Inr [entry_of_row sample_command] \<and>
     fst (pull sample_sha (Some ''Bearer b'') ''PB'' None sample_sync) = Inr [] \<and>
     ack sample_sha 7 (Some ''Bearer b'') ''PB'' [''E1''] sample_sync = (Inr 204, s') \<and>
     fst (pull sample_sha (Some ''Bearer a'') ''PA'' None s') = Inr []"
  by (simp add: ack_def pull_def pull_for_plant_def fetch_outbox_def mark_synced_def gate_simps
      sample_sync_defs update_where_def ob_sync_def unwrap_or_def MAX_BATCH_def)

theorem push_replay_noop_witness:
  "\<exists>s1. push sample_wire sample_sha 5 (Some ''Bearer a'') ''PA'' [sample_entry] sample_sync = (Inr (1, 0), s1) \<and>
     fst (push sample_wire sample_sha 9 (Some ''Bearer a'') ''PA'' [sample_entry] s1) = Inr (0, 1)"
proof -
  obtain s1 where run: "push sample_wire sample_sha 5 (Some ''Bearer a'') ''PA'' [sample_entry] sample_sync = (Inr (1, 0), s1)"
    and gate: "require_plant sample_sha (Some ''Bearer a'') ''PA'' s1 = (Inr (), s1)"
    by (simp add: push_def gate_simps sample_sync_defs apply_entry_def sample_entry_def MAX_BATCH_def
        touch_plant_sync_def update_where_def pl_touch_def)
  from push_replay_noop [OF run cloud_nil gate, of sample_wire 9] run show ?thesis by auto
qed

theorem push_resumes_witness:
  "\<exists>err s1 n. apply_batch sample_wire 5 [sample_entry, bad_entry] (Some ''PA'') 0 0 sample_sync = (Inl err, s1) \<and>
     n < length [sample_entry, bad_entry] \<and> apply_batch sample_wire 9 [sample_entry, bad_entry] (Some ''PA'') 0 0 s1 =
       apply_batch sample_wire 9 (drop n [sample_entry, bad_entry]) (Some ''PA'') 0 n s1"
proof -
  obtain err s1 where run: "apply_batch sample_wire 5 [sample_entry, bad_entry] (Some ''PA'') 0 0 sample_sync = (Inl err, s1)"
    by (simp add: apply_entry_def sample_entry_def bad_entry_def apply_work_order_def wo_payload_of_json_def
        prog_simps sample_sync_defs table_simps)
  from push_resumes [OF run] run show ?thesis by blast
qed

theorem pull_until_acked_witness:
  "\<exists>rows. pull sample_sha (Some ''Bearer a'') ''PA'' None (snd (ack sample_sha 7 (Some ''Bearer b'') ''PB'' [''Z''] sample_sync)) =
     (Inr (map entry_of_row rows), snd (ack sample_sha 7 (Some ''Bearer b'') ''PB'' [''Z''] sample_sync)) \<and>
     sample_command \<in> set rows"
proof -
  let ?s' = "snd (ack sample_sha 7 (Some ''Bearer b'') ''PB'' [''Z''] sample_sync)"
  have run: "cloud_run [AckOf [''Z'']] sample_sync ?s'"
    by (rule cloud_cons [OF cloud_step.intros(5) cloud_nil])
  have "sample_command \<in> set (t_outbox sample_sync)" "ob_destination sample_command = Some ''PA''"
    "ob_synced_at sample_command = None"
    "\<forall>ids. AckOf ids \<in> set [AckOf [''Z'']] \<longrightarrow> ob_id sample_command \<notin> set ids"
    by (simp_all add: sample_sync_defs)
  moreover have "require_plant sample_sha (Some ''Bearer a'') ''PA'' ?s' = (Inr (), ?s')"
    "length (filter (\<lambda>x. ob_destination x = Some ''PA'' \<and> ob_synced_at x = None) (t_outbox ?s')) \<le> 500"
    by (simp_all add: ack_def mark_synced_def gate_simps sample_sync_defs update_where_def)
  ultimately show ?thesis using pull_until_acked [OF run, of sample_command "''PA''" sample_sha] by blast
qed

lemma sample_wire_ok: "wire_ok sample_wire"
  by (simp add: wire_ok_def sample_wire_def)

end
