(* ===== verification/Oee.thy ===== *)
theory Oee
  imports Ingest
begin

text \<open>
  Overall equipment effectiveness: the factors of \<^verbatim>\<open>mes-core/src/oee.rs\<close>, their inputs and the
  calculation inside the database of \<^verbatim>\<open>mes-db/src/repo_oee.rs\<close>, and the endpoint and live
  snapshot of \<^verbatim>\<open>mes-edge/src/analytics.rs\<close>.  All factors are doubles.
\<close>

section \<open>Factors\<close>

record oee_inputs_rec =
  planned_production_s :: f64
  run_s :: f64
  ideal_cycle_s :: f64
  total_count :: f64
  good_count :: f64

record oee_result =
  availability :: f64
  performance :: f64
  quality :: f64
  oee_value :: f64

definition ratio :: "f64 \<Rightarrow> f64 \<Rightarrow> f64" where
  "ratio num den = (if f64_less (Fin 0) den then f64_div num den else Fin 0)"

definition compute :: "oee_inputs_rec \<Rightarrow> oee_result" where
  "compute i =
     (let a = ratio (run_s i) (planned_production_s i);
          p = f64_min (ratio (f64_mul (ideal_cycle_s i) (total_count i)) (run_s i)) (Fin 1);
          q = ratio (good_count i) (total_count i)
      in \<lparr>availability = a, performance = p, quality = q, oee_value = f64_mul (f64_mul a p) q\<rparr>)"

section \<open>Inputs\<close>

definition oee_map_sqlx :: "sqlx_error \<Rightarrow> repo_error" where
  "oee_map_sqlx e = (case e of RowNotFound \<Rightarrow> NotFound | _ \<Rightarrow> DbError e)"

text \<open>
  The database's double arithmetic: a conversion or operation whose result overflows, or vanishes
  although it should not, is an error.
\<close>

definition pg_range_error :: sqlx_error where
  "pg_range_error = SqlState ''22003'' ''value out of range''"

definition pg_checked :: "bool \<Rightarrow> f64 \<Rightarrow> sqlx_error + f64" where
  "pg_checked may_vanish r =
     (if r \<in> {PInf, NInf, NaN} \<or> r = Fin 0 \<and> \<not> may_vanish then Inl pg_range_error else Inr r)"

definition pg_float :: "rat \<Rightarrow> sqlx_error + f64" where
  "pg_float q = pg_checked (q = 0) (round_f64 q)"

definition pg_mul :: "f64 \<Rightarrow> f64 \<Rightarrow> sqlx_error + f64" where
  "pg_mul x y = pg_checked (x = Fin 0 \<or> y = Fin 0) (f64_mul x y)"

definition pg_div :: "f64 \<Rightarrow> f64 \<Rightarrow> sqlx_error + f64" where
  "pg_div x y = pg_checked (x = Fin 0) (f64_div x y)"

definition pg_sub :: "f64 \<Rightarrow> f64 \<Rightarrow> sqlx_error + f64" where
  "pg_sub x y = pg_checked True (f64_sub x y)"

definition fetched :: "sqlx_error + 'a \<Rightarrow> ('s, repo_error, 'a) prog" where
  "fetched r = (case r of Inl e \<Rightarrow> throw (oee_map_sqlx e) | Inr x \<Rightarrow> ret x)"

text \<open>Seconds a state covers of a window, each interval clamped to it.\<close>

definition state_seconds :: "string \<Rightarrow> string \<Rightarrow> timestamp \<Rightarrow> timestamp \<Rightarrow> machine_state_row list \<Rightarrow> rat" where
  "state_seconds wc st a b rows =
     sum_list (map (\<lambda>m. of_int (min (ms_end m) b - max (ms_start m) a) / 1000000)
       (filter (\<lambda>m. ms_work_center_id m = wc \<and> ms_start m < b \<and> ms_end m > a \<and> ms_state m = st) rows))"

definition counts_in :: "string \<Rightarrow> timestamp \<Rightarrow> timestamp \<Rightarrow> production_count_row list \<Rightarrow> production_count_row list" where
  "counts_in wc a b rows = filter (\<lambda>c. pc_work_center_id c = wc \<and> a \<le> pc_ts c \<and> pc_ts c < b) rows"

definition fetch_seconds ::
  "string \<Rightarrow> timestamp \<Rightarrow> timestamp \<Rightarrow> ('s ingest_db_scheme, repo_error, f64 \<times> f64) prog" where
  "fetch_seconds wc a b =
     andThen (gets t_machine_states) (\<lambda>ms.
     andThen (fetched (pg_float (state_seconds wc ''running'' a b ms))) (\<lambda>r.
     andThen (fetched (pg_float (state_seconds wc ''planned_stop'' a b ms))) (\<lambda>p.
     ret (r, p))))"

text \<open>The sum of good and scrap of one row is taken in 32 bits.\<close>

definition fetch_counts ::
  "string \<Rightarrow> timestamp \<Rightarrow> timestamp \<Rightarrow> ('s ingest_db_scheme, repo_error, f64 \<times> f64) prog" where
  "fetch_counts wc a b =
     andThen (gets (\<lambda>s. counts_in wc a b (t_production_counts s))) (\<lambda>cs.
     andThen (guard (\<forall>c\<in>set cs. in_i32 (pc_good c + pc_scrap c)) (oee_map_sqlx out_of_range)) (\<lambda>_.
     andThen (fetched (pg_float (of_int (sum_list (map pc_good cs))))) (\<lambda>good.
     andThen (fetched (pg_float (of_int (sum_list (map (\<lambda>c. pc_good c + pc_scrap c) cs))))) (\<lambda>total.
     ret (good, total)))))"

definition num_milliseconds :: "duration \<Rightarrow> int" where
  "num_milliseconds d = (if d \<ge> 0 then d div 1000 else - ((- d) div 1000))"

definition oee_inputs ::
  "string \<Rightarrow> timestamp \<Rightarrow> timestamp \<Rightarrow> ('s ingest_db_scheme, repo_error, oee_inputs_rec) prog" where
  "oee_inputs wc a b =
     andThen (fetch_seconds wc a b) (\<lambda>(r, p).
     andThen (fetch_counts wc a b) (\<lambda>(good, total).
     andThen (gets (\<lambda>s. Option.bind (find_row wc_id wc (t_work_centers s)) wc_ideal_cycle_seconds)) (\<lambda>ideal.
     andThen (case ideal of None \<Rightarrow> ret (Fin 0) | Some q \<Rightarrow> fetched (pg_float q)) (\<lambda>ideal_s.
     (let window_s = f64_div (round_f64 (of_int (num_milliseconds (b - a)))) (Fin 1000) in
      ret \<lparr>planned_production_s = f64_sub window_s p, run_s = r, ideal_cycle_s = ideal_s,
           total_count = total, good_count = good\<rparr>)))))"

section \<open>The calculation in the database\<close>

definition sql_ratio :: "(sqlx_error + f64) \<Rightarrow> f64 \<Rightarrow> ('s, repo_error, f64) prog" where
  "sql_ratio num den =
     (if f64_less (Fin 0) den
      then andThen (fetched num) (\<lambda>n. fetched (pg_div n den)) else ret (Fin 0))"

definition oee_sql ::
  "string \<Rightarrow> timestamp \<Rightarrow> timestamp \<Rightarrow> ('s ingest_db_scheme, repo_error, oee_result) prog" where
  "oee_sql wc a b =
     andThen (fetch_seconds wc a b) (\<lambda>(r, p).
     andThen (fetch_counts wc a b) (\<lambda>(good, total).
     andThen (gets (\<lambda>s. find_row wc_id wc (t_work_centers s))) (\<lambda>row.
     andThen (okOr (oee_map_sqlx RowNotFound) row) (\<lambda>w.
     andThen (fetched (pg_float (case wc_ideal_cycle_seconds w of None \<Rightarrow> 0 | Some q \<Rightarrow> q))) (\<lambda>ideal.
     andThen (fetched (pg_float (of_int (b - a) / 1000000))) (\<lambda>window_s.
     andThen (fetched (pg_sub window_s p)) (\<lambda>planned_prod.
     andThen (sql_ratio (Inr r) planned_prod) (\<lambda>av.
     andThen (sql_ratio (pg_mul ideal total) r) (\<lambda>pe.
     andThen (sql_ratio (Inr good) total) (\<lambda>qu.
     andThen (fetched (pg_mul av (f64_min pe (Fin 1)))) (\<lambda>ap.
     andThen (fetched (pg_mul ap qu)) (\<lambda>o_v.
     ret \<lparr>availability = av, performance = f64_min pe (Fin 1), quality = qu, oee_value = o_v\<rparr>))))))))))))"

section \<open>Endpoint and snapshot\<close>

definition oee ::
  "auth_user \<Rightarrow> string \<Rightarrow> timestamp \<Rightarrow> timestamp \<Rightarrow> ('s ingest_db_scheme, api_err, oee_result) prog" where
  "oee u wc a b =
     andThen require_pool (\<lambda>_.
     andThen (mapErr repo_err (oee_inputs wc a b)) (\<lambda>i.
     ret (compute i)))"

text \<open>The window of a snapshot starts at midnight of the current day.\<close>

definition day_start :: "timestamp \<Rightarrow> timestamp" where
  "day_start t = t - t mod days 1"

definition publish_oee_snapshot :: "timestamp \<Rightarrow> string \<Rightarrow> 's ingest_db_scheme \<Rightarrow> 's ingest_db_scheme" where
  "publish_oee_snapshot now wc s =
     (if \<not> has_pool s then s
      else case oee_inputs wc (day_start now) now s of
        (Inr i, s') \<Rightarrow>
          (let r = compute i in
           publish (OeeSnapshot wc (availability r) (performance r) (quality r) (oee_value r)) s')
      | (Inl _, s') \<Rightarrow> s')"

section \<open>Seeding\<close>

text \<open>How the database turns a double into a decimal column is a parameter.\<close>

definition set_work_center_ideal_cycle ::
  "(f64 \<Rightarrow> rat) \<Rightarrow> timestamp \<Rightarrow> string \<Rightarrow> f64 \<Rightarrow> ('s mes_base_scheme, repo_error, unit) prog" where
  "set_work_center_ideal_cycle to_numeric now wc secs =
     modify (\<lambda>s. s\<lparr>t_work_centers := update_where (\<lambda>r. wc_id r = wc)
       (\<lambda>r. r\<lparr>wc_ideal_cycle_seconds := Some (to_numeric secs), wc_updated_at := now\<rparr>) (t_work_centers s)\<rparr>)"

definition insert_state_of ::
  "string \<Rightarrow> string \<Rightarrow> string \<Rightarrow> timestamp \<Rightarrow> timestamp \<Rightarrow> ('s ingest_db_scheme, repo_error, unit) prog" where
  "insert_state_of nid wc st a b =
     sql_exec_by oee_map_sqlx
       (\<lambda>s. [(has_key ms_id nid (t_machine_states s), dup_key ''machine_states_pkey''),
             (\<not> has_key wc_id wc (t_work_centers s),
              bad_ref ''machine_states'' ''machine_states_work_center_id_fkey'')])
       (\<lambda>s. s\<lparr>t_machine_states := t_machine_states s @
              [\<lparr>ms_id = nid, ms_work_center_id = wc, ms_state = st, ms_start = a, ms_end = b\<rparr>]\<rparr>)"

definition insert_count ::
  "string \<Rightarrow> string \<Rightarrow> timestamp \<Rightarrow> int \<Rightarrow> int \<Rightarrow> ('s orders_db_scheme, repo_error, unit) prog" where
  "insert_count nid wc ts good scrap =
     sql_exec_by oee_map_sqlx
       (\<lambda>s. [(has_key (\<lambda>c. (pc_ts c, pc_id c)) (ts, nid) (t_production_counts s),
              dup_key ''production_counts_pkey''),
             (\<not> has_key wc_id wc (t_work_centers s),
              bad_ref ''production_counts'' ''production_counts_work_center_id_fkey'')])
       (\<lambda>s. s\<lparr>t_production_counts := t_production_counts s @
              [\<lparr>pc_id = nid, pc_ts = ts, pc_work_center_id = wc, pc_source_id = None, pc_good = good,
                pc_scrap = scrap, pc_wo_operation_id = None, pc_scrap_reason_id = None\<rparr>]\<rparr>)"

section \<open>Bounds\<close>

lemma ratio_unit:
  assumes "0 \<le> x" "x \<le> y"
  obtains r where "ratio (Fin x) (Fin y) = Fin r" "0 \<le> r" "r \<le> 1" "is_f64 r"
proof (cases "0 < y")
  case True
  with assms have "0 \<le> x / y" "x / y \<le> 1" by (simp_all add: field_simps)
  note unit = round_f64_unit [OF this is_f64_consts(2)]
  have "ratio (Fin x) (Fin y) = Fin (round_val (x / y))"
    using True unit(1) by (simp add: ratio_def f64_less_def f64_div_def)
  with unit(2,3) round_val_is_f64 show thesis using that by simp
next
  case False
  then have "ratio (Fin x) (Fin y) = Fin 0" by (simp add: ratio_def f64_less_def)
  with that is_f64_consts(1) show thesis by simp
qed

lemma performance_unit:
  assumes "0 \<le> c" "0 \<le> t" "0 \<le> r"
  obtains p where "f64_min (ratio (f64_mul (Fin c) (Fin t)) (Fin r)) (Fin 1) = Fin p" "0 \<le> p" "p \<le> 1" "is_f64 p"
proof -
  have "0 \<le> c * t" using assms by simp
  then consider "f64_mul (Fin c) (Fin t) = PInf" | x where "f64_mul (Fin c) (Fin t) = Fin x" "0 \<le> x"
    by (rule round_f64_nonneg) (simp_all add: f64_mul_def)
  then show thesis
  proof cases
    case 1
    have "f64_min (ratio PInf (Fin r)) (Fin 1) = (if 0 < r then Fin 1 else Fin 0)"
      using assms(3)
      by (simp add: ratio_def f64_less_def f64_div_def f64_inf_def f64_sign_def f64_min_def)
    with 1 that is_f64_consts show thesis by (simp split: if_splits)
  next
    case (2 x)
    have "\<exists>z. (ratio (Fin x) (Fin r) = PInf \<or> ratio (Fin x) (Fin r) = Fin z) \<and> 0 \<le> z \<and> is_f64 z"
    proof (cases "0 < r")
      case True
      then have ratio: "ratio (Fin x) (Fin r) = round_f64 (x / r)"
        by (simp add: ratio_def f64_less_def f64_div_def)
      have "0 \<le> x / r" using True 2(2) by simp
      then show ?thesis
        by (rule round_f64_nonneg) (use ratio round_val_is_f64 is_f64_consts(1) in auto)
    next
      case False
      with is_f64_consts(1) show ?thesis by (auto simp: ratio_def f64_less_def)
    qed
    then obtain z where z: "ratio (Fin x) (Fin r) = PInf \<or> ratio (Fin x) (Fin r) = Fin z" "0 \<le> z" "is_f64 z"
      by blast
    show thesis
    proof (cases "ratio (Fin x) (Fin r) = PInf \<or> 1 < z")
      case True
      with z(1) 2(1) have "f64_min (ratio (f64_mul (Fin c) (Fin t)) (Fin r)) (Fin 1) = Fin 1"
        by (auto simp: f64_min_def f64_less_def)
      with that is_f64_consts(2) show thesis by simp
    next
      case False
      with z(1) 2(1) have "f64_min (ratio (f64_mul (Fin c) (Fin t)) (Fin r)) (Fin 1) = Fin z"
        by (auto simp: f64_min_def f64_less_def)
      with that z False show thesis by simp
    qed
  qed
qed

lemma f64_mul_unit:
  assumes "0 \<le> x" "x \<le> 1" "0 \<le> y" "y \<le> 1" "is_f64 x" "is_f64 y"
  obtains r where "f64_mul (Fin x) (Fin y) = Fin r" "0 \<le> r" "r \<le> x" "r \<le> y" "is_f64 r"
proof -
  have "0 \<le> x * y" "x * y \<le> x" "x * y \<le> y" using assms by (simp_all add: mult_left_le mult_left_le_one_le)
  moreover have "x < 2 ^ 1024" using assms(2) by simp
  ultimately show thesis
    using round_f64_unit [of "x * y" x] round_val_le [of "x * y" y] round_val_is_f64 [of "x * y"] assms
    by (intro that [of "round_val (x * y)"]) (simp_all add: f64_mul_def)
qed

text \<open>
  C40.  The factors of the effectiveness are well-behaved in double arithmetic.  For finite inputs with
  running time within the planned production time, good pieces within the total and a non-negative
  ideal cycle, every factor is a number between 0 and 1, never NaN or infinite, whatever overflows on
  the way, and the product, rounded twice, exceeds none of its factors.
\<close>

theorem oee_bounds:
  assumes "run_s i = Fin r" "planned_production_s i = Fin pp" "ideal_cycle_s i = Fin c"
    and "total_count i = Fin t" "good_count i = Fin g"
    and "0 \<le> r" "r \<le> pp" "0 \<le> g" "g \<le> t" "0 \<le> c"
  shows "\<exists>a p q z. compute i = \<lparr>availability = Fin a, performance = Fin p, quality = Fin q, oee_value = Fin z\<rparr> \<and>
    0 \<le> z \<and> z \<le> a \<and> z \<le> p \<and> z \<le> q \<and> a \<le> 1 \<and> p \<le> 1 \<and> q \<le> 1"
proof -
  obtain a where a: "ratio (Fin r) (Fin pp) = Fin a" "0 \<le> a" "a \<le> 1" "is_f64 a"
    using ratio_unit [OF assms(6,7)] .
  obtain q where q: "ratio (Fin g) (Fin t) = Fin q" "0 \<le> q" "q \<le> 1" "is_f64 q"
    using ratio_unit [OF assms(8,9)] .
  have "0 \<le> t" using assms(8,9) by simp
  obtain p where p: "f64_min (ratio (f64_mul (Fin c) (Fin t)) (Fin r)) (Fin 1) = Fin p" "0 \<le> p" "p \<le> 1" "is_f64 p"
    using performance_unit [OF assms(10) \<open>0 \<le> t\<close> assms(6)] .
  obtain x where x: "f64_mul (Fin a) (Fin p) = Fin x" "0 \<le> x" "x \<le> a" "x \<le> p" "is_f64 x"
    using f64_mul_unit [OF a(2,3) p(2,3) a(4) p(4)] .
  have "x \<le> 1" using x(3) a(3) by simp
  obtain z where z: "f64_mul (Fin x) (Fin q) = Fin z" "0 \<le> z" "z \<le> x" "z \<le> q" "is_f64 z"
    using f64_mul_unit [OF x(2) \<open>x \<le> 1\<close> q(2,3) x(5) q(4)] .
  have "compute i = \<lparr>availability = Fin a, performance = Fin p, quality = Fin q, oee_value = Fin z\<rparr>"
    by (simp add: compute_def assms(1-5) a(1) p(1) q(1) x(1) z(1) Let_def)
  with a p q x z show ?thesis by auto
qed

section \<open>Agreement of the two calculations\<close>

lemma pg_checked_InrD: "pg_checked b r = Inr x \<Longrightarrow> x = r \<and> (\<exists>q. r = Fin q)"
  by (cases r) (auto simp: pg_checked_def split: if_splits)

lemma fetched_InrD: "fetched m s = (Inr x, s') \<Longrightarrow> m = Inr x \<and> s' = s"
  by (auto simp: fetched_def throw_def ret_def split: sum.splits)

lemma sql_ratio_InrD:
  assumes "sql_ratio num den s = (Inr x, s')" and "\<And>n. num = Inr n \<Longrightarrow> n = r"
  shows "x = ratio r den \<and> s' = s"
proof (cases "f64_less (Fin 0) den")
  case True
  with assms(1) obtain n where "num = Inr n" "pg_div n den = Inr x" "s' = s"
    by (auto simp: sql_ratio_def elim!: andThen_InrE dest!: fetched_InrD)
  with True assms(2) show ?thesis
    by (auto simp: ratio_def pg_div_def dest!: pg_checked_InrD)
next
  case False
  with assms(1) show ?thesis by (auto simp: sql_ratio_def ratio_def ret_def)
qed

lemma fetch_seconds_state: "fetch_seconds wc a b s = (Inr x, s') \<Longrightarrow> s' = s"
  unfolding fetch_seconds_def by (auto elim!: andThen_InrE dest!: fetched_InrD ret_InrD gets_InrD)

lemma fetch_counts_state: "fetch_counts wc a b s = (Inr x, s') \<Longrightarrow> s' = s"
  unfolding fetch_counts_def by (auto elim!: andThen_InrE dest!: fetched_InrD ret_InrD gets_InrD guard_InrD)

lemma sql_ratio_state: "sql_ratio num den s = (Inr x, s') \<Longrightarrow> s' = s"
  by (auto simp: sql_ratio_def ret_def elim!: andThen_InrE dest!: fetched_InrD split: if_splits)

text \<open>Sequencing after a query that only reads.\<close>

lemma secondsE:
  assumes "andThen (fetch_seconds wc a b) (case_prod f) s = (Inr y, s')"
  obtains r p where "fetch_seconds wc a b s = (Inr (r, p), s)" "f r p s = (Inr y, s')"
  using assms by (rule andThen_InrE) (metis case_prod_conv fetch_seconds_state surj_pair that)

lemma countsE:
  assumes "andThen (fetch_counts wc a b) (case_prod f) s = (Inr y, s')"
  obtains g t where "fetch_counts wc a b s = (Inr (g, t), s)" "f g t s = (Inr y, s')"
  using assms by (rule andThen_InrE) (metis case_prod_conv fetch_counts_state surj_pair that)

lemma sql_ratioE:
  assumes "andThen (sql_ratio num den) f s = (Inr y, s')"
  obtains x where "sql_ratio num den s = (Inr x, s)" "f x s = (Inr y, s')"
  using assms by (rule andThen_InrE) (metis sql_ratio_state that)

lemma rowE:
  assumes "andThen (gets g) (\<lambda>x. andThen (okOr e x) f) s = (Inr y, s')"
  obtains x where "g s = Some x" "f x s = (Inr y, s')"
  using assms by (elim andThen_InrE) (metis gets_InrD okOr_InrD that)

lemma fetchedE:
  assumes "andThen (fetched m) f s = (Inr y, s')"
  obtains x where "m = Inr x" "f x s = (Inr y, s')"
  using assms by (rule andThen_InrE) (auto dest!: fetched_InrD intro: that)

lemma oee_sqlE:
  assumes "oee_sql wc a b s = (Inr r, s')"
  obtains rn pl g t w ideal win pp av pe qu ap z where
    "fetch_seconds wc a b s = (Inr (rn, pl), s)"
    "fetch_counts wc a b s = (Inr (g, t), s)"
    "find_row wc_id wc (t_work_centers s) = Some w"
    "pg_float (case wc_ideal_cycle_seconds w of None \<Rightarrow> 0 | Some q \<Rightarrow> q) = Inr ideal"
    "pg_float (of_int (b - a) / 1000000) = Inr win"
    "pg_sub win pl = Inr pp"
    "sql_ratio (Inr rn) pp s = (Inr av, s)"
    "sql_ratio (pg_mul ideal t) rn s = (Inr pe, s)"
    "sql_ratio (Inr g) t s = (Inr qu, s)"
    "pg_mul av (f64_min pe (Fin 1)) = Inr ap" "pg_mul ap qu = Inr z"
    "r = \<lparr>availability = av, performance = f64_min pe (Fin 1), quality = qu, oee_value = z\<rparr>"
  using assms unfolding oee_sql_def
  by (elim secondsE countsE rowE fetchedE sql_ratioE) (drule ret_InrD, elim conjE, rule that, assumption+)

text \<open>A window of whole milliseconds is measured the same way by both.\<close>

lemma window_agrees:
  assumes "1000 dvd d" "\<bar>d\<bar> \<le> 1000 * 2 ^ 53"
  shows "f64_div (round_f64 (of_int (num_milliseconds d))) (Fin 1000) = round_f64 (of_int d / 1000000)"
proof -
  from assms(1) obtain n where n: "d = 1000 * n" by (rule dvdE)
  with assms(2) have small: "\<bar>n\<bar> \<le> 2 ^ 53" by simp
  have "num_milliseconds d = n"
    by (simp add: num_milliseconds_def n) (metis minus_minus mult_minus_right nonzero_mult_div_cancel_left
        zero_neq_numeral)
  moreover have "round_f64 (of_int n) = Fin (of_int n)" by (rule round_f64_int [OF small])
  ultimately show ?thesis by (simp add: f64_div_def n field_simps)
qed

text \<open>
  C34.  The calculation in the database and the one in the service agree exactly: on a window of whole
  milliseconds, whenever the database returns a result, the service computes the same four doubles
  from its own queries.
\<close>

theorem oee_paths_agree:
  assumes sql: "oee_sql wc a b s = (Inr r, s')"
    and window: "1000 dvd b - a" "\<bar>b - a\<bar> \<le> 1000 * 2 ^ 53"
  shows "\<exists>i. oee_inputs wc a b s = (Inr i, s) \<and> compute i = r"
proof -
  from oee_sqlE [OF sql] obtain rn pl g t w ideal win pp av pe qu ap z where
    secs: "fetch_seconds wc a b s = (Inr (rn, pl), s)" and
    cnts: "fetch_counts wc a b s = (Inr (g, t), s)" and
    w: "find_row wc_id wc (t_work_centers s) = Some w" and
    ideal: "pg_float (case wc_ideal_cycle_seconds w of None \<Rightarrow> 0 | Some q \<Rightarrow> q) = Inr ideal" and
    win: "pg_float (of_int (b - a) / 1000000) = Inr win" and
    pp: "pg_sub win pl = Inr pp" and
    av: "sql_ratio (Inr rn) pp s = (Inr av, s)" and
    pe: "sql_ratio (pg_mul ideal t) rn s = (Inr pe, s)" and
    qu: "sql_ratio (Inr g) t s = (Inr qu, s)" and
    ap: "pg_mul av (f64_min pe (Fin 1)) = Inr ap" and z: "pg_mul ap qu = Inr z" and
    r: "r = \<lparr>availability = av, performance = f64_min pe (Fin 1), quality = qu, oee_value = z\<rparr>" .
  have zero: "pg_float 0 = Inr (Fin 0)" by (simp add: pg_float_def round_f64_def round_val_def pg_checked_def)
  let ?i = "\<lparr>planned_production_s = f64_sub win pl, run_s = rn, ideal_cycle_s = ideal, total_count = t, good_count = g\<rparr>"
  have "win = round_f64 (of_int (b - a) / 1000000)"
    using win by (auto simp: pg_float_def dest: pg_checked_InrD)
  then have "f64_div (round_f64 (of_int (num_milliseconds (b - a)))) (Fin 1000) = win"
    using window_agrees [OF window] by simp
  moreover have "(case wc_ideal_cycle_seconds w of None \<Rightarrow> ret (Fin 0) | Some q \<Rightarrow> fetched (pg_float q)) s = (Inr ideal, s)"
    using ideal zero by (auto simp: fetched_def ret_def split: option.splits)
  ultimately have inputs: "oee_inputs wc a b s = (Inr ?i, s)"
    using w by (simp add: oee_inputs_def andThen_eval secs cnts gets_eval ret_eval)
  have "f64_sub win pl = pp" using pp by (auto simp: pg_sub_def dest!: pg_checked_InrD)
  moreover have "av = ratio rn pp" using sql_ratio_InrD [OF av] by simp
  moreover have "qu = ratio g t" using sql_ratio_InrD [OF qu] by simp
  moreover have "pe = ratio (f64_mul ideal t) rn"
    using sql_ratio_InrD [OF pe, of "f64_mul ideal t"] by (auto simp: pg_mul_def dest: pg_checked_InrD)
  moreover have "ap = f64_mul av (f64_min pe (Fin 1))" "z = f64_mul ap qu"
    using ap z by (auto simp: pg_mul_def dest!: pg_checked_InrD)
  ultimately have "compute ?i = r" by (simp add: compute_def Let_def r)
  with inputs show ?thesis by blast
qed

section \<open>Samples\<close>

theorem oee_bounds_witness:
  "\<exists>a p q z. compute \<lparr>planned_production_s = Fin 27000, run_s = Fin 21600, ideal_cycle_s = Fin 20,
       total_count = Fin 810, good_count = Fin 729\<rparr> =
     \<lparr>availability = Fin a, performance = Fin p, quality = Fin q, oee_value = Fin z\<rparr> \<and> 0 \<le> z \<and> z \<le> q \<and> q \<le> 1"
  using oee_bounds [of "\<lparr>planned_production_s = Fin 27000, run_s = Fin 21600, ideal_cycle_s = Fin 20,
       total_count = Fin 810, good_count = Fin 729\<rparr>" 21600 27000 20 810 729]
  by force

definition sample_running :: ingest_db where
  "sample_running = sample_ingest\<lparr>t_machine_states :=
     [\<lparr>ms_id = ''S1'', ms_work_center_id = ''M1'', ms_state = ''running'', ms_start = 0, ms_end = 2000000\<rparr>]\<rparr>"

theorem oee_paths_agree_witness:
  "\<exists>r i. oee_sql ''M1'' 0 1000000 sample_running = (Inr r, sample_running) \<and> availability r = Fin 1 \<and>
     oee_inputs ''M1'' 0 1000000 sample_running = (Inr i, sample_running) \<and> compute i = r"
proof -
  obtain r where run: "oee_sql ''M1'' 0 1000000 sample_running = (Inr r, sample_running)"
    and av: "availability r = Fin 1"
    by (simp add: oee_sql_def fetch_seconds_def fetch_counts_def fetched_def state_seconds_def counts_in_def
        pg_float_def pg_checked_def pg_mul_def pg_div_def pg_sub_def sql_ratio_def f64_mul_def f64_div_def
        f64_sub_def f64_less_def f64_min_def round_f64_numeral prog_simps table_simps sample_running_def
        sample_ingest_defs)
  from oee_paths_agree [OF run] run av show ?thesis by auto
qed

end
