(* ===== verification/Pareto.thy ===== *)
theory Pareto
  imports Orders "HOL-Library.Multiset"
begin

text \<open>
  Downtime analytics: the ranking of \<^verbatim>\<open>mes-core/src/analytics.rs\<close>, the aggregation queries of
  \<^verbatim>\<open>mes-db/src/repo_analytics.rs\<close> and their endpoints in \<^verbatim>\<open>mes-edge/src/analytics.rs\<close>.
\<close>

section \<open>Ranking\<close>

record pareto_input =
  pi_key :: string
  pi_label :: string
  pi_seconds :: int

record pareto_row =
  pr_key :: string
  pr_label :: string
  pr_seconds :: int
  pr_pct :: f64
  pr_cumulative_pct :: f64

text \<open>64-bit sums wrap around.\<close>

definition wrap64 :: "int \<Rightarrow> int" where
  "wrap64 n = (n + 2 ^ 63) mod 2 ^ 64 - 2 ^ 63"

definition share :: "int \<Rightarrow> int \<Rightarrow> f64" where
  "share part whole =
     f64_div (f64_mul (round_f64 (of_int part)) (Fin 100)) (round_f64 (of_int whole))"

fun pareto_rows :: "int \<Rightarrow> int \<Rightarrow> pareto_input list \<Rightarrow> pareto_row list" where
  "pareto_rows whole running [] = []"
| "pareto_rows whole running (i # is) =
     (let running' = wrap64 (running + pi_seconds i) in
      \<lparr>pr_key = pi_key i, pr_label = pi_label i, pr_seconds = pi_seconds i,
       pr_pct = share (pi_seconds i) whole, pr_cumulative_pct = share running' whole\<rparr>
      # pareto_rows whole running' is)"

definition pareto :: "pareto_input list \<Rightarrow> pareto_row list" where
  "pareto inputs =
     (let kept = filter (\<lambda>i. pi_seconds i > 0) inputs;
          ranked = sort_key (\<lambda>i. (- pi_seconds i, pi_key i)) kept;
          whole = foldl (\<lambda>acc i. wrap64 (acc + pi_seconds i)) 0 ranked
      in if whole = 0 then [] else pareto_rows whole 0 ranked)"

section \<open>Aggregation\<close>

text \<open>The conversion of a decimal to a 64-bit integer rounds halves away from zero.\<close>

definition to_bigint :: "rat \<Rightarrow> int" where
  "to_bigint q = (if q \<ge> 0 then \<lfloor>q + 1 / 2\<rfloor> else - \<lfloor>1 / 2 - q\<rfloor>)"

definition event_seconds :: "downtime_row list \<Rightarrow> int" where
  "event_seconds es = to_bigint (sum_list (map (\<lambda>e. of_int (dt_end e - dt_start e) / 1000000) es))"

text \<open>
  Grouping: one output per distinct key among the selected rows.  The query leaves the order of the
  groups open; they are taken in the order of their first row.
\<close>

definition group_seconds :: "('k \<Rightarrow> pareto_input) \<Rightarrow> ('k \<times> downtime_row) list \<Rightarrow> pareto_input list" where
  "group_seconds mk rows =
     map (\<lambda>k. (mk k)\<lparr>pi_seconds := event_seconds (map snd (filter (\<lambda>p. fst p = k) rows))\<rparr>)
       (remdups (map fst rows))"

definition reason_of :: "'s orders_db_scheme \<Rightarrow> downtime_row \<Rightarrow> reason_row option" where
  "reason_of s e = Option.bind (dt_reason_id e) (\<lambda>i. find_row rs_id i (t_downtime_reasons s))"

definition downtime_in :: "timestamp \<Rightarrow> timestamp \<Rightarrow> 's orders_db_scheme \<Rightarrow> downtime_row list" where
  "downtime_in a b s = filter (\<lambda>e. a \<le> dt_start e \<and> dt_start e < b) (t_downtime_events s)"

definition downtime_pareto ::
  "timestamp \<Rightarrow> timestamp \<Rightarrow> ('s orders_db_scheme, repo_error, pareto_input list) prog" where
  "downtime_pareto a b =
     gets (\<lambda>s. group_seconds (\<lambda>(code, label). \<lparr>pi_key = code, pi_label = label, pi_seconds = 0\<rparr>)
       (List.map_filter (\<lambda>e. map_option (\<lambda>r. ((rs_code r, rs_label r), e)) (reason_of s e)) (downtime_in a b s)))"

definition downtime_by_loss ::
  "timestamp \<Rightarrow> timestamp \<Rightarrow> ('s orders_db_scheme, repo_error, pareto_input list) prog" where
  "downtime_by_loss a b =
     gets (\<lambda>s. group_seconds (\<lambda>loss. \<lparr>pi_key = loss, pi_label = loss, pi_seconds = 0\<rparr>)
       (List.map_filter (\<lambda>e. map_option (\<lambda>l. (l, e)) (Option.bind (reason_of s e) rs_six_big_loss))
          (downtime_in a b s)))"

definition downtime_trend ::
  "timestamp \<Rightarrow> timestamp \<Rightarrow> ('s orders_db_scheme, repo_error, (timestamp \<times> int) list) prog" where
  "downtime_trend a b =
     gets (\<lambda>s. let es = downtime_in a b s; day = (\<lambda>e. dt_start e - dt_start e mod days 1) in
       map (\<lambda>d. (d, event_seconds (filter (\<lambda>e. day e = d) es))) (sort (remdups (map day es))))"

section \<open>Endpoints\<close>

definition downtime_pareto_handler ::
  "auth_user \<Rightarrow> timestamp \<Rightarrow> timestamp \<Rightarrow> ('s orders_db_scheme, api_err, pareto_row list) prog" where
  "downtime_pareto_handler u a b =
     andThen require_pool (\<lambda>_.
     andThen (mapErr repo_err (downtime_pareto a b)) (\<lambda>inputs.
     ret (pareto inputs)))"

definition six_big_losses ::
  "auth_user \<Rightarrow> timestamp \<Rightarrow> timestamp \<Rightarrow> ('s orders_db_scheme, api_err, pareto_row list) prog" where
  "six_big_losses u a b =
     andThen require_pool (\<lambda>_.
     andThen (mapErr repo_err (downtime_by_loss a b)) (\<lambda>inputs.
     ret (pareto inputs)))"

definition downtime_trend_handler ::
  "auth_user \<Rightarrow> timestamp \<Rightarrow> timestamp \<Rightarrow> ('s orders_db_scheme, api_err, (timestamp \<times> int) list) prog" where
  "downtime_trend_handler u a b =
     andThen require_pool (\<lambda>_.
     mapErr repo_err (downtime_trend a b))"

section \<open>Seeding\<close>

definition analytics_map_sqlx :: "sqlx_error \<Rightarrow> repo_error" where
  "analytics_map_sqlx e = (case e of RowNotFound \<Rightarrow> NotFound | _ \<Rightarrow> DbError e)"

definition create_loss_reason ::
  "string \<Rightarrow> string \<Rightarrow> string \<Rightarrow> string option \<Rightarrow> string option \<Rightarrow> ('s orders_db_scheme, repo_error, string) prog" where
  "create_loss_reason nid code label six_big_loss parent_id =
     andThen
       (sql_exec_by analytics_map_sqlx
          (\<lambda>s. [(has_key rs_id nid (t_downtime_reasons s), dup_key ''downtime_reasons_pkey''),
                (has_key rs_code code (t_downtime_reasons s), dup_key ''downtime_reasons_code_key''),
                (parent_id \<noteq> Some nid \<and> missing_ref rs_id parent_id (t_downtime_reasons s),
                 bad_ref ''downtime_reasons'' ''downtime_reasons_parent_id_fkey'')])
          (\<lambda>s. s\<lparr>t_downtime_reasons := t_downtime_reasons s @
                 [\<lparr>rs_id = nid, rs_code = code, rs_label = label, rs_parent_id = parent_id,
                   rs_six_big_loss = six_big_loss\<rparr>]\<rparr>))
       (\<lambda>_. ret nid)"

definition insert_downtime_event ::
  "string \<Rightarrow> timestamp \<Rightarrow> string \<Rightarrow> string \<Rightarrow> timestamp \<Rightarrow> timestamp \<Rightarrow> string option
    \<Rightarrow> ('s orders_db_scheme, repo_error, string) prog" where
  "insert_downtime_event nid now wc st a b reason_id =
     andThen
       (sql_exec_by analytics_map_sqlx
          (\<lambda>s. [(has_key dt_id nid (t_downtime_events s), dup_key ''downtime_events_pkey''),
                (\<not> has_key wc_id wc (t_work_centers s),
                 bad_ref ''downtime_events'' ''downtime_events_work_center_id_fkey''),
                (missing_ref rs_id reason_id (t_downtime_reasons s),
                 bad_ref ''downtime_events'' ''downtime_events_reason_id_fkey'')])
          (\<lambda>s. s\<lparr>t_downtime_events := t_downtime_events s @
                 [\<lparr>dt_id = nid, dt_work_center_id = wc, dt_state = st, dt_start = a, dt_end = b,
                   dt_reason_id = reason_id, dt_classified_by = None, dt_classified_at = None,
                   dt_created_at = now\<rparr>]\<rparr>))
       (\<lambda>_. ret nid)"

section \<open>Correctness of the ranking\<close>

lemma wrap64_id: "0 \<le> n \<Longrightarrow> n \<le> 2 ^ 46 \<Longrightarrow> wrap64 n = n"
  by (simp add: wrap64_def)

text \<open>Up to this size a share is the exact quotient, rounded once.\<close>

lemma share_exact:
  assumes "0 \<le> part" "part \<le> whole" "0 < whole" "whole \<le> 2 ^ 46"
  shows "share part whole = Fin (round_val (100 * of_int part / of_int whole))"
    "round_val (100 * of_int part / of_int whole) \<le> 100"
proof -
  have small: "\<bar>part\<bar> \<le> 2 ^ 53" "\<bar>whole\<bar> \<le> 2 ^ 53" "\<bar>part * 100\<bar> \<le> 2 ^ 53"
    using assms by simp_all
  have mul: "f64_mul (Fin (of_int part)) (Fin 100) = Fin (of_int (part * 100))"
    using round_f64_int [OF small(3)] by (simp add: f64_mul_def)
  have "0 \<le> 100 * of_int part / (of_int whole :: rat)" using assms by simp
  moreover have "100 * of_int part / (of_int whole :: rat) \<le> 100"
    using assms by (simp add: divide_le_eq)
  ultimately have unit: "round_f64 (100 * of_int part / of_int whole) = Fin (round_val (100 * of_int part / of_int whole))"
    "round_val (100 * of_int part / of_int whole) \<le> 100"
    using round_f64_unit [of "100 * of_int part / of_int whole" 100] is_f64_consts(3) by simp_all
  show "share part whole = Fin (round_val (100 * of_int part / of_int whole))"
    unfolding share_def round_f64_int [OF small(1)] round_f64_int [OF small(2)] mul
    using assms(3) unit(1) by (simp add: f64_div_def mult.commute)
  show "round_val (100 * of_int part / of_int whole) \<le> 100" by (rule unit(2))
qed

lemma pareto_rows_fields:
  "length (pareto_rows whole running is) = length is"
  "map pr_key (pareto_rows whole running is) = map pi_key is"
  "map pr_label (pareto_rows whole running is) = map pi_label is"
  "map pr_seconds (pareto_rows whole running is) = map pi_seconds is"
  by (induction "is" arbitrary: running) (simp_all add: Let_def)

lemma pareto_rows_nth:
  assumes "n < length is" "\<And>i. i \<in> set is \<Longrightarrow> 0 < pi_seconds i"
    and "0 \<le> running" "running + sum_list (map pi_seconds is) \<le> 2 ^ 46"
  shows "pr_pct (pareto_rows whole running is ! n) = share (pi_seconds (is ! n)) whole \<and>
    pr_cumulative_pct (pareto_rows whole running is ! n) =
       share (running + sum_list (map pi_seconds (take (Suc n) is))) whole"
  using assms
proof (induction "is" arbitrary: running n)
  case (Cons i "is")
  have "0 \<le> sum_list (map pi_seconds is)"
    using Cons.prems(2) by (intro sum_list_nonneg) (auto simp: less_imp_le)
  moreover have i: "0 < pi_seconds i" using Cons.prems(2) by simp
  ultimately have wrap: "wrap64 (running + pi_seconds i) = running + pi_seconds i"
    using Cons.prems(3,4) by (intro wrap64_id) simp_all
  show ?case
  proof (cases n)
    case (Suc m)
    have "0 \<le> running + pi_seconds i" using Cons.prems(3) i by linarith
    moreover have "m < length is" "\<And>j. j \<in> set is \<Longrightarrow> 0 < pi_seconds j"
      "running + pi_seconds i + sum_list (map pi_seconds is) \<le> 2 ^ 46"
      using Cons.prems Suc by (simp_all add: add.assoc)
    ultimately have prems: "m < length is" "\<And>j. j \<in> set is \<Longrightarrow> 0 < pi_seconds j" "0 \<le> running + pi_seconds i"
      "running + pi_seconds i + sum_list (map pi_seconds is) \<le> 2 ^ 46"
      by blast+
    from Cons.IH [OF prems] show ?thesis by (simp add: Suc Let_def wrap add.assoc)
  qed (simp add: Let_def wrap)
qed simp

lemma foldl_wrap:
  assumes "\<And>i. i \<in> set is \<Longrightarrow> 0 < pi_seconds i" "0 \<le> acc" "acc + sum_list (map pi_seconds is) \<le> 2 ^ 46"
  shows "foldl (\<lambda>acc i. wrap64 (acc + pi_seconds i)) acc is = acc + sum_list (map pi_seconds is)"
  using assms
proof (induction "is" arbitrary: acc)
  case (Cons i "is")
  have "0 \<le> sum_list (map pi_seconds is)"
    using Cons.prems(1) by (intro sum_list_nonneg) (auto simp: less_imp_le)
  with Cons.prems have "wrap64 (acc + pi_seconds i) = acc + pi_seconds i"
    by (intro wrap64_id) (auto simp: add_nonneg_pos less_imp_le)
  with Cons.IH [of "acc + pi_seconds i"] Cons.prems show ?case
    by (simp add: add.assoc add_nonneg_pos less_imp_le)
qed simp

lemma sum_list_take_le:
  assumes "\<And>x. x \<in> set xs \<Longrightarrow> 0 \<le> (x :: int)"
  shows "0 \<le> sum_list (take n xs) \<and> sum_list (take n xs) \<le> sum_list xs"
proof -
  have "sum_list xs = sum_list (take n xs) + sum_list (drop n xs)"
    by (metis append_take_drop_id sum_list_append)
  moreover have "0 \<le> sum_list (take n xs)" "0 \<le> sum_list (drop n xs)"
    using assms by (auto intro!: sum_list_nonneg dest: in_set_takeD in_set_dropD)
  ultimately show ?thesis by simp
qed

text \<open>The inputs in the order of the ranking, and the sum of their durations.\<close>

definition ranking :: "pareto_input list \<Rightarrow> pareto_input list" where
  "ranking inputs = sort_key (\<lambda>i. (- pi_seconds i, pi_key i)) (filter (\<lambda>i. pi_seconds i > 0) inputs)"

definition ranked_seconds :: "pareto_input list \<Rightarrow> int" where
  "ranked_seconds inputs = sum_list (map pi_seconds (filter (\<lambda>i. pi_seconds i > 0) inputs))"

lemma ranking_facts:
  "mset (ranking inputs) = mset (filter (\<lambda>i. pi_seconds i > 0) inputs)"
  "sum_list (map pi_seconds (ranking inputs)) = ranked_seconds inputs"
  "i \<in> set (ranking inputs) \<Longrightarrow> 0 < pi_seconds i"
  "x \<in> set (map pi_seconds (ranking inputs)) \<Longrightarrow> 0 \<le> x"
proof -
  show perm: "mset (ranking inputs) = mset (filter (\<lambda>i. pi_seconds i > 0) inputs)" by (simp add: ranking_def)
  then show "sum_list (map pi_seconds (ranking inputs)) = ranked_seconds inputs"
    unfolding ranked_seconds_def by (metis mset_map sum_mset_sum_list)
qed (auto simp: ranking_def less_imp_le)

lemma ranked_seconds_pos: "ranking inputs \<noteq> [] \<Longrightarrow> 0 < ranked_seconds inputs"
proof -
  assume "ranking inputs \<noteq> []"
  then obtain i "is" where split: "ranking inputs = i # is" by (meson neq_Nil_conv)
  moreover have "0 \<le> sum_list (map pi_seconds is)"
    by (rule sum_list_nonneg) (use split ranking_facts(4) [of _ inputs] in auto)
  ultimately show ?thesis using ranking_facts(2) [of inputs] ranking_facts(3) [of i inputs] by simp
qed

lemma pareto_eq:
  assumes "ranked_seconds inputs \<le> 2 ^ 46"
  shows "pareto inputs = pareto_rows (ranked_seconds inputs) 0 (ranking inputs)"
proof -
  have "foldl (\<lambda>acc i. wrap64 (acc + pi_seconds i)) 0 (ranking inputs) = ranked_seconds inputs"
    using foldl_wrap [of "ranking inputs" 0] ranking_facts(2) [of inputs] ranking_facts(3) [of _ inputs] assms by simp
  then show ?thesis
    using ranked_seconds_pos [of inputs] unfolding pareto_def ranking_def [symmetric] Let_def
    by (cases "ranking inputs = []") auto
qed

lemma pareto_rows_contents:
  "zip (map pr_key (pareto_rows w 0 xs)) (zip (map pr_label (pareto_rows w 0 xs)) (map pr_seconds (pareto_rows w 0 xs))) =
     map (\<lambda>i. (pi_key i, pi_label i, pi_seconds i)) xs"
  "map (\<lambda>r. (- pr_seconds r, pr_key r)) (pareto_rows w 0 xs) = map (\<lambda>i. (- pi_seconds i, pi_key i)) xs"
proof -
  show "zip (map pr_key (pareto_rows w 0 xs)) (zip (map pr_label (pareto_rows w 0 xs)) (map pr_seconds (pareto_rows w 0 xs))) =
     map (\<lambda>i. (pi_key i, pi_label i, pi_seconds i)) xs"
    unfolding pareto_rows_fields by (induction xs) simp_all
  have "map (\<lambda>r. (- pr_seconds r, pr_key r)) rows = zip (map uminus (map pr_seconds rows)) (map pr_key rows)" for rows
    by (induction rows) simp_all
  also have "zip (map uminus (map pr_seconds (pareto_rows w 0 xs))) (map pr_key (pareto_rows w 0 xs)) =
      map (\<lambda>i. (- pi_seconds i, pi_key i)) xs"
    unfolding pareto_rows_fields by (induction xs) simp_all
  finally show "map (\<lambda>r. (- pr_seconds r, pr_key r)) (pareto_rows w 0 xs) = map (\<lambda>i. (- pi_seconds i, pi_key i)) xs" .
qed

lemma pareto_shares:
  assumes bound: "ranked_seconds inputs \<le> 2 ^ 46" and n: "n < length (pareto inputs)"
  shows "pr_pct (pareto inputs ! n) =
      Fin (round_val (100 * of_int (map pr_seconds (pareto inputs) ! n) / of_int (ranked_seconds inputs)))"
    "pr_cumulative_pct (pareto inputs ! n) =
      Fin (round_val (100 * of_int (sum_list (take (Suc n) (map pr_seconds (pareto inputs)))) / of_int (ranked_seconds inputs)))"
proof -
  let ?xs = "map pi_seconds (ranking inputs)"
  note fields = pareto_rows_fields [of "ranked_seconds inputs" 0 "ranking inputs"]
  have n': "n < length (ranking inputs)" using n fields by (simp add: pareto_eq [OF bound])
  then have whole: "0 < ranked_seconds inputs" by (intro ranked_seconds_pos) auto
  have mem: "?xs ! n \<in> set ?xs" using n' by simp
  have one: "0 \<le> ?xs ! n" "?xs ! n \<le> ranked_seconds inputs"
    using ranking_facts(4) [OF mem] member_le_sum_list [OF mem ranking_facts(4)] by (simp_all add: ranking_facts(2))
  have takes: "0 \<le> sum_list (take (Suc n) ?xs)" "sum_list (take (Suc n) ?xs) \<le> ranked_seconds inputs"
    using sum_list_take_le [of ?xs "Suc n", OF ranking_facts(4), unfolded ranking_facts(2)] by simp_all
  have "pr_pct (pareto inputs ! n) = share (?xs ! n) (ranked_seconds inputs)"
    "pr_cumulative_pct (pareto inputs ! n) = share (sum_list (take (Suc n) ?xs)) (ranked_seconds inputs)"
    using pareto_rows_nth [of n "ranking inputs" 0 "ranked_seconds inputs"] n' ranking_facts(3) [of _ inputs] bound
      ranking_facts(2) [of inputs]
    by (simp_all add: pareto_eq [OF bound] take_map)
  with share_exact(1) [OF one whole bound] share_exact(1) [OF takes whole bound]
  show "pr_pct (pareto inputs ! n) =
      Fin (round_val (100 * of_int (map pr_seconds (pareto inputs) ! n) / of_int (ranked_seconds inputs)))"
    "pr_cumulative_pct (pareto inputs ! n) =
      Fin (round_val (100 * of_int (sum_list (take (Suc n) (map pr_seconds (pareto inputs)))) / of_int (ranked_seconds inputs)))"
    unfolding pareto_eq [OF bound] fields by simp_all
qed

lemma pareto_last:
  assumes bound: "ranked_seconds inputs \<le> 2 ^ 46" and ne: "pareto inputs \<noteq> []"
  shows "pr_cumulative_pct (last (pareto inputs)) = Fin 100"
proof -
  let ?n = "length (pareto inputs) - 1"
  have "ranking inputs \<noteq> []" using ne pareto_rows_fields(1) by (auto simp: pareto_eq [OF bound])
  from ranked_seconds_pos [OF this]
  have "100 * of_int (sum_list (map pr_seconds (pareto inputs))) / of_int (ranked_seconds inputs) = (100 :: rat)"
    by (simp add: pareto_eq [OF bound] pareto_rows_fields ranking_facts(2))
  moreover have "take (Suc ?n) (map pr_seconds (pareto inputs)) = map pr_seconds (pareto inputs)" "?n < length (pareto inputs)"
    using ne by simp_all
  ultimately show ?thesis
    using pareto_shares(2) [OF bound, of ?n] ne round_val_exact [OF is_f64_consts(3)] by (simp add: last_conv_nth)
qed

text \<open>
  C35.  The Pareto ranking is right.  When the positive durations add up to at most 2^46 seconds, the
  rows are exactly the inputs with a positive duration, longest first and ties by key; each share and
  cumulative share is the exact percentage rounded once to a double, and the last cumulative share is
  exactly 100.
\<close>

theorem pareto_correct:
  assumes "sum_list (map pi_seconds (filter (\<lambda>i. pi_seconds i > 0) inputs)) \<le> 2 ^ 46"
  shows "let rows = pareto inputs; kept = filter (\<lambda>i. pi_seconds i > 0) inputs;
      whole = sum_list (map pi_seconds kept); secs = map pr_seconds rows in
    mset (zip (map pr_key rows) (zip (map pr_label rows) secs)) =
      mset (map (\<lambda>i. (pi_key i, pi_label i, pi_seconds i)) kept) \<and>
    sorted (map (\<lambda>r. (- pr_seconds r, pr_key r)) rows) \<and>
    (\<forall>n<length rows.
       pr_pct (rows ! n) = Fin (round_val (100 * of_int (secs ! n) / of_int whole)) \<and>
       pr_cumulative_pct (rows ! n) = Fin (round_val (100 * of_int (sum_list (take (Suc n) secs)) / of_int whole))) \<and>
    (rows \<noteq> [] \<longrightarrow> pr_cumulative_pct (last rows) = Fin 100)"
proof -
  have bound: "ranked_seconds inputs \<le> 2 ^ 46" using assms by (simp add: ranked_seconds_def)
  show ?thesis
    unfolding Let_def ranked_seconds_def [symmetric]
    using pareto_shares [OF bound] pareto_last [OF bound] ranking_facts(1) [of inputs]
    by (auto simp: pareto_eq [OF bound] pareto_rows_contents ranking_def)
qed

theorem pareto_correct_witness:
  "pr_cumulative_pct (last (pareto [\<lparr>pi_key = ''a'', pi_label = ''A'', pi_seconds = 30\<rparr>,
     \<lparr>pi_key = ''b'', pi_label = ''B'', pi_seconds = 70\<rparr>])) = Fin 100"
proof -
  let ?in = "[\<lparr>pi_key = ''a'', pi_label = ''A'', pi_seconds = 30\<rparr>, \<lparr>pi_key = ''b'', pi_label = ''B'', pi_seconds = 70\<rparr>]"
  have "pareto ?in \<noteq> []" by (simp add: pareto_def wrap64_def Let_def)
  moreover have "sum_list (map pi_seconds (filter (\<lambda>i. pi_seconds i > 0) ?in)) \<le> 2 ^ 46" by simp
  from pareto_correct [OF this] have "pareto ?in \<noteq> [] \<longrightarrow> pr_cumulative_pct (last (pareto ?in)) = Fin 100"
    unfolding Let_def by blast
  ultimately show ?thesis by blast
qed

end
