(* ===== verification/Exec.thy ===== *)
theory Exec
  imports Dnc Oee
begin

text \<open>
  Operator execution, the handlers of \<^verbatim>\<open>mes-edge/src/exec.rs\<close>: starting and completing
  operations, booking counts, completing orders, classifying and splitting downtime.  The handlers
  call the order repository, the order transitions, the live effectiveness snapshot and the program
  dispatch, so their state is the state of all of these.
\<close>

section \<open>Inputs\<close>

record count_input =
  ci_good :: int
  ci_scrap :: int
  ci_scrap_reason_id :: "string option"
  ci_ts :: "timestamp option"

record split_input =
  si_at :: int
  si_first_reason_id :: "string option"
  si_second_reason_id :: "string option"

section \<open>Handlers\<close>

definition parse_op_status :: "wo_operation_row \<Rightarrow> ('s, api_err, op_status) prog" where
  "parse_op_status op = okOr (ApiErr 500 ''internal'' ''unknown operation status'') (op_parse (op_st op))"

definition start_op ::
  "(nat \<Rightarrow> string) \<Rightarrow> timestamp \<Rightarrow> auth_user \<Rightarrow> string \<Rightarrow> ('s dnc_db_scheme, api_err, wo_operation_row) prog" where
  "start_op ids now u i =
     andThen require_pool (\<lambda>_.
     andThen (mapErr repo_err (get_operation i)) (\<lambda>op.
     andThen (parse_op_status op) (\<lambda>st.
     andThen (guard (op_can_transition st OpInProgress)
                (ApiErr 409 ''invalid_transition'' ''operation cannot be started from its current status'')) (\<lambda>_.
     andThen (mapErr repo_err (start_operation now i)) (\<lambda>updated.
     andThen (mapErr repo_err (get_work_order (op_work_order_id op))) (\<lambda>wo.
     andThen (if wo_parse (wo_st wo) = Some WoReleased
              then andThen (transition_wo (ids 0) now (user_id u) (op_work_order_id op) WoInProgress) (\<lambda>_. ret ())
              else ret ()) (\<lambda>_.
     andThen (modify (audit (ids 1) now (Some (user_id u)) ''start'' ''wo_operation'' (Some i) None)) (\<lambda>_.
     andThen (modify (publish (OperationStarted (op_work_order_id op) i))) (\<lambda>_.
     ret updated)))))))))"

definition record_count_handler ::
  "string \<Rightarrow> timestamp \<Rightarrow> auth_user \<Rightarrow> string \<Rightarrow> count_input \<Rightarrow> ('s dnc_db_scheme, api_err, wo_operation_row) prog" where
  "record_count_handler nid now u i input =
     andThen require_pool (\<lambda>_.
     andThen (guard (\<not> (ci_good input < 0 \<or> ci_scrap input < 0))
                (ApiErr 400 ''bad_request'' ''counts must be non-negative'')) (\<lambda>_.
     andThen (guard (\<not> (ci_scrap input > 0 \<and> ci_scrap_reason_id input = None))
                (ApiErr 400 ''scrap_reason_required'' ''a scrap_reason_id is required when scrap > 0'')) (\<lambda>_.
     andThen (mapErr repo_err (get_operation i)) (\<lambda>op.
     andThen (okOr (ApiErr 400 ''no_work_center'' ''operation has no work center to attribute counts to'')
                (op_work_center_id op)) (\<lambda>wc.
     andThen (mapErr repo_err (record_count nid now i wc (ci_good input) (ci_scrap input)
                (ci_scrap_reason_id input) (unwrap_or now (ci_ts input)))) (\<lambda>updated.
     andThen (modify (publish (CountRecorded i (ci_good input) (ci_scrap input)))) (\<lambda>_.
     andThen (modify (publish_oee_snapshot now wc)) (\<lambda>_.
     ret updated))))))))"

definition complete_op ::
  "network \<Rightarrow> (nat \<Rightarrow> string) \<Rightarrow> timestamp \<Rightarrow> auth_user \<Rightarrow> string
    \<Rightarrow> ('s dnc_db_scheme, api_err, wo_operation_row) prog" where
  "complete_op net ids now u i =
     andThen require_pool (\<lambda>_.
     andThen (mapErr repo_err (get_operation i)) (\<lambda>op.
     andThen (parse_op_status op) (\<lambda>st.
     andThen (guard (op_can_transition st OpCompleted)
                (ApiErr 409 ''invalid_transition'' ''operation cannot be completed from its current status'')) (\<lambda>_.
     andThen (mapErr repo_err (complete_operation now i)) (\<lambda>updated.
     andThen (modify (audit (ids 0) now (Some (user_id u)) ''complete'' ''wo_operation'' (Some i) None)) (\<lambda>_.
     andThen (modify (publish (OperationCompleted (op_work_order_id op) i))) (\<lambda>_.
     andThen (modify (on_job_complete net (ids 1) now i)) (\<lambda>_.
     ret updated))))))))"

definition complete_wo ::
  "string \<Rightarrow> timestamp \<Rightarrow> auth_user \<Rightarrow> string \<Rightarrow> ('s dnc_db_scheme, api_err, work_order_row) prog" where
  "complete_wo nid now u i = transition_wo nid now (user_id u) i WoCompleted"

definition classify_downtime_handler ::
  "timestamp \<Rightarrow> auth_user \<Rightarrow> string \<Rightarrow> string \<Rightarrow> ('s dnc_db_scheme, api_err, downtime_row) prog" where
  "classify_downtime_handler now u i reason_id =
     andThen require_pool (\<lambda>_.
     andThen (mapErr repo_err (classify_downtime now i reason_id (user_id u))) (\<lambda>event.
     andThen (modify (publish (DowntimeClassified i reason_id))) (\<lambda>_.
     ret event)))"

definition publish_classified :: "downtime_row \<Rightarrow> 's mes_base_scheme \<Rightarrow> 's mes_base_scheme" where
  "publish_classified ev s =
     (case dt_reason_id ev of None \<Rightarrow> s | Some reason \<Rightarrow> publish (DowntimeClassified (dt_id ev) reason) s)"

definition split_downtime_handler ::
  "string \<Rightarrow> timestamp \<Rightarrow> auth_user \<Rightarrow> string \<Rightarrow> split_input \<Rightarrow> ('s dnc_db_scheme, api_err, downtime_row list) prog" where
  "split_downtime_handler nid now u i input =
     andThen require_pool (\<lambda>_.
     andThen (mapErr repo_err (split_downtime nid now i (si_at input) (si_first_reason_id input)
                (si_second_reason_id input) (user_id u))) (\<lambda>(first, second).
     andThen (modify (fold publish_classified [first, second])) (\<lambda>_.
     ret [first, second])))"

section \<open>The shop floor\<close>

text \<open>
  Everything that reaches orders, operations, counts, machine data and transfers: one step is one
  request, with any arguments, whether it succeeds or not.
\<close>

inductive floor_step :: "'s dnc_db_scheme \<Rightarrow> 's dnc_db_scheme \<Rightarrow> bool" where
  create: "floor_step s (snd (create_order w ids now u input s))"
| release: "floor_step s (snd (release_order nid now u i s))"
| cancel: "floor_step s (snd (cancel_order nid now u i s))"
| close: "floor_step s (snd (close_order nid now u i s))"
| start: "floor_step s (snd (start_op ids now u i s))"
| count: "floor_step s (snd (record_count_handler nid now u i c s))"
| complete: "floor_step s (snd (complete_op net ids now u i s))"
| finish: "floor_step s (snd (complete_wo nid now u i s))"
| classify: "floor_step s (snd (classify_downtime_handler now u i reason s))"
| split: "floor_step s (snd (split_downtime_handler nid now u i sp s))"
| signals: "floor_step s (snd (ingest_signals ids u sigs s))"
| recompute: "floor_step s (snd (recompute ids now u wc a b s))"
| transfer: "floor_step s (snd (manual_transfer net nid now u pid machine wop s))"
| retry: "floor_step s (snd (retry_transfer net nid now u i s))"
| daemon: "floor_step s (snd (handle_daemon_event nid now ev s))"
| promote: "floor_step s (snd (promote_revision nid now u i s))"
| reject: "floor_step s (snd (reject_revision nid now u i s))"

abbreviation floor_run :: "'s dnc_db_scheme \<Rightarrow> 's dnc_db_scheme \<Rightarrow> bool" where
  "floor_run \<equiv> floor_step\<^sup>*\<^sup>*"

definition op_status_of :: "'s orders_db_scheme \<Rightarrow> string \<Rightarrow> string option" where
  "op_status_of s i = map_option op_st (find_row op_id i (t_wo_operations s))"

text \<open>An operation carries the timestamps of exactly the stages it went through.\<close>

definition op_stamped :: "wo_operation_row \<Rightarrow> bool" where
  "op_stamped r \<longleftrightarrow>
     (case op_parse (op_st r) of
        None \<Rightarrow> False
      | Some OpPending \<Rightarrow> op_started_at r = None \<and> op_completed_at r = None
      | Some OpInProgress \<Rightarrow> op_started_at r \<noteq> None \<and> op_completed_at r = None
      | Some OpCompleted \<Rightarrow> op_started_at r \<noteq> None \<and> op_completed_at r \<noteq> None)"

definition ops_stamped :: "'s orders_db_scheme \<Rightarrow> bool" where
  "ops_stamped s \<longleftrightarrow> distinct (map op_id (t_wo_operations s)) \<and> (\<forall>r\<in>set (t_wo_operations s). op_stamped r)"

lemma oee_inputs_state: "snd (oee_inputs wc a b s) = s"
proof -
  have "preserves (\<lambda>t. t = s) (oee_inputs wc a b)"
    unfolding oee_inputs_def fetch_seconds_def fetch_counts_def fetched_def Let_def
    by (intro preserves_rules; auto intro!: preserves_rules split: prod.split option.split sum.split)
  from preservesD [OF this refl] show ?thesis .
qed

lemma snapshot_frame:
  "t_work_orders (publish_oee_snapshot now wc s) = t_work_orders s"
  "t_wo_operations (publish_oee_snapshot now wc s) = t_wo_operations s"
  "t_production_counts (publish_oee_snapshot now wc s) = t_production_counts s"
  using oee_inputs_state [of wc "day_start now" now s]
  by (auto simp: publish_oee_snapshot_def Let_def split: prod.split sum.split)

text \<open>
  What a predicate must promise to hold under every step: it does not look beyond orders,
  operations and counts, and the statements that write these tables keep it.
\<close>

locale floor_predicate =
  fixes I :: "'s dnc_db_scheme \<Rightarrow> bool"
  assumes about: "t_work_orders s' = t_work_orders s \<Longrightarrow> t_wo_operations s' = t_wo_operations s \<Longrightarrow>
      t_production_counts s' = t_production_counts s \<Longrightarrow> I s \<Longrightarrow> I s'"
    and create_keeps: "preserves I (create_work_order w ids now input)"
    and transition_keeps: "preserves I (transition_wo nid now actor i x)"
    and count_keeps: "I s \<Longrightarrow> find_row op_id i (t_wo_operations s) = Some r \<Longrightarrow> op_work_center_id r = Some wc \<Longrightarrow>
      0 \<le> good \<Longrightarrow> 0 \<le> scrap \<Longrightarrow> I (snd (record_count nid now i wc good scrap reason ts s))"
    and intake_keeps: "preserves I (ingest_signals ids u sigs)"
    and start_keeps: "I s \<Longrightarrow> find_row op_id i (t_wo_operations s) = Some r \<Longrightarrow> op_st r = op_as_str OpPending \<Longrightarrow>
      I (s\<lparr>t_wo_operations := update_where (\<lambda>r. op_id r = i) (op_start now) (t_wo_operations s)\<rparr>)"
    and complete_keeps: "I s \<Longrightarrow> find_row op_id i (t_wo_operations s) = Some r \<Longrightarrow> op_st r = op_as_str OpInProgress \<Longrightarrow>
      I (s\<lparr>t_wo_operations := update_where (\<lambda>r. op_id r = i) (op_complete now) (t_wo_operations s)\<rparr>)"
begin

lemma elsewhere:
  assumes "\<And>s. t_work_orders (snd (m s)) = t_work_orders s \<and> t_wo_operations (snd (m s)) = t_wo_operations s \<and>
    t_production_counts (snd (m s)) = t_production_counts s"
  shows "preserves I m"
  using assms by (intro preservesI) (metis about)

lemma keeps_audit: "preserves I (modify (audit n t a b c d e))"
  by (rule elsewhere) (simp add: modify_def)

lemma keeps_publish: "preserves I (modify (publish e))"
  by (rule elsewhere) (simp add: modify_def)

lemma keeps_sql_exec:
  assumes "\<And>s. t_work_orders (f s) = t_work_orders s \<and> t_wo_operations (f s) = t_wo_operations s \<and>
    t_production_counts (f s) = t_production_counts s"
  shows "preserves I (sql_exec v f)" "preserves I (sql_exec_by m v f)"
  using assms by (auto intro!: preserves_sql_exec preserves_sql_exec_by intro: about)

lemma keeps_sql_update:
  assumes "\<And>s. t_work_orders (f s) = t_work_orders s \<and> t_wo_operations (f s) = t_wo_operations s \<and>
    t_production_counts (f s) = t_production_counts s"
  shows "preserves I (sql_update row v upd f)"
  using assms by (auto intro!: preserves_sql_update intro: about)

lemma keeps_modify:
  assumes "\<And>s. t_work_orders (f s) = t_work_orders s \<and> t_wo_operations (f s) = t_wo_operations s \<and>
    t_production_counts (f s) = t_production_counts s"
  shows "preserves I (modify f)"
  by (rule elsewhere) (simp add: modify_def assms)

lemma keeps_downtime:
  "preserves I (classify_downtime now i r c)"
  "preserves I (split_downtime nid now i at1 r1 r2 c)"
  unfolding classify_downtime_def split_downtime_def update_downtime_def insert_downtime_def get_downtime_event_def
  by (intro preserves_rules keeps_sql_exec keeps_sql_update; simp)+

lemma keeps_recompute: "preserves I (recompute ids now u wc a b)"
  unfolding recompute_def recompute_states_def replace_derived_def fetch_cycle_pulses_def
    fetch_planned_intervals_def Let_def
  by (intro preserves_rules keeps_sql_exec keeps_modify) (auto simp: insert_machine_state_def insert_stop_def
    intro!: preserves_rules keeps_sql_exec keeps_modify split: prod.split)

lemma keeps_send: "preserves I (send_command net cmd)"
  by (rule elsewhere) (simp add: send_command_def split: prod.split)

lemma keeps_create_transfer: "preserves I (create_transfer nid now op pid dir ref)"
  unfolding create_transfer_def Let_def by (intro preserves_rules keeps_sql_exec) simp

lemma keeps_schedule: "preserves I (schedule_transfer net nid now pid ident machine wop)"
  unfolding schedule_transfer_def
  by (intro preserves_rules keeps_send keeps_create_transfer keeps_publish)

lemma keeps_job_complete: "preserves I (modify (on_job_complete net nid now i))"
  by (rule preserves_modify)
    (auto simp: on_job_complete_def resolve_next_transfer_def gets_def
      intro: preservesD [OF keeps_schedule] split: option.split)

lemma keeps_transfers:
  "preserves I (manual_transfer net nid now u pid machine wop)"
  "preserves I (retry_transfer net nid now u i)"
  unfolding manual_transfer_def retry_transfer_def get_transfer_def program_dispatch_info_def
  by (intro preserves_rules; auto intro!: preserves_rules keeps_schedule split: prod.split)+

lemma keeps_revisions:
  "preserves I (promote_revision nid now u i)"
  "preserves I (reject_revision nid now u i)"
  unfolding promote_revision_def reject_revision_def transition_revision_def get_revision_def set_revision_status_def
  by (intro preserves_rules keeps_audit keeps_sql_update; simp)+

lemma keeps_daemon: "preserves I (handle_daemon_event nid now ev)"
  unfolding handle_daemon_event_def set_transfer_status_def find_open_transfer_by_ref_def
    find_program_id_by_identifier_def create_draft_revision_def insert_revision_def
  by (intro preserves_rules)
    (auto intro!: preserves_rules keeps_publish keeps_sql_update keeps_sql_exec split: dnc_event.split option.split)

lemma keeps_snapshot: "preserves I (modify (publish_oee_snapshot now wc))"
  by (rule keeps_modify) (simp add: snapshot_frame)

lemma keeps_start: "preserves I (start_op ids now u i)"
proof (rule preservesI)
  fix s assume "I s"
  define rest :: "wo_operation_row \<Rightarrow> wo_operation_row \<Rightarrow> ('s dnc_db_scheme, api_err, wo_operation_row) prog"
    where "rest op updated =
     andThen (mapErr repo_err (get_work_order (op_work_order_id op))) (\<lambda>wo.
     andThen (if wo_parse (wo_st wo) = Some WoReleased
              then andThen (transition_wo (ids 0) now (user_id u) (op_work_order_id op) WoInProgress) (\<lambda>_. ret ())
              else ret ()) (\<lambda>_.
     andThen (modify (audit (ids 1) now (Some (user_id u)) ''start'' ''wo_operation'' (Some i) None)) (\<lambda>_.
     andThen (modify (publish (OperationStarted (op_work_order_id op) i))) (\<lambda>_.
     ret updated))))" for op updated
  have rest: "preserves I (rest op updated)" for op updated
    unfolding rest_def get_work_order_def
    by (intro preserves_rules transition_keeps keeps_audit keeps_publish)
  show "I (snd (start_op ids now u i s))"
    unfolding start_op_def rest_def [symmetric]
    using \<open>I s\<close> start_keeps [OF \<open>I s\<close>, of i] preservesD [OF rest]
    by (auto simp: prog_simps parse_op_status_def start_operation_def update_operation_def op.parse_iff
        op_can_transition_def split: option.split)
qed

lemma keeps_complete: "preserves I (complete_op net ids now u i)"
proof (rule preservesI)
  fix s assume "I s"
  define rest :: "wo_operation_row \<Rightarrow> wo_operation_row \<Rightarrow> ('s dnc_db_scheme, api_err, wo_operation_row) prog"
    where "rest op updated =
     andThen (modify (audit (ids 0) now (Some (user_id u)) ''complete'' ''wo_operation'' (Some i) None)) (\<lambda>_.
     andThen (modify (publish (OperationCompleted (op_work_order_id op) i))) (\<lambda>_.
     andThen (modify (on_job_complete net (ids 1) now i)) (\<lambda>_.
     ret updated)))" for op updated
  have rest: "preserves I (rest op updated)" for op updated
    unfolding rest_def by (intro preserves_rules keeps_job_complete keeps_audit keeps_publish)
  show "I (snd (complete_op net ids now u i s))"
    unfolding complete_op_def rest_def [symmetric]
    using \<open>I s\<close> complete_keeps [OF \<open>I s\<close>, of i] preservesD [OF rest]
    by (auto simp: prog_simps parse_op_status_def complete_operation_def update_operation_def op.parse_iff
        op_can_transition_def split: option.split)
qed

lemma keeps_count: "preserves I (record_count_handler nid now u i c)"
proof (rule preservesI)
  fix s assume "I s"
  define rest :: "string \<Rightarrow> wo_operation_row \<Rightarrow> ('s dnc_db_scheme, api_err, wo_operation_row) prog"
    where "rest wc updated =
     andThen (modify (publish (CountRecorded i (ci_good c) (ci_scrap c)))) (\<lambda>_.
     andThen (modify (publish_oee_snapshot now wc)) (\<lambda>_. ret updated))" for wc updated
  have rest: "preserves I (rest wc updated)" for wc updated
    unfolding rest_def by (intro preserves_rules keeps_publish keeps_snapshot)
  show "I (snd (record_count_handler nid now u i c s))"
    unfolding record_count_handler_def get_operation_def rest_def [symmetric]
    using \<open>I s\<close> count_keeps [OF \<open>I s\<close>, of i _ _ "ci_good c" "ci_scrap c"] preservesD [OF rest]
    by (auto simp: prog_simps not_less split: option.split prod.split sum.split) (metis snd_conv)+
qed

lemma keeps_orders:
  "preserves I (create_order w ids now u input)"
  "preserves I (release_order nid now u i)"
  "preserves I (cancel_order nid now u i)"
  "preserves I (close_order nid now u i)"
  "preserves I (complete_wo nid now u i)"
  unfolding create_order_def release_order_def cancel_order_def close_order_def complete_wo_def
  by (intro preserves_rules create_keeps transition_keeps keeps_audit)+

lemma keeps_downtime_handlers:
  "preserves I (classify_downtime_handler now u i reason)"
  "preserves I (split_downtime_handler nid now u i sp)"
  unfolding classify_downtime_handler_def split_downtime_handler_def
  by (intro preserves_rules keeps_downtime keeps_publish;
      auto intro!: preserves_rules keeps_modify simp: publish_classified_def split: prod.split option.split)+

lemmas keeps_handlers = keeps_orders keeps_start keeps_count keeps_complete keeps_downtime_handlers
  intake_keeps keeps_recompute keeps_transfers keeps_daemon keeps_revisions

lemma step_keeps: "floor_step s s' \<Longrightarrow> I s \<Longrightarrow> I s'"
  by (induction rule: floor_step.induct) (erule preservesD [rotated], rule keeps_handlers)+

lemma run_keeps: "floor_run s s' \<Longrightarrow> I s \<Longrightarrow> I s'"
  by (induction rule: rtranclp_induct) (auto intro: step_keeps)

end

section \<open>The predicates kept on the floor\<close>

text \<open>Intake touches neither orders nor operations, and creating an order only adds rows.\<close>

definition about_orders :: "('s orders_db_scheme \<Rightarrow> bool) \<Rightarrow> bool" where
  "about_orders I \<longleftrightarrow> (\<forall>s s'. t_work_orders s' = t_work_orders s \<and> t_wo_operations s' = t_wo_operations s \<longrightarrow> I s \<longrightarrow> I s')"

lemma about_ordersD:
  "about_orders I \<Longrightarrow> t_work_orders s' = t_work_orders s \<Longrightarrow> t_wo_operations s' = t_wo_operations s \<Longrightarrow> I s \<Longrightarrow> I s'"
  unfolding about_orders_def by blast

text \<open>Intake adds machine events and counts that belong to no operation.\<close>

lemma unbooked_ingest:
  assumes event: "\<And>r s. I s \<Longrightarrow> I (s\<lparr>t_machine_events := t_machine_events s @ [r]\<rparr>)"
    and unbooked: "\<And>r s. I s \<Longrightarrow> pc_wo_operation_id r = None \<Longrightarrow> I (s\<lparr>t_production_counts := t_production_counts s @ [r]\<rparr>)"
  shows "preserves I (ingest_signals ids u sigs)"
proof -
  have persist: "preserves I (persist_signal nid r g)" for nid r g
    unfolding persist_signal_def insert_machine_event_def insert_production_count_def
    by (cases "sg_event g") (auto intro!: preserves_sql_exec_by event unbooked)
  have "preserves I (ingest_loop ids cache a d sigs)" for cache a d
  proof (induction sigs arbitrary: cache a d)
    case (Cons g sigs)
    then show ?case
      by (auto intro!: preserves_rules persist simp: lookup_source_def resolve_source_def split: option.split)
  qed (auto intro: preserves_rules)
  then show ?thesis unfolding ingest_signals_def by (intro preserves_rules)
qed

lemma about_ingest:
  assumes "about_orders (I :: 's ingest_db_scheme \<Rightarrow> bool)"
  shows "preserves I (ingest_signals ids u sigs)"
  by (rule unbooked_ingest) (auto elim: about_ordersD [OF assms, rotated 2])

lemma new_operation_key: "op_id (new_operation nid now wo oi) = nid"
  by (simp add: new_operation_def)

lemma about_create:
  assumes "about_orders I"
    and "\<And>r s. I s \<Longrightarrow> \<not> has_key wo_id (wo_id r) (t_work_orders s) \<Longrightarrow> I (s\<lparr>t_work_orders := t_work_orders s @ [r]\<rparr>)"
    and "\<And>nid wo oi s. I s \<Longrightarrow> \<not> has_key op_id nid (t_wo_operations s) \<Longrightarrow>
      I (s\<lparr>t_wo_operations := t_wo_operations s @ [new_operation nid now wo oi]\<rparr>)"
  shows "preserves I (create_work_order w ids now input)"
proof -
  have "preserves I (insert_work_order r)" for r
    unfolding insert_work_order_def by (rule preserves_sql_exec) (auto intro: assms(2))
  moreover have "preserves I (insert_operation (new_operation nid now wo oi))" for nid wo oi
    unfolding insert_operation_def
    by (intro preserves_rules preserves_sql_exec) (auto intro!: assms(3) simp: new_operation_key)
  moreover have "preserves I (enqueue a b c d e f g)" for a b c d e f g
    unfolding enqueue_def
    by (intro preserves_rules preserves_sql_exec) (auto elim: about_ordersD [OF assms(1), rotated 2])
  ultimately show ?thesis
    unfolding create_work_order_def by (intro preserves_rules) (auto intro: preserves_rules)
qed

lemma about_count:
  assumes "about_orders I"
    and "\<And>g sc now i s. I s \<Longrightarrow>
      I (s\<lparr>t_wo_operations := update_where (\<lambda>r. op_id r = i) (op_add_counts g sc now) (t_wo_operations s)\<rparr>)"
  shows "preserves I (record_count nid now i wc good scrap reason ts)"
  unfolding record_count_def insert_production_count_row_def update_operation_def
  by (intro preserves_rules preserves_sql_exec preserves_sql_update)
    (auto intro: assms(2) elim: about_ordersD [OF assms(1), rotated 2])

interpretation ledger: floor_predicate orders_inv
proof (unfold_locales, goal_cases)
  case (1 s' s)
  then show ?case using orders_inv_cong [of s' s] by simp
next
  case (4 s i r wc good scrap nid now reason ts)
  then show ?case by (intro preservesD [OF preserves_inv_record_count])
next
  case (6 s i r now)
  then show ?case by (intro orders_inv_update_operation) (auto intro: op_start.row_update_axioms simp: op_start_def)
next
  case (7 s i r now)
  then show ?case
    by (intro orders_inv_update_operation) (auto intro: op_complete.row_update_axioms simp: op_complete_def)
qed (rule preserves_rules)+


abbreviation op_reached :: "op_status \<Rightarrow> string \<Rightarrow> 's orders_db_scheme \<Rightarrow> bool" where
  "op_reached \<equiv> reached op_can_transition op_as_str op_status_of"

lemma op_status_update:
  "op_status_of (s\<lparr>t_wo_operations := update_where (\<lambda>r. op_id r = i) (op_start now) (t_wo_operations s)\<rparr>) j =
     (if j = i then map_option (\<lambda>_. ''in_progress'') (op_status_of s j) else op_status_of s j)"
  "op_status_of (s\<lparr>t_wo_operations := update_where (\<lambda>r. op_id r = i) (op_complete now) (t_wo_operations s)\<rparr>) j =
     (if j = i then map_option (\<lambda>_. ''completed'') (op_status_of s j) else op_status_of s j)"
  "op_status_of (s\<lparr>t_wo_operations := update_where (\<lambda>r. op_id r = i) (op_add_counts g sc now) (t_wo_operations s)\<rparr>) j =
     op_status_of s j"
  by (auto simp: op_status_of_def op_start.find_update_key op_complete.find_update_key op_add_counts.find_update_key
      op_start_def op_complete_def op_add_counts_def option.map_comp comp_def)

lemma about_reached: "about_orders (wo_reached y j)" "about_orders (op_reached z k)"
  by (auto simp: about_orders_def reached_def wo_status_of_def op_status_of_def)

interpretation wo_life: floor_predicate "wo_reached y j" for y j
proof (unfold_locales, goal_cases)
  case (1 s' s)
  then show ?case by (auto elim: about_ordersD [OF about_reached(1), rotated 2])
next
  case (2 w ids now input)
  show ?case
    by (rule about_create [OF about_reached(1)]) (auto simp: reached_def wo_status_of_def find_row_append)
next
  case (4 s i r wc good scrap nid now reason ts)
  then show ?case
    by (intro preservesD [OF about_count [OF about_reached(1)]]) (simp_all add: reached_def wo_status_of_def)
next
  case (5 ids u sigs)
  show ?case by (rule about_ingest [OF about_reached(1)])
qed (auto intro: preserves_rules simp: reached_def wo_status_of_def)

lemma op_reached_move:
  assumes "op_reached y j s" "op_status_of s i = Some (op_as_str a)" "op_can_transition a b"
    and "\<And>k. op_status_of s' k = (if k = i then Some (op_as_str b) else op_status_of s k)"
  shows "op_reached y j s'"
  using assms unfolding reached_def
  by (metis (no_types, lifting) op.as_str_inject option.inject rtranclp.rtrancl_into_rtrancl)

interpretation op_life: floor_predicate "op_reached y j" for y j
proof (unfold_locales, goal_cases)
  case (1 s' s)
  then show ?case by (auto elim: about_ordersD [OF about_reached(2), rotated 2])
next
  case (2 w ids now input)
  show ?case
    by (rule about_create [OF about_reached(2)]) (auto simp: reached_def op_status_of_def find_row_append)
next
  case (3 nid now actor i x)
  show ?case
    by (rule preservesI) (simp add: reached_def op_status_of_def transition_wo_def prog_simps split: option.split)
next
  case (4 s i r wc good scrap nid now reason ts)
  then show ?case
    by (intro preservesD [OF about_count [OF about_reached(2)]]) (simp_all add: reached_def op_status_update)
next
  case (5 ids u sigs)
  show ?case by (rule about_ingest [OF about_reached(2)])
next
  case (6 s i r now)
  then have at_i: "op_status_of s i = Some (op_as_str OpPending)" by (simp add: op_status_of_def)
  show ?case
    by (rule op_reached_move [OF 6(1) at_i, of OpInProgress])
      (simp_all add: op_status_update at_i op_can_transition_def op_as_str_def)
next
  case (7 s i r now)
  then have at_i: "op_status_of s i = Some (op_as_str OpInProgress)" by (simp add: op_status_of_def)
  show ?case
    by (rule op_reached_move [OF 7(1) at_i, of OpCompleted])
      (simp_all add: op_status_update at_i op_can_transition_def op_as_str_def)
qed


lemma ops_stamped_update:
  assumes "ops_stamped s" "row_update op_id upd"
    and "\<And>r. r \<in> set (t_wo_operations s) \<Longrightarrow> op_id r = i \<Longrightarrow> op_stamped r \<Longrightarrow> op_stamped (upd r)"
  shows "ops_stamped (s\<lparr>t_wo_operations := update_where (\<lambda>r. op_id r = i) upd (t_wo_operations s)\<rparr>)"
  using assms(1,3) row_update.set_update [OF assms(2)]
  by (auto simp: ops_stamped_def row_update.keys_update [OF assms(2)])

lemma op_stamped_counts: "op_stamped (op_add_counts g sc now r) = op_stamped r"
  by (simp add: op_stamped_def op_add_counts_def split: option.split op_status.split)

lemma about_stamped: "about_orders ops_stamped"
  by (simp add: about_orders_def ops_stamped_def)

lemma op_unique:
  "ops_stamped s \<Longrightarrow> find_row op_id i (t_wo_operations s) = Some r \<Longrightarrow> x \<in> set (t_wo_operations s) \<Longrightarrow> op_id x = i \<Longrightarrow> x = r"
  unfolding ops_stamped_def using find_row_unique by fastforce

interpretation stamps: floor_predicate ops_stamped
proof (unfold_locales, goal_cases)
  case (1 s' s)
  then show ?case by (auto elim: about_ordersD [OF about_stamped, rotated 2])
next
  case (2 w ids now input)
  show ?case
    by (rule about_create [OF about_stamped])
      (auto simp: ops_stamped_def has_key_def op_stamped_def new_operation_def op_parse_def)
next
  case (3 nid now actor i x)
  show ?case
    by (rule preservesI) (simp add: ops_stamped_def transition_wo_def prog_simps split: option.split)
next
  case (4 s i r wc good scrap nid now reason ts)
  have "preserves ops_stamped (record_count nid now i wc good scrap reason ts)"
    by (rule about_count [OF about_stamped], rule ops_stamped_update)
      (auto intro: op_add_counts.row_update_axioms simp: op_stamped_counts)
  then show ?case using 4(1) by (rule preservesD)
next
  case (5 ids u sigs)
  show ?case by (rule about_ingest [OF about_stamped])
next
  case (6 s i r now)
  show ?case
    by (rule ops_stamped_update [OF 6(1) op_start.row_update_axioms])
      (use op_unique [OF 6(1,2)] 6(3) in \<open>auto simp: op_stamped_def op_start_def op_parse_def op_as_str_def\<close>)
next
  case (7 s i r now)
  show ?case
    by (rule ops_stamped_update [OF 7(1) op_complete.row_update_axioms])
      (use op_unique [OF 7(1,2)] 7(3) in \<open>auto simp: op_stamped_def op_complete_def op_parse_def op_as_str_def\<close>)
qed

text \<open>A count booked against an operation was made at the operation's work center.\<close>

definition stationed :: "'s orders_db_scheme \<Rightarrow> bool" where
  "stationed s \<longleftrightarrow> (\<forall>c\<in>set (t_production_counts s). \<forall>i. pc_wo_operation_id c = Some i \<longrightarrow>
     Option.bind (find_row op_id i (t_wo_operations s)) op_work_center_id = Some (pc_work_center_id c))"

lemma stationed_update:
  assumes "row_update op_id upd" "\<And>r. op_work_center_id (upd r) = op_work_center_id r" "stationed s"
  shows "stationed (s\<lparr>t_wo_operations := update_where (\<lambda>r. op_id r = i) upd (t_wo_operations s)\<rparr>)"
proof -
  have "Option.bind (map_option upd x) op_work_center_id = Option.bind x op_work_center_id" for x
    by (cases x) (simp_all add: assms(2))
  with assms(3) show ?thesis by (simp add: stationed_def row_update.find_update_key [OF assms(1)])
qed

interpretation stations: floor_predicate stationed
proof (unfold_locales, goal_cases)
  case (2 w ids now input)
  have "Option.bind (case find_row op_id i rows of None \<Rightarrow> x | Some r \<Rightarrow> Some r) op_work_center_id = Some c"
    if "Option.bind (find_row op_id i rows) op_work_center_id = Some c" for i rows c and x :: "wo_operation_row option"
    using that by (cases "find_row op_id i rows") simp_all
  then show ?case
    unfolding create_work_order_def insert_work_order_def insert_operation_def enqueue_def
    by (intro preserves_rules preserves_sql_exec)
      (auto intro!: preserves_rules preserves_sql_exec simp: stationed_def find_row_append)
next
  case (4 s i r wc good scrap nid now reason ts)
  obtain res s' where run: "record_count nid now i wc good scrap reason ts s = (res, s')"
    by (cases "record_count nid now i wc good scrap reason ts s")
  show ?case
  proof (cases res)
    case (Inl e)
    then have "s' = s" using run transaction_error_state by (auto simp: record_count_def)
    with 4(1) run show ?thesis by simp
  next
    case (Inr op)
    let ?c = "\<lparr>pc_id = nid, pc_ts = ts, pc_work_center_id = wc, pc_source_id = None, pc_good = good, pc_scrap = scrap,
      pc_wo_operation_id = Some i, pc_scrap_reason_id = reason\<rparr>"
    have "stationed (s\<lparr>t_production_counts := t_production_counts s @ [?c]\<rparr>)"
      using 4(1-3) by (simp add: stationed_def)
    note counted = stationed_update [OF op_add_counts.row_update_axioms _ this, of good scrap now i]
    show ?thesis by (rule record_count_effect [OF run [unfolded Inr]]) (use counted in \<open>simp add: run op_add_counts_def\<close>)
  qed
next
  case (5 ids u sigs)
  show ?case by (rule unbooked_ingest) (auto simp: stationed_def)
next
  case (6 s i r now)
  then show ?case by (intro stationed_update op_start.row_update_axioms) (simp_all add: op_start_def)
next
  case (7 s i r now)
  then show ?case by (intro stationed_update op_complete.row_update_axioms) (simp_all add: op_complete_def)
next
  case (3 nid now actor i x)
  show ?case
    by (rule preservesI) (simp add: stationed_def transition_wo_def prog_simps split: option.split)
qed (simp add: stationed_def)

section \<open>Properties\<close>

text \<open>
  C7.  The floor keeps its books.  Whatever sequence of order, execution, intake, recomputation and
  transfer requests is served, in any order and with any arguments: the totals on every operation
  remain the sums of the counts booked against it, every operation carries the timestamps of exactly
  the stages it went through, and the statuses of orders and operations only move forward along
  their transition tables, so that a closed or cancelled order and a completed operation never
  change status again.
\<close>

theorem floor_books:
  assumes "floor_run s s'" "orders_inv s" "ops_stamped s"
  shows "orders_inv s' \<and> ops_stamped s' \<and>
    (\<forall>i y. wo_status_of s i = Some (wo_as_str y) \<longrightarrow>
       (\<exists>z. wo_status_of s' i = Some (wo_as_str z) \<and> wo_can_transition\<^sup>*\<^sup>* y z)) \<and>
    (\<forall>i y. op_status_of s i = Some (op_as_str y) \<longrightarrow>
       (\<exists>z. op_status_of s' i = Some (op_as_str z) \<and> op_can_transition\<^sup>*\<^sup>* y z))"
proof (intro conjI allI impI)
  show "orders_inv s'" by (rule ledger.run_keeps [OF assms(1,2)])
  show "ops_stamped s'" by (rule stamps.run_keeps [OF assms(1,3)])
next
  fix i y assume "wo_status_of s i = Some (wo_as_str y)"
  then have "wo_reached y i s" by (rule reached_start)
  from wo_life.run_keeps [OF assms(1) this] show "\<exists>z. wo_status_of s' i = Some (wo_as_str z) \<and> wo_can_transition\<^sup>*\<^sup>* y z"
    by (simp add: reached_def)
next
  fix i y assume "op_status_of s i = Some (op_as_str y)"
  then have "op_reached y i s" by (rule reached_start)
  from op_life.run_keeps [OF assms(1) this] show "\<exists>z. op_status_of s' i = Some (op_as_str z) \<and> op_can_transition\<^sup>*\<^sup>* y z"
    by (simp add: reached_def)
qed


lemma transition_released:
  assumes "has_pool s" "find_row wo_id k (t_work_orders s) = Some w" "wo_st w = ''released''"
  obtains r s' where "transition_wo nid now actor k WoInProgress s = (Inr r, s')"
    "t_wo_operations s' = t_wo_operations s" "ws_events s' = ws_events s @ [WorkOrderStatusChanged k ''in_progress'']"
    "\<And>j. wo_status_of s' j = (if j = k then Some ''in_progress'' else wo_status_of s j)"
proof -
  obtain r s' where run: "transition_wo nid now actor k WoInProgress s = (Inr r, s')"
    and ops: "t_wo_operations s' = t_wo_operations s"
    using assms by (simp add: transition_wo_def prog_simps wo_parse_def wo_can_transition_def)
  with transition_wo_run [where nid = nid and now = now and actor = actor and i = k and x = WoInProgress and s = s]
  show thesis
    by (intro that [OF run ops]) (simp_all add: wo_as_str_def)
qed

text \<open>The state a start leaves: the operation started, its released order moved on, the events published.\<close>

definition op_started :: "timestamp \<Rightarrow> string \<Rightarrow> wo_operation_row \<Rightarrow> work_order_row \<Rightarrow> 's dnc_db_scheme \<Rightarrow> 's dnc_db_scheme \<Rightarrow> bool" where
  "op_started now i op0 wo0 s s' \<longleftrightarrow>
     (\<forall>j. find_row op_id j (t_wo_operations s') =
        (if j = i then Some (op_start now op0) else find_row op_id j (t_wo_operations s))) \<and>
     (\<forall>j. wo_status_of s' j =
        (if j = op_work_order_id op0 \<and> wo_st wo0 = ''released'' then Some ''in_progress'' else wo_status_of s j)) \<and>
     ws_events s' = ws_events s @
       (if wo_st wo0 = ''released'' then [WorkOrderStatusChanged (op_work_order_id op0) ''in_progress''] else []) @
       [OperationStarted (op_work_order_id op0) i]"

lemma start_op_pending:
  assumes pool: "has_pool s" and op0: "find_row op_id i (t_wo_operations s) = Some op0" "op_st op0 = ''pending''"
    and wo0: "find_row wo_id (op_work_order_id op0) (t_work_orders s) = Some wo0"
  obtains s' where "start_op ids now u i s = (Inr (op_start now op0), s')" "op_started now i op0 wo0 s s'"
proof -
  let ?s1 = "s\<lparr>t_wo_operations := update_where (\<lambda>r. op_id r = i) (op_start now) (t_wo_operations s)\<rparr>"
  let ?done = "\<lambda>t. publish (OperationStarted (op_work_order_id op0) i)
    (audit (ids 1) now (Some (user_id u)) ''start'' ''wo_operation'' (Some i) None t)"
  have st1: "wo_status_of ?s1 j = wo_status_of s j" for j by (simp add: wo_status_of_def)
  have ops: "find_row op_id j (t_wo_operations ?s1) =
      (if j = i then Some (op_start now op0) else find_row op_id j (t_wo_operations s))" for j
    by (simp add: op_start.find_update_key op0)
  have "op_parse (op_st op0) = Some OpPending" by (simp add: op0 op_parse_def)
  note eval = start_op_def prog_simps parse_op_status_def start_operation_def update_operation_def
    pool this op0(1) wo0 op_can_transition_def
  show thesis
  proof (cases "wo_st wo0 = ''released''")
    case False
    then have "wo_parse (wo_st wo0) \<noteq> Some WoReleased" by (simp add: wo.parse_iff wo_as_str_def)
    then have "start_op ids now u i s = (Inr (op_start now op0), ?done ?s1)" by (simp add: eval)
    then show thesis by (rule that) (use False ops in \<open>simp add: op_started_def st1\<close>)
  next
    case True
    have "has_pool ?s1" "find_row wo_id (op_work_order_id op0) (t_work_orders ?s1) = Some wo0"
      by (simp_all add: pool wo0)
    from transition_released [OF this True, of "ids 0" now "user_id u"] obtain w s2 where tr: "transition_wo (ids 0) now (user_id u) (op_work_order_id op0) WoInProgress ?s1 = (Inr w, s2)"
      "t_wo_operations s2 = t_wo_operations ?s1"
      "ws_events s2 = ws_events ?s1 @ [WorkOrderStatusChanged (op_work_order_id op0) ''in_progress'']"
      "\<And>j. wo_status_of s2 j = (if j = op_work_order_id op0 then Some ''in_progress'' else wo_status_of ?s1 j)"
      by blast
    have "wo_parse (wo_st wo0) = Some WoReleased" by (simp add: True wo_parse_def)
    then have "start_op ids now u i s = (Inr (op_start now op0), ?done s2)" by (simp add: eval tr(1))
    then show thesis by (rule that) (use True ops in \<open>simp add: op_started_def st1 tr(2-)\<close>)
  qed
qed

text \<open>
  Starting an operation.  With consistent books the request either fails and changes nothing,
  or the operation was pending and is now in progress, started at the time of the request and
  otherwise as before; a released order moves on to in progress with it while an order in any other
  status keeps it; no other order or operation changes, and the start is the last event published.
\<close>

theorem start_op_correct:
  assumes inv: "orders_inv s" and run: "start_op ids now u i s = (r, s')"
  shows "case r of
      Inl e \<Rightarrow> s' = s
    | Inr op \<Rightarrow> \<exists>op0 wo0.
        find_row op_id i (t_wo_operations s) = Some op0 \<and> op_st op0 = ''pending'' \<and>
        find_row wo_id (op_work_order_id op0) (t_work_orders s) = Some wo0 \<and>
        op = op_start now op0 \<and> op_started now i op0 wo0 s s'"
proof (cases "\<exists>op0. has_pool s \<and> find_row op_id i (t_wo_operations s) = Some op0 \<and> op_st op0 = ''pending''")
  case False
  with run show ?thesis
    by (cases "find_row op_id i (t_wo_operations s)")
      (auto simp: start_op_def prog_simps parse_op_status_def op.parse_iff op_can_transition_def op_as_str_def
        split: if_splits option.splits)
next
  case True
  then obtain op0 where op0: "has_pool s" "find_row op_id i (t_wo_operations s) = Some op0" "op_st op0 = ''pending''"
    by blast
  have "has_key wo_id (op_work_order_id op0) (t_work_orders s)"
    using inv find_row_SomeD [OF op0(2)] by (auto simp: orders_inv_def)
  then obtain wo0 where wo0: "find_row wo_id (op_work_order_id op0) (t_work_orders s) = Some wo0"
    using find_row_None_iff [of wo_id] by (cases "find_row wo_id (op_work_order_id op0) (t_work_orders s)") auto
  from start_op_pending [OF op0 wo0] obtain s2 where
    "start_op ids now u i s = (Inr (op_start now op0), s2)" "op_started now i op0 wo0 s s2" .
  with run op0 wo0 show ?thesis by auto
qed

section \<open>Samples\<close>

definition floor_user :: auth_user where
  "floor_user = \<lparr>user_id = ''U1'', role = ''Planner''\<rparr>"

lemma sample_dnc_books: "orders_inv sample_dnc" "ops_stamped sample_dnc"
  by (simp_all add: orders_inv_def ops_stamped_def op_stamped_def op_parse_def booked_def sample_dnc_defs table_simps)

theorem floor_books_witness:
  "\<exists>z. wo_status_of (snd (cancel_order ''A1'' 5 floor_user ''W1'' sample_dnc)) ''W1'' = Some (wo_as_str z) \<and>
     wo_can_transition\<^sup>*\<^sup>* WoDraft z"
proof -
  have "floor_run sample_dnc (snd (cancel_order ''A1'' 5 floor_user ''W1'' sample_dnc))"
    by (rule r_into_rtranclp) (rule floor_step.cancel)
  moreover have "wo_status_of sample_dnc ''W1'' = Some (wo_as_str WoDraft)"
    by (simp add: wo_status_of_def wo_as_str_def sample_dnc_defs table_simps)
  ultimately show ?thesis using floor_books [OF _ sample_dnc_books] by blast
qed

theorem start_op_correct_witness:
  "\<exists>op0 wo0 s'. op_started 5 ''O1'' op0 wo0 sample_dnc s' \<and> wo_st wo0 = ''draft''"
proof -
  obtain op s' where run: "start_op (\<lambda>n. ''A'') 5 floor_user ''O1'' sample_dnc = (Inr op, s')"
    by (simp add: start_op_def parse_op_status_def start_operation_def update_operation_def prog_simps
        op_parse_def op_can_transition_def wo_parse_def sample_dnc_defs table_simps)
  from start_op_correct [OF sample_dnc_books(1) run] obtain op0 wo0 where
    ops: "find_row op_id ''O1'' (t_wo_operations sample_dnc) = Some op0"
      "find_row wo_id (op_work_order_id op0) (t_work_orders sample_dnc) = Some wo0"
    and started: "op_started 5 ''O1'' op0 wo0 sample_dnc s'"
    by auto
  from ops have "wo_st wo0 = ''draft''" by (auto simp: sample_dnc_defs table_simps)
  with started show ?thesis by blast
qed

end
