(* ===== verification/Auth.thy ===== *)
theory Auth
  imports Database
begin

text \<open>
  Users and login: the token logic of \<^verbatim>\<open>mes-edge/src/auth.rs\<close>, the user repository of
  \<^verbatim>\<open>mes-db/src/repo.rs\<close> and the login handlers of \<^verbatim>\<open>mes-edge/src/auth_routes.rs\<close>.

  Password hashing and token signing are third-party code and so parameters: \<open>verify_password\<close> checks a
  secret against a stored hash, \<open>hash_password\<close> makes one, \<open>jwt_encode\<close> makes a token from a key and claims and
  \<open>jwt_decode\<close> returns the claims of a token that is valid at a time.
\<close>

section \<open>Tokens\<close>

record auth_config =
  ac_secret :: string
  ac_ttl_secs :: int

record claims =
  cl_sub :: string
  cl_role :: string
  cl_iat :: int
  cl_exp :: int

datatype auth_error = HashError | EncodeError | InvalidToken

record crypto =
  hash_password :: "string \<Rightarrow> string option"
  verify_password :: "string \<Rightarrow> string \<Rightarrow> bool"
  jwt_encode :: "string \<Rightarrow> claims \<Rightarrow> string option"
  jwt_decode :: "string \<Rightarrow> int \<Rightarrow> string \<Rightarrow> claims option"

definition hash_secret :: "crypto \<Rightarrow> string \<Rightarrow> auth_error + string" where
  "hash_secret c plain = (case hash_password c plain of None \<Rightarrow> Inl HashError | Some h \<Rightarrow> Inr h)"

text \<open>The clock in whole seconds since the epoch.\<close>

definition unix_seconds :: "timestamp \<Rightarrow> int" where
  "unix_seconds t = t div 1000000"

definition issue_token ::
  "crypto \<Rightarrow> auth_config \<Rightarrow> timestamp \<Rightarrow> string \<Rightarrow> string \<Rightarrow> auth_error + string \<times> int" where
  "issue_token c cfg t uid role_code =
     (let now = unix_seconds t; exp = now + ac_ttl_secs cfg in
      case jwt_encode c (ac_secret cfg) \<lparr>cl_sub = uid, cl_role = role_code, cl_iat = now, cl_exp = exp\<rparr> of
        None \<Rightarrow> Inl EncodeError
      | Some token \<Rightarrow> Inr (token, exp))"

definition decode_token :: "crypto \<Rightarrow> auth_config \<Rightarrow> timestamp \<Rightarrow> string \<Rightarrow> auth_error + claims" where
  "decode_token c cfg t token =
     (case jwt_decode c (ac_secret cfg) (unix_seconds t) token of
        None \<Rightarrow> Inl InvalidToken
      | Some cl \<Rightarrow> Inr cl)"

section \<open>Users\<close>

record user_auth =
  ua_id :: string
  ua_username :: string
  ua_role_code :: string
  ua_password_hash :: "string option"
  ua_pin_hash :: "string option"
  ua_active :: bool

definition user_auth_of :: "user_row \<Rightarrow> user_auth" where
  "user_auth_of r =
     \<lparr>ua_id = us_id r, ua_username = us_username r, ua_role_code = us_role_code r,
      ua_password_hash = us_password_hash r, ua_pin_hash = us_pin_hash r, ua_active = us_active r\<rparr>"

definition find_auth_by_username :: "string \<Rightarrow> ('s mes_base_scheme, repo_error, user_auth) prog" where
  "find_auth_by_username username =
     andThen (gets (\<lambda>s. map_option user_auth_of (find_row us_username username (t_users s)))) (okOr NotFound)"

definition find_auth_by_badge :: "string \<Rightarrow> ('s mes_base_scheme, repo_error, user_auth) prog" where
  "find_auth_by_badge badge =
     andThen (gets (\<lambda>s. map_option user_auth_of (find_row us_badge_id (Some badge) (t_users s)))) (okOr NotFound)"

section \<open>Login\<close>

record login_response =
  lr_token :: string
  lr_user_id :: string
  lr_username :: string
  lr_role_code :: string
  lr_expires_at :: int

definition unauthorized :: api_err where
  "unauthorized = ApiErr 401 ''unauthorized'' ''invalid credentials''"

definition finish_login ::
  "crypto \<Rightarrow> auth_config \<Rightarrow> string \<Rightarrow> timestamp \<Rightarrow> user_auth \<Rightarrow> string
    \<Rightarrow> ('s mes_base_scheme, api_err, login_response) prog" where
  "finish_login c cfg nid now u method =
     (case issue_token c cfg now (ua_id u) (ua_role_code u) of
        Inl _ \<Rightarrow> throw (ApiErr 500 ''internal'' ''token error'')
      | Inr (token, expires_at) \<Rightarrow>
          andThen (modify (\<lambda>s. if has_pool s
                     then audit nid now (Some (ua_id u)) ''login'' ''user'' (Some (ua_id u))
                            (Some (json_object [(''method'', JStr method)])) s
                     else s)) (\<lambda>_.
          ret \<lparr>lr_token = token, lr_user_id = ua_id u, lr_username = ua_username u,
               lr_role_code = ua_role_code u, lr_expires_at = expires_at\<rparr>))"

text \<open>A missing account is answered like a wrong secret.\<close>

definition lookup_err :: "repo_error \<Rightarrow> api_err" where
  "lookup_err e = (case e of NotFound \<Rightarrow> unauthorized | _ \<Rightarrow> repo_err e)"

definition secret_ok :: "crypto \<Rightarrow> string \<Rightarrow> string option \<Rightarrow> bool" where
  "secret_ok c plain stored = (case stored of None \<Rightarrow> False | Some h \<Rightarrow> verify_password c plain h)"

definition login ::
  "crypto \<Rightarrow> auth_config \<Rightarrow> string \<Rightarrow> timestamp \<Rightarrow> string \<Rightarrow> string
    \<Rightarrow> ('s mes_base_scheme, api_err, login_response) prog" where
  "login c cfg nid now username password =
     andThen require_pool (\<lambda>_.
     andThen (mapErr lookup_err (find_auth_by_username username)) (\<lambda>u.
     andThen (guard (ua_active u \<and> secret_ok c password (ua_password_hash u)) unauthorized) (\<lambda>_.
     finish_login c cfg nid now u ''password'')))"

definition non_empty :: "string option \<Rightarrow> string option" where
  "non_empty x = (case x of Some t \<Rightarrow> if t = [] then None else Some t | None \<Rightarrow> None)"

definition pin_login ::
  "crypto \<Rightarrow> auth_config \<Rightarrow> string \<Rightarrow> timestamp \<Rightarrow> string option \<Rightarrow> string option \<Rightarrow> string option
    \<Rightarrow> ('s mes_base_scheme, api_err, login_response) prog" where
  "pin_login c cfg nid now username pin badge_id =
     andThen require_pool (\<lambda>_.
     (case non_empty badge_id of
        Some badge \<Rightarrow>
          andThen (mapErr lookup_err (find_auth_by_badge badge)) (\<lambda>u.
          andThen (guard (ua_active u) unauthorized) (\<lambda>_.
          finish_login c cfg nid now u ''badge''))
      | None \<Rightarrow>
          (case (non_empty username, non_empty pin) of
             (Some n, Some p) \<Rightarrow>
               andThen (mapErr lookup_err (find_auth_by_username n)) (\<lambda>u.
               andThen (guard (ua_active u \<and> secret_ok c p (ua_pin_hash u)) unauthorized) (\<lambda>_.
               finish_login c cfg nid now u ''pin''))
           | _ \<Rightarrow> throw (ApiErr 400 ''bad_request'' ''provide badge_id, or username and pin''))))"

text \<open>The user a bearer header stands for: extraction over the decoded token.\<close>

definition authenticate :: "crypto \<Rightarrow> auth_config \<Rightarrow> timestamp \<Rightarrow> string option \<Rightarrow> api_err + auth_user" where
  "authenticate c cfg now header =
     auth_user_from_request
       (\<lambda>token. case decode_token c cfg now token of Inl _ \<Rightarrow> None | Inr cl \<Rightarrow> Some (cl_sub cl, cl_role cl)) header"

section \<open>Correctness\<close>

text \<open>
  What the token library documents: a token is read back under its key until its expiry, and no
  longer accepted when that is more than a minute ago.
\<close>

definition tokens_ok :: "crypto \<Rightarrow> bool" where
  "tokens_ok c \<longleftrightarrow>
     (\<forall>k cl tok t. jwt_encode c k cl = Some tok \<longrightarrow> t \<le> cl_exp cl \<longrightarrow> jwt_decode c k t tok = Some cl) \<and>
     (\<forall>k cl tok t. jwt_encode c k cl = Some tok \<longrightarrow> cl_exp cl + 60 < t \<longrightarrow> jwt_decode c k t tok = None)"

text \<open>A response that lets its bearer act as a user: until the token expires, as that user and role.\<close>

definition acts_as :: "crypto \<Rightarrow> auth_config \<Rightarrow> login_response \<Rightarrow> user_row \<Rightarrow> bool" where
  "acts_as c cfg r u \<longleftrightarrow> lr_user_id r = us_id u \<and> lr_role_code r = us_role_code u \<and>
     (\<forall>t. unix_seconds t \<le> lr_expires_at r \<longrightarrow>
        authenticate c cfg t (Some (''Bearer '' @ lr_token r)) = Inr \<lparr>user_id = us_id u, role = us_role_code u\<rparr>) \<and>
     (\<forall>t. unix_seconds t > lr_expires_at r + 60 \<longrightarrow>
        (\<exists>e. authenticate c cfg t (Some (''Bearer '' @ lr_token r)) = Inl e))"

lemma audit_only_log: "(audit n t a b c d e s)\<lparr>t_audit_log := t_audit_log s\<rparr> = s"
  by (simp add: audit_def insert_audit_def prog_simps split: option.split)

text \<open>The answer a login gives for the user found.\<close>

definition login_answer ::
  "crypto \<Rightarrow> auth_config \<Rightarrow> user_row option \<Rightarrow> 's mes_base_scheme \<Rightarrow> (api_err + login_response) \<times> 's mes_base_scheme \<Rightarrow> bool" where
  "login_answer c cfg who s res \<longleftrightarrow>
     (case who of
        None \<Rightarrow> res = (Inl unauthorized, s)
      | Some u \<Rightarrow>
          (case fst res of
             Inl e \<Rightarrow> err_status e = 500 \<and> snd res = s \<and> (\<exists>cl. jwt_encode c (ac_secret cfg) cl = None)
           | Inr resp \<Rightarrow> acts_as c cfg resp u \<and> (snd res)\<lparr>t_audit_log := t_audit_log s\<rparr> = s))"

lemma finish_login_answer:
  assumes "tokens_ok c"
  shows "login_answer c cfg (Some u) s (finish_login c cfg nid now (user_auth_of u) m s)"
proof (cases "issue_token c cfg now (us_id u) (us_role_code u)")
  case (Inl e)
  then show ?thesis
    by (auto simp: login_answer_def finish_login_def user_auth_of_def prog_simps issue_token_def Let_def
        split: option.splits)
next
  case (Inr te)
  obtain token expires where te: "te = (token, expires)" by (cases te)
  let ?cl = "\<lparr>cl_sub = us_id u, cl_role = us_role_code u, cl_iat = unix_seconds now, cl_exp = expires\<rparr>"
  have signed: "jwt_encode c (ac_secret cfg) ?cl = Some token"
    using Inr te by (auto simp: issue_token_def Let_def split: option.splits)
  have valid: "jwt_decode c (ac_secret cfg) t token = Some ?cl" if "t \<le> expires" for t
    using assms(1) signed that by (fastforce simp: tokens_ok_def)
  have expired: "jwt_decode c (ac_secret cfg) t token = None" if "expires + 60 < t" for t
    using assms(1) signed that by (fastforce simp: tokens_ok_def)
  have "acts_as c cfg \<lparr>lr_token = token, lr_user_id = us_id u, lr_username = us_username u,
      lr_role_code = us_role_code u, lr_expires_at = expires\<rparr> u"
    using valid expired by (simp add: acts_as_def authenticate_def auth_user_from_request_def decode_token_def
        strip_prefix_def)
  with Inr te show ?thesis
    by (simp add: login_answer_def finish_login_def user_auth_of_def prog_simps audit_only_log)
qed

text \<open>The user whose credentials a request presents.\<close>

definition password_user :: "crypto \<Rightarrow> string \<Rightarrow> string \<Rightarrow> 's mes_base_scheme \<Rightarrow> user_row option" where
  "password_user c n p s =
     (case find_row us_username n (t_users s) of
        Some u \<Rightarrow> if us_active u \<and> secret_ok c p (us_password_hash u) then Some u else None
      | None \<Rightarrow> None)"

definition badge_user :: "string \<Rightarrow> 's mes_base_scheme \<Rightarrow> user_row option" where
  "badge_user b s =
     (case find_row us_badge_id (Some b) (t_users s) of
        Some u \<Rightarrow> if us_active u then Some u else None
      | None \<Rightarrow> None)"

definition pin_user :: "crypto \<Rightarrow> string \<Rightarrow> string \<Rightarrow> 's mes_base_scheme \<Rightarrow> user_row option" where
  "pin_user c n p s =
     (case find_row us_username n (t_users s) of
        Some u \<Rightarrow> if us_active u \<and> secret_ok c p (us_pin_hash u) then Some u else None
      | None \<Rightarrow> None)"

lemma login_answer_refused: "login_answer c cfg None s (Inl unauthorized, s)"
  by (simp add: login_answer_def)

lemmas login_evals = prog_simps find_auth_by_username_def find_auth_by_badge_def lookup_err_def

lemma auth_fields:
  "ua_active (user_auth_of u) = us_active u" "ua_password_hash (user_auth_of u) = us_password_hash u"
  "ua_pin_hash (user_auth_of u) = us_pin_hash u"
  by (simp_all add: user_auth_of_def)

text \<open>A badge decides alone, also when a name and a PIN come with it; the comment on \<^verbatim>\<open>PinLoginRequest\<close> says otherwise.\<close>

lemma badge_before_pin:
  assumes "tokens_ok c" "has_pool s" "b \<noteq> []"
  shows "login_answer c cfg (badge_user b s) s (pin_login c cfg nid now kn kp (Some b) s)"
  using assms(2, 3)
  by (simp add: finish_login_answer [OF assms(1)] login_answer_refused pin_login_def non_empty_def badge_user_def login_evals auth_fields split: option.split)

text \<open>
  C19.  Logins.  A console login is granted exactly to the active user of that name whose stored hash
  accepts the password.  A kiosk login with a badge and no PIN is granted exactly to the active bearer of the badge,
  one with a name and a PIN and no badge exactly to the active user of that name whose stored PIN hash accepts the
  PIN; one with neither a badge nor both name and PIN is a bad request and changes nothing.  The granted token makes
  its bearer that user, with that user's role, until it expires and never more than a minute longer.
  Any other attempt of these three kinds, for an unknown name or badge, a wrong secret or a disabled account alike,
  gets the same answer and changes nothing; a granted one changes only the audit log.  When the token cannot be
  signed the answer is 500 and nothing changes.
\<close>

theorem login_correct:
  assumes "tokens_ok c" "has_pool s"
  shows "login_answer c cfg (password_user c n p s) s (login c cfg nid now n p s) \<and>
    (b \<noteq> [] \<longrightarrow> np \<in> {None, Some []} \<longrightarrow>
      login_answer c cfg (badge_user b s) s (pin_login c cfg nid now kn np (Some b) s)) \<and>
    (n \<noteq> [] \<longrightarrow> p \<noteq> [] \<longrightarrow> nb \<in> {None, Some []} \<longrightarrow>
      login_answer c cfg (pin_user c n p s) s (pin_login c cfg nid now (Some n) (Some p) nb s)) \<and>
    (nb \<in> {None, Some []} \<longrightarrow> kn \<in> {None, Some []} \<or> kp \<in> {None, Some []} \<longrightarrow>
      pin_login c cfg nid now kn kp nb s = (Inl (ApiErr 400 ''bad_request'' ''provide badge_id, or username and pin''), s))"
proof (intro conjI impI)
  note answers = finish_login_answer [OF assms(1)] login_answer_refused
  show "login_answer c cfg (password_user c n p s) s (login c cfg nid now n p s)"
    using assms(2) by (simp add: answers login_def password_user_def login_evals auth_fields split: option.split)
  show "login_answer c cfg (badge_user b s) s (pin_login c cfg nid now kn np (Some b) s)" if "b \<noteq> []"
    using badge_before_pin [OF assms that] .
  show "login_answer c cfg (pin_user c n p s) s (pin_login c cfg nid now (Some n) (Some p) nb s)"
    if "n \<noteq> []" "p \<noteq> []" "nb \<in> {None, Some []}"
    using assms(2) that
    by (auto simp: answers pin_login_def non_empty_def pin_user_def login_evals auth_fields split: option.split)
  show "pin_login c cfg nid now kn kp nb s = (Inl (ApiErr 400 ''bad_request'' ''provide badge_id, or username and pin''), s)"
    if "nb \<in> {None, Some []}" "kn \<in> {None, Some []} \<or> kp \<in> {None, Some []}"
    using assms(2) that by (auto simp: pin_login_def non_empty_def prog_simps split: option.split)
qed

section \<open>Samples\<close>

definition sample_crypto :: crypto where
  "sample_crypto =
     \<lparr>hash_password = (\<lambda>p. Some (''#'' @ p)), verify_password = (\<lambda>p h. h = ''#'' @ p),
      jwt_encode = (\<lambda>k cl. if k = ''k'' \<and> cl = \<lparr>cl_sub = ''U1'', cl_role = ''Planner'', cl_iat = 5, cl_exp = 3605\<rparr>
        then Some ''token'' else None),
      jwt_decode = (\<lambda>k t tok. if k = ''k'' \<and> tok = ''token'' \<and> t \<le> 3605
        then Some \<lparr>cl_sub = ''U1'', cl_role = ''Planner'', cl_iat = 5, cl_exp = 3605\<rparr> else None)\<rparr>"

definition sample_users :: mes_base where
  "sample_users =
     \<lparr>has_pool = True,
      t_users = [\<lparr>us_id = ''U1'', us_username = ''ann'', us_display_name = ''Ann'', us_role_code = ''Planner'',
        us_password_hash = Some ''#pw'', us_pin_hash = None, us_badge_id = Some ''B7'', us_active = True,
        us_created_at = 0, us_updated_at = 0\<rparr>],
      t_parts = [], t_work_centers = [], t_routings = [], t_routing_ops = [], t_audit_log = [], t_outbox = [],
      ws_events = []\<rparr>"

theorem login_correct_witness:
  "\<exists>u resp. login sample_crypto \<lparr>ac_secret = ''k'', ac_ttl_secs = 3600\<rparr> ''A1'' 5000000 ''ann'' ''pw'' sample_users
      = (Inr resp, snd (login sample_crypto \<lparr>ac_secret = ''k'', ac_ttl_secs = 3600\<rparr> ''A1'' 5000000 ''ann'' ''pw'' sample_users)) \<and>
     us_username u = ''ann'' \<and> acts_as sample_crypto \<lparr>ac_secret = ''k'', ac_ttl_secs = 3600\<rparr> resp u"
proof -
  let ?cfg = "\<lparr>ac_secret = ''k'', ac_ttl_secs = 3600\<rparr>" and ?u = "t_users sample_users ! 0"
  have ok: "tokens_ok sample_crypto" by (auto simp: tokens_ok_def sample_crypto_def split: if_splits)
  have who: "password_user sample_crypto ''ann'' ''pw'' sample_users = Some ?u"
    by (simp add: password_user_def sample_users_def sample_crypto_def secret_ok_def table_simps)
  obtain resp s' where run: "login sample_crypto ?cfg ''A1'' 5000000 ''ann'' ''pw'' sample_users = (Inr resp, s')"
    by (simp add: login_def login_evals sample_users_def sample_crypto_def secret_ok_def user_auth_of_def
        finish_login_def issue_token_def unix_seconds_def Let_def table_simps)
  have "has_pool sample_users" by (simp add: sample_users_def)
  from login_correct [OF ok this, of ?cfg "''ann''" "''pw''" "''A1''" 5000000] run who
  have "acts_as sample_crypto ?cfg resp ?u" by (simp add: login_answer_def)
  moreover have "us_username ?u = ''ann''" by (simp add: sample_users_def)
  ultimately show ?thesis using run by auto
qed

end
