(* ===== verification/Master.thy ===== *)
theory Master
  imports Qms Auth
begin

text \<open>
  Master data: the repository of \<^verbatim>\<open>mes-db/src/repo.rs\<close> for sites, areas, work centers, parts and
  users, and the handlers of \<^verbatim>\<open>mes-edge/src/master.rs\<close>.  Deleting a row of master data reaches across
  the whole schema (\<^verbatim>\<open>mes-db/migrations\<close>): some tables lose the rows that refer to it, others forbid
  the deletion.  The state therefore holds every table that refers to master data.
\<close>

section \<open>Tables\<close>

record site_row =
  ste_id :: string
  ste_code :: string
  ste_name :: string
  ste_timezone :: string
  ste_created_at :: timestamp
  ste_updated_at :: timestamp

record area_row =
  ar_id :: string
  ar_site_id :: string
  ar_code :: string
  ar_name :: string
  ar_created_at :: timestamp
  ar_updated_at :: timestamp

text \<open>A shift's start and end are times of day, in microseconds since midnight.\<close>

record shift_row =
  sh_id :: string
  sh_site_id :: string
  sh_name :: string
  sh_start_time :: duration
  sh_end_time :: duration

record bom_row =
  bm_id :: string
  bm_parent_part :: string
  bm_child_part :: string

record erp_connection_row =
  ec_id :: string
  ec_site_id :: "string option"
  ec_name :: string
  ec_endpoint_url :: string
  ec_auth_token_enc :: "string option"
  ec_field_mapping :: json
  ec_direction :: string
  ec_enabled :: bool
  ec_created_at :: timestamp
  ec_updated_at :: timestamp

record erp_sync_log_row =
  el_id :: string
  el_connection_id :: "string option"
  el_direction :: string
  el_entity :: string
  el_record_count :: int
  el_status :: string
  el_detail :: "string option"
  el_ts :: timestamp

record master_db = qms_db +
  t_sites :: "site_row list"
  t_areas :: "area_row list"
  t_shifts :: "shift_row list"
  t_boms :: "bom_row list"
  t_erp_connections :: "erp_connection_row list"
  t_erp_sync_log :: "erp_sync_log_row list"

text \<open>The seeded roles; no statement of the program changes them.\<close>

definition role_codes :: "string list" where
  "role_codes = [''Admin'', ''Planner'', ''Supervisor'', ''Operator'', ''Quality'', ''Maintenance'']"

section \<open>Deletion\<close>

text \<open>
  DELETE of the row with a key: an unknown key affects no row.  The cascading references remove
  rows first; then a reference without an action that still names a removed key fails the
  statement, which then changes nothing.
\<close>

definition sql_delete ::
  "('s \<Rightarrow> bool) \<Rightarrow> ('s \<Rightarrow> 's) \<Rightarrow> ('s \<Rightarrow> 's \<Rightarrow> (bool \<times> sqlx_error) list) \<Rightarrow> ('s, repo_error, unit) prog" where
  "sql_delete present cascade violations =
     (\<lambda>s. if \<not> present s then (Inl NotFound, s)
          else case find fst (violations s (cascade s)) of
            Some (_, e) \<Rightarrow> (Inl (map_sqlx e), s)
          | None \<Rightarrow> (Inr (), cascade s))"

definition still_ref :: "string \<Rightarrow> string \<Rightarrow> string \<Rightarrow> sqlx_error" where
  "still_ref parent child column = SqlState ''23503''
     (''update or delete on table '' @ quoted parent @ '' violates foreign key constraint '' @
      quoted (child @ ''_'' @ column @ ''_fkey'') @ '' on table '' @ quoted child)"

text \<open>Whether a remaining row refers to a key that the statement removed.\<close>

definition referenced ::
  "('p \<Rightarrow> string) \<Rightarrow> 'p list \<Rightarrow> 'p list \<Rightarrow> ('c \<Rightarrow> string option) \<Rightarrow> 'c list \<Rightarrow> bool" where
  "referenced key before after ref children \<longleftrightarrow>
     (\<exists>c\<in>set children. case ref c of
        None \<Rightarrow> False
      | Some k \<Rightarrow> has_key key k before \<and> \<not> has_key key k after)"

definition drop_work_centers :: "(string \<Rightarrow> bool) \<Rightarrow> 's master_db_scheme \<Rightarrow> 's master_db_scheme" where
  "drop_work_centers P s =
     s\<lparr>t_work_centers := filter (\<lambda>r. \<not> P (wc_id r)) (t_work_centers s),
       t_planned_stops := filter (\<lambda>r. \<not> P (ps_work_center_id r)) (t_planned_stops s),
       t_signal_sources := filter (\<lambda>r. \<not> P (ss_work_center_id r)) (t_signal_sources s),
       t_machine_events := filter (\<lambda>r. \<not> P (me_work_center_id r)) (t_machine_events s),
       t_production_counts := filter (\<lambda>r. \<not> P (pc_work_center_id r)) (t_production_counts s),
       t_machine_states := filter (\<lambda>r. \<not> P (ms_work_center_id r)) (t_machine_states s),
       t_downtime_events := filter (\<lambda>r. \<not> P (dt_work_center_id r)) (t_downtime_events s),
       t_pm_schedules := filter (\<lambda>r. \<not> P (pm_work_center_id r)) (t_pm_schedules s),
       t_maintenance_wos := filter (\<lambda>r. \<not> P (mw_work_center_id r)) (t_maintenance_wos s)\<rparr>"

definition work_center_refs :: "'s master_db_scheme \<Rightarrow> 's master_db_scheme \<Rightarrow> (bool \<times> sqlx_error) list" where
  "work_center_refs s s' =
     [(referenced wc_id (t_work_centers s) (t_work_centers s') ro_work_center_id (t_routing_ops s'),
       still_ref ''work_centers'' ''routing_ops'' ''work_center_id''),
      (referenced wc_id (t_work_centers s) (t_work_centers s') op_work_center_id (t_wo_operations s'),
       still_ref ''work_centers'' ''wo_operations'' ''work_center_id''),
      (referenced ss_id (t_signal_sources s) (t_signal_sources s') me_source_id (t_machine_events s'),
       still_ref ''signal_sources'' ''machine_events'' ''source_id''),
      (referenced ss_id (t_signal_sources s) (t_signal_sources s') pc_source_id (t_production_counts s'),
       still_ref ''signal_sources'' ''production_counts'' ''source_id''),
      (referenced pm_id (t_pm_schedules s) (t_pm_schedules s') mw_pm_schedule_id (t_maintenance_wos s'),
       still_ref ''pm_schedules'' ''maintenance_work_orders'' ''pm_schedule_id''),
      (referenced mw_id (t_maintenance_wos s) (t_maintenance_wos s') st_maintenance_wo_id (t_spare_txns s'),
       still_ref ''maintenance_work_orders'' ''spare_txns'' ''maintenance_wo_id'')]"

definition drop_areas :: "(string \<Rightarrow> bool) \<Rightarrow> 's master_db_scheme \<Rightarrow> 's master_db_scheme" where
  "drop_areas P s =
     (drop_work_centers (\<lambda>i. \<exists>w\<in>set (t_work_centers s). wc_id w = i \<and> P (wc_area_id w)) s)
       \<lparr>t_areas := filter (\<lambda>r. \<not> P (ar_id r)) (t_areas s)\<rparr>"

definition drop_site :: "string \<Rightarrow> 's master_db_scheme \<Rightarrow> 's master_db_scheme" where
  "drop_site i s =
     (drop_areas (\<lambda>a. \<exists>r\<in>set (t_areas s). ar_id r = a \<and> ar_site_id r = i) s)
       \<lparr>t_sites := filter (\<lambda>r. ste_id r \<noteq> i) (t_sites s),
        t_shifts := filter (\<lambda>r. sh_site_id r \<noteq> i) (t_shifts s),
        t_erp_connections := filter (\<lambda>r. ec_site_id r \<noteq> Some i) (t_erp_connections s),
        t_erp_sync_log := filter (\<lambda>l. \<not> (\<exists>r\<in>set (t_erp_connections s).
            el_connection_id l = Some (ec_id r) \<and> ec_site_id r = Some i)) (t_erp_sync_log s)\<rparr>"

text \<open>A part takes its routings, their operations, its programs and its inspection plans along.\<close>

definition routing_of_part :: "string \<Rightarrow> 's master_db_scheme \<Rightarrow> string \<Rightarrow> bool" where
  "routing_of_part i s k \<longleftrightarrow> (\<exists>r\<in>set (t_routings s). rt_id r = k \<and> rt_part_id r = i)"

definition routing_op_of_part :: "string \<Rightarrow> 's master_db_scheme \<Rightarrow> string \<Rightarrow> bool" where
  "routing_op_of_part i s k \<longleftrightarrow> (\<exists>r\<in>set (t_routing_ops s). ro_id r = k \<and> routing_of_part i s (ro_routing_id r))"

definition program_of_part :: "string \<Rightarrow> 's master_db_scheme \<Rightarrow> program_row \<Rightarrow> bool" where
  "program_of_part i s r \<longleftrightarrow> pg_part_id r = Some i \<or>
     (case pg_routing_op_id r of None \<Rightarrow> False | Some k \<Rightarrow> routing_op_of_part i s k)"

definition drop_part :: "string \<Rightarrow> 's master_db_scheme \<Rightarrow> 's master_db_scheme" where
  "drop_part i s =
     s\<lparr>t_parts := filter (\<lambda>r. pt_id r \<noteq> i) (t_parts s),
       t_boms := filter (\<lambda>r. bm_parent_part r \<noteq> i) (t_boms s),
       t_routings := filter (\<lambda>r. \<not> routing_of_part i s (rt_id r)) (t_routings s),
       t_routing_ops := filter (\<lambda>r. \<not> routing_op_of_part i s (ro_id r)) (t_routing_ops s),
       t_programs := filter (\<lambda>r. \<not> program_of_part i s r) (t_programs s),
       t_inspection_plans := filter (\<lambda>r. ip_part_id r \<noteq> i) (t_inspection_plans s),
       t_characteristics := filter (\<lambda>c. \<not> (\<exists>r\<in>set (t_inspection_plans s).
           ch_plan_id c = ip_id r \<and> ip_part_id r = i)) (t_characteristics s)\<rparr>"

definition part_refs :: "'s master_db_scheme \<Rightarrow> 's master_db_scheme \<Rightarrow> (bool \<times> sqlx_error) list" where
  "part_refs s s' =
     [(referenced pt_id (t_parts s) (t_parts s') (Some \<circ> bm_child_part) (t_boms s'),
       still_ref ''parts'' ''boms'' ''child_part''),
      (referenced pt_id (t_parts s) (t_parts s') (Some \<circ> wo_part_id) (t_work_orders s'),
       still_ref ''parts'' ''work_orders'' ''part_id''),
      (referenced pt_id (t_parts s) (t_parts s') (Some \<circ> lt_part_id) (t_lots s'),
       still_ref ''parts'' ''lots'' ''part_id''),
      (referenced pt_id (t_parts s) (t_parts s') (Some \<circ> sn_part_id) (t_serials s'),
       still_ref ''parts'' ''serials'' ''part_id''),
      (referenced pt_id (t_parts s) (t_parts s') nc_part_id (t_ncrs s'),
       still_ref ''parts'' ''ncrs'' ''part_id''),
      (referenced rt_id (t_routings s) (t_routings s') wo_routing_id (t_work_orders s'),
       still_ref ''routings'' ''work_orders'' ''routing_id''),
      (referenced pg_id (t_programs s) (t_programs s') (Some \<circ> tf_program_id) (t_transfers s'),
       still_ref ''programs'' ''dnc_transfer_events'' ''program_id''),
      (referenced pg_id (t_programs s) (t_programs s') (Some \<circ> rv_program_id) (t_revisions s'),
       still_ref ''programs'' ''program_revisions'' ''program_id''),
      (referenced ro_id (t_routing_ops s) (t_routing_ops s') op_routing_op_id (t_wo_operations s'),
       still_ref ''routing_ops'' ''wo_operations'' ''routing_op_id''),
      (referenced ch_id (t_characteristics s) (t_characteristics s') (Some \<circ> ir_characteristic_id)
         (t_inspection_results s'),
       still_ref ''characteristics'' ''inspection_results'' ''characteristic_id'')]"

section \<open>Repository\<close>

definition create_site ::
  "string \<Rightarrow> timestamp \<Rightarrow> string \<Rightarrow> string \<Rightarrow> string \<Rightarrow> ('s master_db_scheme, repo_error, site_row) prog" where
  "create_site nid now code name timezone =
     (let r = \<lparr>ste_id = nid, ste_code = code, ste_name = name, ste_timezone = timezone,
               ste_created_at = now, ste_updated_at = now\<rparr>
      in andThen
           (sql_exec
              (\<lambda>s. [(has_key ste_id nid (t_sites s), dup_key ''sites_pkey''),
                    (has_key ste_code code (t_sites s), dup_key ''sites_code_key'')])
              (\<lambda>s. s\<lparr>t_sites := t_sites s @ [r]\<rparr>))
           (\<lambda>_. ret r))"

definition list_sites :: "(string \<Rightarrow> int) \<Rightarrow> ('s master_db_scheme, repo_error, site_row list) prog" where
  "list_sites collate = gets (\<lambda>s. sort_key (\<lambda>r. collate (ste_code r)) (t_sites s))"

definition get_site :: "string \<Rightarrow> ('s master_db_scheme, repo_error, site_row) prog" where
  "get_site i = andThen (gets (\<lambda>s. find_row ste_id i (t_sites s))) (okOr NotFound)"

definition site_set :: "string \<Rightarrow> string \<Rightarrow> string \<Rightarrow> timestamp \<Rightarrow> site_row \<Rightarrow> site_row" where
  "site_set code name timezone now r =
     r\<lparr>ste_code := code, ste_name := name, ste_timezone := timezone, ste_updated_at := now\<rparr>"

definition update_site ::
  "timestamp \<Rightarrow> string \<Rightarrow> string \<Rightarrow> string \<Rightarrow> string \<Rightarrow> ('s master_db_scheme, repo_error, site_row) prog" where
  "update_site now i code name timezone =
     sql_update (\<lambda>s. find_row ste_id i (t_sites s))
       (\<lambda>s r. [(\<exists>x\<in>set (t_sites s). ste_id x \<noteq> i \<and> ste_code x = code, dup_key ''sites_code_key'')])
       (site_set code name timezone now)
       (\<lambda>s. s\<lparr>t_sites := update_where (\<lambda>r. ste_id r = i) (site_set code name timezone now) (t_sites s)\<rparr>)"

definition delete_site :: "string \<Rightarrow> ('s master_db_scheme, repo_error, unit) prog" where
  "delete_site i = sql_delete (\<lambda>s. has_key ste_id i (t_sites s)) (drop_site i) work_center_refs"

definition create_area ::
  "string \<Rightarrow> timestamp \<Rightarrow> string \<Rightarrow> string \<Rightarrow> string \<Rightarrow> ('s master_db_scheme, repo_error, area_row) prog" where
  "create_area nid now site_id code name =
     (let r = \<lparr>ar_id = nid, ar_site_id = site_id, ar_code = code, ar_name = name,
               ar_created_at = now, ar_updated_at = now\<rparr>
      in andThen
           (sql_exec
              (\<lambda>s. [(has_key ar_id nid (t_areas s), dup_key ''areas_pkey''),
                    (has_key (\<lambda>x. (ar_site_id x, ar_code x)) (site_id, code) (t_areas s),
                     dup_key ''areas_site_id_code_key''),
                    (\<not> has_key ste_id site_id (t_sites s), bad_ref ''areas'' ''areas_site_id_fkey'')])
              (\<lambda>s. s\<lparr>t_areas := t_areas s @ [r]\<rparr>))
           (\<lambda>_. ret r))"

definition list_areas :: "(string \<Rightarrow> int) \<Rightarrow> ('s master_db_scheme, repo_error, area_row list) prog" where
  "list_areas collate = gets (\<lambda>s. sort_key (\<lambda>r. collate (ar_code r)) (t_areas s))"

definition get_area :: "string \<Rightarrow> ('s master_db_scheme, repo_error, area_row) prog" where
  "get_area i = andThen (gets (\<lambda>s. find_row ar_id i (t_areas s))) (okOr NotFound)"

definition area_set :: "string \<Rightarrow> string \<Rightarrow> timestamp \<Rightarrow> area_row \<Rightarrow> area_row" where
  "area_set code name now r = r\<lparr>ar_code := code, ar_name := name, ar_updated_at := now\<rparr>"

definition update_area ::
  "timestamp \<Rightarrow> string \<Rightarrow> string \<Rightarrow> string \<Rightarrow> ('s master_db_scheme, repo_error, area_row) prog" where
  "update_area now i code name =
     sql_update (\<lambda>s. find_row ar_id i (t_areas s))
       (\<lambda>s r. [(\<exists>x\<in>set (t_areas s). ar_id x \<noteq> i \<and> ar_site_id x = ar_site_id r \<and> ar_code x = code,
                dup_key ''areas_site_id_code_key'')])
       (area_set code name now)
       (\<lambda>s. s\<lparr>t_areas := update_where (\<lambda>r. ar_id r = i) (area_set code name now) (t_areas s)\<rparr>)"

definition delete_area :: "string \<Rightarrow> ('s master_db_scheme, repo_error, unit) prog" where
  "delete_area i = sql_delete (\<lambda>s. has_key ar_id i (t_areas s)) (drop_areas (\<lambda>k. k = i)) work_center_refs"

definition create_work_center ::
  "string \<Rightarrow> timestamp \<Rightarrow> string \<Rightarrow> string \<Rightarrow> string \<Rightarrow> string option
    \<Rightarrow> ('s master_db_scheme, repo_error, work_center_row) prog" where
  "create_work_center nid now area_id code name external_ref =
     (let r = \<lparr>wc_id = nid, wc_area_id = area_id, wc_code = code, wc_name = name,
               wc_external_ref = external_ref, wc_ideal_cycle_seconds = None,
               wc_created_at = now, wc_updated_at = now\<rparr>
      in andThen
           (sql_exec
              (\<lambda>s. [(has_key wc_id nid (t_work_centers s), dup_key ''work_centers_pkey''),
                    (has_key (\<lambda>x. (wc_area_id x, wc_code x)) (area_id, code) (t_work_centers s),
                     dup_key ''work_centers_area_id_code_key''),
                    (\<not> has_key ar_id area_id (t_areas s),
                     bad_ref ''work_centers'' ''work_centers_area_id_fkey'')])
              (\<lambda>s. s\<lparr>t_work_centers := t_work_centers s @ [r]\<rparr>))
           (\<lambda>_. ret r))"

definition list_work_centers ::
  "(string \<Rightarrow> int) \<Rightarrow> ('s master_db_scheme, repo_error, work_center_row list) prog" where
  "list_work_centers collate = gets (\<lambda>s. sort_key (\<lambda>r. collate (wc_code r)) (t_work_centers s))"

definition get_work_center :: "string \<Rightarrow> ('s master_db_scheme, repo_error, work_center_row) prog" where
  "get_work_center i = andThen (gets (\<lambda>s. find_row wc_id i (t_work_centers s))) (okOr NotFound)"

definition work_center_set ::
  "string \<Rightarrow> string \<Rightarrow> string option \<Rightarrow> timestamp \<Rightarrow> work_center_row \<Rightarrow> work_center_row" where
  "work_center_set code name external_ref now r =
     r\<lparr>wc_code := code, wc_name := name, wc_external_ref := external_ref, wc_updated_at := now\<rparr>"

definition update_work_center ::
  "timestamp \<Rightarrow> string \<Rightarrow> string \<Rightarrow> string \<Rightarrow> string option
    \<Rightarrow> ('s master_db_scheme, repo_error, work_center_row) prog" where
  "update_work_center now i code name external_ref =
     sql_update (\<lambda>s. find_row wc_id i (t_work_centers s))
       (\<lambda>s r. [(\<exists>x\<in>set (t_work_centers s). wc_id x \<noteq> i \<and> wc_area_id x = wc_area_id r \<and> wc_code x = code,
                dup_key ''work_centers_area_id_code_key'')])
       (work_center_set code name external_ref now)
       (\<lambda>s. s\<lparr>t_work_centers :=
              update_where (\<lambda>r. wc_id r = i) (work_center_set code name external_ref now) (t_work_centers s)\<rparr>)"

definition delete_work_center :: "string \<Rightarrow> ('s master_db_scheme, repo_error, unit) prog" where
  "delete_work_center i =
     sql_delete (\<lambda>s. has_key wc_id i (t_work_centers s)) (drop_work_centers (\<lambda>k. k = i)) work_center_refs"

definition create_part ::
  "string \<Rightarrow> timestamp \<Rightarrow> string \<Rightarrow> string \<Rightarrow> string \<Rightarrow> ('s master_db_scheme, repo_error, part_row) prog" where
  "create_part nid now code name uom =
     (let r = \<lparr>pt_id = nid, pt_code = code, pt_name = name, pt_uom = uom,
               pt_created_at = now, pt_updated_at = now\<rparr>
      in andThen
           (sql_exec
              (\<lambda>s. [(has_key pt_id nid (t_parts s), dup_key ''parts_pkey''),
                    (has_key pt_code code (t_parts s), dup_key ''parts_code_key'')])
              (\<lambda>s. s\<lparr>t_parts := t_parts s @ [r]\<rparr>))
           (\<lambda>_. ret r))"

definition list_parts :: "(string \<Rightarrow> int) \<Rightarrow> ('s master_db_scheme, repo_error, part_row list) prog" where
  "list_parts collate = gets (\<lambda>s. sort_key (\<lambda>r. collate (pt_code r)) (t_parts s))"

definition get_part :: "string \<Rightarrow> ('s master_db_scheme, repo_error, part_row) prog" where
  "get_part i = andThen (gets (\<lambda>s. find_row pt_id i (t_parts s))) (okOr NotFound)"

definition part_set :: "string \<Rightarrow> string \<Rightarrow> string \<Rightarrow> timestamp \<Rightarrow> part_row \<Rightarrow> part_row" where
  "part_set code name uom now r =
     r\<lparr>pt_code := code, pt_name := name, pt_uom := uom, pt_updated_at := now\<rparr>"

definition update_part ::
  "timestamp \<Rightarrow> string \<Rightarrow> string \<Rightarrow> string \<Rightarrow> string \<Rightarrow> ('s master_db_scheme, repo_error, part_row) prog" where
  "update_part now i code name uom =
     sql_update (\<lambda>s. find_row pt_id i (t_parts s))
       (\<lambda>s r. [(\<exists>x\<in>set (t_parts s). pt_id x \<noteq> i \<and> pt_code x = code, dup_key ''parts_code_key'')])
       (part_set code name uom now)
       (\<lambda>s. s\<lparr>t_parts := update_where (\<lambda>r. pt_id r = i) (part_set code name uom now) (t_parts s)\<rparr>)"

definition delete_part :: "string \<Rightarrow> ('s master_db_scheme, repo_error, unit) prog" where
  "delete_part i = sql_delete (\<lambda>s. has_key pt_id i (t_parts s)) (drop_part i) part_refs"

text \<open>What is returned of a user carries no secret.\<close>

record user_dto =
  ud_id :: string
  ud_username :: string
  ud_display_name :: string
  ud_role_code :: string
  ud_active :: bool
  ud_created_at :: timestamp
  ud_updated_at :: timestamp

definition user_dto_of :: "user_row \<Rightarrow> user_dto" where
  "user_dto_of r =
     \<lparr>ud_id = us_id r, ud_username = us_username r, ud_display_name = us_display_name r,
      ud_role_code = us_role_code r, ud_active = us_active r, ud_created_at = us_created_at r,
      ud_updated_at = us_updated_at r\<rparr>"

definition create_user ::
  "string \<Rightarrow> timestamp \<Rightarrow> string \<Rightarrow> string \<Rightarrow> string \<Rightarrow> string option \<Rightarrow> string option \<Rightarrow> string option
    \<Rightarrow> ('s master_db_scheme, repo_error, user_dto) prog" where
  "create_user nid now username display_name role_code password_hash pin_hash badge_id =
     (let r = \<lparr>us_id = nid, us_username = username, us_display_name = display_name,
               us_role_code = role_code, us_password_hash = password_hash, us_pin_hash = pin_hash,
               us_badge_id = badge_id, us_active = True, us_created_at = now, us_updated_at = now\<rparr>
      in andThen
           (sql_exec
              (\<lambda>s. [(has_key us_id nid (t_users s), dup_key ''users_pkey''),
                    (has_key us_username username (t_users s), dup_key ''users_username_key''),
                    (badge_id \<noteq> None \<and> has_key us_badge_id badge_id (t_users s), dup_key ''users_badge_id_key''),
                    (role_code \<notin> set role_codes, bad_ref ''users'' ''users_role_code_fkey'')])
              (\<lambda>s. s\<lparr>t_users := t_users s @ [r]\<rparr>))
           (\<lambda>_. ret (user_dto_of r)))"

definition list_users :: "(string \<Rightarrow> int) \<Rightarrow> ('s master_db_scheme, repo_error, user_dto list) prog" where
  "list_users collate =
     gets (\<lambda>s. map user_dto_of (sort_key (\<lambda>r. collate (us_username r)) (t_users s)))"

section \<open>Handlers of \<^verbatim>\<open>/v1/master\<close>\<close>

text \<open>Every change is followed by an audit entry; the first identifier is the row's, the second the entry's.\<close>

definition create_program_handler ::
  "string \<Rightarrow> string \<Rightarrow> timestamp \<Rightarrow> auth_user \<Rightarrow> program_input \<Rightarrow> ('s master_db_scheme, api_err, nat \<times> program_row) prog" where
  "create_program_handler nid aid now u input =
     andThen (master_writer u) (\<lambda>actor.
     andThen require_pool (\<lambda>_.
     andThen (mapErr repo_err (create_program nid now input)) (\<lambda>program.
     andThen (modify (audit aid now (Some (user_id actor)) ''create'' ''program'' (Some (pg_id program)) None)) (\<lambda>_.
     ret (201, program)))))"

definition list_programs_handler ::
  "(string \<Rightarrow> int) \<Rightarrow> auth_user \<Rightarrow> ('s master_db_scheme, api_err, program_row list) prog" where
  "list_programs_handler collate u = andThen require_pool (\<lambda>_. mapErr repo_err (list_programs collate))"

definition create_site_handler ::
  "string \<Rightarrow> string \<Rightarrow> timestamp \<Rightarrow> auth_user \<Rightarrow> string \<Rightarrow> string \<Rightarrow> string option \<Rightarrow> ('s master_db_scheme, api_err, nat \<times> site_row) prog" where
  "create_site_handler nid aid now u code name timezone =
     andThen (master_writer u) (\<lambda>actor.
     andThen require_pool (\<lambda>_.
     andThen (mapErr repo_err (create_site nid now code name (unwrap_or ''Asia/Kolkata'' timezone))) (\<lambda>r.
     andThen (modify (audit aid now (Some (user_id actor)) ''create'' ''site'' (Some (ste_id r)) None)) (\<lambda>_.
     ret (201, r)))))"

definition list_sites_handler ::
  "(string \<Rightarrow> int) \<Rightarrow> auth_user \<Rightarrow> ('s master_db_scheme, api_err, site_row list) prog" where
  "list_sites_handler collate u = andThen require_pool (\<lambda>_. mapErr repo_err (list_sites collate))"

definition get_site_handler ::
  "auth_user \<Rightarrow> string \<Rightarrow> ('s master_db_scheme, api_err, site_row) prog" where
  "get_site_handler u i = andThen require_pool (\<lambda>_. mapErr repo_err (get_site i))"

definition update_site_handler ::
  "string \<Rightarrow> timestamp \<Rightarrow> auth_user \<Rightarrow> string \<Rightarrow> string \<Rightarrow> string \<Rightarrow> string option \<Rightarrow> ('s master_db_scheme, api_err, site_row) prog" where
  "update_site_handler aid now u i code name timezone =
     andThen (master_writer u) (\<lambda>actor.
     andThen require_pool (\<lambda>_.
     andThen (mapErr repo_err (update_site now i code name (unwrap_or ''Asia/Kolkata'' timezone))) (\<lambda>r.
     andThen (modify (audit aid now (Some (user_id actor)) ''update'' ''site'' (Some i) None)) (\<lambda>_.
     ret r))))"

definition delete_site_handler ::
  "string \<Rightarrow> timestamp \<Rightarrow> auth_user \<Rightarrow> string \<Rightarrow> ('s master_db_scheme, api_err, nat) prog" where
  "delete_site_handler aid now u i =
     andThen (master_writer u) (\<lambda>actor.
     andThen require_pool (\<lambda>_.
     andThen (mapErr repo_err (delete_site i)) (\<lambda>_.
     andThen (modify (audit aid now (Some (user_id actor)) ''delete'' ''site'' (Some i) None)) (\<lambda>_.
     ret 204))))"

definition create_area_handler ::
  "string \<Rightarrow> string \<Rightarrow> timestamp \<Rightarrow> auth_user \<Rightarrow> string \<Rightarrow> string \<Rightarrow> string \<Rightarrow> ('s master_db_scheme, api_err, nat \<times> area_row) prog" where
  "create_area_handler nid aid now u site_id code name =
     andThen (master_writer u) (\<lambda>actor.
     andThen require_pool (\<lambda>_.
     andThen (mapErr repo_err (create_area nid now site_id code name)) (\<lambda>r.
     andThen (modify (audit aid now (Some (user_id actor)) ''create'' ''area'' (Some (ar_id r)) None)) (\<lambda>_.
     ret (201, r)))))"

definition list_areas_handler ::
  "(string \<Rightarrow> int) \<Rightarrow> auth_user \<Rightarrow> ('s master_db_scheme, api_err, area_row list) prog" where
  "list_areas_handler collate u = andThen require_pool (\<lambda>_. mapErr repo_err (list_areas collate))"

definition get_area_handler ::
  "auth_user \<Rightarrow> string \<Rightarrow> ('s master_db_scheme, api_err, area_row) prog" where
  "get_area_handler u i = andThen require_pool (\<lambda>_. mapErr repo_err (get_area i))"

definition update_area_handler ::
  "string \<Rightarrow> timestamp \<Rightarrow> auth_user \<Rightarrow> string \<Rightarrow> string \<Rightarrow> string \<Rightarrow> ('s master_db_scheme, api_err, area_row) prog" where
  "update_area_handler aid now u i code name =
     andThen (master_writer u) (\<lambda>actor.
     andThen require_pool (\<lambda>_.
     andThen (mapErr repo_err (update_area now i code name)) (\<lambda>r.
     andThen (modify (audit aid now (Some (user_id actor)) ''update'' ''area'' (Some i) None)) (\<lambda>_.
     ret r))))"

definition delete_area_handler ::
  "string \<Rightarrow> timestamp \<Rightarrow> auth_user \<Rightarrow> string \<Rightarrow> ('s master_db_scheme, api_err, nat) prog" where
  "delete_area_handler aid now u i =
     andThen (master_writer u) (\<lambda>actor.
     andThen require_pool (\<lambda>_.
     andThen (mapErr repo_err (delete_area i)) (\<lambda>_.
     andThen (modify (audit aid now (Some (user_id actor)) ''delete'' ''area'' (Some i) None)) (\<lambda>_.
     ret 204))))"

definition create_work_center_handler ::
  "string \<Rightarrow> string \<Rightarrow> timestamp \<Rightarrow> auth_user \<Rightarrow> string \<Rightarrow> string \<Rightarrow> string \<Rightarrow> string option \<Rightarrow> ('s master_db_scheme, api_err, nat \<times> work_center_row) prog" where
  "create_work_center_handler nid aid now u area_id code name external_ref =
     andThen (master_writer u) (\<lambda>actor.
     andThen require_pool (\<lambda>_.
     andThen (mapErr repo_err (create_work_center nid now area_id code name external_ref)) (\<lambda>r.
     andThen (modify (audit aid now (Some (user_id actor)) ''create'' ''work_center'' (Some (wc_id r)) None)) (\<lambda>_.
     ret (201, r)))))"

definition list_work_centers_handler ::
  "(string \<Rightarrow> int) \<Rightarrow> auth_user \<Rightarrow> ('s master_db_scheme, api_err, work_center_row list) prog" where
  "list_work_centers_handler collate u = andThen require_pool (\<lambda>_. mapErr repo_err (list_work_centers collate))"

definition get_work_center_handler ::
  "auth_user \<Rightarrow> string \<Rightarrow> ('s master_db_scheme, api_err, work_center_row) prog" where
  "get_work_center_handler u i = andThen require_pool (\<lambda>_. mapErr repo_err (get_work_center i))"

definition update_work_center_handler ::
  "string \<Rightarrow> timestamp \<Rightarrow> auth_user \<Rightarrow> string \<Rightarrow> string \<Rightarrow> string \<Rightarrow> string option \<Rightarrow> ('s master_db_scheme, api_err, work_center_row) prog" where
  "update_work_center_handler aid now u i code name external_ref =
     andThen (master_writer u) (\<lambda>actor.
     andThen require_pool (\<lambda>_.
     andThen (mapErr repo_err (update_work_center now i code name external_ref)) (\<lambda>r.
     andThen (modify (audit aid now (Some (user_id actor)) ''update'' ''work_center'' (Some i) None)) (\<lambda>_.
     ret r))))"

definition delete_work_center_handler ::
  "string \<Rightarrow> timestamp \<Rightarrow> auth_user \<Rightarrow> string \<Rightarrow> ('s master_db_scheme, api_err, nat) prog" where
  "delete_work_center_handler aid now u i =
     andThen (master_writer u) (\<lambda>actor.
     andThen require_pool (\<lambda>_.
     andThen (mapErr repo_err (delete_work_center i)) (\<lambda>_.
     andThen (modify (audit aid now (Some (user_id actor)) ''delete'' ''work_center'' (Some i) None)) (\<lambda>_.
     ret 204))))"

definition create_part_handler ::
  "string \<Rightarrow> string \<Rightarrow> timestamp \<Rightarrow> auth_user \<Rightarrow> string \<Rightarrow> string \<Rightarrow> string option \<Rightarrow> ('s master_db_scheme, api_err, nat \<times> part_row) prog" where
  "create_part_handler nid aid now u code name uom =
     andThen (master_writer u) (\<lambda>actor.
     andThen require_pool (\<lambda>_.
     andThen (mapErr repo_err (create_part nid now code name (unwrap_or ''ea'' uom))) (\<lambda>r.
     andThen (modify (audit aid now (Some (user_id actor)) ''create'' ''part'' (Some (pt_id r)) None)) (\<lambda>_.
     ret (201, r)))))"

definition list_parts_handler ::
  "(string \<Rightarrow> int) \<Rightarrow> auth_user \<Rightarrow> ('s master_db_scheme, api_err, part_row list) prog" where
  "list_parts_handler collate u = andThen require_pool (\<lambda>_. mapErr repo_err (list_parts collate))"

definition get_part_handler ::
  "auth_user \<Rightarrow> string \<Rightarrow> ('s master_db_scheme, api_err, part_row) prog" where
  "get_part_handler u i = andThen require_pool (\<lambda>_. mapErr repo_err (get_part i))"

definition update_part_handler ::
  "string \<Rightarrow> timestamp \<Rightarrow> auth_user \<Rightarrow> string \<Rightarrow> string \<Rightarrow> string \<Rightarrow> string option \<Rightarrow> ('s master_db_scheme, api_err, part_row) prog" where
  "update_part_handler aid now u i code name uom =
     andThen (master_writer u) (\<lambda>actor.
     andThen require_pool (\<lambda>_.
     andThen (mapErr repo_err (update_part now i code name (unwrap_or ''ea'' uom))) (\<lambda>r.
     andThen (modify (audit aid now (Some (user_id actor)) ''update'' ''part'' (Some i) None)) (\<lambda>_.
     ret r))))"

definition delete_part_handler ::
  "string \<Rightarrow> timestamp \<Rightarrow> auth_user \<Rightarrow> string \<Rightarrow> ('s master_db_scheme, api_err, nat) prog" where
  "delete_part_handler aid now u i =
     andThen (master_writer u) (\<lambda>actor.
     andThen require_pool (\<lambda>_.
     andThen (mapErr repo_err (delete_part i)) (\<lambda>_.
     andThen (modify (audit aid now (Some (user_id actor)) ''delete'' ''part'' (Some i) None)) (\<lambda>_.
     ret 204))))"

record user_input =
  ui_username :: string
  ui_display_name :: string
  ui_role_code :: string
  ui_password :: "string option"
  ui_pin :: "string option"
  ui_badge_id :: "string option"

text \<open>A secret that is present and not empty is hashed.\<close>

definition hash_optional :: "crypto \<Rightarrow> string option \<Rightarrow> ('s, api_err, string option) prog" where
  "hash_optional c secret =
     (case non_empty secret of
        None \<Rightarrow> ret None
      | Some p \<Rightarrow>
          (case hash_secret c p of
             Inl _ \<Rightarrow> throw (ApiErr 500 ''internal'' ''hash error'')
           | Inr h \<Rightarrow> ret (Some h)))"

definition create_user_handler ::
  "crypto \<Rightarrow> string \<Rightarrow> string \<Rightarrow> timestamp \<Rightarrow> auth_user \<Rightarrow> user_input \<Rightarrow> ('s master_db_scheme, api_err, nat \<times> user_dto) prog" where
  "create_user_handler c nid aid now u input =
     andThen (master_writer u) (\<lambda>actor.
     andThen require_pool (\<lambda>_.
     andThen (hash_optional c (ui_password input)) (\<lambda>password_hash.
     andThen (hash_optional c (ui_pin input)) (\<lambda>pin_hash.
     andThen (mapErr repo_err (create_user nid now (ui_username input) (ui_display_name input)
                (ui_role_code input) password_hash pin_hash (non_empty (ui_badge_id input)))) (\<lambda>r.
     andThen (modify (audit aid now (Some (user_id actor)) ''create'' ''user'' (Some (ud_id r)) None)) (\<lambda>_.
     ret (201, r)))))))"

definition list_users_handler ::
  "(string \<Rightarrow> int) \<Rightarrow> auth_user \<Rightarrow> ('s master_db_scheme, api_err, user_dto list) prog" where
  "list_users_handler collate u =
     andThen (master_writer u) (\<lambda>_.
     andThen require_pool (\<lambda>_. mapErr repo_err (list_users collate)))"

section \<open>Referential integrity\<close>

definition fk :: "('p \<Rightarrow> string) \<Rightarrow> 'p list \<Rightarrow> ('c \<Rightarrow> string option) \<Rightarrow> 'c list \<Rightarrow> bool" where
  "fk key parents ref children \<longleftrightarrow> (\<forall>c\<in>set children. \<forall>k. ref c = Some k \<longrightarrow> has_key key k parents)"

text \<open>References into the equipment tree, from below its work centers, and into the products.\<close>

definition tree_refs :: "'s master_db_scheme \<Rightarrow> bool" where
  "tree_refs s \<longleftrightarrow>
     fk ste_id (t_sites s) (Some \<circ> ar_site_id) (t_areas s) \<and>
     fk ste_id (t_sites s) (Some \<circ> sh_site_id) (t_shifts s) \<and>
     fk ste_id (t_sites s) ec_site_id (t_erp_connections s) \<and>
     fk ec_id (t_erp_connections s) el_connection_id (t_erp_sync_log s) \<and>
     fk ar_id (t_areas s) (Some \<circ> wc_area_id) (t_work_centers s)"

definition equipment_refs :: "'s master_db_scheme \<Rightarrow> bool" where
  "equipment_refs s \<longleftrightarrow>
     fk wc_id (t_work_centers s) (Some \<circ> ps_work_center_id) (t_planned_stops s) \<and>
     fk wc_id (t_work_centers s) (Some \<circ> ss_work_center_id) (t_signal_sources s) \<and>
     fk wc_id (t_work_centers s) (Some \<circ> me_work_center_id) (t_machine_events s) \<and>
     fk wc_id (t_work_centers s) (Some \<circ> pc_work_center_id) (t_production_counts s) \<and>
     fk wc_id (t_work_centers s) (Some \<circ> ms_work_center_id) (t_machine_states s) \<and>
     fk wc_id (t_work_centers s) (Some \<circ> dt_work_center_id) (t_downtime_events s) \<and>
     fk wc_id (t_work_centers s) (Some \<circ> pm_work_center_id) (t_pm_schedules s) \<and>
     fk wc_id (t_work_centers s) (Some \<circ> mw_work_center_id) (t_maintenance_wos s) \<and>
     fk wc_id (t_work_centers s) ro_work_center_id (t_routing_ops s) \<and>
     fk wc_id (t_work_centers s) op_work_center_id (t_wo_operations s) \<and>
     fk ss_id (t_signal_sources s) me_source_id (t_machine_events s) \<and>
     fk ss_id (t_signal_sources s) pc_source_id (t_production_counts s) \<and>
     fk pm_id (t_pm_schedules s) mw_pm_schedule_id (t_maintenance_wos s) \<and>
     fk mw_id (t_maintenance_wos s) st_maintenance_wo_id (t_spare_txns s)"

definition product_refs :: "'s master_db_scheme \<Rightarrow> bool" where
  "product_refs s \<longleftrightarrow>
     fk pt_id (t_parts s) (Some \<circ> bm_parent_part) (t_boms s) \<and>
     fk pt_id (t_parts s) (Some \<circ> bm_child_part) (t_boms s) \<and>
     fk pt_id (t_parts s) (Some \<circ> rt_part_id) (t_routings s) \<and>
     fk pt_id (t_parts s) pg_part_id (t_programs s) \<and>
     fk pt_id (t_parts s) (Some \<circ> wo_part_id) (t_work_orders s) \<and>
     fk pt_id (t_parts s) (Some \<circ> lt_part_id) (t_lots s) \<and>
     fk pt_id (t_parts s) (Some \<circ> sn_part_id) (t_serials s) \<and>
     fk pt_id (t_parts s) (Some \<circ> ip_part_id) (t_inspection_plans s) \<and>
     fk pt_id (t_parts s) nc_part_id (t_ncrs s) \<and>
     fk rt_id (t_routings s) (Some \<circ> ro_routing_id) (t_routing_ops s) \<and>
     fk rt_id (t_routings s) wo_routing_id (t_work_orders s) \<and>
     fk ro_id (t_routing_ops s) pg_routing_op_id (t_programs s) \<and>
     fk ro_id (t_routing_ops s) op_routing_op_id (t_wo_operations s) \<and>
     fk pg_id (t_programs s) (Some \<circ> tf_program_id) (t_transfers s) \<and>
     fk pg_id (t_programs s) (Some \<circ> rv_program_id) (t_revisions s) \<and>
     fk ip_id (t_inspection_plans s) (Some \<circ> ch_plan_id) (t_characteristics s) \<and>
     fk ch_id (t_characteristics s) (Some \<circ> ir_characteristic_id) (t_inspection_results s)"

text \<open>Primary keys and the columns declared unique.\<close>

definition master_keys :: "'s master_db_scheme \<Rightarrow> bool" where
  "master_keys s \<longleftrightarrow>
     distinct (map ste_id (t_sites s)) \<and> distinct (map ste_code (t_sites s)) \<and>
     distinct (map ar_id (t_areas s)) \<and> distinct (map (\<lambda>r. (ar_site_id r, ar_code r)) (t_areas s)) \<and>
     distinct (map wc_id (t_work_centers s)) \<and>
     distinct (map (\<lambda>r. (wc_area_id r, wc_code r)) (t_work_centers s)) \<and>
     distinct (map pt_id (t_parts s)) \<and> distinct (map pt_code (t_parts s)) \<and>
     distinct (map us_id (t_users s)) \<and> distinct (map us_username (t_users s)) \<and>
     distinct (filter (\<lambda>b. b \<noteq> None) (map us_badge_id (t_users s))) \<and>
     (\<forall>u\<in>set (t_users s). us_role_code u \<in> set role_codes)"

definition master_inv :: "'s master_db_scheme \<Rightarrow> bool" where
  "master_inv s \<longleftrightarrow> tree_refs s \<and> equipment_refs s \<and> product_refs s \<and> master_keys s"

lemma fk_restrict:
  "fk key P ref C \<Longrightarrow> set C' \<subseteq> set C \<Longrightarrow> \<not> referenced key P P' ref C' \<Longrightarrow> fk key P' ref C'"
  unfolding fk_def referenced_def by (fastforce split: option.splits)

lemma subset_filters: "set xs \<subseteq> set xs" "set (filter Q xs) \<subseteq> set xs"
  by auto

lemma fk_unrelated: "fk key P ref C \<Longrightarrow> set C' \<subseteq> set C \<Longrightarrow> fk key P ref C'"
  by (auto simp: fk_def)

lemma fk_more: "fk key P ref C \<Longrightarrow> fk key (P @ Q) ref C"
  by (auto simp: fk_def has_key_simps)

lemma fk_row:
  "fk key P ref C \<Longrightarrow> (\<And>k. ref c = Some k \<Longrightarrow> has_key key k P) \<Longrightarrow> fk key P ref (C @ [c])"
  by (auto simp: fk_def)

lemma fk_cascade:
  "fk key P (Some \<circ> ref) C \<Longrightarrow> fk key (filter (\<lambda>p. \<not> Q (key p)) P) (Some \<circ> ref) (filter (\<lambda>c. \<not> Q (ref c)) C)"
  by (fastforce simp: fk_def has_key_def)

lemma fk_kept:
  assumes "fk key P ref C"
    and "\<And>c k p. c \<in> set C' \<Longrightarrow> ref c = Some k \<Longrightarrow> p \<in> set P \<Longrightarrow> key p = k \<Longrightarrow> Q p" "set C' \<subseteq> set C"
  shows "fk key (filter Q P) ref C'"
  unfolding fk_def
proof (intro ballI allI impI)
  fix c k assume c: "c \<in> set C'" "ref c = Some k"
  with assms(1,3) obtain p where "p \<in> set P" "key p = k" by (auto simp: fk_def has_key_def)
  with assms(2) [OF c this] show "has_key key k (filter Q P)" by (auto simp: has_key_def)
qed

text \<open>A deletion that passes the checks leaves no reference without its row.\<close>

lemma drop_work_centers_refs:
  assumes refs: "equipment_refs s" and ok: "\<forall>(b, e)\<in>set (work_center_refs s (drop_work_centers P s)). \<not> b"
  shows "equipment_refs (drop_work_centers P s)"
proof -
  let ?t = "drop_work_centers P s"
  note drops = drop_work_centers_def equipment_refs_def work_center_refs_def
  have "fk wc_id (t_work_centers ?t) (Some \<circ> ps_work_center_id) (t_planned_stops ?t)"
    "fk wc_id (t_work_centers ?t) (Some \<circ> ss_work_center_id) (t_signal_sources ?t)"
    "fk wc_id (t_work_centers ?t) (Some \<circ> me_work_center_id) (t_machine_events ?t)"
    "fk wc_id (t_work_centers ?t) (Some \<circ> pc_work_center_id) (t_production_counts ?t)"
    "fk wc_id (t_work_centers ?t) (Some \<circ> ms_work_center_id) (t_machine_states ?t)"
    "fk wc_id (t_work_centers ?t) (Some \<circ> dt_work_center_id) (t_downtime_events ?t)"
    "fk wc_id (t_work_centers ?t) (Some \<circ> pm_work_center_id) (t_pm_schedules ?t)"
    "fk wc_id (t_work_centers ?t) (Some \<circ> mw_work_center_id) (t_maintenance_wos ?t)"
    using refs by (simp_all add: drops fk_cascade [where key = wc_id and Q = P])
  moreover have "fk wc_id (t_work_centers ?t) ro_work_center_id (t_routing_ops ?t)"
    by (rule fk_restrict [of wc_id "t_work_centers s" ro_work_center_id "t_routing_ops s"]) (use refs ok in \<open>simp_all add: drops\<close>)
  moreover have "fk wc_id (t_work_centers ?t) op_work_center_id (t_wo_operations ?t)"
    by (rule fk_restrict [of wc_id "t_work_centers s" op_work_center_id "t_wo_operations s"]) (use refs ok in \<open>simp_all add: drops\<close>)
  moreover have "fk ss_id (t_signal_sources ?t) me_source_id (t_machine_events ?t)"
    by (rule fk_restrict [of ss_id "t_signal_sources s" me_source_id "t_machine_events s"]) (use refs ok in \<open>simp_all add: drops\<close>)
  moreover have "fk ss_id (t_signal_sources ?t) pc_source_id (t_production_counts ?t)"
    by (rule fk_restrict [of ss_id "t_signal_sources s" pc_source_id "t_production_counts s"]) (use refs ok in \<open>simp_all add: drops\<close>)
  moreover have "fk pm_id (t_pm_schedules ?t) mw_pm_schedule_id (t_maintenance_wos ?t)"
    by (rule fk_restrict [of pm_id "t_pm_schedules s" mw_pm_schedule_id "t_maintenance_wos s"]) (use refs ok in \<open>simp_all add: drops\<close>)
  moreover have "fk mw_id (t_maintenance_wos ?t) st_maintenance_wo_id (t_spare_txns ?t)"
    by (rule fk_restrict [of mw_id "t_maintenance_wos s" st_maintenance_wo_id "t_spare_txns s"]) (use refs ok in \<open>simp_all add: drops\<close>)
  ultimately show ?thesis unfolding equipment_refs_def by blast
qed

lemma drop_areas_refs:
  assumes "tree_refs s" "equipment_refs s" "\<forall>(b, e)\<in>set (work_center_refs s (drop_areas P s)). \<not> b"
  shows "tree_refs (drop_areas P s) \<and> equipment_refs (drop_areas P s)"
proof
  let ?Q = "\<lambda>i. \<exists>w\<in>set (t_work_centers s). wc_id w = i \<and> P (wc_area_id w)"
  have "equipment_refs (drop_work_centers ?Q s)"
    using assms(3) by (intro drop_work_centers_refs [OF assms(2)]) (simp add: drop_areas_def work_center_refs_def)
  then show "equipment_refs (drop_areas P s)" by (simp add: drop_areas_def equipment_refs_def)
  have "fk ar_id (filter (\<lambda>r. \<not> P (ar_id r)) (t_areas s)) (Some \<circ> wc_area_id)
      (filter (\<lambda>r. \<not> ?Q (wc_id r)) (t_work_centers s))"
    by (rule fk_kept [where C = "t_work_centers s"]) (use assms(1) in \<open>fastforce simp: tree_refs_def\<close>)+
  moreover have "fk ste_id (t_sites s) (Some \<circ> ar_site_id) (filter (\<lambda>r. \<not> P (ar_id r)) (t_areas s))"
    by (rule fk_unrelated [where C = "t_areas s"]) (use assms(1) in \<open>auto simp: tree_refs_def\<close>)
  ultimately show "tree_refs (drop_areas P s)"
    using assms(1) by (simp add: tree_refs_def drop_areas_def drop_work_centers_def)
qed

lemma drop_site_refs:
  assumes "tree_refs s" "equipment_refs s" "\<forall>(b, e)\<in>set (work_center_refs s (drop_site i s)). \<not> b"
  shows "tree_refs (drop_site i s) \<and> equipment_refs (drop_site i s)"
proof
  let ?Q = "\<lambda>a. \<exists>r\<in>set (t_areas s). ar_id r = a \<and> ar_site_id r = i"
  have areas: "tree_refs (drop_areas ?Q s) \<and> equipment_refs (drop_areas ?Q s)"
    using assms(3) by (intro drop_areas_refs [OF assms(1,2)]) (simp add: drop_site_def work_center_refs_def)
  then show "equipment_refs (drop_site i s)" by (simp add: drop_site_def equipment_refs_def)
  let ?S = "filter (\<lambda>r. ste_id r \<noteq> i) (t_sites s)"
  let ?E = "filter (\<lambda>r. ec_site_id r \<noteq> Some i) (t_erp_connections s)"
  have "fk ste_id ?S (Some \<circ> ar_site_id) (filter (\<lambda>r. \<not> ?Q (ar_id r)) (t_areas s))"
    by (rule fk_kept [where C = "t_areas s"]) (use assms(1) in \<open>fastforce simp: tree_refs_def\<close>)+
  moreover have "fk ste_id ?S (Some \<circ> sh_site_id) (filter (\<lambda>r. sh_site_id r \<noteq> i) (t_shifts s))"
    by (rule fk_kept [where C = "t_shifts s"]) (use assms(1) in \<open>fastforce simp: tree_refs_def\<close>)+
  moreover have "fk ste_id ?S ec_site_id ?E"
    by (rule fk_kept [where C = "t_erp_connections s"]) (use assms(1) in \<open>fastforce simp: tree_refs_def\<close>)+
  moreover have "fk ec_id ?E el_connection_id (filter (\<lambda>l. \<not> (\<exists>r\<in>set (t_erp_connections s).
      el_connection_id l = Some (ec_id r) \<and> ec_site_id r = Some i)) (t_erp_sync_log s))"
    by (rule fk_kept [where C = "t_erp_sync_log s"]) (use assms(1) in \<open>fastforce simp: tree_refs_def\<close>)+
  ultimately show "tree_refs (drop_site i s)"
    using areas by (simp add: tree_refs_def drop_site_def drop_areas_def drop_work_centers_def)
qed

lemma drop_part_refs:
  assumes refs: "product_refs s" and ok: "\<forall>(b, e)\<in>set (part_refs s (drop_part i s)). \<not> b"
  shows "product_refs (drop_part i s)"
proof -
  let ?t = "drop_part i s"
  note drops = drop_part_def product_refs_def part_refs_def
  have "fk pt_id (t_parts ?t) (Some \<circ> bm_parent_part) (t_boms ?t)"
    "fk pt_id (t_parts ?t) (Some \<circ> rt_part_id) (t_routings ?t)"
    "fk pt_id (t_parts ?t) pg_part_id (t_programs ?t)"
    "fk pt_id (t_parts ?t) (Some \<circ> ip_part_id) (t_inspection_plans ?t)"
    using refs unfolding product_refs_def drop_part_def routing_of_part_def program_of_part_def
    by (auto intro!: fk_kept elim!: fk_unrelated)
  moreover have "fk rt_id (t_routings ?t) (Some \<circ> ro_routing_id) (t_routing_ops ?t)"
    using refs fk_kept [of rt_id "t_routings s" "Some \<circ> ro_routing_id" "t_routing_ops s" "t_routing_ops ?t"
        "\<lambda>r. \<not> routing_of_part i s (rt_id r)"]
    by (fastforce simp: product_refs_def drop_part_def routing_op_of_part_def)
  moreover have "fk ro_id (t_routing_ops ?t) pg_routing_op_id (t_programs ?t)"
    using refs fk_kept [of ro_id "t_routing_ops s" pg_routing_op_id "t_programs s" "t_programs ?t"
        "\<lambda>r. \<not> routing_op_of_part i s (ro_id r)"]
    by (fastforce simp: product_refs_def drop_part_def program_of_part_def)
  moreover have "fk ip_id (t_inspection_plans ?t) (Some \<circ> ch_plan_id) (t_characteristics ?t)"
    using refs fk_kept [of ip_id "t_inspection_plans s" "Some \<circ> ch_plan_id" "t_characteristics s" "t_characteristics ?t"
        "\<lambda>r. ip_part_id r \<noteq> i"]
    by (fastforce simp: product_refs_def drop_part_def)
  moreover have "fk pt_id (t_parts ?t) (Some \<circ> bm_child_part) (t_boms ?t)"
    by (rule fk_restrict [of pt_id "t_parts s" "Some \<circ> bm_child_part" "t_boms s"]) (use refs ok in \<open>simp_all add: drops\<close>)
  moreover have "fk pt_id (t_parts ?t) (Some \<circ> wo_part_id) (t_work_orders ?t)"
    by (rule fk_restrict [of pt_id "t_parts s" "Some \<circ> wo_part_id" "t_work_orders s"]) (use refs ok in \<open>simp_all add: drops\<close>)
  moreover have "fk pt_id (t_parts ?t) (Some \<circ> lt_part_id) (t_lots ?t)"
    by (rule fk_restrict [of pt_id "t_parts s" "Some \<circ> lt_part_id" "t_lots s"]) (use refs ok in \<open>simp_all add: drops\<close>)
  moreover have "fk pt_id (t_parts ?t) (Some \<circ> sn_part_id) (t_serials ?t)"
    by (rule fk_restrict [of pt_id "t_parts s" "Some \<circ> sn_part_id" "t_serials s"]) (use refs ok in \<open>simp_all add: drops\<close>)
  moreover have "fk pt_id (t_parts ?t) nc_part_id (t_ncrs ?t)"
    by (rule fk_restrict [of pt_id "t_parts s" nc_part_id "t_ncrs s"]) (use refs ok in \<open>simp_all add: drops\<close>)
  moreover have "fk rt_id (t_routings ?t) wo_routing_id (t_work_orders ?t)"
    by (rule fk_restrict [of rt_id "t_routings s" wo_routing_id "t_work_orders s"]) (use refs ok in \<open>simp_all add: drops\<close>)
  moreover have "fk ro_id (t_routing_ops ?t) op_routing_op_id (t_wo_operations ?t)"
    by (rule fk_restrict [of ro_id "t_routing_ops s" op_routing_op_id "t_wo_operations s"]) (use refs ok in \<open>simp_all add: drops\<close>)
  moreover have "fk pg_id (t_programs ?t) (Some \<circ> tf_program_id) (t_transfers ?t)"
    by (rule fk_restrict [of pg_id "t_programs s" "Some \<circ> tf_program_id" "t_transfers s"]) (use refs ok in \<open>simp_all add: drops\<close>)
  moreover have "fk pg_id (t_programs ?t) (Some \<circ> rv_program_id) (t_revisions ?t)"
    by (rule fk_restrict [of pg_id "t_programs s" "Some \<circ> rv_program_id" "t_revisions s"]) (use refs ok in \<open>simp_all add: drops\<close>)
  moreover have "fk ch_id (t_characteristics ?t) (Some \<circ> ir_characteristic_id) (t_inspection_results ?t)"
    by (rule fk_restrict [of ch_id "t_characteristics s" "Some \<circ> ir_characteristic_id" "t_inspection_results s"]) (use refs ok in \<open>simp_all add: drops\<close>)
  ultimately show ?thesis unfolding product_refs_def by blast
qed

section \<open>Preservation\<close>

lemma preserves_sql_delete:
  assumes "\<And>s. I s \<Longrightarrow> (\<forall>(b, e)\<in>set (v s (f s)). \<not> b) \<Longrightarrow> I (f s)"
  shows "preserves I (sql_delete present f v)"
  using assms by (auto simp: preserves_def sql_delete_def find_None_iff split: option.splits prod.splits)

lemma audit_is_log: "audit n t a b c d e s = s\<lparr>t_audit_log := t_audit_log (audit n t a b c d e s)\<rparr>"
  by (simp add: audit_def insert_audit_def prog_simps split: option.split)

lemma master_inv_log [simp]: "master_inv (s\<lparr>t_audit_log := l\<rparr>) = master_inv s"
  by (simp add: master_inv_def tree_refs_def equipment_refs_def product_refs_def master_keys_def)

lemma preserves_master_audit [preserves_rules]: "preserves master_inv (modify (audit n t a b c d e))"
  by (rule preserves_modify) (metis audit_is_log master_inv_log)

lemma distinct_update:
  assumes "distinct (map key rows)" "distinct (map f rows)"
    and "\<And>r x. r \<in> set rows \<Longrightarrow> key r = i \<Longrightarrow> x \<in> set rows \<Longrightarrow> key x \<noteq> i \<Longrightarrow> f x \<noteq> f (upd r)"
  shows "distinct (map f (update_where (\<lambda>r. key r = i) upd rows))"
  using assms
proof (induction rows)
  case (Cons r rows)
  have "key x \<noteq> i" if "key r = i" "x \<in> set rows" for x using Cons.prems(1) that by (force simp: image_iff)
  with Cons show ?case by (fastforce simp: update_where_def)
qed (simp add: update_where_def)

lemma distinct_update_row:
  assumes "distinct (map key rows)" "distinct (map f rows)" "find_row key i rows = Some r"
    and "\<And>x. x \<in> set rows \<Longrightarrow> key x \<noteq> i \<Longrightarrow> f x \<noteq> f (upd r)"
  shows "distinct (map f (update_where (\<lambda>r. key r = i) upd rows))"
proof (rule distinct_update [OF assms(1,2)])
  fix r' x assume r': "r' \<in> set rows" "key r' = i" and x: "x \<in> set rows" "key x \<noteq> i"
  have "r' = r" using find_row_unique [OF assms(1) r'(1)] r'(2) assms(3) by simp
  with assms(4) [OF x] show "f x \<noteq> f (upd r')" by simp
qed

lemma fk_update_parents: "row_update key upd \<Longrightarrow> fk key (update_where Q upd P) ref C = fk key P ref C"
  by (simp add: fk_def row_update.has_key_update)

lemma fk_update_children:
  "fk key P ref C \<Longrightarrow> (\<And>r. ref (upd r) = ref r) \<Longrightarrow> fk key P ref (update_where Q upd C)"
  by (auto simp: fk_def update_where_def)

lemma distinct_map_filters: "distinct (map f xs) \<Longrightarrow> distinct (map f (filter Q xs))"
  by (simp add: distinct_map inj_on_def)

interpretation site_set: row_update ste_id "site_set c n z now" for c n z now
  by unfold_locales (simp add: site_set_def)

interpretation area_set: row_update ar_id "area_set c n now" for c n now
  by unfold_locales (simp add: area_set_def)

interpretation work_center_set: row_update wc_id "work_center_set c n x now" for c n x now
  by unfold_locales (simp add: work_center_set_def)

interpretation part_set: row_update pt_id "part_set c n m now" for c n m now
  by unfold_locales (simp add: part_set_def)

lemmas set_refs = fk_update_parents [OF site_set.row_update_axioms] fk_update_parents [OF area_set.row_update_axioms]
  fk_update_parents [OF work_center_set.row_update_axioms] fk_update_parents [OF part_set.row_update_axioms]
  fk_update_children site_set.keys_update area_set.keys_update work_center_set.keys_update part_set.keys_update

lemmas inv_defs = master_inv_def tree_refs_def equipment_refs_def product_refs_def master_keys_def

lemma preserves_master_create [preserves_rules]:
  "preserves master_inv (create_site nid now code name tz)"
  "preserves master_inv (create_area nid now st code name)"
  "preserves master_inv (create_work_center nid now ar code name ext)"
  "preserves master_inv (create_part nid now code name uom)"
  unfolding create_site_def create_area_def create_work_center_def create_part_def Let_def
  by (intro preserves_rules preserves_sql_exec; auto simp: inv_defs has_key_def fk_more intro!: fk_row)+

lemma preserves_master_update [preserves_rules]:
  "preserves master_inv (update_site now i code name tz)"
  "preserves master_inv (update_area now i code name)"
  "preserves master_inv (update_work_center now i code name ext)"
  "preserves master_inv (update_part now i code name uom)"
proof -
  show "preserves master_inv (update_site now i code name tz)"
    unfolding update_site_def
    by (rule preserves_sql_update)
      (auto simp: inv_defs set_refs site_set_def intro!: distinct_update_row)
  show "preserves master_inv (update_part now i code name uom)"
    unfolding update_part_def
    by (rule preserves_sql_update)
      (auto simp: inv_defs set_refs part_set_def intro!: distinct_update_row)
  show "preserves master_inv (update_area now i code name)"
    unfolding update_area_def
    by (rule preserves_sql_update)
      (auto simp: inv_defs set_refs area_set_def intro!: distinct_update_row)
  show "preserves master_inv (update_work_center now i code name ext)"
    unfolding update_work_center_def
    by (rule preserves_sql_update)
      (auto simp: inv_defs set_refs work_center_set_def intro!: distinct_update_row)
qed

lemma preserves_master_program [preserves_rules]: "preserves master_inv (create_program nid now input)"
  unfolding create_program_def Let_def
  by (intro preserves_rules preserves_sql_exec)
    (auto simp: inv_defs fk_more missing_ref_def intro!: fk_row split: option.splits)

lemma preserves_master_user [preserves_rules]:
  "preserves master_inv (create_user nid now n d r ph pin b)"
  unfolding create_user_def Let_def
  by (intro preserves_rules preserves_sql_exec) (auto simp: inv_defs has_key_def)

lemma preserves_hash [preserves_rules]: "preserves I (hash_optional c p)"
  unfolding hash_optional_def by (auto intro: preserves_rules split: option.split sum.split)

text \<open>What a deletion keeps of the other groups of references, and of the keys.\<close>

lemma drop_work_centers_frame:
  "tree_refs s \<Longrightarrow> tree_refs (drop_work_centers P s)"
  "product_refs s \<Longrightarrow> product_refs (drop_work_centers P s)"
  "master_keys s \<Longrightarrow> master_keys (drop_work_centers P s)"
  by (auto simp: tree_refs_def product_refs_def master_keys_def drop_work_centers_def distinct_map_filters
      elim!: fk_unrelated)

lemma drop_areas_frame:
  "product_refs s \<Longrightarrow> product_refs (drop_areas P s)"
  "master_keys s \<Longrightarrow> master_keys (drop_areas P s)"
  using drop_work_centers_frame(2,3)
  by (auto simp: drop_areas_def product_refs_def master_keys_def drop_work_centers_def distinct_map_filters)

lemma drop_site_frame:
  "product_refs s \<Longrightarrow> product_refs (drop_site i s)"
  "master_keys s \<Longrightarrow> master_keys (drop_site i s)"
  by (auto simp: drop_site_def drop_areas_def product_refs_def master_keys_def drop_work_centers_def
      distinct_map_filters)

lemma drop_part_frame:
  "tree_refs s \<Longrightarrow> tree_refs (drop_part i s)"
  "master_keys s \<Longrightarrow> master_keys (drop_part i s)"
  "equipment_refs s \<Longrightarrow> equipment_refs (drop_part i s)"
  by (auto simp: tree_refs_def master_keys_def equipment_refs_def drop_part_def distinct_map_filters
      elim!: fk_unrelated)

lemma preserves_master_delete [preserves_rules]:
  "preserves master_inv (delete_site i)"
  "preserves master_inv (delete_area i)"
  "preserves master_inv (delete_work_center i)"
  "preserves master_inv (delete_part i)"
  unfolding delete_site_def delete_area_def delete_work_center_def delete_part_def
  by (rule preserves_sql_delete; unfold master_inv_def,
      simp add: drop_site_refs drop_areas_refs drop_work_centers_refs drop_part_refs drop_work_centers_frame
        drop_areas_frame drop_site_frame drop_part_frame)+

text \<open>One request to the master-data routes, with any arguments, whether it succeeds or not.\<close>

inductive master_step :: "'s master_db_scheme \<Rightarrow> 's master_db_scheme \<Rightarrow> bool" where
  "master_step s (snd (create_site_handler nid aid now u code name tz s))"
| "master_step s (snd (update_site_handler aid now u i code name tz s))"
| "master_step s (snd (delete_site_handler aid now u i s))"
| "master_step s (snd (create_area_handler nid aid now u site code name s))"
| "master_step s (snd (update_area_handler aid now u i code name s))"
| "master_step s (snd (delete_area_handler aid now u i s))"
| "master_step s (snd (create_work_center_handler nid aid now u area code name ext s))"
| "master_step s (snd (update_work_center_handler aid now u i code name ext s))"
| "master_step s (snd (delete_work_center_handler aid now u i s))"
| "master_step s (snd (create_part_handler nid aid now u code name uom s))"
| "master_step s (snd (update_part_handler aid now u i code name uom s))"
| "master_step s (snd (delete_part_handler aid now u i s))"
| "master_step s (snd (create_program_handler nid aid now u program s))"
| "master_step s (snd (create_user_handler c nid aid now u user s))"

lemmas master_writers = create_site_handler_def update_site_handler_def delete_site_handler_def
  create_area_handler_def update_area_handler_def delete_area_handler_def
  create_work_center_handler_def update_work_center_handler_def delete_work_center_handler_def
  create_part_handler_def update_part_handler_def delete_part_handler_def
  create_program_handler_def create_user_handler_def

lemma master_handlers_inv:
  "preserves master_inv (create_site_handler nid aid now u code name tz)"
  "preserves master_inv (update_site_handler aid now u i code name tz)"
  "preserves master_inv (delete_site_handler aid now u i)"
  "preserves master_inv (create_area_handler nid aid now u site code name)"
  "preserves master_inv (update_area_handler aid now u i code name)"
  "preserves master_inv (delete_area_handler aid now u i)"
  "preserves master_inv (create_work_center_handler nid aid now u area code name ext)"
  "preserves master_inv (update_work_center_handler aid now u i code name ext)"
  "preserves master_inv (delete_work_center_handler aid now u i)"
  "preserves master_inv (create_part_handler nid aid now u code name uom)"
  "preserves master_inv (update_part_handler aid now u i code name uom)"
  "preserves master_inv (delete_part_handler aid now u i)"
  "preserves master_inv (create_program_handler nid aid now u program)"
  "preserves master_inv (create_user_handler c nid aid now u user)"
  unfolding master_writers by (intro preserves_rules)+

lemma master_step_inv: "master_step s s' \<Longrightarrow> master_inv s \<Longrightarrow> master_inv s'"
  by (induction rule: master_step.induct) (erule preservesD [rotated], rule master_handlers_inv)+

text \<open>
  Master data stays consistent.  Whatever sequence of master-data requests is served, by whomever
  and with any arguments: every reference into sites, areas, work centers, parts, routings, programs,
  plans and the rows under them names an existing row, also after deletions that cascade through the
  schema; primary keys, codes, user names and badges stay unique, and every user has a known role.
\<close>

theorem master_consistent:
  assumes "master_step\<^sup>*\<^sup>* s s'" "master_inv s"
  shows "master_inv s'"
  using assms by (induction rule: rtranclp_induct) (auto intro: master_step_inv)

text \<open>A small plant: one site, area and work center, one part with an order.\<close>

definition sample_master :: master_db where
  "sample_master = (qms_db.extend sample_qms
     \<lparr>t_sites = [\<lparr>ste_id = ''S1'', ste_code = ''BLR'', ste_name = ''Bengaluru'', ste_timezone = ''Asia/Kolkata'',
        ste_created_at = 0, ste_updated_at = 0\<rparr>],
      t_areas = [\<lparr>ar_id = ''A1'', ar_site_id = ''S1'', ar_code = ''MC'', ar_name = ''Machining'',
        ar_created_at = 0, ar_updated_at = 0\<rparr>],
      t_shifts = [], t_boms = [], t_erp_connections = [], t_erp_sync_log = []\<rparr>)
     \<lparr>t_routings := [\<lparr>rt_id = ''RT1'', rt_part_id = ''P1''\<rparr>],
      t_routing_ops := [\<lparr>ro_id = ''RO2'', ro_routing_id = ''RT1'', ro_work_center_id = Some ''M1''\<rparr>],
      t_inspection_plans := [\<lparr>ip_id = ''IP'', ip_part_id = ''P1'', ip_code = ''Q1'', ip_name = ''Bore'',
        ip_created_at = 0, ip_updated_at = 0\<rparr>]\<rparr>"

lemmas sample_master_defs = sample_master_def qms_db.defs sample_defs

lemma sample_master_inv: "master_inv sample_master"
  by (simp add: inv_defs fk_def has_key_simps sample_master_defs new_revision_def role_codes_def)

theorem master_consistent_witness:
  "master_inv (snd (delete_site_handler ''X1'' 5 \<lparr>user_id = ''U1'', role = ''Planner''\<rparr> ''S1'' sample_master))"
  by (rule master_consistent [OF r_into_rtranclp sample_master_inv]) (rule master_step.intros)

end
