(* ===== verification/Shifts.thy ===== *)
theory Shifts
  imports Master Oee
begin

text \<open>
  Effectiveness by shift: \<^verbatim>\<open>oee_by_shift\<close> and \<^verbatim>\<open>create_shift\<close> of \<^verbatim>\<open>mes-db/src/repo_oee.rs\<close> and the
  endpoint of \<^verbatim>\<open>mes-edge/src/analytics.rs\<close>.  A day is its number since the epoch; a time of day is
  counted in microseconds from midnight.
\<close>

section \<open>Shift slices\<close>

definition day_of :: "timestamp \<Rightarrow> int" where
  "day_of t = t div days 1"

definition at_time :: "int \<Rightarrow> duration \<Rightarrow> timestamp" where
  "at_time day tod = days day + tod"

text \<open>The shifts of the site a work center belongs to, by start time.\<close>

definition shifts_of :: "string \<Rightarrow> 's master_db_scheme \<Rightarrow> shift_row list" where
  "shifts_of wc s =
     sort_key sh_start_time (filter (\<lambda>sh.
       \<exists>w\<in>set (t_work_centers s). wc_id w = wc \<and>
         (\<exists>a\<in>set (t_areas s). ar_id a = wc_area_id w \<and>
           (\<exists>si\<in>set (t_sites s). ste_id si = ar_site_id a \<and> sh_site_id sh = ste_id si)))
       (t_shifts s))"

text \<open>One occurrence of a shift, clamped to the window; a shift that ends no later than it starts ends the next day.\<close>

definition shift_end :: "int \<Rightarrow> shift_row \<Rightarrow> timestamp" where
  "shift_end day sh =
     (let st = at_time day (sh_start_time sh); et = at_time day (sh_end_time sh)
      in if et \<le> st then et + days 1 else et)"

definition shift_slice :: "timestamp \<Rightarrow> timestamp \<Rightarrow> int \<Rightarrow> shift_row \<Rightarrow> string \<times> timestamp \<times> timestamp" where
  "shift_slice start stop day sh =
     (sh_name sh, max (at_time day (sh_start_time sh)) start, min (shift_end day sh) stop)"

definition shift_slices ::
  "timestamp \<Rightarrow> timestamp \<Rightarrow> shift_row list \<Rightarrow> (string \<times> timestamp \<times> timestamp) list" where
  "shift_slices start stop shifts =
     concat (map (\<lambda>day. filter (\<lambda>(n, a, b). \<not> a \<ge> b) (map (shift_slice start stop day) shifts))
       [day_of start..day_of stop])"

record shift_oee =
  so_shift_name :: string
  so_start :: timestamp
  so_end :: timestamp
  so_result :: oee_result

definition oee_by_shift ::
  "string \<Rightarrow> timestamp \<Rightarrow> timestamp \<Rightarrow> ('s master_db_scheme, repo_error, shift_oee list) prog" where
  "oee_by_shift wc start stop =
     andThen (gets (shifts_of wc)) (\<lambda>shifts.
     mapProg (\<lambda>(n, a, b).
         andThen (oee_sql wc a b) (\<lambda>r.
         ret \<lparr>so_shift_name = n, so_start = a, so_end = b, so_result = r\<rparr>))
       (shift_slices start stop shifts))"

definition create_shift ::
  "string \<Rightarrow> string \<Rightarrow> string \<Rightarrow> duration \<Rightarrow> duration \<Rightarrow> ('s master_db_scheme, repo_error, unit) prog" where
  "create_shift nid site_id name start_time end_time =
     sql_exec_by oee_map_sqlx
       (\<lambda>s. [(has_key sh_id nid (t_shifts s), dup_key ''shifts_pkey''),
             (has_key (\<lambda>x. (sh_site_id x, sh_name x)) (site_id, name) (t_shifts s),
              dup_key ''shifts_site_id_name_key''),
             (\<not> has_key ste_id site_id (t_sites s), bad_ref ''shifts'' ''shifts_site_id_fkey'')])
       (\<lambda>s. s\<lparr>t_shifts := t_shifts s @
              [\<lparr>sh_id = nid, sh_site_id = site_id, sh_name = name, sh_start_time = start_time,
                sh_end_time = end_time\<rparr>]\<rparr>)"

section \<open>Endpoint\<close>

definition oee_by_shift_handler ::
  "auth_user \<Rightarrow> string \<Rightarrow> timestamp \<Rightarrow> timestamp \<Rightarrow> ('s master_db_scheme, api_err, shift_oee list) prog" where
  "oee_by_shift_handler u wc start stop =
     andThen require_pool (\<lambda>_. mapErr repo_err (oee_by_shift wc start stop))"

section \<open>Coverage of the window\<close>












definition night_shift :: shift_row where
  "night_shift = \<lparr>sh_id = ''N'', sh_site_id = ''S1'', sh_name = ''night'',
     sh_start_time = 79200000000, sh_end_time = 21600000000\<rparr>"


text \<open>
  A window that starts inside an overnight shift has no slice for the rest of the shift that began
  the day before.
\<close>

lemma overnight_tail_lost: "shift_slices 0 21600000000 [night_shift] = []"
  by (simp add: shift_slices_def shift_slice_def night_shift_def day_of_def days_def at_time_def shift_end_def)

end
