(* ===== verification/Erp.thy ===== *)
theory Erp
  imports Master Sync
begin

text \<open>
  Integration with an external planning system: the field mapping (\<^verbatim>\<open>mes-erp/src/mapping.rs\<close>), the
  encryption of stored tokens (\<^verbatim>\<open>crypto.rs\<close>), the outgoing client (\<^verbatim>\<open>push.rs\<close>), the connection
  repository (\<^verbatim>\<open>mes-db/src/repo_erp.rs\<close>) and the handlers of \<^verbatim>\<open>mes-edge/src/erp.rs\<close>.  The cipher, the
  hash, the text encoding of bytes and the network are third-party code and so parameters.
\<close>

datatype erp_error = MappingError string | CryptoError | HttpError string

definition erp_msg :: "erp_error \<Rightarrow> string" where
  "erp_msg e =
     (case e of
        MappingError m \<Rightarrow> ''field mapping error: '' @ m
      | CryptoError \<Rightarrow> ''token encryption error''
      | HttpError m \<Rightarrow> ''erp request failed: '' @ m)"

section \<open>Field mapping\<close>

text \<open>A mapping is an ordered map from canonical to external field names.\<close>

type_synonym field_mapping = "(string \<times> string) list"

fun read_fields :: "(string \<times> json) list \<Rightarrow> field_mapping \<Rightarrow> erp_error + field_mapping" where
  "read_fields [] acc = Inr acc"
| "read_fields ((canonical, ext) # m) acc =
     (case json_as_str ext of
        None \<Rightarrow> Inl (MappingError (''mapping for '' @ [CHR 0x27] @ canonical @ [CHR 0x27] @ '' must be a string''))
      | Some e \<Rightarrow> read_fields m (map_insert canonical e acc))"

definition from_json :: "json \<Rightarrow> erp_error + field_mapping" where
  "from_json v =
     (case (case json_get v ''fields'' of Some f \<Rightarrow> f | None \<Rightarrow> v) of
        JObj m \<Rightarrow> read_fields m []
      | _ \<Rightarrow> Inl (MappingError ''field_mapping must be an object''))"

definition to_canonical :: "field_mapping \<Rightarrow> json \<Rightarrow> json" where
  "to_canonical fm external =
     JObj (fold (\<lambda>(canonical, ext) out.
       case json_get external ext of Some val \<Rightarrow> map_insert canonical val out | None \<Rightarrow> out) fm [])"

definition to_external :: "field_mapping \<Rightarrow> json \<Rightarrow> json" where
  "to_external fm canonical =
     JObj (fold (\<lambda>(canon, ext) out.
       case json_get canonical canon of Some val \<Rightarrow> map_insert ext val out | None \<Rightarrow> out) fm [])"

section \<open>Token encryption\<close>

record aead =
  sha256 :: "string \<Rightarrow> string"
  seal :: "string \<Rightarrow> string \<Rightarrow> string \<Rightarrow> string option"
  unseal :: "string \<Rightarrow> string \<Rightarrow> string \<Rightarrow> string option"
  b64_encode :: "string \<Rightarrow> string"
  b64_decode :: "string \<Rightarrow> string option"
  utf8_valid :: "string \<Rightarrow> bool"

definition NONCE_LEN :: nat where
  "NONCE_LEN = 24"

definition derive_key :: "aead \<Rightarrow> string \<Rightarrow> string" where
  "derive_key c secret = sha256 c (''mes-erp-token-encryption-v1'' @ secret)"

text \<open>The nonce is what the random source returned, if it did.\<close>

definition encrypt :: "aead \<Rightarrow> string option \<Rightarrow> string \<Rightarrow> string \<Rightarrow> erp_error + string" where
  "encrypt c random key plaintext =
     (case random of
        None \<Rightarrow> Inl CryptoError
      | Some nonce \<Rightarrow>
          (case seal c key nonce plaintext of
             None \<Rightarrow> Inl CryptoError
           | Some ct \<Rightarrow> Inr (b64_encode c (nonce @ ct))))"

definition decrypt :: "aead \<Rightarrow> string \<Rightarrow> string \<Rightarrow> erp_error + string" where
  "decrypt c key token =
     (case b64_decode c token of
        None \<Rightarrow> Inl CryptoError
      | Some buf \<Rightarrow>
          if length buf \<le> NONCE_LEN then Inl CryptoError
          else (case unseal c key (take NONCE_LEN buf) (drop NONCE_LEN buf) of
                  None \<Rightarrow> Inl CryptoError
                | Some pt \<Rightarrow> if utf8_valid c pt then Inr pt else Inl CryptoError))"

section \<open>Outgoing client\<close>

text \<open>
  What the network answers to a post: a transport error, or a status line, whether it signals
  success, and the body when it parses.
\<close>

type_synonym http = "string \<Rightarrow> string option \<Rightarrow> json \<Rightarrow> string + (string \<times> bool \<times> json option)"

definition post_json :: "http \<Rightarrow> string \<Rightarrow> string option \<Rightarrow> json \<Rightarrow> erp_error + json" where
  "post_json http url token body =
     (case http url token body of
        Inl e \<Rightarrow> Inl (HttpError e)
      | Inr (status, success, answer) \<Rightarrow>
          if \<not> success then Inl (HttpError (''erp returned '' @ status))
          else Inr (case answer of None \<Rightarrow> JNull | Some v \<Rightarrow> v))"

section \<open>Repository\<close>

text \<open>What clients see of a connection: whether a token is stored, never the token.\<close>

record erp_connection =
  ex_id :: string
  ex_site_id :: "string option"
  ex_name :: string
  ex_endpoint_url :: string
  ex_has_token :: bool
  ex_field_mapping :: json
  ex_direction :: string
  ex_enabled :: bool
  ex_created_at :: timestamp
  ex_updated_at :: timestamp

definition into_public :: "erp_connection_row \<Rightarrow> erp_connection" where
  "into_public r =
     \<lparr>ex_id = ec_id r, ex_site_id = ec_site_id r, ex_name = ec_name r, ex_endpoint_url = ec_endpoint_url r,
      ex_has_token = (ec_auth_token_enc r \<noteq> None), ex_field_mapping = ec_field_mapping r,
      ex_direction = ec_direction r, ex_enabled = ec_enabled r, ex_created_at = ec_created_at r,
      ex_updated_at = ec_updated_at r\<rparr>"

definition create_connection ::
  "string \<Rightarrow> timestamp \<Rightarrow> string option \<Rightarrow> string \<Rightarrow> string \<Rightarrow> string option \<Rightarrow> json \<Rightarrow> string \<Rightarrow> bool
    \<Rightarrow> ('s master_db_scheme, repo_error, erp_connection) prog" where
  "create_connection nid now site_id name endpoint_url auth_token_enc field_mapping direction enabled =
     (let r = \<lparr>ec_id = nid, ec_site_id = site_id, ec_name = name, ec_endpoint_url = endpoint_url,
               ec_auth_token_enc = auth_token_enc, ec_field_mapping = field_mapping,
               ec_direction = direction, ec_enabled = enabled, ec_created_at = now, ec_updated_at = now\<rparr>
      in andThen
           (sql_exec
              (\<lambda>s. [(has_key ec_id nid (t_erp_connections s), dup_key ''erp_connections_pkey''),
                    (missing_ref ste_id site_id (t_sites s),
                     bad_ref ''erp_connections'' ''erp_connections_site_id_fkey'')])
              (\<lambda>s. s\<lparr>t_erp_connections := t_erp_connections s @ [r]\<rparr>))
           (\<lambda>_. ret (into_public r)))"

definition get_connection :: "string \<Rightarrow> ('s master_db_scheme, repo_error, erp_connection) prog" where
  "get_connection i =
     andThen (gets (\<lambda>s. map_option into_public (find_row ec_id i (t_erp_connections s)))) (okOr NotFound)"

definition get_connection_secret :: "string \<Rightarrow> ('s master_db_scheme, repo_error, erp_connection_row) prog" where
  "get_connection_secret i =
     andThen (gets (\<lambda>s. find_row ec_id i (t_erp_connections s))) (okOr NotFound)"

definition list_connections :: "('s master_db_scheme, repo_error, erp_connection list) prog" where
  "list_connections = gets (\<lambda>s. map into_public (sort_key ec_created_at (t_erp_connections s)))"

definition conn_set ::
  "string option \<Rightarrow> string \<Rightarrow> string \<Rightarrow> string option \<Rightarrow> json \<Rightarrow> string \<Rightarrow> bool \<Rightarrow> timestamp
    \<Rightarrow> erp_connection_row \<Rightarrow> erp_connection_row" where
  "conn_set site_id name endpoint_url auth_token_enc field_mapping direction enabled now r =
     r\<lparr>ec_site_id := site_id, ec_name := name, ec_endpoint_url := endpoint_url,
       ec_auth_token_enc := (case auth_token_enc of None \<Rightarrow> ec_auth_token_enc r | Some t \<Rightarrow> Some t),
       ec_field_mapping := field_mapping, ec_direction := direction, ec_enabled := enabled,
       ec_updated_at := now\<rparr>"

definition update_connection ::
  "timestamp \<Rightarrow> string \<Rightarrow> string option \<Rightarrow> string \<Rightarrow> string \<Rightarrow> string option \<Rightarrow> json \<Rightarrow> string \<Rightarrow> bool
    \<Rightarrow> ('s master_db_scheme, repo_error, erp_connection) prog" where
  "update_connection now i site_id name endpoint_url auth_token_enc field_mapping direction enabled =
     (let set_row = conn_set site_id name endpoint_url auth_token_enc field_mapping direction enabled now in
      andThen
        (sql_update (\<lambda>s. find_row ec_id i (t_erp_connections s))
           (\<lambda>s _. [(missing_ref ste_id site_id (t_sites s),
                    bad_ref ''erp_connections'' ''erp_connections_site_id_fkey'')])
           set_row
           (\<lambda>s. s\<lparr>t_erp_connections := update_where (\<lambda>r. ec_id r = i) set_row (t_erp_connections s)\<rparr>))
        (\<lambda>r. ret (into_public r)))"

definition delete_connection :: "string \<Rightarrow> ('s master_db_scheme, repo_error, unit) prog" where
  "delete_connection i =
     sql_delete (\<lambda>s. has_key ec_id i (t_erp_connections s))
       (\<lambda>s. s\<lparr>t_erp_connections := filter (\<lambda>r. ec_id r \<noteq> i) (t_erp_connections s),
              t_erp_sync_log := filter (\<lambda>l. el_connection_id l \<noteq> Some i) (t_erp_sync_log s)\<rparr>)
       (\<lambda>_ _. [])"

definition insert_sync_log ::
  "string \<Rightarrow> timestamp \<Rightarrow> string \<Rightarrow> string \<Rightarrow> string \<Rightarrow> int \<Rightarrow> string \<Rightarrow> string option
    \<Rightarrow> ('s master_db_scheme, repo_error, string) prog" where
  "insert_sync_log nid now connection_id direction entity records status detail =
     andThen
       (sql_exec
          (\<lambda>s. [(has_key el_id nid (t_erp_sync_log s), dup_key ''erp_sync_log_pkey''),
                (\<not> has_key ec_id connection_id (t_erp_connections s),
                 bad_ref ''erp_sync_log'' ''erp_sync_log_connection_id_fkey'')])
          (\<lambda>s. s\<lparr>t_erp_sync_log := t_erp_sync_log s @
                 [\<lparr>el_id = nid, el_connection_id = Some connection_id, el_direction = direction,
                   el_entity = entity, el_record_count = records, el_status = status,
                   el_detail = detail, el_ts = now\<rparr>]\<rparr>))
       (\<lambda>_. ret nid)"

definition list_sync_log :: "string option \<Rightarrow> ('s master_db_scheme, repo_error, erp_sync_log_row list) prog" where
  "list_sync_log connection_id =
     gets (\<lambda>s. sort_key (\<lambda>l. - el_ts l)
       (filter (\<lambda>l. connection_id = None \<or> el_connection_id l = connection_id) (t_erp_sync_log s)))"

definition proc_sent :: "string option \<Rightarrow> timestamp \<Rightarrow> proc_row \<Rightarrow> proc_row" where
  "proc_sent erp_reference now r =
     r\<lparr>pr_status := ''sent_to_erp'',
       pr_erp_reference := (case erp_reference of None \<Rightarrow> pr_erp_reference r | Some x \<Rightarrow> Some x),
       pr_pushed_at := Some now, pr_updated_at := now\<rparr>"

definition mark_procurement_sent ::
  "timestamp \<Rightarrow> string list \<Rightarrow> string option \<Rightarrow> ('s master_db_scheme, repo_error, nat) prog" where
  "mark_procurement_sent now ids erp_reference =
     (if ids = [] then ret 0
      else andThen (gets (\<lambda>s. length (filter (\<lambda>r. pr_id r \<in> set ids \<and> pr_status r = ''requested'')
                      (t_procurement_requests s)))) (\<lambda>n.
           andThen (modify (\<lambda>s. s\<lparr>t_procurement_requests :=
                      update_where (\<lambda>r. pr_id r \<in> set ids \<and> pr_status r = ''requested'')
                        (proc_sent erp_reference now) (t_procurement_requests s)\<rparr>)) (\<lambda>_.
           ret n)))"

section \<open>Handlers of \<^verbatim>\<open>/v1/erp\<close>\<close>

record connection_input =
  in_site_id :: "string option"
  in_name :: string
  in_endpoint_url :: string
  in_auth_token :: "string option"
  in_field_mapping :: json
  in_direction :: "string option"
  in_enabled :: "bool option"

definition normalize_direction :: "string option \<Rightarrow> ('s, api_err, string) prog" where
  "normalize_direction d =
     (let v = unwrap_or ''both'' d in
      if v \<in> {''import'', ''export'', ''both''} then ret v
      else throw (ApiErr 400 ''bad_direction'' ''direction must be import|export|both''))"

definition field_mapping_or_default :: "json \<Rightarrow> json" where
  "field_mapping_or_default v = (if v = JNull then json_object [] else v)"

text \<open>The service's key, and the nonce drawn if a token is encrypted.\<close>

record erp_env =
  cipher :: aead
  erp_key :: string
  nonce :: "string option"
  http :: http

definition encrypt_token :: "erp_env \<Rightarrow> string option \<Rightarrow> ('s, api_err, string option) prog" where
  "encrypt_token e plain =
     (case non_empty plain of
        None \<Rightarrow> ret None
      | Some t \<Rightarrow>
          (case encrypt (cipher e) (nonce e) (erp_key e) t of
             Inl _ \<Rightarrow> throw (ApiErr 500 ''internal'' ''token encryption failed'')
           | Inr enc \<Rightarrow> ret (Some enc)))"

definition create_connection_handler ::
  "erp_env \<Rightarrow> string \<Rightarrow> string \<Rightarrow> timestamp \<Rightarrow> auth_user \<Rightarrow> connection_input
    \<Rightarrow> ('s master_db_scheme, api_err, nat \<times> erp_connection) prog" where
  "create_connection_handler e nid aid now u input =
     andThen (master_writer u) (\<lambda>actor.
     andThen require_pool (\<lambda>_.
     andThen (normalize_direction (in_direction input)) (\<lambda>direction.
     andThen (encrypt_token e (in_auth_token input)) (\<lambda>token_enc.
     andThen (mapErr repo_err (create_connection nid now (in_site_id input) (in_name input)
                (in_endpoint_url input) token_enc (field_mapping_or_default (in_field_mapping input))
                direction (unwrap_or True (in_enabled input)))) (\<lambda>conn.
     andThen (modify (audit aid now (Some (user_id actor)) ''create'' ''erp_connection''
                (Some (ex_id conn)) None)) (\<lambda>_.
     ret (201, conn)))))))"

definition list_connections_handler :: "auth_user \<Rightarrow> ('s master_db_scheme, api_err, erp_connection list) prog" where
  "list_connections_handler u =
     andThen (master_writer u) (\<lambda>_. andThen require_pool (\<lambda>_. mapErr repo_err list_connections))"

definition get_connection_handler :: "auth_user \<Rightarrow> string \<Rightarrow> ('s master_db_scheme, api_err, erp_connection) prog" where
  "get_connection_handler u i =
     andThen (master_writer u) (\<lambda>_. andThen require_pool (\<lambda>_. mapErr repo_err (get_connection i)))"

definition update_connection_handler ::
  "erp_env \<Rightarrow> string \<Rightarrow> timestamp \<Rightarrow> auth_user \<Rightarrow> string \<Rightarrow> connection_input
    \<Rightarrow> ('s master_db_scheme, api_err, erp_connection) prog" where
  "update_connection_handler e aid now u i input =
     andThen (master_writer u) (\<lambda>actor.
     andThen require_pool (\<lambda>_.
     andThen (normalize_direction (in_direction input)) (\<lambda>direction.
     andThen (encrypt_token e (in_auth_token input)) (\<lambda>token_enc.
     andThen (mapErr repo_err (update_connection now i (in_site_id input) (in_name input)
                (in_endpoint_url input) token_enc (field_mapping_or_default (in_field_mapping input))
                direction (unwrap_or True (in_enabled input)))) (\<lambda>conn.
     andThen (modify (audit aid now (Some (user_id actor)) ''update'' ''erp_connection'' (Some i) None)) (\<lambda>_.
     ret conn))))))"

definition delete_connection_handler ::
  "string \<Rightarrow> timestamp \<Rightarrow> auth_user \<Rightarrow> string \<Rightarrow> ('s master_db_scheme, api_err, nat) prog" where
  "delete_connection_handler aid now u i =
     andThen (master_writer u) (\<lambda>actor.
     andThen require_pool (\<lambda>_.
     andThen (mapErr repo_err (delete_connection i)) (\<lambda>_.
     andThen (modify (audit aid now (Some (user_id actor)) ''delete'' ''erp_connection'' (Some i) None)) (\<lambda>_.
     ret 204))))"

definition list_sync_log_handler ::
  "auth_user \<Rightarrow> string option \<Rightarrow> ('s master_db_scheme, api_err, erp_sync_log_row list) prog" where
  "list_sync_log_handler u connection_id =
     andThen (master_writer u) (\<lambda>_. andThen require_pool (\<lambda>_. mapErr repo_err (list_sync_log connection_id)))"

text \<open>A count is narrowed to 32 bits for its column.\<close>

definition as_i32 :: "nat \<Rightarrow> int" where
  "as_i32 n = (int n + 2 ^ 31) mod 2 ^ 32 - 2 ^ 31"

section \<open>Import\<close>

text \<open>The derived reader of an order request; a mapped record is always an object.\<close>

definition op_input_of_members :: "wire \<Rightarrow> (string \<Rightarrow> json option) \<Rightarrow> wo_operation_input option" where
  "op_input_of_members w m =
     (case (Option.bind (m ''op_no'') (i32_of_json w), read_opt json_as_str (m ''routing_op_id''),
            read_opt json_as_str (m ''work_center_id'')) of
        (Some n, Some r, Some c) \<Rightarrow> Some \<lparr>oi_op_no = n, oi_routing_op_id = r, oi_work_center_id = c\<rparr>
      | _ \<Rightarrow> None)"

definition op_input_of_json :: "wire \<Rightarrow> json \<Rightarrow> wo_operation_input option" where
  "op_input_of_json w v =
     (case v of
        JObj _ \<Rightarrow> op_input_of_members w (json_get v)
      | JArr [a, b, c] \<Rightarrow>
          op_input_of_members w (map_of [(''op_no'', a), (''routing_op_id'', b), (''work_center_id'', c)])
      | _ \<Rightarrow> None)"

fun all_some :: "('a \<Rightarrow> 'b option) \<Rightarrow> 'a list \<Rightarrow> 'b list option" where
  "all_some f [] = Some []"
| "all_some f (x # xs) =
     (case (f x, all_some f xs) of (Some y, Some ys) \<Rightarrow> Some (y # ys) | _ \<Rightarrow> None)"

definition ops_of_json :: "wire \<Rightarrow> json \<Rightarrow> wo_operation_input list option" where
  "ops_of_json w v = (case v of JArr vs \<Rightarrow> all_some (op_input_of_json w) vs | _ \<Rightarrow> None)"

definition wo_input_of_json :: "wire \<Rightarrow> json \<Rightarrow> work_order_input option" where
  "wo_input_of_json w v =
     (let m = json_get v in
      case (Option.bind (m ''wo_number'') json_as_str, Option.bind (m ''part_id'') json_as_str,
            read_opt json_as_str (m ''routing_id''), Option.bind (m ''qty_ordered'') (dec_of_json w),
            read_opt (i32_of_json w) (m ''priority''), read_opt (ts_of_json w) (m ''planned_start''),
            read_opt (ts_of_json w) (m ''planned_end''), read_default [] (ops_of_json w) (m ''operations'')) of
        (Some n, Some p, Some r, Some q, Some pr, Some ps, Some pe, Some ops) \<Rightarrow>
          Some \<lparr>wi_wo_number = n, wi_part_id = p, wi_routing_id = r, wi_qty_ordered = q, wi_priority = pr,
                wi_planned_start = ps, wi_planned_end = pe, wi_operations = ops\<rparr>
      | _ \<Rightarrow> None)"

text \<open>
  One record after the other; the first that does not map or store ends the run.  The debug form of
  a repository error is a parameter; \<open>ids n\<close> supplies the identifiers of record \<open>n\<close>.
\<close>

definition import_record ::
  "wire \<Rightarrow> (repo_error \<Rightarrow> string) \<Rightarrow> (nat \<Rightarrow> nat \<Rightarrow> string) \<Rightarrow> timestamp \<Rightarrow> field_mapping \<Rightarrow> nat \<times> json
    \<Rightarrow> ('s master_db_scheme, string, string) prog" where
  "import_record w debug ids now fm =
     (\<lambda>(i, rec).
       let canonical = to_canonical fm rec in
       andThen (okOr (''record '' @ digits i @ '': '' @ de_error w canonical) (wo_input_of_json w canonical)) (\<lambda>input.
       andThen (mapErr (\<lambda>e. ''record '' @ digits i @ '': '' @ debug e) (create_work_order w (ids i) now input)) (\<lambda>detail.
       ret (wo_id (fst detail)))))"

definition import_work_orders ::
  "wire \<Rightarrow> (repo_error \<Rightarrow> string) \<Rightarrow> (nat \<Rightarrow> nat \<Rightarrow> string) \<Rightarrow> timestamp \<Rightarrow> field_mapping \<Rightarrow> json list
    \<Rightarrow> ('s master_db_scheme, string, string list) prog" where
  "import_work_orders w debug ids now fm records =
     mapProg (import_record w debug ids now fm) (List.enumerate 0 records)"

record erp_import_result =
  im_entity :: string
  im_imported :: nat
  im_ids :: "string list"
  im_sync_log_id :: string

text \<open>The end of an import: what the loop returned is logged, audited and answered.\<close>

definition finish_import ::
  "string \<Rightarrow> string \<Rightarrow> timestamp \<Rightarrow> string \<Rightarrow> string \<Rightarrow> string \<Rightarrow> string + string list
    \<Rightarrow> ('s master_db_scheme, api_err, nat \<times> erp_import_result) prog" where
  "finish_import lid aid now actor connection_id entity result =
     (case result of
        Inr created \<Rightarrow>
          andThen (mapErr repo_err (insert_sync_log lid now connection_id ''import'' entity
                     (as_i32 (length created)) ''success'' None)) (\<lambda>log_id.
          andThen (modify (audit aid now (Some actor) ''import'' ''erp'' (Some connection_id)
                     (Some (json_object [(''entity'', JStr entity),
                        (''count'', JNum (of_nat (length created)))])))) (\<lambda>_.
          ret (201, \<lparr>im_entity = entity, im_imported = length created, im_ids = created,
                     im_sync_log_id = log_id\<rparr>)))
      | Inl detail \<Rightarrow>
          (\<lambda>s. (Inl (ApiErr 400 ''import_failed'' detail),
                snd (insert_sync_log lid now connection_id ''import'' entity 0 ''error'' (Some detail) s))))"

definition import_handler ::
  "wire \<Rightarrow> (repo_error \<Rightarrow> string) \<Rightarrow> (nat \<Rightarrow> nat \<Rightarrow> string) \<Rightarrow> string \<Rightarrow> string \<Rightarrow> timestamp \<Rightarrow> auth_user
    \<Rightarrow> string \<Rightarrow> string \<Rightarrow> json list \<Rightarrow> ('s master_db_scheme, api_err, nat \<times> erp_import_result) prog" where
  "import_handler w debug ids lid aid now u connection_id entity records =
     andThen (master_writer u) (\<lambda>actor.
     andThen require_pool (\<lambda>_.
     andThen (mapErr repo_err (get_connection_secret connection_id)) (\<lambda>conn.
     andThen (guard (ec_enabled conn) (ApiErr 409 ''disabled'' ''connection is disabled'')) (\<lambda>_.
     andThen (guard (ec_direction conn \<in> {''import'', ''both''})
                (ApiErr 400 ''bad_direction'' ''connection does not allow import'')) (\<lambda>_.
     (case from_json (ec_field_mapping conn) of
        Inl err \<Rightarrow> throw (ApiErr 400 ''bad_mapping'' (erp_msg err))
      | Inr fm \<Rightarrow>
          andThen (guard (entity = ''work_order'')
                     (ApiErr 400 ''bad_entity'' (''import not supported for entity '' @ [CHR 0x27] @ entity @ [CHR 0x27]))) (\<lambda>_.
          (\<lambda>s. let (result, s') = import_work_orders w debug ids now fm records s in
               finish_import lid aid now (user_id actor) connection_id entity result s'))))))))"

section \<open>Export\<close>

definition spare_record :: "wire \<Rightarrow> spare_row \<times> rat \<Rightarrow> json" where
  "spare_record w =
     (\<lambda>(r, stock). json_object [(''code'', JStr (sp_code r)), (''name'', JStr (sp_name r)),
        (''stock'', dec_to_json w stock), (''reorder_point'', dec_to_json w (sp_reorder_point r))])"

definition request_record :: "wire \<Rightarrow> proc_row \<Rightarrow> json" where
  "request_record w r =
     json_object [(''request_id'', JStr (pr_id r)), (''spare_part_id'', JStr (pr_spare_part_id r)),
       (''qty_requested'', dec_to_json w (pr_qty_requested r))]"

definition export_records ::
  "wire \<Rightarrow> (string \<Rightarrow> int) \<Rightarrow> string \<Rightarrow> ('s master_db_scheme, api_err, json list \<times> string list) prog" where
  "export_records w collate entity =
     (if entity = ''stock_level'' then
        andThen (mapErr repo_err (list_spare_parts collate)) (\<lambda>spares.
        ret (map (spare_record w) spares, []))
      else if entity = ''procurement_request'' then
        andThen (mapErr repo_err list_procurement_requests) (\<lambda>all.
        let requested = filter (\<lambda>r. pr_status r = ''requested'') all in
        ret (map (request_record w) requested, map pr_id requested))
      else throw (ApiErr 400 ''bad_entity''
             (''export not supported for entity '' @ [CHR 0x27] @ entity @ [CHR 0x27])))"

record erp_export_result =
  xp_entity :: string
  xp_record_count :: nat
  xp_pushed :: bool
  xp_payload :: "json list"
  xp_sync_log_id :: string

definition decrypt_token :: "erp_env \<Rightarrow> string option \<Rightarrow> ('s, api_err, string option) prog" where
  "decrypt_token e stored =
     (case stored of
        None \<Rightarrow> ret None
      | Some enc \<Rightarrow>
          (case decrypt (cipher e) (erp_key e) enc of
             Inl _ \<Rightarrow> throw (ApiErr 500 ''internal'' ''token decrypt failed'')
           | Inr t \<Rightarrow> ret (Some t)))"

definition erp_reference_of :: "json \<Rightarrow> string option" where
  "erp_reference_of resp = Option.bind (json_get resp ''reference'') json_as_str"

text \<open>The end of an export: requests that were pushed are marked, the push is logged, audited and answered.\<close>

definition finish_export ::
  "string \<Rightarrow> string \<Rightarrow> timestamp \<Rightarrow> string \<Rightarrow> string \<Rightarrow> string \<Rightarrow> json list \<Rightarrow> string list
    \<Rightarrow> erp_error + json \<Rightarrow> ('s master_db_scheme, api_err, erp_export_result) prog" where
  "finish_export lid aid now actor connection_id entity payload procurement_ids pushed =
     (case pushed of
        Inr resp \<Rightarrow>
          andThen (if procurement_ids \<noteq> []
                   then mapErr repo_err (mark_procurement_sent now procurement_ids (erp_reference_of resp))
                   else ret 0) (\<lambda>_.
          andThen (mapErr repo_err (insert_sync_log lid now connection_id ''export'' entity
                     (as_i32 (length payload)) ''success'' None)) (\<lambda>log_id.
          andThen (modify (audit aid now (Some actor) ''export'' ''erp'' (Some connection_id)
                     (Some (json_object [(''entity'', JStr entity),
                        (''count'', JNum (of_nat (length payload)))])))) (\<lambda>_.
          ret \<lparr>xp_entity = entity, xp_record_count = length payload, xp_pushed = True,
               xp_payload = payload, xp_sync_log_id = log_id\<rparr>)))
      | Inl err \<Rightarrow>
          (\<lambda>s. (Inl (ApiErr 502 ''export_failed'' (erp_msg err)),
                snd (insert_sync_log lid now connection_id ''export'' entity (as_i32 (length payload))
                       ''error'' (Some (erp_msg err)) s))))"

definition export_handler ::
  "wire \<Rightarrow> (string \<Rightarrow> int) \<Rightarrow> erp_env \<Rightarrow> string \<Rightarrow> string \<Rightarrow> timestamp \<Rightarrow> auth_user \<Rightarrow> string \<Rightarrow> string
    \<Rightarrow> ('s master_db_scheme, api_err, erp_export_result) prog" where
  "export_handler w collate e lid aid now u connection_id entity =
     andThen (master_writer u) (\<lambda>actor.
     andThen require_pool (\<lambda>_.
     andThen (mapErr repo_err (get_connection_secret connection_id)) (\<lambda>conn.
     andThen (guard (ec_enabled conn) (ApiErr 409 ''disabled'' ''connection is disabled'')) (\<lambda>_.
     andThen (guard (ec_direction conn \<in> {''export'', ''both''})
                (ApiErr 400 ''bad_direction'' ''connection does not allow export'')) (\<lambda>_.
     (case from_json (ec_field_mapping conn) of
        Inl err \<Rightarrow> throw (ApiErr 400 ''bad_mapping'' (erp_msg err))
      | Inr fm \<Rightarrow>
          andThen (export_records w collate entity) (\<lambda>(canonical, procurement_ids).
          let payload = map (to_external fm) canonical in
          andThen (decrypt_token e (ec_auth_token_enc conn)) (\<lambda>token.
          finish_export lid aid now (user_id actor) connection_id entity payload procurement_ids
            (post_json (http e) (ec_endpoint_url conn) token (JArr payload))))))))))"

section \<open>The mapping engine\<close>

lemma fold_fields:
  "fold (\<lambda>(k, e) out. case g k e of Some v \<Rightarrow> map_insert (h k e) v out | None \<Rightarrow> out) fm acc =
     fold (\<lambda>(k, v) m. map_insert k v m) (List.map_filter (\<lambda>(k, e). map_option (Pair (h k e)) (g k e)) fm) acc"
  by (induction fm arbitrary: acc) (auto simp: List.map_filter_simps split: option.split)

lemma to_external_object:
  "to_external fm c = json_object (List.map_filter (\<lambda>(k, e). map_option (Pair e) (json_get c k)) fm)"
  unfolding to_external_def json_object_def
  using fold_fields [where g = "\<lambda>k e. json_get c k" and h = "\<lambda>k e. e" and fm = fm and acc = "[]"] by simp

lemma to_canonical_object:
  "to_canonical fm x = json_object (List.map_filter (\<lambda>(k, e). map_option (Pair k) (json_get x e)) fm)"
  unfolding to_canonical_def json_object_def
  using fold_fields [where g = "\<lambda>k e. json_get x e" and h = "\<lambda>k e. k" and fm = fm and acc = "[]"] by simp

lemma map_of_rev_distinct: "distinct (map fst xs) \<Longrightarrow> map_of (rev xs) k = Some v \<longleftrightarrow> (k, v) \<in> set xs"
  by (simp add: map_of_eq_Some_iff rev_map [symmetric])

lemma map_filter_members: "y \<in> set (List.map_filter f xs) \<longleftrightarrow> (\<exists>x\<in>set xs. f x = Some y)"
  by (force simp: List.map_filter_def)

lemma distinct_map_filter_fst:
  assumes "distinct (map h xs)" "\<And>x y. f x = Some y \<Longrightarrow> fst y = h x"
  shows "distinct (map fst (List.map_filter f xs))"
  using assms(1)
proof (induction xs)
  case (Cons x xs)
  have "h x \<notin> fst ` set (List.map_filter f xs)"
  proof
    assume "h x \<in> fst ` set (List.map_filter f xs)"
    then obtain y x' where "h x = fst y" "x' \<in> set xs" "f x' = Some y"
      by (auto simp: map_filter_members)
    with assms(2) [of x' y] Cons.prems show False by auto
  qed
  with Cons assms(2) [of x] show ?case
    by (cases "f x") (simp_all add: List.map_filter_simps)
qed (simp add: List.map_filter_simps)

lemma get_to_external:
  assumes "distinct (map snd fm)"
  shows "json_get (to_external fm c) e = Some v \<longleftrightarrow> (\<exists>k. (k, e) \<in> set fm \<and> json_get c k = Some v)"
proof -
  let ?f = "\<lambda>(k, e). map_option (Pair e) (json_get c k)"
  have "distinct (map fst (List.map_filter ?f fm))"
    by (rule distinct_map_filter_fst [OF assms]) auto
  then have "json_get (to_external fm c) e = Some v \<longleftrightarrow> (\<exists>x\<in>set fm. ?f x = Some (e, v))"
    by (simp add: to_external_object json_object_get map_of_rev_distinct map_filter_members)
  also have "\<dots> \<longleftrightarrow> (\<exists>k. (k, e) \<in> set fm \<and> json_get c k = Some v)"
    by (auto simp: case_prod_unfold intro!: bexI [of _ "(k, e)" for k])
  finally show ?thesis .
qed

lemma get_to_canonical:
  assumes "distinct (map fst fm)"
  shows "json_get (to_canonical fm x) k = Some v \<longleftrightarrow> (\<exists>e. (k, e) \<in> set fm \<and> json_get x e = Some v)"
proof -
  let ?f = "\<lambda>(k, e). map_option (Pair k) (json_get x e)"
  have "distinct (map fst (List.map_filter ?f fm))"
    by (rule distinct_map_filter_fst [OF assms]) auto
  then have "json_get (to_canonical fm x) k = Some v \<longleftrightarrow> (\<exists>y\<in>set fm. ?f y = Some (k, v))"
    by (simp add: to_canonical_object json_object_get map_of_rev_distinct map_filter_members)
  also have "\<dots> \<longleftrightarrow> (\<exists>e. (k, e) \<in> set fm \<and> json_get x e = Some v)"
    by (auto simp: case_prod_unfold intro!: bexI [of _ "(k, e)" for e])
  finally show ?thesis .
qed

lemma read_fields_ordered: "ordered_map acc \<Longrightarrow> read_fields m acc = Inr fm \<Longrightarrow> ordered_map fm"
  by (induction m acc rule: read_fields.induct) (auto simp: ordered_map_insert split: option.splits)

lemma from_json_distinct:
  assumes "from_json v = Inr fm"
  shows "distinct (map fst fm)"
proof -
  let ?obj = "case json_get v ''fields'' of Some f \<Rightarrow> f | None \<Rightarrow> v"
  have "\<exists>m. ?obj = JObj m" using assms unfolding from_json_def by (cases ?obj) simp_all
  then obtain m where m: "?obj = JObj m" by blast
  have "read_fields m [] = Inr fm" using assms unfolding from_json_def m by simp
  from read_fields_ordered [OF _ this] show ?thesis
    by (intro ordered_map_distinct) (simp add: ordered_map_def)
qed

text \<open>
  Field mappings lose nothing they name.  When a stored mapping gives different fields different
  external names, translating a record to the external vocabulary and back returns every mapped
  field with its value, and nothing else.
\<close>

theorem mapping_roundtrip:
  assumes "from_json v = Inr fm" "distinct (map snd fm)"
  shows "json_get (to_canonical fm (to_external fm c)) k = (if k \<in> fst ` set fm then json_get c k else None)"
proof -
  have fm: "distinct (map fst fm)" by (rule from_json_distinct [OF assms(1)])
  have same: "k' = k" if "(k, e) \<in> set fm" "(k', e) \<in> set fm" for k k' e
    using assms(2) that inj_onD [of snd "set fm" "(k, e)" "(k', e)"] by (simp add: distinct_map)
  have "json_get (to_canonical fm (to_external fm c)) k = Some x \<longleftrightarrow> k \<in> fst ` set fm \<and> json_get c k = Some x" for x
    unfolding get_to_canonical [OF fm] get_to_external [OF assms(2)]
    using same by (auto 0 3 intro: rev_image_eqI) (metis same)
  then show ?thesis by (metis option.exhaust)
qed

section \<open>Stored tokens\<close>

text \<open>What the cipher and the text encoding document: opening undoes sealing, decoding undoes encoding.\<close>

definition aead_ok :: "aead \<Rightarrow> bool" where
  "aead_ok c \<longleftrightarrow>
     (\<forall>k n p ct. seal c k n p = Some ct \<longrightarrow> unseal c k n ct = Some p \<and> length ct = length p + 16) \<and>
     (\<forall>x. b64_decode c (b64_encode c x) = Some x)"

lemma decrypt_encrypt:
  assumes "aead_ok c" "encrypt c (Some n) key t = Inr tok" "length n = NONCE_LEN" "utf8_valid c t"
  shows "decrypt c key tok = Inr t"
  using assms by (auto simp: aead_ok_def encrypt_def decrypt_def split: option.splits)

lemma audit_erp [simp]:
  "t_erp_connections (audit n x a b c d e s) = t_erp_connections s"
  "t_erp_sync_log (audit n x a b c d e s) = t_erp_sync_log s"
  by (simp_all add: audit_def insert_audit_def prog_simps split: option.split)

lemma encrypt_token_cases:
  "non_empty plain = None \<Longrightarrow> encrypt_token e plain = ret None"
  "t \<noteq> [] \<Longrightarrow> encrypt_token e (Some t) s = (Inr x, s') \<Longrightarrow>
     \<exists>tok. encrypt (cipher e) (nonce e) (erp_key e) t = Inr tok \<and> x = Some tok"
  by (auto simp: encrypt_token_def non_empty_def throw_def dest: ret_InrD split: sum.splits)

lemma create_connection_token:
  assumes "create_connection_handler e nid aid now u input s = (Inr (st, conn), s1)" "in_auth_token input = Some t" "t \<noteq> []"
  obtains tok where "encrypt (cipher e) (nonce e) (erp_key e) t = Inr tok"
    "Option.bind (find_row ec_id nid (t_erp_connections s1)) ec_auth_token_enc = Some tok" "ex_has_token conn"
  using assms that unfolding create_connection_handler_def create_connection_def Let_def
  by (auto elim!: andThen_InrE dest!: mapErr_InrD ret_InrD sql_exec_InrD modify_InrD encrypt_token_cases(2)
      simp: into_public_def find_row_append find_row_simps find_row_None_iff split: option.splits)
    (auto simp: find_row_None_iff [symmetric] find_row_simps)

interpretation conn_set: row_update ec_id "conn_set a b c d e f g now" for a b c d e f g now
  by unfold_locales (simp add: conn_set_def)

lemma update_connection_token:
  assumes "update_connection_handler e aid now u i input s = (r, s')" "non_empty (in_auth_token input) = None"
  shows "Option.bind (find_row ec_id i (t_erp_connections s')) ec_auth_token_enc =
    Option.bind (find_row ec_id i (t_erp_connections s)) ec_auth_token_enc"
proof -
  let ?I = "\<lambda>s'. Option.bind (find_row ec_id i (t_erp_connections s')) ec_auth_token_enc =
    Option.bind (find_row ec_id i (t_erp_connections s)) ec_auth_token_enc"
  have set_row: "ec_auth_token_enc (conn_set a b c None m d en t x) = ec_auth_token_enc x" for a b c m d en t x
    by (simp add: conn_set_def)
  have "preserves ?I (update_connection now i a b c None m d en)" for a b c m d en
    unfolding update_connection_def Let_def
    by (intro preserves_rules preserves_sql_update) (simp add: conn_set.find_update_key set_row)
  moreover have "preserves ?I (modify (audit n t a b c d e))" for n t a b c d e
    by (rule preserves_modify) simp
  moreover have "preserves ?I (normalize_direction d)" for d
    unfolding normalize_direction_def Let_def by (intro preserves_rules)
  ultimately have "preserves ?I (update_connection_handler e aid now u i input)"
    unfolding update_connection_handler_def encrypt_token_cases(1) [OF assms(2)] andThen_ret
    by (intro preserves_rules)
  from preserves_runD [OF this _ assms(1)] show ?thesis by simp
qed

text \<open>
  Tokens are stored encrypted and come back exact.  A connection created with a token stores a
  value that the export decrypts to that very token; the answer only tells that one is stored.  A
  later update without a token keeps the stored one.
\<close>

theorem token_kept:
  assumes c: "aead_ok (cipher e)" "nonce e = Some n" "length n = NONCE_LEN" "utf8_valid (cipher e) t" "t \<noteq> []"
    and run: "create_connection_handler e nid aid now u input s = (Inr (st, conn), s1)" "in_auth_token input = Some t"
    and upd: "update_connection_handler e' aid' now' u' nid input' s1 = (r, s2)" "non_empty (in_auth_token input') = None"
  shows "ex_has_token conn \<and>
    decrypt_token e (Option.bind (find_row ec_id nid (t_erp_connections s2)) ec_auth_token_enc) s2 = (Inr (Some t), s2)"
proof -
  obtain tok where tok: "encrypt (cipher e) (nonce e) (erp_key e) t = Inr tok"
    and s1: "Option.bind (find_row ec_id nid (t_erp_connections s1)) ec_auth_token_enc = Some tok" "ex_has_token conn"
    using run c(5) by (rule create_connection_token)
  have "Option.bind (find_row ec_id nid (t_erp_connections s2)) ec_auth_token_enc = Some tok"
    using update_connection_token [OF upd] s1 by simp
  moreover have "decrypt (cipher e) (erp_key e) tok = Inr t"
    using decrypt_encrypt [OF c(1) tok [unfolded c(2)] c(3,4)] .
  ultimately show ?thesis using s1(2) by (simp add: decrypt_token_def prog_simps)
qed


section \<open>Imports\<close>

text \<open>The orders a list of records stands for, when every record maps to one.\<close>

definition order_of_record ::
  "wire \<Rightarrow> (nat \<Rightarrow> nat \<Rightarrow> string) \<Rightarrow> timestamp \<Rightarrow> field_mapping \<Rightarrow> nat \<times> json \<Rightarrow> work_order_row option" where
  "order_of_record w ids now fm =
     (\<lambda>(i, rec). map_option (new_work_order (ids i 0) now) (wo_input_of_json w (to_canonical fm rec)))"

definition orders_of_records ::
  "wire \<Rightarrow> (nat \<Rightarrow> nat \<Rightarrow> string) \<Rightarrow> timestamp \<Rightarrow> field_mapping \<Rightarrow> json list \<Rightarrow> work_order_row list option" where
  "orders_of_records w ids now fm records =
     all_some (order_of_record w ids now fm) (List.enumerate 0 records)"

text \<open>A loop that fails has run the iterations before the failing one, and that one failed.\<close>

lemma mapProg_InlE:
  assumes "mapProg f xs s = (Inl e, s')"
  obtains k ys s1 where "k < length xs" "mapProg f (take k xs) s = (Inr ys, s1)" "f (xs ! k) s1 = (Inl e, s')"
  using assms
proof (induction xs arbitrary: s thesis)
  case (Cons x xs)
  show ?case
  proof (cases "f x s")
    case (Pair r s1)
    show ?thesis
    proof (cases r)
      case (Inl e')
      with Cons.prems Pair show ?thesis by (intro Cons.prems(1) [of 0 "[]" s]) (auto simp: prog_simps)
    next
      case (Inr y)
      with Cons.prems Pair have "mapProg f xs s1 = (Inl e, s')"
        by (auto simp: prog_simps split: prod.splits sum.splits)
      then obtain k ys s2 where "k < length xs" "mapProg f (take k xs) s1 = (Inr ys, s2)" "f (xs ! k) s2 = (Inl e, s')"
        using Cons.IH by blast
      with Pair Inr show ?thesis by (intro Cons.prems(1) [of "Suc k" "y # ys" s2]) (auto simp: prog_simps)
    qed
  qed
qed (simp add: prog_simps)

lemma import_record_error: "import_record w debug ids now fm x s = (Inl e, s') \<Longrightarrow> s' = s"
  by (auto simp: import_record_def create_work_order_def prog_simps Let_def
      split: prod.splits sum.splits option.splits)

lemma import_record_ok:
  assumes "import_record w debug ids now fm x s = (Inr y, s')"
  obtains wo where "order_of_record w ids now fm x = Some wo" "y = wo_id wo" "t_work_orders s' = t_work_orders s @ [wo]"
    "t_erp_connections s' = t_erp_connections s" "t_erp_sync_log s' = t_erp_sync_log s"
proof -
  obtain i rec where x: "x = (i, rec)" by fastforce
  from assms obtain input wo ops where
    input: "wo_input_of_json w (to_canonical fm rec) = Some input" and
    run: "create_work_order w (ids i) now input s = (Inr (wo, ops), s')" and y: "y = wo_id wo"
    unfolding import_record_def x Let_def
    by (auto elim!: andThen_InrE dest!: okOr_InrD mapErr_InrD ret_InrD)
  from run show thesis
    by (rule create_work_order_effect) (rule that [of wo], simp_all add: order_of_record_def x input y)
qed

lemma import_loop_ok:
  assumes "mapProg (import_record w debug ids now fm) xs s = (Inr ys, s')"
  obtains wos where "all_some (order_of_record w ids now fm) xs = Some wos" "ys = map wo_id wos"
    "t_work_orders s' = t_work_orders s @ wos" "t_erp_connections s' = t_erp_connections s"
    "t_erp_sync_log s' = t_erp_sync_log s"
  using assms
proof (induction xs arbitrary: s ys thesis)
  case (Cons x xs)
  from Cons.prems(2) obtain y ys' s1 where x: "import_record w debug ids now fm x s = (Inr y, s1)"
    and xs: "mapProg (import_record w debug ids now fm) xs s1 = (Inr ys', s')" and ys: "ys = y # ys'"
    by (auto elim!: andThen_InrE dest!: ret_InrD)
  from x obtain wo where wo: "order_of_record w ids now fm x = Some wo" "y = wo_id wo"
    "t_work_orders s1 = t_work_orders s @ [wo]" "t_erp_connections s1 = t_erp_connections s" "t_erp_sync_log s1 = t_erp_sync_log s"
    by (rule import_record_ok)
  from Cons.IH [OF _ xs] obtain wos where "all_some (order_of_record w ids now fm) xs = Some wos" "ys' = map wo_id wos"
    "t_work_orders s' = t_work_orders s1 @ wos" "t_erp_connections s' = t_erp_connections s1" "t_erp_sync_log s' = t_erp_sync_log s1"
    by blast
  with wo ys show ?case by (intro Cons.prems(1) [of "wo # wos"]) simp_all
qed (auto simp: prog_simps)

lemma import_failed_prefix:
  assumes "import_work_orders w debug ids now fm records s = (Inl e, s')"
  obtains k wos where "k < length records" "orders_of_records w ids now fm (take k records) = Some wos"
    "t_work_orders s' = t_work_orders s @ wos" "t_erp_connections s' = t_erp_connections s"
    "t_erp_sync_log s' = t_erp_sync_log s"
proof -
  from assms obtain k ys s1 where k: "k < length records"
    and run: "mapProg (import_record w debug ids now fm) (take k (List.enumerate 0 records)) s = (Inr ys, s1)"
    and err: "import_record w debug ids now fm (List.enumerate 0 records ! k) s1 = (Inl e, s')"
    unfolding import_work_orders_def by (elim mapProg_InlE) simp
  have "take k (List.enumerate 0 records) = List.enumerate 0 (take k records)"
    by (simp add: enumerate_eq_zip take_zip take_upt min_def)
  with run import_record_error [OF err] k that show thesis
    by (elim import_loop_ok) (simp add: orders_of_records_def)
qed

lemma sync_log_inserted:
  assumes "\<not> has_key el_id lid (t_erp_sync_log s)" "has_key ec_id i (t_erp_connections s)"
  shows "insert_sync_log lid now i d en n st x s = (Inr lid, s\<lparr>t_erp_sync_log := t_erp_sync_log s @
    [\<lparr>el_id = lid, el_connection_id = Some i, el_direction = d, el_entity = en, el_record_count = n,
      el_status = st, el_detail = x, el_ts = now\<rparr>]\<rparr>)"
  using assms by (simp add: insert_sync_log_def prog_simps)

text \<open>
  C32.  What an import leaves behind.  When it succeeds, every record of the request mapped to a work
  order, exactly these orders were appended, in the order of the records, their identifiers are
  answered and one entry of the sync log counts them.  When a record is refused, the orders of the
  records before it stay, and the log entry tells the reason and counts none.  Any other error
  changes nothing.
\<close>

theorem import_correct:
  assumes run: "import_handler w debug ids lid aid now u i entity records s = (r, s')"
    and fresh: "\<not> has_key el_id lid (t_erp_sync_log s)"
  shows "case r of
      Inr (st, res) \<Rightarrow>
        (\<exists>conn fm wos. find_row ec_id i (t_erp_connections s) = Some conn \<and> ec_enabled conn \<and>
           from_json (ec_field_mapping conn) = Inr fm \<and> orders_of_records w ids now fm records = Some wos \<and>
           t_work_orders s' = t_work_orders s @ wos \<and> im_ids res = map wo_id wos \<and> im_imported res = length wos \<and>
           map el_status (t_erp_sync_log s') = map el_status (t_erp_sync_log s) @ [''success''] \<and>
           el_record_count (last (t_erp_sync_log s')) = as_i32 (length wos))
    | Inl err \<Rightarrow>
        if err_code err = ''import_failed''
        then (\<exists>conn fm k wos. find_row ec_id i (t_erp_connections s) = Some conn \<and>
               from_json (ec_field_mapping conn) = Inr fm \<and> k < length records \<and> orders_of_records w ids now fm (take k records) = Some wos \<and>
               t_work_orders s' = t_work_orders s @ wos \<and>
               map el_status (t_erp_sync_log s') = map el_status (t_erp_sync_log s) @ [''error''] \<and>
               el_record_count (last (t_erp_sync_log s')) = 0 \<and>
               el_detail (last (t_erp_sync_log s')) = Some (err_msg err))
        else s' = s"
proof -
  consider (early) err where "r = Inl err" "err_code err \<noteq> ''import_failed''" "s' = s"
    | (loop) conn fm result s1 where "find_row ec_id i (t_erp_connections s) = Some conn" "ec_enabled conn"
      "from_json (ec_field_mapping conn) = Inr fm"
      "import_work_orders w debug ids now fm records s = (result, s1)"
      "finish_import lid aid now (user_id u) i entity result s1 = (r, s')"
    using run unfolding import_handler_def get_connection_secret_def
    by (auto simp: prog_simps repo_err_def split: if_splits option.splits sum.splits prod.splits)
  then show ?thesis
  proof cases
    case loop
    have conn: "has_key ec_id i (t_erp_connections s)"
      using loop(1) find_row_None_iff [of ec_id i "t_erp_connections s"] by simp
    show ?thesis
    proof (cases result)
      case (Inl detail)
      with loop(4) obtain k wos where "k < length records" "orders_of_records w ids now fm (take k records) = Some wos"
        "t_work_orders s1 = t_work_orders s @ wos" "t_erp_connections s1 = t_erp_connections s"
        "t_erp_sync_log s1 = t_erp_sync_log s"
        by (auto elim: import_failed_prefix)
      with Inl loop conn fresh show ?thesis
        by (auto simp: finish_import_def sync_log_inserted)
    next
      case (Inr created)
      with loop(4) obtain wos where "orders_of_records w ids now fm records = Some wos" "created = map wo_id wos"
        "t_work_orders s1 = t_work_orders s @ wos" "t_erp_connections s1 = t_erp_connections s"
        "t_erp_sync_log s1 = t_erp_sync_log s"
        by (auto simp: import_work_orders_def orders_of_records_def elim: import_loop_ok)
      with Inr loop conn fresh show ?thesis
        by (auto simp: finish_import_def sync_log_inserted prog_simps)
    qed
  qed simp
qed

text \<open>A mapping for orders, and a connection that uses it.\<close>

definition sample_connection :: erp_connection_row where
  "sample_connection =
     \<lparr>ec_id = ''C1'', ec_site_id = None, ec_name = ''ERP'', ec_endpoint_url = ''https://erp'',
      ec_auth_token_enc = None,
      ec_field_mapping = JObj [(''fields'', JObj [(''part_id'', JStr ''Item''), (''qty_ordered'', JStr ''Qty''),
        (''request_id'', JStr ''Ref''), (''wo_number'', JStr ''OrderNo'')])],
      ec_direction = ''both'', ec_enabled = True, ec_created_at = 0, ec_updated_at = 0\<rparr>"

definition sample_erp :: master_db where
  "sample_erp = sample_master\<lparr>t_erp_connections := [sample_connection]\<rparr>"

section \<open>Exports\<close>

lemma mark_sent_all:
  assumes "ids = map pr_id (filter (\<lambda>r. pr_status r = ''requested'') (sort_key f (t_procurement_requests s)))"
  obtains n where "(if ids \<noteq> [] then mapErr repo_err (mark_procurement_sent now ids ref) else ret 0) s =
    (Inr n, s\<lparr>t_procurement_requests :=
        update_where (\<lambda>r. pr_status r = ''requested'') (proc_sent ref now) (t_procurement_requests s)\<rparr>)"
proof -
  have "update_where (\<lambda>r. pr_id r \<in> set ids \<and> pr_status r = ''requested'') (proc_sent ref now) (t_procurement_requests s) =
      update_where (\<lambda>r. pr_status r = ''requested'') (proc_sent ref now) (t_procurement_requests s)"
    unfolding update_where_def by (rule map_cong) (auto simp: assms)
  moreover have "update_where (\<lambda>r. pr_status r = ''requested'') (proc_sent ref now) (t_procurement_requests s) = t_procurement_requests s"
    if "ids = []"
    using that unfolding update_where_def assms by (intro map_idI) (auto simp: filter_empty_conv)
  ultimately show thesis using that by (cases "ids = []") (simp_all add: mark_procurement_sent_def prog_simps)
qed

text \<open>
  C33.  Procurement requests leave exactly when the planning system took them.  An export of procurement
  requests that succeeds has pushed the mapped form of the open requests, all of them, and afterwards
  exactly these are marked as sent, with the reference the system answered; one log entry counts the
  records.  When the push fails every request is as before and the log tells so; any other error
  changes nothing at all.
\<close>

theorem export_correct:
  assumes run: "export_handler w collate e lid aid now u i ''procurement_request'' s = (r, s')"
    and fresh: "\<not> has_key el_id lid (t_erp_sync_log s)"
  shows "case r of
      Inr res \<Rightarrow>
        (\<exists>conn fm resp token. find_row ec_id i (t_erp_connections s) = Some conn \<and> ec_enabled conn \<and>
           from_json (ec_field_mapping conn) = Inr fm \<and>
           xp_payload res = map (to_external fm \<circ> request_record w)
             (filter (\<lambda>r. pr_status r = ''requested'') (sort_key (\<lambda>r. - pr_created_at r) (t_procurement_requests s))) \<and>
           post_json (http e) (ec_endpoint_url conn) token (JArr (xp_payload res)) = Inr resp \<and>
           t_procurement_requests s' =
             update_where (\<lambda>r. pr_status r = ''requested'') (proc_sent (erp_reference_of resp) now) (t_procurement_requests s) \<and>
           map el_status (t_erp_sync_log s') = map el_status (t_erp_sync_log s) @ [''success''] \<and>
           el_record_count (last (t_erp_sync_log s')) = as_i32 (length (xp_payload res)))
    | Inl err \<Rightarrow>
        t_procurement_requests s' = t_procurement_requests s \<and>
        (if err_code err = ''export_failed''
         then map el_status (t_erp_sync_log s') = map el_status (t_erp_sync_log s) @ [''error'']
         else s' = s)"
proof -
  let ?open = "filter (\<lambda>r. pr_status r = ''requested'') (sort_key (\<lambda>r. - pr_created_at r) (t_procurement_requests s))"
  consider (early) err where "r = Inl err" "err_code err \<noteq> ''export_failed''" "s' = s"
    | (sent) conn fm token where "find_row ec_id i (t_erp_connections s) = Some conn" "ec_enabled conn"
      "from_json (ec_field_mapping conn) = Inr fm"
      "finish_export lid aid now (user_id u) i ''procurement_request'' (map (to_external fm \<circ> request_record w) ?open)
         (map pr_id ?open) (post_json (http e) (ec_endpoint_url conn) token
         (JArr (map (to_external fm \<circ> request_record w) ?open))) s = (r, s')"
    using run unfolding export_handler_def get_connection_secret_def export_records_def list_procurement_requests_def
    by (auto simp: prog_simps repo_err_def decrypt_token_def Let_def split: if_splits option.splits sum.splits prod.splits)
  then show ?thesis
  proof cases
    case sent
    have conn: "has_key ec_id i (t_erp_connections s)"
      using sent(1) find_row_None_iff [of ec_id i "t_erp_connections s"] by simp
    show ?thesis
    proof (cases "post_json (http e) (ec_endpoint_url conn) token (JArr (map (to_external fm \<circ> request_record w) ?open))")
      case (Inl err)
      with sent(4) conn fresh show ?thesis
        by (auto simp: finish_export_def sync_log_inserted)
    next
      case (Inr resp)
      obtain n where "(if map pr_id ?open \<noteq> []
          then mapErr repo_err (mark_procurement_sent now (map pr_id ?open) (erp_reference_of resp)) else ret 0) s =
        (Inr n, s\<lparr>t_procurement_requests := update_where (\<lambda>r. pr_status r = ''requested'')
          (proc_sent (erp_reference_of resp) now) (t_procurement_requests s)\<rparr>)"
        by (rule mark_sent_all [OF refl])
      with sent(4) conn fresh have
        "r = Inr \<lparr>xp_entity = ''procurement_request'', xp_record_count = length ?open, xp_pushed = True,
           xp_payload = map (to_external fm \<circ> request_record w) ?open, xp_sync_log_id = lid\<rparr>"
        "t_procurement_requests s' = update_where (\<lambda>r. pr_status r = ''requested'')
           (proc_sent (erp_reference_of resp) now) (t_procurement_requests s)"
        "\<exists>l. t_erp_sync_log s' = t_erp_sync_log s @ [l] \<and> el_status l = ''success'' \<and> el_record_count l = as_i32 (length ?open)"
        by (simp_all only: Inr finish_export_def sum.case andThen_eval prod.case)
          (auto simp: sync_log_inserted prog_simps)
      with sent(1-3) Inr show ?thesis by auto
    qed
  qed simp
qed

section \<open>Applications\<close>

definition sample_mapping :: field_mapping where
  "sample_mapping = [(''part_id'', ''Item''), (''qty_ordered'', ''Qty''), (''request_id'', ''Ref''), (''wo_number'', ''OrderNo'')]"

lemma sample_connection_mapping: "from_json (ec_field_mapping sample_connection) = Inr sample_mapping"
  by (simp add: from_json_def sample_connection_def sample_mapping_def json_get_def json_as_str_def)

theorem mapping_roundtrip_witness:
  "json_get (to_canonical sample_mapping (to_external sample_mapping (JObj [(''code'', JNum 3), (''part_id'', JStr ''P1'')]))) ''part_id''
     = Some (JStr ''P1'')"
  using mapping_roundtrip [OF sample_connection_mapping, of "JObj [(''code'', JNum 3), (''part_id'', JStr ''P1'')]" "''part_id''"]
  by (simp add: sample_mapping_def json_get_def)

text \<open>A stand-in for the cipher: a tag of sixteen bytes is appended.\<close>

definition sample_aead :: aead where
  "sample_aead =
     \<lparr>sha256 = id, seal = (\<lambda>_ _ p. Some (p @ replicate 16 CHR ''#'')),
      unseal = (\<lambda>_ _ c. Some (take (length c - 16) c)),
      b64_encode = id, b64_decode = Some, utf8_valid = (\<lambda>_. True)\<rparr>"

definition sample_env :: erp_env where
  "sample_env = \<lparr>cipher = sample_aead, erp_key = derive_key sample_aead ''secret'', nonce = Some (replicate 24 CHR ''n''),
     http = (\<lambda>_ _ _. Inr (''200 OK'', True, Some (JObj [(''reference'', JStr ''PO-1'')])))\<rparr>"

definition sample_admin :: auth_user where
  "sample_admin = \<lparr>user_id = ''U1'', role = ''Admin''\<rparr>"

definition sample_connection_input :: connection_input where
  "sample_connection_input =
     \<lparr>in_site_id = None, in_name = ''ERP'', in_endpoint_url = ''https://erp'', in_auth_token = Some ''tok'',
      in_field_mapping = JNull, in_direction = None, in_enabled = None\<rparr>"

lemmas sample_erp_defs = sample_erp_def sample_connection_def sample_admin_def sample_env_def sample_aead_def
  sample_connection_input_def sample_master_defs

theorem token_kept_witness:
  "\<exists>st conn s1. create_connection_handler sample_env ''C2'' ''X2'' 5 sample_admin sample_connection_input sample_erp = (Inr (st, conn), s1) \<and>
     decrypt_token sample_env (Option.bind (find_row ec_id ''C2'' (t_erp_connections (snd (update_connection_handler sample_env
       ''X3'' 6 sample_admin ''C2'' (sample_connection_input\<lparr>in_auth_token := Some []\<rparr>) s1)))) ec_auth_token_enc)
       (snd (update_connection_handler sample_env ''X3'' 6 sample_admin ''C2'' (sample_connection_input\<lparr>in_auth_token := Some []\<rparr>) s1))
       = (Inr (Some ''tok''), (snd (update_connection_handler sample_env ''X3'' 6 sample_admin ''C2''
            (sample_connection_input\<lparr>in_auth_token := Some []\<rparr>) s1)))"
proof -
  obtain st conn s1 where run:
    "create_connection_handler sample_env ''C2'' ''X2'' 5 sample_admin sample_connection_input sample_erp = (Inr (st, conn), s1)"
    by (simp add: create_connection_handler_def create_connection_def sample_erp_defs prog_simps table_simps
        normalize_direction_def unwrap_or_def encrypt_token_def encrypt_def non_empty_def missing_ref_def can_write_master_def Let_def)
  have "aead_ok (cipher sample_env)" "nonce sample_env = Some (replicate 24 CHR ''n'')" "utf8_valid (cipher sample_env) ''tok''"
    by (simp_all add: aead_ok_def sample_env_def sample_aead_def)
  from token_kept [OF this(1,2) _ this(3) _ run _ prod.collapse [symmetric]] run show ?thesis
    by (simp add: NONCE_LEN_def sample_connection_input_def non_empty_def)
qed

text \<open>The second record repeats the order number of the first: the first stays, the import fails.\<close>

definition sample_records :: "json list" where
  "sample_records =
     [JObj [(''Item'', JStr ''P1''), (''OrderNo'', JStr ''WO-7''), (''Qty'', JNum 5)],
      JObj [(''Item'', JStr ''P1''), (''OrderNo'', JStr ''WO-7''), (''Qty'', JNum 9)]]"

lemmas import_eval = import_handler_def get_connection_secret_def import_work_orders_def import_record_def
  wo_input_of_json_def read_opt_def read_default_def create_work_order_def insert_work_order_def
  new_work_order_def enqueue_def finish_import_def insert_sync_log_def

theorem import_correct_witness:
  "\<exists>err s'. import_handler sample_wire (\<lambda>_. ''conflict'') (\<lambda>i n. replicate i CHR ''r'' @ replicate n CHR ''x'') ''L1'' ''X2'' 5 sample_admin ''C1''
       ''work_order'' sample_records sample_erp = (Inl err, s') \<and>
     length (t_work_orders s') = 2 \<and> el_record_count (last (t_erp_sync_log s')) = 0"
proof -
  obtain err s' where run:
    "import_handler sample_wire (\<lambda>_. ''conflict'') (\<lambda>i n. replicate i CHR ''r'' @ replicate n CHR ''x'') ''L1'' ''X2'' 5 sample_admin ''C1''
       ''work_order'' sample_records sample_erp = (Inl err, s')"
    and code: "err_code err = ''import_failed''" and orders: "length (t_work_orders s') = 2"
    by (simp add: import_eval sample_connection_mapping [unfolded sample_connection_def, simplified] sample_mapping_def
        to_canonical_def sample_wire_def sample_records_def json_get_def json_as_str_def sample_erp_defs
        prog_simps table_simps missing_ref_def can_write_master_def Let_def)
  have fresh: "\<not> has_key el_id ''L1'' (t_erp_sync_log sample_erp)"
    by (simp add: sample_erp_defs table_simps)
  from import_correct [OF run fresh] code orders run show ?thesis by auto
qed

definition sample_requests :: master_db where
  "sample_requests = sample_erp\<lparr>t_procurement_requests :=
     [\<lparr>pr_id = ''R1'', pr_spare_part_id = ''SP'', pr_qty_requested = 4, pr_reason = ''manual'', pr_status = ''requested'',
       pr_erp_reference = None, pr_pushed_at = None, pr_created_at = 1, pr_updated_at = 1\<rparr>]\<rparr>"

theorem export_correct_witness:
  "\<exists>res s'. export_handler sample_wire (\<lambda>_. 0) sample_env ''L1'' ''X2'' 5 sample_admin ''C1'' ''procurement_request'' sample_requests
       = (Inr res, s') \<and> map pr_status (t_procurement_requests s') = [''sent_to_erp'']"
proof -
  obtain res s' where run:
    "export_handler sample_wire (\<lambda>_. 0) sample_env ''L1'' ''X2'' 5 sample_admin ''C1'' ''procurement_request'' sample_requests
       = (Inr res, s')"
    by (simp add: export_handler_def get_connection_secret_def export_records_def list_procurement_requests_def
        decrypt_token_def post_json_def finish_export_def mark_procurement_sent_def insert_sync_log_def
        sample_connection_mapping [unfolded sample_connection_def, simplified] sample_requests_def sample_erp_defs
        prog_simps table_simps can_write_master_def Let_def)
  have fresh: "\<not> has_key el_id ''L1'' (t_erp_sync_log sample_requests)"
    by (simp add: sample_requests_def sample_erp_defs table_simps)
  from export_correct [OF run fresh] run show ?thesis
    by (auto simp: sample_requests_def update_where_def proc_sent_def)
qed

end
