(* ===== verification/Agent.thy ===== *)
theory Agent
  imports Sync
begin

text \<open>
  The cloud's assistant: the read-only tools of \<^verbatim>\<open>mes-agent-tools\<close>, the tool loop of
  \<^verbatim>\<open>mes-cloud/src/copilot.rs\<close> and its two front doors in \<^verbatim>\<open>mes-cloud/src/agent.rs\<close>.  The language model,
  the network and the text form of JSON values are parameters.
\<close>

section \<open>Tools\<close>

datatype agent_tool_error = UnknownTool string | Query string

definition tool_error_msg :: "agent_tool_error \<Rightarrow> string" where
  "tool_error_msg e = (case e of UnknownTool n \<Rightarrow> ''unknown tool: '' @ n | Query m \<Rightarrow> ''query error: '' @ m)"

text \<open>The rows of the join: an order once for each plant of the organisation it names.\<close>

definition tenant_orders :: "string \<Rightarrow> 's sync_db_scheme \<Rightarrow> work_order_row list" where
  "tenant_orders org s =
     concat (map (\<lambda>wo. map (\<lambda>_. wo)
       (filter (\<lambda>p. Some (pl_id p) = wo_plant_id wo \<and> pl_org_id p = org) (t_plants s))) (t_work_orders s))"

definition count_status :: "work_order_row \<Rightarrow> (string \<times> int) list \<Rightarrow> (string \<times> int) list" where
  "count_status wo counts = map_insert (wo_st wo) (unwrap_or 0 (map_of counts (wo_st wo)) + 1) counts"

definition order_item :: "wire \<Rightarrow> work_order_row \<Rightarrow> json" where
  "order_item w wo =
     json_object [(''wo_number'', JStr (wo_number wo)), (''status'', JStr (wo_st wo)),
       (''qty_ordered'', dec_to_json w (wo_qty_ordered wo)), (''plant_id'', opt_json JStr (wo_plant_id wo))]"

definition get_wo_status :: "wire \<Rightarrow> string \<Rightarrow> json \<Rightarrow> ('s sync_db_scheme, agent_tool_error, json) prog" where
  "get_wo_status w org args =
     (let status_filter = Option.bind (json_get args ''status'') json_as_str in
      andThen (gets (\<lambda>s. take 200 (sort_key (\<lambda>wo. - wo_created_at wo)
                (filter (\<lambda>wo. status_filter = None \<or> Some (wo_st wo) = status_filter) (tenant_orders org s))))) (\<lambda>rows.
      ret (json_object
        [(''total'', JNum (of_nat (length rows))),
         (''counts_by_status'', JObj (map (\<lambda>(k, n). (k, JNum (of_int n))) (fold count_status rows []))),
         (''work_orders'', JArr (map (order_item w) rows))])))"

definition pending :: "string \<Rightarrow> json" where
  "pending aggregate =
     json_object [(''items'', JArr []),
       (''note'', JStr (aggregate @ '' is available per-plant on the edge; cloud aggregation for this tool '' @
          ''arrives when that aggregate is added to the sync set (additive).''))]"

text \<open>Tools whose aggregate is not replicated to the cloud.\<close>

definition get_oee :: "string \<Rightarrow> json \<Rightarrow> ('s sync_db_scheme, agent_tool_error, json) prog" where
  "get_oee org args = ret (pending ''OEE'')"

definition get_downtime_pareto :: "string \<Rightarrow> json \<Rightarrow> ('s sync_db_scheme, agent_tool_error, json) prog" where
  "get_downtime_pareto org args = ret (pending ''Downtime Pareto'')"

definition get_ncr_queue :: "string \<Rightarrow> json \<Rightarrow> ('s sync_db_scheme, agent_tool_error, json) prog" where
  "get_ncr_queue org args = ret (pending ''The NCR queue'')"

definition get_trace :: "string \<Rightarrow> json \<Rightarrow> ('s sync_db_scheme, agent_tool_error, json) prog" where
  "get_trace org args = ret (pending ''Traceability'')"

definition get_maintenance_due :: "string \<Rightarrow> json \<Rightarrow> ('s sync_db_scheme, agent_tool_error, json) prog" where
  "get_maintenance_due org args = ret (pending ''Maintenance-due'')"

lemmas pending_tools_def = get_oee_def get_downtime_pareto_def get_ncr_queue_def get_trace_def get_maintenance_due_def

definition dispatch :: "wire \<Rightarrow> string \<Rightarrow> string \<Rightarrow> json \<Rightarrow> ('s sync_db_scheme, agent_tool_error, json) prog" where
  "dispatch w org name args =
     (if name = ''get_wo_status'' then get_wo_status w org args
      else if name = ''get_oee'' then get_oee org args
      else if name = ''get_downtime_pareto'' then get_downtime_pareto org args
      else if name = ''get_ncr_queue'' then get_ncr_queue org args
      else if name = ''get_trace'' then get_trace org args
      else if name = ''get_maintenance_due'' then get_maintenance_due org args
      else throw (UnknownTool name))"

record tool_def =
  td_name :: string
  td_description :: string
  td_input_schema :: json

definition text_type :: json where
  "text_type = json_object [(''type'', JStr ''string'')]"

definition enum_type :: "string list \<Rightarrow> json" where
  "enum_type vs = json_object [(''type'', JStr ''string''), (''enum'', JArr (map JStr vs))]"

definition described :: "string \<Rightarrow> json" where
  "described d = json_object [(''type'', JStr ''string''), (''description'', JStr d)]"

definition object_schema :: "(string \<times> json) list \<Rightarrow> json" where
  "object_schema ps = json_object [(''type'', JStr ''object''), (''properties'', json_object ps)]"

definition catalog :: "tool_def list" where
  "catalog =
     [\<lparr>td_name = ''get_wo_status'',
       td_description = ''Work-order status and counts for the caller'' @ [CHR 0x27] @
         ''s plants. Optional '' @ [CHR 0x60] @ ''status'' @ [CHR 0x60] @ '' filters to one lifecycle status.'',
       td_input_schema = object_schema [(''status'', described ''Filter to a WO status'')]\<rparr>,
      \<lparr>td_name = ''get_oee'',
       td_description = ''OEE (A'' @ [CHR 0xC3, CHR 0x97] @ ''P'' @ [CHR 0xC3, CHR 0x97] @ ''Q) for a work center over a window.'',
       td_input_schema = object_schema [(''work_center_id'', text_type),
         (''start'', described ''RFC3339''), (''end'', described ''RFC3339'')]\<rparr>,
      \<lparr>td_name = ''get_downtime_pareto'',
       td_description = ''Ranked downtime loss by reason for a work center over a window.'',
       td_input_schema = object_schema [(''work_center_id'', text_type)]\<rparr>,
      \<lparr>td_name = ''get_ncr_queue'',
       td_description = ''Open non-conformances (NCRs) for the caller'' @ [CHR 0x27] @ ''s plants.'',
       td_input_schema = object_schema []\<rparr>,
      \<lparr>td_name = ''get_trace'',
       td_description = ''Forward/backward genealogy for a lot or serial.'',
       td_input_schema = object_schema [(''entity_type'', enum_type [''lot'', ''serial'']),
         (''entity_id'', text_type), (''direction'', enum_type [''forward'', ''backward''])]\<rparr>,
      \<lparr>td_name = ''get_maintenance_due'',
       td_description = ''Preventive-maintenance schedules currently due.'',
       td_input_schema = object_schema []\<rparr>]"

section \<open>The tool loop\<close>

datatype copilot_error = Unavailable string | Llm string | NoConverge

datatype block = TextBlock string | ToolUse string string json | ToolResult string string

record chat_message =
  cm_role :: string
  cm_content :: "block list"

type_synonym llm_backend = "string \<Rightarrow> chat_message list \<Rightarrow> tool_def list \<Rightarrow> copilot_error + block list"

record tool_call =
  tc_name :: string
  tc_arguments :: json

record copilot_response =
  rs_reply :: string
  rs_tool_calls :: "tool_call list"

definition SYSTEM :: string where
  "SYSTEM = ''You are the ElectronIx MES supervisor copilot. Answer questions about this plant'' @ [CHR 0x27] @
     ''s production using the read-only tools provided. All tool results are already scoped to the caller'' @
     [CHR 0x27] @ ''s organisation. Be concise and specific.''"

definition MAX_TURNS :: nat where
  "MAX_TURNS = 8"

fun tool_uses :: "block list \<Rightarrow> (string \<times> string \<times> json) list" where
  "tool_uses [] = []"
| "tool_uses (ToolUse i n a # bs) = (i, n, a) # tool_uses bs"
| "tool_uses (_ # bs) = tool_uses bs"

fun texts :: "block list \<Rightarrow> string list" where
  "texts [] = []"
| "texts (TextBlock t # bs) = t # texts bs"
| "texts (_ # bs) = texts bs"

fun join :: "string \<Rightarrow> string list \<Rightarrow> string" where
  "join sep [] = []"
| "join sep [t] = t"
| "join sep (t # ts) = t @ sep @ join sep ts"

text \<open>One tool call: an error of the tool becomes its result.\<close>

definition run_tool ::
  "wire \<Rightarrow> (json \<Rightarrow> string) \<Rightarrow> string \<Rightarrow> string \<times> string \<times> json \<Rightarrow> ('s sync_db_scheme, copilot_error, block) prog" where
  "run_tool w show_json org =
     (\<lambda>(i, name, args) s.
        case dispatch w org name args s of
          (Inr v, s') \<Rightarrow> (Inr (ToolResult i (show_json v)), s')
        | (Inl e, s') \<Rightarrow>
            (Inr (ToolResult i (show_json (json_object [(''error'', JStr (tool_error_msg e))]))), s'))"

fun copilot_loop ::
  "wire \<Rightarrow> (json \<Rightarrow> string) \<Rightarrow> llm_backend \<Rightarrow> string \<Rightarrow> nat \<Rightarrow> chat_message list \<Rightarrow> tool_call list
    \<Rightarrow> ('s sync_db_scheme, copilot_error, copilot_response) prog" where
  "copilot_loop w show_json backend org 0 messages calls = throw NoConverge"
| "copilot_loop w show_json backend org (Suc n) messages calls =
     (case backend SYSTEM messages catalog of
        Inl e \<Rightarrow> throw e
      | Inr content \<Rightarrow>
          let uses = tool_uses content in
          if uses = [] then ret \<lparr>rs_reply = join [CHR 0x0A] (texts content), rs_tool_calls = calls\<rparr>
          else andThen (mapProg (run_tool w show_json org) uses) (\<lambda>results.
               copilot_loop w show_json backend org n
                 (messages @ [\<lparr>cm_role = ''assistant'', cm_content = content\<rparr>, \<lparr>cm_role = ''user'', cm_content = results\<rparr>])
                 (calls @ map (\<lambda>(i, name, args). \<lparr>tc_name = name, tc_arguments = args\<rparr>) uses)))"

definition run_copilot ::
  "wire \<Rightarrow> (json \<Rightarrow> string) \<Rightarrow> llm_backend \<Rightarrow> string \<Rightarrow> string
    \<Rightarrow> ('s sync_db_scheme, copilot_error, copilot_response) prog" where
  "run_copilot w show_json backend org user_message =
     copilot_loop w show_json backend org MAX_TURNS
       [\<lparr>cm_role = ''user'', cm_content = [TextBlock user_message]\<rparr>] []"

section \<open>Backends\<close>

definition null_backend :: llm_backend where
  "null_backend system messages tools = Inl (Unavailable ''no model backend configured'')"

definition block_to_json :: "block \<Rightarrow> json" where
  "block_to_json b =
     (case b of
        TextBlock t \<Rightarrow> json_object [(''type'', JStr ''text''), (''text'', JStr t)]
      | ToolUse i n a \<Rightarrow> json_object [(''type'', JStr ''tool_use''), (''id'', JStr i), (''name'', JStr n), (''input'', a)]
      | ToolResult i c \<Rightarrow> json_object [(''type'', JStr ''tool_result''), (''tool_use_id'', JStr i), (''content'', JStr c)])"

definition message_to_json :: "chat_message \<Rightarrow> json" where
  "message_to_json m =
     json_object [(''role'', JStr (cm_role m)), (''content'', JArr (map block_to_json (cm_content m)))]"

text \<open>
  The derived reader of a tagged block: an object with the tag as a member, or an array that starts
  with the tag and has one element per member.
\<close>

definition block_of_members :: "string \<Rightarrow> (string \<Rightarrow> json option) \<Rightarrow> block option" where
  "block_of_members tag m =
     (let str = (\<lambda>k. Option.bind (m k) json_as_str) in
      if tag = ''text'' then map_option TextBlock (str ''text'')
      else if tag = ''tool_use'' then
        (case (str ''id'', str ''name'', m ''input'') of (Some i, Some n, Some a) \<Rightarrow> Some (ToolUse i n a) | _ \<Rightarrow> None)
      else if tag = ''tool_result'' then
        (case (str ''tool_use_id'', str ''content'') of (Some i, Some c) \<Rightarrow> Some (ToolResult i c) | _ \<Rightarrow> None)
      else None)"

definition block_fields :: "string \<Rightarrow> string list" where
  "block_fields tag =
     (if tag = ''text'' then [''text''] else if tag = ''tool_use'' then [''id'', ''name'', ''input'']
      else if tag = ''tool_result'' then [''tool_use_id'', ''content''] else [])"

definition block_of_json :: "json \<Rightarrow> block option" where
  "block_of_json v =
     (case v of
        JObj _ \<Rightarrow> Option.bind (Option.bind (json_get v ''type'') json_as_str) (\<lambda>tag. block_of_members tag (json_get v))
      | JArr (JStr tag # vs) \<Rightarrow>
          if length vs = length (block_fields tag) then block_of_members tag (map_of (zip (block_fields tag) vs)) else None
      | _ \<Rightarrow> None)"

fun blocks_of_list :: "json list \<Rightarrow> block list option" where
  "blocks_of_list [] = Some []"
| "blocks_of_list (v # vs) =
     (case (block_of_json v, blocks_of_list vs) of (Some b, Some bs) \<Rightarrow> Some (b # bs) | _ \<Rightarrow> None)"

definition blocks_of_json :: "json \<Rightarrow> block list option" where
  "blocks_of_json v = (case v of JArr vs \<Rightarrow> blocks_of_list vs | _ \<Rightarrow> None)"

text \<open>What the network answers: a transport error, or a status, whether it signals success, and the body or why it does not parse.\<close>

type_synonym llm_http = "string \<Rightarrow> json \<Rightarrow> string + (string \<times> bool \<times> (string + json))"

definition tool_json :: "string \<Rightarrow> tool_def \<Rightarrow> json" where
  "tool_json schema_key t =
     json_object [(''name'', JStr (td_name t)), (''description'', JStr (td_description t)), (schema_key, td_input_schema t)]"

definition anthropic_backend :: "llm_http \<Rightarrow> (json \<Rightarrow> string) \<Rightarrow> string \<Rightarrow> string \<Rightarrow> llm_backend" where
  "anthropic_backend http de_err api_key model system messages tools =
     (let body = json_object
            [(''model'', JStr model), (''max_tokens'', JNum 1024), (''system'', JStr system),
             (''tools'', JArr (map (tool_json ''input_schema'') tools)),
             (''messages'', JArr (map message_to_json messages))]
      in case http api_key body of
           Inl e \<Rightarrow> Inl (Llm e)
         | Inr (status, success, answer) \<Rightarrow>
             if \<not> success then Inl (Llm (''anthropic returned '' @ status))
             else (case answer of
                     Inl e \<Rightarrow> Inl (Llm e)
                   | Inr v \<Rightarrow>
                       let content = unwrap_or (JArr []) (json_get v ''content'') in
                       (case blocks_of_json content of
                          None \<Rightarrow> Inl (Llm (''bad content: '' @ de_err content))
                        | Some bs \<Rightarrow> Inr bs)))"

definition anthropic_from_env :: "llm_http \<Rightarrow> (json \<Rightarrow> string) \<Rightarrow> (string \<Rightarrow> string option) \<Rightarrow> llm_backend option" where
  "anthropic_from_env http de_err env =
     (case env ''ANTHROPIC_API_KEY'' of
        None \<Rightarrow> None
      | Some key \<Rightarrow>
          if key = [] then None
          else Some (anthropic_backend http de_err key (unwrap_or ''claude-sonnet-5'' (env ''MES_COPILOT_MODEL''))))"

section \<open>Front doors\<close>

record copilot_message_row =
  cp_id :: string
  cp_org_id :: "string option"
  cp_role :: string
  cp_content :: string
  cp_tool_calls :: "json option"
  cp_ts :: timestamp

record agent_db = sync_db +
  t_copilot_messages :: "copilot_message_row list"

definition resolve_scope ::
  "(string \<Rightarrow> nat list) \<Rightarrow> string option \<Rightarrow> ('s sync_db_scheme, api_err, string) prog" where
  "resolve_scope sha256 header =
     andThen require_pool (\<lambda>_.
     andThen (okOr (ApiErr 401 ''unauthorized'' ''missing tenant token'') (bearer header)) (\<lambda>token.
     andThen (mapErr repo_err (resolve_tenant_by_token sha256 token)) (\<lambda>tenant.
     andThen (okOr (ApiErr 401 ''unauthorized'' ''invalid tenant token'') tenant) (\<lambda>(plant, org).
     ret org))))"

definition copilot_err :: "copilot_error \<Rightarrow> api_err" where
  "copilot_err e =
     (case e of
        Unavailable m \<Rightarrow> ApiErr 503 ''copilot_unavailable'' m
      | Llm m \<Rightarrow> ApiErr 502 ''llm_error'' m
      | NoConverge \<Rightarrow> ApiErr 500 ''no_converge'' ''tool loop did not converge'')"

definition insert_copilot_message :: "copilot_message_row \<Rightarrow> ('s agent_db_scheme, repo_error, unit) prog" where
  "insert_copilot_message r =
     sql_exec
       (\<lambda>s. [(has_key cp_id (cp_id r) (t_copilot_messages s), dup_key ''copilot_messages_pkey''),
             (missing_ref og_id (cp_org_id r) (t_orgs s),
              bad_ref ''copilot_messages'' ''copilot_messages_org_id_fkey'')])
       (\<lambda>s. s\<lparr>t_copilot_messages := t_copilot_messages s @ [r]\<rparr>)"

definition tool_calls_json :: "tool_call list \<Rightarrow> json" where
  "tool_calls_json calls =
     JArr (map (\<lambda>c. json_object [(''name'', JStr (tc_name c)), (''arguments'', tc_arguments c)]) calls)"

text \<open>The outcome of the two audit inserts is ignored.\<close>

definition copilot ::
  "wire \<Rightarrow> (json \<Rightarrow> string) \<Rightarrow> (string \<Rightarrow> nat list) \<Rightarrow> llm_backend \<Rightarrow> string \<Rightarrow> string \<Rightarrow> timestamp
    \<Rightarrow> string option \<Rightarrow> string \<Rightarrow> ('s agent_db_scheme, api_err, copilot_response) prog" where
  "copilot w show_json sha256 backend id1 id2 now header msg =
     andThen (resolve_scope sha256 header) (\<lambda>org.
     andThen require_pool (\<lambda>_.
     andThen (mapErr copilot_err (run_copilot w show_json backend org msg)) (\<lambda>resp.
     andThen (modify (\<lambda>s. snd (insert_copilot_message
                \<lparr>cp_id = id1, cp_org_id = Some org, cp_role = ''user'', cp_content = msg, cp_tool_calls = None, cp_ts = now\<rparr> s))) (\<lambda>_.
     andThen (modify (\<lambda>s. snd (insert_copilot_message
                \<lparr>cp_id = id2, cp_org_id = Some org, cp_role = ''assistant'', cp_content = rs_reply resp,
                 cp_tool_calls = Some (tool_calls_json (rs_tool_calls resp)), cp_ts = now\<rparr> s))) (\<lambda>_.
     ret resp)))))"

definition text_content :: "string \<Rightarrow> bool \<Rightarrow> json" where
  "text_content t is_error =
     json_object [(''content'', JArr [json_object [(''type'', JStr ''text''), (''text'', JStr t)]]),
       (''isError'', JBool is_error)]"

definition initialize_result :: "string \<Rightarrow> json" where
  "initialize_result version =
     json_object [(''protocolVersion'', JStr ''2024-11-05''),
       (''capabilities'', json_object [(''tools'', json_object [])]),
       (''serverInfo'', json_object [(''name'', JStr ''electronix-mes''), (''version'', JStr version)])]"

definition call_tool :: "wire \<Rightarrow> (json \<Rightarrow> string) \<Rightarrow> string \<Rightarrow> json \<Rightarrow> ('s sync_db_scheme, api_err, json) prog" where
  "call_tool w show_json org req =
     (let params = unwrap_or (json_object []) (json_get req ''params'');
          name = unwrap_or [] (Option.bind (json_get params ''name'') json_as_str);
          args = unwrap_or (json_object []) (json_get params ''arguments'')
      in (\<lambda>s. case dispatch w org name args s of
               (Inr v, s') \<Rightarrow> (Inr (text_content (show_json v) False), s')
             | (Inl e, s') \<Rightarrow> (Inr (text_content (tool_error_msg e) True), s')))"

definition rpc_result :: "json \<Rightarrow> json \<Rightarrow> json" where
  "rpc_result i r = json_object [(''jsonrpc'', JStr ''2.0''), (''id'', i), (''result'', r)]"

definition rpc_error :: "json \<Rightarrow> int \<Rightarrow> string \<Rightarrow> json" where
  "rpc_error i code msg =
     json_object [(''jsonrpc'', JStr ''2.0''), (''id'', i),
       (''error'', json_object [(''code'', JNum (of_int code)), (''message'', JStr msg)])]"

definition rpc_answer ::
  "wire \<Rightarrow> (json \<Rightarrow> string) \<Rightarrow> string \<Rightarrow> string \<Rightarrow> json \<Rightarrow> ('s sync_db_scheme, api_err, json) prog" where
  "rpc_answer w show_json version org req =
     (let i = unwrap_or JNull (json_get req ''id'');
          rpc_method = unwrap_or [] (Option.bind (json_get req ''method'') json_as_str)
      in if rpc_method = ''initialize'' then ret (rpc_result i (initialize_result version))
         else if rpc_method = ''notifications/initialized'' then ret JNull
         else if rpc_method = ''tools/list'' then
           ret (rpc_result i (json_object [(''tools'', JArr (map (tool_json ''inputSchema'') catalog))]))
         else if rpc_method = ''tools/call'' then
           andThen (call_tool w show_json org req) (\<lambda>r. ret (rpc_result i r))
         else ret (rpc_error i (- 32601) (''method not found: '' @ rpc_method)))"

definition mcp ::
  "wire \<Rightarrow> (json \<Rightarrow> string) \<Rightarrow> (string \<Rightarrow> nat list) \<Rightarrow> string \<Rightarrow> string option \<Rightarrow> json
    \<Rightarrow> ('s sync_db_scheme, api_err, json) prog" where
  "mcp w show_json sha256 version header req =
     andThen (resolve_scope sha256 header) (\<lambda>org.
     andThen require_pool (\<lambda>_. rpc_answer w show_json version org req))"

section \<open>Scope\<close>

text \<open>What an organisation owns: its plants and the orders that name one of them.\<close>

definition org_plants :: "string \<Rightarrow> 's sync_db_scheme \<Rightarrow> plant_row list" where
  "org_plants org s = filter (\<lambda>p. pl_org_id p = org) (t_plants s)"

definition org_orders :: "string \<Rightarrow> 's sync_db_scheme \<Rightarrow> work_order_row list" where
  "org_orders org s = filter (\<lambda>wo. \<exists>p\<in>set (org_plants org s). wo_plant_id wo = Some (pl_id p)) (t_work_orders s)"

definition same_tenant :: "string \<Rightarrow> 's sync_db_scheme \<Rightarrow> 's sync_db_scheme \<Rightarrow> bool" where
  "same_tenant org s s' \<longleftrightarrow> org_plants org s = org_plants org s' \<and> org_orders org s = org_orders org s'"

lemma tenant_orders_owned:
  "tenant_orders org s =
     concat (map (\<lambda>wo. map (\<lambda>_. wo) (filter (\<lambda>p. Some (pl_id p) = wo_plant_id wo) (org_plants org s))) (org_orders org s))"
proof -
  have rows: "filter (\<lambda>p. Some (pl_id p) = wo_plant_id wo \<and> pl_org_id p = org) (t_plants s) =
      filter (\<lambda>p. Some (pl_id p) = wo_plant_id wo) (org_plants org s)" for wo
    by (auto simp: org_plants_def intro: filter_cong)
  have "concat (map (\<lambda>wo. map (\<lambda>_. wo) (filter (\<lambda>p. Some (pl_id p) = wo_plant_id wo) (org_plants org s))) wos) =
      concat (map (\<lambda>wo. map (\<lambda>_. wo) (filter (\<lambda>p. Some (pl_id p) = wo_plant_id wo) (org_plants org s)))
        (filter (\<lambda>wo. \<exists>p\<in>set (org_plants org s). wo_plant_id wo = Some (pl_id p)) wos))" for wos
    by (induction wos) (auto simp: filter_empty_conv)
  then show ?thesis unfolding tenant_orders_def org_orders_def rows .
qed

text \<open>A tool changes nothing and sees nothing but what its organisation owns.\<close>

lemma dispatch_reads: "snd (dispatch w org name args s) = s"
  by (simp add: dispatch_def pending_tools_def get_wo_status_def Let_def prog_simps)

lemma dispatch_scoped:
  assumes "same_tenant org s s'"
  shows "fst (dispatch w org name args s) = fst (dispatch w org name args s')"
proof -
  have "tenant_orders org s = tenant_orders org s'"
    using assms unfolding same_tenant_def tenant_orders_owned by simp
  then show ?thesis by (simp add: dispatch_def pending_tools_def get_wo_status_def Let_def prog_simps)
qed

text \<open>
  A program that reads a tenant's data: it never changes the state, and its outcome is a function
  of what the tenant owns.
\<close>

definition reads_tenant :: "string \<Rightarrow> ('s sync_db_scheme, 'e, 'a) prog \<Rightarrow> bool" where
  "reads_tenant org m \<longleftrightarrow> (\<forall>s s'. snd (m s) = s \<and> (same_tenant org s s' \<longrightarrow> fst (m s) = fst (m s')))"

lemma reads_tenantI:
  assumes "\<And>s. m s = (g s, s)" "\<And>s s'. same_tenant org s s' \<Longrightarrow> g s = g s'"
  shows "reads_tenant org m"
  using assms(2) by (simp add: reads_tenant_def assms(1))

lemma andThen_fst:
  "andThen m f s = (case fst (m s) of Inl e \<Rightarrow> (Inl e, snd (m s)) | Inr x \<Rightarrow> f x (snd (m s)))"
  by (cases "m s") (auto simp: andThen_eval split: sum.split)

lemma reads_tenant_andThen:
  assumes "reads_tenant org m" "\<And>x. reads_tenant org (f x)"
  shows "reads_tenant org (andThen m f)"
  unfolding reads_tenant_def
proof (intro allI conjI impI)
  fix s s'
  have m: "snd (m s) = s" "snd (m s') = s'" using assms(1) by (simp_all add: reads_tenant_def)
  have f: "snd (f x s) = s" for x using assms(2) by (simp add: reads_tenant_def)
  show "snd (andThen m f s) = s" by (simp add: andThen_fst m f split: sum.split)
  assume same: "same_tenant org s s'"
  then have "fst (m s) = fst (m s')" "\<And>x. fst (f x s) = fst (f x s')"
    using assms unfolding reads_tenant_def by blast+
  then show "fst (andThen m f s) = fst (andThen m f s')" by (simp add: andThen_fst m split: sum.split)
qed

lemma reads_tenantD: "reads_tenant org m \<Longrightarrow> same_tenant org s s' \<Longrightarrow> fst (m s) = fst (m s')"
  unfolding reads_tenant_def by blast

lemma run_tool_eval:
  "run_tool w show_json org (i, name, args) s =
     (Inr (ToolResult i (show_json (case fst (dispatch w org name args s) of
        Inr v \<Rightarrow> v | Inl e \<Rightarrow> json_object [(''error'', JStr (tool_error_msg e))]))), s)"
  using dispatch_reads [of w org name args s]
  by (cases "dispatch w org name args s") (auto simp: run_tool_def split: sum.split)

lemma reads_tenant_simple:
  "reads_tenant org (ret x)" "reads_tenant org (throw e)" "reads_tenant org (run_tool w show_json org call)"
proof -
  show "reads_tenant org (ret x)" "reads_tenant org (throw e)"
    by (simp_all add: reads_tenant_def prog_simps)
  show "reads_tenant org (run_tool w show_json org call)"
    by (cases call) (rule reads_tenantI, simp add: run_tool_eval, simp add: dispatch_scoped)
qed

lemma reads_tenant_mapProg: "(\<And>x. reads_tenant org (f x)) \<Longrightarrow> reads_tenant org (mapProg f xs)"
  by (induction xs) (simp_all add: reads_tenant_simple reads_tenant_andThen)

lemma copilot_loop_scoped: "reads_tenant org (copilot_loop w show_json backend org n messages calls)"
proof (induction n arbitrary: messages calls)
  case (Suc n)
  then show ?case
    by (auto simp: Let_def intro!: reads_tenant_simple reads_tenant_andThen reads_tenant_mapProg split: sum.split)
qed (simp add: reads_tenant_simple)

lemma run_copilot_scoped: "reads_tenant org (run_copilot w show_json backend org msg)"
  unfolding run_copilot_def by (rule copilot_loop_scoped)

lemma run_copilot_state: "run_copilot w show_json backend org msg s = (fst (run_copilot w show_json backend org msg s), s)"
  using run_copilot_scoped unfolding reads_tenant_def by (metis prod.collapse)

lemma call_tool_scoped: "reads_tenant org (call_tool w show_json org req)"
proof -
  let ?params = "unwrap_or (json_object []) (json_get req ''params'')"
  let ?d = "dispatch w org (unwrap_or [] (Option.bind (json_get ?params ''name'') json_as_str))
      (unwrap_or (json_object []) (json_get ?params ''arguments''))"
  have "call_tool w show_json org req s =
      (case fst (?d s) of Inr v \<Rightarrow> Inr (text_content (show_json v) False) | Inl e \<Rightarrow> Inr (text_content (tool_error_msg e) True), s)" for s
    using dispatch_reads [of w org _ _ s] unfolding call_tool_def Let_def
    by (auto split: prod.split sum.split) (metis snd_conv)+
  then show ?thesis by (rule reads_tenantI) (simp add: dispatch_scoped)
qed

lemma rpc_answer_scoped: "reads_tenant org (rpc_answer w show_json version org req)"
  by (simp add: rpc_answer_def Let_def reads_tenant_simple reads_tenant_andThen call_tool_scoped)

lemma resolve_scope_state: "resolve_scope sha256 header s = (fst (resolve_scope sha256 header s), s)"
  by (simp add: resolve_scope_def resolve_tenant_by_token_def prog_simps split: option.split)

lemma resolve_scope_pool: "fst (resolve_scope sha256 header s) = Inr org \<Longrightarrow> has_pool s"
  by (auto simp: resolve_scope_def prog_simps split: if_splits)

lemma copilot_eval:
  assumes "fst (resolve_scope sha256 header s) = Inr org"
  shows "copilot w show_json sha256 backend id1 id2 now header msg s =
    (case fst (run_copilot w show_json backend org msg s) of
       Inl e \<Rightarrow> (Inl (copilot_err e), s)
     | Inr resp \<Rightarrow> (Inr resp, snd (insert_copilot_message
         \<lparr>cp_id = id2, cp_org_id = Some org, cp_role = ''assistant'', cp_content = rs_reply resp,
          cp_tool_calls = Some (tool_calls_json (rs_tool_calls resp)), cp_ts = now\<rparr>
         (snd (insert_copilot_message
           \<lparr>cp_id = id1, cp_org_id = Some org, cp_role = ''user'', cp_content = msg, cp_tool_calls = None, cp_ts = now\<rparr> s)))))"
proof -
  have "resolve_scope sha256 header s = (Inr org, s)" "require_pool s = (Inr (), s)"
    using resolve_scope_state [of sha256 header s] assms resolve_scope_pool [OF assms] by (simp_all add: require_pool_eval)
  then show ?thesis
    unfolding copilot_def using run_copilot_state [of w show_json backend org msg s]
    by (cases "fst (run_copilot w show_json backend org msg s)") (simp_all add: andThen_eval mapErr_eval modify_eval ret_eval)
qed

lemma mcp_eval:
  assumes "fst (resolve_scope sha256 header s) = Inr org"
  shows "mcp w show_json sha256 version header req s = (fst (rpc_answer w show_json version org req s), s)"
proof -
  have "resolve_scope sha256 header s = (Inr org, s)" "require_pool s = (Inr (), s)"
    using resolve_scope_state [of sha256 header s] assms resolve_scope_pool [OF assms] by (simp_all add: require_pool_eval)
  moreover have "rpc_answer w show_json version org req s = (fst (rpc_answer w show_json version org req s), s)"
    using rpc_answer_scoped unfolding reads_tenant_def by (metis prod.collapse)
  ultimately show ?thesis unfolding mcp_def by (simp add: andThen_eval)
qed

lemma mcp_state: "snd (mcp w shown sha version header req s) = s"
proof (cases "fst (resolve_scope sha header s)")
  case (Inl e)
  then show ?thesis using resolve_scope_state [of sha header s] by (simp add: mcp_def andThen_eval)
qed (simp add: mcp_eval)

lemma insert_copilot_message_effect:
  obtains ms where "snd (insert_copilot_message r s) = s\<lparr>t_copilot_messages := t_copilot_messages s @ ms\<rparr>" "ms \<in> {[], [r]}"
proof -
  have "snd (insert_copilot_message r s) \<in> {s, s\<lparr>t_copilot_messages := t_copilot_messages s @ [r]\<rparr>}"
    by (simp add: insert_copilot_message_def prog_simps split: option.split)
  then consider "snd (insert_copilot_message r s) = s"
    | "snd (insert_copilot_message r s) = s\<lparr>t_copilot_messages := t_copilot_messages s @ [r]\<rparr>" by blast
  then show thesis
  proof cases
    case 1
    show thesis by (rule that [of "[]"]) (simp_all add: 1)
  next
    case 2
    show thesis by (rule that [of "[r]"]) (simp_all add: 2)
  qed
qed

lemma copilot_refused:
  "fst (resolve_scope sha256 header s) = Inl e \<Longrightarrow>
     copilot w show_json sha256 backend id1 id2 now header msg s = (Inl e, s)"
  using resolve_scope_state [of sha256 header s] by (simp add: copilot_def andThen_eval)

lemma copilot_log:
  "\<exists>ms. snd (copilot w show_json sha256 backend id1 id2 now header msg s) =
        s\<lparr>t_copilot_messages := t_copilot_messages s @ ms\<rparr> \<and>
      list_all (\<lambda>m. \<exists>org. cp_org_id m = Some org \<and> fst (resolve_scope sha256 header s) = Inr org) ms"
proof (cases "fst (resolve_scope sha256 header s)")
    case (Inl e)
    then show ?thesis by (intro exI [of _ "[]"]) (simp add: copilot_refused)
  next
    case (Inr org)
    show ?thesis
    proof (cases "fst (run_copilot w show_json backend org msg s)")
      case (Inl e)
      with Inr show ?thesis by (intro exI [of _ "[]"]) (simp add: copilot_eval)
    next
      case (Inr resp)
      let ?u = "\<lparr>cp_id = id1, cp_org_id = Some org, cp_role = ''user'', cp_content = msg, cp_tool_calls = None, cp_ts = now\<rparr>"
      let ?a = "\<lparr>cp_id = id2, cp_org_id = Some org, cp_role = ''assistant'', cp_content = rs_reply resp,
        cp_tool_calls = Some (tool_calls_json (rs_tool_calls resp)), cp_ts = now\<rparr>"
      obtain m1 where m1: "snd (insert_copilot_message ?u s) = s\<lparr>t_copilot_messages := t_copilot_messages s @ m1\<rparr>" "m1 \<in> {[], [?u]}"
        by (rule insert_copilot_message_effect)
      obtain m2 where m2: "snd (insert_copilot_message ?a (snd (insert_copilot_message ?u s))) =
          (snd (insert_copilot_message ?u s))\<lparr>t_copilot_messages := t_copilot_messages (snd (insert_copilot_message ?u s)) @ m2\<rparr>"
        "m2 \<in> {[], [?a]}"
        by (rule insert_copilot_message_effect)
      note m2_log = m2(1) [unfolded m1(1), simplified]
      show ?thesis
        using m1(2) m2(2) \<open>fst (resolve_scope sha256 header s) = Inr org\<close>
        by (intro exI [of _ "m1 @ m2"]) (auto simp: copilot_eval Inr m1(1) m2_log)
    qed
  qed

text \<open>
  C22.  The assistant is confined to its tenant.  Whatever the model answers and whatever a request says,
  the tool server changes nothing, and the copilot nothing but its own log, where its entries carry the
  organisation the caller's token belongs to.  And tenants do not see each other: in two
  states in which the token belongs to an organisation that owns the same plants and the same orders
  in both, both doors give the same answer, whatever else the states hold.
\<close>

theorem tenant_isolation:
  "snd (mcp w show_json sha256 version header req s) = s \<and>
   (\<exists>ms. snd (copilot w show_json sha256 backend id1 id2 now header msg s) =
        s\<lparr>t_copilot_messages := t_copilot_messages s @ ms\<rparr> \<and>
      list_all (\<lambda>m. \<exists>org. cp_org_id m = Some org \<and> fst (resolve_scope sha256 header s) = Inr org) ms) \<and>
   (fst (resolve_scope sha256 header s) = Inr org \<and> fst (resolve_scope sha256 header s') = Inr org \<and> same_tenant org s s' \<longrightarrow>
      fst (mcp w show_json sha256 version header req s) = fst (mcp w show_json sha256 version header req s') \<and>
      fst (copilot w show_json sha256 backend id1 id2 now header msg s) =
        fst (copilot w show_json sha256 backend id1 id2 now header msg s'))"
proof -
  note log = copilot_log [of w show_json sha256 backend id1 id2 now header msg s]
  have "fst (rpc_answer w show_json version org req s) = fst (rpc_answer w show_json version org req s')"
    "fst (run_copilot w show_json backend org msg s) = fst (run_copilot w show_json backend org msg s')"
    if "same_tenant org s s'"
    by (rule reads_tenantD [OF rpc_answer_scoped that], rule reads_tenantD [OF run_copilot_scoped that])
  with log show ?thesis by (auto simp: mcp_state mcp_eval copilot_eval split: sum.split)
qed

section \<open>The conversation\<close>

definition result_id :: "block \<Rightarrow> string option" where
  "result_id b = (case b of ToolResult i _ \<Rightarrow> Some i | _ \<Rightarrow> None)"

text \<open>
  The shape the model's interface asks for: user and assistant alternate, the user has the last word,
  and every call the assistant makes is answered by the next message, in order.
\<close>

fun conversation :: "chat_message list \<Rightarrow> bool" where
  "conversation [] = False"
| "conversation [u] = (cm_role u = ''user'')"
| "conversation (u # a # rest) =
     (cm_role u = ''user'' \<and> cm_role a = ''assistant'' \<and> tool_uses (cm_content a) \<noteq> [] \<and>
      (case rest of r # _ \<Rightarrow> map result_id (cm_content r) = map (Some \<circ> fst) (tool_uses (cm_content a)) | [] \<Rightarrow> False) \<and>
      conversation rest)"

definition calls_of :: "chat_message list \<Rightarrow> tool_call list" where
  "calls_of ms = map (\<lambda>(i, name, args). \<lparr>tc_name = name, tc_arguments = args\<rparr>) (concat (map (tool_uses \<circ> cm_content) ms))"

lemma conversation_extend:
  assumes "conversation ms" "tool_uses content \<noteq> []" "map result_id results = map (Some \<circ> fst) (tool_uses content)"
  shows "conversation (ms @ [\<lparr>cm_role = ''assistant'', cm_content = content\<rparr>, \<lparr>cm_role = ''user'', cm_content = results\<rparr>])"
  using assms(1)
proof (induction ms rule: conversation.induct)
  case (3 u a rest)
  then show ?case by (cases rest) auto
qed (use assms in auto)

text \<open>
  The conversation without a limit: the user's message, and behind it, as long as the model asks for tools, what it
  said and the results of the calls, each what the tool answers in the given state or the text of its error.
\<close>

definition tool_result :: "wire \<Rightarrow> (json \<Rightarrow> string) \<Rightarrow> string \<Rightarrow> 's sync_db_scheme \<Rightarrow> string \<times> string \<times> json \<Rightarrow> block" where
  "tool_result w shown org s =
     (\<lambda>(i, name, args). ToolResult i (shown
        (case fst (dispatch w org name args s) of
           Inr v \<Rightarrow> v
         | Inl e \<Rightarrow> json_object [(''error'', JStr (tool_error_msg e))])))"

definition extend_dialogue :: "(string \<times> string \<times> json \<Rightarrow> block) \<Rightarrow> llm_backend \<Rightarrow> chat_message list \<Rightarrow> chat_message list" where
  "extend_dialogue results backend ms =
     (case backend SYSTEM ms catalog of
        Inl e \<Rightarrow> ms
      | Inr content \<Rightarrow>
          if tool_uses content = [] then ms
          else ms @ [\<lparr>cm_role = ''assistant'', cm_content = content\<rparr>,
                     \<lparr>cm_role = ''user'', cm_content = map results (tool_uses content)\<rparr>])"

definition dialogue :: "(string \<times> string \<times> json \<Rightarrow> block) \<Rightarrow> llm_backend \<Rightarrow> string \<Rightarrow> nat \<Rightarrow> chat_message list" where
  "dialogue results backend msg k =
     (extend_dialogue results backend ^^ k) [\<lparr>cm_role = ''user'', cm_content = [TextBlock msg]\<rparr>]"

definition wants_tools :: "llm_backend \<Rightarrow> chat_message list \<Rightarrow> bool" where
  "wants_tools backend ms \<longleftrightarrow> (\<exists>content. backend SYSTEM ms catalog = Inr content \<and> tool_uses content \<noteq> [])"

lemma dialogue_start:
  "dialogue results backend msg 0 = [\<lparr>cm_role = ''user'', cm_content = [TextBlock msg]\<rparr>]"
  "calls_of [\<lparr>cm_role = ''user'', cm_content = [TextBlock msg]\<rparr>] = []"
  by (simp_all add: dialogue_def calls_of_def)

lemma run_tools: "mapProg (run_tool w shown org) uses s = (Inr (map (tool_result w shown org s) uses), s)"
proof (induction uses)
  case (Cons use uses)
  have "run_tool w shown org use s = (Inr (tool_result w shown org s use), s)"
    by (cases use) (simp add: run_tool_eval tool_result_def split: sum.split)
  with Cons show ?case by (simp add: andThen_eval ret_eval)
qed (simp add: ret_eval)

lemma tool_result_blocks:
  "tool_uses (map (tool_result w shown org s) uses) = []"
  "map result_id (map (tool_result w shown org s) uses) = map (Some \<circ> fst) uses"
  by (induction uses) (auto simp: tool_result_def result_id_def)

lemma conversation_dialogue: "conversation (dialogue (tool_result w shown org s) backend msg k)"
proof (induction k)
  case (Suc k)
  then show ?case
    using conversation_extend tool_result_blocks(2)
    by (fastforce simp: dialogue_def extend_dialogue_def simp del: map_map split: sum.split)
qed (simp add: dialogue_def)

lemma copilot_loop_dialogue:
  fixes w shown org backend msg and s :: "'s sync_db_scheme"
  defines "said \<equiv> dialogue (tool_result w shown org s) backend msg"
  shows "copilot_loop w shown backend org n (said k) (calls_of (said k)) s =
    (case find (\<lambda>k. \<not> wants_tools backend (said k)) [k..<k + n] of
       None \<Rightarrow> Inl NoConverge
     | Some k \<Rightarrow>
         (case backend SYSTEM (said k) catalog of
            Inl e \<Rightarrow> Inl e
          | Inr content \<Rightarrow> Inr \<lparr>rs_reply = join [CHR 0x0A] (texts content), rs_tool_calls = calls_of (said k)\<rparr>), s)"
proof (induction n arbitrary: k)
  case (Suc n)
  have range: "[k..<k + Suc n] = k # [Suc k..<Suc k + n]" by (simp add: upt_conv_Cons)
  show ?case
  proof (cases "wants_tools backend (said k)")
    case False
    then have "find (\<lambda>k. \<not> wants_tools backend (said k)) [k..<k + Suc n] = Some k" unfolding range by simp
    with False show ?thesis
      by (cases "backend SYSTEM (said k) catalog") (auto simp: wants_tools_def [of backend "said k"] throw_eval ret_eval Let_def)
  next
    case True
    then obtain content where content: "backend SYSTEM (said k) catalog = Inr content" "tool_uses content \<noteq> []"
      by (auto simp: wants_tools_def)
    then have "said (Suc k) = said k @ [\<lparr>cm_role = ''assistant'', cm_content = content\<rparr>,
        \<lparr>cm_role = ''user'', cm_content = map (tool_result w shown org s) (tool_uses content)\<rparr>]"
      by (simp add: said_def dialogue_def extend_dialogue_def)
    moreover have "calls_of (said (Suc k)) =
        calls_of (said k) @ map (\<lambda>(i, name, args). \<lparr>tc_name = name, tc_arguments = args\<rparr>) (tool_uses content)"
      by (simp add: calculation calls_of_def tool_result_blocks)
    ultimately have "copilot_loop w shown backend org (Suc n) (said k) (calls_of (said k)) s =
        copilot_loop w shown backend org n (said (Suc k)) (calls_of (said (Suc k))) s"
      using content by (simp add: Let_def andThen_eval run_tools)
    then show ?thesis unfolding range using True Suc.IH [of "Suc k"] by (simp del: copilot_loop.simps upt_Suc)
  qed
qed (simp add: throw_eval)

text \<open>
  C25.  The copilot ends, and with the right answer.  Let the conversation grow from the user's message by one round
  of tool calls and their true results as long as the model asks for tools.  If one of its first eight replies asks
  for none, the copilot answers with the text of the first such reply and the calls of the conversation up to
  it, in order; if the model fails at that point its error is the answer; and if all eight ask for tools, the answer is
  that the loop did not converge.  Nothing changes, and every conversation shown to the model is well formed: the roles
  alternate and each call is answered by a result with its identifier, in order.
\<close>

theorem copilot_converses:
  "let said = dialogue (tool_result w show_json org s) backend msg in
     run_copilot w show_json backend org msg s =
       (case find (\<lambda>k. \<not> wants_tools backend (said k)) [0..<8] of
          None \<Rightarrow> Inl NoConverge
        | Some k \<Rightarrow>
            (case backend SYSTEM (said k) catalog of
               Inl e \<Rightarrow> Inl e
             | Inr content \<Rightarrow> Inr \<lparr>rs_reply = join [CHR 0x0A] (texts content), rs_tool_calls = calls_of (said k)\<rparr>), s) \<and>
     (\<forall>k. conversation (said k))"
  using copilot_loop_dialogue [of w show_json backend org MAX_TURNS s msg 0]
  by (simp add: run_copilot_def dialogue_start conversation_dialogue MAX_TURNS_def Let_def del: copilot_loop.simps upt_Suc)

section \<open>Application\<close>

text \<open>Two states of the cloud that differ in the order of another organisation.\<close>

definition sample_agent :: "string \<Rightarrow> agent_db" where
  "sample_agent n = sync_db.extend
     (sample_sync\<lparr>t_plants := [sample_plant ''PA'' ''a'', (sample_plant ''PB'' ''b'')\<lparr>pl_org_id := ''G2''\<rparr>],
        t_work_orders := map (\<lambda>wo. wo\<lparr>wo_number := n, wo_plant_id := Some ''PB''\<rparr>) (t_work_orders sample_sync)\<rparr>)
     \<lparr>t_copilot_messages = []\<rparr>"

theorem tenant_isolation_witness:
  "fst (mcp sample_wire (\<lambda>_. ''text'') sample_sha ''1'' (Some ''Bearer a'') JNull (sample_agent ''WO-1'')) =
   fst (mcp sample_wire (\<lambda>_. ''text'') sample_sha ''1'' (Some ''Bearer a'') JNull (sample_agent ''WO-2''))"
proof -
  have scope: "fst (resolve_scope sample_sha (Some ''Bearer a'') (sample_agent n)) = Inr ''G1''" for n
    by (simp add: resolve_scope_def resolve_tenant_by_token_def sample_agent_def sample_sync_defs gate_simps)
  have "same_tenant ''G1'' (sample_agent ''WO-1'') (sample_agent ''WO-2'')"
    by (simp add: same_tenant_def org_plants_def org_orders_def sample_agent_def sample_sync_defs)
  with scope tenant_isolation [of sample_wire "\<lambda>_. ''text''" sample_sha "''1''" "Some ''Bearer a''" JNull "sample_agent ''WO-1''"
      null_backend "[]" "[]" 0 "[]" "''G1''" "sample_agent ''WO-2''"]
  show ?thesis by blast
qed

end
