(* ===== verification/Diagnostics.thy ===== *)
theory Diagnostics
  imports Database
begin

text \<open>
  Diagnostics (\<^verbatim>\<open>mes-diagnostics\<close>) and the endpoint that sends them (\<^verbatim>\<open>mes-edge/src/diagnostics.rs\<close>):
  redaction by a list of allowed keys, the ring of recent events, the report builders and the single
  path on which a bundle leaves the machine.  Text is a list of UTF-8 bytes, as everywhere in
  this development.  The hasher, the pretty printer and the network are parameters.
\<close>

section \<open>Redaction\<close>

definition SAFE_KEYS :: "string list" where
  "SAFE_KEYS =
     [''service'', ''version'', ''build'', ''commit'', ''os'', ''arch'', ''cpu_count'', ''mem_bytes'',
      ''level'', ''target'', ''event'', ''kind'', ''code'', ''status'', ''timestamp'', ''ts'',
      ''uptime_secs'', ''elapsed_ms'', ''count'', ''seq'',
      ''error'', ''error_type'', ''message'', ''panic'', ''location'', ''thread'', ''backtrace_hash'',
      ''span'', ''spans'', ''reason_code'']"

text \<open>
  The white space of \<^verbatim>\<open>char::is_whitespace\<close>, each character by its bytes: tab to carriage return and
  the blank, next line and no-break space, the spaces of U+1680, U+2000 to U+200A, U+2028, U+2029,
  U+202F, U+205F and U+3000.
\<close>

definition WHITESPACE :: "nat list list" where
  "WHITESPACE =
     map (\<lambda>b. [b]) [9, 10, 11, 12, 13, 32] @
     [[0xC2, 0x85], [0xC2, 0xA0], [0xE1, 0x9A, 0x80]] @
     map (\<lambda>b. [0xE2, 0x80, b]) [0x80, 0x81, 0x82, 0x83, 0x84, 0x85, 0x86, 0x87, 0x88, 0x89, 0x8A, 0xA8, 0xA9, 0xAF] @
     [[0xE2, 0x81, 0x9F], [0xE3, 0x80, 0x80]]"

text \<open>The number of bytes of the white-space character at the head, zero when there is none.\<close>

definition ws_len :: "string \<Rightarrow> nat" where
  "ws_len s =
     (case find (\<lambda>w. map of_char (take (length w) s) = w) WHITESPACE of None \<Rightarrow> 0 | Some w \<Rightarrow> length w)"

text \<open>
  Splitting after each white-space character: every piece is a word and the character that ended it;
  the last piece may lack one.  The accumulator holds the current word, reversed.
\<close>

function split_inclusive :: "string \<Rightarrow> string \<Rightarrow> (string \<times> string) list" where
  "split_inclusive acc [] = (if acc = [] then [] else [(rev acc, [])])"
| "split_inclusive acc (c # cs) =
     (let n = ws_len (c # cs) in
      if n = 0 then split_inclusive (c # acc) cs
      else (rev acc, take n (c # cs)) # split_inclusive [] (drop n (c # cs)))"
  by pat_completeness auto
termination by (relation "measure (\<lambda>(acc, s). length s)") auto

definition looks_like_email :: "string \<Rightarrow> bool" where
  "looks_like_email w =
     (CHR 0x40 \<in> set w \<and> hd w \<noteq> CHR 0x40 \<and>
      CHR 0x2E \<in> set (tl (dropWhile (\<lambda>c. c \<noteq> CHR 0x40) w)))"

definition is_ascii_digit :: "char \<Rightarrow> bool" where
  "is_ascii_digit c \<longleftrightarrow> of_char c \<in> {48..57 :: nat}"

definition is_ascii_alphanumeric :: "char \<Rightarrow> bool" where
  "is_ascii_alphanumeric c \<longleftrightarrow> is_ascii_digit c \<or> of_char c \<in> {65..90 :: nat} \<or> of_char c \<in> {97..122 :: nat}"

definition looks_like_token :: "string \<Rightarrow> bool" where
  "looks_like_token w \<longleftrightarrow>
     length w \<ge> 24 \<and>
     (\<forall>c\<in>set w. is_ascii_alphanumeric c \<or> c \<in> {CHR 0x5F, CHR 0x2D, CHR 0x2B, CHR 0x2F}) \<and>
     (\<exists>c\<in>set w. is_ascii_digit c)"

definition scrub_word :: "string \<Rightarrow> string" where
  "scrub_word w = (if looks_like_email w \<or> looks_like_token w then ''[redacted]'' else w)"

definition scrub_string :: "string \<Rightarrow> string" where
  "scrub_string s = concat (map (\<lambda>(w, ws). scrub_word w @ ws) (split_inclusive [] s))"

fun redact :: "json \<Rightarrow> json" where
  "redact (JObj m) =
     JObj (fold (\<lambda>(k, v) out. if k \<in> set SAFE_KEYS then map_insert k (redact v) out else out) m [])"
| "redact (JArr items) = JArr (map redact items)"
| "redact (JStr s) = JStr (scrub_string s)"
| "redact JNull = JNull"
| "redact (JBool b) = JBool b"
| "redact (JNum n) = JNum n"

section \<open>The ring of recent events\<close>

record diag_buffer =
  bf_cap :: nat
  bf_events :: "json list"

definition new_buffer :: "nat \<Rightarrow> diag_buffer" where
  "new_buffer cap = \<lparr>bf_cap = max cap 1, bf_events = []\<rparr>"

definition push_event :: "json \<Rightarrow> diag_buffer \<Rightarrow> diag_buffer" where
  "push_event event b =
     (let kept = (if length (bf_events b) = bf_cap b then tl (bf_events b) else bf_events b)
      in b\<lparr>bf_events := kept @ [redact event]\<rparr>)"

definition snapshot :: "diag_buffer \<Rightarrow> json list" where
  "snapshot b = bf_events b"

section \<open>Reports\<close>

definition heartbeat_payload :: "string \<Rightarrow> string \<Rightarrow> string \<Rightarrow> string \<Rightarrow> nat \<Rightarrow> json" where
  "heartbeat_payload os arch service version uptime_secs =
     json_object [(''event'', JStr ''heartbeat''), (''service'', JStr service), (''version'', JStr version),
       (''uptime_secs'', JNum (of_nat uptime_secs)), (''os'', JStr os), (''arch'', JStr arch)]"

definition manual_report :: "string \<Rightarrow> string \<Rightarrow> string \<Rightarrow> json list \<Rightarrow> json" where
  "manual_report service version note recent =
     json_object [(''event'', JStr ''manual''), (''service'', JStr service), (''version'', JStr version),
       (''message'', JStr note), (''spans'', JArr recent)]"

definition error_report :: "string \<Rightarrow> string \<Rightarrow> string \<Rightarrow> string \<Rightarrow> json" where
  "error_report service version error_type error =
     json_object [(''event'', JStr ''error_trigger''), (''service'', JStr service), (''version'', JStr version),
       (''error_type'', JStr error_type), (''error'', JStr error), (''level'', JStr ''error'')]"

definition crash_report :: "(string \<Rightarrow> string) \<Rightarrow> string \<Rightarrow> string \<Rightarrow> string \<Rightarrow> string option \<Rightarrow> json" where
  "crash_report hash service version msg location =
     json_object [(''event'', JStr ''crash''), (''service'', JStr service), (''version'', JStr version),
       (''panic'', JBool True), (''level'', JStr ''error''), (''location'', opt_json JStr location),
       (''backtrace_hash'', JStr (hash msg))]"

section \<open>Shipping\<close>

datatype diagnostics_error = Failed string | Ship string

definition diag_msg :: "diagnostics_error \<Rightarrow> string" where
  "diag_msg e =
     (case e of
        Failed m \<Rightarrow> ''diagnostics error: '' @ m
      | Ship m \<Rightarrow> ''diagnostics shipping failed: '' @ m)"

datatype send_outcome = Skipped | Shipped

record ship_config =
  sc_enabled :: bool
  sc_repo :: string
  sc_token :: string

definition config_from_env :: "(string \<Rightarrow> string option) \<Rightarrow> ship_config" where
  "config_from_env env =
     \<lparr>sc_enabled = (env ''MES_DIAG_ENABLED'' = Some ''true''),
      sc_repo = (case env ''MES_DIAG_REPO'' of Some v \<Rightarrow> v | None \<Rightarrow> []),
      sc_token = (case env ''MES_DIAG_TOKEN'' of Some v \<Rightarrow> v | None \<Rightarrow> [])\<rparr>"

text \<open>What left the machine: address, token and body of every request.\<close>

record diag_net =
  sent :: "(string \<times> string \<times> json) list"

type_synonym github = "string \<Rightarrow> string \<Rightarrow> json \<Rightarrow> string + (string \<times> bool)"

definition github_ship ::
  "github \<Rightarrow> ship_config \<Rightarrow> string \<Rightarrow> string \<Rightarrow> ('s diag_net_scheme, diagnostics_error, unit) prog" where
  "github_ship net cfg title body =
     (let url = ''https://api.github.com/repos/'' @ sc_repo cfg @ ''/issues'';
          issue = json_object [(''title'', JStr title), (''body'', JStr body), (''labels'', JArr [JStr ''diagnostics''])]
      in andThen (modify (\<lambda>s. s\<lparr>sent := sent s @ [(url, sc_token cfg, issue)]\<rparr>)) (\<lambda>_.
         case net url (sc_token cfg) issue of
           Inl e \<Rightarrow> throw (Ship e)
         | Inr (status, success) \<Rightarrow> guard success (Ship (''github returned '' @ status))))"

definition str_member :: "string \<Rightarrow> string \<Rightarrow> json \<Rightarrow> string" where
  "str_member k def v = (case Option.bind (json_get v k) json_as_str of Some s \<Rightarrow> s | None \<Rightarrow> def)"

definition bundle_title :: "json \<Rightarrow> string" where
  "bundle_title redacted =
     ''[diagnostics] '' @ str_member ''service'' ''mes'' redacted @ '': '' @ str_member ''event'' ''diagnostics'' redacted"

definition bundle_body :: "(json \<Rightarrow> string option) \<Rightarrow> json \<Rightarrow> string" where
  "bundle_body pretty redacted =
     replicate 3 CHR 0x60 @ ''json'' @ [CHR 0x0A] @
     (case pretty redacted of Some t \<Rightarrow> t | None \<Rightarrow> []) @ [CHR 0x0A] @ replicate 3 CHR 0x60"

definition send_diagnostics ::
  "(json \<Rightarrow> string option) \<Rightarrow> (string \<Rightarrow> string \<Rightarrow> ('s, diagnostics_error, unit) prog) \<Rightarrow> ship_config \<Rightarrow> json
    \<Rightarrow> ('s, diagnostics_error, send_outcome) prog" where
  "send_diagnostics pretty shipper cfg payload =
     (if \<not> sc_enabled cfg then ret Skipped
      else let redacted = redact payload in
           andThen (shipper (bundle_title redacted) (bundle_body pretty redacted)) (\<lambda>_. ret Shipped))"

definition send_handler ::
  "(json \<Rightarrow> string option) \<Rightarrow> github \<Rightarrow> (string \<Rightarrow> string option) \<Rightarrow> string \<Rightarrow> auth_user \<Rightarrow> string option
    \<Rightarrow> ('s diag_net_scheme, api_err, nat \<times> json) prog" where
  "send_handler pretty net env version u note =
     andThen (master_writer u) (\<lambda>_.
     let msg = (case note of Some n \<Rightarrow> n | None \<Rightarrow> ''manual diagnostics from supervisor console'');
         cfg = config_from_env env;
         payload = manual_report ''mes-edge'' version msg []
     in andThen (mapErr (\<lambda>e. ApiErr 502 ''diagnostics_failed'' (diag_msg e))
                  (send_diagnostics pretty (github_ship net cfg) cfg payload)) (\<lambda>outcome.
        ret (200, json_object [(''outcome'',
          JStr (case outcome of Shipped \<Rightarrow> ''shipped'' | Skipped \<Rightarrow> ''skipped''))])))"

section \<open>Words\<close>

abbreviation continuation :: "nat \<Rightarrow> bool" where
  "continuation b \<equiv> 0x80 \<le> b \<and> b < 0xC0"

definition starts :: "string \<Rightarrow> nat list \<Rightarrow> bool" where
  "starts s w \<longleftrightarrow> map of_char (take (length w) s) = w"

text \<open>A white-space character is a first byte and continuation bytes, and none begins another.\<close>

lemma whitespace_bytes:
  "\<forall>w\<in>set WHITESPACE. w \<noteq> [] \<and> \<not> continuation (hd w) \<and> (\<forall>b\<in>set (tl w). continuation b)"
  by (simp add: WHITESPACE_def)

lemma whitespace_prefix_free:
  "\<forall>w\<in>set WHITESPACE. \<forall>w'\<in>set WHITESPACE. take (length w') w = w' \<longrightarrow> w' = w"
  by (simp add: WHITESPACE_def)

lemma starts_append: "starts x w \<Longrightarrow> starts (x @ y) w"
  by (auto simp: starts_def dest: arg_cong [of _ _ length])

lemma ws_len_find: "ws_len s = (case find (starts s) WHITESPACE of None \<Rightarrow> 0 | Some w \<Rightarrow> length w)"
proof -
  have "starts s = (\<lambda>w. map of_char (take (length w) s) = w)" by (simp add: starts_def fun_eq_iff)
  then show ?thesis by (simp only: ws_len_def)
qed

lemma ws_len_0_iff: "ws_len s = 0 \<longleftrightarrow> (\<forall>w\<in>set WHITESPACE. \<not> starts s w)"
proof (cases "find (starts s) WHITESPACE")
  case None
  then have "\<forall>w\<in>set WHITESPACE. \<not> starts s w" by (simp add: find_None_iff)
  with None show ?thesis by (simp add: ws_len_find)
next
  case (Some w)
  then have "w \<in> set WHITESPACE" "starts s w" by (auto simp: find_Some_iff)
  with Some whitespace_bytes show ?thesis by (auto simp: ws_len_find)
qed

lemma ws_len_starts:
  assumes "w \<in> set WHITESPACE" "starts s w"
  shows "ws_len s = length w"
proof (cases "find (starts s) WHITESPACE")
  case None
  with assms show ?thesis by (auto simp: find_None_iff)
next
  case (Some w')
  then have w': "w' \<in> set WHITESPACE" "starts s w'" by (auto simp: find_Some_iff)
  have prefixes: "take (length a) b = a" if "starts s a" "starts s b" "length a \<le> length b" for a b
  proof -
    have "take (length a) b = take (length a) (map of_char (take (length b) s))"
      using that(2) by (simp add: starts_def)
    also have "\<dots> = map of_char (take (length a) s)" using that(3) by (simp add: take_map min_absorb1)
    finally show ?thesis using that(1) by (simp add: starts_def)
  qed
  have "w' = w"
    using whitespace_prefix_free assms w' prefixes [of w w'] prefixes [of w' w] by (metis nat_le_linear)
  with Some show ?thesis by (simp add: ws_len_find)
qed

lemma ws_lenE:
  assumes "ws_len s \<noteq> 0"
  obtains w where "w \<in> set WHITESPACE" "starts s w" "ws_len s = length w"
  using assms ws_len_starts [of _ s] unfolding ws_len_0_iff by blast

definition white :: "string \<Rightarrow> bool" where
  "white w \<longleftrightarrow> map of_char w \<in> set WHITESPACE"

lemma white_head: "white w \<Longrightarrow> w \<noteq> [] \<and> \<not> continuation (of_char (hd w))"
  using whitespace_bytes unfolding white_def by (cases w) fastforce+

lemma ws_len_white: "white w \<Longrightarrow> ws_len (w @ t) = length w"
  using ws_len_starts [of "map of_char w" "w @ t"] by (simp add: white_def starts_def)

lemma white_take:
  assumes "ws_len s \<noteq> 0"
  shows "white (take (ws_len s) s)"
  using assms by (elim ws_lenE) (simp add: white_def starts_def)

text \<open>No white space begins inside a word, whatever word end follows.\<close>

definition solid :: "string \<Rightarrow> bool" where
  "solid b \<longleftrightarrow> (\<forall>i<length b. ws_len (drop i b) = 0)"

lemma solid_Cons: "solid (c # b) \<longleftrightarrow> ws_len (c # b) = 0 \<and> solid b"
  by (auto simp: solid_def less_Suc_eq_0_disj)

lemma ws_len_cut:
  assumes "ws_len x = 0" "x \<noteq> []" "t = [] \<or> \<not> continuation (of_char (hd t))"
  shows "ws_len (x @ t) = 0"
  unfolding ws_len_0_iff
proof (intro ballI notI)
  fix w assume w: "w \<in> set WHITESPACE" "starts (x @ t) w"
  show False
  proof (cases "length w \<le> length x")
    case True
    with w(2) have "starts x w" by (simp add: starts_def)
    with assms(1) w(1) show False by (simp add: ws_len_0_iff)
  next
    case False
    have len: "length w \<le> length (x @ t)"
      using arg_cong [OF w(2) [unfolded starts_def], of length] by simp
    have "w ! length x = of_char ((x @ t) ! length x)"
    proof -
      have "map of_char (take (length w) (x @ t)) ! length x = (of_char ((x @ t) ! length x) :: nat)"
        using False len by (subst nth_map) (simp_all del: take_append)
      then show ?thesis using w(2) by (simp add: starts_def)
    qed
    moreover have "w ! length x \<in> set (tl w)"
      using False assms(2) by (cases w) (auto simp: nth_Cons split: nat.split)
    ultimately show False
      using whitespace_bytes w(1) assms(3) False len by (cases t) auto
  qed
qed

lemma split_scan:
  "solid b \<Longrightarrow> t = [] \<or> \<not> continuation (of_char (hd t)) \<Longrightarrow>
     split_inclusive acc (b @ t) = split_inclusive (rev b @ acc) t"
proof (induction b arbitrary: acc)
  case (Cons c b)
  then have "ws_len ((c # b) @ t) = 0" by (intro ws_len_cut) (simp_all add: solid_Cons)
  with Cons show ?case by (simp add: solid_Cons)
qed simp

text \<open>Pieces that a split can return: solid words, each ended by white space, except perhaps the last.\<close>

fun pieces :: "(string \<times> string) list \<Rightarrow> bool" where
  "pieces [] = True"
| "pieces ((b, w) # ps) = (solid b \<and> (if w = [] then b \<noteq> [] \<and> ps = [] else white w \<and> pieces ps))"

definition unsplit :: "(string \<times> string) list \<Rightarrow> string" where
  "unsplit ps = concat (map (\<lambda>(b, w). b @ w) ps)"

lemma split_unsplit: "pieces ps \<Longrightarrow> split_inclusive [] (unsplit ps) = ps"
proof (induction ps rule: pieces.induct)
  case (2 b w ps)
  show ?case
  proof (cases "w = []")
    case True
    with 2 show ?thesis using split_scan [of b "[]" "[]"] by (simp add: unsplit_def)
  next
    case False
    with 2 have w: "white w" "solid b" "split_inclusive [] (unsplit ps) = ps" by simp_all
    obtain c w' where cw: "w = c # w'" using False by (cases w) auto
    have "split_inclusive [] (b @ w @ unsplit ps) = split_inclusive (rev b) (w @ unsplit ps)"
      using split_scan [of b "w @ unsplit ps" "[]"] w white_head [OF w(1)] by simp
    also have "\<dots> = (b, w) # ps"
      using ws_len_white [OF w(1), of "unsplit ps"] w(3) by (simp add: cw)
    finally show ?thesis by (simp add: unsplit_def)
  qed
qed (simp add: unsplit_def)

lemma pieces_split:
  "\<forall>i<length acc. ws_len (drop i (rev acc) @ s) = 0 \<Longrightarrow> pieces (split_inclusive acc s)"
proof (induction acc s rule: split_inclusive.induct)
  case (1 acc)
  then show ?case by (simp add: solid_def)
next
  case (2 acc c cs)
  have solid: "solid (rev acc)"
    unfolding solid_def ws_len_0_iff using 2(3) starts_append ws_len_0_iff by (metis length_rev)
  show ?case
  proof (cases "ws_len (c # cs) = 0")
    case True
    have "ws_len (drop i (rev (c # acc)) @ cs) = 0" if "i < length (c # acc)" for i
      using 2(3) True that by (cases "i = length acc") auto
    with 2(1) [OF refl] True show ?thesis by simp
  next
    case False
    with 2(2) [OF refl] white_take [OF False] solid show ?thesis by (auto simp: Let_def)
  qed
qed

lemma scrub_words:
  "split_inclusive [] (scrub_string s) = map (\<lambda>(b, w). (scrub_word b, w)) (split_inclusive [] s)"
proof -
  let ?f = "\<lambda>(b, w). (scrub_word b, w)"
  have "solid ''[redacted]''" by (simp add: solid_Cons solid_def [of "[]"] ws_len_def WHITESPACE_def)
  then have "pieces ps \<Longrightarrow> pieces (map ?f ps)" for ps :: "(string \<times> string) list"
    by (induction ps rule: pieces.induct) (auto simp: scrub_word_def)
  then have "pieces (map ?f (split_inclusive [] s))" using pieces_split [of "[]" s] by simp
  from split_unsplit [OF this] show ?thesis
    by (simp add: scrub_string_def unsplit_def case_prod_unfold comp_def)
qed

section \<open>What redaction leaves\<close>

fun json_keys :: "json \<Rightarrow> string list" where
  "json_keys (JObj m) = concat (map (\<lambda>(k, v). k # json_keys v) m)"
| "json_keys (JArr vs) = concat (map json_keys vs)"
| "json_keys _ = []"

fun json_strings :: "json \<Rightarrow> string list" where
  "json_strings (JObj m) = concat (map (\<lambda>(k, v). json_strings v) m)"
| "json_strings (JArr vs) = concat (map json_strings vs)"
| "json_strings (JStr s) = [s]"
| "json_strings _ = []"

text \<open>The part of a value that is outside every member with a key that is not allowed.\<close>

fun structural :: "json \<Rightarrow> json" where
  "structural (JObj m) = JObj (concat (map (\<lambda>(k, v). if k \<in> set SAFE_KEYS then [(k, structural v)] else []) m))"
| "structural (JArr vs) = JArr (map structural vs)"
| "structural v = v"

definition safe_members :: "(string \<times> json) list \<Rightarrow> (string \<times> json) list" where
  "safe_members m = map (\<lambda>(k, v). (k, redact v)) (filter (\<lambda>(k, v). k \<in> set SAFE_KEYS) m)"

lemma json_members_induct [case_names Obj Arr Str Null Bool Num]:
  assumes "\<And>m. (\<And>k v. (k, v) \<in> set m \<Longrightarrow> P v) \<Longrightarrow> P (JObj m)" "\<And>vs. (\<And>v. v \<in> set vs \<Longrightarrow> P v) \<Longrightarrow> P (JArr vs)"
    "\<And>t. P (JStr t)" "P JNull" "\<And>b. P (JBool b)" "\<And>n. P (JNum n)"
  shows "P v"
  by (induction v) (use assms in \<open>force intro: assms(1,2)\<close>)+

lemma redact_object: "redact (JObj m) = json_object (safe_members m)"
proof -
  have "fold (\<lambda>(k, v) out. if k \<in> set SAFE_KEYS then map_insert k (redact v) out else out) m acc =
      fold (\<lambda>(k, v) out. map_insert k v out) (safe_members m) acc" for acc
    by (induction m arbitrary: acc) (auto simp: safe_members_def)
  then show ?thesis by (simp add: json_object_def)
qed

lemma fold_map_insert_members:
  "set (fold (\<lambda>(k, v) m. map_insert k v m) kvs m) \<subseteq> set m \<union> set kvs"
proof (induction kvs arbitrary: m)
  case (Cons kv kvs)
  have "set (map_insert k v m) \<subseteq> insert (k, v) (set m)" for k v
    by (induction k v m rule: map_insert.induct) auto
  with Cons.IH [of "map_insert (fst kv) (snd kv) m"] show ?case by (cases kv) fastforce
qed simp

lemma redact_objectE:
  obtains m' where "redact (JObj m) = JObj m'" "ordered_map m'"
    "set m' \<subseteq> {(k, redact v) | k v. (k, v) \<in> set m \<and> k \<in> set SAFE_KEYS}"
proof
  let ?m = "fold (\<lambda>(k, v) m. map_insert k v m) (safe_members m) []"
  show "redact (JObj m) = JObj ?m" by (simp add: redact_object json_object_def del: redact.simps)
  show "ordered_map ?m" by (rule fold_map_insert_ordered) (simp add: ordered_map_def)
  show "set ?m \<subseteq> {(k, redact v) | k v. (k, v) \<in> set m \<and> k \<in> set SAFE_KEYS}"
    using fold_map_insert_members [of "safe_members m" "[]"] by (fastforce simp: safe_members_def)
qed

lemma fold_insert_ordered: "ordered_map m \<Longrightarrow> fold (\<lambda>(k, v) m. map_insert k v m) m [] = m"
proof (induction m rule: rev_induct)
  case (snoc kv m)
  have last: "\<forall>x\<in>set m. fst x < k \<Longrightarrow> map_insert k v m = m @ [(k, v)]" for k and v :: 'a
    by (induction k v m rule: map_insert.induct) (auto dest: order.asym)
  with snoc show ?case by (cases kv) (auto simp: ordered_map_def sorted_wrt_append)
qed simp

lemma redact_keys: "set (json_keys (redact v)) \<subseteq> set SAFE_KEYS"
proof (induction v rule: json_members_induct)
  case (Obj m)
  show ?case
  proof (rule redact_objectE [of m])
    fix m' assume m': "redact (JObj m) = JObj m'" "set m' \<subseteq> {(k, redact v) | k v. (k, v) \<in> set m \<and> k \<in> set SAFE_KEYS}"
    then show ?thesis using Obj by (fastforce simp del: redact.simps)
  qed
qed auto

lemma scrub_word_clean: "\<not> looks_like_email (scrub_word w)" "\<not> looks_like_token (scrub_word w)"
  by (auto simp: scrub_word_def looks_like_email_def looks_like_token_def)

definition clean :: "string \<Rightarrow> bool" where
  "clean t \<longleftrightarrow> list_all (\<lambda>(w, ws). \<not> looks_like_email w \<and> \<not> looks_like_token w) (split_inclusive [] t)"

lemma redact_clean: "list_all clean (json_strings (redact v))"
proof (induction v rule: json_members_induct)
  case (Obj m)
  show ?case
  proof (rule redact_objectE [of m])
    fix m' assume m': "redact (JObj m) = JObj m'" "set m' \<subseteq> {(k, redact v) | k v. (k, v) \<in> set m \<and> k \<in> set SAFE_KEYS}"
    then show ?thesis using Obj by (fastforce simp: list_all_iff simp del: redact.simps)
  qed
qed (auto simp: list_all_iff clean_def scrub_words scrub_word_clean)

lemma scrub_idem: "scrub_string (scrub_string s) = scrub_string s"
proof -
  have "scrub_word (scrub_word w) = scrub_word w" for w
    using scrub_word_clean by (simp add: scrub_word_def [of "scrub_word w"])
  then show ?thesis
    unfolding scrub_string_def [of "scrub_string s"] scrub_words
    by (simp add: scrub_string_def case_prod_unfold comp_def)
qed

lemma redact_idem: "redact (redact v) = redact v"
proof (induction v rule: json_members_induct)
  case (Obj m)
  show ?case
  proof (rule redact_objectE [of m])
    fix m' assume m': "redact (JObj m) = JObj m'" "ordered_map m'"
      "set m' \<subseteq> {(k, redact v) | k v. (k, v) \<in> set m \<and> k \<in> set SAFE_KEYS}"
    have "k \<in> set SAFE_KEYS \<and> redact v = v" if "(k, v) \<in> set m'" for k v
      using m'(3) that Obj by fastforce
    then have "safe_members m' = m'"
      unfolding safe_members_def by (induction m') auto
    then have "redact (JObj m') = JObj m'"
      using fold_insert_ordered [OF m'(2)] by (simp add: redact_object json_object_def del: redact.simps)
    then show ?thesis by (simp only: m'(1))
  qed
qed (simp_all add: scrub_idem)

lemma safe_members_structural:
  "(\<forall>(k, v)\<in>set m. redact (structural v) = redact v) \<Longrightarrow>
     safe_members (concat (map (\<lambda>(k, v). if k \<in> set SAFE_KEYS then [(k, structural v)] else []) m)) = safe_members m"
  by (induction m) (auto simp: safe_members_def)

lemma redact_structural: "redact (structural v) = redact v"
proof (induction v rule: json_members_induct)
  case (Obj m)
  then have "\<forall>(k, v)\<in>set m. redact (structural v) = redact v" by auto
  from safe_members_structural [OF this] show ?case by (simp add: redact_object del: redact.simps)
qed simp_all

lemma redact_get:
  assumes "ordered_map m"
  shows "json_get (redact (JObj m)) k = (if k \<in> set SAFE_KEYS then map_option redact (map_of m k) else None)"
proof -
  have dist: "distinct (map fst (safe_members m))"
    using ordered_map_distinct [OF assms] unfolding safe_members_def
    by (induction m) (auto simp: case_prod_unfold image_iff)
  then have "map_of (rev (safe_members m)) = map_of (safe_members m)"
    by (metis distinct_rev map_of_inject_set rev_map set_rev)
  moreover have "map_of (safe_members m) k = (if k \<in> set SAFE_KEYS then map_option redact (map_of m k) else None)"
    unfolding safe_members_def by (induction m) auto
  ultimately show ?thesis by (simp add: redact_object json_object_get del: redact.simps)
qed

text \<open>
  C24.  No business data survives redaction.  Every key left in a redacted payload, at any depth, is on
  the list of allowed keys; no word of any text left in it looks like an address or a token; what is
  left does not depend on anything under another key; allowed members are kept, redacted; and
  redacting twice, as a report with buffered events is, changes nothing more.
\<close>

theorem redaction_correct:
  "set (json_keys (redact v)) \<subseteq> set SAFE_KEYS \<and> list_all clean (json_strings (redact v)) \<and>
   (structural v = structural v' \<longrightarrow> redact v = redact v') \<and> redact (redact v) = redact v \<and>
   (ordered_map m \<longrightarrow>
      json_get (redact (JObj m)) k = (if k \<in> set SAFE_KEYS then map_option redact (map_of m k) else None))"
  using redact_keys redact_clean redact_idem redact_get redact_structural by metis

text \<open>An event with a part number, a machine's status and an address in its message.\<close>

definition sample_event :: "string \<Rightarrow> (string \<times> json) list" where
  "sample_event part = [(''message'', JStr ''ask jane@acme.com''), (''part_no'', JStr part), (''status'', JNum 5)]"

theorem redaction_correct_witness:
  "redact (JObj (sample_event ''P1'')) = redact (JObj (sample_event ''P2'')) \<and>
   json_get (redact (JObj (sample_event ''P1''))) ''status'' = Some (JNum 5)"
proof -
  have "structural (JObj (sample_event ''P1'')) = structural (JObj (sample_event ''P2''))" "ordered_map (sample_event ''P1'')"
    by (simp_all add: sample_event_def SAFE_KEYS_def ordered_map_def)
  then have "redact (JObj (sample_event ''P1'')) = redact (JObj (sample_event ''P2''))"
    "json_get (redact (JObj (sample_event ''P1''))) ''status'' =
       (if ''status'' \<in> set SAFE_KEYS then map_option redact (map_of (sample_event ''P1'') ''status'') else None)"
    using redaction_correct [of "JObj (sample_event ''P1'')" "JObj (sample_event ''P2'')" "sample_event ''P1''" "''status''"]
    by blast+
  then show ?thesis by (simp add: sample_event_def SAFE_KEYS_def)
qed

section \<open>Recent events\<close>

text \<open>
  The contract of a ring that keeps the most recent entries: at most \<open>cap\<close> of them, oldest first, each
  prepared when it is stored.
\<close>

locale recent_ring =
  fixes push :: "'a \<Rightarrow> 'b \<Rightarrow> 'b" and contents :: "'b \<Rightarrow> 'c list" and cap :: nat and prepare :: "'a \<Rightarrow> 'c"
    and ring :: "'b \<Rightarrow> bool"
  assumes ring_push: "ring b \<Longrightarrow> ring (push x b)"
    and contents_push: "ring b \<Longrightarrow> contents (push x b) = drop (Suc (length (contents b)) - cap) (contents b @ [prepare x])"
    and ring_bound: "ring b \<Longrightarrow> length (contents b) \<le> cap"
begin

lemma contents_fold:
  "ring b \<Longrightarrow> contents (fold push xs b) = drop (length (contents b) + length xs - cap) (contents b @ map prepare xs)"
proof (induction xs arbitrary: b)
  case Nil
  then show ?case using ring_bound by simp
next
  case (Cons x xs)
  let ?n = "length (contents b)"
  have "contents (fold push (x # xs) b) =
      drop (length (contents (push x b)) + length xs - cap) (contents (push x b) @ map prepare xs)"
    using Cons ring_push by simp
  also have "\<dots> = drop (?n + length (x # xs) - cap) (contents b @ map prepare (x # xs))"
    using ring_bound [OF Cons.prems] by (cases "?n = cap") (auto simp: contents_push [OF Cons.prems] drop_Cons' Suc_diff_le)
  finally show ?case .
qed

end

interpretation events: recent_ring push_event snapshot cap redact
  "\<lambda>b. bf_cap b = cap \<and> 0 < cap \<and> length (bf_events b) \<le> cap" for cap
  by unfold_locales (auto simp: push_event_def snapshot_def Let_def drop_Suc Suc_diff_le)

text \<open>
  The buffer holds the latest events, redacted.  After any sequence of events the snapshot is
  exactly the redacted form of the most recent ones, oldest first, as many as the capacity allows;
  a capacity of zero counts as one.
\<close>

theorem buffer_recent:
  "snapshot (fold push_event es (new_buffer cap)) = drop (length es - max cap 1) (map redact es)"
  using events.contents_fold [of "new_buffer cap" "max cap 1" es] by (simp add: new_buffer_def snapshot_def)

section \<open>Sending\<close>

text \<open>
  C23.  Only redacted data leaves, and only on request.  While shipping is switched off, a send reaches no
  network; a caller without the right role reaches none either.  When it is on, exactly one issue is
  posted to the configured repository, whatever the network answers, and two payloads
  that agree outside business data cause the same request, outcome and state.
\<close>

theorem send_leaks_nothing:
  "(\<not> sc_enabled cfg \<longrightarrow> send_diagnostics pretty (github_ship net cfg) cfg p s = (Inr Skipped, s)) \<and>
   (sc_enabled cfg \<longrightarrow> (\<exists>issue. sent (snd (send_diagnostics pretty (github_ship net cfg) cfg p s)) =
      sent s @ [(''https://api.github.com/repos/'' @ sc_repo cfg @ ''/issues'', sc_token cfg, issue)])) \<and>
   (structural p = structural p' \<longrightarrow>
      send_diagnostics pretty (github_ship net cfg) cfg p s = send_diagnostics pretty (github_ship net cfg) cfg p' s) \<and>
   (\<not> can_write_master (role u) \<or> env ''MES_DIAG_ENABLED'' \<noteq> Some ''true'' \<longrightarrow>
      snd (send_handler pretty net env version u note s) = s)"
proof (intro conjI impI)
  assume "\<not> sc_enabled cfg"
  then show "send_diagnostics pretty (github_ship net cfg) cfg p s = (Inr Skipped, s)"
    by (simp add: send_diagnostics_def prog_simps)
next
  assume "sc_enabled cfg"
  then show "\<exists>issue. sent (snd (send_diagnostics pretty (github_ship net cfg) cfg p s)) =
      sent s @ [(''https://api.github.com/repos/'' @ sc_repo cfg @ ''/issues'', sc_token cfg, issue)]"
    by (simp add: send_diagnostics_def github_ship_def Let_def prog_simps split: sum.split prod.split)
next
  assume "structural p = structural p'"
  then have "redact p = redact p'" by (metis redact_structural)
  then show "send_diagnostics pretty (github_ship net cfg) cfg p s = send_diagnostics pretty (github_ship net cfg) cfg p' s"
    by (simp add: send_diagnostics_def)
next
  assume "\<not> can_write_master (role u) \<or> env ''MES_DIAG_ENABLED'' \<noteq> Some ''true''"
  then show "snd (send_handler pretty net env version u note s) = s"
    by (auto simp: send_handler_def send_diagnostics_def config_from_env_def Let_def prog_simps split: sum.split)
qed

theorem send_leaks_nothing_witness:
  "let cfg = \<lparr>sc_enabled = True, sc_repo = ''acme/diag'', sc_token = ''t''\<rparr>;
       send = (\<lambda>part. send_diagnostics (\<lambda>_. None) (github_ship (\<lambda>_ _ _. Inr (''201'', True)) cfg) cfg
                 (JObj (sample_event part)) \<lparr>sent = []\<rparr>)
   in send ''P1'' = send ''P2''"
proof -
  let ?cfg = "\<lparr>sc_enabled = True, sc_repo = ''acme/diag'', sc_token = ''t''\<rparr>"
  have "structural (JObj (sample_event ''P1'')) = structural (JObj (sample_event ''P2''))"
    by (simp add: sample_event_def SAFE_KEYS_def)
  with send_leaks_nothing [of ?cfg "\<lambda>_. None" "\<lambda>_ _ _. Inr (''201'', True)" "JObj (sample_event ''P1'')" "\<lparr>sent = []\<rparr>"
      "JObj (sample_event ''P2'')" "\<lparr>user_id = ''U'', role = ''Operator''\<rparr>" "\<lambda>_. None" "[]" None]
  show ?thesis by (simp add: Let_def del: structural.simps)
qed

end
