(* ===== verification/Plan.thy ===== *)
theory Plan
  imports Exec
begin

text \<open>
  The production plan, an abstract specification of the shop floor: orders with a status, operations
  with their order, their status and their totals, and the five things that can happen to them.
  Every run of the handlers of \<^verbatim>\<open>mes-edge/src/orders.rs\<close>, \<^verbatim>\<open>exec.rs\<close>, \<^verbatim>\<open>ingest.rs\<close> and
  \<^verbatim>\<open>dnc.rs\<close> is a run of the plan.
\<close>

section \<open>The plan\<close>

record plan_op =
  po_order :: string
  po_status :: op_status
  po_good :: int
  po_scrap :: int

record plan =
  p_orders :: "string \<rightharpoonup> wo_status"
  p_ops :: "string \<rightharpoonup> plan_op"

definition fresh_op :: "string \<Rightarrow> plan_op" where
  "fresh_op i = \<lparr>po_order = i, po_status = OpPending, po_good = 0, po_scrap = 0\<rparr>"

inductive plan_step :: "plan \<Rightarrow> plan \<Rightarrow> bool" where
  plan_order: "p_orders p i = None \<Longrightarrow> (\<And>k. k \<in> ks \<Longrightarrow> p_ops p k = None) \<Longrightarrow>
    plan_step p (p\<lparr>p_orders := (p_orders p)(i \<mapsto> WoDraft),
      p_ops := \<lambda>k. if k \<in> ks then Some (fresh_op i) else p_ops p k\<rparr>)"
| move_order: "p_orders p i = Some y \<Longrightarrow> wo_can_transition y x \<Longrightarrow>
    plan_step p (p\<lparr>p_orders := (p_orders p)(i \<mapsto> x)\<rparr>)"
| move_op: "p_ops p k = Some q \<Longrightarrow> op_can_transition (po_status q) x \<Longrightarrow>
    plan_step p (p\<lparr>p_ops := (p_ops p)(k \<mapsto> q\<lparr>po_status := x\<rparr>)\<rparr>)"
| book: "p_ops p k = Some q \<Longrightarrow> 0 \<le> g \<Longrightarrow> 0 \<le> sc \<Longrightarrow>
    plan_step p (p\<lparr>p_ops := (p_ops p)(k \<mapsto> q\<lparr>po_good := po_good q + g, po_scrap := po_scrap q + sc\<rparr>)\<rparr>)"

text \<open>What the stored tables stand for.\<close>

definition plan_op_of :: "wo_operation_row \<Rightarrow> plan_op option" where
  "plan_op_of r = map_option (\<lambda>st. \<lparr>po_order = op_work_order_id r, po_status = st,
     po_good = op_qty_good r, po_scrap = op_qty_scrap r\<rparr>) (op_parse (op_st r))"

definition plan_of :: "'s orders_db_scheme \<Rightarrow> plan" where
  "plan_of s = \<lparr>p_orders = \<lambda>i. Option.bind (wo_status_of s i) wo_parse,
     p_ops = \<lambda>k. Option.bind (find_row op_id k (t_wo_operations s)) plan_op_of\<rparr>"

section \<open>Refinement\<close>

text \<open>
  A forward simulation: under an invariant of the concrete system each of its steps is a number of
  steps of the abstract one.  What the abstract steps keep, and what relates their end points, then
  holds of the abstraction of every concrete run.
\<close>

locale simulation =
  fixes inv :: "'c \<Rightarrow> bool" and cstep :: "'c \<Rightarrow> 'c \<Rightarrow> bool"
    and abstr :: "'c \<Rightarrow> 'a" and astep :: "'a \<Rightarrow> 'a \<Rightarrow> bool"
  assumes inv_step: "inv s \<Longrightarrow> cstep s s' \<Longrightarrow> inv s'"
    and step_refines: "inv s \<Longrightarrow> cstep s s' \<Longrightarrow> astep\<^sup>*\<^sup>* (abstr s) (abstr s')"
begin

lemma run_inv: "cstep\<^sup>*\<^sup>* s s' \<Longrightarrow> inv s \<Longrightarrow> inv s'"
  by (induction rule: rtranclp_induct) (auto intro: inv_step)

lemma run_refines: "cstep\<^sup>*\<^sup>* s s' \<Longrightarrow> inv s \<Longrightarrow> astep\<^sup>*\<^sup>* (abstr s) (abstr s')"
proof (induction rule: rtranclp_induct)
  case (step t u)
  then show ?case by (meson run_inv rtranclp_trans step_refines)
qed simp

lemma run_related:
  assumes "cstep\<^sup>*\<^sup>* s s'" "inv s" "reflp R" "transp R" "\<And>p p'. astep p p' \<Longrightarrow> R p p'"
  shows "R (abstr s) (abstr s')"
  using run_refines [OF assms(1,2)]
  by (induction rule: rtranclp_induct) (auto intro: reflpD [OF assms(3)] transpD [OF assms(4)] assms(5))

end

lemma bind_map_option: "Option.bind (map_option f x) g = Option.bind x (g \<circ> f)"
  by (cases x) simp_all

lemma plan_of_cong:
  "t_work_orders s' = t_work_orders s \<Longrightarrow> t_wo_operations s' = t_wo_operations s \<Longrightarrow> plan_of s' = plan_of s"
  by (simp add: plan_of_def wo_status_of_def)

lemma about_plan: "about_orders (\<lambda>s. plan_step\<^sup>*\<^sup>* A (plan_of s))"
  unfolding about_orders_def by (metis plan_of_cong)

lemma plan_new_operations:
  "Option.bind (find_row op_id k (new_operations ids now i)) plan_op_of =
     (if k \<in> op_id ` set (new_operations ids now i) then Some (fresh_op (ids 0)) else None)"
proof -
  have "r \<in> set (new_operations ids now i) \<Longrightarrow> plan_op_of r = Some (fresh_op (ids 0))" for r
    by (auto simp: new_operations_def new_operation_def plan_op_of_def fresh_op_def op_parse_def)
  then show ?thesis
    using find_row_None_iff [of op_id k "new_operations ids now i"]
    by (cases "find_row op_id k (new_operations ids now i)") (auto simp: has_key_def dest: find_row_SomeD)
qed

lemma plan_create:
  assumes "create_work_order w ids now i s = (Inr (wo, ops), s')" "orders_inv s"
  shows "plan_step (plan_of s) (plan_of s')"
proof -
  have eff: "wo = new_work_order (ids 0) now i"
    "ops = new_operations ids now i" "\<not> has_key wo_id (ids 0) (t_work_orders s)"
    "t_work_orders s' = t_work_orders s @ [wo]" "t_wo_operations s' = t_wo_operations s @ ops"
    by (rule create_work_order_effect [OF assms(1)], simp)+
  have "orders_inv s'" using preserves_runD [OF preserves_inv_create_work_order assms(2,1)] .
  then have new: "find_row op_id k (t_wo_operations s) = None" if "k \<in> op_id ` set ops" for k
    using that unfolding find_row_None_iff by (force simp: orders_inv_def has_key_def eff(5))
  have "wo_status_of s (ids 0) = None" using eff(3) by (simp add: wo_status_of_def find_row_None_iff)
  then have "plan_of s' = (plan_of s)\<lparr>p_orders := (p_orders (plan_of s))(ids 0 \<mapsto> WoDraft),
      p_ops := \<lambda>k. if k \<in> op_id ` set ops then Some (fresh_op (ids 0)) else p_ops (plan_of s) k\<rparr>"
    using plan_new_operations [of _ ids now i] new
    by (auto simp: plan_of_def wo_status_of_def eff find_row_append table_simps new_work_order_def wo_parse_def fun_eq_iff
        split: option.split)
  moreover have "p_orders (plan_of s) (ids 0) = None"
    by (simp add: plan_of_def \<open>wo_status_of s (ids 0) = None\<close>)
  ultimately show ?thesis using plan_order [of "plan_of s" "ids 0" "op_id ` set ops"] new by (simp add: plan_of_def)
qed

text \<open>The statements that write the tables of the plan.\<close>

lemma plan_create_keeps:
  "preserves (\<lambda>s. orders_inv s \<and> plan_step\<^sup>*\<^sup>* A (plan_of s)) (create_work_order w ids now input)"
proof (rule preservesI)
  fix s assume I: "orders_inv s \<and> plan_step\<^sup>*\<^sup>* A (plan_of s)"
  obtain r s' where run: "create_work_order w ids now input s = (r, s')" by fastforce
  have "plan_step\<^sup>*\<^sup>* A (plan_of s')"
  proof (cases r)
    case (Inl e)
    with run have "s' = s" by (simp add: create_work_order_def transaction_error_state)
    with I show ?thesis by simp
  next
    case (Inr d)
    with run have "plan_step (plan_of s) (plan_of s')" by (cases d) (auto intro: plan_create [OF _ conjunct1 [OF I]])
    with I show ?thesis by (meson rtranclp.rtrancl_into_rtrancl)
  qed
  moreover have "orders_inv s'" using preserves_runD [OF preserves_inv_create_work_order _ run] I by blast
  ultimately show "orders_inv (snd (create_work_order w ids now input s)) \<and>
      plan_step\<^sup>*\<^sup>* A (plan_of (snd (create_work_order w ids now input s)))"
    by (simp add: run)
qed

lemma transition_wo_operations: "t_wo_operations (snd (transition_wo nid now actor i x s)) = t_wo_operations s"
  by (simp add: transition_wo_def prog_simps split: option.split)

lemma plan_transition: "plan_step\<^sup>=\<^sup>= (plan_of s) (plan_of (snd (transition_wo nid now actor i x s)))"
proof -
  obtain r s' where run: "transition_wo nid now actor i x s = (r, s')" by fastforce
  have ops: "t_wo_operations s' = t_wo_operations s"
    using transition_wo_operations [where nid = nid and now = now and actor = actor and i = i and x = x and s = s] by (simp add: run)
  show ?thesis
  proof (cases r)
    case (Inl e)
    then show ?thesis
      using transition_wo_run [where nid = nid and now = now and actor = actor and i = i and x = x and s = s] by (simp add: run)
  next
    case (Inr wo)
    then obtain y where y: "wo_status_of s i = Some (wo_as_str y)" "wo_can_transition y x"
      "\<And>j. wo_status_of s' j = (if j = i then Some (wo_as_str x) else wo_status_of s j)"
      using transition_wo_run [where nid = nid and now = now and actor = actor and i = i and x = x and s = s] by (auto simp: run)
    have "plan_of s' = (plan_of s)\<lparr>p_orders := (p_orders (plan_of s))(i \<mapsto> x)\<rparr>"
      by (auto simp: plan_of_def y(3) ops wo.parse_as_str fun_eq_iff)
    moreover have "p_orders (plan_of s) i = Some y" by (simp add: plan_of_def y(1) wo.parse_as_str)
    ultimately show ?thesis using move_order y(2) by (simp add: run)
  qed
qed

lemma plan_update_operation:
  assumes "row_update op_id upd"
  shows "plan_of (s\<lparr>t_wo_operations := update_where (\<lambda>r. op_id r = i) upd (t_wo_operations s)\<rparr>) =
    (plan_of s)\<lparr>p_ops := (p_ops (plan_of s))(i := Option.bind (find_row op_id i (t_wo_operations s)) (plan_op_of \<circ> upd))\<rparr>"
  by (auto simp: plan_of_def wo_status_of_def row_update.find_update_key [OF assms] fun_eq_iff
      bind_map_option split: option.split)

lemma plan_op_moved:
  assumes "find_row op_id i (t_wo_operations s) = Some r" "op_st r = op_as_str a" "op_can_transition a b"
    and "row_update op_id upd" "plan_op_of (upd r) = map_option (\<lambda>q. q\<lparr>po_status := b\<rparr>) (plan_op_of r)"
  shows "plan_step (plan_of s)
    (plan_of (s\<lparr>t_wo_operations := update_where (\<lambda>r. op_id r = i) upd (t_wo_operations s)\<rparr>))"
proof -
  obtain q where q: "plan_op_of r = Some q" "po_status q = a"
    using assms(2) by (simp add: plan_op_of_def op.parse_as_str)
  then have "p_ops (plan_of s) i = Some q" by (simp add: plan_of_def assms(1))
  with move_op [of "plan_of s" i q b] q assms(3) show ?thesis
    by (simp add: plan_update_operation [OF assms(4)] assms(1,5))
qed

lemma plan_counted:
  assumes "0 \<le> g" "0 \<le> sc"
  shows "plan_step\<^sup>=\<^sup>= (plan_of s)
    (plan_of (s\<lparr>t_wo_operations := update_where (\<lambda>r. op_id r = i) (op_add_counts g sc now) (t_wo_operations s)\<rparr>))"
proof (cases "p_ops (plan_of s) i")
  case None
  then have "Option.bind (find_row op_id i (t_wo_operations s)) (plan_op_of \<circ> op_add_counts g sc now) = None"
    by (auto simp: plan_of_def plan_op_of_def op_add_counts_def bind_eq_None_conv)
  with None have "plan_of (s\<lparr>t_wo_operations := update_where (\<lambda>r. op_id r = i) (op_add_counts g sc now) (t_wo_operations s)\<rparr>) =
      plan_of s"
    by (simp add: plan_update_operation [OF op_add_counts.row_update_axioms] fun_upd_idem)
  then show ?thesis by simp
next
  case (Some q)
  then have "Option.bind (find_row op_id i (t_wo_operations s)) (plan_op_of \<circ> op_add_counts g sc now) =
      Some (q\<lparr>po_good := po_good q + g, po_scrap := po_scrap q + sc\<rparr>)"
    by (auto simp: plan_of_def plan_op_of_def op_add_counts_def bind_eq_Some_conv)
  with book [OF Some assms] show ?thesis
    by (simp add: plan_update_operation [OF op_add_counts.row_update_axioms])
qed

lemma reflcl_extends: "r\<^sup>*\<^sup>* a b \<Longrightarrow> r\<^sup>=\<^sup>= b c \<Longrightarrow> r\<^sup>*\<^sup>* a c"
  by (auto intro: rtranclp.rtrancl_into_rtrancl)

lemma plan_count_keeps:
  assumes "0 \<le> good" "0 \<le> scrap"
  shows "preserves (\<lambda>s. orders_inv s \<and> plan_step\<^sup>*\<^sup>* A (plan_of s)) (record_count nid now i wc good scrap reason ts)"
proof -
  have "preserves (\<lambda>s. plan_step\<^sup>*\<^sup>* A (plan_of s)) (record_count nid now i wc good scrap reason ts)"
    unfolding record_count_def insert_production_count_row_def update_operation_def
    by (intro preserves_rules preserves_sql_exec preserves_sql_update)
      (auto intro: reflcl_extends [OF _ plan_counted [OF assms]] elim: about_ordersD [OF about_plan, rotated 2])
  moreover have "preserves orders_inv (record_count nid now i wc good scrap reason ts)" by (rule preserves_rules)
  ultimately show ?thesis by (auto simp: preserves_def)
qed

interpretation plan_kept: floor_predicate "\<lambda>s. orders_inv s \<and> plan_step\<^sup>*\<^sup>* A (plan_of s)" for A
proof (unfold_locales, goal_cases)
  case (1 s' s)
  then show ?case using orders_inv_cong [of s' s] by (simp add: plan_of_cong [of s' s])
next
  case (2 w ids now input)
  show ?case by (rule plan_create_keeps)
next
  case (3 nid now actor i x)
  have "preserves orders_inv (transition_wo nid now actor i x)" by (rule preserves_rules)
  then show ?case by (auto simp: preserves_def intro: reflcl_extends [OF _ plan_transition])
next
  case (4 s i r wc good scrap nid now reason ts)
  then show ?case by (intro preservesD [OF plan_count_keeps])
next
  case (5 ids u sigs)
  have "preserves orders_inv (ingest_signals ids u sigs)" by (rule preserves_rules)
  with about_ingest [OF about_plan [of A], of ids u sigs] show ?case by (auto simp: preserves_def)
next
  case (6 s i r now)
  have "plan_op_of (op_start now r) = map_option (\<lambda>q. q\<lparr>po_status := OpInProgress\<rparr>) (plan_op_of r)"
    using 6(3) by (simp add: plan_op_of_def op_start_def op_parse_def op_as_str_def)
  from plan_op_moved [OF 6(2,3) _ op_start.row_update_axioms this] ledger.start_keeps [OF _ 6(2,3), of now] 6(1)
  show ?case by (auto simp: op_can_transition_def intro: rtranclp.rtrancl_into_rtrancl)
next
  case (7 s i r now)
  have "plan_op_of (op_complete now r) = map_option (\<lambda>q. q\<lparr>po_status := OpCompleted\<rparr>) (plan_op_of r)"
    using 7(3) by (simp add: plan_op_of_def op_complete_def op_parse_def op_as_str_def)
  from plan_op_moved [OF 7(2,3) _ op_complete.row_update_axioms this] ledger.complete_keeps [OF _ 7(2,3), of now] 7(1)
  show ?case by (auto simp: op_can_transition_def intro: rtranclp.rtrancl_into_rtrancl)
qed

interpretation floor_sim: simulation orders_inv floor_step plan_of plan_step
proof
  fix s s' :: "'a dnc_db_scheme" assume "orders_inv s" "floor_step s s'"
  then show "orders_inv s'" "plan_step\<^sup>*\<^sup>* (plan_of s) (plan_of s')"
    using plan_kept.step_keeps [of s s' "plan_of s"] by auto
qed

section \<open>What a plan promises\<close>

text \<open>
  Between any two points of a run: an order stays and moves on along its transition table; an
  operation stays, with the same order, moves on along its own, and its totals do not
  shrink.
\<close>

definition advances :: "plan \<Rightarrow> plan \<Rightarrow> bool" where
  "advances p p' \<longleftrightarrow>
     (\<forall>i y. p_orders p i = Some y \<longrightarrow> (\<exists>z. p_orders p' i = Some z \<and> wo_can_transition\<^sup>*\<^sup>* y z)) \<and>
     (\<forall>k q. p_ops p k = Some q \<longrightarrow> (\<exists>q'. p_ops p' k = Some q' \<and> po_order q' = po_order q \<and>
        op_can_transition\<^sup>*\<^sup>* (po_status q) (po_status q') \<and> po_good q \<le> po_good q' \<and> po_scrap q \<le> po_scrap q'))"

lemma advances_refl: "reflp advances"
  by (rule reflpI) (auto simp: advances_def)

lemma advances_trans: "transp advances"
  by (rule transpI) (fastforce simp: advances_def intro: rtranclp_trans order_trans)

lemma plan_step_advances: "plan_step p p' \<Longrightarrow> advances p p'"
  by (induction rule: plan_step.induct) (auto simp: advances_def)

text \<open>Every operation of the plan belongs to an order of the plan, and no total is negative.\<close>

definition plan_ok :: "plan \<Rightarrow> bool" where
  "plan_ok p \<longleftrightarrow> (\<forall>k q. p_ops p k = Some q \<longrightarrow>
     p_orders p (po_order q) \<noteq> None \<and> 0 \<le> po_good q \<and> 0 \<le> po_scrap q)"

lemma plan_step_ok: "plan_step p p' \<Longrightarrow> plan_ok p \<Longrightarrow> plan_ok p'"
  by (induction rule: plan_step.induct) (auto simp: plan_ok_def fresh_op_def)

text \<open>
  The handlers implement the plan.  Any run of shop-floor requests from consistent books, with
  any arguments, successful or not, is a run of the abstract plan: orders appear as drafts together
  with all their operations, pending and empty; statuses move along the transition tables;
  totals grow by what is booked; and nothing else happens to them.  Hence orders and operations
  only advance, an operation never changes its order and no total shrinks, and the plan stays
  well-formed.
\<close>

theorem floor_refines_plan:
  assumes "floor_run s s'" "orders_inv s"
  shows "plan_step\<^sup>*\<^sup>* (plan_of s) (plan_of s') \<and> advances (plan_of s) (plan_of s') \<and>
    (plan_ok (plan_of s) \<longrightarrow> plan_ok (plan_of s'))"
proof (intro conjI)
  show "plan_step\<^sup>*\<^sup>* (plan_of s) (plan_of s')" by (rule floor_sim.run_refines [OF assms])
  show "advances (plan_of s) (plan_of s')"
    by (rule floor_sim.run_related [OF assms advances_refl advances_trans plan_step_advances])
  show "plan_ok (plan_of s) \<longrightarrow> plan_ok (plan_of s')"
    by (rule floor_sim.run_related [OF assms, of "\<lambda>p p'. plan_ok p \<longrightarrow> plan_ok p'"])
      (auto intro!: reflpI transpI dest: plan_step_ok)
qed

theorem floor_refines_plan_witness:
  "plan_ok (plan_of sample_dnc) \<and>
   plan_step\<^sup>*\<^sup>* (plan_of sample_dnc) (plan_of (snd (start_op (\<lambda>n. ''A'') 5 floor_user ''O1'' sample_dnc))) \<and>
   plan_ok (plan_of (snd (start_op (\<lambda>n. ''A'') 5 floor_user ''O1'' sample_dnc))) \<and>
   map_option po_status (p_ops (plan_of sample_dnc) ''O1'') = Some OpPending \<and>
   map_option po_status (p_ops (plan_of (snd (start_op (\<lambda>n. ''A'') 5 floor_user ''O1'' sample_dnc))) ''O1'') = Some OpInProgress"
proof -
  have run: "floor_run sample_dnc (snd (start_op (\<lambda>n. ''A'') 5 floor_user ''O1'' sample_dnc))"
    by (rule r_into_rtranclp) (rule floor_step.start)
  have ok: "plan_ok (plan_of sample_dnc)"
    by (auto simp: plan_ok_def plan_of_def plan_op_of_def wo_status_of_def sample_dnc_defs table_simps
        op_parse_def wo_parse_def split: if_splits)
  have "map_option po_status (p_ops (plan_of sample_dnc) ''O1'') = Some OpPending"
    by (simp add: plan_of_def plan_op_of_def sample_dnc_defs table_simps op_parse_def)
  moreover have "map_option po_status (p_ops (plan_of (snd (start_op (\<lambda>n. ''A'') 5 floor_user ''O1'' sample_dnc))) ''O1'') =
      Some OpInProgress"
    by (simp add: plan_of_def plan_op_of_def start_op_def parse_op_status_def start_operation_def update_operation_def
        prog_simps op_parse_def op_can_transition_def wo_parse_def op_start_def update_where_def sample_dnc_defs table_simps)
  ultimately show ?thesis using floor_refines_plan [OF run sample_dnc_books(1)] ok by blast
qed

end
