(* ===== verification/Edge.thy ===== *)
theory Edge
  imports Plan Erp
begin

text \<open>
  The edge service as a whole: the requests its router (\<^verbatim>\<open>mes-edge/src/http.rs\<close>) serves on one
  database, and what holds over any run of them.
\<close>

section \<open>The service\<close>

text \<open>
  One request to the router, with any arguments and whether it succeeds or not, each group as the
  router nests it.  Requests that only read, the probes and the diagnostics route leave the
  database as it is.  A step carries the label of the release of held material it asks for, if any.
\<close>

inductive edge_step :: "quality_label \<Rightarrow> 's master_db_scheme \<Rightarrow> 's master_db_scheme \<Rightarrow> bool" where
  edge_read: "edge_step Neutral s s"
| edge_login: "edge_step Neutral s (snd (login c cfg nid now name pw s))"
| edge_pin: "edge_step Neutral s (snd (pin_login c cfg nid now name_opt pin badge s))"
| edge_master: "master_step s s' \<Longrightarrow> edge_step Neutral s s'"
| edge_floor: "floor_step s s' \<Longrightarrow> edge_step Neutral s s'"
| edge_daemon: "edge_step Neutral s (snd (inject_daemon_event nid now u ev s))"
| edge_quality: "quality_step l s s' \<Longrightarrow> edge_step l s s'"
| edge_cmms: "cmms_step s s' \<Longrightarrow> edge_step Neutral s s'"
| edge_connect: "edge_step Neutral s (snd (create_connection_handler e nid aid now u input s))"
| edge_reconnect: "edge_step Neutral s (snd (update_connection_handler e aid now u i input s))"
| edge_disconnect: "edge_step Neutral s (snd (delete_connection_handler aid now u i s))"
| edge_import: "edge_step Neutral s (snd (import_handler w debug idss lid aid now u i entity records s))"
| edge_export: "edge_step Neutral s (snd (export_handler w collate e lid aid now u i entity s))"

inductive edge_run :: "quality_label list \<Rightarrow> 's master_db_scheme \<Rightarrow> 's master_db_scheme \<Rightarrow> bool" where
  edge_nil: "edge_run [] s s"
| edge_cons: "edge_step l s s' \<Longrightarrow> edge_run ls s' s'' \<Longrightarrow> edge_run (l # ls) s s''"

text \<open>
  What a predicate must promise to hold throughout: the groups of requests keep it, those with
  labels that are not allowed apart, and so do the statements of the planning-system routes.
\<close>

locale edge_predicate =
  fixes allowed :: "quality_label \<Rightarrow> bool" and I :: "'s master_db_scheme \<Rightarrow> bool"
  assumes log_keeps: "I s \<Longrightarrow> I (audit nid now actor action entity key detail s)"
    and floor_keeps: "floor_step s s' \<Longrightarrow> I s \<Longrightarrow> I s'"
    and quality_keeps: "quality_step l s s' \<Longrightarrow> allowed l \<Longrightarrow> I s \<Longrightarrow> I s'"
    and cmms_keeps: "cmms_step s s' \<Longrightarrow> I s \<Longrightarrow> I s'"
    and master_keeps: "master_step s s' \<Longrightarrow> I s \<Longrightarrow> I s'"
    and connection_keeps:
      "preserves I (create_connection nid now st nm url tok fm dir en)"
      "preserves I (update_connection now i st nm url tok fm dir en)"
      "preserves I (delete_connection i)"
      "preserves I (insert_sync_log nid now i dir nm records status details)"
    and order_keeps: "preserves I (create_work_order w ids now wi)"
    and sent_keeps: "preserves I (mark_procurement_sent now is ref)"
begin

lemma keeps_log: "preserves I (modify (audit n t a b c d e))"
  by (rule preserves_modify) (rule log_keeps)

lemma keeps_finish_login: "preserves I (finish_login c cfg nid now u m)"
  unfolding finish_login_def
  by (auto intro!: preserves_rules preserves_modify log_keeps split: sum.split)

lemma keeps_logins:
  "preserves I (login c cfg nid now name pw)"
  "preserves I (pin_login c cfg nid now name_opt pin badge)"
  unfolding login_def pin_login_def find_auth_by_username_def find_auth_by_badge_def
  by (auto intro!: preserves_rules keeps_finish_login split: option.split)

lemma keeps_tokens: "preserves I (normalize_direction d)" "preserves I (encrypt_token e p)" "preserves I (decrypt_token e q)"
  unfolding normalize_direction_def encrypt_token_def decrypt_token_def Let_def
  by (auto intro: preserves_rules split: option.split sum.split)

lemma keeps_connections:
  "preserves I (create_connection_handler e nid aid now u input)"
  "preserves I (update_connection_handler e aid now u i input)"
  "preserves I (delete_connection_handler aid now u i)"
  unfolding create_connection_handler_def update_connection_handler_def delete_connection_handler_def
  by (intro preserves_rules keeps_tokens connection_keeps keeps_log)+

lemma keeps_failed: "preserves I m \<Longrightarrow> preserves I (\<lambda>s. (r, snd (m s)))"
  by (simp add: preserves_def)

lemma keeps_import_orders: "preserves I (import_work_orders w debug idss now fm records)"
  unfolding import_work_orders_def import_record_def Let_def
  by (auto intro!: preserves_rules order_keeps)

lemma keeps_import: "preserves I (import_handler w debug idss lid aid now u i entity records)"
proof -
  have finish: "preserves I (finish_import lid aid now actor i entity result)" for actor result
    unfolding finish_import_def
    by (auto intro!: preserves_rules connection_keeps keeps_log keeps_failed split: sum.split)
  have "preserves I (\<lambda>s. let (result, s') = import_work_orders w debug idss now fm records s in
      finish_import lid aid now actor i entity result s')" for fm actor
    using preservesD [OF keeps_import_orders] preservesD [OF finish]
    by (auto intro!: preservesI split: prod.split) (metis snd_conv)
  then show ?thesis
    unfolding import_handler_def get_connection_secret_def
    by (auto intro!: preserves_rules split: sum.split)
qed

lemma keeps_export: "preserves I (export_handler w collate e lid aid now u i entity)"
proof -
  have "preserves I (finish_export lid aid now actor i entity payload pids pushed)" for actor payload pids pushed
    unfolding finish_export_def
    by (auto intro!: preserves_rules connection_keeps sent_keeps keeps_log keeps_failed split: sum.split)
  moreover have "preserves I (export_records w collate entity)"
    unfolding export_records_def list_spare_parts_def list_procurement_requests_def Let_def
    by (intro preserves_rules)
  ultimately show ?thesis
    unfolding export_handler_def get_connection_secret_def Let_def
    by (auto intro!: preserves_rules keeps_tokens split: sum.split prod.split)
qed

lemma keeps_daemon_route: "preserves I (inject_daemon_event nid now u ev)"
proof -
  have "preserves I (handle_daemon_event nid now ev)"
    by (rule preservesI) (rule floor_keeps [OF floor_step.daemon])
  then show ?thesis unfolding inject_daemon_event_def by (intro preserves_rules)
qed

lemma edge_step_keeps: "edge_step l s s' \<Longrightarrow> allowed l \<Longrightarrow> I s \<Longrightarrow> I s'"
  by (induction rule: edge_step.induct)
    (auto intro: floor_keeps quality_keeps cmms_keeps master_keeps
      preservesD [OF keeps_logins(1)] preservesD [OF keeps_logins(2)] preservesD [OF keeps_daemon_route]
      preservesD [OF keeps_connections(1)] preservesD [OF keeps_connections(2)] preservesD [OF keeps_connections(3)]
      preservesD [OF keeps_import] preservesD [OF keeps_export])

lemma edge_run_keeps: "edge_run ls s s' \<Longrightarrow> \<forall>l\<in>set ls. allowed l \<Longrightarrow> I s \<Longrightarrow> I s'"
  by (induction rule: edge_run.induct) (auto intro: edge_step_keeps)

end

section \<open>What the handlers rely on\<close>

text \<open>
  The contract between the handlers and the repositories of \<^verbatim>\<open>mes-db\<close> for a predicate on the database:
  every repository operation of a component that writes keeps it, as do the audit log and the event
  bus.  Then every request to the component's routes keeps it.
\<close>

locale logged_predicate =
  fixes I :: "'s master_db_scheme \<Rightarrow> bool"
  assumes log: "I s \<Longrightarrow> I (audit nid now actor action entity key detail s)"
    and event: "I s \<Longrightarrow> I (publish ev s)"
begin

lemma keeps_effects:
  "preserves I (modify (audit nid now actor action entity key detail))"
  "preserves I (modify (publish ev))"
  by (rule preserves_modify; erule log event)+

end

locale floor_repo = logged_predicate +
  assumes daemon: "I s \<Longrightarrow> I (s\<lparr>dnc := dm\<rparr>)"
    and order_ops:
      "preserves I (create_work_order w ids now order)"
      "preserves I (set_work_order_status now i (wo_as_str wst))"
      "preserves I (start_operation now i)"
      "preserves I (complete_operation now i)"
      "preserves I (classify_downtime now i code who)"
      "preserves I (split_downtime nid now i ts reason reason2 who)"
    and ingest_ops:
      "preserves I (insert_machine_event nid ts wc src evkind payload)"
      "preserves I (insert_production_count nid ts wc src good scrap)"
      "preserves I (replace_derived ids now wc ts te states stops)"
    and dnc_ops:
      "preserves I (create_transfer nid now reason pid (direction_as_str dir) ref)"
      "preserves I (set_transfer_status now i (transfer_as_str tst))"
      "preserves I (create_draft_revision nid now pid src content who_opt)"
      "preserves I (set_revision_status now i (revision_as_str rst) who)"
    and count_op: "I s \<Longrightarrow> find_row op_id i (t_wo_operations s) = Some r \<Longrightarrow> op_work_center_id r = Some wc \<Longrightarrow>
      0 \<le> good \<Longrightarrow> 0 \<le> scrap \<Longrightarrow> I (snd (record_count nid now i wc good scrap reason ts s))"
begin

lemma keeps_send: "preserves I (send_command net cmd)"
  using daemon by (simp add: preserves_def send_command_def split: prod.split)

lemma keeps_snapshot: "preserves I (modify (publish_oee_snapshot now wc))"
proof (rule preserves_modify)
  fix s assume "I s"
  moreover obtain r s' where "oee_inputs wc (day_start now) now s = (r, s')" by (rule prod.exhaust)
  moreover from this have "s' = s" using oee_inputs_state [of wc "day_start now" now s] by simp
  ultimately show "I (publish_oee_snapshot now wc s)"
    by (auto simp: publish_oee_snapshot_def Let_def intro: event split: sum.split)
qed

lemmas floor_rules = preserves_rules keeps_effects keeps_snapshot keeps_send order_ops ingest_ops dnc_ops

lemma keeps_transition: "preserves I (transition_wo nid now actor i x)"
  unfolding transition_wo_def get_work_order_def by (intro floor_rules)

lemma keeps_orders:
  "preserves I (create_order w ids now u order)"
  "preserves I (release_order nid now u i)"
  "preserves I (cancel_order nid now u i)"
  "preserves I (close_order nid now u i)"
  "preserves I (complete_wo nid now u i)"
  unfolding create_order_def release_order_def cancel_order_def close_order_def complete_wo_def
  by (intro floor_rules keeps_transition)+

lemma keeps_schedule: "preserves I (schedule_transfer net nid now pid ident machine wop)"
  unfolding schedule_transfer_def by (intro floor_rules)

lemma keeps_job_complete: "preserves I (modify (on_job_complete net nid now i))"
  by (rule preserves_modify)
    (auto simp: on_job_complete_def resolve_next_transfer_def gets_def
      intro: preservesD [OF keeps_schedule] split: option.split)

lemma keeps_count: "preserves I (record_count_handler nid now u i c)"
proof (rule preservesI)
  fix s assume "I s"
  define rest :: "string \<Rightarrow> wo_operation_row \<Rightarrow> ('a master_db_scheme, api_err, wo_operation_row) prog"
    where "rest wc updated =
     andThen (modify (publish (CountRecorded i (ci_good c) (ci_scrap c)))) (\<lambda>_.
     andThen (modify (publish_oee_snapshot now wc)) (\<lambda>_. ret updated))" for wc updated
  have rest: "preserves I (rest wc updated)" for wc updated
    unfolding rest_def by (intro floor_rules)
  show "I (snd (record_count_handler nid now u i c s))"
    unfolding record_count_handler_def get_operation_def rest_def [symmetric]
    using \<open>I s\<close> count_op [OF \<open>I s\<close>, of i _ _ "ci_good c" "ci_scrap c"] preservesD [OF rest]
    by (auto simp: prog_simps not_less split: option.split prod.split sum.split) (metis snd_conv)+
qed

lemma keeps_exec:
  "preserves I (start_op ids now u i)"
  "preserves I (complete_op net ids now u i)"
  unfolding start_op_def complete_op_def parse_op_status_def get_operation_def get_work_order_def
  by (intro floor_rules keeps_transition keeps_job_complete)+

lemma keeps_downtime:
  "preserves I (classify_downtime_handler now u i reason)"
  "preserves I (split_downtime_handler nid now u i sp)"
  unfolding classify_downtime_handler_def split_downtime_handler_def publish_classified_def
  by (intro floor_rules; auto intro!: floor_rules preserves_modify event split: option.split)+

lemma keeps_ingest: "preserves I (ingest_signals ids u sigs)" "preserves I (recompute ids now u wc a b)"
proof -
  have "preserves I (ingest_loop ids cache a d sigs)" for cache a d
  proof (induction sigs arbitrary: cache a d)
    case (Cons g sigs)
    then show ?case
      by (auto intro!: floor_rules simp: persist_signal_def lookup_source_def resolve_source_def
          split: option.split signal_event.split)
  qed (auto intro: preserves_rules)
  then show "preserves I (ingest_signals ids u sigs)" unfolding ingest_signals_def by (intro floor_rules)
  show "preserves I (recompute ids now u wc a b)"
    unfolding recompute_def recompute_states_def fetch_cycle_pulses_def fetch_planned_intervals_def Let_def
    by (intro floor_rules)
qed

lemma keeps_transfers:
  "preserves I (manual_transfer net nid now u pid machine wop)"
  "preserves I (retry_transfer net nid now u i)"
  unfolding manual_transfer_def retry_transfer_def get_transfer_def program_dispatch_info_def
  by (intro floor_rules; auto intro!: floor_rules keeps_schedule split: prod.split)+

lemma keeps_revisions:
  "preserves I (promote_revision nid now u i)"
  "preserves I (reject_revision nid now u i)"
  unfolding promote_revision_def reject_revision_def transition_revision_def get_revision_def
  by (intro floor_rules)+

lemma keeps_daemon: "preserves I (handle_daemon_event nid now ev)"
  unfolding handle_daemon_event_def find_open_transfer_by_ref_def find_program_id_by_identifier_def
  by (intro preserves_rules) (auto intro!: floor_rules split: dnc_event.split option.split)

lemmas keeps_floor = keeps_orders keeps_exec keeps_count keeps_downtime keeps_ingest keeps_transfers keeps_daemon keeps_revisions

lemma floor_step_keeps: "floor_step s s' \<Longrightarrow> I s \<Longrightarrow> I s'"
  by (induction rule: floor_step.induct) (erule preservesD [rotated], rule keeps_floor)+

end

locale quality_repo = logged_predicate +
  assumes trace_ops:
      "preserves I (create_lot nid now lot part qty uom)"
      "preserves I (create_serial nid now serial part lot_opt)"
      "preserves I (add_genealogy nid now parent child qty_opt)"
      "preserves I (place_hold nid now etype eid why who)"
      "preserves I (release_hold now i who)"
      "preserves I (issue_material nid now lot_opt serial_opt qty wop who)"
    and qms_ops:
      "preserves I (create_plan nid now part code name)"
      "preserves I (create_characteristic nid plan name uom_opt q1 q2 q3)"
      "preserves I (record_result ids now ch lot_opt serial_opt wop qty who)"
      "preserves I (disposition_ncr now i disp why who)"
begin

lemmas quality_rules = preserves_rules keeps_effects trace_ops qms_ops

lemma keeps_dispositions: "preserves I (disposition_ncr_handler nid now u i t reason)"
  unfolding qms_handler_defs by (intro quality_rules)

lemma keeps_result: "preserves I (record_result_handler ids now u a e f g v)"
  unfolding qms_handler_defs by (intro quality_rules) (auto intro!: quality_rules split: option.split)

lemma quality_step_keeps: "quality_step l s s' \<Longrightarrow> I s \<Longrightarrow> I s'"
proof (induction rule: quality_step.induct)
  case 5
  then show ?case
    by (elim preservesD [rotated]) (simp only: place_hold_handler_def, intro quality_rules)
next
  case 9
  then show ?case by (rule preservesD [OF keeps_result])
next
  case 10
  then show ?case by (rule preservesD [OF keeps_dispositions])
qed (elim preservesD [rotated], simp only: create_lot_handler_def create_serial_handler_def add_genealogy_handler_def
  issue_material_handler_def release_hold_handler_def create_plan_handler_def create_characteristic_handler_def
  require_quality_def, intro quality_rules)+

end

locale cmms_repo = logged_predicate +
  assumes cmms_ops:
      "preserves I (create_pm_schedule ar nid now wc name trigger interval checklist)"
      "preserves I (create_maintenance_wo nid now wc pm wtype notes)"
      "preserves I (transition_maintenance_wo now i nxt tech failure)"
      "preserves I (create_spare_part nid code name uom qty qty2)"
      "preserves I (record_spare_txn ids now i mwo txn qty who)"
      "preserves I (create_procurement_request nid now i qty)"
begin

lemmas cmms_rules = preserves_rules keeps_effects cmms_ops

lemma cmms_step_keeps: "cmms_step s s' \<Longrightarrow> I s \<Longrightarrow> I s'"
  by (induction rule: cmms_step.induct)
    (elim preservesD [rotated], simp only: cmms_handler_defs, intro cmms_rules)+

end

locale master_repo = logged_predicate +
  assumes master_ops:
      "preserves I (create_site nid now code name tz)"
      "preserves I (update_site now i code name tz)"
      "preserves I (delete_site i)"
      "preserves I (create_area nid now st code name)"
      "preserves I (update_area now i code name)"
      "preserves I (delete_area i)"
      "preserves I (create_work_center nid now st code name ext)"
      "preserves I (update_work_center now i code name ext)"
      "preserves I (delete_work_center i)"
      "preserves I (create_part nid now code name uom)"
      "preserves I (update_part now i code name uom)"
      "preserves I (delete_part i)"
      "preserves I (create_program nid now prog)"
      "preserves I (create_user nid now name code uom h1 h2 h3)"
begin

lemmas master_rules = preserves_rules keeps_effects master_ops

lemma master_step_keeps: "master_step s s' \<Longrightarrow> I s \<Longrightarrow> I s'"
  by (induction rule: master_step.induct)
    (elim preservesD [rotated], simp only: master_writers, intro master_rules)+

end

locale erp_repo = logged_predicate +
  assumes import_op: "preserves I (create_work_order w ids now order)"
    and erp_ops:
      "preserves I (create_connection nid now st_opt name url tok fm direction en)"
      "preserves I (update_connection now i st_opt name url tok fm direction en)"
      "preserves I (delete_connection i)"
      "preserves I (insert_sync_log nid now i direction name records status details)"
      "preserves I (mark_procurement_sent now keys ref)"

text \<open>The statements of the repositories, group by group, for proofs that look into them.\<close>

lemmas statement_rules = preserves_rules preserves_choice preserves_sql_exec preserves_sql_exec_by preserves_sql_update
  preserves_sql_delete preserves_modify

lemmas floor_statements = create_work_order_def insert_work_order_def insert_operation_def enqueue_def
  set_work_order_status_def start_operation_def complete_operation_def update_operation_def record_count_def
  insert_production_count_row_def classify_downtime_def split_downtime_def update_downtime_def insert_downtime_def
  get_downtime_event_def insert_machine_event_def insert_production_count_def replace_derived_def insert_machine_state_def
  insert_stop_def create_transfer_def set_transfer_status_def create_draft_revision_def insert_revision_def
  set_revision_status_def Let_def

lemmas quality_statements = create_lot_def create_serial_def add_genealogy_def place_hold_def insert_hold_def release_hold_def
  issue_material_def insert_material_txn_def check_not_held_def is_held_def create_plan_def create_characteristic_def
  record_result_def raise_ncr_def ncr_hold_def insert_result_def insert_ncr_def disposition_ncr_def Let_def

lemmas cmms_statements = create_pm_schedule_def insert_pm_def work_center_run_hours_def create_maintenance_wo_def
  transition_maintenance_wo_def get_maintenance_wo_def create_spare_part_def record_spare_txn_def insert_spare_txn_def
  spare_stock_def raise_reorder_def create_procurement_request_def insert_request_def Let_def

lemmas master_statements = create_site_def update_site_def create_area_def update_area_def create_work_center_def
  update_work_center_def create_part_def update_part_def create_program_def create_user_def Let_def

lemmas deletions = delete_site_def delete_area_def delete_work_center_def delete_part_def drop_site_def drop_areas_def
  drop_work_centers_def drop_part_def

lemmas erp_statements = create_connection_def update_connection_def delete_connection_def insert_sync_log_def
  mark_procurement_sent_def Let_def

text \<open>A predicate that all repositories keep is kept by the service.\<close>

locale repo_predicate = floor_repo + quality_repo + cmms_repo + master_repo + erp_repo

sublocale repo_predicate \<subseteq> served: edge_predicate "\<lambda>_. True" I
  by unfold_locales
    (rule log floor_step_keeps quality_step_keeps cmms_step_keeps master_step_keeps erp_ops import_op; assumption?)+

end
