(* ===== verification/Integrity.thy ===== *)
theory Integrity
  imports Edge
begin

text \<open>
  Referential integrity of the whole edge database under all requests: the foreign keys and the unique keys of the
  schema (\<^verbatim>\<open>mes-db/migrations\<close>) hold in every state the service reaches, the cascading deletions of
  the master-data routes included.
\<close>

section \<open>The foreign keys of records\<close>

text \<open>The references between records that the deletions of master data do not remove.\<close>

definition floor_refs :: "'s master_db_scheme \<Rightarrow> bool" where
  "floor_refs s \<longleftrightarrow>
     fk wo_id (t_work_orders s) (Some \<circ> op_work_order_id) (t_wo_operations s) \<and>
     fk op_id (t_wo_operations s) pc_wo_operation_id (t_production_counts s) \<and>
     fk rs_id (t_scrap_reasons s) pc_scrap_reason_id (t_production_counts s) \<and>
     fk rs_id (t_downtime_reasons s) dt_reason_id (t_downtime_events s) \<and>
     fk us_id (t_users s) dt_classified_by (t_downtime_events s) \<and>
     fk op_id (t_wo_operations s) tf_wo_operation_id (t_transfers s) \<and>
     fk us_id (t_users s) rv_submitted_by (t_revisions s) \<and>
     fk us_id (t_users s) rv_promoted_by (t_revisions s) \<and>
     fk rs_id (t_downtime_reasons s) rs_parent_id (t_downtime_reasons s) \<and>
     fk us_id (t_users s) au_actor_id (t_audit_log s)"

definition quality_refs :: "'s master_db_scheme \<Rightarrow> bool" where
  "quality_refs s \<longleftrightarrow>
     fk lt_id (t_lots s) sn_lot_id (t_serials s) \<and>
     fk lt_id (t_lots s) mt_lot_id (t_material_txns s) \<and>
     fk sn_id (t_serials s) mt_serial_id (t_material_txns s) \<and>
     fk op_id (t_wo_operations s) mt_wo_operation_id (t_material_txns s) \<and>
     fk us_id (t_users s) mt_user_id (t_material_txns s) \<and>
     fk us_id (t_users s) hd_created_by (t_holds s) \<and>
     fk us_id (t_users s) hd_released_by (t_holds s) \<and>
     fk nc_id (t_ncrs s) hd_ncr_id (t_holds s) \<and>
     fk lt_id (t_lots s) ir_lot_id (t_inspection_results s) \<and>
     fk sn_id (t_serials s) ir_serial_id (t_inspection_results s) \<and>
     fk op_id (t_wo_operations s) ir_wo_operation_id (t_inspection_results s) \<and>
     fk us_id (t_users s) ir_inspected_by (t_inspection_results s) \<and>
     fk ir_id (t_inspection_results s) nc_inspection_result_id (t_ncrs s) \<and>
     fk lt_id (t_lots s) nc_lot_id (t_ncrs s) \<and>
     fk sn_id (t_serials s) nc_serial_id (t_ncrs s) \<and>
     fk us_id (t_users s) nc_dispositioned_by (t_ncrs s)"

definition spare_refs :: "'s master_db_scheme \<Rightarrow> bool" where
  "spare_refs s \<longleftrightarrow>
     fk us_id (t_users s) mw_technician_id (t_maintenance_wos s) \<and>
     fk sp_id (t_spare_parts s) (Some \<circ> st_spare_part_id) (t_spare_txns s) \<and>
     fk us_id (t_users s) st_user_id (t_spare_txns s) \<and>
     fk sp_id (t_spare_parts s) (Some \<circ> pr_spare_part_id) (t_procurement_requests s)"

definition integrity :: "'s master_db_scheme \<Rightarrow> bool" where
  "integrity s \<longleftrightarrow> master_inv s \<and> floor_refs s \<and> quality_refs s \<and> spare_refs s"

lemmas integrity_defs = integrity_def inv_defs floor_refs_def quality_refs_def spare_refs_def

lemma fk_filter: "fk key P ref C \<Longrightarrow> fk key P ref (filter Q C)"
  by (auto simp: fk_def)

lemma fk_append: "fk key P ref (C @ [c]) \<longleftrightarrow> fk key P ref C \<and> (\<forall>k. ref c = Some k \<longrightarrow> has_key key k P)"
  by (auto simp: fk_def)

lemma fk_set:
  "fk key P ref C \<Longrightarrow> (\<And>r. r \<in> set C \<Longrightarrow> Q r \<Longrightarrow> ref (upd r) = ref r \<or> (\<forall>k. ref (upd r) = Some k \<longrightarrow> has_key key k P)) \<Longrightarrow>
     fk key P ref (update_where Q upd C)"
  by (fastforce simp: fk_def update_where_def)

lemma fk_detach:
  "fk key P ref C \<Longrightarrow> fk key (filter (\<lambda>p. key p \<noteq> i) P) ref (filter (\<lambda>c. ref c \<noteq> Some i) C)"
  by (fastforce simp: fk_def has_key_def)

lemma missing_ref_has_key: "\<not> missing_ref key r rows \<longleftrightarrow> (\<forall>k. r = Some k \<longrightarrow> has_key key k rows)"
  by (simp add: missing_ref_def split: option.split)

lemmas fk_simps = fk_append fk_more missing_ref_has_key reason_violations_def

section \<open>Statements\<close>

lemma integrity_log [simp]: "integrity (s\<lparr>ws_events := e\<rparr>) = integrity s"
  "integrity (s\<lparr>t_outbox := b\<rparr>) = integrity s" "integrity (s\<lparr>dnc := dm\<rparr>) = integrity s"
  by (simp_all add: integrity_defs)

lemma integrity_audit: "integrity s \<Longrightarrow> integrity (audit nid now actor action entity key detail s)"
  by (simp add: audit_def insert_audit_def prog_simps split: option.split) (auto simp: integrity_defs fk_simps)

lemma integrity_order_inserts [preserves_rules]:
  "preserves integrity (insert_work_order wo)"
  "preserves integrity (insert_operation op)"
  "preserves integrity (enqueue a b c d e f g)"
  unfolding insert_work_order_def insert_operation_def enqueue_def
  by (intro preserves_rules preserves_sql_exec; simp add: integrity_defs fk_simps)+

lemma integrity_count [preserves_rules]:
  "pc_source_id c = None \<Longrightarrow> preserves integrity (insert_production_count_row c)"
  unfolding insert_production_count_row_def by (rule preserves_sql_exec) (simp add: integrity_defs fk_simps)

lemma integrity_events [preserves_rules]:
  "preserves integrity (insert_downtime d)"
  "preserves integrity (insert_machine_event nid ts wc src evkind payload)"
  "preserves integrity (insert_production_count nid ts wc src good scrap)"
  "preserves integrity (insert_machine_state m)"
  unfolding insert_downtime_def insert_machine_event_def insert_production_count_def insert_machine_state_def
  by (intro preserves_sql_exec preserves_sql_exec_by; simp add: integrity_defs fk_simps)+

lemma integrity_stop [preserves_rules]:
  "dt_reason_id d = None \<Longrightarrow> dt_classified_by d = None \<Longrightarrow> preserves integrity (insert_stop d)"
  unfolding insert_stop_def by (rule preserves_sql_exec_by) (simp add: integrity_defs fk_simps)

text \<open>An update by key that changes no reference, or sets one that was checked.\<close>

lemmas update_refs = fk_update_parents [OF wo_set_status.row_update_axioms] fk_update_parents [OF op_start.row_update_axioms]
  fk_update_parents [OF op_complete.row_update_axioms] fk_update_parents [OF op_add_counts.row_update_axioms]
  fk_update_children

lemma integrity_order_updates [preserves_rules]:
  "preserves integrity (set_work_order_status now i st)"
  "preserves integrity (start_operation now i)"
  "preserves integrity (complete_operation now i)"
  "preserves integrity (update_operation v (op_add_counts g sc now) i)"
  unfolding set_work_order_status_def start_operation_def complete_operation_def update_operation_def
  by (rule preserves_sql_update; simp add: integrity_defs update_refs wo_set_status_def op_start_def op_complete_def op_add_counts_def)+

lemma integrity_record_count [preserves_rules]:
  "preserves integrity (record_count nid now i wc good scrap reason ts)"
  unfolding record_count_def by (intro preserves_rules) simp

lemma integrity_create_work_order [preserves_rules]:
  "preserves integrity (create_work_order w ids now order)"
  unfolding create_work_order_def by (intro preserves_rules) (auto intro: preserves_rules)

lemma integrity_downtime [preserves_rules]:
  "preserves integrity (classify_downtime now i code who)"
  "preserves integrity (split_downtime nid now i ts reason reason2 who)"
  unfolding classify_downtime_def split_downtime_def update_downtime_def get_downtime_event_def
  by (intro preserves_rules preserves_sql_update; auto simp: integrity_defs fk_simps fk_update_children dt_classify_def dt_shrink_def
    intro!: fk_set split: if_splits)+

lemma integrity_derived [preserves_rules]:
  "preserves integrity (replace_derived ids now wc ts te states stops)"
proof -
  have "preserves integrity (modify (\<lambda>s. s\<lparr>t_machine_states := filter P (t_machine_states s)\<rparr>))"
    "preserves integrity (modify (\<lambda>s. s\<lparr>t_downtime_events := filter Q (t_downtime_events s)\<rparr>))" for P Q
    by (rule preserves_modify, simp add: integrity_defs fk_filter)+
  then show ?thesis
    unfolding replace_derived_def
    by (intro preserves_rules) (auto intro!: preserves_rules simp: stop_row_def)
qed

lemma integrity_dnc [preserves_rules]:
  "preserves integrity (create_transfer nid now wop pid dir ref)"
  "preserves integrity (set_transfer_status now i st)"
  "preserves integrity (set_revision_status now i st who)"
  unfolding create_transfer_def set_transfer_status_def set_revision_status_def Let_def
  by (intro preserves_rules preserves_sql_exec preserves_sql_update;
      auto simp: integrity_defs fk_simps fk_update_children tf_set_status_def rv_set_status_def intro!: fk_set)+

lemma integrity_revision [preserves_rules]:
  "preserves integrity (create_draft_revision nid now pid src content who_opt)"
  unfolding create_draft_revision_def insert_revision_def new_revision_def
  by (intro preserves_rules preserves_sql_exec) (simp add: integrity_defs fk_simps)

lemma mw_advance_refs:
  "mw_work_center_id (mw_advance nxt now tech code r) = mw_work_center_id r"
  "mw_pm_schedule_id (mw_advance nxt now tech code r) = mw_pm_schedule_id r"
  "mw_technician_id (mw_advance nxt now tech code r) = (case tech of None \<Rightarrow> mw_technician_id r | t \<Rightarrow> t)"
  by (simp_all add: mw_advance_def mw_stamp_def split: maintenance_status.split)

lemma integrity_cmms [preserves_rules]:
  "preserves integrity (create_pm_schedule ar nid now wc name trigger interval checklist)"
  "preserves integrity (create_maintenance_wo nid now wc pm wtype notes)"
  "preserves integrity (create_spare_part nid code name uom qty qty2)"
  "preserves integrity (insert_spare_txn t)"
  "preserves integrity (insert_request r)"
  unfolding create_pm_schedule_def insert_pm_def work_center_run_hours_def create_maintenance_wo_def create_spare_part_def
    insert_spare_txn_def insert_request_def Let_def
  by (intro preserves_rules preserves_sql_exec;
      auto intro!: preserves_rules preserves_sql_exec simp: integrity_defs fk_simps split: pm_trigger.split)+

lemma integrity_transition [preserves_rules]:
  "preserves integrity (transition_maintenance_wo now i nxt tech failure)"
  unfolding transition_maintenance_wo_def get_maintenance_wo_def
  by (intro preserves_rules preserves_sql_update)
    (auto simp: integrity_defs fk_simps fk_update_children fk_update_parents [OF mw_advance.row_update_axioms] mw_advance_refs
      intro!: fk_set split: option.splits)

lemma integrity_spares [preserves_rules]:
  "preserves integrity (record_spare_txn ids now i mwo txn qty who)"
  "preserves integrity (create_procurement_request nid now i qty)"
  unfolding record_spare_txn_def spare_stock_def raise_reorder_def create_procurement_request_def
  by (intro preserves_rules preserves_choice)+

lemma integrity_trace [preserves_rules]:
  "preserves integrity (create_lot nid now lot part qty uom)"
  "preserves integrity (create_serial nid now serial part lot_opt)"
  "preserves integrity (insert_hold (new_hold nid now ent why who ncr))"
  unfolding create_lot_def create_serial_def insert_hold_def new_hold_def Let_def
  by (intro preserves_rules preserves_sql_exec; auto simp: integrity_defs fk_simps)+

lemma integrity_genealogy [preserves_rules]: "preserves integrity (add_genealogy nid now parent child qty_opt)"
  unfolding add_genealogy_def
  by (intro preserves_choice preserves_rules preserves_sql_exec) (simp add: integrity_defs)

lemma integrity_holds [preserves_rules]:
  "preserves integrity (place_hold nid now etype eid why who)"
  "preserves integrity (release_hold now i who)"
  unfolding place_hold_def release_hold_def
  by (intro preserves_rules preserves_sql_update;
      auto simp: integrity_defs fk_simps fk_update_children hold_release_def intro!: fk_set)+

lemma integrity_issue [preserves_rules]:
  "preserves integrity (issue_material nid now lot_opt serial_opt qty wop who)"
  unfolding issue_material_def insert_material_txn_def check_not_held_def is_held_def
  by (intro preserves_rules preserves_sql_exec)
    (auto intro!: preserves_rules simp: integrity_defs fk_simps split: option.split)

lemma integrity_qms [preserves_rules]:
  "preserves integrity (create_plan nid now part code name)"
  "preserves integrity (create_characteristic nid plan name uom_opt q1 q2 q3)"
  "preserves integrity (insert_result r)"
  "preserves integrity (insert_ncr (new_ncr ncr now res lot_opt serial_opt part_opt))"
  unfolding create_plan_def create_characteristic_def insert_result_def insert_ncr_def new_ncr_def Let_def
  by (intro preserves_rules preserves_sql_exec; auto simp: integrity_defs fk_simps)+

lemma integrity_result [preserves_rules]:
  "preserves integrity (record_result ids now ch lot_opt serial_opt wop qty who)"
  unfolding record_result_def raise_ncr_def ncr_hold_def Let_def
  by (intro preserves_rules) (auto intro!: preserves_rules split: option.split)

lemma integrity_disposition [preserves_rules]:
  "preserves integrity (disposition_ncr now i disp why who)"
  unfolding disposition_ncr_def
  by (intro preserves_rules preserves_sql_update preserves_sql_exec)
    (auto simp: integrity_defs fk_simps fk_update_children fk_update_parents [OF ncr_dispose.row_update_axioms]
        ncr_dispose_def hold_release_def list_ex_iff intro!: fk_set)

lemma integrity_master:
  assumes "preserves master_inv m"
    and "preserves (\<lambda>s. floor_refs s \<and> quality_refs s \<and> spare_refs s) m"
  shows "preserves integrity m"
  using assms by (auto simp: preserves_def integrity_def)

lemmas record_refs_defs = floor_refs_def quality_refs_def spare_refs_def

lemma integrity_sites [preserves_rules]:
  "preserves integrity (create_site nid now code name tz)"
  "preserves integrity (update_site now i code name tz)"
  "preserves integrity (create_area nid now st code name)"
  "preserves integrity (update_area now i code name)"
  "preserves integrity (create_work_center nid now st code name ext)"
  "preserves integrity (update_work_center now i code name ext)"
  "preserves integrity (create_part nid now code name uom)"
  "preserves integrity (update_part now i code name uom)"
  "preserves integrity (create_program nid now prog)"
  "preserves integrity (create_user nid now name code uom h1 h2 h3)"
  by (rule integrity_master, rule preserves_rules,
      simp only: create_site_def update_site_def create_area_def update_area_def create_work_center_def
        update_work_center_def create_part_def update_part_def create_program_def create_user_def Let_def,
      intro preserves_rules preserves_sql_exec preserves_sql_update; simp add: record_refs_defs fk_more)+

lemma integrity_deletes [preserves_rules]:
  "preserves integrity (delete_site i)"
  "preserves integrity (delete_area i)"
  "preserves integrity (delete_work_center i)"
  "preserves integrity (delete_part i)"
  by (rule integrity_master, rule preserves_rules,
      simp only: delete_site_def delete_area_def delete_work_center_def delete_part_def,
      rule preserves_sql_delete,
      simp add: record_refs_defs fk_filter drop_site_def drop_areas_def drop_work_centers_def drop_part_def)+

lemma integrity_erp [preserves_rules]:
  "preserves integrity (create_connection nid now st_opt name url tok fm direction en)"
  "preserves integrity (update_connection now i st_opt name url tok fm direction en)"
  "preserves integrity (insert_sync_log nid now i direction name records status details)"
  "preserves integrity (mark_procurement_sent now keys ref)"
  unfolding create_connection_def update_connection_def insert_sync_log_def mark_procurement_sent_def Let_def
  by (intro preserves_rules preserves_sql_exec preserves_sql_update preserves_modify;
      auto simp: integrity_defs fk_simps fk_update_children fk_update_parents [OF conn_set.row_update_axioms]
        conn_set_def proc_sent_def intro!: fk_set)+

lemma integrity_disconnect [preserves_rules]: "preserves integrity (delete_connection i)"
  unfolding delete_connection_def
  by (rule preserves_sql_delete) (simp add: integrity_defs fk_filter fk_detach)

interpretation whole: repo_predicate integrity
proof (unfold_locales, goal_cases)
  case 1
  then show ?case by (rule integrity_audit)
next
  case 2
  then show ?case by (simp add: publish_def)
qed (rule preserves_rules | simp | erule preservesD [OF integrity_record_count])+

section \<open>Unique keys of records\<close>

text \<open>
  The primary keys and the unique columns of the tables that hold records; those of sites, areas, work centers, parts
  and users belong to the invariant of the master data.
\<close>

definition unique_on :: "('r \<Rightarrow> 'k) \<Rightarrow> 'r list \<Rightarrow> bool" where
  "unique_on key rows \<longleftrightarrow> distinct (map key rows)"

definition floor_keys :: "'s master_db_scheme \<Rightarrow> bool" where
  "floor_keys s \<longleftrightarrow>
     unique_on wo_id (t_work_orders s) \<and> unique_on wo_number (t_work_orders s) \<and>
     unique_on op_id (t_wo_operations s) \<and> unique_on (\<lambda>r. (op_work_order_id r, op_no r)) (t_wo_operations s) \<and>
     unique_on (\<lambda>r. (pc_ts r, pc_id r)) (t_production_counts s) \<and>
     unique_on (\<lambda>r. (me_ts r, me_id r)) (t_machine_events s) \<and>
     unique_on ms_id (t_machine_states s) \<and> unique_on dt_id (t_downtime_events s) \<and>
     unique_on tf_id (t_transfers s) \<and> unique_on rv_id (t_revisions s) \<and>
     unique_on (\<lambda>r. (rv_program_id r, rv_revision_no r)) (t_revisions s) \<and>
     unique_on au_id (t_audit_log s) \<and> unique_on ob_id (t_outbox s)"

definition quality_keys :: "'s master_db_scheme \<Rightarrow> bool" where
  "quality_keys s \<longleftrightarrow>
     unique_on lt_id (t_lots s) \<and> unique_on lt_lot_no (t_lots s) \<and>
     unique_on sn_id (t_serials s) \<and> unique_on sn_serial_no (t_serials s) \<and>
     unique_on gn_id (t_genealogy s) \<and> unique_on (\<lambda>r. (gn_parent r, gn_child r)) (t_genealogy s) \<and>
     unique_on mt_id (t_material_txns s) \<and> unique_on hd_id (t_holds s) \<and>
     unique_on ip_id (t_inspection_plans s) \<and> unique_on (\<lambda>r. (ip_part_id r, ip_code r)) (t_inspection_plans s) \<and>
     unique_on ch_id (t_characteristics s) \<and> unique_on ir_id (t_inspection_results s) \<and>
     unique_on nc_id (t_ncrs s) \<and> unique_on nc_no (t_ncrs s)"

definition service_keys :: "'s master_db_scheme \<Rightarrow> bool" where
  "service_keys s \<longleftrightarrow>
     unique_on pm_id (t_pm_schedules s) \<and> unique_on mw_id (t_maintenance_wos s) \<and>
     unique_on sp_id (t_spare_parts s) \<and> unique_on sp_code (t_spare_parts s) \<and>
     unique_on st_id (t_spare_txns s) \<and> unique_on pr_id (t_procurement_requests s) \<and>
     unique_on ec_id (t_erp_connections s) \<and> unique_on el_id (t_erp_sync_log s)"

definition reference_keys :: "'s master_db_scheme \<Rightarrow> bool" where
  "reference_keys s \<longleftrightarrow>
     unique_on pg_id (t_programs s) \<and> unique_on rt_id (t_routings s) \<and> unique_on ro_id (t_routing_ops s) \<and>
     unique_on bm_id (t_boms s) \<and> unique_on (\<lambda>r. (bm_parent_part r, bm_child_part r)) (t_boms s) \<and>
     unique_on sh_id (t_shifts s) \<and> unique_on (\<lambda>r. (sh_site_id r, sh_name r)) (t_shifts s) \<and>
     unique_on ps_id (t_planned_stops s) \<and> unique_on ss_id (t_signal_sources s) \<and>
     unique_on ss_source_key (t_signal_sources s) \<and>
     unique_on rs_id (t_downtime_reasons s) \<and> unique_on rs_code (t_downtime_reasons s) \<and>
     unique_on rs_id (t_scrap_reasons s) \<and> unique_on rs_code (t_scrap_reasons s)"

definition record_keys :: "'s master_db_scheme \<Rightarrow> bool" where
  "record_keys s \<longleftrightarrow> floor_keys s \<and> quality_keys s \<and> service_keys s \<and> reference_keys s"

lemmas record_keys_defs = record_keys_def floor_keys_def quality_keys_def service_keys_def reference_keys_def

lemma unique_on_append: "unique_on key (rows @ [r]) \<longleftrightarrow> unique_on key rows \<and> \<not> has_key key (key r) rows"
  by (auto simp: unique_on_def has_key_def)

lemma unique_on_update: "(\<And>r. key (upd r) = key r) \<Longrightarrow> unique_on key (update_where P upd rows) = unique_on key rows"
  by (simp add: unique_on_def row_update.keys_update row_update.intro)

lemma unique_on_filter: "unique_on key rows \<Longrightarrow> unique_on key (filter P rows)"
  by (simp add: unique_on_def distinct_map_filters)

lemma mw_advance_keeps_id: "mw_id (mw_advance nxt now tech code r) = mw_id r"
  by (rule mw_advance.keeps_key)

lemmas keys_statement = record_keys_defs unique_on_append unique_on_update unique_on_filter
  new_work_order_def new_operation_def new_revision_def new_request_def new_ncr_def new_hold_def stop_row_def
  wo_set_status_def op_start_def op_complete_def op_add_counts_def dt_classify_def dt_shrink_def
  tf_set_status_def rv_set_status_def mw_advance_keeps_id hold_release_def ncr_dispose_def proc_sent_def conn_set_def

interpretation keys_log: logged_predicate record_keys
proof (unfold_locales, goal_cases)
  case 1
  then show ?case by (simp add: audit_def insert_audit_def prog_simps keys_statement split: option.split)
next
  case 2
  then show ?case by (simp add: publish_def keys_statement)
qed

lemma keys_genealogy: "preserves record_keys (add_genealogy nid now parent child qty)"
  by (simp add: preserves_def add_genealogy_def prog_simps sql_exec_def keys_statement)

interpretation keys_floor: floor_repo record_keys
proof (unfold_locales, goal_cases)
  case (15 s i r wc good scrap nid now reason ts)
  have "preserves record_keys (record_count nid now i wc good scrap reason ts)"
    unfolding floor_statements by (intro statement_rules) (simp_all add: keys_statement)
  from preservesD [OF this 15(1)] show ?case .
next
  case 1
  then show ?case by (simp add: keys_statement)
qed (unfold floor_statements, intro statement_rules; auto intro!: statement_rules simp: keys_statement)+

interpretation keys_quality: quality_repo record_keys
  by unfold_locales
    (rule keys_genealogy |
     (unfold quality_statements, intro statement_rules; auto intro!: statement_rules simp: keys_statement split: option.split))+

interpretation keys_cmms: cmms_repo record_keys
  by unfold_locales
    (unfold cmms_statements, intro statement_rules; auto intro!: statement_rules simp: keys_statement split: pm_trigger.split)+

interpretation keys_master: master_repo record_keys
  by unfold_locales (unfold master_statements deletions, intro statement_rules; simp add: keys_statement)+

interpretation keys_erp: erp_repo record_keys
proof (unfold_locales, goal_cases)
  case (1 w ids now order)
  show ?case by (rule keys_floor.order_ops)
qed (unfold erp_statements, intro statement_rules; simp add: keys_statement)+

interpretation keys: repo_predicate record_keys
  by unfold_locales

section \<open>Property\<close>

text \<open>
  C4.  Every reference names a row and no key is given twice.  Whatever requests the edge service serves, by
  whomever, with any arguments and whether they succeed or not, all foreign keys among the tables of the edge database
  hold afterwards: those into sites, areas, work centers, parts, routings, programs and plans, also after deletions
  that cascade through the schema, those between orders, operations, counts, downtime, transfers, revisions, lots,
  serials, material transactions, holds, inspection results, reports, maintenance orders and spares, those of nested
  downtime reasons, and those into users, of audit entries too.  Primary keys and unique columns stay unique in every table (the
  version of a routing and the number of a routing operation, which no request writes, are not columns of the model) and every
  user has a known role.  The tenant tables of the cloud are not part of it.
\<close>

theorem edge_integrity:
  assumes "edge_run ls s s'" "integrity s" "record_keys s"
  shows "integrity s' \<and> record_keys s'"
  using whole.served.edge_run_keeps [OF assms(1) _ assms(2)] keys.served.edge_run_keeps [OF assms(1) _ assms(3)] by simp

definition sample_edge :: master_db where
  "sample_edge = sample_erp\<lparr>t_ncrs := []\<rparr>"

lemma sample_edge_integrity: "integrity sample_edge"
  by (simp add: integrity_defs fk_def has_key_simps sample_edge_def sample_erp_defs new_revision_def role_codes_def)

lemma sample_edge_keys: "record_keys sample_edge"
  by (simp add: record_keys_defs unique_on_def sample_edge_def sample_erp_defs new_revision_def)

theorem edge_integrity_witness:
  "\<exists>s'. edge_run [Neutral, Neutral] sample_edge s' \<and> t_sites sample_edge \<noteq> [] \<and> integrity s' \<and> record_keys s'"
proof -
  let ?s = "snd (export_handler sample_wire (\<lambda>_. 0) sample_env ''L1'' ''X2'' 4 sample_admin ''C1'' ''stock_level'' sample_edge)"
  let ?s' = "snd (delete_site_handler ''X1'' 5 \<lparr>user_id = ''U1'', role = ''Planner''\<rparr> ''S1'' ?s)"
  have run: "edge_run [Neutral, Neutral] sample_edge ?s'"
    by (rule edge_cons, rule edge_export, rule edge_cons, rule edge_master, rule master_step.intros(3), rule edge_nil)
  with edge_integrity [OF run sample_edge_integrity sample_edge_keys] show ?thesis
    by (auto simp: sample_edge_def sample_erp_defs)
qed

end
