(* ===== verification/Whole.thy ===== *)
theory Whole
  imports Integrity
begin

text \<open>
  The guarantees of single components, lifted to the whole edge service: the books of the shop floor
  and its plan, the quarantine of held material, and the typing of the stored status texts, under any
  run of requests to any route.
\<close>

section \<open>What a component leaves alone\<close>

definition orders_part :: "'s master_db_scheme \<Rightarrow> work_order_row list \<times> wo_operation_row list \<times> production_count_row list" where
  "orders_part s = (t_work_orders s, t_wo_operations s, t_production_counts s)"

definition holds_part :: "'s master_db_scheme \<Rightarrow> hold_row list \<times> material_txn_row list" where
  "holds_part s = (t_holds s, t_material_txns s)"

lemma parts_log [simp]:
  "orders_part (audit n t a b c d e s) = orders_part s" "orders_part (publish ev s) = orders_part s"
  "holds_part (audit n t a b c d e s) = holds_part s" "holds_part (publish ev s) = holds_part s"
  by (simp_all add: orders_part_def holds_part_def)

lemmas part_defs = orders_part_def holds_part_def

interpretation orders_log: logged_predicate "\<lambda>s. orders_part s = v" for v
  by unfold_locales simp_all

interpretation holds_log: logged_predicate "\<lambda>s. holds_part s = w" for w
  by unfold_locales simp_all

interpretation both_log: logged_predicate "\<lambda>s. orders_part s = v \<and> holds_part s = w" for v w
  by unfold_locales simp_all

interpretation quality_frame: quality_repo "\<lambda>s. orders_part s = v" for v
  by unfold_locales
    (unfold quality_statements, intro statement_rules; auto intro!: statement_rules simp: part_defs split: option.split)+

interpretation cmms_frame: cmms_repo "\<lambda>s. orders_part s = v \<and> holds_part s = w" for v w
  by unfold_locales
    (unfold cmms_statements, intro statement_rules; auto intro!: statement_rules simp: part_defs split: pm_trigger.split)+

interpretation floor_frame: floor_repo "\<lambda>s. holds_part s = w" for w
proof (unfold_locales, goal_cases)
  case (15 s i r wc good scrap nid now reason ts)
  have "preserves (\<lambda>s. holds_part s = w) (record_count nid now i wc good scrap reason ts)"
    unfolding floor_statements by (intro statement_rules) (simp_all add: part_defs)
  from preservesD [OF this 15(1)] show ?case .
next
  case 1
  then show ?case by (simp add: part_defs)
qed (unfold floor_statements, intro statement_rules; auto intro!: statement_rules simp: part_defs)+

interpretation master_frame: master_repo "\<lambda>s. holds_part s = w" for w
  by unfold_locales (unfold master_statements deletions, intro statement_rules; simp add: part_defs)+

interpretation erp_frame: erp_repo "\<lambda>s. holds_part s = w" for w
proof (unfold_locales, goal_cases)
  case (1 w ids now order)
  show ?case by (rule floor_frame.order_ops)
qed (unfold erp_statements, intro statement_rules; simp add: part_defs)+

lemma connection_frame:
  "preserves (\<lambda>s. orders_part s = v) (create_connection nid now st_opt name url tok fm direction en)"
  "preserves (\<lambda>s. orders_part s = v) (update_connection now i st_opt name url tok fm direction en)"
  "preserves (\<lambda>s. orders_part s = v) (insert_sync_log nid now i direction name records status details)"
  "preserves (\<lambda>s. orders_part s = v) (mark_procurement_sent now keys ref)"
  "preserves (\<lambda>s. orders_part s = v) (delete_connection i)"
  unfolding erp_statements by (intro statement_rules; simp add: part_defs)+

section \<open>Quarantine\<close>

lemma quarantined_part: "holds_part s' = holds_part s \<Longrightarrow> quarantined h x s \<Longrightarrow> quarantined h x s'"
  by (simp add: holds_part_def quarantined_def)

lemma quarantined_frame:
  assumes "\<And>w. preserves (\<lambda>s. holds_part s = w) m"
  shows "preserves (quarantined h x) m"
  by (rule preservesI) (erule quarantined_part [rotated], rule preservesD [OF assms refl])

interpretation quarantine_kept: edge_predicate "\<lambda>l. \<not> lifts h l" "quarantined h x" for h x
proof (unfold_locales, goal_cases)
  case (2 s s')
  then show ?case using quarantined_part [OF floor_frame.floor_step_keeps [OF 2(1) refl]] by blast
next
  case (3 l s s')
  then show ?case by (rule quality_step_quarantine)
next
  case (4 s s')
  then show ?case using cmms_frame.cmms_step_keeps [OF 4(1)] by (blast intro: quarantined_part)
next
  case (5 s s')
  then show ?case using quarantined_part [OF master_frame.master_step_keeps [OF 5(1) refl]] by blast
qed ((rule quarantined_frame, rule erp_frame.erp_ops erp_frame.import_op) | simp add: quarantined_def)+

text \<open>
  C3.  Quarantine.  While a hold is in force, no sequence of requests to the edge service, to whatever
  route and by whomever, issues material of the held lot or serial or removes the hold, unless the
  sequence contains the release of that very hold or a rework or use-as-is disposition of the report
  it belongs to.
\<close>

theorem edge_quarantine:
  assumes "edge_run ls s s'" "h \<in> set (t_holds s)" "hd_status h = ''active''"
    and "\<forall>l\<in>set ls. \<not> lifts h l"
  shows "h \<in> set (t_holds s') \<and> held s' (hd_entity h) \<and>
    filter (concerns (hd_entity h)) (t_material_txns s') =
      filter (concerns (hd_entity h)) (t_material_txns s)"
proof -
  let ?x = "filter (concerns (hd_entity h)) (t_material_txns s)"
  have "quarantined h ?x s" using assms(2,3) by (simp add: quarantined_def)
  from quarantine_kept.edge_run_keeps [OF assms(1,4) this] show ?thesis
    using quarantined_held by (auto simp: quarantined_def)
qed

theorem edge_quarantine_witness:
  "\<exists>s'. edge_run [Neutral, Neutral] sample_edge s' \<and> held s' (''lot'', ''L1'') \<and>
     filter (concerns (''lot'', ''L1'')) (t_material_txns s') = []"
proof -
  let ?u = "\<lparr>user_id = ''U1'', role = ''Operator''\<rparr>"
  let ?s' = "snd (issue_material_handler ''T1'' 5 ?u (Some ''L1'') None 2 None (snd (cancel_order ''A1'' 4 floor_user ''W1'' sample_edge)))"
  let ?h = "hd (t_holds sample_edge)"
  have run: "edge_run [Neutral, Neutral] sample_edge ?s'"
    by (rule edge_cons, rule edge_floor, rule floor_step.cancel, rule edge_cons, rule edge_quality, rule quality_step.intros(4),
        rule edge_nil)
  have h: "?h \<in> set (t_holds sample_edge)" "hd_status ?h = ''active''" "hd_entity ?h = (''lot'', ''L1'')"
    by (simp_all add: sample_edge_def sample_erp_defs)
  have "\<forall>l\<in>set [Neutral, Neutral]. \<not> lifts ?h l" by (simp add: lifts_def)
  from edge_quarantine [OF run h(1,2) this] h(3) have
    "held ?s' (''lot'', ''L1'')" "filter (concerns (''lot'', ''L1'')) (t_material_txns ?s') =
      filter (concerns (''lot'', ''L1'')) (t_material_txns sample_edge)" by simp_all
  moreover have "filter (concerns (''lot'', ''L1'')) (t_material_txns sample_edge) = []"
    by (simp add: sample_edge_def sample_erp_defs)
  ultimately show ?thesis using run by auto
qed

section \<open>Books and plan\<close>

text \<open>
  The books of the floor over intact references.  A count is booked at the work center of its
  operation, and a work center that an operation refers to cannot be deleted: so a deletion, which
  takes the counts of its work centers along, takes no booked one.
\<close>

definition books :: "plan \<Rightarrow> 's master_db_scheme \<Rightarrow> bool" where
  "books A s \<longleftrightarrow> integrity s \<and> orders_inv s \<and> stationed s \<and> plan_step\<^sup>*\<^sup>* A (plan_of s)"

lemma books_integrity: "books A s \<Longrightarrow> integrity s"
  by (simp add: books_def)

lemma books_part:
  assumes "orders_part s' = orders_part s" "integrity s'" "books A s"
  shows "books A s'"
proof -
  from assms(1) have same: "t_work_orders s' = t_work_orders s" "t_wo_operations s' = t_wo_operations s"
    "t_production_counts s' = t_production_counts s"
    by (simp_all add: orders_part_def)
  with assms(2,3) orders_inv_cong [OF same] plan_of_cong [OF same(1,2)] show ?thesis
    by (simp add: books_def stationed_def)
qed

lemma books_frame:
  fixes m :: "('s master_db_scheme, 'e, 'a) prog"
  assumes "\<And>v. preserves (\<lambda>s. orders_part s = v) m" "preserves integrity m"
  shows "preserves (books A) m"
proof (rule preservesI)
  fix s :: "'s master_db_scheme" assume "books A s"
  then show "books A (snd (m s))"
    by (intro books_part [OF preservesD [OF assms(1) refl] preservesD [OF assms(2)]]) (simp_all add: books_def)
qed

lemma booked_counts_stay:
  assumes "integrity s" "stationed s"
    and "\<not> referenced wc_id (t_work_centers s) (filter (\<lambda>r. \<not> Q (wc_id r)) (t_work_centers s)) op_work_center_id (t_wo_operations s)"
    and "c \<in> set (t_production_counts s)" "pc_wo_operation_id c = Some i"
  shows "\<not> Q (pc_work_center_id c)"
proof -
  let ?k = "pc_work_center_id c"
  obtain op where "find_row op_id i (t_wo_operations s) = Some op" "op_work_center_id op = Some ?k"
    using assms(2,4,5) by (auto simp: stationed_def bind_eq_Some_conv)
  then have op: "op \<in> set (t_wo_operations s)" "op_work_center_id op = Some ?k" by (auto dest: find_row_SomeD)
  have "has_key wc_id ?k (t_work_centers s)"
    using assms(1) op by (auto simp: integrity_def master_inv_def equipment_refs_def fk_def)
  with assms(3) op have "has_key wc_id ?k (filter (\<lambda>r. \<not> Q (wc_id r)) (t_work_centers s))"
    unfolding referenced_def by fastforce
  then show ?thesis by (auto simp: has_key_def)
qed

lemma books_drop:
  assumes books: "books A s" and "integrity s'"
    and same: "t_work_orders s' = t_work_orders s" "t_wo_operations s' = t_wo_operations s"
    and drop: "t_production_counts s' = filter (\<lambda>r. \<not> Q (pc_work_center_id r)) (t_production_counts s)"
      "t_work_centers s' = filter (\<lambda>r. \<not> Q (wc_id r)) (t_work_centers s)"
    and ok: "\<forall>(b, e)\<in>set (work_center_refs s s'). \<not> b"
  shows "books A s'"
proof -
  from ok same drop have "\<not> referenced wc_id (t_work_centers s) (filter (\<lambda>r. \<not> Q (wc_id r)) (t_work_centers s))
      op_work_center_id (t_wo_operations s)"
    by (simp add: work_center_refs_def)
  from booked_counts_stay [OF _ _ this] books
  have stay: "filter (\<lambda>r. pc_wo_operation_id r = Some i) (t_production_counts s') =
      filter (\<lambda>r. pc_wo_operation_id r = Some i) (t_production_counts s)" for i
    unfolding drop filter_filter by (intro filter_cong) (auto simp: books_def)
  then have "booked f i (t_production_counts s') = booked f i (t_production_counts s)" for f i
    by (simp add: booked_def)
  with books have "orders_inv s'" by (auto simp: books_def orders_inv_def same drop)
  moreover from books have "stationed s'" by (simp add: books_def stationed_def same drop)
  ultimately show ?thesis using books plan_of_cong [OF same] assms(2) by (simp add: books_def)
qed

lemma master_orders_frame:
  "preserves (\<lambda>s. orders_part s = v) (create_site nid now code name tz)"
  "preserves (\<lambda>s. orders_part s = v) (update_site now i code name tz)"
  "preserves (\<lambda>s. orders_part s = v) (create_area nid now st code name)"
  "preserves (\<lambda>s. orders_part s = v) (update_area now i code name)"
  "preserves (\<lambda>s. orders_part s = v) (create_work_center nid now st code name ext)"
  "preserves (\<lambda>s. orders_part s = v) (update_work_center now i code name ext)"
  "preserves (\<lambda>s. orders_part s = v) (create_part nid now code name uom)"
  "preserves (\<lambda>s. orders_part s = v) (update_part now i code name uom)"
  "preserves (\<lambda>s. orders_part s = v) (delete_part i)"
  "preserves (\<lambda>s. orders_part s = v) (create_program nid now prog)"
  "preserves (\<lambda>s. orders_part s = v) (create_user nid now name code uom h1 h2 h3)"
  unfolding master_statements delete_part_def drop_part_def by (intro statement_rules; simp add: part_defs)+

lemma preserves_delete_after:
  assumes "preserves J (sql_delete present f v)"
    and "\<And>s. I s \<Longrightarrow> J s" "\<And>s. I s \<Longrightarrow> J (f s) \<Longrightarrow> (\<forall>(b, e)\<in>set (v s (f s)). \<not> b) \<Longrightarrow> I (f s)"
  shows "preserves I (sql_delete present f v)"
proof (rule preservesI)
  fix s assume "I s"
  moreover have "find fst (v s (f s)) = None \<Longrightarrow> \<forall>(b, e)\<in>set (v s (f s)). \<not> b"
    by (auto simp: find_None_iff)
  ultimately show "I (snd (sql_delete present f v s))"
    using preservesD [OF assms(1) assms(2) [OF \<open>I s\<close>]] assms(3) [OF \<open>I s\<close>]
    by (cases "find fst (v s (f s))") (auto simp: sql_delete_def split: prod.splits if_splits)
qed

text \<open>The deletions of the equipment tree remove the counts of the work centers they remove.\<close>

definition drops_centers :: "'s master_db_scheme \<Rightarrow> 's master_db_scheme \<Rightarrow> bool" where
  "drops_centers s s' \<longleftrightarrow> t_work_orders s' = t_work_orders s \<and> t_wo_operations s' = t_wo_operations s \<and>
     (\<exists>Q. t_production_counts s' = filter (\<lambda>r. \<not> Q (pc_work_center_id r)) (t_production_counts s) \<and>
       t_work_centers s' = filter (\<lambda>r. \<not> Q (wc_id r)) (t_work_centers s))"

lemma drops_work_centers: "drops_centers s (drop_work_centers P s)"
  unfolding drops_centers_def by (intro conjI exI [of _ P]) (simp_all add: drop_work_centers_def)

lemma drops_part:
  "drops_centers s (drop_areas P s)" "drops_centers s (drop_site i s)"
proof -
  show areas: "drops_centers s (drop_areas P s)" for P
    using drops_work_centers [of s] by (simp add: drops_centers_def drop_areas_def)
  show "drops_centers s (drop_site i s)"
    using areas by (simp add: drops_centers_def drop_site_def)
qed

lemma books_dropped:
  "books A s \<Longrightarrow> drops_centers s s' \<Longrightarrow> integrity s' \<Longrightarrow> \<forall>(b, e)\<in>set (work_center_refs s s'). \<not> b \<Longrightarrow> books A s'"
  unfolding drops_centers_def by (elim conjE exE) (rule books_drop)

lemma books_delete:
  assumes "preserves integrity (sql_delete present f work_center_refs)" "\<And>s. drops_centers s (f s)"
  shows "preserves (books A) (sql_delete present f work_center_refs)"
  by (rule preserves_delete_after [where J = integrity, OF assms(1)])
    (simp add: books_integrity, rule books_dropped [OF _ assms(2)])

lemma books_deletes:
  "preserves (books A) (delete_site i)"
  "preserves (books A) (delete_area i)"
  "preserves (books A) (delete_work_center i)"
  unfolding delete_site_def delete_area_def delete_work_center_def
  by (intro books_delete integrity_deletes [unfolded delete_site_def delete_area_def delete_work_center_def]
      drops_part drops_work_centers)+

interpretation books_log: logged_predicate "books A" for A
  by unfold_locales
    (rule books_part [OF parts_log(1) whole.log [OF books_integrity]] books_part [OF parts_log(2) whole.event [OF books_integrity]];
     assumption)+

interpretation books_master: master_repo "books A" for A
  by unfold_locales (rule books_deletes | (rule books_frame, rule master_orders_frame, rule whole.master_ops))+

interpretation books_kept: edge_predicate "\<lambda>_. True" "books A" for A
proof (unfold_locales, goal_cases)
  case 1
  then show ?case by (rule books_log.log)
next
  case (2 s s')
  then show ?case
    using whole.floor_step_keeps [OF 2(1)] stations.step_keeps [OF 2(1)] plan_kept.step_keeps [OF 2(1), of A]
    by (simp add: books_def)
next
  case (3 l s s')
  then show ?case
    using books_part [OF quality_frame.quality_step_keeps [OF 3(1) refl] whole.quality_step_keeps [OF 3(1)]] books_integrity
    by blast
next
  case (4 s s')
  from cmms_frame.cmms_step_keeps [OF 4(1)] have "orders_part s' = orders_part s" by simp
  from books_part [OF this whole.cmms_step_keeps [OF 4(1)]] 4(2) books_integrity show ?case by blast
next
  case (5 s s')
  then show ?case by (rule books_master.master_step_keeps)
next
  case (10 w ids now wi)
  show ?case
  proof (rule preservesI)
    fix s :: "'a master_db_scheme" assume books: "books A s"
    let ?s' = "snd (create_work_order w ids now wi s)"
    have "stationed ?s'" by (rule preservesD [OF stations.create_keeps]) (use books in \<open>simp add: books_def\<close>)
    moreover have "integrity ?s'" by (rule preservesD [OF integrity_create_work_order]) (rule books_integrity [OF books])
    moreover have "orders_inv ?s' \<and> plan_step\<^sup>*\<^sup>* A (plan_of ?s')"
      by (rule preservesD [OF plan_create_keeps]) (use books in \<open>simp add: books_def\<close>)
    ultimately show "books A ?s'" by (simp add: books_def)
  qed
qed (rule books_frame, rule connection_frame, rule whole.erp_ops)+

text \<open>
  C2.  The edge service implements the plan.  From consistent books, any run of requests to any of its
  routes, deletions of equipment and imports of orders included, is a run of the abstract plan:
  orders appear as drafts together with all their operations, pending and empty; statuses move along the
  transition tables; totals grow by what is booked; and nothing else happens to them.  Hence orders
  and operations only advance, an operation never changes its order and no total shrinks; and the totals
  stay the sums of the stored counts, because no deletion takes a booked count.
\<close>

theorem edge_refines_plan:
  assumes "edge_run ls s s'" "integrity s" "orders_inv s" "stationed s"
  shows "plan_step\<^sup>*\<^sup>* (plan_of s) (plan_of s') \<and> advances (plan_of s) (plan_of s') \<and> orders_inv s' \<and> stationed s'"
proof -
  from assms have "books (plan_of s) s" by (simp add: books_def)
  from books_kept.edge_run_keeps [OF assms(1) _ this] have fin: "books (plan_of s) s'" by simp
  then have run: "plan_step\<^sup>*\<^sup>* (plan_of s) (plan_of s')" by (simp add: books_def)
  then have "advances (plan_of s) (plan_of s')"
    by (induction rule: rtranclp_induct)
      (auto intro: reflpD [OF advances_refl] transpD [OF advances_trans] plan_step_advances)
  with run fin show ?thesis by (simp add: books_def)
qed

lemma sample_edge_books: "orders_inv sample_edge" "stationed sample_edge"
  by (simp_all add: orders_inv_def stationed_def booked_def sample_edge_def sample_erp_defs table_simps)

theorem edge_refines_plan_witness:
  "\<exists>s'. edge_run [Neutral] sample_edge s' \<and> plan_step\<^sup>*\<^sup>* (plan_of sample_edge) (plan_of s') \<and> orders_inv s' \<and>
     map_option po_status (p_ops (plan_of s') ''O1'') = Some OpInProgress"
proof -
  let ?s' = "snd (start_op (\<lambda>n. ''A'') 5 floor_user ''O1'' sample_edge)"
  have run: "edge_run [Neutral] sample_edge ?s'"
    by (rule edge_cons, rule edge_floor, rule floor_step.start, rule edge_nil)
  have "map_option po_status (p_ops (plan_of ?s') ''O1'') = Some OpInProgress"
    by (simp add: plan_of_def plan_op_of_def start_op_def parse_op_status_def start_operation_def update_operation_def
        prog_simps op_parse_def op_can_transition_def wo_parse_def op_start_def update_where_def
        sample_edge_def sample_erp_defs table_simps)
  with run edge_refines_plan [OF run sample_edge_integrity sample_edge_books] show ?thesis by blast
qed

end
