(* ===== verification/Typing.thy ===== *)
theory Typing
  imports Edge
begin

text \<open>
  Typing of the stored texts.  Statuses, kinds and outcomes are enumerations in \<^verbatim>\<open>mes-core\<close> but text in the
  database; the handlers parse what they read and answer with an internal error when that
  fails.  No request ever stores a text that does not parse, so that answer is never given.
\<close>

section \<open>Well-typed databases\<close>

definition floor_typed :: "'s master_db_scheme \<Rightarrow> bool" where
  "floor_typed s \<longleftrightarrow>
     wo_st ` set (t_work_orders s) \<subseteq> range wo_as_str \<and>
     op_st ` set (t_wo_operations s) \<subseteq> range op_as_str \<and>
     tf_status ` set (t_transfers s) \<subseteq> range transfer_as_str \<and>
     tf_direction ` set (t_transfers s) \<subseteq> range direction_as_str \<and>
     rv_status ` set (t_revisions s) \<subseteq> range revision_as_str"

definition service_typed :: "'s master_db_scheme \<Rightarrow> bool" where
  "service_typed s \<longleftrightarrow>
     pm_trigger_type ` set (t_pm_schedules s) \<subseteq> range pm_trigger_as_str \<and>
     mw_wo_type ` set (t_maintenance_wos s) \<subseteq> range maintenance_type_as_str \<and>
     mw_status ` set (t_maintenance_wos s) \<subseteq> range mwo_as_str \<and>
     pr_reason ` set (t_procurement_requests s) \<subseteq> range proc_reason_as_str \<and>
     pr_status ` set (t_procurement_requests s) \<subseteq> range proc_as_str \<and>
     ir_result ` set (t_inspection_results s) \<subseteq> range outcome_as_str \<and>
     nc_status ` set (t_ncrs s) \<subseteq> range ncr_as_str \<and>
     nc_disposition ` set (t_ncrs s) \<subseteq> insert None (range (Some \<circ> disposition_as_str))"

definition typed :: "'s master_db_scheme \<Rightarrow> bool" where
  "typed s \<longleftrightarrow> floor_typed s \<and> service_typed s"

lemmas typed_defs = typed_def floor_typed_def service_typed_def

lemma stored_constants [simp]:
  "''draft'' \<in> range wo_as_str" "''pending'' \<in> range op_as_str" "''in_progress'' \<in> range op_as_str"
  "''completed'' \<in> range op_as_str" "''scheduled'' \<in> range transfer_as_str" "''draft'' \<in> range revision_as_str"
  "''requested'' \<in> range mwo_as_str" "''requested'' \<in> range proc_as_str" "''sent_to_erp'' \<in> range proc_as_str"
  "''open'' \<in> range ncr_as_str" "''dispositioned'' \<in> range ncr_as_str"
  "''to_machine'' \<in> range direction_as_str" "''PM'' \<in> range maintenance_type_as_str"
  by (auto simp: direction_as_str_def maintenance_type_as_str_def wo_as_str_def op_as_str_def transfer_as_str_def revision_as_str_def mwo_as_str_def proc_as_str_def
      ncr_as_str_def image_iff split: wo_status.split op_status.split transfer_status.split revision_status.split
      maintenance_status.split procurement_status.split ncr_status.split transfer_direction.split maintenance_type.split)

lemma stored_update:
  "f ` set xs \<subseteq> S \<Longrightarrow> (\<And>x. f (upd x) = f x \<or> f (upd x) \<in> S) \<Longrightarrow> f ` set (update_where P upd xs) \<subseteq> S"
  by (fastforce simp: update_where_def)

lemma stored_filter: "f ` set xs \<subseteq> S \<Longrightarrow> f ` {x \<in> set xs. P x} \<subseteq> S"
  by auto

lemma typed_log_frame [simp]:
  "typed (s\<lparr>t_audit_log := l\<rparr>) \<longleftrightarrow> typed s" "typed (s\<lparr>ws_events := e\<rparr>) \<longleftrightarrow> typed s"
  by (simp_all add: typed_defs)

interpretation typed_log: logged_predicate typed
proof (unfold_locales, goal_cases)
  case 1
  then show ?case by (metis audit_is_log typed_log_frame(1))
next
  case 2
  then show ?case by (simp add: publish_def)
qed

section \<open>Every repository stores typed texts\<close>

lemma mw_advance_typed:
  "mw_status (mw_advance nxt now tech code r) = mwo_as_str nxt"
  "mw_wo_type (mw_advance nxt now tech code r) = mw_wo_type r"
  by (simp_all add: mw_advance_def mw_stamp_def split: maintenance_status.split)

lemmas stored_rows = new_work_order_def new_operation_def new_revision_def new_request_def new_ncr_def
  wo_set_status_def op_start_def op_complete_def op_add_counts_def tf_set_status_def rv_set_status_def
  mw_advance_typed ncr_dispose_def proc_sent_def

lemmas typed_statement = typed_defs stored_rows stored_update stored_filter

interpretation typed_floor: floor_repo typed
proof (unfold_locales, goal_cases)
  case (15 s i r wc good scrap nid now reason ts)
  have "preserves typed (record_count nid now i wc good scrap reason ts)"
    unfolding floor_statements by (intro statement_rules) (simp_all add: typed_statement)
  from preservesD [OF this 15(1)] show ?case .
next
  case 1
  then show ?case by (simp add: typed_defs)
qed (unfold floor_statements, intro statement_rules; auto intro!: statement_rules simp: typed_statement)+

interpretation typed_cmms: cmms_repo typed
  by unfold_locales
    (unfold cmms_statements, intro statement_rules; auto intro!: statement_rules simp: typed_statement split: pm_trigger.split)+

interpretation typed_quality: quality_repo typed
  by unfold_locales
    (unfold quality_statements, intro statement_rules; auto intro!: statement_rules simp: typed_statement split: option.split)+

interpretation typed_master: master_repo typed
  by unfold_locales (unfold master_statements deletions, intro statement_rules; simp add: typed_statement)+

interpretation typed_erp: erp_repo typed
proof (unfold_locales, goal_cases)
  case (1 w ids now order)
  show ?case by (rule typed_floor.order_ops)
qed (unfold erp_statements, intro statement_rules; simp add: typed_statement)+

interpretation typed_edge: repo_predicate typed
  by unfold_locales

section \<open>Errors that are never raised\<close>

text \<open>
  A program avoids a set of errors from the states of an invariant.  The rules reduce this to the places where such an
  error is written, with what is known there of the value read last.
\<close>

named_theorems avoids_rules \<open>errors the program combinators never raise\<close>

definition avoids :: "('s \<Rightarrow> bool) \<Rightarrow> 'e set \<Rightarrow> ('s, 'e, 'a) prog \<Rightarrow> bool" where
  "avoids I E m \<longleftrightarrow> (\<forall>s. I s \<longrightarrow> fst (m s) \<notin> Inl ` E)"

lemma avoidsD: "avoids I E m \<Longrightarrow> I s \<Longrightarrow> fst (m s) \<notin> Inl ` E"
  by (simp add: avoids_def)

lemma avoids_pure [avoids_rules]:
  "avoids I E (ret x)" "avoids I E (gets f)" "avoids I E (modify g)"
  by (auto simp: avoids_def prog_simps)

lemma avoids_guard [avoids_rules]: "e \<notin> E \<Longrightarrow> avoids I E (guard b e)"
  by (auto simp: avoids_def prog_simps)

lemma avoids_okOr [avoids_rules]: "e \<notin> E \<Longrightarrow> avoids I E (okOr e x)"
  by (auto simp: avoids_def prog_simps split: option.split)

lemma avoids_okOr_Some: "x \<noteq> None \<Longrightarrow> avoids I E (okOr e x)"
  by (auto simp: avoids_def prog_simps)

lemma avoids_mapErr [avoids_rules]: "range g \<inter> E = {} \<Longrightarrow> avoids I E (mapErr g m)"
  by (auto simp: avoids_def prog_simps split: sum.splits prod.splits)

lemma avoids_transaction [avoids_rules]: "avoids I E m \<Longrightarrow> avoids I E (transaction m)"
  by (fastforce simp: avoids_def prog_simps split: sum.splits prod.splits)

lemma avoids_if [avoids_rules]: "avoids I E m \<Longrightarrow> avoids I E n \<Longrightarrow> avoids I E (if b then m else n)"
  by simp

lemma avoids_andThen:
  assumes "avoids I E m" "preserves I m" "\<And>x. (\<exists>s s'. I s \<and> m s = (Inr x, s')) \<Longrightarrow> avoids I E (f x)"
  shows "avoids I E (andThen m f)"
proof -
  have "fst (andThen m f s) \<notin> Inl ` E" if I: "I s" for s
  proof (cases "m s")
    case (Pair r s')
    with I assms(1) have ne: "r \<notin> Inl ` E" by (auto simp: avoids_def)
    from preserves_runD [OF assms(2) I Pair] have I': "I s'" .
    show ?thesis
    proof (cases r)
      case (Inl e)
      with ne Pair show ?thesis by (auto simp: prog_simps)
    next
      case (Inr x)
      with Pair I assms(3) [of x] I' show ?thesis by (auto simp: prog_simps avoids_def)
    qed
  qed
  then show ?thesis by (simp add: avoids_def)
qed

lemma avoids_next [avoids_rules]:
  "avoids I E m \<Longrightarrow> preserves I m \<Longrightarrow> (\<And>x. avoids I E (f x)) \<Longrightarrow> avoids I E (andThen m f)"
  by (rule avoids_andThen) auto

lemma avoids_parsed:
  assumes "\<And>s x s'. I s \<Longrightarrow> m s = (Inr x, s') \<Longrightarrow> p x \<noteq> None"
    and "avoids I E m" "preserves I m" "\<And>x y. avoids I E (f x y)"
  shows "avoids I E (andThen m (\<lambda>x. andThen (okOr e (p x)) (f x)))"
  by (rule avoids_andThen [OF assms(2,3)], rule avoids_next [OF avoids_okOr_Some preserves_okOr assms(4)])
    (use assms(1) in blast)

lemma avoids_pool [avoids_rules]: "(503::nat) \<notin> err_status ` E \<Longrightarrow> avoids I E require_pool"
  by (force simp: avoids_def require_pool_def prog_simps)

section \<open>Stored texts are always understood\<close>

text \<open>The answers the handlers keep for a stored text that names no value of its enumeration.\<close>

definition corrupt_answers :: "api_err set" where
  "corrupt_answers = ApiErr 500 ''internal'' ` {''unknown stored status'', ''unknown operation status'', ''bad status''}"

lemma corrupt_answers_other [simp]:
  "ApiErr n ''invalid_transition'' m \<notin> corrupt_answers" "ApiErr n ''forbidden'' m \<notin> corrupt_answers"
  "503 \<notin> err_status ` corrupt_answers" "range repo_err \<inter> corrupt_answers = {}"
  by (auto simp: corrupt_answers_def repo_err_def split: repo_error.splits)

lemma typed_parses:
  assumes "typed s"
  shows "find_row wo_id i (t_work_orders s) = Some r1 \<Longrightarrow> wo_parse (wo_st r1) \<noteq> None"
    and "find_row op_id i (t_wo_operations s) = Some r2 \<Longrightarrow> op_parse (op_st r2) \<noteq> None"
    and "find_row rv_id i (t_revisions s) = Some r3 \<Longrightarrow> revision_parse (rv_status r3) \<noteq> None"
    and "find_row mw_id i (t_maintenance_wos s) = Some r4 \<Longrightarrow> mwo_parse (mw_status r4) \<noteq> None"
  using assms
  by (auto simp: typed_defs wo.parse_None op.parse_None revision.parse_None mwo.parse_None dest!: find_row_SomeD)

lemma typed_reads:
  assumes "typed s"
  shows "mapErr repo_err (get_work_order i) s = (Inr r1, s1) \<Longrightarrow> wo_parse (wo_st r1) \<noteq> None"
    and "mapErr repo_err (get_operation i) s = (Inr r2, s2) \<Longrightarrow> op_parse (op_st r2) \<noteq> None"
    and "mapErr repo_err (get_revision i) s = (Inr r3, s3) \<Longrightarrow> revision_parse (rv_status r3) \<noteq> None"
    and "get_maintenance_wo i s = (Inr r4, s4) \<Longrightarrow> mwo_parse (mw_status r4) \<noteq> None"
  using typed_parses [OF assms]
  by (auto simp: get_work_order_def get_operation_def get_revision_def get_maintenance_wo_def prog_simps split: option.splits)

lemma typed_gets [preserves_rules]:
  "preserves typed (get_work_order i)" "preserves typed (get_operation i)" "preserves typed (get_revision i)"
  "preserves typed (get_maintenance_wo i)" "preserves typed require_pool"
  by (simp_all add: preserves_def get_work_order_def get_operation_def get_revision_def get_maintenance_wo_def require_pool_def
      prog_simps split: option.split)

lemmas typed_rules = preserves_rules typed_log.keeps_effects typed_floor.order_ops typed_floor.dnc_ops typed_floor.keeps_transition
  typed_floor.keeps_job_complete

lemma avoids_transition: "avoids typed corrupt_answers (transition_wo nid now actor i x)"
  unfolding transition_wo_def
  by (rule avoids_next, simp add: avoids_pool, rule preserves_rules, rule avoids_parsed, erule (1) typed_reads)
    (intro avoids_rules typed_rules; simp)+

lemma avoids_start: "avoids typed corrupt_answers (start_op ids now u i)"
  unfolding start_op_def parse_op_status_def
  by (rule avoids_next, simp add: avoids_pool, rule preserves_rules, rule avoids_parsed, erule (1) typed_reads)
    (intro avoids_rules typed_rules avoids_transition; simp)+

lemma avoids_complete: "avoids typed corrupt_answers (complete_op net ids now u i)"
  unfolding complete_op_def parse_op_status_def
  by (rule avoids_next, simp add: avoids_pool, rule preserves_rules, rule avoids_parsed, erule (1) typed_reads)
    (intro avoids_rules typed_rules; simp)+

lemma avoids_review: "avoids typed corrupt_answers (transition_revision nid now u i x)"
  unfolding transition_revision_def
  by (rule avoids_next, simp add: avoids_guard, rule preserves_rules,
      rule avoids_next, simp add: avoids_pool, rule preserves_rules, rule avoids_parsed, erule (1) typed_reads)
    (intro avoids_rules typed_rules; simp)+

lemma avoids_maintenance: "avoids typed {Conflict ''corrupt status''} (transition_maintenance_wo now i nxt tech code)"
  unfolding transition_maintenance_wo_def
  by (rule avoids_next, simp add: avoids_okOr, rule preserves_rules, rule avoids_transaction, rule avoids_parsed, erule (1) typed_reads,
      simp add: get_maintenance_wo_def avoids_def prog_simps split: option.split, rule typed_gets, rule avoids_next,
      simp add: avoids_guard, rule preserves_rules)
    (auto simp: avoids_def sql_update_def bad_ref_def map_sqlx_def split: option.split)

section \<open>Property\<close>

text \<open>
  C11.  Stored texts stay well typed.  Every status, kind, direction, reason, outcome and disposition
  in the database names a value of its enumeration after any run of requests to the edge service that started so.
  Hence no handler ever finds a stored status it cannot parse: moving a work order, an operation, a program
  revision or a maintenance order never fails with the answer kept for a corrupt row.
\<close>

theorem edge_well_typed:
  assumes "edge_run ls s s'" "typed s"
  shows "typed s' \<and>
    fst (transition_wo nid now actor i x s') \<notin> Inl ` corrupt_answers \<and>
    fst (start_op ids now u i s') \<notin> Inl ` corrupt_answers \<and>
    fst (complete_op net ids now u i s') \<notin> Inl ` corrupt_answers \<and>
    fst (transition_revision nid now u i y s') \<notin> Inl ` corrupt_answers \<and>
    fst (transition_maintenance_wo now i nxt tech code s') \<noteq> Inl (Conflict ''corrupt status'')"
proof -
  from typed_edge.served.edge_run_keeps [OF assms(1) _ assms(2)] have "typed s'" by simp
  then show ?thesis
    by (simp add: avoidsD [OF avoids_transition] avoidsD [OF avoids_start] avoidsD [OF avoids_complete]
        avoidsD [OF avoids_review] avoidsD [OF avoids_maintenance, simplified])
qed

lemma sample_erp_typed: "typed sample_erp"
  by (simp add: typed_defs sample_erp_defs new_revision_def)

theorem edge_well_typed_witness:
  "edge_run [Neutral] sample_erp (snd (start_op (\<lambda>n. ''A'') 5 floor_user ''O1'' sample_erp)) \<and>
   typed (snd (start_op (\<lambda>n. ''A'') 5 floor_user ''O1'' sample_erp)) \<and>
   fst (complete_op (\<lambda>_ _. None) (\<lambda>n. ''B'') 6 floor_user ''O1'' (snd (start_op (\<lambda>n. ''A'') 5 floor_user ''O1'' sample_erp)))
     \<notin> Inl ` corrupt_answers"
proof -
  let ?s' = "snd (start_op (\<lambda>n. ''A'') 5 floor_user ''O1'' sample_erp)"
  have run: "edge_run [Neutral] sample_erp ?s'"
    by (rule edge_cons, rule edge_floor, rule floor_step.start, rule edge_nil)
  with edge_well_typed [OF run sample_erp_typed, where net = "\<lambda>_ _. None" and ids = "\<lambda>n. ''B''" and now = 6 and u = floor_user and i = "''O1''"]
  show ?thesis by blast
qed

end
