(* ===== verification/Concurrency.thy ===== *)
theory Concurrency
  imports Whole Typing
begin

text \<open>
  Requests in flight at the same time.  The edge service serves every request in its own task; tasks
  share the connection pool, so between two statements of one handler other handlers may commit.  The
  theory describes the unit that is not interrupted, shows which properties of the service survive
  every interleaving, and where a handler's check and its write can be separated.
\<close>

section \<open>Commits\<close>

text \<open>
  One commit: a repository call that is a single statement or a transaction of \<^verbatim>\<open>mes-db\<close>, the change of
  the transfer daemon's handle, or an event.  The arguments are arbitrary, since a handler
  computes them from what it read in an earlier state.  Where a repository call consists of several statements
  outside a transaction, its writing statement is the commit: the hold check of \<open>issue_material\<close> and the usage
  baseline of \<open>create_pm_schedule\<close> are read before.  A count names the work center of its operation, which
  no statement changes (\<open>center_stays\<close> below).  Transactions are taken to be serialised by
  the database.
\<close>

inductive commit :: "'s master_db_scheme \<Rightarrow> 's master_db_scheme \<Rightarrow> bool" where
  log: "commit s (audit nid now actor action entity key detail s)"
| event: "commit s (publish ev s)"
| daemon: "commit s (s\<lparr>dnc := dm\<rparr>)"
| create_order: "commit s (snd (create_work_order w ids now order s))"
| order_status: "commit s (snd (set_work_order_status now i (wo_as_str wst) s))"
| op_start: "commit s (snd (start_operation now i s))"
| op_complete: "commit s (snd (complete_operation now i s))"
| count: "find_row op_id i (t_wo_operations s) = Some r \<Longrightarrow> op_work_center_id r = Some wc \<Longrightarrow> 0 \<le> good \<Longrightarrow> 0 \<le> scrap \<Longrightarrow>
    commit s (snd (record_count nid now i wc good scrap reason ts s))"
| classify: "commit s (snd (classify_downtime now i code who s))"
| split: "commit s (snd (split_downtime nid now i ts reason reason2 who s))"
| machine_event: "commit s (snd (insert_machine_event nid ts wc src evkind payload s))"
| production: "commit s (snd (insert_production_count nid ts wc src good scrap s))"
| derived: "commit s (snd (replace_derived ids now wc ts te states stops s))"
| transfer: "commit s (snd (create_transfer nid now reason pid (direction_as_str dir) ref s))"
| transfer_status: "commit s (snd (set_transfer_status now i (transfer_as_str tst) s))"
| draft_revision: "commit s (snd (create_draft_revision nid now pid src content who_opt s))"
| revision_status: "commit s (snd (set_revision_status now i (revision_as_str rst) who s))"
| lot: "commit s (snd (create_lot nid now lot part qty uom s))"
| serial: "commit s (snd (create_serial nid now serial part lot_opt s))"
| genealogy: "commit s (snd (add_genealogy nid now parent child qty_opt s))"
| hold: "commit s (snd (place_hold nid now etype eid why who s))"
| unhold: "commit s (snd (release_hold now i who s))"
| issue: "commit s (snd (insert_material_txn nid now lot_opt serial_opt qty wop who s))"
| inspection_plan: "commit s (snd (create_plan nid now part code name s))"
| characteristic: "commit s (snd (create_characteristic nid plan name uom_opt q1 q2 q3 s))"
| result: "commit s (snd (record_result ids now ch lot_opt serial_opt wop qty who s))"
| disposition: "commit s (snd (disposition_ncr now i disp why who s))"
| pm: "pm_trigger_type r \<in> range pm_trigger_as_str \<Longrightarrow> commit s (snd (insert_pm r s))"
| mwo: "commit s (snd (create_maintenance_wo nid now wc pm_opt wtype notes s))"
| mwo_status: "commit s (snd (transition_maintenance_wo now i nxt tech failure s))"
| spare: "commit s (snd (create_spare_part nid code name uom qty qty2 s))"
| spare_txn: "commit s (snd (record_spare_txn ids now i mwo_opt txn qty who s))"
| procurement: "commit s (snd (create_procurement_request nid now i qty s))"
| site: "commit s (snd (create_site nid now code name tz s))"
| site_change: "commit s (snd (update_site now i code name tz s))"
| site_gone: "commit s (snd (delete_site i s))"
| area: "commit s (snd (create_area nid now st code name s))"
| area_change: "commit s (snd (update_area now i code name s))"
| area_gone: "commit s (snd (delete_area i s))"
| center: "commit s (snd (create_work_center nid now st code name ext s))"
| center_change: "commit s (snd (update_work_center now i code name ext s))"
| center_gone: "commit s (snd (delete_work_center i s))"
| part: "commit s (snd (create_part nid now code name uom s))"
| part_change: "commit s (snd (update_part now i code name uom s))"
| part_gone: "commit s (snd (delete_part i s))"
| program: "commit s (snd (create_program nid now prog s))"
| user: "commit s (snd (create_user nid now name code uom h1 h2 h3 s))"
| connection: "commit s (snd (create_connection nid now st_opt name url tok fm direction en s))"
| connection_change: "commit s (snd (update_connection now i st_opt name url tok fm direction en s))"
| connection_gone: "commit s (snd (delete_connection i s))"
| sync_log: "commit s (snd (insert_sync_log nid now i direction name records status details s))"
| sent: "commit s (snd (mark_procurement_sent now keys ref s))"

abbreviation commits :: "'s master_db_scheme \<Rightarrow> 's master_db_scheme \<Rightarrow> bool" where
  "commits \<equiv> commit\<^sup>*\<^sup>*"

lemma commits_step: "commit t u \<Longrightarrow> commits s t \<Longrightarrow> commits s u"
  by (rule rtranclp.rtrancl_into_rtrancl)

lemma commits_preserves: "(\<And>t. commit t (snd (m t))) \<Longrightarrow> preserves (commits s) m"
  by (rule preservesI) (blast intro: commits_step)

text \<open>Every request is a sequence of commits, whatever it does between them.\<close>

interpretation commits_log: logged_predicate "commits s" for s
  by unfold_locales (erule commits_step [rotated], rule commit.intros)+

lemma commits_issue: "preserves (commits s) (issue_material nid now lot_opt serial_opt qty wop who)"
  unfolding issue_material_def check_not_held_def is_held_def
  by (intro preserves_rules)
    (auto intro!: preserves_rules commits_preserves [OF commit.issue] split: option.split)

lemma commits_pm: "preserves (commits s) (create_pm_schedule ar nid now wc name trigger interval checklist)"
  unfolding create_pm_schedule_def work_center_run_hours_def Let_def
  by (intro preserves_rules)
    (auto intro!: preserves_rules commits_preserves [OF commit.pm] split: pm_trigger.split)

interpretation commits_repo: repo_predicate "commits s" for s
proof (unfold_locales, goal_cases)
  case (1 t dm)
  then show ?case by (rule commits_step [OF commit.daemon])
next
  case (15 t i r wc good scrap nid now reason ts)
  then show ?case by (blast intro: commits_step commit.count)
qed (rule commits_issue commits_pm | rule commits_preserves, rule commit.intros)+

lemma request_commits: "edge_run ls s s' \<Longrightarrow> commits s s'"
  by (rule commits_repo.served.edge_run_keeps) auto

section \<open>What every interleaving keeps\<close>

text \<open>A predicate that the repositories keep, and the two writing statements that stand alone, survives every commit.\<close>

locale commit_predicate = repo_predicate +
  assumes issue_keeps: "preserves I (insert_material_txn nid now lot_opt serial_opt qty wop who)"
    and pm_keeps: "pm_trigger_type r \<in> range pm_trigger_as_str \<Longrightarrow> preserves I (insert_pm r)"
begin

lemma commit_keeps: "commit s s' \<Longrightarrow> I s \<Longrightarrow> I s'"
  by (induction rule: commit.induct)
    (erule log event daemon | rule count_op; assumption | (erule preservesD [rotated],
      rule order_ops ingest_ops dnc_ops trace_ops qms_ops cmms_ops master_ops erp_ops issue_keeps pm_keeps; assumption?))+

lemma commits_keep: "commits s s' \<Longrightarrow> I s \<Longrightarrow> I s'"
  by (induction rule: rtranclp_induct) (auto intro: commit_keeps)

end

interpretation integrity_commits: commit_predicate integrity
  by unfold_locales
    (auto simp: insert_material_txn_def insert_pm_def integrity_defs fk_simps intro!: preserves_rules preserves_sql_exec)

interpretation typed_commits: commit_predicate typed
  by unfold_locales
    (auto simp: insert_material_txn_def insert_pm_def typed_defs intro!: preserves_rules preserves_sql_exec)

text \<open>The books of the floor, without the order in which statuses moved.\<close>

definition ledger :: "'s master_db_scheme \<Rightarrow> bool" where
  "ledger s \<longleftrightarrow> integrity s \<and> orders_inv s \<and> stationed s"

lemma ledger_iff: "ledger s \<longleftrightarrow> books (plan_of s) s"
  by (simp add: ledger_def books_def)

lemma ledger_of_books: "books A s \<Longrightarrow> ledger s"
  by (simp add: ledger_def books_def)

lemma ledger_books:
  assumes "\<And>A. preserves (books A) m"
  shows "preserves ledger m"
  by (rule preservesI) (simp add: ledger_iff ledger_of_books [unfolded ledger_iff, OF preservesD [OF assms]])

lemma ledger_parts:
  "preserves integrity m \<Longrightarrow> preserves orders_inv m \<Longrightarrow> preserves stationed m \<Longrightarrow> preserves ledger m"
  by (simp add: preserves_def ledger_def)

lemma ledger_frame:
  "(\<And>v. preserves (\<lambda>s. orders_part s = v) m) \<Longrightarrow> preserves integrity m \<Longrightarrow> preserves ledger m"
  by (intro ledger_books books_frame)

lemma floor_orders_frame:
  "preserves (\<lambda>s. orders_part s = v) (classify_downtime now i code who)"
  "preserves (\<lambda>s. orders_part s = v) (split_downtime nid now i ts reason reason2 who)"
  "preserves (\<lambda>s. orders_part s = v) (insert_machine_event nid ts wc src evkind payload)"
  "preserves (\<lambda>s. orders_part s = v) (create_transfer nid now reason pid dir ref)"
  "preserves (\<lambda>s. orders_part s = v) (set_transfer_status now i st)"
  "preserves (\<lambda>s. orders_part s = v) (create_draft_revision nid now pid src content who_opt)"
  "preserves (\<lambda>s. orders_part s = v) (set_revision_status now i st who)"
  "preserves (\<lambda>s. orders_part s = v) (replace_derived ids now wc ts te states stops)"
  "preserves (\<lambda>s. orders_part s = v) (insert_material_txn nid now lot_opt serial_opt qty wop who)"
  "preserves (\<lambda>s. orders_part s = v) (insert_pm pr)"
  unfolding floor_statements insert_material_txn_def insert_pm_def
  by (intro statement_rules; auto intro!: statement_rules simp: part_defs)+

lemma stationed_ops:
  "preserves stationed (set_work_order_status now i st)"
  "preserves stationed (start_operation now i)"
  "preserves stationed (complete_operation now i)"
  "preserves stationed (insert_production_count nid ts wc src good scrap)"
  subgoal unfolding set_work_order_status_def by (intro preserves_sql_update) (simp add: stationed_def)
  subgoal unfolding start_operation_def update_operation_def
    by (intro preserves_sql_update) (rule stationed_update [OF op_start.row_update_axioms], simp_all add: op_start_def)
  subgoal unfolding complete_operation_def update_operation_def
    by (intro preserves_sql_update) (rule stationed_update [OF op_complete.row_update_axioms], simp_all add: op_complete_def)
  subgoal unfolding insert_production_count_def by (intro preserves_rules preserves_sql_exec_by) (auto simp: stationed_def)
  done

lemma orders_inv_unbooked: "preserves orders_inv (insert_production_count nid ts wc src good scrap)"
  unfolding insert_production_count_def
  by (intro preserves_rules preserves_sql_exec_by) (auto simp: orders_inv_def booked_append booked_def)

lemma ledger_count:
  assumes "ledger s" "find_row op_id i (t_wo_operations s) = Some r" "op_work_center_id r = Some wc" "0 \<le> good" "0 \<le> scrap"
  shows "ledger (snd (record_count nid now i wc good scrap reason ts s))"
proof -
  have inv: "preserves orders_inv (record_count nid now i wc good scrap reason ts)" by (rule preserves_rules)
  from assms(1) have "integrity s" "orders_inv s" "stationed s" by (simp_all add: ledger_def)
  from preservesD [OF integrity_record_count this(1)] preservesD [OF inv this(2)] stations.count_keeps [OF this(3) assms(2-)]
  show ?thesis by (simp add: ledger_def)
qed

lemma forget_holds:
  "(\<And>w. preserves (\<lambda>s. orders_part s = v \<and> holds_part s = w) m) \<Longrightarrow> preserves (\<lambda>s. orders_part s = v) m"
  by (simp add: preserves_def)

lemmas cmms_orders_frame = cmms_frame.cmms_ops [THEN forget_holds]

interpretation ledger_log: logged_predicate ledger
  by unfold_locales (rule ledger_of_books, rule books_log.log books_log.event, erule ledger_iff [THEN iffD1])+

interpretation ledger_commits: commit_predicate ledger
proof (unfold_locales, goal_cases)
  case (1 s dm)
  then show ?case using whole.daemon [of s dm] by (simp add: ledger_def orders_inv_def stationed_def)
next
  case (15 s i r wc good scrap nid now reason ts)
  then show ?case by (rule ledger_count)
next
  case (2 w ids now order)
  show ?case by (intro ledger_parts stations.create_keeps whole.order_ops preserves_rules)
qed ((rule ledger_parts, rule whole.order_ops whole.ingest_ops, rule preserves_rules orders_inv_unbooked, rule stationed_ops) |
  (rule ledger_frame, rule floor_orders_frame quality_frame.trace_ops quality_frame.qms_ops cmms_orders_frame
     connection_frame, rule whole.order_ops whole.ingest_ops whole.dnc_ops whole.trace_ops whole.qms_ops whole.cmms_ops whole.erp_ops
     integrity_commits.issue_keeps integrity_commits.pm_keeps; assumption?) |
  (rule ledger_books, rule books_master.master_ops))+

text \<open>
  Facts about single rows that no statement undoes: a report once dispositioned, a request once sent,
  the work center of an operation.
\<close>

definition settled ::
  "ncr_row set \<Rightarrow> proc_row set \<Rightarrow> (string \<times> string option) set \<Rightarrow> 's master_db_scheme \<Rightarrow> bool" where
  "settled N P C s \<longleftrightarrow>
     N \<subseteq> {r \<in> set (t_ncrs s). nc_status r = ''dispositioned''} \<and>
     P \<subseteq> {r \<in> set (t_procurement_requests s). pr_status r = ''sent_to_erp''} \<and>
     C \<subseteq> (\<lambda>r. (op_id r, op_work_center_id r)) ` set (t_wo_operations s)"

lemma settled_open: "x \<in> set rows \<Longrightarrow> \<not> B x \<Longrightarrow> x \<in> set (update_where B upd rows)"
  by (auto simp: update_where_def)

lemma settled_image: "(\<And>r. f (upd r) = f r) \<Longrightarrow> f ` set (update_where B upd rows) = f ` set rows"
  by (induction rows) (auto simp: update_where_def)

lemmas settled_statement = settled_def settled_image op_start_def op_complete_def op_add_counts_def
  new_ncr_def ncr_is_open_def

interpretation settled_log: logged_predicate "settled N P C" for N P C
proof (unfold_locales, goal_cases)
  case (1 s nid now actor action entity key detail)
  then show ?case by (subst audit_is_log) (simp add: settled_def)
next
  case 2
  then show ?case by (simp add: publish_def settled_def)
qed

interpretation settled_floor: floor_repo "settled N P C" for N P C
proof (unfold_locales, goal_cases)
  case (15 s i r wc good scrap nid now reason ts)
  have "preserves (settled N P C) (record_count nid now i wc good scrap reason ts)"
    unfolding floor_statements by (intro statement_rules) (simp_all add: settled_statement)
  from preservesD [OF this 15(1)] show ?case .
next
  case 1
  then show ?case by (simp add: settled_def)
qed (unfold floor_statements, intro statement_rules; auto intro!: statement_rules simp: settled_statement)+

interpretation settled_rest: repo_predicate "settled N P C" for N P C
proof (unfold_locales, goal_cases)
  fix w :: wire and ids now order
  show "preserves (settled N P C) (create_work_order w ids now order)" by (rule settled_floor.order_ops)
qed (unfold quality_statements cmms_statements master_statements deletions erp_statements, intro statement_rules;
  auto intro!: statement_rules settled_open simp: settled_statement split: option.split pm_trigger.split)+

interpretation settled_commits: commit_predicate "settled N P C" for N P C
  by unfold_locales
    (auto simp: insert_material_txn_def insert_pm_def settled_def intro!: preserves_rules preserves_sql_exec)

lemma center_stays:
  "commits s s' \<Longrightarrow> (\<lambda>r. (op_id r, op_work_center_id r)) ` set (t_wo_operations s) \<subseteq>
     (\<lambda>r. (op_id r, op_work_center_id r)) ` set (t_wo_operations s')"
  using settled_commits.commits_keep [of s s' "{}" "{}"] by (simp add: settled_def)

section \<open>Checks that are separated from their writes\<close>

text \<open>
  The status of a work order is read and checked by one statement and written by another that does not look
  at it.  When two requests move the same draft, one cancelling it, both checks pass; the release
  then overwrites the cancellation, although a cancelled order is final.
\<close>

lemma transition_race:
  assumes "wo_status_of s i = Some (wo_as_str WoDraft)"
  shows "\<exists>s1 s2. commit s s1 \<and> commit s1 s2 \<and> wo_status_of s1 i = Some (wo_as_str WoCancelled) \<and>
     wo_status_of s2 i = Some (wo_as_str WoReleased) \<and> \<not> wo_can_transition\<^sup>*\<^sup>* WoCancelled WoReleased"
proof -
  let ?s1 = "snd (set_work_order_status now i (wo_as_str WoCancelled) s)"
  let ?s2 = "snd (set_work_order_status now i (wo_as_str WoReleased) ?s1)"
  obtain r where r: "find_row wo_id i (t_work_orders s) = Some r" using assms by (auto simp: wo_status_of_def)
  have "wo_status_of ?s1 i = Some (wo_as_str WoCancelled)" "wo_status_of ?s2 i = Some (wo_as_str WoReleased)"
    using r by (simp_all add: set_work_order_status_def sql_update_def wo_status_of_def wo_set_status.find_update_key
        wo_set_status_def)
  moreover have "\<not> wo_can_transition\<^sup>*\<^sup>* WoCancelled WoReleased"
    by (auto simp: wo_can_transition_def elim: converse_rtranclpE)
  moreover have "commit s ?s1" "commit ?s1 ?s2" by (rule commit.order_status)+
  ultimately show ?thesis by blast
qed

text \<open>
  Likewise the hold check of an issue is a statement of its own: a hold placed after it does not stop
  the issue.
\<close>

lemma issue_race:
  assumes "\<not> held s (''lot'', x)" "has_key lt_id x (t_lots s)" "has_key us_id who (t_users s)"
    and "\<not> has_key hd_id h (t_holds s)" "\<not> has_key mt_id t (t_material_txns s)"
  shows "\<exists>s1 s2. fst (check_not_held ''lot'' (Some x) msg s) = Inr () \<and> commit s s1 \<and> commit s1 s2 \<and>
     held s1 (''lot'', x) \<and> (\<exists>r. t_material_txns s2 = t_material_txns s @ [r] \<and> mt_lot_id r = Some x)"
proof -
  let ?s1 = "snd (place_hold h now ''lot'' x None who s)"
  let ?s2 = "snd (insert_material_txn t now (Some x) None 1 None who ?s1)"
  have s1: "?s1 = s\<lparr>t_holds := t_holds s @ [new_hold h now (''lot'', x) None who None]\<rparr>"
    using assms by (simp add: place_hold_def insert_hold_def prog_simps missing_ref_def new_hold_def)
  then have "held ?s1 (''lot'', x)" by (simp add: held_def active_hold_def new_hold_def)
  moreover have "\<exists>r. t_material_txns ?s2 = t_material_txns s @ [r] \<and> mt_lot_id r = Some x"
    unfolding s1 using assms by (simp add: insert_material_txn_def prog_simps missing_ref_def)
  moreover have "fst (check_not_held ''lot'' (Some x) msg s) = Inr ()"
    using assms(1) by (simp add: check_not_held_eval)
  moreover have "commit s ?s1" "commit ?s1 ?s2" by (rule commit.hold commit.issue)+
  ultimately show ?thesis by blast
qed

section \<open>Property\<close>

text \<open>
  C5.  What concurrent requests cannot break.  Whatever statements any number of requests in
  flight commit, in any interleaving and with arguments from whatever they read before, all
  references name rows, the totals of every operation are the sums of its booked counts, every stored text
  parses, a dispositioned report and a request sent to the planning system keep their row unchanged, and an
  operation keeps its work center.
\<close>

theorem interleavings_safe:
  assumes "commits s s'" "integrity s" "orders_inv s" "stationed s" "typed s"
  shows "integrity s' \<and> orders_inv s' \<and> stationed s' \<and> typed s' \<and>
    {r \<in> set (t_ncrs s). nc_status r = ''dispositioned''} \<subseteq> set (t_ncrs s') \<and>
    {r \<in> set (t_procurement_requests s). pr_status r = ''sent_to_erp''} \<subseteq> set (t_procurement_requests s') \<and>
    (\<lambda>r. (op_id r, op_work_center_id r)) ` set (t_wo_operations s) \<subseteq>
      (\<lambda>r. (op_id r, op_work_center_id r)) ` set (t_wo_operations s')"
proof -
  let ?N = "{r \<in> set (t_ncrs s). nc_status r = ''dispositioned''}"
  let ?P = "{r \<in> set (t_procurement_requests s). pr_status r = ''sent_to_erp''}"
  have "settled ?N ?P {} s'" by (rule settled_commits.commits_keep [OF assms(1)]) (simp add: settled_def)
  moreover have "ledger s'" by (rule ledger_commits.commits_keep [OF assms(1)]) (simp add: ledger_def assms)
  moreover have "typed s'" by (rule typed_commits.commits_keep [OF assms(1,5)])
  ultimately show ?thesis using center_stays [OF assms(1)] by (auto simp: settled_def ledger_def)
qed

theorem interleavings_safe_witness:
  "\<exists>s'. commits sample_edge s' \<and> integrity s' \<and> orders_inv s' \<and> typed s' \<and>
     map op_qty_good (t_wo_operations s') = [5, 0]"
proof -
  let ?s1 = "snd (record_count ''C1'' 5 ''O1'' ''M1'' 2 0 None 5 sample_edge)"
  let ?s2 = "snd (record_count ''C2'' 6 ''O1'' ''M1'' 3 0 None 6 ?s1)"
  note count = record_count_def insert_production_count_row_def update_operation_def op_add_counts_def prog_simps
    missing_ref_def in_i32_def update_where_def sample_edge_def sample_erp_defs table_simps
  have q: "map op_qty_good (t_wo_operations ?s2) = [5, 0]" by (simp add: count)
  have "\<exists>r. find_row op_id ''O1'' (t_wo_operations sample_edge) = Some r \<and> op_work_center_id r = Some ''M1''"
    by (simp add: count)
  then have c1: "commit sample_edge ?s1" by (elim exE conjE) (erule (1) commit.count; simp)
  have "\<exists>r. find_row op_id ''O1'' (t_wo_operations ?s1) = Some r \<and> op_work_center_id r = Some ''M1''"
    by (simp add: count)
  then have c2: "commit ?s1 ?s2" by (elim exE conjE) (erule (1) commit.count; simp)
  have run: "commits sample_edge ?s2" by (rule commits_step [OF c2], rule commits_step [OF c1], rule rtranclp.rtrancl_refl)
  have "typed sample_edge" using sample_erp_typed by (simp add: sample_edge_def typed_defs)
  from interleavings_safe [OF run sample_edge_integrity sample_edge_books this]
  have "integrity ?s2 \<and> orders_inv ?s2 \<and> typed ?s2" by (elim conjE) (intro conjI; assumption)
  note safe = this [THEN conjunct1] this [THEN conjunct2, THEN conjunct1] this [THEN conjunct2, THEN conjunct2]
  show ?thesis by (rule exI [of _ ?s2]) (intro conjI run safe q)
qed

end
