(* ===== verification/Service.thy ===== *)
theory Service
  imports Edge Agent
begin

text \<open>
  Starting and observing the services: configuration from the environment, the state handlers share
  (\<^verbatim>\<open>config.rs\<close>, \<^verbatim>\<open>lib.rs\<close> and \<^verbatim>\<open>http.rs\<close> of \<^verbatim>\<open>mes-edge\<close> and \<^verbatim>\<open>mes-cloud\<close>), the probes, the live event
  stream (\<^verbatim>\<open>ws.rs\<close>) and the scripted signal source (\<^verbatim>\<open>mes-ingest\<close>).  Environment, network and
  database are arguments.
\<close>

section \<open>Configuration\<close>

text \<open>
  Rust's \<open>str::parse\<close> for 32-bit unsigned and 64-bit signed integers: an optional sign, at least one digit,
  nothing else, and a value in range.
\<close>

definition digit_value :: "char \<Rightarrow> nat option" where
  "digit_value c = (if (48 :: nat) \<le> of_char c \<and> of_char c \<le> (57 :: nat) then Some (of_char c - 48) else None)"

fun read_digits :: "nat \<Rightarrow> string \<Rightarrow> nat option" where
  "read_digits acc [] = Some acc"
| "read_digits acc (c # cs) = Option.bind (digit_value c) (\<lambda>d. read_digits (10 * acc + d) cs)"

definition read_number :: "string \<Rightarrow> nat option" where
  "read_number t = (if t = [] then None else read_digits 0 t)"

definition parse_u32 :: "string \<Rightarrow> nat option" where
  "parse_u32 t =
     Option.bind (read_number (if take 1 t = ''+'' then tl t else t)) (\<lambda>n. if n < 2 ^ 32 then Some n else None)"

definition parse_i64 :: "string \<Rightarrow> int option" where
  "parse_i64 t =
     (if take 1 t = ''-''
      then Option.bind (read_number (tl t)) (\<lambda>n. if n \<le> 2 ^ 63 then Some (- int n) else None)
      else Option.bind (read_number (if take 1 t = ''+'' then tl t else t))
             (\<lambda>n. if n < 2 ^ 63 then Some (int n) else None))"

type_synonym env = "string \<Rightarrow> string option"

record edge_config =
  ec_bind :: string
  ec_database_url :: "string option"
  ec_db_max_connections :: nat
  ec_jwt_secret :: string
  ec_jwt_ttl_secs :: int

definition edge_from_env :: "env \<Rightarrow> string \<Rightarrow> edge_config" where
  "edge_from_env e fresh =
     \<lparr>ec_bind = unwrap_or ''0.0.0.0:8080'' (e ''MES_EDGE_BIND''),
      ec_database_url = non_empty (e ''DATABASE_URL''),
      ec_db_max_connections = unwrap_or 10 (Option.bind (e ''MES_DB_MAX_CONN'') parse_u32),
      ec_jwt_secret = unwrap_or fresh (non_empty (e ''MES_JWT_SECRET'')),
      ec_jwt_ttl_secs = unwrap_or 43200 (Option.bind (e ''MES_JWT_TTL_SECS'') parse_i64)\<rparr>"

record cloud_config =
  cc_bind :: string
  cc_database_url :: "string option"
  cc_db_max_connections :: nat
  cc_admin_token :: "string option"

definition cloud_from_env :: "env \<Rightarrow> cloud_config" where
  "cloud_from_env e =
     \<lparr>cc_bind = unwrap_or ''0.0.0.0:8090'' (e ''MES_CLOUD_BIND''),
      cc_database_url = non_empty (e ''DATABASE_URL''),
      cc_db_max_connections = unwrap_or 20 (Option.bind (e ''MES_DB_MAX_CONN'') parse_u32),
      cc_admin_token = non_empty (e ''MES_CLOUD_ADMIN_TOKEN'')\<rparr>"

section \<open>Start-up\<close>

text \<open>What the machine answers at start-up: connecting to a database, migrating it, binding an address.\<close>

record host =
  connects :: "string \<Rightarrow> nat \<Rightarrow> bool"
  migrates :: "string \<Rightarrow> bool"
  binds :: "string \<Rightarrow> bool"

datatype db_error = Connect | Migrate

definition connect :: "host \<Rightarrow> string \<Rightarrow> nat \<Rightarrow> db_error + string" where
  "connect h url max_connections = (if connects h url max_connections then Inr url else Inl Connect)"

definition run_migrations :: "host \<Rightarrow> string \<Rightarrow> db_error + unit" where
  "run_migrations h pool = (if migrates h pool then Inr () else Inl Migrate)"

definition open_pool :: "host \<Rightarrow> string option \<Rightarrow> nat \<Rightarrow> string + string option" where
  "open_pool h database_url max_connections =
     (case database_url of
        None \<Rightarrow> Inr None
      | Some url \<Rightarrow>
          (case connect h url max_connections of
             Inl _ \<Rightarrow> Inl ''connecting to database''
           | Inr pool \<Rightarrow>
               (case run_migrations h pool of
                  Inl _ \<Rightarrow> Inl ''running migrations''
                | Inr _ \<Rightarrow> Inr (Some pool))))"

record app_state =
  app_pool :: "string option"
  app_auth :: auth_config
  app_dnc :: dnc_daemon
  app_erp_key :: string

definition app_state_new :: "aead \<Rightarrow> string option \<Rightarrow> auth_config \<Rightarrow> app_state" where
  "app_state_new c pool auth =
     \<lparr>app_pool = pool, app_auth = auth, app_dnc = DisconnectedDaemon, app_erp_key = derive_key c (ac_secret auth)\<rparr>"

definition with_dnc :: "dnc_daemon \<Rightarrow> app_state \<Rightarrow> app_state" where
  "with_dnc d st = st\<lparr>app_dnc := d\<rparr>"

definition run_edge :: "host \<Rightarrow> aead \<Rightarrow> env \<Rightarrow> string \<Rightarrow> string + app_state" where
  "run_edge h c e fresh =
     (let cfg = edge_from_env e fresh in
      case open_pool h (ec_database_url cfg) (ec_db_max_connections cfg) of
        Inl err \<Rightarrow> Inl err
      | Inr pool \<Rightarrow>
          (let auth = \<lparr>ac_secret = ec_jwt_secret cfg, ac_ttl_secs = ec_jwt_ttl_secs cfg\<rparr>;
               st = app_state_new c pool auth;
               st = (case e ''MES_DNC_ADDR'' of
                       None \<Rightarrow> st
                     | Some addr \<Rightarrow> if addr = [] then st else with_dnc (TcpDncClient addr 0) st)
           in if binds h (ec_bind cfg) then Inr st else Inl (''binding '' @ ec_bind cfg)))"

record cloud_state =
  cs_pool :: "string option"
  cs_admin_token :: "string option"
  cs_backend :: llm_backend

definition run_cloud :: "host \<Rightarrow> llm_http \<Rightarrow> (json \<Rightarrow> string) \<Rightarrow> env \<Rightarrow> string + cloud_state" where
  "run_cloud h net de_err e =
     (let cfg = cloud_from_env e in
      case open_pool h (cc_database_url cfg) (cc_db_max_connections cfg) of
        Inl err \<Rightarrow> Inl err
      | Inr pool \<Rightarrow>
          (let backend = (case anthropic_from_env net de_err e of Some b \<Rightarrow> b | None \<Rightarrow> null_backend)
           in if binds h (cc_bind cfg)
              then Inr \<lparr>cs_pool = pool, cs_admin_token = cc_admin_token cfg, cs_backend = backend\<rparr>
              else Inl (''binding '' @ cc_bind cfg)))"

section \<open>Probes\<close>

record health_response =
  hr_service :: string
  hr_status :: string
  hr_version :: string

definition health_ok :: "string \<Rightarrow> string \<Rightarrow> health_response" where
  "health_ok service version = \<lparr>hr_service = service, hr_status = ''ok'', hr_version = version\<rparr>"

definition healthz :: "string \<Rightarrow> string \<Rightarrow> health_response" where
  "healthz service version = health_ok service version"

text \<open>\<open>answers\<close> tells whether the database of a pool executes the probe's query.\<close>

definition is_ready :: "(string \<Rightarrow> bool) \<Rightarrow> string option \<Rightarrow> bool" where
  "is_ready answers pool = (case pool of Some p \<Rightarrow> answers p | None \<Rightarrow> False)"

definition readyz :: "string \<Rightarrow> string \<Rightarrow> (string \<Rightarrow> bool) \<Rightarrow> string option \<Rightarrow> nat \<times> health_response" where
  "readyz service version answers pool =
     (if is_ready answers pool then (200, health_ok service version)
      else (503, \<lparr>hr_service = service, hr_status = ''not_ready'', hr_version = version\<rparr>))"

section \<open>Live events\<close>

text \<open>
  The loop that serves one web-socket client.  What the broadcast receiver answers, one
  \<open>recv\<close> after the other, and which sends the socket accepts are arguments, as is the JSON text of an event
  (absent when it has none).  The result is the list of frames the client was sent.
\<close>

datatype 'e received = Received 'e | Lagged nat | Closed

fun forward :: "('e \<Rightarrow> string option) \<Rightarrow> (nat \<Rightarrow> bool) \<Rightarrow> nat \<Rightarrow> 'e received list \<Rightarrow> string list" where
  "forward to_text accepts n [] = []"
| "forward to_text accepts n (Received e # rs) =
     (case to_text e of
        None \<Rightarrow> forward to_text accepts n rs
      | Some t \<Rightarrow> if accepts n then t # forward to_text accepts (Suc n) rs else [])"
| "forward to_text accepts n (Lagged _ # rs) = forward to_text accepts n rs"
| "forward to_text accepts n (Closed # rs) = []"

section \<open>Scripted signals\<close>

record sim_source =
  sim_name :: string
  sim_pending :: "raw_signal list"
  sim_drained :: bool

definition sim_new :: "string \<Rightarrow> raw_signal list \<Rightarrow> sim_source" where
  "sim_new name signals = \<lparr>sim_name = name, sim_pending = signals, sim_drained = False\<rparr>"

definition sim_poll :: "sim_source \<Rightarrow> raw_signal list \<times> sim_source" where
  "sim_poll src =
     (if sim_drained src then ([], src)
      else (sim_pending src, src\<lparr>sim_drained := True, sim_pending := []\<rparr>))"

text \<open>The loop of \<open>cycle_run\<close>, with the signals pushed so far; \<open>None\<close> when it does not return.\<close>

partial_function (option) cycle_loop ::
  "string \<Rightarrow> timestamp \<Rightarrow> int \<Rightarrow> raw_signal list \<Rightarrow> timestamp \<Rightarrow> raw_signal list option" where
  "cycle_loop key to step_secs out t =
     (if t \<le> to
      then cycle_loop key to step_secs (out @ [\<lparr>sg_source_key = key, sg_ts = t, sg_event = Cycle\<rparr>])
             (t + seconds step_secs)
      else Some out)"

definition cycle_run :: "string \<Rightarrow> timestamp \<Rightarrow> timestamp \<Rightarrow> int \<Rightarrow> raw_signal list option" where
  "cycle_run key from_ts to_ts step_secs = cycle_loop key to_ts step_secs [] from_ts"

section \<open>Without a database\<close>

text \<open>A program is idle when it changes nothing in a service that has no database.\<close>

named_theorems idle_rules \<open>programs that change nothing without a database\<close>

definition idle :: "('s mes_base_scheme, 'e, 'a) prog \<Rightarrow> bool" where
  "idle m \<longleftrightarrow> (\<forall>s. \<not> has_pool s \<longrightarrow> snd (m s) = s)"

lemma idleD: "idle m \<Longrightarrow> \<not> has_pool s \<Longrightarrow> snd (m s) = s"
  by (simp add: idle_def)

lemma idle_pure [idle_rules]:
  "idle (ret x)" "idle (throw e)" "idle (gets f)" "idle (guard b e)" "idle (okOr e y)"
  by (simp_all add: idle_def prog_simps split: option.split)

lemma idle_choice [idle_rules]: "idle m \<Longrightarrow> idle n \<Longrightarrow> idle (if b then m else n)"
  by simp

lemma idle_writer [idle_rules]: "idle (master_writer u)"
  unfolding master_writer_def by (intro idle_rules)

lemma idle_pool [idle_rules]: "idle (andThen require_pool f)"
  by (simp add: idle_def require_pool_def prog_simps)

lemma idle_andThen [idle_rules]:
  assumes "idle m" "\<And>x. idle (f x)"
  shows "idle (andThen m f)"
proof -
  have "snd (andThen m f s) = s" if "\<not> has_pool s" for s
    using idleD [OF assms(1) that] idleD [OF assms(2) that]
    by (cases "m s") (auto simp: andThen_eval split: sum.split)
  then show ?thesis by (simp add: idle_def)
qed

lemma idle_floor: "floor_step s s' \<Longrightarrow> \<not> has_pool s \<Longrightarrow> s' = s"
  by (induction rule: floor_step.induct)
    (erule idleD [rotated], unfold create_order_def release_order_def cancel_order_def close_order_def complete_wo_def
      transition_wo_def start_op_def record_count_handler_def complete_op_def classify_downtime_handler_def
      split_downtime_handler_def ingest_signals_def recompute_def manual_transfer_def retry_transfer_def
      handle_daemon_event_def promote_revision_def reject_revision_def transition_revision_def,
      intro idle_rules; simp)+

lemma idle_quality: "quality_step l s s' \<Longrightarrow> \<not> has_pool s \<Longrightarrow> s' = s"
  by (induction rule: quality_step.induct)
    (erule idleD [rotated], unfold create_lot_handler_def create_serial_handler_def add_genealogy_handler_def
      issue_material_handler_def place_hold_handler_def release_hold_handler_def qms_handler_defs,
      intro idle_rules; simp)+

lemma idle_cmms: "cmms_step s s' \<Longrightarrow> \<not> has_pool s \<Longrightarrow> s' = s"
  by (induction rule: cmms_step.induct) (erule idleD [rotated], unfold cmms_handler_defs, intro idle_rules; simp)+

lemma idle_master: "master_step s s' \<Longrightarrow> \<not> has_pool s \<Longrightarrow> s' = s"
  by (induction rule: master_step.induct) (erule idleD [rotated], unfold master_writers, intro idle_rules; simp)+

lemma idle_edge: "edge_step l s s' \<Longrightarrow> \<not> has_pool s \<Longrightarrow> s' = s"
proof (induction rule: edge_step.induct)
  case (edge_daemon s nid now u ev)
  then show ?case by (elim idleD [rotated]) (unfold inject_daemon_event_def handle_daemon_event_def, intro idle_rules)
qed (simp | erule (1) idle_floor idle_quality idle_cmms idle_master |
  (erule idleD [rotated], unfold login_def pin_login_def create_connection_handler_def update_connection_handler_def
    delete_connection_handler_def import_handler_def export_handler_def, intro idle_rules; simp))+

lemma idle_run: "edge_run ls s s' \<Longrightarrow> \<not> has_pool s \<Longrightarrow> s' = s"
  by (induction rule: edge_run.induct) (auto dest: idle_edge)

section \<open>Numbers in the environment\<close>

lemma read_digits_append: "read_digits acc (xs @ ys) = Option.bind (read_digits acc xs) (\<lambda>n. read_digits n ys)"
  by (induction xs arbitrary: acc) (auto split: bind_splits)

lemma digit_value_char: "d < 10 \<Longrightarrow> digit_value (char_of (48 + d)) = Some d"
  by (simp add: digit_value_def)

lemma read_digits_digits: "read_digits 0 (digits n) = Some n"
proof (induction n rule: digits.induct)
  case (1 n)
  show ?case
  proof (cases "n < 10")
    case True
    then show ?thesis by (subst digits.simps) (simp add: digit_value_char)
  next
    case False
    have "digit_value (char_of (48 + n mod 10)) = Some (n mod 10)" by (rule digit_value_char) simp
    with 1 [OF False] False show ?thesis by (subst digits.simps) (simp add: read_digits_append)
  qed
qed

lemma digits_first: "\<exists>d cs. digits n = char_of (48 + d) # cs \<and> d < (10 :: nat)"
proof (induction n rule: digits.induct)
  case (1 n)
  then show ?case by (cases "n < 10") (force simp: digits.simps [of n])+
qed

lemma digits_unsigned: "digits n \<noteq> []" "take 1 (digits n) \<noteq> ''+''" "take 1 (digits n) \<noteq> ''-''"
proof -
  obtain d cs where n: "digits n = char_of (48 + d) # cs" "d < (10 :: nat)" using digits_first by blast
  have code: "of_char (char_of (48 + d) :: char) = 48 + d" using n(2) by simp
  have "char_of (48 + d) \<noteq> CHR ''+''" "char_of (48 + d) \<noteq> CHR ''-''" by (rule notI, use code in \<open>simp only: of_char_Char; simp\<close>)+
  with n(1) show "digits n \<noteq> []" "take 1 (digits n) \<noteq> ''+''" "take 1 (digits n) \<noteq> ''-''" by simp_all
qed

lemma parse_digits:
  "n < 2 ^ 32 \<Longrightarrow> parse_u32 (digits n) = Some n"
  "n < 2 ^ 63 \<Longrightarrow> parse_i64 (digits n) = Some (int n)"
  by (simp_all add: parse_u32_def parse_i64_def read_number_def digits_unsigned [simplified] read_digits_digits)

lemma parse_range:
  "parse_u32 t = Some n \<Longrightarrow> n < 2 ^ 32" "parse_i64 t = Some i \<Longrightarrow> - (2 ^ 63) \<le> i \<and> i < 2 ^ 63"
proof -
  show "parse_u32 t = Some n \<Longrightarrow> n < 2 ^ 32"
    by (auto simp: parse_u32_def bind_eq_Some_conv split: if_splits)
  have "int k \<le> 2 ^ 63" if "k \<le> 2 ^ 63" for k :: nat using that by simp
  moreover have "int k < 2 ^ 63" if "k < 2 ^ 63" for k :: nat using that by simp
  ultimately show "parse_i64 t = Some i \<Longrightarrow> - (2 ^ 63) \<le> i \<and> i < 2 ^ 63"
    by (fastforce simp: parse_i64_def bind_eq_Some_conv split: if_splits)
qed

section \<open>Event stream\<close>

text \<open>
  Until the channel closes or the client goes away, the client is sent exactly the events received, in
  order; lagging loses what the channel dropped and nothing else.
\<close>

fun frames :: "('e \<Rightarrow> string option) \<Rightarrow> 'e received list \<Rightarrow> string list" where
  "frames to_text [] = []"
| "frames to_text (Received e # rs) = (case to_text e of None \<Rightarrow> [] | Some t \<Rightarrow> [t]) @ frames to_text rs"
| "frames to_text (Lagged _ # rs) = frames to_text rs"
| "frames to_text (Closed # rs) = []"

lemma forward_all: "(\<And>k. accepts k) \<Longrightarrow> forward to_text accepts n rs = frames to_text rs"
  by (induction rs arbitrary: n rule: frames.induct) (auto split: option.split)

lemma forward_prefix: "\<exists>k. forward to_text accepts n rs = take k (frames to_text rs)"
proof (induction to_text accepts n rs rule: forward.induct)
  case (2 to_text accepts n e rs)
  show ?case
  proof (cases "to_text e")
    case None
    with 2 show ?thesis by simp
  next
    case (Some t)
    show ?thesis
    proof (cases "accepts n")
      case True
      with 2(2) [OF Some] obtain k where "forward to_text accepts (Suc n) rs = take k (frames to_text rs)" by blast
      with Some True show ?thesis by (intro exI [of _ "Suc k"]) simp
    next
      case False
      with Some show ?thesis by (intro exI [of _ 0]) simp
    qed
  qed
qed auto

section \<open>Scripted runs\<close>

definition pulse :: "string \<Rightarrow> timestamp \<Rightarrow> raw_signal" where
  "pulse key t = \<lparr>sg_source_key = key, sg_ts = t, sg_event = Cycle\<rparr>"

definition pulse_count :: "timestamp \<Rightarrow> timestamp \<Rightarrow> int \<Rightarrow> nat" where
  "pulse_count from_ts to_ts d = (if from_ts \<le> to_ts then Suc (nat ((to_ts - from_ts) div d)) else 0)"

lemma pulse_count_step:
  assumes "0 < d" "t \<le> b"
  shows "pulse_count t b d = Suc (pulse_count (t + d) b d)"
proof -
  have "(b - (t + d)) div d = (b - t) div d - 1"
    using assms(1) div_add_self2 [of d "b - t - d"] by (simp add: algebra_simps)
  moreover have "b - t < d \<Longrightarrow> (b - t) div d = 0" using assms by (simp add: div_pos_pos_trivial)
  moreover have "d \<le> b - t \<Longrightarrow> 1 \<le> (b - t) div d" using assms by (simp add: pos_imp_zdiv_pos_iff int_one_le_iff_zero_less)
  ultimately show ?thesis using assms by (auto simp: pulse_count_def)
qed

lemma cycle_loop_run:
  assumes "0 < step"
  shows "cycle_loop key b step out t =
    Some (out @ map (\<lambda>k. pulse key (t + int k * seconds step)) [0..<pulse_count t b (seconds step)])"
proof (induction "pulse_count t b (seconds step)" arbitrary: t out)
  case 0
  then have "\<not> t \<le> b" by (auto simp: pulse_count_def split: if_splits)
  then show ?case by (subst cycle_loop.simps) (simp add: pulse_count_def)
next
  case (Suc n)
  then have t: "t \<le> b" by (auto simp: pulse_count_def split: if_splits)
  have d: "0 < seconds step" using assms by (simp add: seconds_def)
  from pulse_count_step [OF d t] Suc(2) have n: "n = pulse_count (t + seconds step) b (seconds step)" by simp
  have "[0..<Suc n] = 0 # map Suc [0..<n]" by (simp add: map_Suc_upt upt_conv_Cons)
  with Suc(1) [OF n] t show ?case
    by (subst cycle_loop.simps) (simp add: Suc(2) [symmetric] n [symmetric] pulse_def algebra_simps)
qed

lemma cycle_loop_stuck:
  assumes "cycle_loop key b step out t = Some ys"
  shows "step \<le> 0 \<longrightarrow> \<not> t \<le> b"
proof (rule cycle_loop.raw_induct [where P = "\<lambda>_ b step _ t _. step \<le> 0 \<longrightarrow> \<not> t \<le> b", OF _ assms], goal_cases)
  case (1 f key b step out t y)
  show ?case
  proof (intro impI notI)
    assume a: "step \<le> 0" "t \<le> b"
    with 1(2) have "f key b step (out @ [pulse key t]) (t + seconds step) = Some y" by (simp add: pulse_def)
    from 1(1) [OF this] a show False by (simp add: seconds_def)
  qed
qed

text \<open>
  A scripted run with a positive step ends with one cycle pulse per step from the start to the last instant not
  after the end, both included, and a source hands it out on its first poll only; with a step of
  zero or less over a window that is not empty the loop never returns.
\<close>

theorem cycle_run_correct:
  "cycle_run key a b step =
     (if 0 < step then Some (map (\<lambda>k. pulse key (a + int k * seconds step)) [0..<pulse_count a b (seconds step)])
      else if a \<le> b then None else Some [])"
proof (cases "0 < step")
  case True
  then show ?thesis by (simp add: cycle_run_def cycle_loop_run)
next
  case False
  show ?thesis
  proof (cases "a \<le> b")
    case True
    with False cycle_loop_stuck [of key b step "[]" a] show ?thesis
      by (cases "cycle_loop key b step [] a") (auto simp: cycle_run_def)
  next
    case le: False
    with False show ?thesis by (simp add: cycle_run_def cycle_loop.simps [of key b step "[]" a])
  qed
qed

lemma pulses_in_window:
  assumes "0 < step" "cycle_run key a b step = Some ps"
  shows "map sg_ts ps = map (\<lambda>k. a + int k * seconds step) [0..<length ps] \<and> (\<forall>p\<in>set ps. a \<le> sg_ts p \<and> sg_ts p \<le> b) \<and>
    (a \<le> b \<longrightarrow> b < a + int (length ps) * seconds step)"
proof -
  let ?d = "seconds step"
  have d: "0 < ?d" using assms(1) by (simp add: seconds_def)
  have ps: "ps = map (\<lambda>k. pulse key (a + int k * ?d)) [0..<pulse_count a b ?d]"
    using assms by (simp add: cycle_run_correct)
  have "a + int k * ?d \<le> b" if "k < pulse_count a b ?d" for k
  proof -
    from that have ab: "a \<le> b" and "k \<le> nat ((b - a) div ?d)" by (auto simp: pulse_count_def split: if_splits)
    moreover have "0 \<le> (b - a) div ?d" using d ab by (simp add: pos_imp_zdiv_nonneg_iff)
    ultimately have "int k \<le> (b - a) div ?d" by linarith
    then have "int k * ?d \<le> (b - a) div ?d * ?d" using d by (simp add: mult_right_mono)
    also have "\<dots> \<le> b - a" using d by (simp add: minus_mod_eq_div_mult [symmetric])
    finally show ?thesis by simp
  qed
  moreover have "b < a + int (pulse_count a b ?d) * ?d" if "a \<le> b"
  proof -
    have "b - a < ((b - a) div ?d + 1) * ?d"
      using d by (metis add.commute mult.commute pos_mod_bound mult_div_mod_eq add_strict_left_mono distrib_left mult.right_neutral)
    moreover have "int (pulse_count a b ?d) = (b - a) div ?d + 1"
      using that d by (simp add: pulse_count_def pos_imp_zdiv_nonneg_iff)
    ultimately show ?thesis by simp
  qed
  ultimately show ?thesis using d by (auto simp: ps pulse_def)
qed

lemma sim_polls:
  "sim_poll (sim_new name ps) = (ps, snd (sim_poll (sim_new name ps)))"
  "fst (sim_poll (snd (sim_poll src))) = []" "snd (sim_poll (snd (sim_poll src))) = snd (sim_poll src)"
  by (simp_all add: sim_poll_def sim_new_def)

section \<open>Start-up\<close>

lemma open_pool_None: "open_pool h url n = Inr p \<Longrightarrow> p = url"
  by (auto simp: open_pool_def connect_def split: option.splits if_splits sum.splits)

text \<open>What a started edge service holds, and why it does not start.\<close>

lemma run_edge_started:
  assumes "run_edge h c e fresh = Inr st"
  shows "app_pool st = non_empty (e ''DATABASE_URL'')"
    "app_auth st = \<lparr>ac_secret = unwrap_or fresh (non_empty (e ''MES_JWT_SECRET'')),
       ac_ttl_secs = unwrap_or 43200 (Option.bind (e ''MES_JWT_TTL_SECS'') parse_i64)\<rparr>"
    "app_dnc st = (case non_empty (e ''MES_DNC_ADDR'') of None \<Rightarrow> DisconnectedDaemon | Some a \<Rightarrow> TcpDncClient a 0)"
    "app_erp_key st = derive_key c (ac_secret (app_auth st))"
  using assms open_pool_None [of h "non_empty (e ''DATABASE_URL'')"]
  by (auto simp: run_edge_def Let_def edge_from_env_def app_state_new_def with_dnc_def non_empty_def
      split: sum.splits if_splits option.splits)

lemma run_edge_fails:
  "(\<exists>m. run_edge h c e fresh = Inl m) \<longleftrightarrow>
     (\<exists>url. non_empty (e ''DATABASE_URL'') = Some url \<and>
        (\<not> connects h url (unwrap_or 10 (Option.bind (e ''MES_DB_MAX_CONN'') parse_u32)) \<or> \<not> migrates h url)) \<or>
     \<not> binds h (unwrap_or ''0.0.0.0:8080'' (e ''MES_EDGE_BIND''))"
  by (auto simp: run_edge_def Let_def edge_from_env_def open_pool_def connect_def run_migrations_def
      split: sum.splits if_splits option.splits)

text \<open>
  C17.  Booting without a database.  An edge service started without a database address is alive but
  reports that it is not ready, and no run of requests to any of its routes changes anything: no event is
  published, no transfer is sent and nothing is stored.  A service whose database answers reports ready.
\<close>

theorem without_database:
  assumes "run_edge h c e fresh = Inr st" "has_pool s \<longleftrightarrow> app_pool st \<noteq> None"
  shows "hr_status (healthz service version) = ''ok'' \<and>
    (case non_empty (e ''DATABASE_URL'') of
       None \<Rightarrow> fst (readyz service version answers (app_pool st)) = 503 \<and> (\<forall>ls s'. edge_run ls s s' \<longrightarrow> s' = s)
     | Some url \<Rightarrow> fst (readyz service version answers (app_pool st)) = (if answers url then 200 else 503))"
  using assms run_edge_started(1) [OF assms(1)] idle_run [of _ s]
  by (auto simp: healthz_def health_ok_def readyz_def is_ready_def split: option.split)

definition sample_host :: host where
  "sample_host = \<lparr>connects = (\<lambda>_ _. True), migrates = (\<lambda>_. True), binds = (\<lambda>_. True)\<rparr>"

theorem without_database_witness:
  "\<exists>st. run_edge sample_host sample_aead (\<lambda>_. None) ''k'' = Inr st \<and>
     fst (readyz ''mes-edge'' ''0.1.0'' (\<lambda>_. True) (app_pool st)) = 503 \<and>
     snd (cancel_order ''A'' 1 floor_user ''W1'' (sample_erp\<lparr>has_pool := False\<rparr>)) = sample_erp\<lparr>has_pool := False\<rparr>"
proof -
  let ?s = "sample_erp\<lparr>has_pool := False\<rparr>"
  obtain st where st: "run_edge sample_host sample_aead (\<lambda>_. None) ''k'' = Inr st" "app_pool st = None"
    by (simp add: run_edge_def sample_host_def edge_from_env_def open_pool_def non_empty_def app_state_new_def)
  have "has_pool ?s \<longleftrightarrow> app_pool st \<noteq> None" by (simp add: st(2))
  moreover have "edge_run [Neutral] ?s (snd (cancel_order ''A'' 1 floor_user ''W1'' ?s))"
    by (rule edge_cons, rule edge_floor, rule floor_step.cancel, rule edge_nil)
  ultimately show ?thesis
    using st(1) without_database [OF st(1), of ?s "''mes-edge''" "''0.1.0''" "\<lambda>_. True"]
    by (auto simp: non_empty_def)
qed

end
