(* ===== verification/Answers.thy ===== *)
theory Answers
  imports Service Shifts Pareto
begin

text \<open>
  The bodies of answers: the JSON that serde derives for the response types of \<^verbatim>\<open>mes-client\<close>, from the
  rows that the handlers return (the row-to-type conversions of \<^verbatim>\<open>mes-db\<close> copy the members).  An answer
  is a status with a body, or a status alone.
\<close>

type_synonym answer = "nat \<times> json option"

definition json_of_i32 :: "int \<Rightarrow> json" where
  "json_of_i32 n = JNum (of_int n)"

definition json_of_count :: "nat \<Rightarrow> json" where
  "json_of_count n = JNum (of_nat n)"

definition opt_str :: "string option \<Rightarrow> json" where
  "opt_str = opt_json JStr"

text \<open>The error envelope.\<close>

definition api_error_to_json :: "api_err \<Rightarrow> json" where
  "api_error_to_json e = json_object [(''error'', JStr (err_code e)), (''message'', JStr (err_msg e))]"

section \<open>Logins and master data\<close>

definition login_response_to_json :: "login_response \<Rightarrow> json" where
  "login_response_to_json r =
     json_object [(''token'', JStr (lr_token r)), (''user_id'', JStr (lr_user_id r)), (''username'', JStr (lr_username r)),
       (''role_code'', JStr (lr_role_code r)), (''expires_at'', json_of_i32 (lr_expires_at r))]"

definition site_to_json :: "wire \<Rightarrow> site_row \<Rightarrow> json" where
  "site_to_json w r =
     json_object [(''id'', JStr (ste_id r)), (''code'', JStr (ste_code r)), (''name'', JStr (ste_name r)),
       (''timezone'', JStr (ste_timezone r)), (''created_at'', ts_to_json w (ste_created_at r)),
       (''updated_at'', ts_to_json w (ste_updated_at r))]"

definition area_to_json :: "wire \<Rightarrow> area_row \<Rightarrow> json" where
  "area_to_json w r =
     json_object [(''id'', JStr (ar_id r)), (''site_id'', JStr (ar_site_id r)), (''code'', JStr (ar_code r)),
       (''name'', JStr (ar_name r)), (''created_at'', ts_to_json w (ar_created_at r)),
       (''updated_at'', ts_to_json w (ar_updated_at r))]"

definition work_center_to_json :: "wire \<Rightarrow> work_center_row \<Rightarrow> json" where
  "work_center_to_json w r =
     json_object [(''id'', JStr (wc_id r)), (''area_id'', JStr (wc_area_id r)), (''code'', JStr (wc_code r)),
       (''name'', JStr (wc_name r)), (''external_ref'', opt_str (wc_external_ref r)),
       (''created_at'', ts_to_json w (wc_created_at r)), (''updated_at'', ts_to_json w (wc_updated_at r))]"

definition part_to_json :: "wire \<Rightarrow> part_row \<Rightarrow> json" where
  "part_to_json w r =
     json_object [(''id'', JStr (pt_id r)), (''code'', JStr (pt_code r)), (''name'', JStr (pt_name r)),
       (''uom'', JStr (pt_uom r)), (''created_at'', ts_to_json w (pt_created_at r)),
       (''updated_at'', ts_to_json w (pt_updated_at r))]"

definition user_to_json :: "wire \<Rightarrow> user_dto \<Rightarrow> json" where
  "user_to_json w r =
     json_object [(''id'', JStr (ud_id r)), (''username'', JStr (ud_username r)), (''display_name'', JStr (ud_display_name r)),
       (''role_code'', JStr (ud_role_code r)), (''active'', JBool (ud_active r)),
       (''created_at'', ts_to_json w (ud_created_at r)), (''updated_at'', ts_to_json w (ud_updated_at r))]"

definition program_to_json :: "wire \<Rightarrow> program_row \<Rightarrow> json" where
  "program_to_json w r =
     json_object [(''id'', JStr (pg_id r)), (''routing_op_id'', opt_str (pg_routing_op_id r)),
       (''part_id'', opt_str (pg_part_id r)), (''program_identifier'', JStr (pg_program_identifier r)),
       (''target_machine'', opt_str (pg_target_machine r)), (''created_at'', ts_to_json w (pg_created_at r)),
       (''updated_at'', ts_to_json w (pg_updated_at r))]"

section \<open>Orders and execution\<close>

definition order_members :: "wire \<Rightarrow> work_order_row \<Rightarrow> (string \<times> json) list" where
  "order_members w r =
     [(''id'', JStr (wo_id r)), (''wo_number'', JStr (wo_number r)), (''part_id'', JStr (wo_part_id r)),
       (''routing_id'', opt_str (wo_routing_id r)), (''qty_ordered'', dec_to_json w (wo_qty_ordered r)),
       (''priority'', json_of_i32 (wo_priority r)), (''status'', JStr (wo_st r)),
       (''planned_start'', opt_json (ts_to_json w) (wo_planned_start r)),
       (''planned_end'', opt_json (ts_to_json w) (wo_planned_end r)),
       (''created_at'', ts_to_json w (wo_created_at r)), (''updated_at'', ts_to_json w (wo_updated_at r))]"

definition order_to_json :: "wire \<Rightarrow> work_order_row \<Rightarrow> json" where
  "order_to_json w r = json_object (order_members w r)"

definition operation_to_json :: "wire \<Rightarrow> wo_operation_row \<Rightarrow> json" where
  "operation_to_json w r =
     json_object [(''id'', JStr (op_id r)), (''work_order_id'', JStr (op_work_order_id r)),
       (''routing_op_id'', opt_str (op_routing_op_id r)), (''op_no'', json_of_i32 (op_no r)),
       (''work_center_id'', opt_str (op_work_center_id r)), (''status'', JStr (op_st r)),
       (''qty_good'', json_of_i32 (op_qty_good r)), (''qty_scrap'', json_of_i32 (op_qty_scrap r)),
       (''started_at'', opt_json (ts_to_json w) (op_started_at r)),
       (''completed_at'', opt_json (ts_to_json w) (op_completed_at r)),
       (''created_at'', ts_to_json w (op_created_at r)), (''updated_at'', ts_to_json w (op_updated_at r))]"

text \<open>An order with its operations: the members of the order, flattened.\<close>

definition order_detail_to_json :: "wire \<Rightarrow> work_order_row \<times> wo_operation_row list \<Rightarrow> json" where
  "order_detail_to_json w =
     (\<lambda>(r, ops). json_object (order_members w r @ [(''operations'', JArr (map (operation_to_json w) ops))]))"

definition ingest_result_to_json :: "nat \<times> nat \<Rightarrow> json" where
  "ingest_result_to_json = (\<lambda>(accepted, dropped). json_object [(''accepted'', json_of_count accepted), (''dropped'', json_of_count dropped)])"

definition recompute_result_to_json :: "nat \<times> nat \<Rightarrow> json" where
  "recompute_result_to_json = (\<lambda>(states, downtime). json_object [(''states'', json_of_count states), (''downtime'', json_of_count downtime)])"

definition downtime_to_json :: "wire \<Rightarrow> downtime_row \<Rightarrow> json" where
  "downtime_to_json w r =
     json_object [(''id'', JStr (dt_id r)), (''work_center_id'', JStr (dt_work_center_id r)), (''state'', JStr (dt_state r)),
       (''start_ts'', ts_to_json w (dt_start r)), (''end_ts'', ts_to_json w (dt_end r)),
       (''reason_id'', opt_str (dt_reason_id r))]"

section \<open>Transfers\<close>

definition transfer_to_json :: "wire \<Rightarrow> transfer_row \<Rightarrow> json" where
  "transfer_to_json w r =
     json_object [(''id'', JStr (tf_id r)), (''wo_operation_id'', opt_str (tf_wo_operation_id r)),
       (''program_id'', JStr (tf_program_id r)), (''direction'', JStr (tf_direction r)),
       (''status'', JStr (tf_status r)), (''dnc_daemon_ref'', opt_str (tf_dnc_daemon_ref r)),
       (''triggered_at'', ts_to_json w (tf_triggered_at r)),
       (''completed_at'', opt_json (ts_to_json w) (tf_completed_at r)),
       (''created_at'', ts_to_json w (tf_created_at r)), (''updated_at'', ts_to_json w (tf_updated_at r))]"

definition revision_to_json :: "wire \<Rightarrow> revision_row \<Rightarrow> json" where
  "revision_to_json w r =
     json_object [(''id'', JStr (rv_id r)), (''program_id'', JStr (rv_program_id r)),
       (''revision_no'', json_of_i32 (rv_revision_no r)), (''source'', JStr (rv_source r)),
       (''content_ref'', opt_str (rv_content_ref r)), (''status'', JStr (rv_status r)),
       (''submitted_by'', opt_str (rv_submitted_by r)), (''submitted_at'', ts_to_json w (rv_submitted_at r)),
       (''promoted_by'', opt_str (rv_promoted_by r)), (''promoted_at'', opt_json (ts_to_json w) (rv_promoted_at r)),
       (''created_at'', ts_to_json w (rv_created_at r)), (''updated_at'', ts_to_json w (rv_updated_at r))]"

section \<open>Traceability and quality\<close>

definition lot_to_json :: "wire \<Rightarrow> lot_row \<Rightarrow> json" where
  "lot_to_json w r =
     json_object [(''id'', JStr (lt_id r)), (''lot_no'', JStr (lt_lot_no r)), (''part_id'', JStr (lt_part_id r)),
       (''qty'', dec_to_json w (lt_qty r)), (''uom'', JStr (lt_uom r)),
       (''created_at'', ts_to_json w (lt_created_at r)), (''updated_at'', ts_to_json w (lt_updated_at r))]"

definition serial_to_json :: "wire \<Rightarrow> serial_row \<Rightarrow> json" where
  "serial_to_json w r =
     json_object [(''id'', JStr (sn_id r)), (''serial_no'', JStr (sn_serial_no r)), (''part_id'', JStr (sn_part_id r)),
       (''lot_id'', opt_str (sn_lot_id r)), (''created_at'', ts_to_json w (sn_created_at r)),
       (''updated_at'', ts_to_json w (sn_updated_at r))]"

definition trace_node_to_json :: "trace_node \<Rightarrow> json" where
  "trace_node_to_json r =
     json_object [(''entity_type'', JStr (fst (tn_entity r))), (''entity_id'', JStr (snd (tn_entity r))),
       (''ref_no'', opt_str (tn_ref_no r)), (''depth'', json_of_i32 (int (tn_depth r)))]"

definition barcode_to_json :: "string \<times> string \<Rightarrow> json" where
  "barcode_to_json = (\<lambda>(t, i). json_object [(''type_code'', JStr t), (''id'', JStr i)])"

definition plan_to_json :: "wire \<Rightarrow> plan_row \<Rightarrow> json" where
  "plan_to_json w r =
     json_object [(''id'', JStr (ip_id r)), (''part_id'', JStr (ip_part_id r)), (''code'', JStr (ip_code r)),
       (''name'', JStr (ip_name r)), (''created_at'', ts_to_json w (ip_created_at r)),
       (''updated_at'', ts_to_json w (ip_updated_at r))]"

definition characteristic_to_json :: "wire \<Rightarrow> char_row \<Rightarrow> json" where
  "characteristic_to_json w r =
     json_object [(''id'', JStr (ch_id r)), (''plan_id'', JStr (ch_plan_id r)), (''name'', JStr (ch_name r)),
       (''uom'', opt_str (ch_uom r)), (''lower_limit'', opt_json (dec_to_json w) (ch_lower_limit r)),
       (''upper_limit'', opt_json (dec_to_json w) (ch_upper_limit r))]"

definition result_to_json :: "wire \<Rightarrow> result_row \<Rightarrow> json" where
  "result_to_json w r =
     json_object [(''id'', JStr (ir_id r)), (''characteristic_id'', JStr (ir_characteristic_id r)),
       (''lot_id'', opt_str (ir_lot_id r)), (''serial_id'', opt_str (ir_serial_id r)),
       (''measured_value'', dec_to_json w (ir_measured_value r)), (''result'', JStr (ir_result r)),
       (''created_at'', ts_to_json w (ir_created_at r))]"

definition ncr_to_json :: "wire \<Rightarrow> ncr_row \<Rightarrow> json" where
  "ncr_to_json w r =
     json_object [(''id'', JStr (nc_id r)), (''ncr_no'', JStr (nc_no r)),
       (''inspection_result_id'', opt_str (nc_inspection_result_id r)), (''lot_id'', opt_str (nc_lot_id r)),
       (''serial_id'', opt_str (nc_serial_id r)), (''part_id'', opt_str (nc_part_id r)),
       (''status'', JStr (nc_status r)), (''disposition'', opt_str (nc_disposition r)),
       (''reason'', opt_str (nc_reason r)), (''created_at'', ts_to_json w (nc_created_at r)),
       (''updated_at'', ts_to_json w (nc_updated_at r))]"

definition record_result_to_json :: "wire \<Rightarrow> result_row \<times> ncr_row option \<Rightarrow> json" where
  "record_result_to_json w =
     (\<lambda>(r, n). json_object [(''result'', result_to_json w r), (''ncr'', opt_json (ncr_to_json w) n)])"

section \<open>Maintenance\<close>

definition pm_schedule_to_json :: "wire \<Rightarrow> pm_row \<Rightarrow> json" where
  "pm_schedule_to_json w r =
     json_object [(''id'', JStr (pm_id r)), (''work_center_id'', JStr (pm_work_center_id r)), (''name'', JStr (pm_name r)),
       (''trigger_type'', JStr (pm_trigger_type r)), (''interval_value'', dec_to_json w (pm_interval_value r)),
       (''last_done_at'', opt_json (ts_to_json w) (pm_last_done_at r)),
       (''next_due_at'', opt_json (ts_to_json w) (pm_next_due_at r)),
       (''last_done_usage_h'', opt_json (dec_to_json w) (pm_last_done_usage_h r)),
       (''next_due_usage_h'', opt_json (dec_to_json w) (pm_next_due_usage_h r)),
       (''checklist_ref'', opt_str (pm_checklist_ref r)), (''enabled'', JBool (pm_enabled r)),
       (''created_at'', ts_to_json w (pm_created_at r)), (''updated_at'', ts_to_json w (pm_updated_at r))]"

definition pm_due_to_json :: "wire \<Rightarrow> pm_row \<times> rat \<Rightarrow> json" where
  "pm_due_to_json w =
     (\<lambda>(r, hours). json_object [(''schedule'', pm_schedule_to_json w r), (''current_usage_h'', dec_to_json w hours)])"

definition maintenance_wo_to_json :: "wire \<Rightarrow> mwo_row \<Rightarrow> json" where
  "maintenance_wo_to_json w r =
     json_object [(''id'', JStr (mw_id r)), (''work_center_id'', JStr (mw_work_center_id r)),
       (''pm_schedule_id'', opt_str (mw_pm_schedule_id r)), (''wo_type'', JStr (mw_wo_type r)),
       (''status'', JStr (mw_status r)), (''technician_id'', opt_str (mw_technician_id r)),
       (''failure_code'', opt_str (mw_failure_code r)), (''notes'', opt_str (mw_notes r)),
       (''opened_at'', ts_to_json w (mw_opened_at r)), (''closed_at'', opt_json (ts_to_json w) (mw_closed_at r)),
       (''created_at'', ts_to_json w (mw_created_at r)), (''updated_at'', ts_to_json w (mw_updated_at r))]"

definition spare_part_to_json :: "wire \<Rightarrow> spare_row \<times> rat \<Rightarrow> json" where
  "spare_part_to_json w =
     (\<lambda>(r, stock). json_object [(''id'', JStr (sp_id r)), (''code'', JStr (sp_code r)), (''name'', JStr (sp_name r)),
        (''uom'', JStr (sp_uom r)), (''reorder_point'', dec_to_json w (sp_reorder_point r)),
        (''reorder_qty'', dec_to_json w (sp_reorder_qty r)), (''stock'', dec_to_json w stock)])"

definition procurement_to_json :: "wire \<Rightarrow> proc_row \<Rightarrow> json" where
  "procurement_to_json w r =
     json_object [(''id'', JStr (pr_id r)), (''spare_part_id'', JStr (pr_spare_part_id r)),
       (''qty_requested'', dec_to_json w (pr_qty_requested r)), (''reason'', JStr (pr_reason r)),
       (''status'', JStr (pr_status r)), (''erp_reference'', opt_str (pr_erp_reference r)),
       (''pushed_at'', opt_json (ts_to_json w) (pr_pushed_at r)), (''created_at'', ts_to_json w (pr_created_at r)),
       (''updated_at'', ts_to_json w (pr_updated_at r))]"

definition spare_txn_response_to_json :: "wire \<Rightarrow> string \<times> rat \<times> proc_row option \<Rightarrow> json" where
  "spare_txn_response_to_json w =
     (\<lambda>(t, stock, p). json_object [(''txn_id'', JStr t), (''stock'', dec_to_json w stock),
        (''procurement_request'', opt_json (procurement_to_json w) p)])"

section \<open>Planning system\<close>

definition erp_connection_to_json :: "wire \<Rightarrow> erp_connection \<Rightarrow> json" where
  "erp_connection_to_json w r =
     json_object [(''id'', JStr (ex_id r)), (''site_id'', opt_str (ex_site_id r)), (''name'', JStr (ex_name r)),
       (''endpoint_url'', JStr (ex_endpoint_url r)), (''has_token'', JBool (ex_has_token r)),
       (''field_mapping'', ex_field_mapping r), (''direction'', JStr (ex_direction r)),
       (''enabled'', JBool (ex_enabled r)), (''created_at'', ts_to_json w (ex_created_at r)),
       (''updated_at'', ts_to_json w (ex_updated_at r))]"

definition sync_log_to_json :: "wire \<Rightarrow> erp_sync_log_row \<Rightarrow> json" where
  "sync_log_to_json w r =
     json_object [(''id'', JStr (el_id r)), (''connection_id'', opt_str (el_connection_id r)),
       (''direction'', JStr (el_direction r)), (''entity'', JStr (el_entity r)),
       (''record_count'', json_of_i32 (el_record_count r)), (''status'', JStr (el_status r)),
       (''detail'', opt_str (el_detail r)), (''ts'', ts_to_json w (el_ts r))]"

definition import_result_to_json :: "erp_import_result \<Rightarrow> json" where
  "import_result_to_json r =
     json_object [(''entity'', JStr (im_entity r)), (''imported'', json_of_count (im_imported r)),
       (''ids'', JArr (map JStr (im_ids r))), (''sync_log_id'', JStr (im_sync_log_id r))]"

definition export_result_to_json :: "erp_export_result \<Rightarrow> json" where
  "export_result_to_json r =
     json_object [(''entity'', JStr (xp_entity r)), (''record_count'', json_of_count (xp_record_count r)),
       (''pushed'', JBool (xp_pushed r)), (''payload'', JArr (xp_payload r)),
       (''sync_log_id'', JStr (xp_sync_log_id r))]"

section \<open>Analytics\<close>

definition pareto_row_to_json :: "(f64 \<Rightarrow> json) \<Rightarrow> pareto_row \<Rightarrow> json" where
  "pareto_row_to_json num r =
     json_object [(''key'', JStr (pr_key r)), (''label'', JStr (pr_label r)), (''seconds'', json_of_i32 (pr_seconds r)),
       (''pct'', num (pr_pct r)), (''cumulative_pct'', num (pr_cumulative_pct r))]"

definition trend_point_to_json :: "wire \<Rightarrow> timestamp \<times> int \<Rightarrow> json" where
  "trend_point_to_json w = (\<lambda>(day, seconds). json_object [(''day'', ts_to_json w day), (''seconds'', json_of_i32 seconds)])"

definition oee_result_to_json :: "(f64 \<Rightarrow> json) \<Rightarrow> oee_result \<Rightarrow> json" where
  "oee_result_to_json num r =
     json_object [(''availability'', num (availability r)), (''performance'', num (performance r)),
       (''quality'', num (quality r)), (''oee'', num (oee_value r))]"

definition shift_oee_to_json :: "wire \<Rightarrow> (f64 \<Rightarrow> json) \<Rightarrow> shift_oee \<Rightarrow> json" where
  "shift_oee_to_json w num r =
     json_object [(''shift_name'', JStr (so_shift_name r)), (''start'', ts_to_json w (so_start r)),
       (''end'', ts_to_json w (so_end r)), (''availability'', num (availability (so_result r))),
       (''performance'', num (performance (so_result r))), (''quality'', num (quality (so_result r))),
       (''oee'', num (oee_value (so_result r)))]"

definition health_to_json :: "health_response \<Rightarrow> json" where
  "health_to_json r =
     json_object [(''service'', JStr (hr_service r)), (''status'', JStr (hr_status r)), (''version'', JStr (hr_version r))]"

text \<open>The readiness probe: the pool that the service started with, if it has one, and whether its database answers.\<close>

definition ready_probe :: "string \<Rightarrow> string \<Rightarrow> bool \<Rightarrow> ('s mes_base_scheme, 'e, nat \<times> health_response) prog" where
  "ready_probe service version up =
     andThen (gets has_pool) (\<lambda>pool. ret (readyz service version (\<lambda>_. up) (if pool then Some [] else None)))"

definition list_to_json :: "('a \<Rightarrow> json) \<Rightarrow> 'a list \<Rightarrow> json" where
  "list_to_json f xs = JArr (map f xs)"

end
