(* ===== verification/Router.thy ===== *)
theory Router
  imports Answers Diagnostics
begin

text \<open>
  The routes of the edge service and who may use them.  A request is an endpoint with its decoded arguments (axum
  matches paths and serde reads bodies); a dispatcher per nested router of \<^verbatim>\<open>mes-edge\<close> calls the
  handler, after the extractor that turns the bearer header into a user, and writes the answer.  The probes, the API
  document and the live event stream of the outer router take no user.
\<close>

section \<open>Requests\<close>

datatype public_req = Health | Ready | ApiDocument | EventStream

datatype auth_req = Login string string | PinLogin "string option" "string option" "string option"

datatype master_req =
    ListSites | CreateSite string string "string option" | GetSite string
  | UpdateSite string string string "string option" | DeleteSite string
  | ListAreas | CreateArea string string string | GetArea string | UpdateArea string string string | DeleteArea string
  | ListWorkCenters | CreateWorkCenter string string string "string option" | GetWorkCenter string
  | UpdateWorkCenter string string string "string option" | DeleteWorkCenter string
  | ListParts | CreatePart string string "string option" | GetPart string
  | UpdatePart string string string "string option" | DeletePart string
  | ListUsers | CreateUser user_input | ListPrograms | CreateProgram program_input

datatype ingest_req = Signals "raw_signal list" | Recompute string timestamp timestamp

datatype orders_req =
    ListOrders | CreateOrder work_order_input | GetOrder string | ReleaseOrder string | CancelOrder string | CloseOrder string

datatype exec_req =
    StartOp string | RecordCount string count_input | CompleteOp string | CompleteWo string
  | ClassifyDowntime string string | SplitDowntime string split_input

datatype dnc_req =
    ListTransfers | ManualTransfer string "string option" "string option" | RetryTransfer string
  | ListRevisions | PromoteRevision string | RejectRevision string | DaemonEvent dnc_event

datatype analytics_req =
    DowntimePareto timestamp timestamp | SixBigLosses timestamp timestamp | DowntimeTrend timestamp timestamp
  | OeeOf string timestamp timestamp | OeeByShift string timestamp timestamp

datatype trace_req =
    CreateLot string string "rat option" "string option" | CreateSerial string string "string option"
  | AddGenealogy entity entity "rat option" | IssueMaterial "string option" "string option" rat "string option"
  | PlaceHold string string "string option" | ReleaseHold string
  | TraceBackward entity | TraceForward entity | ParseBarcode string

datatype qms_req =
    CreatePlan string string string | CreateCharacteristic string string "string option" "rat option" "rat option" "rat option"
  | RecordResult string "string option" "string option" "string option" rat
  | ListNcrs | GetNcr string | DispositionNcr string string "string option"

datatype cmms_req =
    CreatePmSchedule string string string rat "string option" | ListPmDue
  | ListMaintenanceWos | CreateMaintenanceWo string "string option" string "string option" | GetMaintenanceWo string
  | TransitionMaintenanceWo string string "string option" "string option"
  | ListSpareParts | CreateSparePart string string "string option" "rat option" "rat option"
  | RecordSpareTxn string "string option" string rat
  | ListProcurementRequests | CreateProcurementRequest string rat

datatype erp_req =
    ListConnections | CreateConnection connection_input | GetConnection string
  | UpdateConnection string connection_input | DeleteConnection string
  | Import string string "json list" | Export string string | ListSyncLog "string option"

datatype diagnostics_req = SendDiagnostics "string option"

section \<open>Dispatch\<close>

text \<open>
  What the service has at hand: keys and libraries, the clock, fresh identifiers, the network, its environment, the
  generated API document and whether the database answers the probe.
\<close>

record app_context =
  ctx_crypto :: crypto
  ctx_auth :: auth_config
  ctx_now :: timestamp
  ctx_ids :: "nat \<Rightarrow> string"
  ctx_import_ids :: "nat \<Rightarrow> nat \<Rightarrow> string"
  ctx_net :: network
  ctx_wire :: wire
  ctx_collate :: "string \<Rightarrow> int"
  ctx_arith :: arith
  ctx_erp :: erp_env
  ctx_debug :: "repo_error \<Rightarrow> string"
  ctx_f64 :: "f64 \<Rightarrow> json"
  ctx_version :: string
  ctx_db_up :: bool
  ctx_openapi :: json
  ctx_env :: "string \<Rightarrow> string option"
  ctx_pretty :: "json \<Rightarrow> string option"
  ctx_github :: github

type_synonym 's served = "('s master_db_scheme, api_err, answer) prog"

definition ok :: "('a \<Rightarrow> json) \<Rightarrow> ('s, 'e, 'a) prog \<Rightarrow> ('s, 'e, answer) prog" where
  "ok enc m = andThen m (\<lambda>v. ret (200, Some (enc v)))"

definition coded :: "('a \<Rightarrow> json) \<Rightarrow> ('s, 'e, nat \<times> 'a) prog \<Rightarrow> ('s, 'e, answer) prog" where
  "coded enc m = andThen m (\<lambda>(code, v). ret (code, Some (enc v)))"

definition status_only :: "('s, 'e, nat) prog \<Rightarrow> ('s, 'e, answer) prog" where
  "status_only m = andThen m (\<lambda>code. ret (code, None))"

text \<open>
  The routes of the outer router.  A subscription to the event stream switches protocols and then is served by the loop
  of \<open>Service\<close>; the database has no part in it.
\<close>

fun public_routes :: "app_context \<Rightarrow> public_req \<Rightarrow> 's served" where
  "public_routes x Health = ok health_to_json (ret (healthz ''mes-edge'' (ctx_version x)))"
| "public_routes x Ready = coded health_to_json (ready_probe ''mes-edge'' (ctx_version x) (ctx_db_up x))"
| "public_routes x ApiDocument = ok id (ret (ctx_openapi x))"
| "public_routes x EventStream = ret (101, None)"

fun auth_routes :: "app_context \<Rightarrow> auth_req \<Rightarrow> 's served" where
  "auth_routes x (Login name pw) = ok login_response_to_json (login (ctx_crypto x) (ctx_auth x) (ctx_ids x 0) (ctx_now x) name pw)"
| "auth_routes x (PinLogin name pin badge) =
     ok login_response_to_json (pin_login (ctx_crypto x) (ctx_auth x) (ctx_ids x 0) (ctx_now x) name pin badge)"

fun master_routes :: "app_context \<Rightarrow> auth_user \<Rightarrow> master_req \<Rightarrow> 's served" where
  "master_routes x u ListSites = ok (list_to_json (site_to_json (ctx_wire x))) (list_sites_handler (ctx_collate x) u)"
| "master_routes x u (CreateSite code name tz) = coded (site_to_json (ctx_wire x)) (create_site_handler (ctx_ids x 0) (ctx_ids x 1) (ctx_now x) u code name tz)"
| "master_routes x u (GetSite i) = ok (site_to_json (ctx_wire x)) (get_site_handler u i)"
| "master_routes x u (UpdateSite i code name tz) = ok (site_to_json (ctx_wire x)) (update_site_handler (ctx_ids x 0) (ctx_now x) u i code name tz)"
| "master_routes x u (DeleteSite i) = status_only (delete_site_handler (ctx_ids x 0) (ctx_now x) u i)"
| "master_routes x u ListAreas = ok (list_to_json (area_to_json (ctx_wire x))) (list_areas_handler (ctx_collate x) u)"
| "master_routes x u (CreateArea site code name) = coded (area_to_json (ctx_wire x)) (create_area_handler (ctx_ids x 0) (ctx_ids x 1) (ctx_now x) u site code name)"
| "master_routes x u (GetArea i) = ok (area_to_json (ctx_wire x)) (get_area_handler u i)"
| "master_routes x u (UpdateArea i code name) = ok (area_to_json (ctx_wire x)) (update_area_handler (ctx_ids x 0) (ctx_now x) u i code name)"
| "master_routes x u (DeleteArea i) = status_only (delete_area_handler (ctx_ids x 0) (ctx_now x) u i)"
| "master_routes x u ListWorkCenters = ok (list_to_json (work_center_to_json (ctx_wire x))) (list_work_centers_handler (ctx_collate x) u)"
| "master_routes x u (CreateWorkCenter area code name ext) =
     coded (work_center_to_json (ctx_wire x)) (create_work_center_handler (ctx_ids x 0) (ctx_ids x 1) (ctx_now x) u area code name ext)"
| "master_routes x u (GetWorkCenter i) = ok (work_center_to_json (ctx_wire x)) (get_work_center_handler u i)"
| "master_routes x u (UpdateWorkCenter i code name ext) =
     ok (work_center_to_json (ctx_wire x)) (update_work_center_handler (ctx_ids x 0) (ctx_now x) u i code name ext)"
| "master_routes x u (DeleteWorkCenter i) = status_only (delete_work_center_handler (ctx_ids x 0) (ctx_now x) u i)"
| "master_routes x u ListParts = ok (list_to_json (part_to_json (ctx_wire x))) (list_parts_handler (ctx_collate x) u)"
| "master_routes x u (CreatePart code name uom) = coded (part_to_json (ctx_wire x)) (create_part_handler (ctx_ids x 0) (ctx_ids x 1) (ctx_now x) u code name uom)"
| "master_routes x u (GetPart i) = ok (part_to_json (ctx_wire x)) (get_part_handler u i)"
| "master_routes x u (UpdatePart i code name uom) = ok (part_to_json (ctx_wire x)) (update_part_handler (ctx_ids x 0) (ctx_now x) u i code name uom)"
| "master_routes x u (DeletePart i) = status_only (delete_part_handler (ctx_ids x 0) (ctx_now x) u i)"
| "master_routes x u ListUsers = ok (list_to_json (user_to_json (ctx_wire x))) (list_users_handler (ctx_collate x) u)"
| "master_routes x u (CreateUser user) = coded (user_to_json (ctx_wire x)) (create_user_handler (ctx_crypto x) (ctx_ids x 0) (ctx_ids x 1) (ctx_now x) u user)"
| "master_routes x u ListPrograms = ok (list_to_json (program_to_json (ctx_wire x))) (list_programs_handler (ctx_collate x) u)"
| "master_routes x u (CreateProgram p) = coded (program_to_json (ctx_wire x)) (create_program_handler (ctx_ids x 0) (ctx_ids x 1) (ctx_now x) u p)"

fun ingest_routes :: "app_context \<Rightarrow> auth_user \<Rightarrow> ingest_req \<Rightarrow> 's served" where
  "ingest_routes x u (Signals sigs) = ok ingest_result_to_json (ingest_signals (ctx_ids x) u sigs)"
| "ingest_routes x u (Recompute wc a b) = ok recompute_result_to_json (recompute (ctx_ids x) (ctx_now x) u wc a b)"

fun orders_routes :: "app_context \<Rightarrow> auth_user \<Rightarrow> orders_req \<Rightarrow> 's served" where
  "orders_routes x u ListOrders = ok (list_to_json (order_to_json (ctx_wire x))) (list_orders (ctx_collate x) u)"
| "orders_routes x u (CreateOrder input) = coded (order_detail_to_json (ctx_wire x)) (create_order (ctx_wire x) (ctx_ids x) (ctx_now x) u input)"
| "orders_routes x u (GetOrder i) = ok (order_detail_to_json (ctx_wire x)) (get_order u i)"
| "orders_routes x u (ReleaseOrder i) = ok (order_to_json (ctx_wire x)) (release_order (ctx_ids x 0) (ctx_now x) u i)"
| "orders_routes x u (CancelOrder i) = ok (order_to_json (ctx_wire x)) (cancel_order (ctx_ids x 0) (ctx_now x) u i)"
| "orders_routes x u (CloseOrder i) = ok (order_to_json (ctx_wire x)) (close_order (ctx_ids x 0) (ctx_now x) u i)"

fun exec_routes :: "app_context \<Rightarrow> auth_user \<Rightarrow> exec_req \<Rightarrow> 's served" where
  "exec_routes x u (StartOp i) = ok (operation_to_json (ctx_wire x)) (start_op (ctx_ids x) (ctx_now x) u i)"
| "exec_routes x u (RecordCount i c) = ok (operation_to_json (ctx_wire x)) (record_count_handler (ctx_ids x 0) (ctx_now x) u i c)"
| "exec_routes x u (CompleteOp i) = ok (operation_to_json (ctx_wire x)) (complete_op (ctx_net x) (ctx_ids x) (ctx_now x) u i)"
| "exec_routes x u (CompleteWo i) = ok (order_to_json (ctx_wire x)) (complete_wo (ctx_ids x 0) (ctx_now x) u i)"
| "exec_routes x u (ClassifyDowntime i reason) = ok (downtime_to_json (ctx_wire x)) (classify_downtime_handler (ctx_now x) u i reason)"
| "exec_routes x u (SplitDowntime i sp) = ok (list_to_json (downtime_to_json (ctx_wire x))) (split_downtime_handler (ctx_ids x 0) (ctx_now x) u i sp)"

fun dnc_routes :: "app_context \<Rightarrow> auth_user \<Rightarrow> dnc_req \<Rightarrow> 's served" where
  "dnc_routes x u ListTransfers = ok (list_to_json (transfer_to_json (ctx_wire x))) (list_transfers_handler u)"
| "dnc_routes x u (ManualTransfer pid machine wop) = coded (transfer_to_json (ctx_wire x)) (manual_transfer (ctx_net x) (ctx_ids x 0) (ctx_now x) u pid machine wop)"
| "dnc_routes x u (RetryTransfer i) = coded (transfer_to_json (ctx_wire x)) (retry_transfer (ctx_net x) (ctx_ids x 0) (ctx_now x) u i)"
| "dnc_routes x u ListRevisions = ok (list_to_json (revision_to_json (ctx_wire x))) (list_revisions_handler u)"
| "dnc_routes x u (PromoteRevision i) = ok (revision_to_json (ctx_wire x)) (promote_revision (ctx_ids x 0) (ctx_now x) u i)"
| "dnc_routes x u (RejectRevision i) = ok (revision_to_json (ctx_wire x)) (reject_revision (ctx_ids x 0) (ctx_now x) u i)"
| "dnc_routes x u (DaemonEvent ev) = status_only (inject_daemon_event (ctx_ids x 0) (ctx_now x) u ev)"

fun analytics_routes :: "app_context \<Rightarrow> auth_user \<Rightarrow> analytics_req \<Rightarrow> 's served" where
  "analytics_routes x u (DowntimePareto a b) = ok (list_to_json (pareto_row_to_json (ctx_f64 x))) (downtime_pareto_handler u a b)"
| "analytics_routes x u (SixBigLosses a b) = ok (list_to_json (pareto_row_to_json (ctx_f64 x))) (six_big_losses u a b)"
| "analytics_routes x u (DowntimeTrend a b) = ok (list_to_json (trend_point_to_json (ctx_wire x))) (downtime_trend_handler u a b)"
| "analytics_routes x u (OeeOf wc a b) = ok (oee_result_to_json (ctx_f64 x)) (oee u wc a b)"
| "analytics_routes x u (OeeByShift wc a b) = ok (list_to_json (shift_oee_to_json (ctx_wire x) (ctx_f64 x))) (oee_by_shift_handler u wc a b)"

fun trace_routes :: "app_context \<Rightarrow> auth_user \<Rightarrow> trace_req \<Rightarrow> 's served" where
  "trace_routes x u (CreateLot no part qty uom) = coded (lot_to_json (ctx_wire x)) (create_lot_handler (ctx_ids x 0) (ctx_now x) u no part qty uom)"
| "trace_routes x u (CreateSerial no part lot) = coded (serial_to_json (ctx_wire x)) (create_serial_handler (ctx_ids x 0) (ctx_now x) u no part lot)"
| "trace_routes x u (AddGenealogy parent child qty) = status_only (add_genealogy_handler (ctx_ids x 0) (ctx_now x) u parent child qty)"
| "trace_routes x u (IssueMaterial lot serial qty wop) = coded id (issue_material_handler (ctx_ids x 0) (ctx_now x) u lot serial qty wop)"
| "trace_routes x u (PlaceHold t i reason) = coded id (place_hold_handler (ctx_ids x) (ctx_now x) u t i reason)"
| "trace_routes x u (ReleaseHold i) = status_only (release_hold_handler (ctx_now x) u i)"
| "trace_routes x u (TraceBackward e) = ok (list_to_json trace_node_to_json) (trace_backward_handler (ctx_collate x) u e)"
| "trace_routes x u (TraceForward e) = ok (list_to_json trace_node_to_json) (trace_forward_handler (ctx_collate x) u e)"
| "trace_routes x u (ParseBarcode t) = ok barcode_to_json (parse_barcode u t)"

fun qms_routes :: "app_context \<Rightarrow> auth_user \<Rightarrow> qms_req \<Rightarrow> 's served" where
  "qms_routes x u (CreatePlan part code name) = coded (plan_to_json (ctx_wire x)) (create_plan_handler (ctx_ids x 0) (ctx_now x) u part code name)"
| "qms_routes x u (CreateCharacteristic plan name uom nominal lo hi) =
     coded (characteristic_to_json (ctx_wire x)) (create_characteristic_handler (ctx_ids x 0) u plan name uom nominal lo hi)"
| "qms_routes x u (RecordResult ch lot serial wop v) = coded (record_result_to_json (ctx_wire x)) (record_result_handler (ctx_ids x) (ctx_now x) u ch lot serial wop v)"
| "qms_routes x u ListNcrs = ok (list_to_json (ncr_to_json (ctx_wire x))) (list_ncrs_handler u)"
| "qms_routes x u (GetNcr i) = ok (ncr_to_json (ctx_wire x)) (get_ncr_handler u i)"
| "qms_routes x u (DispositionNcr i t reason) = ok (ncr_to_json (ctx_wire x)) (disposition_ncr_handler (ctx_ids x 0) (ctx_now x) u i t reason)"

fun cmms_routes :: "app_context \<Rightarrow> auth_user \<Rightarrow> cmms_req \<Rightarrow> 's served" where
  "cmms_routes x u (CreatePmSchedule wc name trigger interval checklist) =
     coded (pm_schedule_to_json (ctx_wire x)) (create_pm_schedule_handler (ctx_arith x) (ctx_ids x) (ctx_now x) u wc name trigger interval checklist)"
| "cmms_routes x u ListPmDue = ok (list_to_json (pm_due_to_json (ctx_wire x))) (list_pm_due_handler (ctx_arith x) (ctx_now x) u)"
| "cmms_routes x u ListMaintenanceWos = ok (list_to_json (maintenance_wo_to_json (ctx_wire x))) (list_maintenance_wos_handler u)"
| "cmms_routes x u (CreateMaintenanceWo wc pm t notes) = coded (maintenance_wo_to_json (ctx_wire x)) (create_maintenance_wo_handler (ctx_ids x) (ctx_now x) u wc pm t notes)"
| "cmms_routes x u (GetMaintenanceWo i) = ok (maintenance_wo_to_json (ctx_wire x)) (get_maintenance_wo_handler u i)"
| "cmms_routes x u (TransitionMaintenanceWo i st tech code) =
     ok (maintenance_wo_to_json (ctx_wire x)) (transition_maintenance_wo_handler (ctx_ids x 0) (ctx_now x) u i st tech code)"
| "cmms_routes x u ListSpareParts = ok (list_to_json (spare_part_to_json (ctx_wire x))) (list_spare_parts_handler (ctx_collate x) u)"
| "cmms_routes x u (CreateSparePart code name uom point qty) = coded (spare_part_to_json (ctx_wire x)) (create_spare_part_handler (ctx_ids x 0) u code name uom point qty)"
| "cmms_routes x u (RecordSpareTxn i mwo t qty) = coded (spare_txn_response_to_json (ctx_wire x)) (record_spare_txn_handler (ctx_ids x) (ctx_now x) u i mwo t qty)"
| "cmms_routes x u ListProcurementRequests = ok (list_to_json (procurement_to_json (ctx_wire x))) (list_procurement_requests_handler u)"
| "cmms_routes x u (CreateProcurementRequest i qty) = coded (procurement_to_json (ctx_wire x)) (create_procurement_request_handler (ctx_ids x) (ctx_now x) u i qty)"

fun erp_routes :: "app_context \<Rightarrow> auth_user \<Rightarrow> erp_req \<Rightarrow> 's served" where
  "erp_routes x u ListConnections = ok (list_to_json (erp_connection_to_json (ctx_wire x))) (list_connections_handler u)"
| "erp_routes x u (CreateConnection input) = coded (erp_connection_to_json (ctx_wire x)) (create_connection_handler (ctx_erp x) (ctx_ids x 0) (ctx_ids x 1) (ctx_now x) u input)"
| "erp_routes x u (GetConnection i) = ok (erp_connection_to_json (ctx_wire x)) (get_connection_handler u i)"
| "erp_routes x u (UpdateConnection i input) = ok (erp_connection_to_json (ctx_wire x)) (update_connection_handler (ctx_erp x) (ctx_ids x 0) (ctx_now x) u i input)"
| "erp_routes x u (DeleteConnection i) = status_only (delete_connection_handler (ctx_ids x 0) (ctx_now x) u i)"
| "erp_routes x u (Import i t records) =
     coded import_result_to_json (import_handler (ctx_wire x) (ctx_debug x) (ctx_import_ids x) (ctx_ids x 0) (ctx_ids x 1) (ctx_now x) u i t records)"
| "erp_routes x u (Export i t) =
     ok export_result_to_json (export_handler (ctx_wire x) (ctx_collate x) (ctx_erp x) (ctx_ids x 0) (ctx_ids x 1) (ctx_now x) u i t)"
| "erp_routes x u (ListSyncLog c) = ok (list_to_json (sync_log_to_json (ctx_wire x))) (list_sync_log_handler u c)"

text \<open>Sending diagnostics works on the network alone: the database of the service stays as it is.\<close>

fun diagnostics_routes :: "app_context \<Rightarrow> auth_user \<Rightarrow> diagnostics_req \<Rightarrow> 's served" where
  "diagnostics_routes x u (SendDiagnostics note) =
     (\<lambda>s. (fst (coded id (send_handler (ctx_pretty x) (ctx_github x) (ctx_env x) (ctx_version x) u note) \<lparr>sent = []\<rparr>), s))"

text \<open>The router: the outer routes and the logins are open, everything else takes the user of the bearer header.\<close>

datatype edge_req =
    PublicReq public_req | AuthReq auth_req | MasterReq master_req | IngestReq ingest_req | OrdersReq orders_req | ExecReq exec_req | DncReq dnc_req
  | AnalyticsReq analytics_req | TraceReq trace_req | QmsReq qms_req | CmmsReq cmms_req | ErpReq erp_req
  | DiagnosticsReq diagnostics_req

definition with_user :: "app_context \<Rightarrow> string option \<Rightarrow> (auth_user \<Rightarrow> 's served) \<Rightarrow> 's served" where
  "with_user x header m =
     (case authenticate (ctx_crypto x) (ctx_auth x) (ctx_now x) header of Inl e \<Rightarrow> throw e | Inr u \<Rightarrow> m u)"

definition serve :: "app_context \<Rightarrow> string option \<Rightarrow> edge_req \<Rightarrow> 's served" where
  "serve x header req =
     (case req of
        PublicReq r \<Rightarrow> public_routes x r
      | AuthReq r \<Rightarrow> auth_routes x r
      | MasterReq r \<Rightarrow> with_user x header (\<lambda>u. master_routes x u r)
      | IngestReq r \<Rightarrow> with_user x header (\<lambda>u. ingest_routes x u r)
      | OrdersReq r \<Rightarrow> with_user x header (\<lambda>u. orders_routes x u r)
      | ExecReq r \<Rightarrow> with_user x header (\<lambda>u. exec_routes x u r)
      | DncReq r \<Rightarrow> with_user x header (\<lambda>u. dnc_routes x u r)
      | AnalyticsReq r \<Rightarrow> with_user x header (\<lambda>u. analytics_routes x u r)
      | TraceReq r \<Rightarrow> with_user x header (\<lambda>u. trace_routes x u r)
      | QmsReq r \<Rightarrow> with_user x header (\<lambda>u. qms_routes x u r)
      | CmmsReq r \<Rightarrow> with_user x header (\<lambda>u. cmms_routes x u r)
      | ErpReq r \<Rightarrow> with_user x header (\<lambda>u. erp_routes x u r)
      | DiagnosticsReq r \<Rightarrow> with_user x header (\<lambda>u. diagnostics_routes x u r))"

section \<open>Who may do what\<close>

text \<open>The roles an endpoint is reserved to, from the source's role checks; the others are open to every user.\<close>

definition reserved :: "edge_req \<Rightarrow> string set option" where
  "reserved req =
     (let planning = Some {''Admin'', ''Planner''}; reviewing = Some {''Admin'', ''Planner'', ''Supervisor''};
          quality = Some {''Admin'', ''Supervisor'', ''Quality''}; maintenance = Some {''Admin'', ''Supervisor'', ''Maintenance''}
      in case req of
        MasterReq r \<Rightarrow>
          (case r of ListSites \<Rightarrow> None | GetSite _ \<Rightarrow> None | ListAreas \<Rightarrow> None | GetArea _ \<Rightarrow> None | ListWorkCenters \<Rightarrow> None
           | GetWorkCenter _ \<Rightarrow> None | ListParts \<Rightarrow> None | GetPart _ \<Rightarrow> None | ListPrograms \<Rightarrow> None | _ \<Rightarrow> planning)
      | OrdersReq r \<Rightarrow> (case r of ListOrders \<Rightarrow> None | GetOrder _ \<Rightarrow> None | _ \<Rightarrow> planning)
      | DncReq r \<Rightarrow> (case r of PromoteRevision _ \<Rightarrow> reviewing | RejectRevision _ \<Rightarrow> reviewing | _ \<Rightarrow> None)
      | TraceReq r \<Rightarrow> (case r of PlaceHold _ _ _ \<Rightarrow> quality | ReleaseHold _ \<Rightarrow> quality | _ \<Rightarrow> None)
      | QmsReq r \<Rightarrow>
          (case r of CreatePlan _ _ _ \<Rightarrow> quality | CreateCharacteristic _ _ _ _ _ _ \<Rightarrow> quality
           | DispositionNcr _ _ _ \<Rightarrow> quality | _ \<Rightarrow> None)
      | CmmsReq r \<Rightarrow>
          (case r of ListPmDue \<Rightarrow> None | ListMaintenanceWos \<Rightarrow> None | GetMaintenanceWo _ \<Rightarrow> None | ListSpareParts \<Rightarrow> None
           | ListProcurementRequests \<Rightarrow> None | _ \<Rightarrow> maintenance)
      | ErpReq _ \<Rightarrow> planning
      | DiagnosticsReq _ \<Rightarrow> planning
      | _ \<Rightarrow> None)"

text \<open>A handler refuses when its role check fails, before anything else happens.\<close>

named_theorems forbids_rules \<open>programs that start with a failing role check\<close>

definition forbids :: "('s, api_err, 'a) prog \<Rightarrow> bool" where
  "forbids m \<longleftrightarrow> (\<forall>s. \<exists>msg. m s = (Inl (ApiErr 403 ''forbidden'' msg), s))"

lemma forbidsD: "forbids m \<Longrightarrow> \<exists>msg. m s = (Inl (ApiErr 403 ''forbidden'' msg), s)"
  by (simp add: forbids_def)

lemma forbids_andThen [forbids_rules]:
  assumes "forbids m"
  shows "forbids (andThen m f)"
proof -
  have "\<exists>msg. andThen m f s = (Inl (ApiErr 403 ''forbidden'' msg), s)" for s
    using forbidsD [OF assms, of s] by (auto simp: andThen_eval)
  then show ?thesis by (simp add: forbids_def)
qed

lemma forbids_wrap [forbids_rules]: "forbids m \<Longrightarrow> forbids (ok enc m)" "forbids c \<Longrightarrow> forbids (coded enc c)"
  "forbids n \<Longrightarrow> forbids (status_only n)"
  unfolding ok_def coded_def status_only_def by (rule forbids_andThen; assumption)+

lemma forbids_guard [forbids_rules]: "\<not> b \<Longrightarrow> forbids (guard b (ApiErr 403 ''forbidden'' msg))"
  by (simp add: forbids_def prog_simps)

lemma forbids_writer [forbids_rules]: "\<not> can_write_master (role u) \<Longrightarrow> forbids (master_writer u)"
  by (simp add: forbids_def master_writer_def prog_simps)

lemma forbids_required [forbids_rules]:
  "\<not> can_manage_quality (role u) \<Longrightarrow> forbids (require_quality u)"
  "\<not> can_manage_maintenance (role u) \<Longrightarrow> forbids (require_maintenance u)"
  unfolding require_quality_def require_maintenance_def by (rule forbids_guard; assumption)+

lemmas role_checks = reserved_def Let_def can_write_master_def can_promote_revision_def can_manage_quality_def
  can_manage_maintenance_def

lemma forbidden_routes:
  "reserved (MasterReq r1) = Some R \<Longrightarrow> role u \<notin> R \<Longrightarrow> forbids (master_routes x u r1)"
  "reserved (OrdersReq r2) = Some R \<Longrightarrow> role u \<notin> R \<Longrightarrow> forbids (orders_routes x u r2)"
  "reserved (DncReq r3) = Some R \<Longrightarrow> role u \<notin> R \<Longrightarrow> forbids (dnc_routes x u r3)"
  "reserved (TraceReq r4) = Some R \<Longrightarrow> role u \<notin> R \<Longrightarrow> forbids (trace_routes x u r4)"
  "reserved (QmsReq r5) = Some R \<Longrightarrow> role u \<notin> R \<Longrightarrow> forbids (qms_routes x u r5)"
  "reserved (CmmsReq r6) = Some R \<Longrightarrow> role u \<notin> R \<Longrightarrow> forbids (cmms_routes x u r6)"
  "reserved (ErpReq r7) = Some R \<Longrightarrow> role u \<notin> R \<Longrightarrow> forbids (erp_routes x u r7)"
  "reserved (DiagnosticsReq r8) = Some R \<Longrightarrow> role u \<notin> R \<Longrightarrow> forbids (diagnostics_routes x u r8)"
  subgoal by (cases r1) (auto simp: role_checks master_writers list_users_handler_def intro!: forbids_rules)
  subgoal by (cases r2) (auto simp: role_checks create_order_def release_order_def cancel_order_def close_order_def intro!: forbids_rules)
  subgoal by (cases r3) (auto simp: role_checks promote_revision_def reject_revision_def transition_revision_def intro!: forbids_rules)
  subgoal by (cases r4) (auto simp: role_checks place_hold_handler_def release_hold_handler_def intro!: forbids_rules)
  subgoal by (cases r5) (auto simp: role_checks create_plan_handler_def create_characteristic_handler_def disposition_ncr_handler_def
      intro!: forbids_rules)
  subgoal by (cases r6) (auto simp: role_checks create_pm_schedule_handler_def create_maintenance_wo_handler_def
      transition_maintenance_wo_handler_def create_spare_part_handler_def record_spare_txn_handler_def
      create_procurement_request_handler_def intro!: forbids_rules)
  subgoal by (cases r7) (auto simp: role_checks list_connections_handler_def create_connection_handler_def get_connection_handler_def
      update_connection_handler_def delete_connection_handler_def import_handler_def export_handler_def list_sync_log_handler_def
      intro!: forbids_rules)
  subgoal by (cases r8) (auto simp: role_checks forbids_def send_handler_def master_writer_def coded_def prog_simps)
  done

section \<open>Reading requests\<close>

named_theorems reads_rules \<open>programs that leave the state as it is\<close>

definition reads :: "('s, 'e, 'a) prog \<Rightarrow> bool" where
  "reads m \<longleftrightarrow> (\<forall>s. snd (m s) = s)"

lemma reads_iff: "reads m \<longleftrightarrow> (\<forall>s. preserves (\<lambda>t. t = s) m)"
  by (auto simp: reads_def preserves_def)

lemma reads_andThen [reads_rules]: "reads m \<Longrightarrow> (\<And>x. reads (f x)) \<Longrightarrow> reads (andThen m f)"
  by (simp add: reads_iff preserves_andThen)

lemma reads_basic [reads_rules]:
  "reads (ret v)" "reads (throw e)" "reads (gets g)" "reads (okOr e y)" "reads (guard b e)" "reads require_pool"
  by (simp_all add: reads_def prog_simps require_pool_def split: option.split)

lemma reads_mapErr [reads_rules]: "reads m \<Longrightarrow> reads (mapErr h m)"
  by (simp add: reads_iff preserves_mapErr)

lemma reads_mapProg [reads_rules]: "(\<And>y. reads (f y)) \<Longrightarrow> reads (mapProg f ys)"
  by (simp add: reads_iff preserves_mapProg)

lemma reads_if [reads_rules]: "reads m \<Longrightarrow> reads n \<Longrightarrow> reads (if b then m else n)"
  by simp

lemma reads_writer [reads_rules]: "reads (master_writer u)"
  unfolding master_writer_def by (intro reads_rules)

lemma reads_oee [reads_rules]: "reads (oee_inputs wc a b)"
  by (simp add: reads_def oee_inputs_state)

lemmas list_defs = list_sites_def list_areas_def list_work_centers_def list_parts_def list_users_def list_programs_def
  get_site_def get_area_def get_work_center_def get_part_def list_work_orders_def get_work_order_detail_def get_work_order_def
  list_transfers_def list_revisions_def downtime_pareto_def downtime_by_loss_def downtime_trend_def oee_by_shift_def
  trace_backward_def trace_forward_def list_ncrs_def get_ncr_def list_pm_due_def list_maintenance_wos_def
  get_maintenance_wo_def list_spare_parts_def list_procurement_requests_def list_connections_def get_connection_def list_sync_log_def

lemma master_reads:
  "reads (list_sites_handler co u)" "reads (get_site_handler u i)" "reads (list_areas_handler co u)" "reads (get_area_handler u i)"
  "reads (list_work_centers_handler co u)" "reads (get_work_center_handler u i)" "reads (list_parts_handler co u)"
  "reads (get_part_handler u i)" "reads (list_users_handler co u)" "reads (list_programs_handler co u)"
  unfolding list_sites_handler_def get_site_handler_def list_areas_handler_def get_area_handler_def list_work_centers_handler_def
    get_work_center_handler_def list_parts_handler_def get_part_handler_def list_users_handler_def list_programs_handler_def list_defs
  by (intro reads_rules)+

lemma floor_reads:
  "reads (list_orders co u)" "reads (get_order u i)" "reads (list_transfers_handler u)" "reads (list_revisions_handler u)"
  unfolding list_orders_def get_order_def list_transfers_handler_def list_revisions_handler_def list_defs by (intro reads_rules)+

lemma quality_reads:
  "reads (trace_backward_handler co u e)" "reads (trace_forward_handler co u e)" "reads (parse_barcode u t)"
  "reads (list_ncrs_handler u)" "reads (get_ncr_handler u i)"
  unfolding trace_backward_handler_def trace_forward_handler_def parse_barcode_def list_ncrs_handler_def get_ncr_handler_def list_defs
  by (intro reads_rules)+

lemma cmms_reads:
  "reads (list_pm_due_handler ar now u)" "reads (list_maintenance_wos_handler u)" "reads (get_maintenance_wo_handler u i)"
  "reads (list_spare_parts_handler co u)" "reads (list_procurement_requests_handler u)"
  unfolding list_pm_due_handler_def list_maintenance_wos_handler_def get_maintenance_wo_handler_def list_spare_parts_handler_def
    list_procurement_requests_handler_def list_defs
  by (intro reads_rules)+

lemma erp_reads:
  "reads (list_connections_handler u)" "reads (get_connection_handler u i)" "reads (list_sync_log_handler u c)"
  unfolding list_connections_handler_def get_connection_handler_def list_sync_log_handler_def list_defs by (intro reads_rules)+

lemma reads_oee_sql [reads_rules]: "reads (oee_sql wc a b)"
  unfolding oee_sql_def fetch_seconds_def fetch_counts_def fetched_def sql_ratio_def
  by (intro reads_rules; auto intro!: reads_rules split: sum.split prod.split)

lemma analytics_reads: "reads (analytics_routes x u r)"
  by (cases r; simp add: ok_def downtime_pareto_handler_def six_big_losses_def downtime_trend_handler_def oee_def
      oee_by_shift_handler_def list_defs; intro reads_rules; auto intro!: reads_rules split: prod.split)

lemma open_reads: "reads (public_routes x r)" "reads (diagnostics_routes x u q)"
  subgoal by (cases r; simp add: ok_def coded_def ready_probe_def; intro reads_rules; auto intro!: reads_rules split: prod.split)
  subgoal by (cases q) (simp add: reads_def)
  done

section \<open>Requests are steps\<close>

lemma snd_answers [simp]: "snd (ok enc m s) = snd (m s)" "snd (coded enc c s) = snd (c s)" "snd (status_only n s) = snd (n s)"
  by (auto simp: ok_def coded_def status_only_def prog_simps split: prod.split sum.split)

lemmas reads_state = master_reads [unfolded reads_def, rule_format] floor_reads [unfolded reads_def, rule_format]
  quality_reads [unfolded reads_def, rule_format] cmms_reads [unfolded reads_def, rule_format]
  erp_reads [unfolded reads_def, rule_format] analytics_reads [unfolded reads_def, rule_format]
  open_reads [unfolded reads_def, rule_format]

lemma routes_step:
  "\<exists>l. edge_step l s (snd (auth_routes x r0 s))"
  "\<exists>l. edge_step l s (snd (master_routes x u r1 s))"
  "\<exists>l. edge_step l s (snd (ingest_routes x u r2 s))"
  "\<exists>l. edge_step l s (snd (orders_routes x u r3 s))"
  "\<exists>l. edge_step l s (snd (exec_routes x u r4 s))"
  "\<exists>l. edge_step l s (snd (dnc_routes x u r5 s))"
  "\<exists>l. edge_step l s (snd (trace_routes x u r6 s))"
  "\<exists>l. edge_step l s (snd (qms_routes x u r7 s))"
  "\<exists>l. edge_step l s (snd (cmms_routes x u r8 s))"
  "\<exists>l. edge_step l s (snd (erp_routes x u r9 s))"
  subgoal by (cases r0) (auto intro: edge_step.intros)
  subgoal by (cases r1) (auto simp: reads_state intro: edge_read edge_master master_step.intros)
  subgoal by (cases r2) (auto intro: edge_floor floor_step.intros)
  subgoal by (cases r3) (auto simp: reads_state intro: edge_read edge_floor floor_step.intros)
  subgoal by (cases r4) (auto intro: edge_floor floor_step.intros)
  subgoal by (cases r5) (auto simp: reads_state intro: edge_read edge_daemon edge_floor floor_step.intros)
  subgoal by (cases r6) (auto simp: reads_state intro: edge_read edge_quality quality_step.intros)
  subgoal by (cases r7) (auto simp: reads_state intro: edge_read edge_quality quality_step.intros)
  subgoal by (cases r8) (auto simp: reads_state intro: edge_read edge_cmms cmms_step.intros)
  subgoal by (cases r9) (auto simp: reads_state intro: edge_step.intros)
  done

lemma serve_step: "\<exists>l. edge_step l s (snd (serve x header req s))"
proof -
  have "\<exists>l. edge_step l s (snd (with_user x header m s))" if "\<And>u. \<exists>l. edge_step l s (snd (m u s))" for m
    using that by (auto simp: with_user_def throw_eval intro: edge_read split: sum.split)
  moreover have "\<exists>l. edge_step l s (snd (analytics_routes x u r s))" "\<exists>l. edge_step l s (snd (public_routes x p s))"
    "\<exists>l. edge_step l s (snd (diagnostics_routes x u q s))" for u r p q
    by (auto simp: reads_state intro: edge_read)
  ultimately show ?thesis by (cases req) (auto simp: serve_def routes_step)
qed

text \<open>Requests served one after the other are a run of the service.\<close>

primrec serve_all :: "(app_context \<times> string option \<times> edge_req) list \<Rightarrow> 's master_db_scheme \<Rightarrow> 's master_db_scheme" where
  "serve_all [] s = s"
| "serve_all (r # rs) s = (case r of (x, header, req) \<Rightarrow> serve_all rs (snd (serve x header req s)))"

lemma serve_all_run: "\<exists>ls. edge_run ls s (serve_all rs s)"
proof (induction rs arbitrary: s)
  case Nil
  show ?case using edge_nil by auto
next
  case (Cons r rs)
  obtain x header req where r: "r = (x, header, req)" by (cases r)
  obtain l where "edge_step l s (snd (serve x header req s))" using serve_step by blast
  with Cons [of "snd (serve x header req s)"] r show ?case by (auto intro: edge_cons)
qed

section \<open>Users with the role are not refused\<close>

named_theorems grants_rules \<open>programs that never answer that the role is not allowed\<close>

definition grants :: "('s, api_err, 'a) prog \<Rightarrow> bool" where
  "grants m \<longleftrightarrow> (\<forall>s e s'. m s = (Inl e, s') \<longrightarrow> err_status e \<noteq> 403)"

lemma grantsD: "grants m \<Longrightarrow> m s = (Inl e, s') \<Longrightarrow> err_status e \<noteq> 403"
  by (auto simp: grants_def)

lemma grants_andThen [grants_rules]: "grants m \<Longrightarrow> (\<And>y. grants (f y)) \<Longrightarrow> grants (andThen m f)"
  by (auto simp: grants_def andThen_eval split: prod.splits sum.splits)

lemma grants_basic [grants_rules]:
  "grants (ret v)" "grants (gets g)" "grants (modify h)" "grants require_pool"
  by (simp_all add: grants_def prog_simps require_pool_def)

lemma grants_errors [grants_rules]:
  "err_status e \<noteq> 403 \<Longrightarrow> grants (throw e)" "b \<or> err_status e \<noteq> 403 \<Longrightarrow> grants (guard b e)"
  "err_status e \<noteq> 403 \<Longrightarrow> grants (okOr e y)"
  by (auto simp: grants_def prog_simps split: option.split)

lemma grants_if [grants_rules]: "grants m \<Longrightarrow> grants n \<Longrightarrow> grants (if b then m else n)"
  by simp

lemma grants_repo [grants_rules]: "grants (mapErr repo_err m)"
  by (auto simp: grants_def prog_simps repo_err_def split: prod.splits sum.splits repo_error.splits)

lemma grants_ok [grants_rules]: "grants m \<Longrightarrow> grants (ok enc m)" "grants c \<Longrightarrow> grants (coded enc c)"
  "grants n \<Longrightarrow> grants (status_only n)"
  unfolding ok_def coded_def status_only_def by (intro grants_rules; auto intro: grants_rules split: prod.split)+

lemma grants_writer [grants_rules]: "can_write_master (role u) \<Longrightarrow> grants (master_writer u)"
  by (simp add: grants_def master_writer_def prog_simps)

lemma grants_required [grants_rules]:
  "can_manage_quality (role u) \<Longrightarrow> grants (require_quality u)"
  "can_manage_maintenance (role u) \<Longrightarrow> grants (require_maintenance u)"
  unfolding require_quality_def require_maintenance_def by (auto intro: grants_rules)

lemma grants_hash [grants_rules]: "grants (hash_optional c p)"
  unfolding hash_optional_def by (auto intro!: grants_rules split: option.split sum.split)

lemma master_granted:
  "(\<And>R. reserved (MasterReq r) = Some R \<Longrightarrow> role u \<in> R) \<Longrightarrow> grants (master_routes x u r)"
  by (cases r; simp add: role_checks; unfold master_writers list_sites_handler_def get_site_handler_def list_areas_handler_def
      get_area_handler_def list_work_centers_handler_def get_work_center_handler_def list_parts_handler_def get_part_handler_def
      list_users_handler_def list_programs_handler_def;
    intro grants_rules; auto simp: role_checks intro!: grants_rules)

lemma grants_transition [grants_rules]: "grants (transition_wo nid now actor i st)"
  unfolding transition_wo_def by (intro grants_rules) auto

lemma orders_granted:
  "(\<And>R. reserved (OrdersReq r) = Some R \<Longrightarrow> role u \<in> R) \<Longrightarrow> grants (orders_routes x u r)"
  by (cases r; simp add: role_checks; unfold create_order_def release_order_def cancel_order_def close_order_def list_orders_def
      get_order_def; intro grants_rules; auto simp: role_checks intro!: grants_rules)

lemma grants_schedule [grants_rules]: "grants (schedule_transfer net nid now pid ident machine wop)"
  unfolding schedule_transfer_def by (intro grants_rules; auto intro!: grants_rules simp: grants_def prog_simps split: prod.splits sum.splits)

lemma exec_granted: "grants (exec_routes x u r)" "grants (ingest_routes x u q)" "grants (analytics_routes x u a)"
  subgoal by (cases r; simp; unfold start_op_def record_count_handler_def complete_op_def complete_wo_def classify_downtime_handler_def
      split_downtime_handler_def parse_op_status_def; intro grants_rules; auto intro!: grants_rules split: prod.split)
  subgoal by (cases q; simp; unfold ingest_signals_def recompute_def; intro grants_rules; auto intro!: grants_rules)
  subgoal by (cases a; simp; unfold downtime_pareto_handler_def six_big_losses_def downtime_trend_handler_def oee_def
      oee_by_shift_handler_def; intro grants_rules)
  done

lemma dnc_granted:
  "(\<And>R. reserved (DncReq r) = Some R \<Longrightarrow> role u \<in> R) \<Longrightarrow> grants (dnc_routes x u r)"
  by (cases r; simp add: role_checks; unfold list_transfers_handler_def manual_transfer_def retry_transfer_def list_revisions_handler_def
      promote_revision_def reject_revision_def transition_revision_def inject_daemon_event_def handle_daemon_event_def;
    intro grants_rules; auto simp: role_checks intro!: grants_rules split: prod.split dnc_event.split option.split)

lemma trace_granted:
  "(\<And>R. reserved (TraceReq r) = Some R \<Longrightarrow> role u \<in> R) \<Longrightarrow> grants (trace_routes x u r)"
  by (cases r; simp add: role_checks; unfold create_lot_handler_def create_serial_handler_def add_genealogy_handler_def
      issue_material_handler_def place_hold_handler_def release_hold_handler_def trace_backward_handler_def trace_forward_handler_def
      parse_barcode_def; intro grants_rules; auto simp: role_checks intro!: grants_rules)

lemma qms_granted:
  "(\<And>R. reserved (QmsReq r) = Some R \<Longrightarrow> role u \<in> R) \<Longrightarrow> grants (qms_routes x u r)"
  by (cases r; simp add: role_checks; unfold create_plan_handler_def create_characteristic_handler_def record_result_handler_def
      disposition_ncr_handler_def list_ncrs_handler_def get_ncr_handler_def;
    intro grants_rules; auto simp: role_checks intro!: grants_rules split: prod.split option.split)

lemma cmms_granted:
  "(\<And>R. reserved (CmmsReq r) = Some R \<Longrightarrow> role u \<in> R) \<Longrightarrow> grants (cmms_routes x u r)"
  by (cases r; simp add: role_checks; unfold create_pm_schedule_handler_def create_maintenance_wo_handler_def
      transition_maintenance_wo_handler_def create_spare_part_handler_def record_spare_txn_handler_def create_procurement_request_handler_def
      list_pm_due_handler_def list_maintenance_wos_handler_def get_maintenance_wo_handler_def list_spare_parts_handler_def
      list_procurement_requests_handler_def; intro grants_rules; auto simp: role_checks intro!: grants_rules split: prod.split)

lemma grants_tokens [grants_rules]: "grants (normalize_direction d)" "grants (encrypt_token e p)" "grants (decrypt_token e q)"
  unfolding normalize_direction_def encrypt_token_def decrypt_token_def Let_def
  by (auto intro!: grants_rules split: option.split sum.split)

lemma grants_finish [grants_rules]:
  "grants (finish_import lid aid now actor i t result)" "grants (finish_export lid aid now actor i t payload ps pushed)"
  "grants (export_records w co t)"
  subgoal unfolding finish_import_def by (cases result) (auto intro!: grants_rules, auto simp: grants_def)
  subgoal unfolding finish_export_def by (cases pushed) (auto intro!: grants_rules, auto simp: grants_def)
  subgoal unfolding export_records_def by (auto simp: Let_def intro!: grants_rules)
  done

lemma grants_after [grants_rules]: "(\<And>v. grants (f v)) \<Longrightarrow> grants (\<lambda>s. case m s of (v, s') \<Rightarrow> f v s')"
  by (auto simp: grants_def split: prod.splits)

lemma erp_granted:
  "(\<And>R. reserved (ErpReq r) = Some R \<Longrightarrow> role u \<in> R) \<Longrightarrow> grants (erp_routes x u r)"
  by (cases r; simp add: role_checks; unfold list_connections_handler_def create_connection_handler_def get_connection_handler_def
      update_connection_handler_def delete_connection_handler_def import_handler_def export_handler_def list_sync_log_handler_def;
    intro grants_rules; auto simp: role_checks Let_def intro!: grants_rules split: prod.split sum.split option.split)

lemma grants_send: "can_write_master (role u) \<Longrightarrow> grants (send_handler pretty net env version u note)"
  unfolding send_handler_def Let_def
  by (intro grants_rules; (assumption | auto simp: grants_def prog_simps split: prod.splits sum.splits))

lemma diagnostics_granted:
  assumes "\<And>R. reserved (DiagnosticsReq r) = Some R \<Longrightarrow> role u \<in> R"
  shows "grants (diagnostics_routes x u r)"
proof (cases r)
  case (SendDiagnostics msg)
  from assms have "can_write_master (role u)" by (auto simp: role_checks)
  then have "grants (coded id (send_handler (ctx_pretty x) (ctx_github x) (ctx_env x) (ctx_version x) u msg)
      :: (diag_net, api_err, answer) prog)" (is "grants ?m")
    by (intro grants_rules grants_send)
  then have "err_status e \<noteq> 403" if "fst (?m \<lparr>sent = []\<rparr>) = Inl e" for e
    using that by (cases "?m \<lparr>sent = []\<rparr>") (auto simp: grants_def)
  with SendDiagnostics show ?thesis by (auto simp: grants_def)
qed

section \<open>Access control\<close>

definition permitted :: "auth_user \<Rightarrow> edge_req \<Rightarrow> bool" where
  "permitted u req = (case reserved req of None \<Rightarrow> True | Some R \<Rightarrow> role u \<in> R)"

definition refused :: "api_err + 'a \<Rightarrow> bool" where
  "refused r = (case r of Inl e \<Rightarrow> err_status e = 403 | Inr _ \<Rightarrow> False)"

text \<open>The requests that take no user.\<close>

definition is_open :: "edge_req \<Rightarrow> bool" where
  "is_open req = (case req of PublicReq _ \<Rightarrow> True | AuthReq _ \<Rightarrow> True | _ \<Rightarrow> False)"

lemma not_refused: "grants m \<Longrightarrow> \<not> refused (fst (m s))"
  by (cases "m s") (auto simp: grants_def refused_def split: sum.split)

lemma serve_unknown:
  "authenticate (ctx_crypto x) (ctx_auth x) (ctx_now x) header = Inl e \<Longrightarrow> \<not> is_open req \<Longrightarrow> serve x header req s = (Inl e, s)"
  by (cases req) (auto simp: serve_def with_user_def is_open_def throw_eval)

lemma authenticate_status: "authenticate c cfg now header = Inl e \<Longrightarrow> err_status e = 401"
  by (auto simp: authenticate_def auth_user_from_request_def split: option.splits sum.splits)

lemma serve_forbidden:
  assumes "authenticate (ctx_crypto x) (ctx_auth x) (ctx_now x) header = Inr u" "\<not> is_open req" "\<not> permitted u req"
  shows "forbids (serve x header req)"
proof -
  from assms(3) obtain R where "reserved req = Some R" "role u \<notin> R" by (auto simp: permitted_def split: option.splits)
  with assms show ?thesis
    by (cases req) (simp_all add: serve_def with_user_def is_open_def forbidden_routes, simp_all add: reserved_def)
qed

lemma serve_granted:
  assumes "authenticate (ctx_crypto x) (ctx_auth x) (ctx_now x) header = Inr u" "\<not> is_open req" "permitted u req"
  shows "grants (serve x header req)"
proof -
  from assms(3) have "reserved req = Some R \<Longrightarrow> role u \<in> R" for R by (simp add: permitted_def)
  with assms(1, 2) show ?thesis
    by (cases req) (simp_all add: serve_def with_user_def is_open_def master_granted orders_granted exec_granted dnc_granted
      trace_granted qms_granted cmms_granted erp_granted diagnostics_granted)
qed

lemma serve_open: "is_open req \<Longrightarrow> serve x header req = serve x header' req"
  by (cases req) (simp_all add: is_open_def serve_def)

text \<open>
  C12. Who may do what over HTTP.  Six endpoints take no token: the two logins, the probes, the API document and the live
  event stream.  They are served the same whatever the bearer header is, and all but the logins leave the database
  as it is.  Every other endpoint answers 401 with nothing changed when the bearer header names no user, and 403 with nothing
  changed exactly when the endpoint is reserved to roles that the user does not have.  Whatever a request does to the database is one
  step of the service, so that what holds along all runs of the service holds for every sequence of requests.
\<close>

theorem access_control:
  "(\<exists>l. edge_step l s (snd (serve x header req s))) \<and>
   (if is_open req
    then serve x header req s = serve x header' req s \<and> (\<forall>r. req = PublicReq r \<longrightarrow> snd (serve x header req s) = s)
    else case authenticate (ctx_crypto x) (ctx_auth x) (ctx_now x) header of
           Inl e \<Rightarrow> serve x header req s = (Inl e, s) \<and> err_status e = 401
         | Inr u \<Rightarrow>
             refused (fst (serve x header req s)) = (\<not> permitted u req) \<and>
             (permitted u req \<or> (\<exists>msg. serve x header req s = (Inl (ApiErr 403 ''forbidden'' msg), s))))"
proof (cases "is_open req")
  case True
  have "snd (serve x header (PublicReq r) s) = s" for r
    by (simp add: serve_def reads_state)
  with True serve_step [of s x header req] show ?thesis by (auto simp: serve_open [OF True, of x header header'])
next
  case False
  note closed = False
  show ?thesis
  proof (cases "authenticate (ctx_crypto x) (ctx_auth x) (ctx_now x) header")
    case (Inl e)
    with closed serve_step [of s x header req] show ?thesis by (simp add: serve_unknown authenticate_status)
  next
    case (Inr u)
    show ?thesis
    proof (cases "permitted u req")
      case True
      with Inr closed serve_step [of s x header req] not_refused [OF serve_granted [OF Inr closed True]] show ?thesis by simp
    next
      case False
      from forbidsD [OF serve_forbidden [OF Inr closed False], of s] obtain msg
        where "serve x header req s = (Inl (ApiErr 403 ''forbidden'' msg), s)" by blast
      with Inr closed False serve_step [of s x header req] show ?thesis by (simp add: refused_def)
    qed
  qed
qed

definition sample_context :: app_context where
  "sample_context =
     \<lparr>ctx_crypto = sample_crypto, ctx_auth = \<lparr>ac_secret = ''k'', ac_ttl_secs = 3600\<rparr>, ctx_now = 5000000,
      ctx_ids = (\<lambda>n. replicate n CHR ''x''), ctx_import_ids = (\<lambda>i n. replicate i CHR ''r'' @ replicate n CHR ''x''),
      ctx_net = (\<lambda>_ _. None), ctx_wire = sample_wire, ctx_collate = (\<lambda>_. 0), ctx_arith = sample_arith,
      ctx_erp = sample_env, ctx_debug = (\<lambda>_. ''error''), ctx_f64 = (\<lambda>v. case v of Fin q \<Rightarrow> JNum q | _ \<Rightarrow> JNull),
      ctx_version = ''0.1.0'', ctx_db_up = True, ctx_openapi = JNull, ctx_env = (\<lambda>_. None), ctx_pretty = (\<lambda>_. None),
      ctx_github = (\<lambda>_ _ _. Inl ''offline'')\<rparr>"

theorem access_control_witness:
  "refused (fst (serve sample_context (Some ''Bearer token'') (TraceReq (ReleaseHold ''H1'')) sample_erp)) \<and>
   \<not> refused (fst (serve sample_context (Some ''Bearer token'') (MasterReq (DeletePart ''P1'')) sample_erp)) \<and>
   snd (serve sample_context (Some ''Bearer old'') (MasterReq ListParts) sample_erp) = sample_erp \<and>
   serve sample_context None (PublicReq EventStream) sample_erp = (Inr (101, None), sample_erp)"
  (is "refused (fst ?a) \<and> \<not> refused (fst ?b) \<and> snd ?c = sample_erp \<and> ?d = _")
proof (intro conjI)
  have known: "authenticate (ctx_crypto sample_context) (ctx_auth sample_context) (ctx_now sample_context) (Some ''Bearer token'') =
      Inr \<lparr>user_id = ''U1'', role = ''Planner''\<rparr>"
    and unknown: "\<exists>e. authenticate (ctx_crypto sample_context) (ctx_auth sample_context) (ctx_now sample_context)
      (Some ''Bearer old'') = Inl e"
    by (simp_all add: authenticate_def auth_user_from_request_def strip_prefix_def decode_token_def unix_seconds_def
      sample_context_def sample_crypto_def)
  show "refused (fst ?a)"
    using access_control [of sample_erp sample_context "Some ''Bearer token''" "TraceReq (ReleaseHold ''H1'')"]
    by (simp add: known is_open_def permitted_def reserved_def)
  show "\<not> refused (fst ?b)"
    using access_control [of sample_erp sample_context "Some ''Bearer token''" "MasterReq (DeletePart ''P1'')"]
    by (simp add: known is_open_def permitted_def reserved_def)
  show "snd ?c = sample_erp"
    using access_control [of sample_erp sample_context "Some ''Bearer old''" "MasterReq ListParts"] unknown
    by (auto simp: is_open_def)
  show "?d = (Inr (101, None), sample_erp)"
    using access_control [of sample_erp sample_context None "PublicReq EventStream" None]
    by (simp add: is_open_def serve_def ret_def)
qed

end
