(* ===== verification/Wire.thy ===== *)
theory Wire
  imports Router
begin

text \<open>
  The request types of \<^verbatim>\<open>mes-client\<close> on the wire.  Serde derives for each type a writer, which makes an
  object of the members, and a reader, which takes the members from an object or, in their order, from an
  array: a missing optional member is absent, a missing member with a default takes it, unknown
  members are ignored, and anything else fails.  A type is given by its members, in the order of the source.
  The last section has the messages of the transfer daemon and the events of the live stream.
\<close>

section \<open>Derived readers and writers\<close>

text \<open>An array stands for the first members; members with a default may be left out at its end.\<close>

definition as_object :: "nat \<Rightarrow> string list \<Rightarrow> json \<Rightarrow> json option" where
  "as_object n fs v =
     (case v of
        JObj m \<Rightarrow> Some v
      | JArr vs \<Rightarrow> if n \<le> length vs \<and> length vs \<le> length fs then Some (JObj (zip fs vs)) else None
      | _ \<Rightarrow> None)"

definition derived :: "string list \<Rightarrow> (json \<Rightarrow> 'a option) \<Rightarrow> json \<Rightarrow> 'a option" where
  "derived fs r v = Option.bind (as_object (length fs) fs v) r"

definition need :: "(json \<Rightarrow> 'a option) \<Rightarrow> string \<Rightarrow> json \<Rightarrow> 'a option" where
  "need f k v = Option.bind (json_get v k) f"

definition may :: "(json \<Rightarrow> 'a option) \<Rightarrow> string \<Rightarrow> json \<Rightarrow> 'a option option" where
  "may f k v = read_opt f (json_get v k)"

definition json_as_bool :: "json \<Rightarrow> bool option" where
  "json_as_bool v = (case v of JBool b \<Rightarrow> Some b | _ \<Rightarrow> None)"

text \<open>A reader takes its members one after the other; the first failure ends it.\<close>

definition take1 :: "('a \<Rightarrow> 'r) \<Rightarrow> (json \<Rightarrow> 'a option) \<Rightarrow> json \<Rightarrow> 'r option" where
  "take1 c f v = map_option c (f v)"

definition take2 :: "('a \<Rightarrow> 'b \<Rightarrow> 'r) \<Rightarrow> (json \<Rightarrow> 'a option) \<Rightarrow> (json \<Rightarrow> 'b option) \<Rightarrow> json \<Rightarrow> 'r option" where
  "take2 c f g v = Option.bind (f v) (\<lambda>x. take1 (c x) g v)"

definition take3 ::
  "('a \<Rightarrow> 'b \<Rightarrow> 'c \<Rightarrow> 'r) \<Rightarrow> (json \<Rightarrow> 'a option) \<Rightarrow> (json \<Rightarrow> 'b option) \<Rightarrow> (json \<Rightarrow> 'c option) \<Rightarrow> json \<Rightarrow> 'r option" where
  "take3 c f g h v = Option.bind (f v) (\<lambda>x. take2 (c x) g h v)"

definition take4 ::
  "('a \<Rightarrow> 'b \<Rightarrow> 'c \<Rightarrow> 'd \<Rightarrow> 'r) \<Rightarrow> (json \<Rightarrow> 'a option) \<Rightarrow> (json \<Rightarrow> 'b option) \<Rightarrow> (json \<Rightarrow> 'c option)
    \<Rightarrow> (json \<Rightarrow> 'd option) \<Rightarrow> json \<Rightarrow> 'r option" where
  "take4 c f g h i v = Option.bind (f v) (\<lambda>x. take3 (c x) g h i v)"

definition take5 ::
  "('a \<Rightarrow> 'b \<Rightarrow> 'c \<Rightarrow> 'd \<Rightarrow> 'e \<Rightarrow> 'r) \<Rightarrow> (json \<Rightarrow> 'a option) \<Rightarrow> (json \<Rightarrow> 'b option) \<Rightarrow> (json \<Rightarrow> 'c option)
    \<Rightarrow> (json \<Rightarrow> 'd option) \<Rightarrow> (json \<Rightarrow> 'e option) \<Rightarrow> json \<Rightarrow> 'r option" where
  "take5 c f g h i j v = Option.bind (f v) (\<lambda>x. take4 (c x) g h i j v)"

definition take6 ::
  "('a \<Rightarrow> 'b \<Rightarrow> 'c \<Rightarrow> 'd \<Rightarrow> 'e \<Rightarrow> 'f \<Rightarrow> 'r) \<Rightarrow> (json \<Rightarrow> 'a option) \<Rightarrow> (json \<Rightarrow> 'b option) \<Rightarrow> (json \<Rightarrow> 'c option)
    \<Rightarrow> (json \<Rightarrow> 'd option) \<Rightarrow> (json \<Rightarrow> 'e option) \<Rightarrow> (json \<Rightarrow> 'f option) \<Rightarrow> json \<Rightarrow> 'r option" where
  "take6 c f g h i j k v = Option.bind (f v) (\<lambda>x. take5 (c x) g h i j k v)"

lemmas takes = take1_def take2_def take3_def take4_def take5_def take6_def

named_theorems wire_simps \<open>readers on what writers wrote\<close>

lemma as_object_obj [wire_simps]: "as_object n fs (json_object kvs) = Some (json_object kvs)"
  by (simp add: as_object_def json_object_def)

lemma derived_obj [wire_simps]: "derived fs r (json_object kvs) = r (json_object kvs)"
  by (simp add: derived_def wire_simps)

lemma need_obj [wire_simps]: "need f k (json_object kvs) = Option.bind (map_of (rev kvs) k) f"
  by (simp add: need_def json_object_get)

lemma may_obj [wire_simps]: "may f k (json_object kvs) = read_opt f (map_of (rev kvs) k)"
  by (simp add: may_def json_object_get)

lemma as_str [wire_simps]: "json_as_str (JStr s) = Some s" "json_as_bool (JBool b) = Some b"
  by (simp_all add: json_as_str_def json_as_bool_def)

lemma opt_str [wire_simps]: "read_opt json_as_str (Some (opt_str x)) = Some x"
  unfolding opt_str_def by (rule read_opt_json) (simp add: wire_simps)

lemma opt_bool [wire_simps]: "read_opt json_as_bool (Some (opt_json JBool x)) = Some x"
  by (rule read_opt_json) (simp add: wire_simps)

lemma all_some_map: "(\<And>x. x \<in> set xs \<Longrightarrow> f (g x) = Some x) \<Longrightarrow> all_some f (map g xs) = Some xs"
  by (induction xs) auto

section \<open>Logins and master data\<close>

definition login_request_to_json :: "string \<Rightarrow> string \<Rightarrow> json" where
  "login_request_to_json username password = json_object [(''username'', JStr username), (''password'', JStr password)]"

definition login_request_of_json :: "json \<Rightarrow> auth_req option" where
  "login_request_of_json =
     derived [''username'', ''password''] (take2 Login (need json_as_str ''username'') (need json_as_str ''password''))"

definition pin_request_to_json :: "string option \<Rightarrow> string option \<Rightarrow> string option \<Rightarrow> json" where
  "pin_request_to_json username pin badge =
     json_object [(''username'', opt_str username), (''pin'', opt_str pin), (''badge_id'', opt_str badge)]"

definition pin_request_of_json :: "json \<Rightarrow> auth_req option" where
  "pin_request_of_json =
     derived [''username'', ''pin'', ''badge_id'']
       (take3 PinLogin (may json_as_str ''username'') (may json_as_str ''pin'') (may json_as_str ''badge_id''))"

definition site_input_to_json :: "string \<Rightarrow> string \<Rightarrow> string option \<Rightarrow> json" where
  "site_input_to_json code name tz = json_object [(''code'', JStr code), (''name'', JStr name), (''timezone'', opt_str tz)]"

definition site_input_of_json :: "(string \<Rightarrow> string \<Rightarrow> string option \<Rightarrow> 'r) \<Rightarrow> json \<Rightarrow> 'r option" where
  "site_input_of_json c =
     derived [''code'', ''name'', ''timezone'']
       (take3 c (need json_as_str ''code'') (need json_as_str ''name'') (may json_as_str ''timezone''))"

definition area_input_to_json :: "string \<Rightarrow> string \<Rightarrow> string \<Rightarrow> json" where
  "area_input_to_json site code name = json_object [(''site_id'', JStr site), (''code'', JStr code), (''name'', JStr name)]"

definition area_input_of_json :: "(string \<Rightarrow> string \<Rightarrow> string \<Rightarrow> 'r) \<Rightarrow> json \<Rightarrow> 'r option" where
  "area_input_of_json c =
     derived [''site_id'', ''code'', ''name'']
       (take3 c (need json_as_str ''site_id'') (need json_as_str ''code'') (need json_as_str ''name''))"

definition work_center_input_to_json :: "string \<Rightarrow> string \<Rightarrow> string \<Rightarrow> string option \<Rightarrow> json" where
  "work_center_input_to_json area code name ext =
     json_object [(''area_id'', JStr area), (''code'', JStr code), (''name'', JStr name), (''external_ref'', opt_str ext)]"

definition work_center_input_of_json ::
  "(string \<Rightarrow> string \<Rightarrow> string \<Rightarrow> string option \<Rightarrow> 'r) \<Rightarrow> json \<Rightarrow> 'r option" where
  "work_center_input_of_json c =
     derived [''area_id'', ''code'', ''name'', ''external_ref'']
       (take4 c (need json_as_str ''area_id'') (need json_as_str ''code'') (need json_as_str ''name'')
          (may json_as_str ''external_ref''))"

definition part_input_to_json :: "string \<Rightarrow> string \<Rightarrow> string option \<Rightarrow> json" where
  "part_input_to_json code name uom = json_object [(''code'', JStr code), (''name'', JStr name), (''uom'', opt_str uom)]"

definition part_input_of_json :: "(string \<Rightarrow> string \<Rightarrow> string option \<Rightarrow> 'r) \<Rightarrow> json \<Rightarrow> 'r option" where
  "part_input_of_json c =
     derived [''code'', ''name'', ''uom'']
       (take3 c (need json_as_str ''code'') (need json_as_str ''name'') (may json_as_str ''uom''))"

definition user_input_to_json :: "user_input \<Rightarrow> json" where
  "user_input_to_json i =
     json_object [(''username'', JStr (ui_username i)), (''display_name'', JStr (ui_display_name i)),
       (''role_code'', JStr (ui_role_code i)), (''password'', opt_str (ui_password i)), (''pin'', opt_str (ui_pin i)),
       (''badge_id'', opt_str (ui_badge_id i))]"

definition user_input_of_json :: "json \<Rightarrow> user_input option" where
  "user_input_of_json =
     derived [''username'', ''display_name'', ''role_code'', ''password'', ''pin'', ''badge_id'']
       (take6 user_input.make (need json_as_str ''username'') (need json_as_str ''display_name'')
          (need json_as_str ''role_code'') (may json_as_str ''password'') (may json_as_str ''pin'') (may json_as_str ''badge_id''))"

definition program_input_to_json :: "program_input \<Rightarrow> json" where
  "program_input_to_json i =
     json_object [(''routing_op_id'', opt_str (pi_routing_op_id i)), (''part_id'', opt_str (pi_part_id i)),
       (''program_identifier'', JStr (pi_program_identifier i)), (''target_machine'', opt_str (pi_target_machine i))]"

definition program_input_of_json :: "json \<Rightarrow> program_input option" where
  "program_input_of_json =
     derived [''routing_op_id'', ''part_id'', ''program_identifier'', ''target_machine'']
       (take4 program_input.make (may json_as_str ''routing_op_id'') (may json_as_str ''part_id'')
          (need json_as_str ''program_identifier'') (may json_as_str ''target_machine''))"

lemma master_codecs [wire_simps]:
  "login_request_of_json (login_request_to_json name pw) = Some (Login name pw)"
  "pin_request_of_json (pin_request_to_json n p b) = Some (PinLogin n p b)"
  "site_input_of_json c3 (site_input_to_json code name tz) = Some (c3 code name tz)"
  "area_input_of_json ca (area_input_to_json site code name) = Some (ca site code name)"
  "work_center_input_of_json cw (work_center_input_to_json area code name ext) = Some (cw area code name ext)"
  "part_input_of_json c3 (part_input_to_json code name tz) = Some (c3 code name tz)"
  "user_input_of_json (user_input_to_json user) = Some user"
  "program_input_of_json (program_input_to_json prg) = Some prg"
  by (simp_all add: login_request_of_json_def login_request_to_json_def pin_request_of_json_def pin_request_to_json_def
      site_input_of_json_def site_input_to_json_def area_input_of_json_def area_input_to_json_def work_center_input_of_json_def
      work_center_input_to_json_def part_input_of_json_def part_input_to_json_def user_input_of_json_def user_input_to_json_def
      program_input_of_json_def program_input_to_json_def takes wire_simps user_input.make_def program_input.make_def)

section \<open>Signals, orders and execution\<close>

text \<open>The kind of a signal is a tag beside the other members; such a type is read from objects only.\<close>

definition signal_event_members :: "signal_event \<Rightarrow> (string \<times> json) list" where
  "signal_event_members e =
     (case e of
        Cycle \<Rightarrow> [(''type'', JStr ''cycle'')]
      | Heartbeat \<Rightarrow> [(''type'', JStr ''heartbeat'')]
      | Count good scrap \<Rightarrow> [(''type'', JStr ''count''), (''good'', json_of_i32 good), (''scrap'', json_of_i32 scrap)])"

definition signal_event_of_json :: "wire \<Rightarrow> json \<Rightarrow> signal_event option" where
  "signal_event_of_json w v =
     Option.bind (need json_as_str ''type'' v) (\<lambda>t.
     if t = ''cycle'' then Some Cycle
     else if t = ''heartbeat'' then Some Heartbeat
     else if t = ''count'' then
       take2 Count (\<lambda>v. read_default 0 (i32_of_json w) (json_get v ''good''))
         (\<lambda>v. read_default 0 (i32_of_json w) (json_get v ''scrap'')) v
     else None)"

definition raw_signal_to_json :: "wire \<Rightarrow> raw_signal \<Rightarrow> json" where
  "raw_signal_to_json w r =
     json_object ([(''source_key'', JStr (sg_source_key r)), (''ts'', ts_to_json w (sg_ts r))] @ signal_event_members (sg_event r))"

definition raw_signal_of_json :: "wire \<Rightarrow> json \<Rightarrow> raw_signal option" where
  "raw_signal_of_json w v =
     (case v of
        JObj _ \<Rightarrow> take3 raw_signal.make (need json_as_str ''source_key'') (need (ts_of_json w) ''ts'') (signal_event_of_json w) v
      | _ \<Rightarrow> None)"

definition list_of_json :: "(json \<Rightarrow> 'a option) \<Rightarrow> json \<Rightarrow> 'a list option" where
  "list_of_json f v = (case v of JArr vs \<Rightarrow> all_some f vs | _ \<Rightarrow> None)"

definition recompute_to_json :: "wire \<Rightarrow> string \<Rightarrow> timestamp \<Rightarrow> timestamp \<Rightarrow> json" where
  "recompute_to_json w wc a b =
     json_object [(''work_center_id'', JStr wc), (''start'', ts_to_json w a), (''end'', ts_to_json w b)]"

definition recompute_of_json :: "wire \<Rightarrow> json \<Rightarrow> ingest_req option" where
  "recompute_of_json w =
     derived [''work_center_id'', ''start'', ''end'']
       (take3 Recompute (need json_as_str ''work_center_id'') (need (ts_of_json w) ''start'') (need (ts_of_json w) ''end''))"

definition op_input_to_json :: "wo_operation_input \<Rightarrow> json" where
  "op_input_to_json i =
     json_object [(''op_no'', json_of_i32 (oi_op_no i)), (''routing_op_id'', opt_str (oi_routing_op_id i)),
       (''work_center_id'', opt_str (oi_work_center_id i))]"

definition order_input_to_json :: "wire \<Rightarrow> work_order_input \<Rightarrow> json" where
  "order_input_to_json w i =
     json_object [(''wo_number'', JStr (wi_wo_number i)), (''part_id'', JStr (wi_part_id i)),
       (''routing_id'', opt_str (wi_routing_id i)), (''qty_ordered'', dec_to_json w (wi_qty_ordered i)),
       (''priority'', opt_json json_of_i32 (wi_priority i)), (''planned_start'', opt_json (ts_to_json w) (wi_planned_start i)),
       (''planned_end'', opt_json (ts_to_json w) (wi_planned_end i)), (''operations'', JArr (map op_input_to_json (wi_operations i)))]"

definition order_input_of_json :: "wire \<Rightarrow> json \<Rightarrow> work_order_input option" where
  "order_input_of_json w v =
     Option.bind (as_object 7 [''wo_number'', ''part_id'', ''routing_id'', ''qty_ordered'', ''priority'', ''planned_start'',
       ''planned_end'', ''operations''] v) (wo_input_of_json w)"

definition count_input_to_json :: "wire \<Rightarrow> count_input \<Rightarrow> json" where
  "count_input_to_json w i =
     json_object [(''good'', json_of_i32 (ci_good i)), (''scrap'', json_of_i32 (ci_scrap i)),
       (''scrap_reason_id'', opt_str (ci_scrap_reason_id i)), (''ts'', opt_json (ts_to_json w) (ci_ts i))]"

definition count_input_of_json :: "wire \<Rightarrow> json \<Rightarrow> count_input option" where
  "count_input_of_json w =
     derived [''good'', ''scrap'', ''scrap_reason_id'', ''ts'']
       (take4 count_input.make (\<lambda>v. read_default 0 (i32_of_json w) (json_get v ''good''))
          (\<lambda>v. read_default 0 (i32_of_json w) (json_get v ''scrap'')) (may json_as_str ''scrap_reason_id'') (may (ts_of_json w) ''ts''))"

definition classify_to_json :: "string \<Rightarrow> json" where
  "classify_to_json reason = json_object [(''reason_id'', JStr reason)]"

definition classify_of_json :: "json \<Rightarrow> string option" where
  "classify_of_json = derived [''reason_id''] (need json_as_str ''reason_id'')"

definition split_input_to_json :: "wire \<Rightarrow> split_input \<Rightarrow> json" where
  "split_input_to_json w i =
     json_object [(''at'', instant_to_json w (si_at i)), (''first_reason_id'', opt_str (si_first_reason_id i)),
       (''second_reason_id'', opt_str (si_second_reason_id i))]"

definition split_input_of_json :: "wire \<Rightarrow> json \<Rightarrow> split_input option" where
  "split_input_of_json w =
     derived [''at'', ''first_reason_id'', ''second_reason_id'']
       (take3 split_input.make (need (instant_of_json w) ''at'') (may json_as_str ''first_reason_id'') (may json_as_str ''second_reason_id''))"

text \<open>What the writers and readers of numbers and instants are relied on for.\<close>

lemma wire_okD:
  assumes "wire_ok w"
  shows "dec_of_json w (dec_to_json w q) = Some q" "ts_of_json w (ts_to_json w t) = Some t"
    "in_i32 n \<Longrightarrow> i32_of_json w (json_of_i32 n) = Some n"
    "read_opt (ts_of_json w) (Some (opt_json (ts_to_json w) x)) = Some x"
    "instant_of_json w (instant_to_json w k) = Some k"
  using assms by (auto simp: wire_ok_def json_of_i32_def intro!: read_opt_json)

lemma opt_i32:
  assumes "wire_ok w" "\<And>n. x = Some n \<Longrightarrow> in_i32 n"
  shows "read_opt (i32_of_json w) (Some (opt_json json_of_i32 x)) = Some x"
proof (cases x)
  case (Some n)
  with assms have "i32_of_json w (json_of_i32 n) = Some n" by (simp add: wire_okD)
  with Some show ?thesis by (simp add: read_opt_def opt_json_def json_of_i32_def)
qed (simp add: read_opt_def opt_json_def)

lemma default_i32: "wire_ok w \<Longrightarrow> in_i32 n \<Longrightarrow> read_default d (i32_of_json w) (Some (json_of_i32 n)) = Some n"
  by (simp add: read_default_def wire_okD)

fun signal_sized :: "signal_event \<Rightarrow> bool" where
  "signal_sized (Count good scrap) = (in_i32 good \<and> in_i32 scrap)"
| "signal_sized _ = True"

lemma raw_signal_codec:
  assumes "wire_ok w" "signal_sized (sg_event r)"
  shows "raw_signal_of_json w (raw_signal_to_json w r) = Some r"
proof -
  have obj: "raw_signal_of_json w (json_object kvs) =
      take3 raw_signal.make (need json_as_str ''source_key'') (need (ts_of_json w) ''ts'') (signal_event_of_json w) (json_object kvs)" for kvs
    by (simp add: raw_signal_of_json_def json_object_def)
  show ?thesis
    unfolding raw_signal_to_json_def obj using assms
    by (cases "sg_event r") (simp_all add: takes signal_event_of_json_def signal_event_members_def wire_simps json_object_get wire_okD
      default_i32 raw_signal.make_def)
qed

definition order_sized :: "work_order_input \<Rightarrow> bool" where
  "order_sized i \<longleftrightarrow> pred_option in_i32 (wi_priority i) \<and> list_all (in_i32 \<circ> oi_op_no) (wi_operations i)"

lemma op_input_codec: "wire_ok w \<Longrightarrow> in_i32 (oi_op_no i) \<Longrightarrow> op_input_of_json w (op_input_to_json i) = Some i"
proof -
  assume w: "wire_ok w" "in_i32 (oi_op_no i)"
  have "op_input_of_json w (json_object kvs) = op_input_of_members w (json_get (json_object kvs))" for kvs
    by (simp add: op_input_of_json_def json_object_def)
  with w show ?thesis
    by (simp add: op_input_to_json_def op_input_of_members_def json_object_get wire_okD wire_simps)
qed

lemma order_input_codec:
  assumes "wire_ok w" "order_sized i"
  shows "order_input_of_json w (order_input_to_json w i) = Some i"
proof -
  have "ops_of_json w (JArr (map op_input_to_json (wi_operations i))) = Some (wi_operations i)"
    unfolding ops_of_json_def json.case using assms
    by (intro all_some_map op_input_codec) (auto simp: order_sized_def list_all_iff)
  moreover have "read_opt (i32_of_json w) (Some (opt_json json_of_i32 (wi_priority i))) = Some (wi_priority i)"
    using assms by (intro opt_i32) (auto simp: order_sized_def)
  ultimately show ?thesis
    using assms(1) by (simp add: order_input_of_json_def order_input_to_json_def wire_simps wo_input_of_json_def json_object_get
      wire_okD read_default_def Let_def)
qed

lemma floor_codecs:
  assumes "wire_ok w"
  shows "recompute_of_json w (recompute_to_json w wc a b) = Some (Recompute wc a b)"
    "in_i32 (ci_good c) \<Longrightarrow> in_i32 (ci_scrap c) \<Longrightarrow> count_input_of_json w (count_input_to_json w c) = Some c"
    "classify_of_json (classify_to_json reason) = Some reason"
    "split_input_of_json w (split_input_to_json w sp) = Some sp"
  using assms
  by (simp_all add: recompute_of_json_def recompute_to_json_def count_input_of_json_def count_input_to_json_def classify_of_json_def
      classify_to_json_def split_input_of_json_def split_input_to_json_def takes wire_simps json_object_get wire_okD default_i32
      count_input.make_def split_input.make_def)

section \<open>Traceability and quality\<close>

definition lot_input_to_json :: "wire \<Rightarrow> string \<Rightarrow> string \<Rightarrow> rat option \<Rightarrow> string option \<Rightarrow> json" where
  "lot_input_to_json w no part qty uom =
     json_object [(''lot_no'', JStr no), (''part_id'', JStr part), (''qty'', opt_json (dec_to_json w) qty), (''uom'', opt_str uom)]"

definition lot_input_of_json :: "wire \<Rightarrow> json \<Rightarrow> trace_req option" where
  "lot_input_of_json w =
     derived [''lot_no'', ''part_id'', ''qty'', ''uom'']
       (take4 CreateLot (need json_as_str ''lot_no'') (need json_as_str ''part_id'') (may (dec_of_json w) ''qty'')
          (may json_as_str ''uom''))"

definition serial_input_to_json :: "string \<Rightarrow> string \<Rightarrow> string option \<Rightarrow> json" where
  "serial_input_to_json no part lot = json_object [(''serial_no'', JStr no), (''part_id'', JStr part), (''lot_id'', opt_str lot)]"

definition serial_input_of_json :: "json \<Rightarrow> trace_req option" where
  "serial_input_of_json =
     derived [''serial_no'', ''part_id'', ''lot_id'']
       (take3 CreateSerial (need json_as_str ''serial_no'') (need json_as_str ''part_id'') (may json_as_str ''lot_id''))"

definition genealogy_input_to_json :: "wire \<Rightarrow> entity \<Rightarrow> entity \<Rightarrow> rat option \<Rightarrow> json" where
  "genealogy_input_to_json w parent child qty =
     json_object [(''parent_type'', JStr (fst parent)), (''parent_id'', JStr (snd parent)), (''child_type'', JStr (fst child)),
       (''child_id'', JStr (snd child)), (''qty'', opt_json (dec_to_json w) qty)]"

definition genealogy_input_of_json :: "wire \<Rightarrow> json \<Rightarrow> trace_req option" where
  "genealogy_input_of_json w =
     derived [''parent_type'', ''parent_id'', ''child_type'', ''child_id'', ''qty'']
       (take5 (\<lambda>pt pi ct ci. AddGenealogy (pt, pi) (ct, ci)) (need json_as_str ''parent_type'') (need json_as_str ''parent_id'')
          (need json_as_str ''child_type'') (need json_as_str ''child_id'') (may (dec_of_json w) ''qty''))"

definition issue_input_to_json :: "wire \<Rightarrow> string option \<Rightarrow> string option \<Rightarrow> rat \<Rightarrow> string option \<Rightarrow> json" where
  "issue_input_to_json w lot serial qty wop =
     json_object [(''lot_id'', opt_str lot), (''serial_id'', opt_str serial), (''qty'', dec_to_json w qty),
       (''wo_operation_id'', opt_str wop)]"

definition issue_input_of_json :: "wire \<Rightarrow> json \<Rightarrow> trace_req option" where
  "issue_input_of_json w =
     derived [''lot_id'', ''serial_id'', ''qty'', ''wo_operation_id'']
       (take4 IssueMaterial (may json_as_str ''lot_id'') (may json_as_str ''serial_id'') (need (dec_of_json w) ''qty'')
          (may json_as_str ''wo_operation_id''))"

definition hold_input_to_json :: "string \<Rightarrow> string \<Rightarrow> string option \<Rightarrow> json" where
  "hold_input_to_json t i reason = json_object [(''entity_type'', JStr t), (''entity_id'', JStr i), (''reason'', opt_str reason)]"

definition hold_input_of_json :: "json \<Rightarrow> trace_req option" where
  "hold_input_of_json =
     derived [''entity_type'', ''entity_id'', ''reason'']
       (take3 PlaceHold (need json_as_str ''entity_type'') (need json_as_str ''entity_id'') (may json_as_str ''reason''))"

definition plan_input_to_json :: "string \<Rightarrow> string \<Rightarrow> string \<Rightarrow> json" where
  "plan_input_to_json part code name = json_object [(''part_id'', JStr part), (''code'', JStr code), (''name'', JStr name)]"

definition plan_input_of_json :: "json \<Rightarrow> qms_req option" where
  "plan_input_of_json =
     derived [''part_id'', ''code'', ''name'']
       (take3 CreatePlan (need json_as_str ''part_id'') (need json_as_str ''code'') (need json_as_str ''name''))"

definition characteristic_input_to_json ::
  "wire \<Rightarrow> string \<Rightarrow> string \<Rightarrow> string option \<Rightarrow> rat option \<Rightarrow> rat option \<Rightarrow> rat option \<Rightarrow> json" where
  "characteristic_input_to_json w plan name uom nominal lo hi =
     json_object [(''plan_id'', JStr plan), (''name'', JStr name), (''uom'', opt_str uom),
       (''nominal'', opt_json (dec_to_json w) nominal), (''lower_limit'', opt_json (dec_to_json w) lo),
       (''upper_limit'', opt_json (dec_to_json w) hi)]"

definition characteristic_input_of_json :: "wire \<Rightarrow> json \<Rightarrow> qms_req option" where
  "characteristic_input_of_json w =
     derived [''plan_id'', ''name'', ''uom'', ''nominal'', ''lower_limit'', ''upper_limit'']
       (take6 CreateCharacteristic (need json_as_str ''plan_id'') (need json_as_str ''name'') (may json_as_str ''uom'')
          (may (dec_of_json w) ''nominal'') (may (dec_of_json w) ''lower_limit'') (may (dec_of_json w) ''upper_limit''))"

definition result_input_to_json ::
  "wire \<Rightarrow> string \<Rightarrow> string option \<Rightarrow> string option \<Rightarrow> string option \<Rightarrow> rat \<Rightarrow> json" where
  "result_input_to_json w ch lot serial wop v =
     json_object [(''characteristic_id'', JStr ch), (''lot_id'', opt_str lot), (''serial_id'', opt_str serial),
       (''wo_operation_id'', opt_str wop), (''measured_value'', dec_to_json w v)]"

definition result_input_of_json :: "wire \<Rightarrow> json \<Rightarrow> qms_req option" where
  "result_input_of_json w =
     derived [''characteristic_id'', ''lot_id'', ''serial_id'', ''wo_operation_id'', ''measured_value'']
       (take5 RecordResult (need json_as_str ''characteristic_id'') (may json_as_str ''lot_id'') (may json_as_str ''serial_id'')
          (may json_as_str ''wo_operation_id'') (need (dec_of_json w) ''measured_value''))"

definition disposition_input_to_json :: "string \<Rightarrow> string option \<Rightarrow> json" where
  "disposition_input_to_json t reason = json_object [(''disposition'', JStr t), (''reason'', opt_str reason)]"

definition disposition_input_of_json :: "(string \<Rightarrow> string option \<Rightarrow> 'r) \<Rightarrow> json \<Rightarrow> 'r option" where
  "disposition_input_of_json c =
     derived [''disposition'', ''reason''] (take2 c (need json_as_str ''disposition'') (may json_as_str ''reason''))"

text \<open>Decimals and instants are written as text.\<close>

definition wire_text :: "wire \<Rightarrow> bool" where
  "wire_text w \<longleftrightarrow> wire_ok w \<and> (\<forall>q. dec_to_json w q \<noteq> JNull) \<and> (\<forall>t. \<exists>x. ts_to_json w t = JStr x)"

lemma wire_textD: "wire_text w \<Longrightarrow> wire_ok w"
  by (simp add: wire_text_def)

lemma opt_dec: "wire_text w \<Longrightarrow> read_opt (dec_of_json w) (Some (opt_json (dec_to_json w) x)) = Some x"
  by (rule read_opt_json) (simp add: wire_text_def wire_okD)

lemmas text_simps = wire_simps opt_dec wire_okD wire_textD json_object_get takes

lemma quality_codecs:
  assumes "wire_text w"
  shows "lot_input_of_json w (lot_input_to_json w no part oq uom) = Some (CreateLot no part oq uom)"
    "serial_input_of_json (serial_input_to_json no part lot) = Some (CreateSerial no part lot)"
    "genealogy_input_of_json w (genealogy_input_to_json w parent child oq) = Some (AddGenealogy parent child oq)"
    "issue_input_of_json w (issue_input_to_json w lot serial qty wop) = Some (IssueMaterial lot serial qty wop)"
    "hold_input_of_json (hold_input_to_json t i reason) = Some (PlaceHold t i reason)"
    "plan_input_of_json (plan_input_to_json part code name) = Some (CreatePlan part code name)"
    "characteristic_input_of_json w (characteristic_input_to_json w plan name uom nominal lo hi) =
       Some (CreateCharacteristic plan name uom nominal lo hi)"
    "result_input_of_json w (result_input_to_json w ch lot serial wop qty) = Some (RecordResult ch lot serial wop qty)"
    "disposition_input_of_json c (disposition_input_to_json t reason) = Some (c t reason)"
  using assms
  by (simp_all add: lot_input_of_json_def lot_input_to_json_def serial_input_of_json_def serial_input_to_json_def
      genealogy_input_of_json_def genealogy_input_to_json_def issue_input_of_json_def issue_input_to_json_def hold_input_of_json_def
      hold_input_to_json_def plan_input_of_json_def plan_input_to_json_def characteristic_input_of_json_def
      characteristic_input_to_json_def result_input_of_json_def result_input_to_json_def disposition_input_of_json_def
      disposition_input_to_json_def text_simps)

section \<open>Maintenance\<close>

definition pm_input_to_json :: "wire \<Rightarrow> string \<Rightarrow> string \<Rightarrow> string \<Rightarrow> rat \<Rightarrow> string option \<Rightarrow> json" where
  "pm_input_to_json w wc name trigger interval checklist =
     json_object [(''work_center_id'', JStr wc), (''name'', JStr name), (''trigger_type'', JStr trigger),
       (''interval_value'', dec_to_json w interval), (''checklist_ref'', opt_str checklist)]"

definition pm_input_of_json :: "wire \<Rightarrow> json \<Rightarrow> cmms_req option" where
  "pm_input_of_json w =
     derived [''work_center_id'', ''name'', ''trigger_type'', ''interval_value'', ''checklist_ref'']
       (take5 CreatePmSchedule (need json_as_str ''work_center_id'') (need json_as_str ''name'') (need json_as_str ''trigger_type'')
          (need (dec_of_json w) ''interval_value'') (may json_as_str ''checklist_ref''))"

definition mwo_input_to_json :: "string \<Rightarrow> string option \<Rightarrow> string \<Rightarrow> string option \<Rightarrow> json" where
  "mwo_input_to_json wc pm t notes =
     json_object [(''work_center_id'', JStr wc), (''pm_schedule_id'', opt_str pm), (''wo_type'', JStr t), (''notes'', opt_str notes)]"

definition mwo_input_of_json :: "json \<Rightarrow> cmms_req option" where
  "mwo_input_of_json =
     derived [''work_center_id'', ''pm_schedule_id'', ''wo_type'', ''notes'']
       (take4 CreateMaintenanceWo (need json_as_str ''work_center_id'') (may json_as_str ''pm_schedule_id'') (need json_as_str ''wo_type'')
          (may json_as_str ''notes''))"

definition mwo_transition_to_json :: "string \<Rightarrow> string option \<Rightarrow> string option \<Rightarrow> json" where
  "mwo_transition_to_json st tech code =
     json_object [(''status'', JStr st), (''technician_id'', opt_str tech), (''failure_code'', opt_str code)]"

definition mwo_transition_of_json :: "(string \<Rightarrow> string option \<Rightarrow> string option \<Rightarrow> 'r) \<Rightarrow> json \<Rightarrow> 'r option" where
  "mwo_transition_of_json c =
     derived [''status'', ''technician_id'', ''failure_code'']
       (take3 c (need json_as_str ''status'') (may json_as_str ''technician_id'') (may json_as_str ''failure_code''))"

definition spare_input_to_json :: "wire \<Rightarrow> string \<Rightarrow> string \<Rightarrow> string option \<Rightarrow> rat option \<Rightarrow> rat option \<Rightarrow> json" where
  "spare_input_to_json w code name uom point qty =
     json_object [(''code'', JStr code), (''name'', JStr name), (''uom'', opt_str uom),
       (''reorder_point'', opt_json (dec_to_json w) point), (''reorder_qty'', opt_json (dec_to_json w) qty)]"

definition spare_input_of_json :: "wire \<Rightarrow> json \<Rightarrow> cmms_req option" where
  "spare_input_of_json w =
     derived [''code'', ''name'', ''uom'', ''reorder_point'', ''reorder_qty'']
       (take5 CreateSparePart (need json_as_str ''code'') (need json_as_str ''name'') (may json_as_str ''uom'')
          (may (dec_of_json w) ''reorder_point'') (may (dec_of_json w) ''reorder_qty''))"

definition spare_txn_to_json :: "wire \<Rightarrow> string \<Rightarrow> string option \<Rightarrow> string \<Rightarrow> rat \<Rightarrow> json" where
  "spare_txn_to_json w i mwo t qty =
     json_object [(''spare_part_id'', JStr i), (''maintenance_wo_id'', opt_str mwo), (''txn_type'', JStr t), (''qty'', dec_to_json w qty)]"

definition spare_txn_of_json :: "wire \<Rightarrow> json \<Rightarrow> cmms_req option" where
  "spare_txn_of_json w =
     derived [''spare_part_id'', ''maintenance_wo_id'', ''txn_type'', ''qty'']
       (take4 RecordSpareTxn (need json_as_str ''spare_part_id'') (may json_as_str ''maintenance_wo_id'') (need json_as_str ''txn_type'')
          (need (dec_of_json w) ''qty''))"

definition procurement_input_to_json :: "wire \<Rightarrow> string \<Rightarrow> rat \<Rightarrow> json" where
  "procurement_input_to_json w i qty = json_object [(''spare_part_id'', JStr i), (''qty_requested'', dec_to_json w qty)]"

definition procurement_input_of_json :: "wire \<Rightarrow> json \<Rightarrow> cmms_req option" where
  "procurement_input_of_json w =
     derived [''spare_part_id'', ''qty_requested'']
       (take2 CreateProcurementRequest (need json_as_str ''spare_part_id'') (need (dec_of_json w) ''qty_requested''))"

lemma cmms_codecs:
  assumes "wire_text w"
  shows "pm_input_of_json w (pm_input_to_json w wc name trigger qty checklist) = Some (CreatePmSchedule wc name trigger qty checklist)"
    "mwo_input_of_json (mwo_input_to_json wc pm t notes) = Some (CreateMaintenanceWo wc pm t notes)"
    "mwo_transition_of_json c (mwo_transition_to_json st tech failure) = Some (c st tech failure)"
    "spare_input_of_json w (spare_input_to_json w code name uom point oq) = Some (CreateSparePart code name uom point oq)"
    "spare_txn_of_json w (spare_txn_to_json w i mwo t qty) = Some (RecordSpareTxn i mwo t qty)"
    "procurement_input_of_json w (procurement_input_to_json w i qty) = Some (CreateProcurementRequest i qty)"
  using assms
  by (simp_all add: pm_input_of_json_def pm_input_to_json_def mwo_input_of_json_def mwo_input_to_json_def mwo_transition_of_json_def
      mwo_transition_to_json_def spare_input_of_json_def spare_input_to_json_def spare_txn_of_json_def spare_txn_to_json_def
      procurement_input_of_json_def procurement_input_to_json_def text_simps)

section \<open>Planning system\<close>

definition connection_input_to_json :: "connection_input \<Rightarrow> json" where
  "connection_input_to_json i =
     json_object [(''site_id'', opt_str (in_site_id i)), (''name'', JStr (in_name i)), (''endpoint_url'', JStr (in_endpoint_url i)),
       (''auth_token'', opt_str (in_auth_token i)), (''field_mapping'', in_field_mapping i),
       (''direction'', opt_str (in_direction i)), (''enabled'', opt_json JBool (in_enabled i))]"

definition connection_input_of_json :: "json \<Rightarrow> connection_input option" where
  "connection_input_of_json =
     derived [''site_id'', ''name'', ''endpoint_url'', ''auth_token'', ''field_mapping'', ''direction'', ''enabled'']
       (\<lambda>v. Option.bind (may json_as_str ''site_id'' v) (\<lambda>site.
          take6 (connection_input.make site) (need json_as_str ''name'') (need json_as_str ''endpoint_url'')
            (may json_as_str ''auth_token'') (\<lambda>v. read_default JNull Some (json_get v ''field_mapping''))
            (may json_as_str ''direction'') (may json_as_bool ''enabled'') v))"

definition import_request_to_json :: "string \<Rightarrow> string \<Rightarrow> json list \<Rightarrow> json" where
  "import_request_to_json i t records =
     json_object [(''connection_id'', JStr i), (''entity'', JStr t), (''records'', JArr records)]"

definition import_request_of_json :: "json \<Rightarrow> erp_req option" where
  "import_request_of_json =
     derived [''connection_id'', ''entity'', ''records'']
       (take3 Import (need json_as_str ''connection_id'') (need json_as_str ''entity'') (need (list_of_json Some) ''records''))"

definition export_request_to_json :: "string \<Rightarrow> string \<Rightarrow> json" where
  "export_request_to_json i t = json_object [(''connection_id'', JStr i), (''entity'', JStr t)]"

definition export_request_of_json :: "json \<Rightarrow> erp_req option" where
  "export_request_of_json =
     derived [''connection_id'', ''entity''] (take2 Export (need json_as_str ''connection_id'') (need json_as_str ''entity''))"

lemma all_some_Some: "all_some Some vs = Some vs"
  by (induction vs) auto

lemma erp_codecs:
  "connection_input_of_json (connection_input_to_json input) = Some input"
  "import_request_of_json (import_request_to_json i t records) = Some (Import i t records)"
  "export_request_of_json (export_request_to_json i t) = Some (Export i t)"
  by (simp_all add: connection_input_of_json_def connection_input_to_json_def import_request_of_json_def import_request_to_json_def
      export_request_of_json_def export_request_to_json_def text_simps read_default_def connection_input.make_def list_of_json_def
      all_some_Some)

text \<open>The note of a diagnostics request (\<^verbatim>\<open>SendInput\<close>).\<close>

definition send_input_to_json :: "string option \<Rightarrow> json" where
  "send_input_to_json note = json_object [(''note'', opt_str note)]"

definition send_input_of_json :: "json \<Rightarrow> string option option" where
  "send_input_of_json = derived [''note''] (take1 id (may json_as_str ''note''))"

lemma send_input_codec: "send_input_of_json (send_input_to_json note) = Some note"
  by (simp add: send_input_of_json_def send_input_to_json_def takes wire_simps)

section \<open>Tagged messages\<close>

text \<open>The kind is a member of an object, or the first element of an array.\<close>

definition tagged :: "string \<Rightarrow> (string \<Rightarrow> json \<Rightarrow> 'a option) \<Rightarrow> json \<Rightarrow> 'a option" where
  "tagged tag r v =
     (case v of
        JObj _ \<Rightarrow> Option.bind (need json_as_str tag v) (\<lambda>t. r t v)
      | JArr (JStr t # vs) \<Rightarrow> r t (JArr vs)
      | _ \<Rightarrow> None)"

lemma tagged_obj: "tagged tag r (json_object kvs) = Option.bind (need json_as_str tag (json_object kvs)) (\<lambda>t. r t (json_object kvs))"
  by (simp add: tagged_def json_object_def)

definition manual_transfer_to_json :: "string \<Rightarrow> string option \<Rightarrow> string option \<Rightarrow> json" where
  "manual_transfer_to_json pid machine wop =
     json_object [(''program_id'', JStr pid), (''wo_operation_id'', opt_str wop), (''machine'', opt_str machine)]"

definition manual_transfer_of_json :: "json \<Rightarrow> dnc_req option" where
  "manual_transfer_of_json =
     derived [''program_id'', ''wo_operation_id'', ''machine'']
       (take3 (\<lambda>pid wop machine. ManualTransfer pid machine wop) (need json_as_str ''program_id'')
          (may json_as_str ''wo_operation_id'') (may json_as_str ''machine''))"

definition dnc_event_to_json :: "dnc_event \<Rightarrow> json" where
  "dnc_event_to_json ev =
     (case ev of
        TransferCompleted r \<Rightarrow> json_object [(''event'', JStr ''transfer_completed''), (''reference'', JStr r)]
      | TransferFailed r err \<Rightarrow>
          json_object [(''event'', JStr ''transfer_failed''), (''reference'', JStr r), (''error'', JStr err)]
      | ProgramReceived p c \<Rightarrow>
          json_object [(''event'', JStr ''program_received''), (''program'', JStr p), (''content_ref'', opt_str c)])"

definition dnc_event_of_json :: "json \<Rightarrow> dnc_event option" where
  "dnc_event_of_json =
     tagged ''event'' (\<lambda>t v.
       if t = ''transfer_completed'' then derived [''reference''] (take1 TransferCompleted (need json_as_str ''reference'')) v
       else if t = ''transfer_failed'' then
         Option.bind (as_object 1 [''reference'', ''error''] v)
           (take2 TransferFailed (need json_as_str ''reference'') (\<lambda>v. read_default '''' json_as_str (json_get v ''error'')))
       else if t = ''program_received'' then
         Option.bind (as_object 1 [''program'', ''content_ref''] v)
           (take2 ProgramReceived (need json_as_str ''program'') (may json_as_str ''content_ref''))
       else None)"

text \<open>An absent machine is left out of a command.\<close>

definition dnc_command_to_json :: "dnc_command \<Rightarrow> json" where
  "dnc_command_to_json cmd =
     (case cmd of SendProgram p machine \<Rightarrow>
        json_object ([(''cmd'', JStr ''send_program''), (''program'', JStr p)] @
          (case machine of None \<Rightarrow> [] | Some m \<Rightarrow> [(''machine'', JStr m)])))"

definition dnc_command_of_json :: "json \<Rightarrow> dnc_command option" where
  "dnc_command_of_json =
     tagged ''cmd'' (\<lambda>t v.
       if t = ''send_program'' then
         derived [''program'', ''machine''] (take2 SendProgram (need json_as_str ''program'') (may json_as_str ''machine'')) v
       else None)"

lemma dnc_codecs:
  "manual_transfer_of_json (manual_transfer_to_json pid machine wop) = Some (ManualTransfer pid machine wop)"
  "dnc_event_of_json (dnc_event_to_json ev) = Some ev"
  "dnc_command_of_json (dnc_command_to_json cmd) = Some cmd"
  subgoal by (simp add: manual_transfer_of_json_def manual_transfer_to_json_def text_simps)
  subgoal by (cases ev) (simp_all add: dnc_event_of_json_def dnc_event_to_json_def tagged_obj text_simps read_default_def)
  subgoal by (cases cmd) (simp add: dnc_command_of_json_def dnc_command_to_json_def tagged_obj text_simps read_opt_def split: option.split)
  done

text \<open>
  The live stream.  A client reads back the event that was published, when its numbers are in range and
  their text form keeps its doubles (serde writes those that are not finite as null).
\<close>

definition ws_event_to_json :: "(f64 \<Rightarrow> json) \<Rightarrow> ws_event \<Rightarrow> json" where
  "ws_event_to_json num ev =
     (case ev of
        WorkOrderStatusChanged wo st \<Rightarrow>
          json_object [(''event'', JStr ''work_order_status_changed''), (''work_order_id'', JStr wo), (''status'', JStr st)]
      | OperationStarted wo op \<Rightarrow>
          json_object [(''event'', JStr ''operation_started''), (''work_order_id'', JStr wo), (''wo_operation_id'', JStr op)]
      | OperationCompleted wo op \<Rightarrow>
          json_object [(''event'', JStr ''operation_completed''), (''work_order_id'', JStr wo), (''wo_operation_id'', JStr op)]
      | CountRecorded op good scrap \<Rightarrow>
          json_object [(''event'', JStr ''count_recorded''), (''wo_operation_id'', JStr op), (''good'', json_of_i32 good),
            (''scrap'', json_of_i32 scrap)]
      | DowntimeClassified d r \<Rightarrow>
          json_object [(''event'', JStr ''downtime_classified''), (''downtime_event_id'', JStr d), (''reason_id'', JStr r)]
      | DncTransferScheduled t p ident op \<Rightarrow>
          json_object [(''event'', JStr ''dnc_transfer_scheduled''), (''transfer_id'', JStr t), (''program_id'', JStr p),
            (''program_identifier'', JStr ident), (''wo_operation_id'', opt_str op)]
      | DncTransferCompleted t \<Rightarrow> json_object [(''event'', JStr ''dnc_transfer_completed''), (''transfer_id'', JStr t)]
      | ProgramRevisionDrafted r p \<Rightarrow>
          json_object [(''event'', JStr ''program_revision_drafted''), (''revision_id'', JStr r), (''program_id'', JStr p)]
      | OeeSnapshot wc a p q e \<Rightarrow>
          json_object [(''event'', JStr ''oee_snapshot''), (''work_center_id'', JStr wc), (''availability'', num a),
            (''performance'', num p), (''quality'', num q), (''oee'', num e)]
      | NcrRaised n no lot \<Rightarrow>
          json_object [(''event'', JStr ''ncr_raised''), (''ncr_id'', JStr n), (''ncr_no'', JStr no), (''lot_id'', opt_str lot)])"

definition ws_event_of_json :: "wire \<Rightarrow> (json \<Rightarrow> f64 option) \<Rightarrow> json \<Rightarrow> ws_event option" where
  "ws_event_of_json w float =
     tagged ''event'' (\<lambda>t v.
       if t = ''work_order_status_changed'' then
         derived [''work_order_id'', ''status'']
           (take2 WorkOrderStatusChanged (need json_as_str ''work_order_id'') (need json_as_str ''status'')) v
       else if t = ''operation_started'' then
         derived [''work_order_id'', ''wo_operation_id'']
           (take2 OperationStarted (need json_as_str ''work_order_id'') (need json_as_str ''wo_operation_id'')) v
       else if t = ''operation_completed'' then
         derived [''work_order_id'', ''wo_operation_id'']
           (take2 OperationCompleted (need json_as_str ''work_order_id'') (need json_as_str ''wo_operation_id'')) v
       else if t = ''count_recorded'' then
         derived [''wo_operation_id'', ''good'', ''scrap'']
           (take3 CountRecorded (need json_as_str ''wo_operation_id'') (need (i32_of_json w) ''good'') (need (i32_of_json w) ''scrap'')) v
       else if t = ''downtime_classified'' then
         derived [''downtime_event_id'', ''reason_id'']
           (take2 DowntimeClassified (need json_as_str ''downtime_event_id'') (need json_as_str ''reason_id'')) v
       else if t = ''dnc_transfer_scheduled'' then
         derived [''transfer_id'', ''program_id'', ''program_identifier'', ''wo_operation_id'']
           (take4 DncTransferScheduled (need json_as_str ''transfer_id'') (need json_as_str ''program_id'')
              (need json_as_str ''program_identifier'') (may json_as_str ''wo_operation_id'')) v
       else if t = ''dnc_transfer_completed'' then derived [''transfer_id''] (take1 DncTransferCompleted (need json_as_str ''transfer_id'')) v
       else if t = ''program_revision_drafted'' then
         derived [''revision_id'', ''program_id'']
           (take2 ProgramRevisionDrafted (need json_as_str ''revision_id'') (need json_as_str ''program_id'')) v
       else if t = ''oee_snapshot'' then
         derived [''work_center_id'', ''availability'', ''performance'', ''quality'', ''oee'']
           (take5 OeeSnapshot (need json_as_str ''work_center_id'') (need float ''availability'') (need float ''performance'')
              (need float ''quality'') (need float ''oee'')) v
       else if t = ''ncr_raised'' then
         derived [''ncr_id'', ''ncr_no'', ''lot_id'']
           (take3 NcrRaised (need json_as_str ''ncr_id'') (need json_as_str ''ncr_no'') (may json_as_str ''lot_id'')) v
       else None)"

fun event_sized :: "(f64 \<Rightarrow> bool) \<Rightarrow> ws_event \<Rightarrow> bool" where
  "event_sized keeps (CountRecorded op good scrap) = (in_i32 good \<and> in_i32 scrap)"
| "event_sized keeps (OeeSnapshot wc a p q e) = list_all keeps [a, p, q, e]"
| "event_sized keeps _ = True"

lemma ws_event_codec:
  assumes "wire_ok w" "event_sized (\<lambda>x. float (num x) = Some x) ev"
  shows "ws_event_of_json w float (ws_event_to_json num ev) = Some ev"
  using assms by (cases ev) (auto simp: ws_event_of_json_def ws_event_to_json_def tagged_obj wire_simps takes wire_okD)

end
