(* ===== verification/Api.thy ===== *)
theory Api
  imports Wire
begin

text \<open>
  The HTTP surface of the edge service: the route tables of \<^verbatim>\<open>mes-edge\<close>, one entry per \<^verbatim>\<open>route\<close> call, those of the
  nested routers below the prefix \<^verbatim>\<open>/v1\<close>.  axum matches the segments of a path, then the method, and runs the
  extractors of the handler in the order of its arguments: the user, then the query or the body.
  A path is the list of its decoded segments.
\<close>

section \<open>Matching\<close>

datatype http_method = GET | HEAD | POST | PUT | DELETE | OtherMethod

datatype segment = Lit string | Par

fun match_path :: "segment list \<Rightarrow> string list \<Rightarrow> string list option" where
  "match_path [] [] = Some []"
| "match_path (Lit a # ps) (x # xs) = (if x = a then match_path ps xs else None)"
| "match_path (Par # ps) (x # xs) = (if x = [] then None else map_option (Cons x) (match_path ps xs))"
| "match_path _ _ = None"

text \<open>The extractor that comes before the others: none, a user, a user who may write master data.\<close>

datatype gate = NoAuth | AuthUser | MasterWriter

type_synonym query = "(string \<times> string) list"

text \<open>
  A request.  The body is null when there is none; \<open>rq_upgrade\<close> is the status with which axum's web-socket
  extractor refuses to upgrade the connection, if it does (a method or header it does not accept).
\<close>

record http_request =
  rq_method :: http_method
  rq_path :: "string list"
  rq_query :: query
  rq_header :: "string option"
  rq_body :: json
  rq_upgrade :: "nat option"

record 'r endpoint =
  ep_gate :: gate
  ep_read :: "string list \<Rightarrow> http_request \<Rightarrow> nat + 'r"

type_synonym 'r route = "segment list \<times> (http_method \<times> 'r endpoint) list"

fun find_route :: "'r route list \<Rightarrow> string list \<Rightarrow> (string list \<times> (http_method \<times> 'r endpoint) list) option" where
  "find_route [] path = None"
| "find_route ((p, ms) # rs) path =
     (case match_path p path of Some ps \<Rightarrow> Some (ps, ms) | None \<Rightarrow> find_route rs path)"

text \<open>
  A handler without further input, with a JSON body (422 when it does not read), with a body that may be missing or
  unreadable, with a query (400), with a connection to upgrade.
\<close>

definition plain :: "gate \<Rightarrow> (string list \<Rightarrow> 'r) \<Rightarrow> 'r endpoint" where
  "plain g f = \<lparr>ep_gate = g, ep_read = (\<lambda>ps rq. Inr (f ps))\<rparr>"

definition body :: "gate \<Rightarrow> (string list \<Rightarrow> json \<Rightarrow> 'r option) \<Rightarrow> 'r endpoint" where
  "body g f = \<lparr>ep_gate = g, ep_read = (\<lambda>ps rq. case f ps (rq_body rq) of None \<Rightarrow> Inl 422 | Some r \<Rightarrow> Inr r)\<rparr>"

definition optional_body :: "gate \<Rightarrow> (json \<Rightarrow> 'b option) \<Rightarrow> ('b option \<Rightarrow> 'r) \<Rightarrow> 'r endpoint" where
  "optional_body g f c = \<lparr>ep_gate = g, ep_read = (\<lambda>ps rq. Inr (c (f (rq_body rq))))\<rparr>"

definition queried :: "gate \<Rightarrow> (query \<Rightarrow> 'r option) \<Rightarrow> 'r endpoint" where
  "queried g f = \<lparr>ep_gate = g, ep_read = (\<lambda>ps rq. case f (rq_query rq) of None \<Rightarrow> Inl 400 | Some r \<Rightarrow> Inr r)\<rparr>"

definition upgraded :: "gate \<Rightarrow> 'r \<Rightarrow> 'r endpoint" where
  "upgraded g r = \<lparr>ep_gate = g, ep_read = (\<lambda>ps rq. case rq_upgrade rq of None \<Rightarrow> Inr r | Some code \<Rightarrow> Inl code)\<rparr>"

text \<open>Query parameters: one that is given twice is an error.\<close>

definition query_may :: "string \<Rightarrow> query \<Rightarrow> string option option" where
  "query_may k q =
     (case filter (\<lambda>p. fst p = k) q of [] \<Rightarrow> Some None | [p] \<Rightarrow> Some (Some (snd p)) | _ \<Rightarrow> None)"

definition query_need :: "string \<Rightarrow> query \<Rightarrow> string option" where
  "query_need k q = Option.bind (query_may k q) id"

definition query_time :: "wire \<Rightarrow> string \<Rightarrow> query \<Rightarrow> timestamp option" where
  "query_time w k q = Option.bind (query_need k q) (ts_of_json w \<circ> JStr)"

definition time_range :: "wire \<Rightarrow> (timestamp \<Rightarrow> timestamp \<Rightarrow> 'r) \<Rightarrow> query \<Rightarrow> 'r option" where
  "time_range w c q = Option.bind (query_time w ''start'' q) (\<lambda>a. map_option (c a) (query_time w ''end'' q))"

definition oee_query :: "wire \<Rightarrow> (string \<Rightarrow> timestamp \<Rightarrow> timestamp \<Rightarrow> 'r) \<Rightarrow> query \<Rightarrow> 'r option" where
  "oee_query w c q = Option.bind (query_need ''work_center_id'' q) (\<lambda>wc. time_range w (c wc) q)"

section \<open>Route tables\<close>

definition public_table :: "edge_req route list" where
  "public_table =
     [([Lit ''healthz''], [(GET, plain NoAuth (\<lambda>ps. PublicReq Health))]),
      ([Lit ''readyz''], [(GET, plain NoAuth (\<lambda>ps. PublicReq Ready))]),
      ([Lit ''api-doc'', Lit ''openapi.json''], [(GET, plain NoAuth (\<lambda>ps. PublicReq ApiDocument))]),
      ([Lit ''ws''], [(GET, upgraded NoAuth (PublicReq EventStream))])]"

definition auth_table :: "edge_req route list" where
  "auth_table =
     [([Lit ''login''],
        [(POST, body NoAuth (\<lambda>ps. map_option AuthReq \<circ> login_request_of_json))]),
      ([Lit ''pin-login''],
        [(POST, body NoAuth (\<lambda>ps. map_option AuthReq \<circ> pin_request_of_json))])]"

definition master_table :: "edge_req route list" where
  "master_table =
     [([Lit ''sites''],
        [(GET, plain AuthUser (\<lambda>ps. MasterReq ListSites)),
         (POST, body MasterWriter (\<lambda>ps. map_option MasterReq \<circ> site_input_of_json CreateSite))]),
      ([Lit ''sites'', Par],
        [(GET, plain AuthUser (\<lambda>ps. MasterReq (GetSite (ps ! 0)))),
         (PUT, body MasterWriter (\<lambda>ps. map_option MasterReq \<circ> site_input_of_json (UpdateSite (ps ! 0)))),
         (DELETE, plain MasterWriter (\<lambda>ps. MasterReq (DeleteSite (ps ! 0))))]),
      ([Lit ''areas''],
        [(GET, plain AuthUser (\<lambda>ps. MasterReq ListAreas)),
         (POST, body MasterWriter (\<lambda>ps. map_option MasterReq \<circ> area_input_of_json CreateArea))]),
      ([Lit ''areas'', Par],
        [(GET, plain AuthUser (\<lambda>ps. MasterReq (GetArea (ps ! 0)))),
         (PUT, body MasterWriter (\<lambda>ps. map_option MasterReq \<circ> area_input_of_json (\<lambda>_. UpdateArea (ps ! 0)))),
         (DELETE, plain MasterWriter (\<lambda>ps. MasterReq (DeleteArea (ps ! 0))))]),
      ([Lit ''work-centers''],
        [(GET, plain AuthUser (\<lambda>ps. MasterReq ListWorkCenters)),
         (POST, body MasterWriter (\<lambda>ps. map_option MasterReq \<circ> work_center_input_of_json CreateWorkCenter))]),
      ([Lit ''work-centers'', Par],
        [(GET, plain AuthUser (\<lambda>ps. MasterReq (GetWorkCenter (ps ! 0)))),
         (PUT, body MasterWriter (\<lambda>ps. map_option MasterReq \<circ> work_center_input_of_json (\<lambda>_. UpdateWorkCenter (ps ! 0)))),
         (DELETE, plain MasterWriter (\<lambda>ps. MasterReq (DeleteWorkCenter (ps ! 0))))]),
      ([Lit ''parts''],
        [(GET, plain AuthUser (\<lambda>ps. MasterReq ListParts)),
         (POST, body MasterWriter (\<lambda>ps. map_option MasterReq \<circ> part_input_of_json CreatePart))]),
      ([Lit ''parts'', Par],
        [(GET, plain AuthUser (\<lambda>ps. MasterReq (GetPart (ps ! 0)))),
         (PUT, body MasterWriter (\<lambda>ps. map_option MasterReq \<circ> part_input_of_json (UpdatePart (ps ! 0)))),
         (DELETE, plain MasterWriter (\<lambda>ps. MasterReq (DeletePart (ps ! 0))))]),
      ([Lit ''users''],
        [(GET, plain MasterWriter (\<lambda>ps. MasterReq ListUsers)),
         (POST, body MasterWriter (\<lambda>ps. map_option (MasterReq \<circ> CreateUser) \<circ> user_input_of_json))]),
      ([Lit ''programs''],
        [(GET, plain AuthUser (\<lambda>ps. MasterReq ListPrograms)),
         (POST, body MasterWriter (\<lambda>ps. map_option (MasterReq \<circ> CreateProgram) \<circ> program_input_of_json))])]"

definition ingest_table :: "wire \<Rightarrow> edge_req route list" where
  "ingest_table w =
     [([Lit ''signals''],
        [(POST, body AuthUser (\<lambda>ps. map_option (IngestReq \<circ> Signals) \<circ> list_of_json (raw_signal_of_json w)))]),
      ([Lit ''recompute''],
        [(POST, body AuthUser (\<lambda>ps. map_option IngestReq \<circ> recompute_of_json w))])]"

definition orders_table :: "wire \<Rightarrow> edge_req route list" where
  "orders_table w =
     [([],
        [(GET, plain AuthUser (\<lambda>ps. OrdersReq ListOrders)),
         (POST, body MasterWriter (\<lambda>ps. map_option (OrdersReq \<circ> CreateOrder) \<circ> order_input_of_json w))]),
      ([Par],
        [(GET, plain AuthUser (\<lambda>ps. OrdersReq (GetOrder (ps ! 0))))]),
      ([Par, Lit ''release''],
        [(POST, plain MasterWriter (\<lambda>ps. OrdersReq (ReleaseOrder (ps ! 0))))]),
      ([Par, Lit ''cancel''],
        [(POST, plain MasterWriter (\<lambda>ps. OrdersReq (CancelOrder (ps ! 0))))]),
      ([Par, Lit ''close''],
        [(POST, plain MasterWriter (\<lambda>ps. OrdersReq (CloseOrder (ps ! 0))))])]"

definition exec_table :: "wire \<Rightarrow> edge_req route list" where
  "exec_table w =
     [([Lit ''operations'', Par, Lit ''start''],
        [(POST, plain AuthUser (\<lambda>ps. ExecReq (StartOp (ps ! 0))))]),
      ([Lit ''operations'', Par, Lit ''count''],
        [(POST, body AuthUser (\<lambda>ps. map_option (ExecReq \<circ> RecordCount (ps ! 0)) \<circ> count_input_of_json w))]),
      ([Lit ''operations'', Par, Lit ''complete''],
        [(POST, plain AuthUser (\<lambda>ps. ExecReq (CompleteOp (ps ! 0))))]),
      ([Lit ''work-orders'', Par, Lit ''complete''],
        [(POST, plain AuthUser (\<lambda>ps. ExecReq (CompleteWo (ps ! 0))))]),
      ([Lit ''downtime'', Par, Lit ''classify''],
        [(POST, body AuthUser (\<lambda>ps. map_option (ExecReq \<circ> ClassifyDowntime (ps ! 0)) \<circ> classify_of_json))]),
      ([Lit ''downtime'', Par, Lit ''split''],
        [(POST, body AuthUser (\<lambda>ps. map_option (ExecReq \<circ> SplitDowntime (ps ! 0)) \<circ> split_input_of_json w))])]"

definition dnc_table :: "edge_req route list" where
  "dnc_table =
     [([Lit ''transfers''],
        [(GET, plain AuthUser (\<lambda>ps. DncReq ListTransfers)),
         (POST, body AuthUser (\<lambda>ps. map_option DncReq \<circ> manual_transfer_of_json))]),
      ([Lit ''transfers'', Par, Lit ''retry''],
        [(POST, plain AuthUser (\<lambda>ps. DncReq (RetryTransfer (ps ! 0))))]),
      ([Lit ''revisions''],
        [(GET, plain AuthUser (\<lambda>ps. DncReq ListRevisions))]),
      ([Lit ''revisions'', Par, Lit ''promote''],
        [(POST, plain AuthUser (\<lambda>ps. DncReq (PromoteRevision (ps ! 0))))]),
      ([Lit ''revisions'', Par, Lit ''reject''],
        [(POST, plain AuthUser (\<lambda>ps. DncReq (RejectRevision (ps ! 0))))]),
      ([Lit ''daemon-events''],
        [(POST, body AuthUser (\<lambda>ps. map_option (DncReq \<circ> DaemonEvent) \<circ> dnc_event_of_json))])]"

definition analytics_table :: "wire \<Rightarrow> edge_req route list" where
  "analytics_table w =
     [([Lit ''downtime'', Lit ''pareto''],
        [(GET, queried AuthUser (time_range w (\<lambda>a b. AnalyticsReq (DowntimePareto a b))))]),
      ([Lit ''downtime'', Lit ''six-big-losses''],
        [(GET, queried AuthUser (time_range w (\<lambda>a b. AnalyticsReq (SixBigLosses a b))))]),
      ([Lit ''downtime'', Lit ''trend''],
        [(GET, queried AuthUser (time_range w (\<lambda>a b. AnalyticsReq (DowntimeTrend a b))))]),
      ([Lit ''oee''],
        [(GET, queried AuthUser (oee_query w (\<lambda>wc a b. AnalyticsReq (OeeOf wc a b))))]),
      ([Lit ''oee'', Lit ''by-shift''],
        [(GET, queried AuthUser (oee_query w (\<lambda>wc a b. AnalyticsReq (OeeByShift wc a b))))])]"

definition trace_table :: "wire \<Rightarrow> edge_req route list" where
  "trace_table w =
     [([Lit ''lots''],
        [(POST, body AuthUser (\<lambda>ps. map_option TraceReq \<circ> lot_input_of_json w))]),
      ([Lit ''serials''],
        [(POST, body AuthUser (\<lambda>ps. map_option TraceReq \<circ> serial_input_of_json))]),
      ([Lit ''genealogy''],
        [(POST, body AuthUser (\<lambda>ps. map_option TraceReq \<circ> genealogy_input_of_json w))]),
      ([Lit ''material'', Lit ''issue''],
        [(POST, body AuthUser (\<lambda>ps. map_option TraceReq \<circ> issue_input_of_json w))]),
      ([Lit ''holds''],
        [(POST, body AuthUser (\<lambda>ps. map_option TraceReq \<circ> hold_input_of_json))]),
      ([Lit ''holds'', Par, Lit ''release''],
        [(POST, plain AuthUser (\<lambda>ps. TraceReq (ReleaseHold (ps ! 0))))]),
      ([Lit ''backward'', Par, Par],
        [(GET, plain AuthUser (\<lambda>ps. TraceReq (TraceBackward (ps ! 0, ps ! 1))))]),
      ([Lit ''forward'', Par, Par],
        [(GET, plain AuthUser (\<lambda>ps. TraceReq (TraceForward (ps ! 0, ps ! 1))))]),
      ([Lit ''barcode''],
        [(GET, queried AuthUser (map_option (TraceReq \<circ> ParseBarcode) \<circ> query_need ''code''))])]"

definition qms_table :: "wire \<Rightarrow> edge_req route list" where
  "qms_table w =
     [([Lit ''plans''],
        [(POST, body AuthUser (\<lambda>ps. map_option QmsReq \<circ> plan_input_of_json))]),
      ([Lit ''characteristics''],
        [(POST, body AuthUser (\<lambda>ps. map_option QmsReq \<circ> characteristic_input_of_json w))]),
      ([Lit ''results''],
        [(POST, body AuthUser (\<lambda>ps. map_option QmsReq \<circ> result_input_of_json w))]),
      ([Lit ''ncrs''],
        [(GET, plain AuthUser (\<lambda>ps. QmsReq ListNcrs))]),
      ([Lit ''ncrs'', Par],
        [(GET, plain AuthUser (\<lambda>ps. QmsReq (GetNcr (ps ! 0))))]),
      ([Lit ''ncrs'', Par, Lit ''disposition''],
        [(POST, body AuthUser (\<lambda>ps. map_option QmsReq \<circ> disposition_input_of_json (DispositionNcr (ps ! 0))))])]"

definition cmms_table :: "wire \<Rightarrow> edge_req route list" where
  "cmms_table w =
     [([Lit ''pm-schedules''],
        [(POST, body AuthUser (\<lambda>ps. map_option CmmsReq \<circ> pm_input_of_json w))]),
      ([Lit ''pm-schedules'', Lit ''due''],
        [(GET, plain AuthUser (\<lambda>ps. CmmsReq ListPmDue))]),
      ([Lit ''work-orders''],
        [(GET, plain AuthUser (\<lambda>ps. CmmsReq ListMaintenanceWos)),
         (POST, body AuthUser (\<lambda>ps. map_option CmmsReq \<circ> mwo_input_of_json))]),
      ([Lit ''work-orders'', Par],
        [(GET, plain AuthUser (\<lambda>ps. CmmsReq (GetMaintenanceWo (ps ! 0))))]),
      ([Lit ''work-orders'', Par, Lit ''transition''],
        [(POST, body AuthUser (\<lambda>ps. map_option CmmsReq \<circ> mwo_transition_of_json (TransitionMaintenanceWo (ps ! 0))))]),
      ([Lit ''spares''],
        [(GET, plain AuthUser (\<lambda>ps. CmmsReq ListSpareParts)),
         (POST, body AuthUser (\<lambda>ps. map_option CmmsReq \<circ> spare_input_of_json w))]),
      ([Lit ''spares'', Lit ''txns''],
        [(POST, body AuthUser (\<lambda>ps. map_option CmmsReq \<circ> spare_txn_of_json w))]),
      ([Lit ''procurement''],
        [(GET, plain AuthUser (\<lambda>ps. CmmsReq ListProcurementRequests)),
         (POST, body AuthUser (\<lambda>ps. map_option CmmsReq \<circ> procurement_input_of_json w))])]"

definition erp_table :: "edge_req route list" where
  "erp_table =
     [([Lit ''connections''],
        [(GET, plain MasterWriter (\<lambda>ps. ErpReq ListConnections)),
         (POST, body MasterWriter (\<lambda>ps. map_option (ErpReq \<circ> CreateConnection) \<circ> connection_input_of_json))]),
      ([Lit ''connections'', Par],
        [(GET, plain MasterWriter (\<lambda>ps. ErpReq (GetConnection (ps ! 0)))),
         (PUT, body MasterWriter (\<lambda>ps. map_option (ErpReq \<circ> UpdateConnection (ps ! 0)) \<circ> connection_input_of_json)),
         (DELETE, plain MasterWriter (\<lambda>ps. ErpReq (DeleteConnection (ps ! 0))))]),
      ([Lit ''import''],
        [(POST, body MasterWriter (\<lambda>ps. map_option ErpReq \<circ> import_request_of_json))]),
      ([Lit ''export''],
        [(POST, body MasterWriter (\<lambda>ps. map_option ErpReq \<circ> export_request_of_json))]),
      ([Lit ''sync-log''],
        [(GET, queried MasterWriter (map_option (ErpReq \<circ> ListSyncLog) \<circ> query_may ''connection_id''))])]"

definition diagnostics_table :: "edge_req route list" where
  "diagnostics_table =
     [([Lit ''send''],
        [(POST, optional_body MasterWriter send_input_of_json (\<lambda>b. DiagnosticsReq (SendDiagnostics (Option.bind b id))))])]"

text \<open>The nested routers.\<close>

definition edge_tables :: "wire \<Rightarrow> (string \<times> edge_req route list) list" where
  "edge_tables w =
     [(''auth'', auth_table), (''master'', master_table), (''ingest'', ingest_table w), (''orders'', orders_table w),
      (''exec'', exec_table w), (''dnc'', dnc_table), (''analytics'', analytics_table w), (''trace'', trace_table w),
      (''qms'', qms_table w), (''cmms'', cmms_table w), (''erp'', erp_table),
      (''diagnostics'', diagnostics_table)]"

section \<open>Requests over HTTP\<close>

text \<open>No route for the path is 404, no handler for the method 405; a GET handler answers HEAD too.\<close>

definition select_route :: "'r route list \<Rightarrow> string list \<Rightarrow> http_request \<Rightarrow> nat + (gate \<times> (nat + 'r))" where
  "select_route t path rq =
     (case find_route t path of
        None \<Rightarrow> Inl 404
      | Some (ps, ms) \<Rightarrow>
          (case map_of ms (if rq_method rq = HEAD then GET else rq_method rq) of
             None \<Rightarrow> Inl 405
           | Some ep \<Rightarrow> Inr (ep_gate ep, ep_read ep ps rq)))"

definition resolve :: "wire \<Rightarrow> http_request \<Rightarrow> nat + (gate \<times> (nat + edge_req))" where
  "resolve w rq =
     (if take 1 (rq_path rq) = [''v1''] then
        (case drop 1 (rq_path rq) of
           [] \<Rightarrow> Inl 404
         | c # path \<Rightarrow> (case map_of (edge_tables w) c of None \<Rightarrow> Inl 404 | Some t \<Rightarrow> select_route t path rq))
      else select_route public_table (rq_path rq) rq)"

definition pass_gate :: "app_context \<Rightarrow> gate \<Rightarrow> string option \<Rightarrow> api_err option" where
  "pass_gate x g header =
     (case g of
        NoAuth \<Rightarrow> None
      | _ \<Rightarrow>
          (case authenticate (ctx_crypto x) (ctx_auth x) (ctx_now x) header of
             Inl e \<Rightarrow> Some e
           | Inr u \<Rightarrow>
               if g = MasterWriter \<and> \<not> can_write_master (role u)
               then Some (ApiErr 403 ''forbidden'' ''role may not modify master data'') else None))"

text \<open>An error is answered with its envelope; what axum itself refuses has a text of axum's, left open here.\<close>

definition answer_of :: "api_err + answer \<Rightarrow> answer" where
  "answer_of r = (case r of Inl e \<Rightarrow> (err_status e, Some (api_error_to_json e)) | Inr a \<Rightarrow> a)"

definition edge_http :: "app_context \<Rightarrow> http_request \<Rightarrow> 's master_db_scheme \<Rightarrow> answer \<times> 's master_db_scheme" where
  "edge_http x rq s =
     (case resolve (ctx_wire x) rq of
        Inl code \<Rightarrow> ((code, None), s)
      | Inr (g, outcome) \<Rightarrow>
          (case pass_gate x g (rq_header rq) of
             Some e \<Rightarrow> (answer_of (Inl e), s)
           | None \<Rightarrow>
               (case outcome of
                  Inl code \<Rightarrow> ((code, None), s)
                | Inr req \<Rightarrow> (case serve x (rq_header rq) req s of (r, s') \<Rightarrow> (answer_of r, s')))))"

section \<open>What clients send\<close>

text \<open>The request for an endpoint, with the bodies that the client types write.\<close>

definition time_text :: "wire \<Rightarrow> timestamp \<Rightarrow> string" where
  "time_text w t = (case ts_to_json w t of JStr x \<Rightarrow> x | _ \<Rightarrow> [])"

type_synonym sent = "http_method \<times> string list \<times> query \<times> json"

fun send_public :: "wire \<Rightarrow> public_req \<Rightarrow> sent" where
  "send_public w Health = (GET, [''healthz''], [], JNull)"
| "send_public w Ready = (GET, [''readyz''], [], JNull)"
| "send_public w ApiDocument = (GET, [''api-doc'', ''openapi.json''], [], JNull)"
| "send_public w EventStream = (GET, [''ws''], [], JNull)"

fun send_auth :: "wire \<Rightarrow> auth_req \<Rightarrow> sent" where
  "send_auth w (Login name pw) = (POST, [''auth'', ''login''], [], login_request_to_json name pw)"
| "send_auth w (PinLogin n p b) = (POST, [''auth'', ''pin-login''], [], pin_request_to_json n p b)"

fun send_master :: "wire \<Rightarrow> master_req \<Rightarrow> sent" where
  "send_master w ListSites = (GET, [''master'', ''sites''], [], JNull)"
| "send_master w (CreateSite code name tz) = (POST, [''master'', ''sites''], [], site_input_to_json code name tz)"
| "send_master w (GetSite i) = (GET, [''master'', ''sites'', i], [], JNull)"
| "send_master w (UpdateSite i code name tz) = (PUT, [''master'', ''sites'', i], [], site_input_to_json code name tz)"
| "send_master w (DeleteSite i) = (DELETE, [''master'', ''sites'', i], [], JNull)"
| "send_master w ListAreas = (GET, [''master'', ''areas''], [], JNull)"
| "send_master w (CreateArea site code name) = (POST, [''master'', ''areas''], [], area_input_to_json site code name)"
| "send_master w (GetArea i) = (GET, [''master'', ''areas'', i], [], JNull)"
| "send_master w (UpdateArea i code name) = (PUT, [''master'', ''areas'', i], [], area_input_to_json '''' code name)"
| "send_master w (DeleteArea i) = (DELETE, [''master'', ''areas'', i], [], JNull)"
| "send_master w ListWorkCenters = (GET, [''master'', ''work-centers''], [], JNull)"
| "send_master w (CreateWorkCenter area code name ext) = (POST, [''master'', ''work-centers''], [], work_center_input_to_json area code name ext)"
| "send_master w (GetWorkCenter i) = (GET, [''master'', ''work-centers'', i], [], JNull)"
| "send_master w (UpdateWorkCenter i code name ext) = (PUT, [''master'', ''work-centers'', i], [], work_center_input_to_json '''' code name ext)"
| "send_master w (DeleteWorkCenter i) = (DELETE, [''master'', ''work-centers'', i], [], JNull)"
| "send_master w ListParts = (GET, [''master'', ''parts''], [], JNull)"
| "send_master w (CreatePart code name uom) = (POST, [''master'', ''parts''], [], part_input_to_json code name uom)"
| "send_master w (GetPart i) = (GET, [''master'', ''parts'', i], [], JNull)"
| "send_master w (UpdatePart i code name uom) = (PUT, [''master'', ''parts'', i], [], part_input_to_json code name uom)"
| "send_master w (DeletePart i) = (DELETE, [''master'', ''parts'', i], [], JNull)"
| "send_master w ListUsers = (GET, [''master'', ''users''], [], JNull)"
| "send_master w (CreateUser user) = (POST, [''master'', ''users''], [], user_input_to_json user)"
| "send_master w ListPrograms = (GET, [''master'', ''programs''], [], JNull)"
| "send_master w (CreateProgram prg) = (POST, [''master'', ''programs''], [], program_input_to_json prg)"

fun send_ingest :: "wire \<Rightarrow> ingest_req \<Rightarrow> sent" where
  "send_ingest w (Signals sigs) = (POST, [''ingest'', ''signals''], [], JArr (map (raw_signal_to_json w) sigs))"
| "send_ingest w (Recompute wc a b) = (POST, [''ingest'', ''recompute''], [], recompute_to_json w wc a b)"

fun send_orders :: "wire \<Rightarrow> orders_req \<Rightarrow> sent" where
  "send_orders w ListOrders = (GET, [''orders''], [], JNull)"
| "send_orders w (CreateOrder input) = (POST, [''orders''], [], order_input_to_json w input)"
| "send_orders w (GetOrder i) = (GET, [''orders'', i], [], JNull)"
| "send_orders w (ReleaseOrder i) = (POST, [''orders'', i, ''release''], [], JNull)"
| "send_orders w (CancelOrder i) = (POST, [''orders'', i, ''cancel''], [], JNull)"
| "send_orders w (CloseOrder i) = (POST, [''orders'', i, ''close''], [], JNull)"

fun send_exec :: "wire \<Rightarrow> exec_req \<Rightarrow> sent" where
  "send_exec w (StartOp i) = (POST, [''exec'', ''operations'', i, ''start''], [], JNull)"
| "send_exec w (RecordCount i c) = (POST, [''exec'', ''operations'', i, ''count''], [], count_input_to_json w c)"
| "send_exec w (CompleteOp i) = (POST, [''exec'', ''operations'', i, ''complete''], [], JNull)"
| "send_exec w (CompleteWo i) = (POST, [''exec'', ''work-orders'', i, ''complete''], [], JNull)"
| "send_exec w (ClassifyDowntime i reason) = (POST, [''exec'', ''downtime'', i, ''classify''], [], classify_to_json reason)"
| "send_exec w (SplitDowntime i sp) = (POST, [''exec'', ''downtime'', i, ''split''], [], split_input_to_json w sp)"

fun send_dnc :: "wire \<Rightarrow> dnc_req \<Rightarrow> sent" where
  "send_dnc w ListTransfers = (GET, [''dnc'', ''transfers''], [], JNull)"
| "send_dnc w (ManualTransfer pid machine wop) = (POST, [''dnc'', ''transfers''], [], manual_transfer_to_json pid machine wop)"
| "send_dnc w (RetryTransfer i) = (POST, [''dnc'', ''transfers'', i, ''retry''], [], JNull)"
| "send_dnc w ListRevisions = (GET, [''dnc'', ''revisions''], [], JNull)"
| "send_dnc w (PromoteRevision i) = (POST, [''dnc'', ''revisions'', i, ''promote''], [], JNull)"
| "send_dnc w (RejectRevision i) = (POST, [''dnc'', ''revisions'', i, ''reject''], [], JNull)"
| "send_dnc w (DaemonEvent ev) = (POST, [''dnc'', ''daemon-events''], [], dnc_event_to_json ev)"

fun send_analytics :: "wire \<Rightarrow> analytics_req \<Rightarrow> sent" where
  "send_analytics w (DowntimePareto a b) = (GET, [''analytics'', ''downtime'', ''pareto''], [(''start'', time_text w a), (''end'', time_text w b)], JNull)"
| "send_analytics w (SixBigLosses a b) = (GET, [''analytics'', ''downtime'', ''six-big-losses''], [(''start'', time_text w a), (''end'', time_text w b)], JNull)"
| "send_analytics w (DowntimeTrend a b) = (GET, [''analytics'', ''downtime'', ''trend''], [(''start'', time_text w a), (''end'', time_text w b)], JNull)"
| "send_analytics w (OeeOf wc a b) = (GET, [''analytics'', ''oee''], [(''work_center_id'', wc), (''start'', time_text w a), (''end'', time_text w b)], JNull)"
| "send_analytics w (OeeByShift wc a b) = (GET, [''analytics'', ''oee'', ''by-shift''], [(''work_center_id'', wc), (''start'', time_text w a), (''end'', time_text w b)], JNull)"

fun send_trace :: "wire \<Rightarrow> trace_req \<Rightarrow> sent" where
  "send_trace w (CreateLot no part qty uom) = (POST, [''trace'', ''lots''], [], lot_input_to_json w no part qty uom)"
| "send_trace w (CreateSerial no part lot) = (POST, [''trace'', ''serials''], [], serial_input_to_json no part lot)"
| "send_trace w (AddGenealogy parent child qty) = (POST, [''trace'', ''genealogy''], [], genealogy_input_to_json w parent child qty)"
| "send_trace w (IssueMaterial lot serial qty wop) = (POST, [''trace'', ''material'', ''issue''], [], issue_input_to_json w lot serial qty wop)"
| "send_trace w (PlaceHold t i reason) = (POST, [''trace'', ''holds''], [], hold_input_to_json t i reason)"
| "send_trace w (ReleaseHold i) = (POST, [''trace'', ''holds'', i, ''release''], [], JNull)"
| "send_trace w (TraceBackward e) = (GET, [''trace'', ''backward'', fst e, snd e], [], JNull)"
| "send_trace w (TraceForward e) = (GET, [''trace'', ''forward'', fst e, snd e], [], JNull)"
| "send_trace w (ParseBarcode t) = (GET, [''trace'', ''barcode''], [(''code'', t)], JNull)"

fun send_qms :: "wire \<Rightarrow> qms_req \<Rightarrow> sent" where
  "send_qms w (CreatePlan part code name) = (POST, [''qms'', ''plans''], [], plan_input_to_json part code name)"
| "send_qms w (CreateCharacteristic plan name uom nominal lo hi) = (POST, [''qms'', ''characteristics''], [], characteristic_input_to_json w plan name uom nominal lo hi)"
| "send_qms w (RecordResult ch lot serial wop v) = (POST, [''qms'', ''results''], [], result_input_to_json w ch lot serial wop v)"
| "send_qms w ListNcrs = (GET, [''qms'', ''ncrs''], [], JNull)"
| "send_qms w (GetNcr i) = (GET, [''qms'', ''ncrs'', i], [], JNull)"
| "send_qms w (DispositionNcr i t reason) = (POST, [''qms'', ''ncrs'', i, ''disposition''], [], disposition_input_to_json t reason)"

fun send_cmms :: "wire \<Rightarrow> cmms_req \<Rightarrow> sent" where
  "send_cmms w (CreatePmSchedule wc name trigger interval checklist) = (POST, [''cmms'', ''pm-schedules''], [], pm_input_to_json w wc name trigger interval checklist)"
| "send_cmms w ListPmDue = (GET, [''cmms'', ''pm-schedules'', ''due''], [], JNull)"
| "send_cmms w ListMaintenanceWos = (GET, [''cmms'', ''work-orders''], [], JNull)"
| "send_cmms w (CreateMaintenanceWo wc pm t notes) = (POST, [''cmms'', ''work-orders''], [], mwo_input_to_json wc pm t notes)"
| "send_cmms w (GetMaintenanceWo i) = (GET, [''cmms'', ''work-orders'', i], [], JNull)"
| "send_cmms w (TransitionMaintenanceWo i st tech code) = (POST, [''cmms'', ''work-orders'', i, ''transition''], [], mwo_transition_to_json st tech code)"
| "send_cmms w ListSpareParts = (GET, [''cmms'', ''spares''], [], JNull)"
| "send_cmms w (CreateSparePart code name uom point qty) = (POST, [''cmms'', ''spares''], [], spare_input_to_json w code name uom point qty)"
| "send_cmms w (RecordSpareTxn i mwo t qty) = (POST, [''cmms'', ''spares'', ''txns''], [], spare_txn_to_json w i mwo t qty)"
| "send_cmms w ListProcurementRequests = (GET, [''cmms'', ''procurement''], [], JNull)"
| "send_cmms w (CreateProcurementRequest i qty) = (POST, [''cmms'', ''procurement''], [], procurement_input_to_json w i qty)"

fun send_erp :: "wire \<Rightarrow> erp_req \<Rightarrow> sent" where
  "send_erp w ListConnections = (GET, [''erp'', ''connections''], [], JNull)"
| "send_erp w (CreateConnection input) = (POST, [''erp'', ''connections''], [], connection_input_to_json input)"
| "send_erp w (GetConnection i) = (GET, [''erp'', ''connections'', i], [], JNull)"
| "send_erp w (UpdateConnection i input) = (PUT, [''erp'', ''connections'', i], [], connection_input_to_json input)"
| "send_erp w (DeleteConnection i) = (DELETE, [''erp'', ''connections'', i], [], JNull)"
| "send_erp w (Import i t records) = (POST, [''erp'', ''import''], [], import_request_to_json i t records)"
| "send_erp w (Export i t) = (POST, [''erp'', ''export''], [], export_request_to_json i t)"
| "send_erp w (ListSyncLog c) = (GET, [''erp'', ''sync-log''], (case c of None \<Rightarrow> [] | Some i \<Rightarrow> [(''connection_id'', i)]), JNull)"

fun send_diagnostics_req :: "wire \<Rightarrow> diagnostics_req \<Rightarrow> sent" where
  "send_diagnostics_req w (SendDiagnostics note) = (POST, [''diagnostics'', ''send''], [], send_input_to_json note)"

definition send :: "wire \<Rightarrow> edge_req \<Rightarrow> sent" where
  "send w req =
     (case req of
        PublicReq r \<Rightarrow> send_public w r | AuthReq r \<Rightarrow> send_auth w r | MasterReq r \<Rightarrow> send_master w r | IngestReq r \<Rightarrow> send_ingest w r
      | OrdersReq r \<Rightarrow> send_orders w r | ExecReq r \<Rightarrow> send_exec w r | DncReq r \<Rightarrow> send_dnc w r
      | AnalyticsReq r \<Rightarrow> send_analytics w r | TraceReq r \<Rightarrow> send_trace w r | QmsReq r \<Rightarrow> send_qms w r
      | CmmsReq r \<Rightarrow> send_cmms w r | ErpReq r \<Rightarrow> send_erp w r | DiagnosticsReq r \<Rightarrow> send_diagnostics_req w r)"

text \<open>The prefix of the nested routers.\<close>

definition prefixed :: "edge_req \<Rightarrow> string list \<Rightarrow> string list" where
  "prefixed req path = (case req of PublicReq _ \<Rightarrow> path | _ \<Rightarrow> ''v1'' # path)"

definition request_of :: "wire \<Rightarrow> string option \<Rightarrow> edge_req \<Rightarrow> http_request" where
  "request_of w header req =
     (case send w req of (m, path, q, v) \<Rightarrow>
        \<lparr>rq_method = m, rq_path = prefixed req path, rq_query = q, rq_header = header, rq_body = v, rq_upgrade = None\<rparr>)"

text \<open>Identifiers in a path are not empty, and integers fit in 32 bits.\<close>

fun numbers_sized :: "edge_req \<Rightarrow> bool" where
  "numbers_sized (IngestReq (Signals sigs)) = list_all (signal_sized \<circ> sg_event) sigs"
| "numbers_sized (OrdersReq (CreateOrder input)) = order_sized input"
| "numbers_sized (ExecReq (RecordCount i c)) = (in_i32 (ci_good c) \<and> in_i32 (ci_scrap c))"
| "numbers_sized _ = True"

definition sendable :: "edge_req \<Rightarrow> bool" where
  "sendable req \<longleftrightarrow> numbers_sized req \<and> (\<forall>w. list_all (\<lambda>x. x \<noteq> []) (fst (snd (send w req))))"

definition gate_of :: "edge_req \<Rightarrow> gate" where
  "gate_of req =
     (case req of PublicReq _ \<Rightarrow> NoAuth | AuthReq _ \<Rightarrow> NoAuth | _ \<Rightarrow> if reserved req = Some {''Admin'', ''Planner''} then MasterWriter else AuthUser)"

section \<open>Every endpoint is reached\<close>

lemma role_sets:
  "{''Admin'', ''Planner'', ''Supervisor''} \<noteq> {''Admin'', ''Planner''}" "{''Admin'', ''Supervisor'', ''Quality''} \<noteq> {''Admin'', ''Planner''}"
  "{''Admin'', ''Supervisor'', ''Maintenance''} \<noteq> {''Admin'', ''Planner''}"
  by (simp_all add: set_eq_iff, (rule exI [of _ "''Supervisor''"], simp)+)

lemmas resolve_simps = resolve_def select_route_def request_of_def send_def edge_tables_def plain_def body_def queried_def gate_of_def role_sets
  reserved_def Let_def sendable_def prefixed_def

lemma resolve_auth: "resolve w (request_of w h (AuthReq r)) = Inr (gate_of (AuthReq r), Inr (AuthReq r))"
  by (cases r) (simp_all add: resolve_simps auth_table_def wire_simps)

lemma resolve_public: "resolve w (request_of w h (PublicReq r)) = Inr (gate_of (PublicReq r), Inr (PublicReq r))"
  by (cases r) (simp_all add: resolve_simps public_table_def upgraded_def)

lemma resolve_diagnostics:
  "resolve w (request_of w h (DiagnosticsReq r)) = Inr (gate_of (DiagnosticsReq r), Inr (DiagnosticsReq r))"
  by (cases r) (simp add: resolve_simps diagnostics_table_def optional_body_def send_input_codec)

lemma resolve_master:
  "sendable (MasterReq r) \<Longrightarrow> resolve w (request_of w h (MasterReq r)) = Inr (gate_of (MasterReq r), Inr (MasterReq r))"
  by (cases r) (simp_all add: resolve_simps master_table_def wire_simps)

lemma resolve_floor:
  assumes "wire_ok w"
  shows "sendable (IngestReq r1) \<Longrightarrow> resolve w (request_of w h (IngestReq r1)) = Inr (gate_of (IngestReq r1), Inr (IngestReq r1))"
    "sendable (OrdersReq r2) \<Longrightarrow> resolve w (request_of w h (OrdersReq r2)) = Inr (gate_of (OrdersReq r2), Inr (OrdersReq r2))"
    "sendable (ExecReq r3) \<Longrightarrow> resolve w (request_of w h (ExecReq r3)) = Inr (gate_of (ExecReq r3), Inr (ExecReq r3))"
    "sendable (DncReq r4) \<Longrightarrow> resolve w (request_of w h (DncReq r4)) = Inr (gate_of (DncReq r4), Inr (DncReq r4))"
  subgoal
  proof (cases r1)
    case (Signals sigs)
    assume "sendable (IngestReq r1)"
    with Signals have "all_some (raw_signal_of_json w) (map (raw_signal_to_json w) sigs) = Some sigs"
      using assms by (intro all_some_map raw_signal_codec) (auto simp: sendable_def list_all_iff)
    with Signals show ?thesis by (simp add: resolve_simps ingest_table_def list_of_json_def)
  qed (use assms in \<open>simp add: resolve_simps ingest_table_def floor_codecs\<close>)
  subgoal using assms by (cases r2) (simp_all add: resolve_simps orders_table_def order_input_codec)
  subgoal using assms by (cases r3) (simp_all add: resolve_simps exec_table_def floor_codecs)
  subgoal by (cases r4) (simp_all add: resolve_simps dnc_table_def dnc_codecs)
  done

lemma query_simps:
  "query_may k [] = Some None"
  "query_may k ((k', v) # q) = (if k' = k then (if k \<in> fst ` set q then None else Some (Some v)) else query_may k q)"
proof -
  have "k \<in> fst ` set q \<longleftrightarrow> filter (\<lambda>p. fst p = k) q \<noteq> []" by (auto simp: filter_empty_conv)
  then show "query_may k ((k', v) # q) = (if k' = k then (if k \<in> fst ` set q then None else Some (Some v)) else query_may k q)"
    by (auto simp: query_may_def split: list.split)
qed (simp add: query_may_def)

lemma time_text: "wire_text w \<Longrightarrow> ts_of_json w (JStr (time_text w t)) = Some t"
proof -
  assume w: "wire_text w"
  then obtain x where "ts_to_json w t = JStr x" by (auto simp: wire_text_def)
  with w wire_okD(2) [of w t] show ?thesis by (simp add: time_text_def wire_text_def)
qed

lemma resolve_analytics:
  "wire_text w \<Longrightarrow> resolve w (request_of w h (AnalyticsReq r)) = Inr (gate_of (AnalyticsReq r), Inr (AnalyticsReq r))"
  by (cases r) (simp_all add: resolve_simps analytics_table_def time_range_def oee_query_def query_time_def query_need_def
    query_simps time_text)

lemma resolve_quality:
  assumes "wire_text w"
  shows "sendable (TraceReq r1) \<Longrightarrow> resolve w (request_of w h (TraceReq r1)) = Inr (gate_of (TraceReq r1), Inr (TraceReq r1))"
    "sendable (QmsReq r2) \<Longrightarrow> resolve w (request_of w h (QmsReq r2)) = Inr (gate_of (QmsReq r2), Inr (QmsReq r2))"
    "sendable (CmmsReq r3) \<Longrightarrow> resolve w (request_of w h (CmmsReq r3)) = Inr (gate_of (CmmsReq r3), Inr (CmmsReq r3))"
    "sendable (ErpReq r4) \<Longrightarrow> resolve w (request_of w h (ErpReq r4)) = Inr (gate_of (ErpReq r4), Inr (ErpReq r4))"
  subgoal using assms by (cases r1) (simp_all add: resolve_simps trace_table_def quality_codecs query_need_def query_simps)
  subgoal using assms by (cases r2) (simp_all add: resolve_simps qms_table_def quality_codecs)
  subgoal using assms by (cases r3) (simp_all add: resolve_simps cmms_table_def cmms_codecs)
  subgoal by (cases r4) (simp_all add: resolve_simps erp_table_def erp_codecs query_simps split: option.split)
  done

lemma resolve_sent:
  assumes "wire_text w" "sendable req"
  shows "resolve w (request_of w h req) = Inr (gate_of req, Inr req)"
  using assms(2) by (cases req) (simp_all add: resolve_auth resolve_master resolve_floor wire_textD assms(1) resolve_analytics resolve_quality
    resolve_public resolve_diagnostics)

section \<open>No route hides another\<close>

text \<open>Two patterns of a table never match the same path, so the order of the \<^verbatim>\<open>route\<close> calls does not matter.\<close>

fun overlap :: "segment list \<Rightarrow> segment list \<Rightarrow> bool" where
  "overlap [] [] = True"
| "overlap (Lit a # ps) (Lit b # qs) = (a = b \<and> overlap ps qs)"
| "overlap (x # ps) (y # qs) = overlap ps qs"
| "overlap _ _ = False"

lemma match_ConsD:
  "match_path (x # ps) path = Some r \<Longrightarrow> \<exists>y ys rs. path = y # ys \<and> match_path ps ys = Some rs \<and> (\<forall>a. x = Lit a \<longrightarrow> y = a)"
  by (cases x; cases path) (auto split: if_splits)

lemma match_NilD: "match_path [] path = Some r \<Longrightarrow> path = []"
  by (cases path) auto

lemma match_overlap: "match_path p path = Some ps \<Longrightarrow> match_path q path = Some qs \<Longrightarrow> overlap p q"
  by (induction p q arbitrary: path ps qs rule: overlap.induct) (fastforce dest!: match_ConsD match_NilD)+

lemma tables_disjoint: "(c, t) \<in> set (edge_tables w) \<or> t = public_table \<Longrightarrow> sorted_wrt (\<lambda>p q. \<not> overlap p q) (map fst t)"
  unfolding edge_tables_def
  by (auto simp: auth_table_def master_table_def ingest_table_def orders_table_def exec_table_def dnc_table_def analytics_table_def
      trace_table_def qms_table_def cmms_table_def erp_table_def diagnostics_table_def public_table_def)

lemma find_route_eq:
  "sorted_wrt (\<lambda>p q. \<not> overlap p q) (map fst t) \<Longrightarrow> (p, ms) \<in> set t \<Longrightarrow> match_path p path = Some ps \<Longrightarrow> find_route t path = Some (ps, ms)"
  by (induction t path rule: find_route.induct) (fastforce dest: match_overlap split: option.split)+

lemma find_route_iff:
  assumes "(c, t) \<in> set (edge_tables w) \<or> t = public_table"
  shows "find_route t path = Some (ps, ms) \<longleftrightarrow> (\<exists>p. (p, ms) \<in> set t \<and> match_path p path = Some ps)"
proof
  show "find_route t path = Some (ps, ms) \<Longrightarrow> \<exists>p. (p, ms) \<in> set t \<and> match_path p path = Some ps"
    by (induction t path rule: find_route.induct) (auto split: option.splits)
qed (use find_route_eq tables_disjoint [OF assms] in blast)

section \<open>The surface\<close>

text \<open>The refusal of the extractor is the one the handler's own check would give.\<close>

definition unwritable :: "('s, api_err, 'a) prog \<Rightarrow> bool" where
  "unwritable m \<longleftrightarrow> (\<forall>s. m s = (Inl (ApiErr 403 ''forbidden'' ''role may not modify master data''), s))"

lemma unwritable_rules:
  "unwritable m \<Longrightarrow> unwritable (andThen m f)" "unwritable m \<Longrightarrow> unwritable (ok enc m)"
  "unwritable c \<Longrightarrow> unwritable (coded enc c)" "unwritable n \<Longrightarrow> unwritable (status_only n)"
  "\<not> can_write_master (role u) \<Longrightarrow> unwritable (master_writer u)"
  by (simp_all add: unwritable_def ok_def coded_def status_only_def andThen_eval master_writer_def prog_simps)

lemma unwritable_routes:
  assumes "\<not> can_write_master (role u)"
  shows "gate_of (MasterReq r1) = MasterWriter \<Longrightarrow> unwritable (master_routes x u r1)"
    "gate_of (OrdersReq r2) = MasterWriter \<Longrightarrow> unwritable (orders_routes x u r2)"
    "gate_of (ErpReq r3) = MasterWriter \<Longrightarrow> unwritable (erp_routes x u r3)"
    "unwritable (diagnostics_routes x u r4)"
  subgoal using assms by (cases r1) (auto simp: gate_of_def reserved_def master_writers list_users_handler_def intro!: unwritable_rules)
  subgoal using assms by (cases r2) (auto simp: gate_of_def reserved_def create_order_def release_order_def cancel_order_def
      close_order_def intro!: unwritable_rules)
  subgoal using assms by (cases r3) (auto simp: list_connections_handler_def create_connection_handler_def get_connection_handler_def
      update_connection_handler_def delete_connection_handler_def import_handler_def export_handler_def list_sync_log_handler_def
      intro!: unwritable_rules)
  subgoal using assms by (cases r4) (simp add: unwritable_def send_handler_def master_writer_def coded_def prog_simps)
  done

lemma gate_refuses:
  fixes s :: "'s master_db_scheme"
  assumes "pass_gate x (gate_of req) header = Some e"
  shows "serve x header req s = (Inl e, s)"
proof (cases "authenticate (ctx_crypto x) (ctx_auth x) (ctx_now x) header")
  case (Inl e')
  have login: "\<not> is_open req" using assms by (cases req) (auto simp: gate_of_def pass_gate_def is_open_def)
  have "e = e'" using assms Inl by (auto simp: pass_gate_def split: gate.splits)
  then show ?thesis using serve_unknown [OF Inl login] by simp
next
  case (Inr u)
  then have writer: "gate_of req = MasterWriter" "\<not> can_write_master (role u)"
    and e: "e = ApiErr 403 ''forbidden'' ''role may not modify master data''"
    using assms by (auto simp: pass_gate_def split: gate.splits if_splits)
  from writer(1) consider (master) r where "req = MasterReq r" | (orders) r where "req = OrdersReq r" | (erp) r where "req = ErpReq r"
    | (diagnostics) r where "req = DiagnosticsReq r"
    by (cases req) (auto simp: gate_of_def reserved_def Let_def role_sets split: if_splits dnc_req.splits trace_req.splits
      qms_req.splits cmms_req.splits)
  then have "unwritable (serve x header req :: 's served)"
    using writer Inr by cases (simp_all add: serve_def with_user_def unwritable_routes)
  then show ?thesis by (simp add: unwritable_def e)
qed

lemma edge_http_step: "\<exists>l. edge_step l s (snd (edge_http x rq s))"
proof -
  have "\<exists>l. edge_step l s s'" if "serve x (rq_header rq) req s = (r, s')" for req r s'
    using serve_step [of s x "rq_header rq" req] that by simp
  then show ?thesis
    by (auto simp: edge_http_def intro: edge_read split: sum.split option.split prod.split)
qed

lemma edge_http_sent:
  assumes "wire_text (ctx_wire x)" "sendable req"
  shows "edge_http x (request_of (ctx_wire x) header req) s = (case serve x header req s of (r, s') \<Rightarrow> (answer_of r, s'))"
proof -
  have r: "resolve (ctx_wire x) (request_of (ctx_wire x) header req) = Inr (gate_of req, Inr req)"
    using assms by (rule resolve_sent)
  have h: "rq_header (request_of (ctx_wire x) header req) = header" by (simp add: request_of_def split: prod.split)
  show ?thesis
  proof (cases "pass_gate x (gate_of req) header")
    case (Some e)
    with gate_refuses [OF Some, of s] r h show ?thesis by (simp add: edge_http_def)
  qed (simp add: edge_http_def r h)
qed

text \<open>
  C13. Whatever a client sends with the shared types arrives: the request that \<open>request_of\<close> builds for an operation
  of the API (non-empty identifiers in the path, integers of 32 bits) finds the route of that operation and no other,
  its arguments are read back as they were, and status, body and effect are those of the operation, checks made
  before the body is read included.  And any HTTP request at all is one step of the service.
\<close>

theorem http_surface:
  assumes "wire_text (ctx_wire x)" "sendable req"
  shows "edge_http x (request_of (ctx_wire x) header req) s = (case serve x header req s of (r, s') \<Rightarrow> (answer_of r, s')) \<and>
    (\<exists>l. edge_step l s (snd (edge_http x rq s)))"
  using edge_http_sent [OF assms] edge_http_step by blast

definition text_wire :: wire where
  "text_wire =
     \<lparr>dec_to_json = JNum, dec_of_json = (\<lambda>v. case v of JNum q \<Rightarrow> Some q | _ \<Rightarrow> None),
      ts_to_json = (\<lambda>t. JStr ((if t < 0 then ''-'' else '''') @ replicate (nat \<bar>t\<bar>) CHR ''i'')),
      ts_of_json = (\<lambda>v. case v of
          JStr (c # cs) \<Rightarrow> Some (if c = CHR ''-'' then - int (length cs) else int (length (c # cs)))
        | JStr [] \<Rightarrow> Some 0 | _ \<Rightarrow> None),
      instant_to_json = (\<lambda>n. JNum (of_int n)), instant_of_json = (\<lambda>v. case v of JNum q \<Rightarrow> Some \<lfloor>q\<rfloor> | _ \<Rightarrow> None),
      i32_of_json = (\<lambda>v. case v of JNum q \<Rightarrow> if in_i32 \<lfloor>q\<rfloor> then Some \<lfloor>q\<rfloor> else None | _ \<Rightarrow> None),
      de_error = (\<lambda>_. ''invalid type'')\<rparr>"

lemma text_wire_text: "wire_text text_wire"
proof -
  have "ts_of_json text_wire (ts_to_json text_wire t) = Some t" for t
    by (cases "nat \<bar>t\<bar>") (auto simp: text_wire_def split: list.split)
  then show ?thesis by (auto simp: wire_text_def wire_ok_def text_wire_def)
qed

theorem http_surface_witness:
  "edge_http (sample_context\<lparr>ctx_wire := text_wire\<rparr>)
     \<lparr>rq_method = PUT, rq_path = [''v1'', ''master'', ''parts'', ''P1''], rq_query = [], rq_header = Some ''Bearer old'',
      rq_body = json_object [(''code'', JStr ''P-1''), (''name'', JStr ''Shaft''), (''uom'', JNull)], rq_upgrade = None\<rparr> sample_erp =
     ((401, Some (json_object [(''error'', JStr ''unauthorized''), (''message'', JStr ''invalid or expired token'')])), sample_erp)"
proof -
  let ?x = "sample_context\<lparr>ctx_wire := text_wire\<rparr>"
  let ?req = "MasterReq (UpdatePart ''P1'' ''P-1'' ''Shaft'' None)"
  have "authenticate (ctx_crypto ?x) (ctx_auth ?x) (ctx_now ?x) (Some ''Bearer old'') =
      Inl (ApiErr 401 ''unauthorized'' ''invalid or expired token'')"
    by (simp add: authenticate_def auth_user_from_request_def strip_prefix_def decode_token_def sample_context_def sample_crypto_def)
  then have "serve ?x (Some ''Bearer old'') ?req sample_erp =
      (Inl (ApiErr 401 ''unauthorized'' ''invalid or expired token''), sample_erp)"
    by (rule serve_unknown) (simp add: is_open_def)
  moreover have "sendable ?req" by (simp add: sendable_def send_def)
  ultimately show ?thesis
    using http_surface [of ?x ?req "Some ''Bearer old''" sample_erp] text_wire_text
    by (simp add: request_of_def send_def prefixed_def part_input_to_json_def opt_str_def opt_json_def answer_of_def
      api_error_to_json_def)
qed

end
