(* ===== verification/Rest.thy ===== *)
theory Rest
  imports Api
begin

text \<open>
  Resources over HTTP: sites, areas, work centers, parts, connections and maintenance orders are created, changed,
  removed and read under their identifier.  The locale is the contract of a resource: how it is read, and where its
  identifier is in the body.  Whatever a write answers is what a following read answers.
\<close>

section \<open>The contract of a resource\<close>

text \<open>A write that succeeds leaves the row that it returns; a removal leaves none.\<close>

definition stores :: "(string \<Rightarrow> 's mes_base_scheme \<Rightarrow> 'r option) \<Rightarrow> ('r \<Rightarrow> string)
    \<Rightarrow> ('s mes_base_scheme, api_err, 'r) prog \<Rightarrow> bool" where
  "stores look rid m \<longleftrightarrow> (\<forall>s r s'. m s = (Inr r, s') \<longrightarrow> has_pool s' \<and> look (rid r) s' = Some r)"

definition creates :: "(string \<Rightarrow> 's mes_base_scheme \<Rightarrow> 'r option) \<Rightarrow> ('r \<Rightarrow> string)
    \<Rightarrow> ('s mes_base_scheme, api_err, nat \<times> 'r) prog \<Rightarrow> bool" where
  "creates look rid m \<longleftrightarrow> (\<forall>s c r s'. m s = (Inr (c, r), s') \<longrightarrow> has_pool s' \<and> look (rid r) s' = Some r)"

definition removes :: "(string \<Rightarrow> 's mes_base_scheme \<Rightarrow> 'r option) \<Rightarrow> string
    \<Rightarrow> ('s mes_base_scheme, api_err, nat) prog \<Rightarrow> bool" where
  "removes look i m \<longleftrightarrow> (\<forall>s c s'. m s = (Inr c, s') \<longrightarrow> has_pool s' \<and> look i s' = None)"

text \<open>What a client sees of a write: the body has an identifier under which it can be read again.\<close>

definition readable :: "(string \<Rightarrow> ('s mes_base_scheme, api_err, answer) prog) \<Rightarrow> answer \<Rightarrow> 's mes_base_scheme \<Rightarrow> bool" where
  "readable get a s \<longleftrightarrow>
     (\<exists>v i. snd a = Some v \<and> json_get v ''id'' = Some (JStr i) \<and> get i s = (Inr (200, Some v), s))"

lemma answer_InrD:
  "ok enc m s = (Inr a, s') \<Longrightarrow> \<exists>r. m s = (Inr r, s') \<and> a = (200, Some (enc r))"
  "coded enc c s = (Inr a, s') \<Longrightarrow> \<exists>k r. c s = (Inr (k, r), s') \<and> a = (k, Some (enc r))"
  "status_only n s = (Inr a, s') \<Longrightarrow> \<exists>k. n s = (Inr k, s') \<and> a = (k, None)"
  by (auto simp: ok_def coded_def status_only_def elim!: andThen_InrE dest!: ret_InrD)

locale resource =
  fixes look :: "string \<Rightarrow> 's mes_base_scheme \<Rightarrow> 'r option"
    and rid :: "'r \<Rightarrow> string"
    and get :: "auth_user \<Rightarrow> string \<Rightarrow> ('s mes_base_scheme, api_err, 'r) prog"
    and enc :: "'r \<Rightarrow> json"
  assumes get_row: "has_pool s \<Longrightarrow> get u i s = ((case look i s of Some r \<Rightarrow> Inr r | None \<Rightarrow> Inl (repo_err NotFound)), s)"
    and id_member: "json_get (enc r) ''id'' = Some (JStr (rid r))"
begin

lemma read_row: "has_pool s \<Longrightarrow> look (rid r) s = Some r \<Longrightarrow> readable (\<lambda>i. ok enc (get u i)) (c, Some (enc r)) s"
  by (auto simp: readable_def id_member ok_def andThen_eval get_row prog_simps)

lemma read_stored: "stores look rid m \<Longrightarrow> ok enc m s = (Inr a, s') \<Longrightarrow> readable (\<lambda>i. ok enc (get u i)) a s'"
  by (auto simp: stores_def dest!: answer_InrD intro!: read_row)

lemma read_created: "creates look rid m \<Longrightarrow> coded enc m s = (Inr a, s') \<Longrightarrow> readable (\<lambda>i. ok enc (get u i)) a s'"
  by (auto simp: creates_def dest!: answer_InrD intro!: read_row)

lemma read_removed: "removes look i m \<Longrightarrow> status_only m s = (Inr a, s') \<Longrightarrow> ok enc (get u i) s' = (Inl (repo_err NotFound), s')"
  by (auto simp: removes_def ok_def andThen_eval get_row dest!: answer_InrD)

end

section \<open>The resources\<close>

lemmas get_defs = get_site_handler_def get_site_def get_area_handler_def get_area_def get_work_center_handler_def get_work_center_def
  get_part_handler_def get_part_def get_maintenance_wo_handler_def get_maintenance_wo_def

interpretation site: resource "\<lambda>i s. find_row ste_id i (t_sites s)" ste_id get_site_handler "site_to_json w" for w
  by unfold_locales (auto simp: get_defs prog_simps site_to_json_def json_object_get split: option.split)

interpretation area: resource "\<lambda>i s. find_row ar_id i (t_areas s)" ar_id get_area_handler "area_to_json w" for w
  by unfold_locales (auto simp: get_defs prog_simps area_to_json_def json_object_get split: option.split)

interpretation work_center: resource "\<lambda>i s. find_row wc_id i (t_work_centers s)" wc_id get_work_center_handler "work_center_to_json w" for w
  by unfold_locales (auto simp: get_defs prog_simps work_center_to_json_def json_object_get split: option.split)

interpretation part: resource "\<lambda>i s. find_row pt_id i (t_parts s)" pt_id get_part_handler "part_to_json w" for w
  by unfold_locales (auto simp: get_defs prog_simps part_to_json_def json_object_get split: option.split)

interpretation maintenance: resource "\<lambda>i s. find_row mw_id i (t_maintenance_wos s)" mw_id get_maintenance_wo_handler
    "maintenance_wo_to_json w" for w
  by unfold_locales (auto simp: get_defs prog_simps maintenance_wo_to_json_def json_object_get split: option.split)

interpretation connection: resource "\<lambda>i s. map_option into_public (find_row ec_id i (t_erp_connections s))" ex_id
    "\<lambda>u i. andThen require_pool (\<lambda>_. mapErr repo_err (get_connection i))" "erp_connection_to_json w" for w
  by unfold_locales (auto simp: get_connection_def prog_simps erp_connection_to_json_def json_object_get split: option.split)

section \<open>What the writes leave\<close>

lemma find_row_absent: "\<not> has_key key k rows \<Longrightarrow> find_row key k rows = None"
  by (simp add: find_row_None_iff)

lemma find_row_updated:
  assumes "find_row key i rows = Some r" "\<And>r. key (f r) = key r"
  shows "find_row key i (update_where (\<lambda>r. key r = i) f rows) = Some (f r)" "key (f r) = i"
  using assms find_row_SomeD [OF assms(1)] by (induction rows) (auto simp: table_simps update_where_def split: if_splits)

lemma find_row_filtered: "find_row key i (filter (\<lambda>r. key r \<noteq> i) rows) = None"
  by (auto simp: find_row_None_iff has_key_def)

lemma audit_master [simp]: "t_sites (audit n t a b c d e s) = t_sites s" "t_areas (audit n t a b c d e s) = t_areas s"
  by (simp_all add: audit_def insert_audit_def prog_simps split: option.split)

text \<open>The statement of a handler, after the checks and before the audit entry.\<close>

definition writes :: "(string \<Rightarrow> 's mes_base_scheme \<Rightarrow> 'r option) \<Rightarrow> ('r \<Rightarrow> string)
    \<Rightarrow> ('s mes_base_scheme, repo_error, 'r) prog \<Rightarrow> bool" where
  "writes look rid m \<longleftrightarrow> (\<forall>s r s'. m s = (Inr r, s') \<longrightarrow> has_pool s' = has_pool s \<and> look (rid r) s' = Some r)"

definition logged :: "(string \<Rightarrow> 's mes_base_scheme \<Rightarrow> 'r option) \<Rightarrow> bool" where
  "logged look \<longleftrightarrow> (\<forall>i n t a b c d e s. look i (audit n t a b c d e s) = look i s)"

lemma pool_InrD: "require_pool s = (Inr v, s') \<Longrightarrow> s' = s \<and> has_pool s"
  by (auto simp: require_pool_eval split: if_splits)

lemmas handler_dests = pool_InrD modify_InrD mapErr_InrD ret_InrD

lemma writesI: "(\<And>s r s'. m s = (Inr r, s') \<Longrightarrow> has_pool s' = has_pool s \<and> look (rid r) s' = Some r) \<Longrightarrow> writes look rid m"
  by (simp add: writes_def)

lemma writesD: "writes look rid m \<Longrightarrow> m s = (Inr r, s') \<Longrightarrow> has_pool s' = has_pool s \<and> look (rid r) s' = Some r"
  by (simp add: writes_def)

lemma written_created:
  assumes "writes look rid M" "logged look"
  shows "creates look rid (andThen g (\<lambda>actor. andThen require_pool (\<lambda>_. andThen (mapErr repo_err M) (\<lambda>r.
    andThen (modify (audit aid now (A actor) b c (d r) e)) (\<lambda>_. ret (k, r))))))"
  using assms unfolding creates_def by (auto simp: writes_def logged_def elim!: andThen_InrE dest!: handler_dests)

lemma written_stored:
  assumes "writes look rid M" "logged look"
  shows "stores look rid (andThen g (\<lambda>actor. andThen require_pool (\<lambda>_. andThen (mapErr repo_err M) (\<lambda>r.
    andThen (modify (audit aid now (A actor) b c (d r) e)) (\<lambda>_. ret r)))))"
  using assms unfolding stores_def by (auto simp: writes_def logged_def elim!: andThen_InrE dest!: handler_dests)

lemma written_removed:
  assumes "\<And>s s'. M s = (Inr (), s') \<Longrightarrow> has_pool s' = has_pool s \<and> look i s' = None" "logged look"
  shows "removes look i (andThen g (\<lambda>actor. andThen require_pool (\<lambda>_. andThen (mapErr repo_err M) (\<lambda>_.
    andThen (modify (audit aid now (A actor) b c d e)) (\<lambda>_. ret k)))))"
  using assms unfolding removes_def by (auto simp: logged_def elim!: andThen_InrE dest!: handler_dests)

lemma logged_tables:
  "logged (\<lambda>i s. find_row ste_id i (t_sites s))" "logged (\<lambda>i s. find_row ar_id i (t_areas s))"
  "logged (\<lambda>i s. find_row wc_id i (t_work_centers s))" "logged (\<lambda>i s. find_row pt_id i (t_parts s))"
  "logged (\<lambda>i s. find_row mw_id i (t_maintenance_wos s))"
  "logged (\<lambda>i s. map_option into_public (find_row ec_id i (t_erp_connections s)))"
  by (simp_all add: logged_def)

lemma inserted:
  assumes "sql_exec v f s = (Inr (), s')" "\<And>s. has_key rid (rid r) (table s) \<Longrightarrow> \<exists>p\<in>set (v s). fst p"
    "\<And>s. table (f s) = table s @ [r]" "\<And>s. has_pool (f s) = has_pool s"
  shows "has_pool s' = has_pool s \<and> find_row rid (rid r) (table s') = Some r"
proof -
  from sql_exec_InrD [OF assms(1)] have s': "s' = f s" and "\<not> (\<exists>p\<in>set (v s). fst p)" by auto
  then have "find_row rid (rid r) (table s) = None" using assms(2) by (blast intro: find_row_absent)
  then show ?thesis by (simp add: s' assms(3, 4) table_simps)
qed

lemma updated:
  assumes "sql_update (\<lambda>s. find_row rid i (table s)) v upd f s = (Inr r', s')" "\<And>r. rid (upd r) = rid r"
    "\<And>s. table (f s) = update_where (\<lambda>r. rid r = i) upd (table s)" "\<And>s. has_pool (f s) = has_pool s"
  shows "has_pool s' = has_pool s \<and> find_row rid (rid r') (table s') = Some r'"
proof -
  from sql_update_InrD [OF assms(1)] obtain r where r: "find_row rid i (table s) = Some r" "r' = upd r" "s' = f s" by auto
  from find_row_updated [OF r(1) assms(2)] show ?thesis by (simp add: r(2, 3) assms(3, 4))
qed

lemma insert_writes:
  assumes "\<And>s. has_key rid (rid r) (table s) \<Longrightarrow> \<exists>p\<in>set (v s). fst p" "\<And>s. table (f s) = table s @ [r]" "\<And>s. has_pool (f s) = has_pool s"
  shows "writes (\<lambda>i s. find_row rid i (table s)) rid (andThen (sql_exec v f) (\<lambda>_. ret r))"
  unfolding writes_def using inserted [where rid = rid and table = table and v = v and f = f and r = r, OF _ assms] by (auto elim!: andThen_InrE dest!: ret_InrD)

lemma update_writes:
  assumes "\<And>r. rid (upd r) = rid r" "\<And>s. table (f s) = update_where (\<lambda>r. rid r = i) upd (table s)" "\<And>s. has_pool (f s) = has_pool s"
  shows "writes (\<lambda>i s. find_row rid i (table s)) rid (sql_update (\<lambda>s. find_row rid i (table s)) v upd f)"
  unfolding writes_def using updated [where rid = rid and table = table and v = v and f = f and upd = upd and i = i, OF _ assms] by blast

lemma delete_removes:
  assumes "sql_delete p f v s = (Inr (), s')" "\<And>s. table (f s) = filter (\<lambda>r. rid r \<noteq> i) (table s)" "\<And>s. has_pool (f s) = has_pool s"
  shows "has_pool s' = has_pool s \<and> find_row rid i (table s') = None"
  using assms by (auto simp: sql_delete_def find_row_filtered split: if_splits option.splits prod.splits)

lemma site_writes:
  "creates (\<lambda>i s. find_row ste_id i (t_sites s)) ste_id (create_site_handler nid aid now u code name tz)"
  "stores (\<lambda>i s. find_row ste_id i (t_sites s)) ste_id (update_site_handler aid now u i code name tz)"
  "removes (\<lambda>i s. find_row ste_id i (t_sites s)) i (delete_site_handler aid now u i)"
  subgoal unfolding create_site_handler_def create_site_def Let_def by (rule written_created, rule insert_writes) (simp_all add: logged_tables)
  subgoal unfolding update_site_handler_def update_site_def
    by (rule written_stored, rule update_writes) (simp_all add: logged_tables site_set_def)
  subgoal unfolding delete_site_handler_def delete_site_def
    by (rule written_removed, erule delete_removes) (simp_all add: logged_tables drop_site_def drop_areas_def drop_work_centers_def)
  done

lemma area_writes:
  "creates (\<lambda>i s. find_row ar_id i (t_areas s)) ar_id (create_area_handler nid aid now u site code name)"
  "stores (\<lambda>i s. find_row ar_id i (t_areas s)) ar_id (update_area_handler aid now u i code name)"
  "removes (\<lambda>i s. find_row ar_id i (t_areas s)) i (delete_area_handler aid now u i)"
  subgoal unfolding create_area_handler_def create_area_def Let_def by (rule written_created, rule insert_writes) (simp_all add: logged_tables)
  subgoal unfolding update_area_handler_def update_area_def
    by (rule written_stored, rule update_writes) (simp_all add: logged_tables area_set_def)
  subgoal unfolding delete_area_handler_def delete_area_def
    by (rule written_removed, erule delete_removes) (simp_all add: logged_tables drop_areas_def drop_work_centers_def)
  done

lemma work_center_writes:
  "creates (\<lambda>i s. find_row wc_id i (t_work_centers s)) wc_id (create_work_center_handler nid aid now u area code name ext)"
  "stores (\<lambda>i s. find_row wc_id i (t_work_centers s)) wc_id (update_work_center_handler aid now u i code name ext)"
  "removes (\<lambda>i s. find_row wc_id i (t_work_centers s)) i (delete_work_center_handler aid now u i)"
  subgoal unfolding create_work_center_handler_def create_work_center_def Let_def by (rule written_created, rule insert_writes) (simp_all add: logged_tables)
  subgoal unfolding update_work_center_handler_def update_work_center_def
    by (rule written_stored, rule update_writes) (simp_all add: logged_tables work_center_set_def)
  subgoal unfolding delete_work_center_handler_def delete_work_center_def
    by (rule written_removed, erule delete_removes) (simp_all add: logged_tables drop_work_centers_def)
  done

lemma part_writes:
  "creates (\<lambda>i s. find_row pt_id i (t_parts s)) pt_id (create_part_handler nid aid now u code name uom)"
  "stores (\<lambda>i s. find_row pt_id i (t_parts s)) pt_id (update_part_handler aid now u i code name uom)"
  "removes (\<lambda>i s. find_row pt_id i (t_parts s)) i (delete_part_handler aid now u i)"
  subgoal unfolding create_part_handler_def create_part_def Let_def by (rule written_created, rule insert_writes) (simp_all add: logged_tables)
  subgoal unfolding update_part_handler_def update_part_def
    by (rule written_stored, rule update_writes) (simp_all add: logged_tables part_set_def)
  subgoal unfolding delete_part_handler_def delete_part_def
    by (rule written_removed, erule delete_removes) (simp_all add: logged_tables drop_part_def)
  done

lemma mw_advance_id: "mw_id (mw_advance nxt now tech code r) = mw_id r"
  by (simp add: mw_advance_def mw_stamp_def split: maintenance_status.split)

lemma maintenance_writes:
  "creates (\<lambda>i s. find_row mw_id i (t_maintenance_wos s)) mw_id (create_maintenance_wo_handler ids now u wc pm t notes)"
  "stores (\<lambda>i s. find_row mw_id i (t_maintenance_wos s)) mw_id (transition_maintenance_wo_handler nid now u i st tech code)"
  subgoal
  proof -
    have "writes (\<lambda>i s. find_row mw_id i (t_maintenance_wos s)) mw_id (andThen (okOr e (maintenance_type_parse t)) f)"
      if "\<And>x. writes (\<lambda>i s. find_row mw_id i (t_maintenance_wos s)) mw_id (f x)" for e f
      using that by (auto simp: writes_def elim!: andThen_InrE dest!: okOr_InrD)
    then show ?thesis unfolding create_maintenance_wo_handler_def create_maintenance_wo_def Let_def
      by (rule written_created) (auto intro!: insert_writes simp: logged_tables)
  qed
  subgoal
  proof -
    have "writes (\<lambda>i s. find_row mw_id i (t_maintenance_wos s)) mw_id (transition_maintenance_wo now i st tech code)"
    proof (rule writesI, goal_cases)
      case (1 s r' s')
      then obtain r nxt where r: "find_row mw_id i (t_maintenance_wos s) = Some r" "r' = mw_advance nxt now tech code r"
        "s' = s\<lparr>t_maintenance_wos := update_where (\<lambda>r. mw_id r = i) (mw_advance nxt now tech code) (t_maintenance_wos s)\<rparr>"
        by (rule transition_mwo_effect) auto
      from find_row_updated [where key = mw_id and f = "mw_advance nxt now tech code", OF r(1)] mw_advance_id r(2, 3)
      show ?case by simp
    qed
    then show ?thesis unfolding transition_maintenance_wo_handler_def by (rule written_stored) (simp add: logged_tables)
  qed
  done

lemma reads_InrD: "reads m \<Longrightarrow> m s = (r, s') \<Longrightarrow> s' = s"
  by (metis reads_def snd_conv)

lemma reads_tokens: "reads (normalize_direction d)" "reads (encrypt_token e t)"
  unfolding normalize_direction_def encrypt_token_def Let_def by (auto intro!: reads_rules split: option.split sum.split)

lemma public_id [simp]: "ex_id (into_public r) = ec_id r"
  by (simp add: into_public_def)

lemma shown_writes:
  assumes "writes (\<lambda>i s. find_row ec_id i (t_erp_connections s)) ec_id m"
  shows "writes (\<lambda>i s. map_option into_public (find_row ec_id i (t_erp_connections s))) ex_id (andThen m (\<lambda>r. ret (into_public r)))"
  unfolding writes_def by (auto elim!: andThen_InrE dest!: ret_InrD writesD [OF assms])

lemma shown_insert:
  assumes "\<And>s. has_key ec_id (ec_id r) (t_erp_connections s) \<Longrightarrow> \<exists>p\<in>set (v s). fst p"
    "\<And>s. t_erp_connections (f s) = t_erp_connections s @ [r]" "\<And>s. has_pool (f s) = has_pool s"
  shows "writes (\<lambda>i s. map_option into_public (find_row ec_id i (t_erp_connections s))) ex_id
    (andThen (sql_exec v f) (\<lambda>_. ret (into_public r)))"
  unfolding writes_def using inserted [where rid = ec_id and table = t_erp_connections and v = v and f = f and r = r, OF _ assms]
  by (auto elim!: andThen_InrE dest!: ret_InrD)

lemma connection_statements:
  "writes (\<lambda>i s. map_option into_public (find_row ec_id i (t_erp_connections s))) ex_id
     (create_connection nid now site name url tok fm dir en)"
  "writes (\<lambda>i s. map_option into_public (find_row ec_id i (t_erp_connections s))) ex_id
     (update_connection now i site name url tok fm dir en)"
  subgoal unfolding create_connection_def Let_def
    by (rule shown_insert) simp_all
  subgoal unfolding update_connection_def Let_def
    by (rule shown_writes [OF update_writes [where table = t_erp_connections]]) (simp_all add: conn_set_def)
  done

lemma connection_writes:
  "creates (\<lambda>i s. map_option into_public (find_row ec_id i (t_erp_connections s))) ex_id (create_connection_handler e nid aid now u input)"
  "stores (\<lambda>i s. map_option into_public (find_row ec_id i (t_erp_connections s))) ex_id (update_connection_handler e aid now u i input)"
  "removes (\<lambda>i s. map_option into_public (find_row ec_id i (t_erp_connections s))) i (delete_connection_handler aid now u i)"
  subgoal
    using logged_tables(6) unfolding creates_def create_connection_handler_def
    by (auto simp: logged_def elim!: andThen_InrE dest!: handler_dests reads_InrD [OF reads_tokens(1)] reads_InrD [OF reads_tokens(2)]
        writesD [OF connection_statements(1)])
  subgoal
    using logged_tables(6) unfolding stores_def update_connection_handler_def
    by (auto simp: logged_def elim!: andThen_InrE dest!: handler_dests reads_InrD [OF reads_tokens(1)] reads_InrD [OF reads_tokens(2)]
        writesD [OF connection_statements(2)])
  subgoal unfolding delete_connection_handler_def delete_connection_def
    by (rule written_removed) (auto simp: sql_delete_def find_row_filtered logged_tables split: if_splits)
  done

section \<open>Reading after writing\<close>

text \<open>The request that reads what a write answered, and the one that reads what a removal took away.\<close>

definition written :: "edge_req \<Rightarrow> (string \<Rightarrow> edge_req) option" where
  "written req =
     (case req of
        MasterReq r \<Rightarrow>
          (case r of
             CreateSite _ _ _ \<Rightarrow> Some (\<lambda>i. MasterReq (GetSite i)) | UpdateSite _ _ _ _ \<Rightarrow> Some (\<lambda>i. MasterReq (GetSite i))
           | CreateArea _ _ _ \<Rightarrow> Some (\<lambda>i. MasterReq (GetArea i)) | UpdateArea _ _ _ \<Rightarrow> Some (\<lambda>i. MasterReq (GetArea i))
           | CreateWorkCenter _ _ _ _ \<Rightarrow> Some (\<lambda>i. MasterReq (GetWorkCenter i))
           | UpdateWorkCenter _ _ _ _ \<Rightarrow> Some (\<lambda>i. MasterReq (GetWorkCenter i))
           | CreatePart _ _ _ \<Rightarrow> Some (\<lambda>i. MasterReq (GetPart i)) | UpdatePart _ _ _ _ \<Rightarrow> Some (\<lambda>i. MasterReq (GetPart i))
           | _ \<Rightarrow> None)
      | CmmsReq r \<Rightarrow>
          (case r of
             CreateMaintenanceWo _ _ _ _ \<Rightarrow> Some (\<lambda>i. CmmsReq (GetMaintenanceWo i))
           | TransitionMaintenanceWo _ _ _ _ \<Rightarrow> Some (\<lambda>i. CmmsReq (GetMaintenanceWo i)) | _ \<Rightarrow> None)
      | ErpReq r \<Rightarrow>
          (case r of
             CreateConnection _ \<Rightarrow> Some (\<lambda>i. ErpReq (GetConnection i)) | UpdateConnection _ _ \<Rightarrow> Some (\<lambda>i. ErpReq (GetConnection i))
           | _ \<Rightarrow> None)
      | _ \<Rightarrow> None)"

definition removed :: "edge_req \<Rightarrow> edge_req option" where
  "removed req =
     (case req of
        MasterReq r \<Rightarrow>
          (case r of
             DeleteSite i \<Rightarrow> Some (MasterReq (GetSite i)) | DeleteArea i \<Rightarrow> Some (MasterReq (GetArea i))
           | DeleteWorkCenter i \<Rightarrow> Some (MasterReq (GetWorkCenter i)) | DeletePart i \<Rightarrow> Some (MasterReq (GetPart i)) | _ \<Rightarrow> None)
      | ErpReq r \<Rightarrow> (case r of DeleteConnection i \<Rightarrow> Some (ErpReq (GetConnection i)) | _ \<Rightarrow> None)
      | _ \<Rightarrow> None)"

lemmas serve_simps = serve_def with_user_def

lemma connection_read:
  "can_write_master (role u) \<Longrightarrow> get_connection_handler u i = andThen require_pool (\<lambda>_. mapErr repo_err (get_connection i))"
  by (simp add: get_connection_handler_def master_writer_def andThen_ret)

lemma serve_written:
  assumes "serve x h req s = (Inr a, s')" "written req = Some get" "ctx_wire y = ctx_wire x"
    "authenticate (ctx_crypto x) (ctx_auth x) (ctx_now x) h = Inr u" "authenticate (ctx_crypto y) (ctx_auth y) (ctx_now y) h' = Inr u'"
    "\<forall>i. permitted u' (get i)"
  shows "readable (\<lambda>i. serve y h' (get i)) a s'"
proof -
  consider (master) r where "req = MasterReq r" | (cmms) r where "req = CmmsReq r" | (erp) r where "req = ErpReq r"
    using assms(2) by (cases req) (auto simp: written_def)
  then show ?thesis
  proof cases
    case (master r)
    with assms show ?thesis
      by (cases r) (simp_all add: written_def serve_simps, auto simp: serve_simps intro: site.read_created [OF site_writes(1)]
        site.read_stored [OF site_writes(2)] area.read_created [OF area_writes(1)] area.read_stored [OF area_writes(2)]
        work_center.read_created [OF work_center_writes(1)] work_center.read_stored [OF work_center_writes(2)]
        part.read_created [OF part_writes(1)] part.read_stored [OF part_writes(2)])
  next
    case (cmms r)
    with assms show ?thesis
      by (cases r) (simp_all add: written_def serve_simps, auto simp: serve_simps intro: maintenance.read_created [OF maintenance_writes(1)]
        maintenance.read_stored [OF maintenance_writes(2)])
  next
    case (erp r)
    have "can_write_master (role u')"
      using assms(2, 6) erp by (cases r) (auto simp: written_def permitted_def reserved_def can_write_master_def)
    with assms erp show ?thesis
      by (cases r) (simp_all add: written_def serve_simps, auto simp: serve_simps connection_read
        intro: connection.read_created [OF connection_writes(1)] connection.read_stored [OF connection_writes(2)])
  qed
qed

lemma serve_removed:
  assumes "serve x h req s = (Inr a, s')" "removed req = Some get" "ctx_wire y = ctx_wire x"
    "authenticate (ctx_crypto x) (ctx_auth x) (ctx_now x) h = Inr u" "authenticate (ctx_crypto y) (ctx_auth y) (ctx_now y) h' = Inr u'"
    "permitted u' get"
  shows "serve y h' get s' = (Inl (repo_err NotFound), s')"
proof -
  consider (master) r where "req = MasterReq r" | (erp) r where "req = ErpReq r"
    using assms(2) by (cases req) (auto simp: removed_def)
  then show ?thesis
  proof cases
    case (master r)
    with assms show ?thesis
      by (cases r) (simp_all add: removed_def serve_simps, auto simp: serve_simps intro: site.read_removed [OF site_writes(3)]
        area.read_removed [OF area_writes(3)] work_center.read_removed [OF work_center_writes(3)] part.read_removed [OF part_writes(3)])
  next
    case (erp r)
    have "can_write_master (role u')"
      using assms(2, 6) erp by (cases r) (auto simp: removed_def permitted_def reserved_def can_write_master_def)
    with assms erp show ?thesis
      by (cases r) (simp_all add: removed_def serve_simps, auto simp: serve_simps connection_read intro: connection.read_removed [OF connection_writes(3)])
  qed
qed

text \<open>Errors are told from successes by their status.\<close>

named_theorems fails_rules \<open>programs whose errors have a status of at least 400\<close>

definition fails :: "('s, api_err, 'a) prog \<Rightarrow> bool" where
  "fails m \<longleftrightarrow> (\<forall>s e s'. m s = (Inl e, s') \<longrightarrow> 400 \<le> err_status e)"

lemma fails_andThen [fails_rules]: "fails m \<Longrightarrow> (\<And>y. fails (f y)) \<Longrightarrow> fails (andThen m f)"
  by (auto simp: fails_def andThen_eval split: prod.splits sum.splits)

lemma fails_basic [fails_rules]:
  "fails (ret v)" "fails (modify h)" "fails require_pool" "fails (master_writer u)" "fails (require_maintenance u)"
  "fails (mapErr repo_err m)"
  by (auto simp: fails_def prog_simps require_maintenance_def repo_err_def split: prod.splits sum.splits repo_error.splits if_splits)

lemma fails_answers [fails_rules]: "fails m \<Longrightarrow> fails (ok enc m)" "fails c \<Longrightarrow> fails (coded enc c)" "fails n \<Longrightarrow> fails (status_only n)"
  unfolding ok_def coded_def status_only_def by (intro fails_rules; auto intro: fails_rules split: prod.split)+

lemma fails_tokens [fails_rules]: "fails (normalize_direction d)" "fails (encrypt_token e t)"
  unfolding normalize_direction_def encrypt_token_def Let_def
  by (auto simp: fails_def prog_simps split: option.splits sum.splits if_splits)

lemma fails_user [fails_rules]: "(\<And>u. fails (m u)) \<Longrightarrow> fails (with_user x h m)"
  by (auto simp: with_user_def fails_def throw_eval dest: authenticate_status split: sum.splits)

lemma resource_fails:
  assumes "written req = Some get \<or> removed req = Some g"
  shows "fails (serve x h req)"
proof -
  from assms consider (master) r where "req = MasterReq r" | (cmms) r where "req = CmmsReq r" | (erp) r where "req = ErpReq r"
    by (cases req) (auto simp: written_def removed_def)
  then show ?thesis
  proof cases
    case (master r)
    with assms show ?thesis
      by (cases r) (auto simp: written_def removed_def serve_def master_writers intro!: fails_rules)
  next
    case (cmms r)
    with assms show ?thesis
      by (cases r) (auto simp: written_def removed_def serve_def create_maintenance_wo_handler_def transition_maintenance_wo_handler_def
          intro!: fails_rules)
  next
    case (erp r)
    with assms show ?thesis
      by (cases r) (auto simp: written_def removed_def serve_def create_connection_handler_def update_connection_handler_def
          delete_connection_handler_def intro!: fails_rules)
  qed
qed

lemma get_sendable: "written req = Some get \<Longrightarrow> i \<noteq> [] \<Longrightarrow> sendable (get i)"
  by (auto simp: written_def sendable_def send_def split: edge_req.splits master_req.splits cmms_req.splits erp_req.splits)

lemma get_of_removed: "removed req = Some get \<Longrightarrow> sendable req \<Longrightarrow> sendable get"
  by (auto simp: removed_def sendable_def send_def split: edge_req.splits master_req.splits erp_req.splits)

lemma http_success:
  assumes "edge_http x (request_of (ctx_wire x) h req) s = ((code, v), s')" "code < 400" "wire_text (ctx_wire x)" "sendable req"
    "written req = Some get \<or> removed req = Some g"
  shows "serve x h req s = (Inr (code, v), s')"
proof -
  obtain r where r: "serve x h req s = (r, s')" "answer_of r = (code, v)"
    using assms(1) edge_http_sent [OF assms(3, 4), of h s] by (cases "serve x h req s") auto
  show ?thesis
  proof (cases r)
    case (Inl e)
    with r resource_fails [OF assms(5), of x h] have "400 \<le> err_status e" by (auto simp: fails_def)
    with r Inl assms(2) show ?thesis by (simp add: answer_of_def)
  qed (use r in \<open>simp add: answer_of_def\<close>)
qed

lemma served_user:
  assumes "serve x h req s = (Inr a, s')" "\<not> is_open req"
  obtains u where "authenticate (ctx_crypto x) (ctx_auth x) (ctx_now x) h = Inr u"
proof (cases "authenticate (ctx_crypto x) (ctx_auth x) (ctx_now x) h")
  case (Inl e)
  then show ?thesis using serve_unknown [OF Inl assms(2), of s] assms(1) by simp
qed (rule that)

lemma not_login: "written req = Some get \<Longrightarrow> \<not> is_open req" "removed req = Some rd \<Longrightarrow> \<not> is_open req"
  by (auto simp: written_def removed_def is_open_def split: edge_req.splits)

text \<open>
  C14. Reading after writing, over HTTP.  When a request that creates or changes a site, an area, a work center, a part,
  a planning-system connection or a maintenance order succeeds, its body names an identifier, and a read of that identifier by any user
  who may read it answers 200 with the same body.  When a deletion succeeds, a read of what it removed answers 404
  with the error envelope.
\<close>

theorem read_after_write:
  assumes "edge_http x (request_of (ctx_wire x) h req) s = ((code, v), s')" "code < 400" "sendable req"
    "wire_text (ctx_wire x)" "ctx_wire y = ctx_wire x" "authenticate (ctx_crypto y) (ctx_auth y) (ctx_now y) h' = Inr u"
  shows "(\<forall>get. written req = Some get \<longrightarrow> (\<forall>i. permitted u (get i)) \<longrightarrow>
        (\<exists>b i. v = Some b \<and> json_get b ''id'' = Some (JStr i) \<and>
          (i \<noteq> [] \<longrightarrow> edge_http y (request_of (ctx_wire y) h' (get i)) s' = ((200, v), s')))) \<and>
    (\<forall>get. removed req = Some get \<longrightarrow> permitted u get \<longrightarrow>
        edge_http y (request_of (ctx_wire y) h' get) s' = ((404, Some (api_error_to_json (repo_err NotFound))), s'))"
proof (intro conjI allI impI)
  have tw: "wire_text (ctx_wire y)" using assms(4, 5) by simp
  fix get
  assume get: "written req = Some get" "\<forall>i. permitted u (get i)"
  then have run: "serve x h req s = (Inr (code, v), s')" using http_success assms by blast
  obtain w where "authenticate (ctx_crypto x) (ctx_auth x) (ctx_now x) h = Inr w"
    using served_user [OF run not_login(1) [OF get(1)]] .
  with serve_written [OF run get(1) assms(5) _ assms(6) get(2)] obtain b i where
    b: "v = Some b" "json_get b ''id'' = Some (JStr i)" "serve y h' (get i) s' = (Inr (200, Some b), s')"
    by (auto simp: readable_def)
  have "edge_http y (request_of (ctx_wire y) h' (get i)) s' = ((200, v), s')" if "i \<noteq> []"
    by (simp add: edge_http_sent [OF tw get_sendable [OF get(1) that]] b answer_of_def)
  with b show "\<exists>b i. v = Some b \<and> json_get b ''id'' = Some (JStr i) \<and>
      (i \<noteq> [] \<longrightarrow> edge_http y (request_of (ctx_wire y) h' (get i)) s' = ((200, v), s'))" by blast
next
  have tw: "wire_text (ctx_wire y)" using assms(4, 5) by simp
  fix get
  assume get: "removed req = Some get" "permitted u get"
  then have run: "serve x h req s = (Inr (code, v), s')" using http_success assms by blast
  obtain w where "authenticate (ctx_crypto x) (ctx_auth x) (ctx_now x) h = Inr w"
    using served_user [OF run not_login(2) [OF get(1)]] .
  with serve_removed [OF run get(1) assms(5) _ assms(6) get(2)] have "serve y h' get s' = (Inl (repo_err NotFound), s')" by blast
  then show "edge_http y (request_of (ctx_wire y) h' get) s' = ((404, Some (api_error_to_json (repo_err NotFound))), s')"
    by (simp add: edge_http_sent [OF tw get_of_removed [OF get(1) assms(3)]] answer_of_def repo_err_def)
qed

definition rest_context :: app_context where
  "rest_context = sample_context\<lparr>ctx_wire := text_wire, ctx_ids := (\<lambda>n. ''N'' @ replicate n CHR ''x'')\<rparr>"

theorem read_after_write_witness:
  "\<exists>b s'. edge_http rest_context (request_of text_wire (Some ''Bearer token'') (MasterReq (CreatePart ''P-9'' ''Nut'' None))) sample_erp =
      ((201, Some b), s') \<and>
    edge_http rest_context (request_of text_wire (Some ''Bearer token'') (MasterReq (GetPart ''N''))) s' = ((200, Some b), s')"
proof -
  let ?h = "Some ''Bearer token''" and ?req = "MasterReq (CreatePart ''P-9'' ''Nut'' None)"
  let ?b = "part_to_json text_wire \<lparr>pt_id = ''N'', pt_code = ''P-9'', pt_name = ''Nut'', pt_uom = ''ea'', pt_created_at = 5000000, pt_updated_at = 5000000\<rparr>"
  let ?u = "\<lparr>user_id = ''U1'', role = ''Planner''\<rparr>"
  have wire: "ctx_wire rest_context = text_wire" by (simp add: rest_context_def)
  have user: "authenticate (ctx_crypto rest_context) (ctx_auth rest_context) (ctx_now rest_context) ?h = Inr ?u"
    by (simp add: authenticate_def auth_user_from_request_def strip_prefix_def decode_token_def unix_seconds_def rest_context_def
      sample_context_def sample_crypto_def)
  have sent: "sendable ?req" by (simp add: sendable_def send_def)
  have "\<exists>s'. serve rest_context ?h ?req sample_erp = (Inr (201, Some ?b), s')"
    by (simp add: serve_simps user) (simp add: coded_def create_part_handler_def create_part_def prog_simps can_write_master_def
      unwrap_or_def Let_def rest_context_def sample_context_def sample_erp_defs table_simps)
  then obtain s' where "serve rest_context ?h ?req sample_erp = (Inr (201, Some ?b), s')" ..
  then have run: "edge_http rest_context (request_of (ctx_wire rest_context) ?h ?req) sample_erp = ((201, Some ?b), s')"
    using edge_http_sent [of rest_context ?req ?h sample_erp] sent text_wire_text by (simp add: wire answer_of_def)
  from read_after_write [OF run _ sent _ refl user] text_wire_text
  have "edge_http rest_context (request_of text_wire ?h (MasterReq (GetPart ''N''))) s' = ((200, Some ?b), s')"
    by (simp add: wire written_def permitted_def reserved_def part_to_json_def json_object_get)
  with run show ?thesis by (auto simp: wire)
qed

end
