(* ===== verification/CloudApi.thy ===== *)
theory CloudApi
  imports Agent Api
begin

text \<open>
  The HTTP surface of the cloud service (\<^verbatim>\<open>mes-cloud\<close>): the probes, the routes below \<^verbatim>\<open>/v1/sync\<close> and the
  two doors of the assistant, with the data types of \<^verbatim>\<open>mes-client/src/sync.rs\<close> and \<^verbatim>\<open>copilot.rs\<close> as they are on
  the wire.  All extractors come before the handler's own check of the token.
\<close>

section \<open>Answers\<close>

definition org_to_json :: "wire \<Rightarrow> org_row \<Rightarrow> json" where
  "org_to_json w r =
     json_object [(''id'', JStr (og_id r)), (''code'', JStr (og_code r)), (''name'', JStr (og_name r)),
       (''created_at'', ts_to_json w (og_created_at r))]"

definition plant_enrollment_to_json :: "string \<Rightarrow> string \<Rightarrow> string \<Rightarrow> string \<times> string \<Rightarrow> json" where
  "plant_enrollment_to_json org_id code name =
     (\<lambda>(i, token). json_object [(''id'', JStr i), (''org_id'', JStr org_id), (''code'', JStr code), (''name'', JStr name),
        (''token'', JStr token)])"

definition plant_summary_to_json :: "wire \<Rightarrow> plant_summary \<Rightarrow> json" where
  "plant_summary_to_json w r =
     json_object [(''id'', JStr (psm_id r)), (''org_id'', JStr (psm_org_id r)), (''code'', JStr (psm_code r)),
       (''name'', JStr (psm_name r)), (''enrolled'', JBool (psm_enrolled r)),
       (''last_sync_at'', opt_json (ts_to_json w) (psm_last_sync_at r))]"

definition push_response_to_json :: "nat \<times> nat \<Rightarrow> json" where
  "push_response_to_json =
     (\<lambda>(applied, skipped). json_object [(''applied'', json_of_count applied), (''skipped'', json_of_count skipped)])"

definition copilot_response_to_json :: "copilot_response \<Rightarrow> json" where
  "copilot_response_to_json r =
     json_object [(''reply'', JStr (rs_reply r)), (''tool_calls'', tool_calls_json (rs_tool_calls r))]"

section \<open>Requests\<close>

datatype cloud_req = Healthz | Readyz | OpenApiJson
  | CreateOrg string string
  | EnrollPlant string string string
  | ListPlants
  | RemoteWorkOrder string string string rat "int option"
  | PushBatch string "sync_entry list"
  | PullCommands string "int option"
  | AckCommands string "string list"
  | AskCopilot string
  | CallMcp json

definition coded_input_to_json :: "string \<Rightarrow> string \<Rightarrow> json" where
  "coded_input_to_json code name = json_object [(''code'', JStr code), (''name'', JStr name)]"

definition coded_input_of_json :: "(string \<Rightarrow> string \<Rightarrow> 'r) \<Rightarrow> json \<Rightarrow> 'r option" where
  "coded_input_of_json c = derived [''code'', ''name''] (take2 c (need json_as_str ''code'') (need json_as_str ''name''))"

definition remote_input_to_json :: "wire \<Rightarrow> string \<Rightarrow> string \<Rightarrow> rat \<Rightarrow> int option \<Rightarrow> json" where
  "remote_input_to_json w number part qty priority =
     json_object [(''wo_number'', JStr number), (''part_id'', JStr part), (''qty_ordered'', dec_to_json w qty),
       (''priority'', opt_json json_of_i32 priority)]"

definition remote_input_of_json :: "wire \<Rightarrow> (string \<Rightarrow> string \<Rightarrow> rat \<Rightarrow> int option \<Rightarrow> 'r) \<Rightarrow> json \<Rightarrow> 'r option" where
  "remote_input_of_json w c =
     derived [''wo_number'', ''part_id'', ''qty_ordered'', ''priority'']
       (take4 c (need json_as_str ''wo_number'') (need json_as_str ''part_id'') (need (dec_of_json w) ''qty_ordered'')
          (may (i32_of_json w) ''priority''))"

definition sync_entry_to_json :: "sync_entry \<Rightarrow> json" where
  "sync_entry_to_json e =
     json_object [(''id'', JStr (en_id e)), (''aggregate'', JStr (en_aggregate e)), (''entity_id'', JStr (en_entity_id e)),
       (''op'', JStr (en_op e)), (''payload'', en_payload e)]"

definition sync_entry_of_json :: "json \<Rightarrow> sync_entry option" where
  "sync_entry_of_json =
     derived [''id'', ''aggregate'', ''entity_id'', ''op'', ''payload'']
       (take5 sync_entry.make (need json_as_str ''id'') (need json_as_str ''aggregate'') (need json_as_str ''entity_id'')
          (need json_as_str ''op'') (need Some ''payload''))"

definition push_request_to_json :: "string \<Rightarrow> sync_entry list \<Rightarrow> json" where
  "push_request_to_json plant_id entries =
     json_object [(''plant_id'', JStr plant_id), (''entries'', list_to_json sync_entry_to_json entries)]"

definition push_request_of_json :: "json \<Rightarrow> cloud_req option" where
  "push_request_of_json =
     derived [''plant_id'', ''entries'']
       (take2 PushBatch (need json_as_str ''plant_id'') (need (list_of_json sync_entry_of_json) ''entries''))"

definition pull_response_to_json :: "sync_entry list \<Rightarrow> json" where
  "pull_response_to_json entries = json_object [(''entries'', list_to_json sync_entry_to_json entries)]"

definition pull_response_of_json :: "json \<Rightarrow> sync_entry list option" where
  "pull_response_of_json = derived [''entries''] (take1 id (need (list_of_json sync_entry_of_json) ''entries''))"

definition ack_request_to_json :: "string \<Rightarrow> string list \<Rightarrow> json" where
  "ack_request_to_json plant_id ids = json_object [(''plant_id'', JStr plant_id), (''ids'', list_to_json JStr ids)]"

definition ack_request_of_json :: "json \<Rightarrow> cloud_req option" where
  "ack_request_of_json =
     derived [''plant_id'', ''ids''] (take2 AckCommands (need json_as_str ''plant_id'') (need (list_of_json json_as_str) ''ids''))"

definition copilot_request_to_json :: "string \<Rightarrow> json" where
  "copilot_request_to_json msg = json_object [(''message'', JStr msg)]"

definition copilot_request_of_json :: "json \<Rightarrow> cloud_req option" where
  "copilot_request_of_json = derived [''message''] (take1 AskCopilot (need json_as_str ''message''))"

text \<open>The query of a pull; an integer that does not parse is refused.\<close>

definition query_i64 :: "string \<Rightarrow> query \<Rightarrow> int option option" where
  "query_i64 k q =
     Option.bind (query_may k q) (\<lambda>t. case t of None \<Rightarrow> Some None | Some t \<Rightarrow> map_option Some (parse_i64 t))"

definition pull_query :: "query \<Rightarrow> cloud_req option" where
  "pull_query q = Option.bind (query_need ''plant_id'' q) (\<lambda>p. map_option (PullCommands p) (query_i64 ''limit'' q))"

section \<open>Routes\<close>

definition sync_table :: "wire \<Rightarrow> cloud_req route list" where
  "sync_table w =
     [([Lit ''orgs''],
        [(POST, body NoAuth (\<lambda>ps. coded_input_of_json CreateOrg))]),
      ([Lit ''orgs'', Par, Lit ''plants''],
        [(POST, body NoAuth (\<lambda>ps. coded_input_of_json (EnrollPlant (ps ! 0))))]),
      ([Lit ''plants''],
        [(GET, plain NoAuth (\<lambda>ps. ListPlants))]),
      ([Lit ''plants'', Par, Lit ''work-orders''],
        [(POST, body NoAuth (\<lambda>ps. remote_input_of_json w (RemoteWorkOrder (ps ! 0))))]),
      ([Lit ''push''],
        [(POST, body NoAuth (\<lambda>ps. push_request_of_json))]),
      ([Lit ''pull''],
        [(GET, queried NoAuth pull_query)]),
      ([Lit ''ack''],
        [(POST, body NoAuth (\<lambda>ps. ack_request_of_json))])]"

definition agent_table :: "cloud_req route list" where
  "agent_table =
     [([Lit ''v1'', Lit ''copilot''],
        [(POST, body NoAuth (\<lambda>ps. copilot_request_of_json))]),
      ([Lit ''mcp''],
        [(POST, body NoAuth (\<lambda>ps. Some \<circ> CallMcp))])]"

definition nest :: "string list \<Rightarrow> 'r route list \<Rightarrow> 'r route list" where
  "nest prefix t = map (\<lambda>(p, ms). (map Lit prefix @ p, ms)) t"

definition cloud_table :: "wire \<Rightarrow> cloud_req route list" where
  "cloud_table w =
     [([Lit ''healthz''], [(GET, plain NoAuth (\<lambda>ps. Healthz))]),
      ([Lit ''readyz''], [(GET, plain NoAuth (\<lambda>ps. Readyz))]),
      ([Lit ''api-doc'', Lit ''openapi.json''], [(GET, plain NoAuth (\<lambda>ps. OpenApiJson))])] @
     nest [''v1'', ''sync''] (sync_table w) @ agent_table"

text \<open>What the process brings: readers and writers, hash, model, version, clock, identifiers, the database's probe, the generated document.\<close>

record cloud_context =
  cc_wire :: wire
  cc_show :: "json \<Rightarrow> string"
  cc_sha :: "string \<Rightarrow> nat list"
  cc_backend :: llm_backend
  cc_version :: string
  cc_now :: timestamp
  cc_ids :: "nat \<Rightarrow> string"
  cc_db_up :: bool
  cc_openapi :: json

fun cloud_serve :: "cloud_context \<Rightarrow> string option \<Rightarrow> cloud_req \<Rightarrow> ('s agent_db_scheme, api_err, answer) prog" where
  "cloud_serve x h Healthz = ok health_to_json (ret (healthz ''mes-cloud'' (cc_version x)))"
| "cloud_serve x h Readyz = coded health_to_json (ready_probe ''mes-cloud'' (cc_version x) (cc_db_up x))"
| "cloud_serve x h OpenApiJson = ok id (ret (cc_openapi x))"
| "cloud_serve x h (CreateOrg code name) =
     coded (org_to_json (cc_wire x)) (create_org_handler (cc_ids x 0) (cc_now x) h code name)"
| "cloud_serve x h (EnrollPlant org code name) =
     coded (plant_enrollment_to_json org code name)
       (enroll_plant_handler (cc_sha x) (cc_ids x 0) (cc_ids x 1) (cc_now x) h org code name)"
| "cloud_serve x h ListPlants = ok (list_to_json (plant_summary_to_json (cc_wire x))) list_plants_handler"
| "cloud_serve x h (RemoteWorkOrder p number part qty priority) =
     coded (\<lambda>wo. json_object [(''work_order_id'', JStr wo)])
       (remote_work_order (cc_wire x) (cc_ids x 0) (cc_ids x 1) (cc_now x) h p number part qty priority)"
| "cloud_serve x h (PushBatch p entries) = ok push_response_to_json (push (cc_wire x) (cc_sha x) (cc_now x) h p entries)"
| "cloud_serve x h (PullCommands p limit) = ok pull_response_to_json (pull (cc_sha x) h p limit)"
| "cloud_serve x h (AckCommands p ids) = status_only (ack (cc_sha x) (cc_now x) h p ids)"
| "cloud_serve x h (AskCopilot msg) =
     ok copilot_response_to_json
       (copilot (cc_wire x) (cc_show x) (cc_sha x) (cc_backend x) (cc_ids x 0) (cc_ids x 1) (cc_now x) h msg)"
| "cloud_serve x h (CallMcp v) = ok id (mcp (cc_wire x) (cc_show x) (cc_sha x) (cc_version x) h v)"

definition cloud_http :: "cloud_context \<Rightarrow> http_request \<Rightarrow> 's agent_db_scheme \<Rightarrow> answer \<times> 's agent_db_scheme" where
  "cloud_http x rq s =
     (case select_route (cloud_table (cc_wire x)) (rq_path rq) rq of
        Inr (_, Inr req) \<Rightarrow> (case cloud_serve x (rq_header rq) req s of (r, s') \<Rightarrow> (answer_of r, s'))
      | Inr (_, Inl code) \<Rightarrow> ((code, None), s)
      | Inl code \<Rightarrow> ((code, None), s))"

section \<open>What clients send\<close>

definition i64_text :: "int \<Rightarrow> string" where
  "i64_text n = (if n < 0 then CHR ''-'' # digits (nat (- n)) else digits (nat n))"

fun cloud_send :: "wire \<Rightarrow> cloud_req \<Rightarrow> sent" where
  "cloud_send w Healthz = (GET, [''healthz''], [], JNull)"
| "cloud_send w Readyz = (GET, [''readyz''], [], JNull)"
| "cloud_send w OpenApiJson = (GET, [''api-doc'', ''openapi.json''], [], JNull)"
| "cloud_send w (CreateOrg code name) = (POST, [''v1'', ''sync'', ''orgs''], [], coded_input_to_json code name)"
| "cloud_send w (EnrollPlant org code name) =
     (POST, [''v1'', ''sync'', ''orgs'', org, ''plants''], [], coded_input_to_json code name)"
| "cloud_send w ListPlants = (GET, [''v1'', ''sync'', ''plants''], [], JNull)"
| "cloud_send w (RemoteWorkOrder p number part qty priority) =
     (POST, [''v1'', ''sync'', ''plants'', p, ''work-orders''], [], remote_input_to_json w number part qty priority)"
| "cloud_send w (PushBatch p entries) = (POST, [''v1'', ''sync'', ''push''], [], push_request_to_json p entries)"
| "cloud_send w (PullCommands p limit) =
     (GET, [''v1'', ''sync'', ''pull''],
      (''plant_id'', p) # (case limit of None \<Rightarrow> [] | Some n \<Rightarrow> [(''limit'', i64_text n)]), JNull)"
| "cloud_send w (AckCommands p ids) = (POST, [''v1'', ''sync'', ''ack''], [], ack_request_to_json p ids)"
| "cloud_send w (AskCopilot msg) = (POST, [''v1'', ''copilot''], [], copilot_request_to_json msg)"
| "cloud_send w (CallMcp v) = (POST, [''mcp''], [], v)"

definition cloud_request :: "wire \<Rightarrow> string option \<Rightarrow> cloud_req \<Rightarrow> http_request" where
  "cloud_request w header req =
     (case cloud_send w req of (m, path, q, v) \<Rightarrow>
        \<lparr>rq_method = m, rq_path = path, rq_query = q, rq_header = header, rq_body = v, rq_upgrade = None\<rparr>)"

fun cloud_sendable :: "cloud_req \<Rightarrow> bool" where
  "cloud_sendable (EnrollPlant org code name) = (org \<noteq> [])"
| "cloud_sendable (RemoteWorkOrder p number part qty priority) = (p \<noteq> [] \<and> (\<forall>n\<in>set_option priority. in_i32 n))"
| "cloud_sendable (PullCommands p limit) = (\<forall>n\<in>set_option limit. - (2 ^ 63) \<le> n \<and> n < 2 ^ 63)"
| "cloud_sendable _ = True"

section \<open>Every endpoint is reached\<close>

lemma i64_text_parsed: "- (2 ^ 63) \<le> n \<Longrightarrow> n < 2 ^ 63 \<Longrightarrow> parse_i64 (i64_text n) = Some n"
proof -
  assume n: "- (2 ^ 63) \<le> n" "n < 2 ^ 63"
  then have "nat (- n) \<le> 2 ^ 63" "\<not> n < 0 \<Longrightarrow> nat n < 2 ^ 63" by (simp_all add: nat_le_iff nat_less_iff)
  then show ?thesis
    by (auto simp: i64_text_def parse_digits) (simp add: parse_i64_def read_number_def digits_unsigned read_digits_digits)
qed

lemma sync_entry_codec: "sync_entry_of_json (sync_entry_to_json e) = Some e"
  by (simp add: sync_entry_of_json_def sync_entry_to_json_def takes wire_simps sync_entry.make_def)

lemma list_codec: "(\<And>y. f (g y) = Some y) \<Longrightarrow> list_of_json f (list_to_json g ys) = Some ys"
  by (simp add: list_of_json_def list_to_json_def all_some_map)

text \<open>An entry survives the way from the outbox of one service to the feed of the other.\<close>

lemma feed_codecs:
  "push_request_of_json (push_request_to_json p es) = Some (PushBatch p es)"
  "pull_response_of_json (pull_response_to_json es) = Some es"
  by (simp_all add: push_request_of_json_def push_request_to_json_def pull_response_of_json_def pull_response_to_json_def takes
      wire_simps list_codec sync_entry_codec)

lemma cloud_codecs:
  "coded_input_of_json c (coded_input_to_json code name) = Some (c code name)"
  "ack_request_of_json (ack_request_to_json p ids) = Some (AckCommands p ids)"
  "copilot_request_of_json (copilot_request_to_json msg) = Some (AskCopilot msg)"
  "wire_ok w \<Longrightarrow> \<forall>n\<in>set_option priority. in_i32 n \<Longrightarrow>
     remote_input_of_json w c' (remote_input_to_json w number part qty priority) = Some (c' number part qty priority)"
  by (simp_all add: coded_input_of_json_def coded_input_to_json_def ack_request_of_json_def ack_request_to_json_def
      copilot_request_of_json_def copilot_request_to_json_def remote_input_of_json_def remote_input_to_json_def takes wire_simps
      list_codec wire_okD opt_i32)

lemma pull_query_sent:
  "cloud_sendable (PullCommands p limit) \<Longrightarrow>
     pull_query ((''plant_id'', p) # (case limit of None \<Rightarrow> [] | Some n \<Rightarrow> [(''limit'', i64_text n)])) = Some (PullCommands p limit)"
  by (cases limit) (simp_all add: pull_query_def query_need_def query_i64_def query_simps i64_text_parsed)

lemma select_sent:
  assumes "wire_ok w" "cloud_sendable req"
  shows "select_route (cloud_table w) (rq_path (cloud_request w h req)) (cloud_request w h req) = Inr (NoAuth, Inr req)"
  using assms
  by (cases req) (simp_all add: select_route_def cloud_request_def cloud_table_def nest_def sync_table_def agent_table_def plain_def
    body_def queried_def feed_codecs cloud_codecs pull_query_sent)

lemma cloud_disjoint: "sorted_wrt (\<lambda>p q. \<not> overlap p q) (map fst (cloud_table w))"
  by (simp add: cloud_table_def nest_def sync_table_def agent_table_def)

lemma cloud_http_sent:
  assumes "wire_ok (cc_wire x)" "cloud_sendable req"
  shows "cloud_http x (cloud_request (cc_wire x) h req) s = (case cloud_serve x h req s of (r, s') \<Rightarrow> (answer_of r, s'))"
proof -
  have "rq_header (cloud_request (cc_wire x) h req) = h" by (simp add: cloud_request_def split: prod.split)
  with select_sent [OF assms] show ?thesis by (simp add: cloud_http_def)
qed

section \<open>Credentials\<close>

text \<open>
  What a request has to present: provisioning the administrator's token where one is configured, the protocol the
  token of the plant it names, the assistant the token of any plant.  Probes and the list of plants need nothing.
\<close>

definition holds_token :: "(string \<Rightarrow> nat list) \<Rightarrow> string option \<Rightarrow> plant_row \<Rightarrow> bool" where
  "holds_token sha header r \<longleftrightarrow>
     (\<exists>token. bearer header = Some token \<and> pl_enrollment_token_hash r = Some (hash_token sha token))"

definition admitted :: "(string \<Rightarrow> nat list) \<Rightarrow> string option \<Rightarrow> cloud_req \<Rightarrow> 's sync_db_scheme \<Rightarrow> bool" where
  "admitted sha header req s \<longleftrightarrow>
     (let admin = (admin_token s = None \<or> bearer header = admin_token s);
          plant = (\<lambda>p. \<exists>r. find_row pl_id p (t_plants s) = Some r \<and> holds_token sha header r)
      in case req of
           CreateOrg _ _ \<Rightarrow> admin | EnrollPlant _ _ _ \<Rightarrow> admin | RemoteWorkOrder _ _ _ _ _ \<Rightarrow> admin
         | PushBatch p _ \<Rightarrow> plant p | PullCommands p _ \<Rightarrow> plant p | AckCommands p _ \<Rightarrow> plant p
         | AskCopilot _ \<Rightarrow> (\<exists>r\<in>set (t_plants s). holds_token sha header r)
         | CallMcp _ \<Rightarrow> (\<exists>r\<in>set (t_plants s). holds_token sha header r)
         | _ \<Rightarrow> True)"

text \<open>A check that decides: it passes without effect, or answers 401.\<close>

definition decides :: "('s, api_err, 'a) prog \<Rightarrow> ('s \<Rightarrow> bool) \<Rightarrow> 's \<Rightarrow> bool" where
  "decides m P s \<longleftrightarrow> snd (m s) = s \<and> (case fst (m s) of Inr _ \<Rightarrow> P s | Inl e \<Rightarrow> err_status e = 401 \<and> \<not> P s)"

text \<open>A program that never answers 401.\<close>

definition quiet :: "('s, api_err, 'a) prog \<Rightarrow> bool" where
  "quiet m \<longleftrightarrow> (\<forall>s e s'. m s = (Inl e, s') \<longrightarrow> err_status e \<noteq> 401)"

lemma quiet_rules:
  "quiet m \<Longrightarrow> (\<And>y. quiet (f y)) \<Longrightarrow> quiet (andThen m f)" "quiet (ret v)" "quiet (gets g)" "quiet (modify h)"
  "quiet require_pool" "err_status e \<noteq> 401 \<Longrightarrow> quiet (guard b e)" "quiet (mapErr repo_err n)" "quiet (mapErr copilot_err l)"
  by (auto simp: quiet_def prog_simps require_pool_def repo_err_def copilot_err_def
      split: prod.splits sum.splits repo_error.splits copilot_error.splits)

lemma quiet_rpc: "quiet (rpc_answer w shown version org req)"
proof -
  have "quiet (call_tool w shown org req)"
    by (auto simp: quiet_def call_tool_def Let_def split: prod.splits sum.splits)
  then show ?thesis by (auto simp: rpc_answer_def Let_def intro!: quiet_rules)
qed

definition refusal :: "api_err + 'a \<Rightarrow> bool" where
  "refusal r \<longleftrightarrow> (\<exists>e. r = Inl e \<and> err_status e = 401)"

text \<open>The check decides about the whole request.\<close>

definition settles :: "('s, api_err, 'a) prog \<Rightarrow> bool \<Rightarrow> 's \<Rightarrow> bool" where
  "settles m b s \<longleftrightarrow> (refusal (fst (m s)) \<longleftrightarrow> \<not> b) \<and> (b \<or> snd (m s) = s)"

lemma settles_andThen: "decides m P s \<Longrightarrow> (\<And>y. quiet (f y)) \<Longrightarrow> settles (andThen m f) (P s) s"
  by (auto simp: settles_def decides_def quiet_def refusal_def andThen_eval split: prod.splits sum.splits) (metis prod.collapse)+

lemma settles_answer:
  "settles (ok enc m) b s = settles m b s" "settles (coded enc c) b s = settles c b s" "settles (status_only n) b s = settles n b s"
  by (auto simp: settles_def refusal_def ok_def coded_def status_only_def prog_simps split: prod.splits sum.splits)

lemma gates_decide:
  "decides (require_admin h) (\<lambda>s. admin_token s = None \<or> bearer h = admin_token s) s"
  "has_pool s \<Longrightarrow> decides (require_plant sha h p) (\<lambda>s. \<exists>r. find_row pl_id p (t_plants s) = Some r \<and> holds_token sha h r) s"
  "has_pool s \<Longrightarrow> decides (resolve_scope sha h) (\<lambda>s. \<exists>r\<in>set (t_plants s). holds_token sha h r) s"
  subgoal by (auto simp: decides_def require_admin_def prog_simps split: option.split)
  subgoal
    by (cases "bearer h"; cases "find_row pl_id p (t_plants s)")
      (auto simp: decides_def require_plant_def verify_plant_token_def holds_token_def prog_simps split: option.split)
  subgoal
  proof (cases "bearer h")
    case (Some token)
    assume "has_pool s"
    then show ?thesis
      using Some find_row_None_iff [of pl_enrollment_token_hash "Some (hash_token sha token)" "t_plants s"]
      by (cases "find_row pl_enrollment_token_hash (Some (hash_token sha token)) (t_plants s)")
        (auto simp: decides_def resolve_scope_def resolve_tenant_by_token_def holds_token_def prog_simps has_key_def image_iff dest: find_row_SomeD)
  qed (simp add: decides_def resolve_scope_def holds_token_def prog_simps)
  done

lemmas admin_settles = settles_andThen [OF gates_decide(1)]
lemmas plant_settles = settles_andThen [OF gates_decide(2)]
lemmas tenant_settles = settles_andThen [OF gates_decide(3)]

lemma open_settles: "quiet m \<Longrightarrow> settles m True s"
  by (cases "m s") (auto simp: settles_def quiet_def refusal_def)

lemma cloud_admission:
  assumes "has_pool s"
  shows "settles (cloud_serve x h req) (admitted (cc_sha x) h req s) s"
proof (cases req)
  case Healthz
  then show ?thesis by (simp add: settles_answer admitted_def open_settles quiet_rules)
next
  case Readyz
  then show ?thesis by (simp add: settles_answer admitted_def ready_probe_def open_settles quiet_rules)
next
  case OpenApiJson
  then show ?thesis by (simp add: settles_answer admitted_def open_settles quiet_rules)
next
  case ListPlants
  then show ?thesis by (simp add: settles_answer admitted_def list_plants_handler_def open_settles quiet_rules)
next
  case (PullCommands p limit)
  with assms show ?thesis
    by (simp add: settles_answer admitted_def pull_def) (intro plant_settles quiet_rules; simp)
qed (use assms in \<open>simp add: settles_answer admitted_def create_org_handler_def enroll_plant_handler_def remote_work_order_def push_def
  ack_def copilot_def mcp_def, (intro admin_settles plant_settles tenant_settles quiet_rules quiet_rpc; simp)\<close>)+

lemma answered_state: "snd (ok enc m s) = snd (m s)" "snd (coded enc c s) = snd (c s)" "snd (status_only n s) = snd (n s)"
  by (simp_all add: ok_def coded_def status_only_def prog_simps split: prod.split sum.split)

lemma pull_state: "snd (pull sha h p limit s) = s"
  by (auto simp: pull_def require_plant_def verify_plant_token_def pull_for_plant_def fetch_outbox_def prog_simps
      split: option.split sum.splits prod.splits)

definition logs_only :: "'s agent_db_scheme \<Rightarrow> 's agent_db_scheme \<Rightarrow> bool" where
  "logs_only s s' \<longleftrightarrow> (\<exists>ms. s' = s\<lparr>t_copilot_messages := t_copilot_messages s @ ms\<rparr>)"

lemma logs_same: "logs_only s s"
  unfolding logs_only_def by (rule exI [of _ "[]"]) simp

lemma cloud_serve_effect:
  "(\<exists>l. cloud_step l s (snd (cloud_serve x h req s))) \<or> logs_only s (snd (cloud_serve x h req s))"
proof (cases req)
  case (AskCopilot msg)
  then show ?thesis
    using copilot_log [of "cc_wire x" "cc_show x" "cc_sha x" "cc_backend x" "cc_ids x 0" "cc_ids x 1" "cc_now x" h msg s]
    by (auto simp: answered_state logs_only_def)
qed (auto simp: answered_state mcp_state pull_state logs_same ready_probe_def list_plants_handler_def list_plants_def require_pool_def prog_simps
  intro: cloud_step.intros)

lemma served_status: "cloud_serve x h req s = (Inr a, s') \<Longrightarrow> fst a \<noteq> 401"
  by (cases req) (auto simp: ok_def coded_def status_only_def ready_probe_def readyz_def create_org_handler_def
    enroll_plant_handler_def remote_work_order_def ack_def gets_eval elim!: andThen_InrE dest!: ret_InrD split: if_splits)

lemma status_refusal: "fst (answer_of (fst (cloud_serve x h req s))) = 401 \<longleftrightarrow> refusal (fst (cloud_serve x h req s))"
  using served_status [of x h req s]
  by (cases "cloud_serve x h req s"; cases "fst (cloud_serve x h req s)") (auto simp: answer_of_def refusal_def)

lemma cloud_http_effect: "(\<exists>l. cloud_step l s (snd (cloud_http x rq s))) \<or> logs_only s (snd (cloud_http x rq s))"
proof (cases "select_route (cloud_table (cc_wire x)) (rq_path rq) rq")
  case (Inr found)
  obtain g outcome where "found = (g, outcome)" by (cases found)
  with Inr cloud_serve_effect [of s x "rq_header rq"] show ?thesis
    by (cases outcome) (simp_all add: cloud_http_def logs_same split_beta)
qed (simp add: cloud_http_def logs_same)

section \<open>The surface\<close>

text \<open>
  C15. The cloud over HTTP.  A request built with the shared types for an operation of the cloud finds the route of that
  operation, its arguments are read back as they were, and status, body and effect are those of the operation.  It is
  answered 401 precisely when it does not present the credential of its operation, the administrator's token, the token
  of the very plant it names, or a token of some plant, and then nothing changes.  Any HTTP request at all is a step of
  the synchronisation protocol or at most adds to the copilot's log.
\<close>

theorem cloud_surface:
  assumes "wire_ok (cc_wire x)" "cloud_sendable req" "has_pool s"
  shows "cloud_http x (cloud_request (cc_wire x) h req) s = (case cloud_serve x h req s of (r, s') \<Rightarrow> (answer_of r, s')) \<and>
    (fst (fst (cloud_http x (cloud_request (cc_wire x) h req) s)) = 401 \<longleftrightarrow> \<not> admitted (cc_sha x) h req s) \<and>
    (admitted (cc_sha x) h req s \<or> snd (cloud_http x (cloud_request (cc_wire x) h req) s) = s) \<and>
    ((\<exists>l. cloud_step l s (snd (cloud_http x rq s))) \<or> logs_only s (snd (cloud_http x rq s)))"
  using cloud_admission [OF assms(3), of x h req] status_refusal [of x h req s] cloud_http_effect [of s x rq]
  by (simp add: cloud_http_sent [OF assms(1, 2)] settles_def split_beta)

text \<open>
  C16. From the shop floor to the cloud.  Let an order be created at a plant with at most 500 entries then waiting for the
  cloud, and let the cloud know its part and routing (they are not replicated; its database is provisioned with them) but
  neither the order's id nor its number, nor have the entry applied already.  Then the entry that the creation left in the plant's
  outbox is fetched, and posted alone to the cloud with a valid token of the plant it is answered 200 with one entry applied,
  after which the cloud has the same order, tagged with the plant.
\<close>

theorem order_delivered:
  assumes "wire_ok (cc_wire x)" "in_i32 (unwrap_or 100 (wi_priority i))"
    and "create_work_order (cc_wire x) ids now i e = (Inr (wo, ops), e')"
    and "length (filter (\<lambda>r. ob_destination r = None \<and> ob_synced_at r = None) (t_outbox e')) \<le> 500"
    and "has_key pt_id (wi_part_id i) (t_parts c)" "\<not> missing_ref rt_id (wi_routing_id i) (t_routings c)"
    and "\<not> has_key wo_id (wo_id wo) (t_work_orders c)" "\<not> has_key wo_number (wo_number wo) (t_work_orders c)"
      "ids (Suc (length (wi_operations i))) \<notin> applied_ids c"
    and gate: "has_pool c" "admitted (cc_sha x) h (PushBatch p []) c"
  shows "\<exists>es en c'. fetch_to_cloud 500 e' = (Inr es, e') \<and> en \<in> set es \<and> en_entity_id en = wo_id wo \<and>
    cloud_http x (cloud_request (cc_wire x) h (PushBatch p [en])) c =
      ((200, Some (json_object [(''applied'', JNum 1), (''skipped'', JNum 0)])), c') \<and>
    t_work_orders c' = t_work_orders c @
      [wo\<lparr>wo_plant_id := Some p, wo_created_at := cc_now x, wo_updated_at := cc_now x\<rparr>]"
proof -
  obtain es en c' where fetched: "fetch_to_cloud 500 e' = (Inr es, e')" "en \<in> set es" "en_entity_id en = wo_id wo"
    and applied: "apply_entry (cc_wire x) (cc_now x) en (Some p) c = (Inr True, c')"
    and stored: "t_work_orders c' = t_work_orders c @
      [wo\<lparr>wo_plant_id := Some p, wo_created_at := cc_now x, wo_updated_at := cc_now x\<rparr>]"
    using order_replicated [OF assms(1-9)] by blast
  have "require_plant (cc_sha x) h p c = (Inr (), c)"
    using gates_decide(2) [OF gate(1), of "cc_sha x" h p] gate(2)
    by (cases "require_plant (cc_sha x) h p c") (auto simp: decides_def admitted_def split: sum.splits)
  then have "cloud_serve x h (PushBatch p [en]) c =
      (Inr (200, Some (json_object [(''applied'', JNum 1), (''skipped'', JNum 0)])),
       c'\<lparr>t_plants := update_where (\<lambda>r. pl_id r = p) (pl_touch (cc_now x)) (t_plants c')\<rparr>)"
    using gate(1) by (simp add: ok_def push_def andThen_eval guard_eval require_pool_eval mapErr_eval applied MAX_BATCH_def
      ret_eval touch_plant_sync_def modify_eval push_response_to_json_def json_of_count_def)
  then show ?thesis
    using fetched stored cloud_http_sent [OF assms(1), of "PushBatch p [en]" h c] by (intro exI conjI) (assumption | simp add: answer_of_def)+
qed

text \<open>The way back: an order made at the cloud for a plant is in what the plant pulls, and applied there it is the same order.\<close>

lemma remote_payload_read:
  assumes "wire_ok w" "in_i32 (unwrap_or 100 priority)"
  shows "wo_payload_of_json w (remote_payload w wo number part qty priority) =
    Some \<lparr>wp_id = wo, wp_wo_number = number, wp_part_id = part, wp_routing_id = None, wp_qty_ordered = qty,
      wp_priority = unwrap_or 100 priority, wp_status = ''draft'', wp_planned_start = None, wp_planned_end = None\<rparr>"
  using assms by (simp add: remote_payload_def wo_payload_object wo_payload_of_members_def wire_ok_def read_default_def read_opt_def json_as_str_def)

lemma remote_order_effect:
  assumes "create_remote_work_order w nid eid now p number part qty priority c = (Inr wo, c')"
  shows "t_outbox c' = t_outbox c @ [\<lparr>ob_id = eid, ob_aggregate = ''work_order'', ob_entity_id = nid, ob_op = ''upsert'',
    ob_payload = remote_payload w nid number part qty priority, ob_destination = Some p, ob_created_at = now, ob_synced_at = None\<rparr>]"
  using assms
  by (auto simp: create_remote_work_order_def transaction_def insert_work_order_def enqueue_def
      elim!: andThen_InrE dest!: ret_InrD sql_exec_InrD modify_InrD split: prod.splits sum.splits)

lemma remote_order_delivered:
  assumes "wire_ok (cc_wire x)" "in_i32 (unwrap_or 100 priority)"
    and posted: "cloud_serve x h (RemoteWorkOrder p number part qty priority) c = (Inr a, c')"
    and gate: "has_pool c'" "admitted (cc_sha x) h' (PullCommands p None) c'"
    and few: "length (filter (\<lambda>r. ob_destination r = Some p \<and> ob_synced_at r = None) (t_outbox c')) \<le> 500"
    and edge: "has_key pt_id part (t_parts e)" "\<not> has_key wo_id (cc_ids x 0) (t_work_orders e)"
      "\<not> has_key wo_number number (t_work_orders e)" "cc_ids x 1 \<notin> applied_ids e"
  shows "\<exists>v es en e'. cloud_http x (cloud_request (cc_wire x) h' (PullCommands p None)) c' = ((200, Some v), c') \<and>
    pull_response_of_json v = Some es \<and> en \<in> set es \<and> apply_entry (cc_wire x) later en None e = (Inr True, e') \<and>
    t_work_orders e' = t_work_orders e @ [(remote_order (cc_ids x 0) later p number part qty priority)\<lparr>wo_plant_id := None\<rparr>]"
proof -
  let ?row = "\<lparr>ob_id = cc_ids x 1, ob_aggregate = ''work_order'', ob_entity_id = cc_ids x 0, ob_op = ''upsert'',
    ob_payload = remote_payload (cc_wire x) (cc_ids x 0) number part qty priority, ob_destination = Some p,
    ob_created_at = cc_now x, ob_synced_at = None\<rparr>"
  let ?es = "map entry_of_row (sort_key ob_created_at (filter (\<lambda>r. ob_destination r = Some p \<and> ob_synced_at r = None) (t_outbox c')))"
  from posted obtain wo c1 where "create_remote_work_order (cc_wire x) (cc_ids x 0) (cc_ids x 1) (cc_now x) p number part qty priority c1 = (Inr wo, c')"
    by (auto simp: coded_def remote_work_order_def elim!: andThen_InrE dest!: ret_InrD mapErr_InrD)
  from remote_order_effect [OF this] have sent: "entry_of_row ?row \<in> set ?es" by simp
  have "require_plant (cc_sha x) h' p c' = (Inr (), c')"
    using gates_decide(2) [OF gate(1), of "cc_sha x" h' p] gate(2)
    by (cases "require_plant (cc_sha x) h' p c'") (auto simp: decides_def admitted_def split: sum.splits)
  then have "cloud_serve x h' (PullCommands p None) c' = (Inr (200, Some (pull_response_to_json ?es)), c')"
    using gate(1) few by (simp add: ok_def pull_def pull_for_plant_def fetch_outbox_def andThen_eval guard_eval require_pool_eval mapErr_eval
      gets_eval ret_eval MAX_BATCH_def unwrap_or_def)
  then have pulled: "cloud_http x (cloud_request (cc_wire x) h' (PullCommands p None)) c' = ((200, Some (pull_response_to_json ?es)), c')"
    by (simp add: cloud_http_sent [OF assms(1)] answer_of_def)
  have "apply_entry (cc_wire x) later (entry_of_row ?row) None e = (Inr True,
      e\<lparr>t_applied_entries := t_applied_entries e @ [\<lparr>ap_id = ob_id ?row, ap_applied_at = later\<rparr>],
        t_work_orders := t_work_orders e @ [(remote_order (cc_ids x 0) later p number part qty priority)\<lparr>wo_plant_id := None\<rparr>]\<rparr>)"
    using edge
    by (simp add: apply_entry_def entry_of_row_def prog_simps applied_ids_def has_key_def [of ap_id] apply_work_order_def
        remote_payload_read [OF assms(1, 2)] upsert_work_order_def insert_work_order_def wo_of_payload_def remote_order_def missing_ref_def)
  with pulled sent show ?thesis
    by (intro exI [of _ "pull_response_to_json ?es"] exI [of _ ?es] exI [of _ "entry_of_row ?row"] exI conjI)
      (assumption | simp add: feed_codecs)+
qed

section \<open>Application\<close>

definition sample_cloud :: cloud_context where
  "sample_cloud =
     \<lparr>cc_wire = sample_wire, cc_show = (\<lambda>_. ''text''), cc_sha = sample_sha, cc_backend = null_backend, cc_version = ''0.1.0'',
      cc_now = 9, cc_ids = (\<lambda>n. replicate (Suc n) CHR ''y''), cc_db_up = True, cc_openapi = JNull\<rparr>"

theorem cloud_surface_witness:
  "cloud_http sample_cloud
     \<lparr>rq_method = GET, rq_path = [''v1'', ''sync'', ''pull''], rq_query = [(''plant_id'', ''PA''), (''limit'', ''7'')],
      rq_header = Some ''Bearer b'', rq_body = JNull, rq_upgrade = None\<rparr> (sample_agent ''WO-1'') =
   ((401, Some (json_object [(''error'', JStr ''unauthorized''), (''message'', JStr ''invalid plant token'')])), sample_agent ''WO-1'')"
proof -
  let ?s = "sample_agent ''WO-1''" and ?req = "PullCommands ''PA'' (Some 7)"
  have "has_pool ?s" by (simp add: sample_agent_def sample_sync_defs)
  have "hash_token sample_sha ''a'' \<noteq> hash_token sample_sha ''b''" by code_simp
  then have "\<not> admitted sample_sha (Some ''Bearer b'') ?req ?s"
    by (simp add: admitted_def holds_token_def sample_agent_def sample_sync_defs gate_simps)
  moreover have "fst (cloud_serve sample_cloud (Some ''Bearer b'') ?req ?s) = Inl (ApiErr 401 ''unauthorized'' ''invalid plant token'')"
    using \<open>hash_token sample_sha ''a'' \<noteq> hash_token sample_sha ''b''\<close>
    by (simp add: sample_cloud_def ok_def pull_def sample_agent_def sample_sync_defs gate_simps)
  moreover have "i64_text 7 = ''7''" by code_simp
  ultimately show ?thesis
    using cloud_surface [of sample_cloud ?req ?s "Some ''Bearer b''" "cloud_request sample_wire None Healthz"] sample_wire_ok \<open>has_pool ?s\<close>
    by (simp add: sample_cloud_def cloud_request_def answer_of_def api_error_to_json_def split_beta prod_eq_iff pull_state)
qed

theorem order_delivered_witness:
  "\<exists>en c' wo. cloud_http sample_cloud (cloud_request sample_wire (Some ''Bearer a'') (PushBatch ''PA'' [en])) (sample_agent ''WO-1'') =
      ((200, Some (json_object [(''applied'', JNum 1), (''skipped'', JNum 0)])), c') \<and>
     wo_number wo = ''WO-2'' \<and> wo_plant_id wo = Some ''PA'' \<and> wo \<in> set (t_work_orders c')"
proof -
  let ?ids = "\<lambda>n. replicate (Suc n) CHR ''x''" and ?c = "sample_agent ''WO-1''"
  obtain wo ops e' where run: "create_work_order sample_wire ?ids 5 sample_order_input sample_orders = (Inr (wo, ops), e')"
    and few: "length (filter (\<lambda>r. ob_destination r = None \<and> ob_synced_at r = None) (t_outbox e')) \<le> 500"
    and wo: "wo_id wo = ''x''" "wo_number wo = ''WO-2''"
    by (simp add: create_work_order_def insert_work_order_def insert_operation_def new_work_order_def
        new_operation_def enqueue_def prog_simps sample_order_input_def sample_orders_def
        table_simps missing_ref_def)
  have small: "in_i32 (unwrap_or 100 (wi_priority sample_order_input))"
    by (simp add: sample_order_input_def unwrap_or_def in_i32_def)
  have known: "has_key pt_id (wi_part_id sample_order_input) (t_parts ?c)"
    "\<not> missing_ref rt_id (wi_routing_id sample_order_input) (t_routings ?c)"
    "\<not> has_key wo_id (wo_id wo) (t_work_orders ?c)"
    "\<not> has_key wo_number (wo_number wo) (t_work_orders ?c)"
    "?ids (Suc (length (wi_operations sample_order_input))) \<notin> applied_ids ?c"
    by (simp_all add: wo sample_order_input_def sample_agent_def sample_sync_defs table_simps missing_ref_def applied_ids_def)
  have gate: "has_pool ?c" "admitted sample_sha (Some ''Bearer a'') (PushBatch ''PA'' []) ?c"
    by (simp_all add: admitted_def holds_token_def sample_agent_def sample_sync_defs gate_simps)
  from order_delivered [of sample_cloud, simplified sample_cloud_def cloud_context.simps, folded sample_cloud_def,
      OF sample_wire_ok small run few known gate]
  obtain en c' where answered: "cloud_http sample_cloud (cloud_request sample_wire (Some ''Bearer a'') (PushBatch ''PA'' [en])) ?c =
      ((200, Some (json_object [(''applied'', JNum 1), (''skipped'', JNum 0)])), c')"
    and stored: "t_work_orders c' = t_work_orders ?c @ [wo\<lparr>wo_plant_id := Some ''PA'', wo_created_at := 9, wo_updated_at := 9\<rparr>]"
    by blast
  show ?thesis
    by (intro exI [of _ en] exI [of _ c'] exI [of _ "wo\<lparr>wo_plant_id := Some ''PA'', wo_created_at := 9, wo_updated_at := 9\<rparr>"])
      (simp add: answered stored wo)
qed

end
