(* ===== verification/Spec2Isabelle.thy ===== *)
theory Spec2Isabelle
  imports MachineStates Trace Qms Ingest Cmms Dnc Sync Oee Pareto Exec Auth Master Shifts Erp Agent Diagnostics Concurrency Rest CloudApi
begin

text \<open>
  ElectronIx MES: a verification development for the manufacturing execution system under
  \<^verbatim>\<open>src/crates\<close>.

  \<^bold>\<open>The program.\<close>  A plant runs the edge service (\<^verbatim>\<open>mes-edge\<close>): axum handlers that check the
  caller's role, call a repository of \<^verbatim>\<open>mes-db\<close> (SQL on PostgreSQL), write an audit entry and publish
  an event.  Rules that need no database are in \<^verbatim>\<open>mes-core\<close> (state engine, lifecycles, OEE, quality,
  maintenance, Pareto).  Orders created at a plant are queued in an outbox that the cloud service
  (\<^verbatim>\<open>mes-cloud\<close>) applies; the cloud queues commands that plants pull.  \<^verbatim>\<open>mes-dnc-bridge\<close> talks to the
  machines' transfer daemon, \<^verbatim>\<open>mes-erp\<close> to a planning system, \<^verbatim>\<open>mes-client\<close> holds the shared data types.

  \<^bold>\<open>How the model reads.\<close>  A statement or handler is a function from the state to an outcome and the
  next state (\<open>prog\<close> of \<open>MES_Prelude\<close>); \<open>andThen\<close> is the question-mark operator and
  \<open>transaction\<close> restores the state on error.  Tables are lists of records with the source's columns; a
  statement names the constraints it can violate in the order the database checks them, and
  then its effect.  The state grows along the theories by record extension: \<open>mes_base\<close>, \<open>orders_db\<close>,
  \<open>ingest_db\<close>, \<open>cmms_db\<close>, \<open>dnc_db\<close>, \<open>trace_db\<close>, \<open>qms_db\<close>, \<open>master_db\<close>; the cloud's
  \<open>sync_db\<close> extends \<open>orders_db\<close>.  Each operation works on any extension of the state it needs, so the
  components compose without translation.  Fresh identifiers and the clock are arguments.

  \<^bold>\<open>Theories and the code they model.\<close>
  \<^item> \<open>MES_Prelude\<close>, \<open>Json\<close>, \<open>F64\<close>: programs, lists, JSON values, binary64 arithmetic.
  \<^item> \<open>MachineStates\<close>: \<^verbatim>\<open>mes-core/src/state_machine.rs\<close>.  The derived timeline tiles the window and its
    state at every instant is the one the gaps between pulses and the planned stops prescribe.
  \<^item> \<open>Lifecycles\<close>: the status enumerations of \<^verbatim>\<open>mes-core\<close> with their codecs and transition tables; the
    locale of a guarded status gives forward-only progress to every handler that uses it.
  \<^item> \<open>Database\<close>: errors, roles, extractors, audit log, outbox, events (\<^verbatim>\<open>api.rs\<close>, \<^verbatim>\<open>extract.rs\<close>,
    \<^verbatim>\<open>roles.rs\<close>, \<^verbatim>\<open>repo.rs\<close>); the locale \<open>row_update\<close> is the contract of an UPDATE by key.
  \<^item> \<open>Orders\<close>, \<open>Exec\<close>: \<^verbatim>\<open>repo_orders.rs\<close>, \<^verbatim>\<open>orders.rs\<close>, \<^verbatim>\<open>exec.rs\<close>.  Orders, counts, downtime; the books
    kept by any run of shop-floor requests.
  \<^item> \<open>Auth\<close>, \<open>Master\<close>: \<^verbatim>\<open>auth.rs\<close>, \<^verbatim>\<open>auth_routes.rs\<close>, \<^verbatim>\<open>repo.rs\<close>, \<^verbatim>\<open>master.rs\<close>.  Logins; referential
    integrity under all master-data requests, deletions with the schema's cascades included.
  \<^item> \<open>Ingest\<close>: \<^verbatim>\<open>repo_ingest.rs\<close>, \<^verbatim>\<open>ingest.rs\<close>, \<^verbatim>\<open>process.rs\<close>.  Intake with its source cache equals
    intake without; what a recomputation stores.
  \<^item> \<open>Barcode\<close>, \<open>Trace\<close>, \<open>Qms\<close>: \<^verbatim>\<open>barcode.rs\<close>, \<^verbatim>\<open>repo_trace.rs\<close>, \<^verbatim>\<open>trace.rs\<close>, \<^verbatim>\<open>repo_qms.rs\<close>,
    \<^verbatim>\<open>qms.rs\<close>.  Genealogy search, holds, inspection, nonconformance; held material is not issued.
  \<^item> \<open>Cmms\<close>: \<^verbatim>\<open>cmms.rs\<close>, \<^verbatim>\<open>repo_cmms.rs\<close>.  Maintenance orders, spare ledger, automatic reorders.
  \<^item> \<open>Dnc\<close>: \<^verbatim>\<open>mes-dnc-bridge\<close>, \<^verbatim>\<open>repo_dnc.rs\<close>, \<^verbatim>\<open>dnc.rs\<close>.  Transfers and program revisions.
  \<^item> \<open>Sync\<close>: \<^verbatim>\<open>repo_sync.rs\<close>, \<^verbatim>\<open>mes-cloud/src/sync.rs\<close>.  Replication of orders, idempotence,
    delivery of commands.
  \<^item> \<open>Oee\<close>, \<open>Shifts\<close>, \<open>Pareto\<close>: \<^verbatim>\<open>oee.rs\<close>, \<^verbatim>\<open>analytics.rs\<close>, \<^verbatim>\<open>repo_oee.rs\<close>, \<^verbatim>\<open>repo_analytics.rs\<close>.
    Both calculation paths agree bit by bit; breakdown by shift; ranking of losses.
  \<^item> \<open>Erp\<close>: \<^verbatim>\<open>mes-erp\<close>, \<^verbatim>\<open>repo_erp.rs\<close>, \<^verbatim>\<open>erp.rs\<close>.  Field mapping, stored tokens, import, export.
  \<^item> \<open>Agent\<close>: \<^verbatim>\<open>mes-agent-tools\<close>, \<^verbatim>\<open>mes-cloud/src/copilot.rs\<close>, \<^verbatim>\<open>agent.rs\<close>.  The tool loop ends; no
    answer depends on another tenant's data.
  \<^item> \<open>Diagnostics\<close>: \<^verbatim>\<open>mes-diagnostics\<close>, \<^verbatim>\<open>mes-edge/src/diagnostics.rs\<close>.  Redaction and opt-in shipping.

  \<^bold>\<open>The service as a whole.\<close>
  \<^item> \<open>Plan\<close>: an abstract production plan (orders with a status, operations with a status and totals) and the
    proof that every shop-floor request implements steps of it.
  \<^item> \<open>Edge\<close>: the router of \<^verbatim>\<open>mes-edge/src/http.rs\<close> as one step relation over all handlers that write, and
    the contract between handlers and repositories: a predicate that every repository statement keeps
    (locales \<open>floor_repo\<close>, \<open>quality_repo\<close>, \<open>cmms_repo\<close>, \<open>master_repo\<close>, \<open>erp_repo\<close>) holds over every run
    of the service.
  \<^item> \<open>Integrity\<close>, \<open>Typing\<close>, \<open>Whole\<close>: the predicates it is interpreted with.  All foreign keys among the
    tables of the edge hold and keys stay unique; stored texts stay parsable; held material stays; any run of the service is a run of the plan.
  \<^item> \<open>Concurrency\<close>: the statements and transactions that requests in flight commit, in any order; what they
    cannot break, and the checks that another request can slip behind.
  \<^item> \<open>Service\<close>: \<^verbatim>\<open>config.rs\<close>, \<^verbatim>\<open>lib.rs\<close>, \<^verbatim>\<open>http.rs\<close> and \<^verbatim>\<open>ws.rs\<close> of the services, \<^verbatim>\<open>mes-ingest/src/sim.rs\<close>.
    Start-up, probes, event stream, scripted signals; a service without a database changes nothing.

  \<^bold>\<open>The HTTP surfaces.\<close>
  \<^item> \<open>Router\<close>: every request of \<^verbatim>\<open>mes-edge/src/http.rs\<close> and what it answers, status and JSON body; who
    may do what.  The logins, the probes, the API document and the event stream at \<^verbatim>\<open>/ws\<close> take no token;
    elsewhere a caller whose role a request does not admit gets 401 or 403 and changes nothing.
  \<^item> \<open>Answers\<close>: the JSON bodies of the response types of \<^verbatim>\<open>mes-client\<close> and \<^verbatim>\<open>api.rs\<close>.
  \<^item> \<open>Wire\<close>: the JSON readers and writers of the request types, of the daemon's messages and of the
    event stream; each reader undoes its writer.
  \<^item> \<open>Api\<close>: the route tables, path and query parameters, and the order of the extractors (token, then
    role, then body); no two routes overlap, and every request that can be written to the wire is routed
    to its handler and read back as it was written.
  \<^item> \<open>Rest\<close>: a locale of a resource with writing, reading and deleting requests, interpreted on sites,
    areas, work centers, parts, maintenance orders and connections: a read after an accepted write
    answers the written body, and 404 after a deletion.
  \<^item> \<open>CloudApi\<close>: the routes of \<^verbatim>\<open>mes-cloud\<close> (\<^verbatim>\<open>http.rs\<close>, \<^verbatim>\<open>sync.rs\<close>, \<^verbatim>\<open>agent.rs\<close>) with the data types of
    \<^verbatim>\<open>mes-client/src/sync.rs\<close>; which credential admits to which request; an order travels from the outbox of
    a plant over HTTP into the cloud's tables.

  \<^bold>\<open>Numbers and bounds.\<close>  Instants are microseconds, the resolution of the database, and the instants of
  requests are taken at that resolution; the split point of a downtime event, which the code compares before it stores
  it, is in nanoseconds, as \<^verbatim>\<open>chrono\<close> has it.  Decimal columns
  are exact rationals; 32-bit columns carry their range check, and Rust casts their wrap-around.
  Doubles are rationals rounded to nearest even by the executable functions of \<open>F64\<close>.
  Recursion is structural or proved terminating, except the loop of \<open>cycle_run\<close>, which may not end and
  is a partial function; the bounds, depth 64 of the genealogy search and eight rounds of the copilot, are
  the program's own.

  \<^bold>\<open>Parameters.\<close>  Third-party code is an argument: password hashes and token signatures (record
  \<open>crypto\<close>), the cipher (\<open>aead\<close>), SHA-256, the serde text forms of numbers and instants (\<open>wire\<close>), the
  database's collation, the generated API document, and what the network answers.  Hypotheses on them state
  documented behaviour only (decoding undoes encoding, opening undoes sealing) and are instantiated by the
  witnesses.

  \<^bold>\<open>Not modelled.\<close>  Logging and signal handling of the processes; sockets and channels beyond what they
  answer; the text syntax of JSON, percent-decoding and content types, which axum and serde handle before
  the code runs, and the texts of their own refusals; the contents of the
  OpenAPI documents; the user interfaces.
  Step relations serve one request after the other; \<open>Concurrency\<close> covers interleavings at the granularity of committed statements, with transactions serialised by the database.
\<close>

end
